(* ===== verification/Prelude.thy ===== *)
theory Prelude
  imports Main "HOL-Library.AList" "HOL-Library.Char_ord" "HOL-Library.List_Lexorder"
    "HOL-Library.Sublist"
begin

text \<open>
  Shared vocabulary of the development: Python exceptions and results, the monadic
  list operations of code that may raise, ordered dictionaries, strings and JSON values.

  A Python \<open>str\<close> is an Isabelle \<open>string\<close>; a character stands for a code point below 256.
  A \<open>dict\<close> is an association list in insertion order: assigning to a present key keeps
  its position, a new key is appended (\<open>AList.update\<close>), \<open>pop\<close> is \<open>AList.delete\<close>.
  \<open>sorted\<close> is \<open>sort\<close> over the lexicographic order of strings.
\<close>

section \<open>Exceptions and results\<close>

datatype pyexn =
    ValueError string
  | KeyError string
  | TypeError string
  | StateError string
  | RuntimeError string
  | BranchfsError string
  | ControlError string
  | PermissionError string
  | FileNotFoundError string
  | FileExistsError string
  | IsADirectoryError string
  | NotADirectoryError string
  | OSError string

type_synonym 'a result = "pyexn + 'a"

named_theorems result_simps

text \<open>The subclasses of \<open>OSError\<close> among the exceptions above.\<close>

fun is_os_error :: "pyexn \<Rightarrow> bool" where
  "is_os_error (PermissionError _) = True"
| "is_os_error (FileNotFoundError _) = True"
| "is_os_error (FileExistsError _) = True"
| "is_os_error (IsADirectoryError _) = True"
| "is_os_error (NotADirectoryError _) = True"
| "is_os_error (OSError _) = True"
| "is_os_error _ = False"

text \<open>\<open>ValueError\<close> and its subclasses (\<open>WorkspaceAdmissionError\<close>, \<open>RouteStateError\<close>).\<close>

fun is_value_error :: "pyexn \<Rightarrow> bool" where
  "is_value_error (ValueError _) = True"
| "is_value_error _ = False"

text \<open>\<open>str(exc)\<close>.\<close>

fun exn_str :: "pyexn \<Rightarrow> string" where
  "exn_str (ValueError s) = s"
| "exn_str (KeyError s) = s"
| "exn_str (TypeError s) = s"
| "exn_str (StateError s) = s"
| "exn_str (RuntimeError s) = s"
| "exn_str (BranchfsError s) = s"
| "exn_str (ControlError s) = s"
| "exn_str (PermissionError s) = s"
| "exn_str (FileNotFoundError s) = s"
| "exn_str (FileExistsError s) = s"
| "exn_str (IsADirectoryError s) = s"
| "exn_str (NotADirectoryError s) = s"
| "exn_str (OSError s) = s"

text \<open>Sequencing: a raised exception skips the rest.\<close>

definition bindR :: "'a result \<Rightarrow> ('a \<Rightarrow> 'b result) \<Rightarrow> 'b result" where
  "bindR m f = (case m of Inl e \<Rightarrow> Inl e | Inr x \<Rightarrow> f x)"

lemma bindR_simps [simp, result_simps]:
  "bindR (Inl e) f = Inl e"
  "bindR (Inr x) f = f x"
  by (simp_all add: bindR_def)

lemma bindR_Inr_right [simp]: "bindR m Inr = m" "bindR m (\<lambda>x. Inr x) = m"
  by (cases m; simp)+

lemma bindR_eq_Inr [result_simps]:
  "bindR m f = Inr y \<longleftrightarrow> (\<exists>x. m = Inr x \<and> f x = Inr y)"
  by (cases m) auto

lemma bindR_eq_Inl:
  "bindR m f = Inl e \<longleftrightarrow> m = Inl e \<or> (\<exists>x. m = Inr x \<and> f x = Inl e)"
  by (cases m) auto

lemma bindR_cong [fundef_cong]:
  "m = m' \<Longrightarrow> (\<And>x. m' = Inr x \<Longrightarrow> f x = f' x) \<Longrightarrow> bindR m f = bindR m' f'"
  by (cases m') auto

definition is_ok :: "'a result \<Rightarrow> bool" where
  "is_ok r = (case r of Inl _ \<Rightarrow> False | Inr _ \<Rightarrow> True)"

lemma is_ok_simps [simp]: "\<not> is_ok (Inl e)" "is_ok (Inr x)"
  by (simp_all add: is_ok_def)

lemma is_ok_iff: "is_ok r \<longleftrightarrow> (\<exists>x. r = Inr x)"
  by (cases r) auto

text \<open>List comprehension, \<open>any\<close> and conditional comprehension over calls that may raise.\<close>

fun mapR :: "('a \<Rightarrow> 'b result) \<Rightarrow> 'a list \<Rightarrow> 'b list result" where
  "mapR f [] = Inr []"
| "mapR f (x # xs) = bindR (f x) (\<lambda>y. bindR (mapR f xs) (\<lambda>ys. Inr (y # ys)))"

fun anyR :: "('a \<Rightarrow> bool result) \<Rightarrow> 'a list \<Rightarrow> bool result" where
  "anyR f [] = Inr False"
| "anyR f (x # xs) = bindR (f x) (\<lambda>b. if b then Inr True else anyR f xs)"

fun foldR :: "('s \<Rightarrow> 'a \<Rightarrow> 's result) \<Rightarrow> 's \<Rightarrow> 'a list \<Rightarrow> 's result" where
  "foldR f s [] = Inr s"
| "foldR f s (x # xs) = bindR (f s x) (\<lambda>s'. foldR f s' xs)"

lemma mapR_cong [fundef_cong]:
  "xs = ys \<Longrightarrow> (\<And>x. x \<in> set ys \<Longrightarrow> f x = g x) \<Longrightarrow> mapR f xs = mapR g ys"
  by (induction xs arbitrary: ys) (auto cong: bindR_cong)

lemma anyR_cong [fundef_cong]:
  "xs = ys \<Longrightarrow> (\<And>x. x \<in> set ys \<Longrightarrow> f x = g x) \<Longrightarrow> anyR f xs = anyR g ys"
proof (induction xs arbitrary: ys)
  case (Cons x xs)
  then have "f x = g x" "anyR f xs = anyR g xs" by auto
  with Cons.prems show ?case by (auto cong: if_cong)
qed simp

lemma mapR_total: "(\<And>x. x \<in> set xs \<Longrightarrow> f x = Inr (g x)) \<Longrightarrow> mapR f xs = Inr (map g xs)"
  by (induction xs) auto

lemma anyR_total: "(\<And>x. x \<in> set xs \<Longrightarrow> f x = Inr (g x)) \<Longrightarrow> anyR f xs = Inr (list_ex g xs)"
  by (induction xs) auto

lemma anyR_False: "anyR f xs = Inr False \<longleftrightarrow> (\<forall>x\<in>set xs. f x = Inr False)"
  by (induction xs) (auto simp: bindR_eq_Inr split: if_splits)

lemma anyR_True: "anyR f xs = Inr True \<Longrightarrow> \<exists>x\<in>set xs. f x = Inr True"
  by (induction xs) (auto simp: bindR_eq_Inr split: if_splits)

lemma mapR_eq_Inr: "mapR f xs = Inr ys \<longleftrightarrow> list_all2 (\<lambda>x y. f x = Inr y) xs ys"
  by (induction xs arbitrary: ys) (auto simp: bindR_eq_Inr list_all2_Cons1)

lemma mapR_length: "mapR f xs = Inr ys \<Longrightarrow> length ys = length xs"
  by (auto simp: mapR_eq_Inr dest: list_all2_lengthD)

lemma foldR_append: "foldR f s (xs @ ys) = bindR (foldR f s xs) (\<lambda>s'. foldR f s' ys)"
proof (induction xs arbitrary: s)
  case (Cons x xs)
  then show ?case by (cases "f s x") simp_all
qed simp

lemma foldR_invariant:
  "foldR f s xs = Inr s' \<Longrightarrow> P s \<Longrightarrow>
   (\<And>s x s'. x \<in> set xs \<Longrightarrow> P s \<Longrightarrow> f s x = Inr s' \<Longrightarrow> P s') \<Longrightarrow> P s'"
proof (induction xs arbitrary: s)
  case (Cons x xs)
  then obtain t where "f s x = Inr t" "foldR f t xs = Inr s'"
    by (auto simp: bindR_eq_Inr)
  with Cons show ?case by (metis list.set_intros)
qed simp

section \<open>Strings\<close>

abbreviation startswith :: "'a list \<Rightarrow> 'a list \<Rightarrow> bool" where
  "startswith s p \<equiv> prefix p s"

abbreviation endswith :: "'a list \<Rightarrow> 'a list \<Rightarrow> bool" where
  "endswith s p \<equiv> suffix p s"

text \<open>\<open>str.split(c)\<close> for a one-character separator and \<open>c.join(parts)\<close>.\<close>

fun split_on :: "'a \<Rightarrow> 'a list \<Rightarrow> 'a list list" where
  "split_on c [] = [[]]"
| "split_on c (x # xs) =
     (if x = c then [] # split_on c xs
      else (case split_on c xs of [] \<Rightarrow> [[x]] | y # ys \<Rightarrow> (x # y) # ys))"

fun join_with :: "'a list \<Rightarrow> 'a list list \<Rightarrow> 'a list" where
  "join_with sep [] = []"
| "join_with sep [x] = x"
| "join_with sep (x # y # ys) = x @ sep @ join_with sep (y # ys)"

lemma split_on_not_Nil [simp]: "split_on c xs \<noteq> []"
  by (induction xs) (auto split: list.splits)

lemma split_on_no_sep: "p \<in> set (split_on c xs) \<Longrightarrow> c \<notin> set p"
proof (induction xs arbitrary: p)
  case (Cons x xs)
  show ?case
  proof (cases "split_on c xs")
    case Nil then show ?thesis by simp
  next
    case (Cons y ys)
    with Cons.prems Cons.IH [of y] Cons.IH [of p] show ?thesis
      by (auto split: if_splits)
  qed
qed simp

lemma join_split [simp]: "join_with [c] (split_on c xs) = xs"
proof (induction xs)
  case (Cons x xs)
  show ?case
  proof (cases "split_on c xs")
    case Nil then show ?thesis by simp
  next
    case (Cons y ys)
    with Cons.IH show ?thesis by (cases ys) auto
  qed
qed simp

lemma split_on_single [simp]: "c \<notin> set xs \<Longrightarrow> split_on c xs = [xs]"
  by (induction xs) auto

lemma split_on_append_sep:
  "c \<notin> set xs \<Longrightarrow> split_on c (xs @ c # ys) = xs # split_on c ys"
  by (induction xs) auto

lemma split_join:
  "xs \<noteq> [] \<Longrightarrow> (\<And>x. x \<in> set xs \<Longrightarrow> c \<notin> set x) \<Longrightarrow> split_on c (join_with [c] xs) = xs"
  by (induction "[c]" xs rule: join_with.induct) (auto simp: split_on_append_sep)

lemma join_with_Cons: "ys \<noteq> [] \<Longrightarrow> join_with sep (x # ys) = x @ sep @ join_with sep ys"
  by (cases ys) auto

lemma join_with_append:
  "xs \<noteq> [] \<Longrightarrow> ys \<noteq> [] \<Longrightarrow>
   join_with sep (xs @ ys) = join_with sep xs @ sep @ join_with sep ys"
  by (induction sep xs rule: join_with.induct) (auto simp: join_with_Cons)

text \<open>\<open>str.lstrip(c)\<close>, \<open>str.rstrip(c)\<close> and \<open>str.strip(c)\<close>.\<close>

definition lstrip :: "'a \<Rightarrow> 'a list \<Rightarrow> 'a list" where
  "lstrip c s = dropWhile ((=) c) s"

definition rstrip :: "'a \<Rightarrow> 'a list \<Rightarrow> 'a list" where
  "rstrip c s = rev (dropWhile ((=) c) (rev s))"

definition strip_char :: "'a \<Rightarrow> 'a list \<Rightarrow> 'a list" where
  "strip_char c s = rstrip c (lstrip c s)"

lemma rstrip_Nil [simp]: "rstrip c [] = []"
  by (simp add: rstrip_def)

lemma lstrip_Nil [simp]: "lstrip c [] = []"
  by (simp add: lstrip_def)

lemma rstrip_last: "s \<noteq> [] \<Longrightarrow> last s \<noteq> c \<Longrightarrow> rstrip c s = s"
  by (cases s rule: rev_cases) (auto simp: rstrip_def)

lemma lstrip_hd: "s \<noteq> [] \<Longrightarrow> hd s \<noteq> c \<Longrightarrow> lstrip c s = s"
  by (cases s) (auto simp: lstrip_def)

text \<open>\<open>str.strip()\<close> removes the white space of the code points below 256.\<close>

definition is_space :: "char \<Rightarrow> bool" where
  "is_space c = (let n = of_char c :: nat in
     (9 \<le> n \<and> n \<le> 13) \<or> (28 \<le> n \<and> n \<le> 32) \<or> n = 133 \<or> n = 160)"

definition str_strip :: "string \<Rightarrow> string" where
  "str_strip s = rev (dropWhile is_space (rev (dropWhile is_space s)))"

text \<open>\<open>str.lower()\<close> on the code points below 256.\<close>

definition lower_char :: "char \<Rightarrow> char" where
  "lower_char c = (let n = of_char c :: nat in
     if (65 \<le> n \<and> n \<le> 90) \<or> (192 \<le> n \<and> n \<le> 222 \<and> n \<noteq> 215) then char_of (n + 32) else c)"

definition str_lower :: "string \<Rightarrow> string" where
  "str_lower s = map lower_char s"

text \<open>\<open>needle in haystack\<close>.\<close>

definition str_in :: "'a list \<Rightarrow> 'a list \<Rightarrow> bool" where
  "str_in needle hay \<longleftrightarrow> sublist needle hay"

text \<open>\<open>"%d" % n\<close>.\<close>

function (sequential) digits :: "nat \<Rightarrow> string" where
  "digits n = (if n < 10 then [char_of (48 + n)] else digits (n div 10) @ [char_of (48 + n mod 10)])"
  by pat_completeness auto
termination by (relation "measure id") auto

declare digits.simps [simp del]

definition show_int :: "int \<Rightarrow> string" where
  "show_int i = (if i < 0 then ''-'' @ digits (nat (- i)) else digits (nat i))"

abbreviation show_nat :: "nat \<Rightarrow> string" where
  "show_nat n \<equiv> show_int (int n)"

section \<open>Ordered dictionaries\<close>

type_synonym ('k, 'v) dict = "('k \<times> 'v) list"

abbreviation dict_get :: "('k, 'v) dict \<Rightarrow> 'k \<Rightarrow> 'v option" where
  "dict_get d k \<equiv> map_of d k"

abbreviation dict_set :: "('k, 'v) dict \<Rightarrow> 'k \<Rightarrow> 'v \<Rightarrow> ('k, 'v) dict" where
  "dict_set d k v \<equiv> AList.update k v d"

abbreviation dict_pop :: "('k, 'v) dict \<Rightarrow> 'k \<Rightarrow> ('k, 'v) dict" where
  "dict_pop d k \<equiv> AList.delete k d"

abbreviation dict_has :: "('k, 'v) dict \<Rightarrow> 'k \<Rightarrow> bool" where
  "dict_has d k \<equiv> map_of d k \<noteq> None"

text \<open>A dictionary holds each key once.\<close>

definition dict_ok :: "('k, 'v) dict \<Rightarrow> bool" where
  "dict_ok d \<longleftrightarrow> distinct (map fst d)"

lemma dict_get_set [simp]: "dict_get (dict_set d k v) k' = (if k' = k then Some v else dict_get d k')"
  by (simp add: update_conv')

lemma dict_get_pop [simp]: "dict_get (dict_pop d k) k' = (if k' = k then None else dict_get d k')"
  by (simp add: delete_conv')

lemma dict_ok_simps [simp]:
  "dict_ok []"
  "dict_ok d \<Longrightarrow> dict_ok (dict_set d k v)"
  "dict_ok d \<Longrightarrow> dict_ok (dict_pop d k)"
  by (auto simp: dict_ok_def distinct_update delete_keys distinct_removeAll)

text \<open>\<open>sorted(d.items())\<close> for a dictionary with string keys.\<close>

definition sorted_items :: "(string, 'v) dict \<Rightarrow> (string, 'v) dict" where
  "sorted_items d = sort_key fst d"

lemma set_sorted_items [simp]: "set (sorted_items d) = set d"
  by (simp add: sorted_items_def)

text \<open>\<open>sorted(set(xs))\<close>.\<close>

definition sorted_set :: "string list \<Rightarrow> string list" where
  "sorted_set xs = sort (remdups xs)"

lemma sorted_set_props [simp]:
  "set (sorted_set xs) = set xs" "sorted (sorted_set xs)" "distinct (sorted_set xs)"
  by (simp_all add: sorted_set_def)

section \<open>JSON values\<close>

datatype json =
    JNull
  | JBool bool
  | JInt int
  | JStr string
  | JArr "json list"
  | JObj "(string \<times> json) list"

type_synonym pydict = "(string, json) dict"

text \<open>Truthiness (\<open>bool(v)\<close>).\<close>

fun truthy :: "json \<Rightarrow> bool" where
  "truthy JNull = False"
| "truthy (JBool b) = b"
| "truthy (JInt i) = (i \<noteq> 0)"
| "truthy (JStr s) = (s \<noteq> [])"
| "truthy (JArr xs) = (xs \<noteq> [])"
| "truthy (JObj d) = (d \<noteq> [])"

fun is_obj :: "json \<Rightarrow> bool" where
  "is_obj (JObj _) = True"
| "is_obj _ = False"

fun is_arr :: "json \<Rightarrow> bool" where
  "is_arr (JArr _) = True"
| "is_arr _ = False"

text \<open>\<open>d.get(k, dflt)\<close>.\<close>

definition get_default :: "pydict \<Rightarrow> string \<Rightarrow> json \<Rightarrow> json" where
  "get_default d k dflt = (case dict_get d k of None \<Rightarrow> dflt | Some v \<Rightarrow> v)"

text \<open>\<open>d[k]\<close>: a missing key raises \<open>KeyError\<close>.\<close>

definition get_item :: "(string, 'v) dict \<Rightarrow> string \<Rightarrow> 'v result" where
  "get_item d k = (case dict_get d k of None \<Rightarrow> Inl (KeyError k) | Some v \<Rightarrow> Inr v)"

text \<open>Reading a value at the type the code uses it with; other types raise \<open>TypeError\<close>.\<close>

fun as_str :: "json \<Rightarrow> string result" where
  "as_str (JStr s) = Inr s"
| "as_str _ = Inl (TypeError ''str expected'')"

fun as_list :: "json \<Rightarrow> json list result" where
  "as_list (JArr xs) = Inr xs"
| "as_list _ = Inl (TypeError ''list expected'')"

fun as_obj :: "json \<Rightarrow> pydict result" where
  "as_obj (JObj d) = Inr d"
| "as_obj _ = Inl (TypeError ''dict expected'')"

fun as_int :: "json \<Rightarrow> int result" where
  "as_int (JInt i) = Inr i"
| "as_int (JBool b) = Inr (if b then 1 else 0)"
| "as_int _ = Inl (TypeError ''int expected'')"

definition as_strs :: "json \<Rightarrow> string list result" where
  "as_strs v = bindR (as_list v) (mapR as_str)"

definition jstrs :: "string list \<Rightarrow> json" where
  "jstrs xs = JArr (map JStr xs)"

lemma mapR_as_str_map [simp]: "mapR as_str (map JStr xs) = Inr xs"
  by (induction xs) auto

lemma as_strs_jstrs [simp]: "as_strs (jstrs xs) = Inr xs"
  by (simp add: as_strs_def jstrs_def)

text \<open>\<open>==\<close> on JSON values: dictionaries compare as maps, booleans as numbers.\<close>

lemma json_size_mem: "(k, v) \<in> set d \<Longrightarrow> size v < size (JObj d)"
  by (induction d) auto

fun as_number :: "json \<Rightarrow> int option" where
  "as_number (JInt i) = Some i"
| "as_number (JBool b) = Some (if b then 1 else 0)"
| "as_number _ = None"

function (sequential) py_eq :: "json \<Rightarrow> json \<Rightarrow> bool" where
  "py_eq (JObj d) (JObj e) \<longleftrightarrow> length d = length e \<and>
     list_all (\<lambda>kv. case map_of e (fst kv) of None \<Rightarrow> False | Some w \<Rightarrow> py_eq (snd kv) w) d"
| "py_eq (JArr (x # xs)) (JArr (y # ys)) \<longleftrightarrow> py_eq x y \<and> py_eq (JArr xs) (JArr ys)"
| "py_eq (JArr []) (JArr []) \<longleftrightarrow> True"
| "py_eq JNull JNull \<longleftrightarrow> True"
| "py_eq (JStr s) (JStr t) \<longleftrightarrow> s = t"
| "py_eq u v \<longleftrightarrow> (case (as_number u, as_number v) of (Some i, Some j) \<Rightarrow> i = j | _ \<Rightarrow> False)"
  by pat_completeness auto
termination py_eq
  by (relation "measure (\<lambda>(u, v). size u)") (auto dest: json_size_mem)

fun json_ok :: "json \<Rightarrow> bool" where
  "json_ok (JObj d) \<longleftrightarrow> distinct (map fst d) \<and> (\<forall>kv\<in>set d. json_ok (snd kv))"
| "json_ok (JArr xs) \<longleftrightarrow> (\<forall>x\<in>set xs. json_ok x)"
| "json_ok _ \<longleftrightarrow> True"

lemma py_eq_refl: "json_ok u \<Longrightarrow> py_eq u u"
proof (induction u rule: json_ok.induct)
  case (1 d)
  then show ?case by (auto simp: list_all_iff)
next
  case (2 xs)
  then show ?case by (induction xs) auto
qed auto

end
