(* ===== verification/PosixPath.thy ===== *)
theory PosixPath
  imports Prelude
begin

text \<open>
  The functions of \<open>posixpath\<close> that the program calls: \<open>join\<close>, \<open>normpath\<close>, \<open>split\<close>,
  \<open>dirname\<close>, \<open>basename\<close>, \<open>abspath\<close>, \<open>relpath\<close>.  All of them are lexical.  The working
  directory of \<open>abspath\<close> is an argument.  The lemmas describe a normalised absolute path
  by its root (one or two slashes) and its list of proper components.
\<close>

section \<open>Definitions\<close>

abbreviation sep :: char where "sep \<equiv> CHR ''/''"

abbreviation pardir :: string where "pardir \<equiv> ''..''"

definition isabs :: "string \<Rightarrow> bool" where
  "isabs p \<longleftrightarrow> startswith p ''/''"

definition path_join :: "string \<Rightarrow> string \<Rightarrow> string" where
  "path_join a b =
     (if startswith b ''/'' then b
      else if a = [] \<or> endswith a ''/'' then a @ b
      else a @ ''/'' @ b)"

text \<open>The loop of \<open>normpath\<close>; the list of kept components is held reversed.\<close>

fun norm_loop :: "bool \<Rightarrow> string list \<Rightarrow> string list \<Rightarrow> string list" where
  "norm_loop rooted acc [] = rev acc"
| "norm_loop rooted acc (c # cs) =
     (if c = '''' \<or> c = ''.'' then norm_loop rooted acc cs
      else if c \<noteq> pardir \<or> (\<not> rooted \<and> acc = []) \<or> (acc \<noteq> [] \<and> hd acc = pardir)
        then norm_loop rooted (c # acc) cs
      else norm_loop rooted (tl acc) cs)"

text \<open>POSIX keeps exactly two leading slashes; one, three or more become one.\<close>

definition root_slashes :: "string \<Rightarrow> string" where
  "root_slashes p =
     (if startswith p ''//'' \<and> \<not> startswith p ''///'' then ''//''
      else if startswith p ''/'' then ''/'' else '''')"

definition norm_comps :: "string \<Rightarrow> string list" where
  "norm_comps p = norm_loop (isabs p) [] (split_on sep p)"

definition normpath :: "string \<Rightarrow> string" where
  "normpath p =
     (if p = [] then ''.''
      else let q = root_slashes p @ join_with ''/'' (norm_comps p)
           in if q = [] then ''.'' else q)"

text \<open>\<open>split\<close>: everything up to the last slash, without trailing slashes unless it is all slashes.\<close>

definition path_tail :: "string \<Rightarrow> string" where
  "path_tail p = rev (takeWhile ((\<noteq>) sep) (rev p))"

definition path_head :: "string \<Rightarrow> string" where
  "path_head p = (let h = rev (dropWhile ((\<noteq>) sep) (rev p))
     in if (\<exists>c\<in>set h. c \<noteq> sep) then rstrip sep h else h)"

definition dirname :: "string \<Rightarrow> string" where "dirname p = path_head p"

definition basename :: "string \<Rightarrow> string" where "basename p = path_tail p"

definition abspath :: "string \<Rightarrow> string \<Rightarrow> string" where
  "abspath cwd p = normpath (if isabs p then p else path_join cwd p)"

definition nonempty_parts :: "string \<Rightarrow> string list" where
  "nonempty_parts p = filter (\<lambda>c. c \<noteq> []) (split_on sep p)"

definition relpath_comps :: "string list \<Rightarrow> string list \<Rightarrow> string list" where
  "relpath_comps path start =
     (let i = length (longest_common_prefix start path)
      in replicate (length start - i) pardir @ drop i path)"

definition relpath :: "string \<Rightarrow> string \<Rightarrow> string \<Rightarrow> string result" where
  "relpath cwd p start =
     (if p = [] then Inl (ValueError ''no path specified'')
      else let rel = relpath_comps (nonempty_parts (abspath cwd p))
                                   (nonempty_parts (abspath cwd (if start = [] then ''.'' else start)))
           in Inr (if rel = [] then ''.'' else join_with ''/'' rel))"

section \<open>Normal form of absolute paths\<close>

text \<open>A proper component: not empty, not \<open>.\<close>, not \<open>..\<close>, without a slash.\<close>

definition proper :: "string \<Rightarrow> bool" where
  "proper c \<longleftrightarrow> c \<noteq> '''' \<and> c \<noteq> ''.'' \<and> c \<noteq> pardir \<and> sep \<notin> set c"

text \<open>The absolute path with root \<open>r\<close> (one or two slashes) and components \<open>cs\<close>.\<close>

definition mk_path :: "string \<Rightarrow> string list \<Rightarrow> string" where
  "mk_path r cs = r @ join_with ''/'' cs"

definition root_ok :: "string \<Rightarrow> bool" where
  "root_ok r \<longleftrightarrow> r = ''/'' \<or> r = ''//''"

lemma isabs_simps [simp]:
  "\<not> isabs []" "isabs (c # cs) \<longleftrightarrow> c = sep"
  by (auto simp: isabs_def)

lemma isabs_iff: "isabs p \<longleftrightarrow> (\<exists>q. p = sep # q)"
  by (cases p) auto

lemma isabs_append [simp]: "isabs p \<Longrightarrow> isabs (p @ q)"
  by (cases p) auto

lemma isabs_join [simp]: "isabs a \<Longrightarrow> isabs (path_join a b)"
  by (cases a) (auto simp: path_join_def isabs_def)

lemma root_slashes_ok: "isabs p \<Longrightarrow> root_ok (root_slashes p)"
  by (auto simp: root_slashes_def root_ok_def isabs_def)

lemma norm_loop_proper:
  "(\<And>c. c \<in> set acc \<Longrightarrow> proper c) \<Longrightarrow> (\<And>c. c \<in> set cs \<Longrightarrow> sep \<notin> set c) \<Longrightarrow>
   c \<in> set (norm_loop True acc cs) \<Longrightarrow> proper c"
proof (induction "True" acc cs rule: norm_loop.induct)
  case (2 acc x xs)
  have acc_tl: "\<And>c. c \<in> set (tl acc) \<Longrightarrow> proper c"
    using 2(4) by (cases acc) auto
  have hd_acc: "acc \<noteq> [] \<Longrightarrow> hd acc \<noteq> pardir"
    using 2(4) [of "hd acc"] by (auto simp: proper_def)
  have sepfree: "\<And>c. c \<in> set xs \<Longrightarrow> sep \<notin> set c" "sep \<notin> set x"
    using 2(5) by auto
  show ?case
  proof (cases "x = '''' \<or> x = ''.''")
    case True
    with 2(1) [OF True 2(4) sepfree(1)] 2(6) show ?thesis by simp
  next
    case False
    show ?thesis
    proof (cases "x = pardir")
      case True
      with False hd_acc 2(3) [OF False _ acc_tl sepfree(1)] 2(6) show ?thesis
        by (cases "acc = []") auto
    next
      case px: False
      with False sepfree(2) have "proper x" by (auto simp: proper_def)
      then have "\<And>c. c \<in> set (x # acc) \<Longrightarrow> proper c" using 2(4) by auto
      with px False 2(2) [OF False _ _ sepfree(1)] 2(6) show ?thesis by auto
    qed
  qed
qed auto

lemma norm_comps_proper: "isabs p \<Longrightarrow> c \<in> set (norm_comps p) \<Longrightarrow> proper c"
  unfolding norm_comps_def
  by (rule norm_loop_proper [where acc = "[]" and cs = "split_on sep p"])
     (auto dest: split_on_no_sep)

lemma normpath_abs: "isabs p \<Longrightarrow> normpath p = mk_path (root_slashes p) (norm_comps p)"
  by (auto simp: normpath_def mk_path_def root_slashes_def isabs_def)

lemma isabs_mk_path [simp]: "root_ok r \<Longrightarrow> isabs (mk_path r cs)"
  by (auto simp: root_ok_def mk_path_def)

lemma isabs_normpath [simp]: "isabs p \<Longrightarrow> isabs (normpath p)"
  by (simp add: normpath_abs root_slashes_ok)

lemma norm_loop_id:
  "(\<And>c. c \<in> set cs \<Longrightarrow> proper c) \<Longrightarrow> norm_loop rooted acc cs = rev acc @ cs"
  by (induction rooted acc cs rule: norm_loop.induct) (auto simp: proper_def)

lemma norm_loop_skip: "norm_loop rooted acc ('''' # cs) = norm_loop rooted acc cs"
  by simp

lemma hd_join_proper:
  "cs \<noteq> [] \<Longrightarrow> (\<And>c. c \<in> set cs \<Longrightarrow> proper c) \<Longrightarrow>
   \<exists>x xs. join_with ''/'' cs = x # xs \<and> x \<noteq> sep"
proof (cases cs)
  case (Cons c cs')
  assume "\<And>c. c \<in> set cs \<Longrightarrow> proper c"
  with Cons have "proper c" by simp
  then obtain x xs where "c = x # xs" "x \<noteq> sep" by (cases c) (auto simp: proper_def)
  with Cons show ?thesis by (cases cs') auto
qed simp

lemma split_mk_path:
  assumes "root_ok r" "\<And>c. c \<in> set cs \<Longrightarrow> proper c"
  shows "\<exists>k. split_on sep (mk_path r cs) = replicate k '''' @ (if cs = [] then [''''] else cs)"
proof (cases "cs = []")
  case True
  with assms(1) show ?thesis
    by (auto simp: root_ok_def mk_path_def intro: exI [of _ 1] exI [of _ 2] simp: numeral_2_eq_2)
next
  case False
  have "split_on sep (join_with ''/'' cs) = cs"
    using split_join [of cs sep] False assms(2) by (auto simp: proper_def)
  with assms(1) False show ?thesis
    by (auto simp: root_ok_def mk_path_def intro: exI [of _ 1] exI [of _ 2] simp: numeral_2_eq_2)
qed

lemma norm_loop_replicate: "norm_loop rooted acc (replicate k '''' @ cs) = norm_loop rooted acc cs"
  by (induction k) auto

lemma norm_comps_mk_path:
  assumes "root_ok r" "\<And>c. c \<in> set cs \<Longrightarrow> proper c"
  shows "norm_comps (mk_path r cs) = cs"
proof -
  obtain k where "split_on sep (mk_path r cs) = replicate k '''' @ (if cs = [] then [''''] else cs)"
    using split_mk_path [OF assms] by blast
  then show ?thesis
    using assms by (auto simp: norm_comps_def norm_loop_replicate norm_loop_id)
qed

lemma root_slashes_mk_path:
  assumes "root_ok r" "\<And>c. c \<in> set cs \<Longrightarrow> proper c"
  shows "root_slashes (mk_path r cs) = r"
proof (cases "cs = []")
  case True
  with assms(1) show ?thesis by (auto simp: root_ok_def mk_path_def root_slashes_def)
next
  case False
  then obtain x xs where "join_with ''/'' cs = x # xs" "x \<noteq> sep"
    using hd_join_proper [of cs] assms(2) by blast
  with assms(1) show ?thesis by (auto simp: root_ok_def mk_path_def root_slashes_def)
qed

lemma normpath_mk_path:
  assumes "root_ok r" "\<And>c. c \<in> set cs \<Longrightarrow> proper c"
  shows "normpath (mk_path r cs) = mk_path r cs"
  using assms by (simp add: normpath_abs norm_comps_mk_path root_slashes_mk_path)

lemma norm_comps_normpath [simp]: "isabs p \<Longrightarrow> norm_comps (normpath p) = norm_comps p"
  by (simp add: normpath_abs norm_comps_mk_path root_slashes_ok norm_comps_proper)

lemma root_slashes_normpath [simp]: "isabs p \<Longrightarrow> root_slashes (normpath p) = root_slashes p"
  by (simp add: normpath_abs root_slashes_mk_path root_slashes_ok norm_comps_proper)

lemma normpath_idem [simp]: "isabs p \<Longrightarrow> normpath (normpath p) = normpath p"
  by (simp add: normpath_abs [of p] normpath_mk_path root_slashes_ok norm_comps_proper)

lemma join_proper_Nil:
  "(\<And>c. c \<in> set cs \<Longrightarrow> proper c) \<Longrightarrow> join_with ''/'' cs = [] \<longleftrightarrow> cs = []"
  using hd_join_proper [of cs] by (cases "cs = []") auto

lemma split_join_proper:
  "cs \<noteq> [] \<Longrightarrow> (\<And>c. c \<in> set cs \<Longrightarrow> proper c) \<Longrightarrow> split_on sep (join_with ''/'' cs) = cs"
  by (rule split_join) (auto simp: proper_def)

lemma join_with_inj:
  assumes "\<And>c. c \<in> set xs \<Longrightarrow> proper c" "\<And>c. c \<in> set ys \<Longrightarrow> proper c"
    and "join_with ''/'' xs = join_with ''/'' ys"
  shows "xs = ys"
proof (cases "xs = []")
  case True
  with assms join_proper_Nil [of ys] show ?thesis by simp
next
  case False
  then have "ys \<noteq> []" using assms join_proper_Nil [of xs] by auto
  then show ?thesis
    using split_join_proper [OF False assms(1)] split_join_proper [OF _ assms(2)] assms(3) by metis
qed

text \<open>A normalised path lies at or below another exactly when its components extend it.\<close>

lemma mk_path_prefix:
  assumes "r = ''/''" "\<And>c. c \<in> set xs \<Longrightarrow> proper c" "\<And>c. c \<in> set ys \<Longrightarrow> proper c" "xs \<noteq> []"
  shows "(mk_path r ys = mk_path r xs \<or> startswith (mk_path r ys) (mk_path r xs @ ''/'')) \<longleftrightarrow> prefix xs ys"
proof
  assume "mk_path r ys = mk_path r xs \<or> startswith (mk_path r ys) (mk_path r xs @ ''/'')"
  then show "prefix xs ys"
  proof
    assume "mk_path r ys = mk_path r xs"
    then have "ys = xs" using join_with_inj [of ys xs] assms by (simp add: mk_path_def)
    then show ?thesis by simp
  next
    assume "startswith (mk_path r ys) (mk_path r xs @ ''/'')"
    then obtain rest where "join_with ''/'' ys = join_with ''/'' xs @ sep # rest"
      by (auto simp: mk_path_def prefix_def)
    then have "split_on sep (join_with ''/'' ys) = xs @ split_on sep rest"
      using assms(2,4)
    proof (induction xs arbitrary: ys)
      case (Cons x xs)
      then show ?case
      proof (cases "xs = []")
        case True
        with Cons.prems show ?thesis by (simp add: split_on_append_sep proper_def)
      next
        case False
        have "split_on sep (x @ sep # join_with ''/'' xs @ sep # rest)
            = x # split_on sep (join_with ''/'' xs @ sep # rest)"
          using Cons.prems(2) by (intro split_on_append_sep) (auto simp: proper_def)
        moreover have "split_on sep (join_with ''/'' xs @ sep # rest) = xs @ split_on sep rest"
          using Cons.IH [of "xs @ split_on sep rest"] Cons.prems(2) False
          by (auto simp: join_with_append)
        ultimately show ?thesis using Cons.prems(1) False by (simp add: join_with_Cons)
      qed
    qed simp
    moreover have "ys \<noteq> []"
      using \<open>join_with ''/'' ys = _\<close> by auto
    ultimately have "ys = xs @ split_on sep rest"
      using split_join [of ys sep] assms(3) by (auto simp: proper_def)
    then show ?thesis by simp
  qed
next
  assume "prefix xs ys"
  then obtain zs where ys: "ys = xs @ zs" by (auto simp: prefix_def)
  show "mk_path r ys = mk_path r xs \<or> startswith (mk_path r ys) (mk_path r xs @ ''/'')"
  proof (cases "zs = []")
    case False
    then have "mk_path r ys = (mk_path r xs @ ''/'') @ join_with ''/'' zs"
      using assms(4) by (simp add: mk_path_def ys join_with_append)
    then show ?thesis by (metis prefixI)
  qed (use ys in simp)
qed

section \<open>Joining to a normalised path\<close>

lemma last_join_proper:
  "cs \<noteq> [] \<Longrightarrow> (\<And>c. c \<in> set cs \<Longrightarrow> proper c) \<Longrightarrow>
   join_with ''/'' cs \<noteq> [] \<and> last (join_with ''/'' cs) \<noteq> sep"
proof (induction cs)
  case (Cons c cs)
  then have "proper c" by simp
  then have c: "c \<noteq> []" "last c \<noteq> sep" unfolding proper_def using last_in_set by metis+
  show ?case
  proof (cases "cs = []")
    case True
    with c show ?thesis by simp
  next
    case False
    with Cons have "join_with ''/'' cs \<noteq> []" "last (join_with ''/'' cs) \<noteq> sep" by auto
    with False show ?thesis by (simp add: join_with_Cons)
  qed
qed simp

lemma endswith_slash: "endswith s ''/'' \<longleftrightarrow> s \<noteq> [] \<and> last s = sep"
  by (cases s rule: rev_cases) (auto simp: suffix_def)

lemma mk_path_endswith:
  assumes "root_ok r" "\<And>c. c \<in> set cs \<Longrightarrow> proper c"
  shows "endswith (mk_path r cs) ''/'' \<longleftrightarrow> cs = []"
proof (cases "cs = []")
  case True
  with assms(1) show ?thesis by (auto simp: mk_path_def root_ok_def endswith_slash)
next
  case False
  with last_join_proper [of cs] assms(2) show ?thesis
    by (simp add: mk_path_def endswith_slash)
qed

lemma mk_path_snoc: "cs \<noteq> [] \<Longrightarrow> mk_path r (cs @ [c]) = mk_path r cs @ ''/'' @ c"
  by (simp add: mk_path_def join_with_append)

lemma path_join_mk_path:
  assumes "root_ok r" "\<And>c. c \<in> set cs \<Longrightarrow> proper c" "proper c"
  shows "path_join (mk_path r cs) c = mk_path r (cs @ [c])"
proof -
  have "\<not> startswith c ''/''" using assms(3) by (cases c) (auto simp: proper_def)
  moreover have "mk_path r cs \<noteq> []" using assms(1) by (auto simp: mk_path_def root_ok_def)
  ultimately show ?thesis
  proof (cases "cs = []")
    case True
    with \<open>\<not> startswith c ''/''\<close> assms(1) show ?thesis
      by (auto simp: path_join_def mk_path_def root_ok_def endswith_slash)
  next
    case False
    with \<open>\<not> startswith c ''/''\<close> \<open>mk_path r cs \<noteq> []\<close> mk_path_endswith [OF assms(1,2)] show ?thesis
      by (simp add: path_join_def mk_path_snoc)
  qed
qed

lemma path_joins_mk_path:
  assumes "root_ok r" "\<And>c. c \<in> set cs \<Longrightarrow> proper c" "\<And>c. c \<in> set ds \<Longrightarrow> proper c"
  shows "foldl path_join (mk_path r cs) ds = mk_path r (cs @ ds)"
  using assms
proof (induction ds arbitrary: cs)
  case (Cons d ds)
  then have "path_join (mk_path r cs) d = mk_path r (cs @ [d])" by (simp add: path_join_mk_path)
  moreover have "foldl path_join (mk_path r (cs @ [d])) ds = mk_path r ((cs @ [d]) @ ds)"
    using Cons by (intro Cons.IH) auto
  ultimately show ?case by simp
qed simp

text \<open>A name that is its own base name has no slash.\<close>

lemma basename_self: "basename s = s \<longleftrightarrow> sep \<notin> set s"
proof
  assume b: "basename s = s"
  have "sep \<notin> set (basename s)"
    by (simp add: basename_def path_tail_def) (metis (mono_tags, lifting) set_takeWhileD)
  with b show "sep \<notin> set s" by simp
next
  assume "sep \<notin> set s"
  then have "\<forall>x\<in>set (rev s). sep \<noteq> x" by auto
  then have "takeWhile ((\<noteq>) sep) (rev s) = rev s" by (simp only: takeWhile_eq_all_conv)
  then show "basename s = s" by (simp only: basename_def path_tail_def rev_rev_ident)
qed

end
