(* ===== verification/Paths.thy ===== *)
theory Paths
  imports PosixPath
begin

text \<open>
  The module \<open>paths.py\<close>: lexical normalisation, the boundary-safe containment test and the
  alias map that translates agent-visible paths to canonical ones.  An \<open>AliasMap\<close> object is
  its list of (alias, canonical) pairs, longest alias first.
\<close>

section \<open>Definitions\<close>

definition normalize :: "string \<Rightarrow> string result" where
  "normalize path =
     (if path = [] \<or> \<not> startswith path ''/''
      then Inl (ValueError (''absolute path required, got '' @ path))
      else Inr (normpath path))"

definition is_within :: "string \<Rightarrow> string \<Rightarrow> bool result" where
  "is_within path pre =
     bindR (normalize path) (\<lambda>path. bindR (normalize pre) (\<lambda>pre.
       if pre = ''/'' then Inr True
       else Inr (path = pre \<or> startswith path (pre @ ''/''))))"

type_synonym alias_map = "(string \<times> string) list"

text \<open>\<open>sorted(..., key=len(alias), reverse=True)\<close> keeps the order of equal keys.\<close>

definition sort_longest :: "('a \<Rightarrow> nat) \<Rightarrow> 'a list \<Rightarrow> 'a list" where
  "sort_longest f xs = rev (sort_key f (rev xs))"

definition make_alias_map :: "(string, string) dict \<Rightarrow> alias_map result" where
  "make_alias_map aliases =
     bindR (mapR (\<lambda>(a, c). bindR (normalize a) (\<lambda>a'. bindR (normalize c) (\<lambda>c'. Inr (a', c')))) aliases)
       (\<lambda>ps. Inr (sort_longest (\<lambda>p. length (fst p)) ps))"

definition for_home :: "string \<Rightarrow> string \<Rightarrow> string \<Rightarrow> string \<Rightarrow> alias_map result" where
  "for_home user home_subdir storage_user home_root =
     (let home = path_join home_root user;
          canonical = (if home_subdir = [] then storage_user else path_join storage_user home_subdir)
      in make_alias_map [(home, canonical)])"

fun canon_loop :: "alias_map \<Rightarrow> string \<Rightarrow> string" where
  "canon_loop [] path = path"
| "canon_loop ((al, canonical) # rest) path =
     (if path = al then canonical
      else if startswith path (al @ ''/'') then canonical @ drop (length al) path
      else canon_loop rest path)"

definition canonicalize :: "alias_map \<Rightarrow> string \<Rightarrow> string result" where
  "canonicalize am path = bindR (normalize path) (\<lambda>path. Inr (canon_loop am path))"

definition alias_map_to_dict :: "alias_map \<Rightarrow> pydict" where
  "alias_map_to_dict am = fold (\<lambda>(al, c) d. dict_set d al (JStr c)) am []"

section \<open>Normalisation and containment\<close>

lemma normalize_abs: "isabs p \<Longrightarrow> normalize p = Inr (normpath p)"
  by (auto simp: normalize_def isabs_def)

lemma normalize_Inr: "normalize p = Inr q \<longleftrightarrow> isabs p \<and> q = normpath p"
  by (auto simp: normalize_def isabs_def)

lemma normalize_Inl: "normalize p = Inl e \<longleftrightarrow> \<not> isabs p \<and> e = ValueError (''absolute path required, got '' @ p)"
  by (auto simp: normalize_def isabs_def)

text \<open>A path that normalisation leaves alone.\<close>

definition canonical :: "string \<Rightarrow> bool" where
  "canonical p \<longleftrightarrow> isabs p \<and> normpath p = p"

lemma canonical_normpath [simp]: "isabs p \<Longrightarrow> canonical (normpath p)"
  by (simp add: canonical_def)

lemma normalize_canonical: "normalize p = Inr q \<Longrightarrow> canonical q"
  by (auto simp: normalize_Inr)

lemma canonical_normalize: "canonical p \<Longrightarrow> normalize p = Inr p"
  by (simp add: canonical_def normalize_abs)

lemma canonical_mk_path: "root_ok r \<Longrightarrow> (\<And>c. c \<in> set cs \<Longrightarrow> proper c) \<Longrightarrow> canonical (mk_path r cs)"
  by (simp add: canonical_def normpath_mk_path)

text \<open>Paths with a single leading slash after normalisation: every path of the program but \<open>//x\<close>.\<close>

definition single_rooted :: "string \<Rightarrow> bool" where
  "single_rooted p \<longleftrightarrow> isabs p \<and> root_slashes p = ''/''"

lemma is_within_total: "isabs p \<Longrightarrow> isabs q \<Longrightarrow> \<exists>b. is_within p q = Inr b"
  by (auto simp: is_within_def normalize_abs)

lemma is_within_comps:
  assumes "single_rooted p" "single_rooted q"
  shows "is_within p q = Inr (prefix (norm_comps q) (norm_comps p))"
proof -
  have p: "normpath p = mk_path ''/'' (norm_comps p)" and q: "normpath q = mk_path ''/'' (norm_comps q)"
    and abs: "isabs p" "isabs q"
    using assms by (auto simp: single_rooted_def normpath_abs)
  show ?thesis
  proof (cases "norm_comps q = []")
    case True
    with abs p q show ?thesis by (simp add: is_within_def normalize_abs mk_path_def)
  next
    case False
    then have "join_with ''/'' (norm_comps q) \<noteq> []"
      using join_proper_Nil [of "norm_comps q"] norm_comps_proper [OF abs(2)] by blast
    then have "normpath q \<noteq> ''/''" by (simp add: q mk_path_def)
    moreover have "(normpath p = normpath q \<or> startswith (normpath p) (normpath q @ ''/''))
        = prefix (norm_comps q) (norm_comps p)"
      unfolding p q
      by (rule mk_path_prefix) (use False abs norm_comps_proper in auto)
    ultimately show ?thesis using abs by (simp add: is_within_def normalize_abs)
  qed
qed

lemma is_within_refl: "isabs p \<Longrightarrow> is_within p p = Inr True"
  by (simp add: is_within_def normalize_abs)

lemma is_within_trans:
  assumes "single_rooted p" "single_rooted q" "single_rooted r"
    and "is_within p q = Inr True" "is_within q r = Inr True"
  shows "is_within p r = Inr True"
  using assms by (auto simp: is_within_comps intro: prefix_order.trans)

section \<open>Alias maps\<close>

text \<open>What the constructor establishes: normalised entries, longest alias first.\<close>

definition alias_map_ok :: "alias_map \<Rightarrow> bool" where
  "alias_map_ok am \<longleftrightarrow>
     (\<forall>(a, c)\<in>set am. canonical a \<and> canonical c) \<and>
     sorted_wrt (\<lambda>x y. length (fst y) \<le> length (fst x)) am"

lemma set_sort_longest [simp]: "set (sort_longest f xs) = set xs"
  by (simp add: sort_longest_def)

lemma sorted_sort_longest: "sorted_wrt (\<lambda>x y. f y \<le> f x) (sort_longest f xs)"
proof -
  have "sorted_wrt (\<lambda>x y. f x \<le> f y) (sort_key f (rev xs))"
    using sorted_sort_key [of f "rev xs"] by (simp add: sorted_map)
  then show ?thesis by (simp add: sort_longest_def sorted_wrt_rev)
qed

lemma make_alias_map_ok: "make_alias_map d = Inr am \<Longrightarrow> alias_map_ok am"
proof -
  assume "make_alias_map d = Inr am"
  then obtain ps where am: "am = sort_longest (\<lambda>p. length (fst p)) ps"
    and "mapR (\<lambda>(a, c). bindR (normalize a) (\<lambda>a'. bindR (normalize c) (\<lambda>c'. Inr (a', c')))) d = Inr ps"
    by (auto simp: make_alias_map_def bindR_eq_Inr)
  then have ps: "list_all2 (\<lambda>x p. normalize (fst x) = Inr (fst p) \<and> normalize (snd x) = Inr (snd p)) d ps"
    by (auto simp: mapR_eq_Inr bindR_eq_Inr elim!: list_all2_mono)
  have "canonical (fst p) \<and> canonical (snd p)" if "p \<in> set ps" for p
    using ps that
    by (induction rule: list_all2_induct) (auto dest: normalize_canonical)
  then show ?thesis
    using am sorted_sort_longest [of "\<lambda>p. length (fst p)" ps] by (auto simp: alias_map_ok_def)
qed

lemma canonicalize_Inr: "canonicalize am p = Inr q \<longleftrightarrow> isabs p \<and> q = canon_loop am (normpath p)"
  by (auto simp: canonicalize_def bindR_eq_Inr normalize_Inr)

lemma canonicalize_abs: "isabs p \<Longrightarrow> canonicalize am p = Inr (canon_loop am (normpath p))"
  by (simp add: canonicalize_Inr)

lemma canonicalize_is_ok [simp]: "is_ok (canonicalize am p) \<longleftrightarrow> isabs p"
  by (auto simp: is_ok_iff canonicalize_Inr)

lemma canon_loop_cases:
  "canon_loop am p = p \<or> (\<exists>(a, c)\<in>set am. canon_loop am p = c @ drop (length a) p \<and> startswith p a)"
  by (induction am p rule: canon_loop.induct) (auto simp: prefix_def)

lemma isabs_canon_loop:
  "isabs p \<Longrightarrow> (\<forall>(a, c)\<in>set am. isabs c) \<Longrightarrow> isabs (canon_loop am p)"
  using canon_loop_cases [of am p] by fastforce

lemma canonicalize_isabs:
  "alias_map_ok am \<Longrightarrow> canonicalize am p = Inr q \<Longrightarrow> isabs q"
  by (auto simp: canonicalize_Inr alias_map_ok_def canonical_def intro!: isabs_canon_loop)

text \<open>No alias contains a canonical prefix: translation has nothing left to do.\<close>

definition alias_free :: "alias_map \<Rightarrow> string \<Rightarrow> bool" where
  "alias_free am p \<longleftrightarrow> (\<forall>(a, c)\<in>set am. p \<noteq> a \<and> \<not> startswith p (a @ ''/''))"

lemma canon_loop_free: "alias_free am p \<Longrightarrow> canon_loop am p = p"
  by (induction am p rule: canon_loop.induct) (auto simp: alias_free_def)

text \<open>The first alias that contains the path decides, whatever follows.\<close>

lemma canon_loop_first:
  "(\<And>a c. (a, c) \<in> set pre \<Longrightarrow> p \<noteq> a \<and> \<not> startswith p (a @ ''/'')) \<Longrightarrow>
   canon_loop (pre @ rest) p = canon_loop rest p"
  by (induction pre p rule: canon_loop.induct) auto

section \<open>Properties\<close>

text \<open>Normalisation yields a normal form: a successful \<open>normalize\<close> returns a root of one or
  two slashes followed by components none of which is empty, \<open>.\<close> or \<open>..\<close>, and normalising
  that result again changes nothing.\<close>

theorem normalize_normal_form:
  assumes "normalize p = Inr q"
  shows "normalize q = Inr q \<and> q = mk_path (root_slashes p) (norm_comps p) \<and>
         root_ok (root_slashes p) \<and> (\<forall>c\<in>set (norm_comps p). proper c)"
  using assms norm_comps_proper
  by (auto simp: normalize_Inr normalize_abs root_slashes_ok normpath_abs [symmetric])

theorem normalize_normal_form_witness:
  "normalize ''/a//b/./../c/'' = Inr ''/a/c'' \<and> normalize ''/a/c'' = Inr ''/a/c''"
proof -
  have h: "normalize ''/a//b/./../c/'' = Inr ''/a/c''" by code_simp
  with normalize_normal_form [OF h] show ?thesis by blast
qed

text \<open>Containment is component-wise and boundary-safe: for absolute paths with a single
  leading slash \<open>is_within path prefix\<close> never raises and holds exactly when the components of
  the prefix are an initial segment of the components of the path.\<close>

theorem is_within_component_prefix:
  assumes "single_rooted p" "single_rooted q"
  shows "is_within p q = Inr (prefix (norm_comps q) (norm_comps p))"
  using assms by (rule is_within_comps)

theorem is_within_component_prefix_witness:
  "is_within ''/storage/user2/x'' ''/storage/user'' = Inr False \<and>
   is_within ''/storage/./user/x'' ''/storage/user/'' = Inr True"
proof -
  have h: "single_rooted ''/storage/user2/x''" "single_rooted ''/storage/user''"
    "single_rooted ''/storage/./user/x''" "single_rooted ''/storage/user/''"
    by code_simp+
  show ?thesis
    unfolding is_within_component_prefix [OF h(1,2)] is_within_component_prefix [OF h(3,4)]
    by code_simp
qed

definition alias_contains :: "string \<Rightarrow> string \<Rightarrow> bool" where
  "alias_contains al p \<longleftrightarrow> p = al \<or> startswith p (al @ ''/'')"

lemma canon_loop_longest:
  assumes "sorted_wrt (\<lambda>x y. length (fst y) \<le> length (fst x)) am"
  shows "(canon_loop am p = p \<and> (\<forall>(a, c)\<in>set am. \<not> alias_contains a p)) \<or>
    (\<exists>(a, c)\<in>set am. alias_contains a p \<and> canon_loop am p = c @ drop (length a) p \<and>
       (\<forall>(a', c')\<in>set am. alias_contains a' p \<longrightarrow> length a' \<le> length a))"
  using assms
proof (induction am p rule: canon_loop.induct)
  case (2 al can rest path)
  show ?case
  proof (cases "alias_contains al path")
    case True
    with "2.prems" have "canon_loop ((al, can) # rest) path = can @ drop (length al) path"
      "\<forall>(a', c')\<in>set ((al, can) # rest). length a' \<le> length al"
      by (auto simp: alias_contains_def)
    with True show ?thesis by (intro disjI2 bexI [of _ "(al, can)"]) auto
  next
    case False
    with 2 show ?thesis by (auto simp: alias_contains_def)
  qed
qed simp

text \<open>The longest alias wins: with a map built by the constructor, \<open>canonicalize\<close> returns the
  normalised path itself when no alias contains it, and otherwise rewrites the prefix given
  by an alias that contains it and is at least as long as every other such alias.\<close>

theorem canonicalize_longest_alias:
  assumes "make_alias_map d = Inr am" "canonicalize am p = Inr q"
  shows "(q = normpath p \<and> (\<forall>(a, c)\<in>set am. \<not> alias_contains a (normpath p))) \<or>
    (\<exists>(a, c)\<in>set am. alias_contains a (normpath p) \<and> q = c @ drop (length a) (normpath p) \<and>
       (\<forall>(a', c')\<in>set am. alias_contains a' (normpath p) \<longrightarrow> length a' \<le> length a))"
  using canon_loop_longest [of am "normpath p"] make_alias_map_ok [OF assms(1)] assms(2)
  by (auto simp: alias_map_ok_def canonicalize_Inr)

theorem canonicalize_longest_alias_witness:
  "\<exists>am. make_alias_map [(''/home/u'', ''/storage/user''), (''/home/u/data'', ''/big'')] = Inr am \<and>
        canonicalize am ''/home/u/data/x'' = Inr ''/big/x''"
proof -
  have h: "make_alias_map [(''/home/u'', ''/storage/user''), (''/home/u/data'', ''/big'')]
     = Inr [(''/home/u/data'', ''/big''), (''/home/u'', ''/storage/user'')]"
    "canonicalize [(''/home/u/data'', ''/big''), (''/home/u'', ''/storage/user'')] ''/home/u/data/x''
     = Inr ''/big/x''"
    by code_simp+
  from canonicalize_longest_alias [OF h] h show ?thesis by blast
qed

text \<open>The leading double slash is kept by normalisation, so such a path is in no scope.\<close>

lemma normalize_keeps_double_slash:
  "normalize ''//storage/user/x'' = Inr ''//storage/user/x'' \<and>
   is_within ''//storage/user/x'' ''/storage/user'' = Inr False"
  by code_simp

end
