(* ===== verification/Fnmatch.thy ===== *)
theory Fnmatch
  imports PosixPath
begin

text \<open>
  \<open>fnmatch.fnmatchcase\<close>: a shell pattern is translated to a list of items and matched
  against the whole string.  A star crosses slashes, as in the standard library.  The
  treatment of brackets follows \<open>fnmatch.translate\<close> of Python 3.11: a leading exclamation
  mark negates, a closing bracket right after the start is an ordinary character, an empty
  range is dropped, an unclosed bracket is a literal.
\<close>

section \<open>Definitions\<close>

datatype glob_item =
    GStar
  | GAny
  | GLit char
  | GClass bool "(char \<times> char) list"

text \<open>The text between the brackets and the pattern after them.\<close>

definition class_split :: "string \<Rightarrow> (string \<times> string) option" where
  "class_split cs =
     (let neg = (if startswith cs ''!'' then ''!'' else '''');
          r1 = drop (length neg) cs;
          br = (if startswith r1 '']'' then '']'' else '''');
          r2 = drop (length br) r1;
          body = takeWhile ((\<noteq>) CHR '']'') r2;
          r3 = dropWhile ((\<noteq>) CHR '']'') r2
      in if r3 = [] then None else Some (neg @ br @ body, tl r3))"

fun class_items :: "string \<Rightarrow> (char \<times> char) list" where
  "class_items (a # b # c # r) =
     (if b = CHR ''-'' then (a, c) # class_items r else (a, a) # class_items (b # c # r))"
| "class_items (a # r) = (a, a) # class_items r"
| "class_items [] = []"

text \<open>
  Dropping empty ranges joins their neighbours, so an exclamation mark may come to the
  front and negate the class after all.
\<close>

definition glob_class :: "string \<Rightarrow> glob_item" where
  "glob_class stuff =
     (if startswith stuff ''!''
      then GClass True (filter (\<lambda>(a, b). a \<le> b) (class_items (tl stuff)))
      else case filter (\<lambda>(a, b). a \<le> b) (class_items stuff) of
          (a, b) # rest \<Rightarrow>
            (if a = CHR ''!''
             then GClass True (if b = a then rest else (CHR ''-'', CHR ''-'') # (b, b) # rest)
             else GClass False ((a, b) # rest))
        | [] \<Rightarrow> GClass False [])"

function (sequential) parse_glob :: "string \<Rightarrow> glob_item list" where
  "parse_glob [] = []"
| "parse_glob (c # cs) =
     (if c = CHR ''*'' then GStar # parse_glob cs
      else if c = CHR ''?'' then GAny # parse_glob cs
      else if c = CHR ''['' then
        (case class_split cs of
           None \<Rightarrow> GLit c # parse_glob cs
         | Some (stuff, rest) \<Rightarrow> glob_class stuff # parse_glob rest)
      else GLit c # parse_glob cs)"
  by pat_completeness auto

lemma class_split_length: "class_split cs = Some (stuff, rest) \<Longrightarrow> length rest < length cs"
proof -
  assume *: "class_split cs = Some (stuff, rest)"
  let ?n = "if startswith cs ''!'' then ''!'' else ''''"
  let ?r1 = "drop (length ?n) cs"
  let ?r2 = "drop (length (if startswith ?r1 '']'' then '']'' else '''')) ?r1"
  let ?r3 = "dropWhile ((\<noteq>) CHR '']'') ?r2"
  have "?r3 \<noteq> []" "rest = tl ?r3" using * by (auto simp: class_split_def Let_def split: if_splits)
  then have "length rest < length ?r3" by (cases ?r3) auto
  also have "\<dots> \<le> length ?r2" by (rule length_dropWhile_le)
  also have "\<dots> \<le> length cs" by simp
  finally show ?thesis .
qed

termination parse_glob
  by (relation "measure length") (auto dest!: class_split_length)

text \<open>The one-character items.\<close>

fun item_accepts :: "glob_item \<Rightarrow> char \<Rightarrow> bool" where
  "item_accepts GStar c = False"
| "item_accepts GAny c = True"
| "item_accepts (GLit a) c = (a = c)"
| "item_accepts (GClass neg rs) c = (neg \<noteq> list_ex (\<lambda>(a, b). a \<le> c \<and> c \<le> b) rs)"

primrec glob_match :: "glob_item list \<Rightarrow> string \<Rightarrow> bool" where
  "glob_match [] s = (s = [])"
| "glob_match (i # ps) s =
     (if i = GStar then list_ex (glob_match ps) (suffixes s)
      else case s of [] \<Rightarrow> False | c # t \<Rightarrow> item_accepts i c \<and> glob_match ps t)"

definition fnmatchcase :: "string \<Rightarrow> string \<Rightarrow> bool" where
  "fnmatchcase name pat = glob_match (parse_glob pat) name"

section \<open>Facts about matching\<close>

lemma glob_match_GStar: "glob_match (GStar # ps) s \<longleftrightarrow> (\<exists>a b. s = a @ b \<and> glob_match ps b)"
  by (simp add: list_ex_iff suffix_def Bex_def) metis

lemma glob_match_char:
  "i \<noteq> GStar \<Longrightarrow> glob_match (i # ps) s \<longleftrightarrow> (\<exists>c t. s = c # t \<and> item_accepts i c \<and> glob_match ps t)"
  by (cases s) auto

declare glob_match.simps(2) [simp del]

lemma glob_match_append:
  "glob_match (xs @ ys) s \<longleftrightarrow> (\<exists>a b. s = a @ b \<and> glob_match xs a \<and> glob_match ys b)"
proof (induction xs arbitrary: s)
  case (Cons i xs)
  show ?case
  proof (cases "i = GStar")
    case True
    have "glob_match ((i # xs) @ ys) s \<longleftrightarrow> (\<exists>a b c. s = a @ b @ c \<and> glob_match xs b \<and> glob_match ys c)"
      using True Cons by (auto simp: glob_match_GStar)
    also have "\<dots> \<longleftrightarrow> (\<exists>a b. s = a @ b \<and> glob_match (i # xs) a \<and> glob_match ys b)"
      unfolding True glob_match_GStar by (metis append_assoc)
    finally show ?thesis .
  next
    case False
    then have "glob_match ((i # xs) @ ys) s \<longleftrightarrow>
        (\<exists>c a b. s = c # a @ b \<and> item_accepts i c \<and> glob_match xs a \<and> glob_match ys b)"
      using Cons by (auto simp: glob_match_char)
    also have "\<dots> \<longleftrightarrow> (\<exists>a b. s = a @ b \<and> glob_match (i # xs) a \<and> glob_match ys b)"
      unfolding glob_match_char [OF False] by (metis append_Cons)
    finally show ?thesis .
  qed
qed simp

lemma glob_match_lits: "glob_match (map GLit p @ ps) s \<longleftrightarrow> (\<exists>t. s = p @ t \<and> glob_match ps t)"
  by (induction p arbitrary: s) (auto simp: glob_match_char)

lemma glob_match_star [simp]: "glob_match [GStar] s"
  by (simp add: glob_match_GStar)

text \<open>Characters without a special meaning, and patterns made of them.\<close>

definition plain :: "string \<Rightarrow> bool" where
  "plain p \<longleftrightarrow> CHR ''*'' \<notin> set p \<and> CHR ''?'' \<notin> set p \<and> CHR ''['' \<notin> set p"

lemma parse_glob_plain_append: "plain p \<Longrightarrow> parse_glob (p @ q) = map GLit p @ parse_glob q"
  by (induction p) (auto simp: plain_def)

lemma parse_glob_plain: "plain p \<Longrightarrow> parse_glob p = map GLit p"
  using parse_glob_plain_append [of p "[]"] by simp

lemma fnmatch_plain: "plain p \<Longrightarrow> fnmatchcase s p \<longleftrightarrow> s = p"
  using glob_match_lits [of p "[]" s] by (simp add: fnmatchcase_def parse_glob_plain)

lemma fnmatch_plain_star: "plain p \<Longrightarrow> fnmatchcase s (p @ ''*'') \<longleftrightarrow> startswith s p"
  by (auto simp: fnmatchcase_def parse_glob_plain_append glob_match_lits prefix_def)

lemma fnmatch_star_plain: "plain p \<Longrightarrow> fnmatchcase s (''*'' @ p) \<longleftrightarrow> endswith s p"
  using glob_match_lits [of p "[]"]
  by (auto simp: fnmatchcase_def parse_glob_plain glob_match_GStar suffix_def)

lemma fnmatch_star_plain_star:
  "plain p \<Longrightarrow> fnmatchcase s (''*'' @ p @ ''*'') \<longleftrightarrow> (\<exists>a b. s = a @ p @ b)"
  by (auto simp: fnmatchcase_def parse_glob_plain_append glob_match_lits glob_match_GStar)

lemma plain_append [simp]: "plain (p @ q) \<longleftrightarrow> plain p \<and> plain q"
  by (auto simp: plain_def)

lemma plain_slash [simp]: "plain ''/''"
  by (simp add: plain_def)

end
