(* ===== verification/Policy.thy ===== *)
theory Policy
  imports Paths Fnmatch
begin

text \<open>
  The module \<open>policy.py\<close>: path patterns, changes, the collapse of raw status entries to one
  final change per path, ignore rules, classification and the commit decision.
\<close>

section \<open>Constants\<close>

definition AUTO_COMMIT :: string where "AUTO_COMMIT = ''auto-commit''"
definition PENDING_REVIEW :: string where "PENDING_REVIEW = ''pending-review''"
definition ABORT :: string where "ABORT = ''abort''"
definition NO_CHANGES :: string where "NO_CHANGES = ''no-changes''"

definition MODES :: "string list" where
  "MODES = [''manual'', ''workspace-auto'', ''read-only-review'', ''training-run'', ''throwaway'']"

definition DEFAULT_DENY_PATTERNS :: "string list" where
  "DEFAULT_DENY_PATTERNS =
    [''.ssh'', ''.gnupg'', ''.env'', ''.env.*'', ''*.pem'', ''id_rsa*'', ''id_ed25519*'',
     ''id_ecdsa*'', ''.netrc'', ''.aws'', ''.kube/config'', ''.docker/config.json'',
     ''credentials.json'', ''.git/config'', ''.git/hooks'', ''.bashrc'', ''.bash_profile'',
     ''.profile'', ''.zshrc'', ''.condarc'', ''.ccc-agent'']"

definition DEFAULT_IGNORE_PATTERNS :: "string list" where
  "DEFAULT_IGNORE_PATTERNS =
    [''*/.nfs*'', ''.cache'', ''.npm/_logs'', ''.bash_history*'', ''.zsh_history*'',
     ''.zhistory*'', ''.python_history*'', ''.sqlite_history*'', ''.psql_history*'',
     ''.mysql_history*'', ''.rediscli_history*'', ''.node_repl_history*'', ''.lesshst'',
     ''.wget-hsts'', ''.config/fish/fish_history'', ''.local/share/fish/fish_history'',
     ''.ipython/profile_default/history.sqlite'']"

section \<open>Path patterns\<close>

definition path_matches :: "string \<Rightarrow> string \<Rightarrow> bool" where
  "path_matches pattern path =
     (if sep \<notin> set pattern
      then list_ex (\<lambda>part. fnmatchcase part pattern) (split_on sep (strip_char sep path))
      else let pat = (if startswith pattern ''/'' then pattern else ''*/'' @ pattern)
           in fnmatchcase path pat \<or> fnmatchcase path (pat @ ''/*''))"

section \<open>Changes\<close>

record change =
  ch_op :: string
  ch_path :: string
  ch_kind :: string
  ch_bytes :: int
  ch_root :: string
  ch_summary :: string

definition change_to_dict :: "change \<Rightarrow> pydict" where
  "change_to_dict c =
     [(''op'', JStr (ch_op c)), (''path'', JStr (ch_path c)), (''kind'', JStr (ch_kind c)),
      (''bytes'', JInt (ch_bytes c)), (''root'', JStr (ch_root c))]
     @ (if ch_summary c \<noteq> [] then [(''summary'', JStr (ch_summary c))] else [])"

definition change_from_dict :: "pydict \<Rightarrow> change result" where
  "change_from_dict d =
     bindR (bindR (get_item d ''op'') as_str) (\<lambda>op.
     bindR (bindR (get_item d ''path'') as_str) (\<lambda>path.
     bindR (as_str (get_default d ''kind'' (JStr ''file''))) (\<lambda>kind.
     bindR (as_int (get_default d ''bytes'' (JInt 0))) (\<lambda>bytes.
     bindR (as_str (get_default d ''root'' (JStr ''''))) (\<lambda>root.
     bindR (as_str (get_default d ''summary'' (JStr ''''))) (\<lambda>summary.
     Inr \<lparr>ch_op = op, ch_path = path, ch_kind = kind, ch_bytes = bytes, ch_root = root,
          ch_summary = summary\<rparr>))))))"

record ignored_change =
  ig_change :: change
  ig_pattern :: string

definition ignored_to_dict :: "ignored_change \<Rightarrow> pydict" where
  "ignored_to_dict i = dict_set (change_to_dict (ig_change i)) ''ignore_pattern'' (JStr (ig_pattern i))"

definition ignored_from_dict :: "pydict \<Rightarrow> ignored_change result" where
  "ignored_from_dict d =
     bindR (change_from_dict d) (\<lambda>c.
     bindR (as_str (get_default d ''ignore_pattern'' (JStr ''''))) (\<lambda>p.
     Inr \<lparr>ig_change = c, ig_pattern = p\<rparr>))"

section \<open>One final change per path\<close>

type_synonym change_id = "string \<times> string"

definition change_key :: "change \<Rightarrow> alias_map option \<Rightarrow> change_id result" where
  "change_key c am =
     bindR (case am of Some m \<Rightarrow> canonicalize m (ch_path c) | None \<Rightarrow> Inr (normpath (ch_path c)))
       (\<lambda>path. Inr (ch_root c, path))"

definition prefer_final_change :: "change \<Rightarrow> change \<Rightarrow> change" where
  "prefer_final_change current candidate =
     (if ch_op current = ''D'' \<and> ch_op candidate \<noteq> ''D'' then candidate
      else if ch_op current \<noteq> ''D'' \<and> ch_op candidate = ''D'' then current
      else current)"

text \<open>
  \<open>selected\<close> with its separate list \<open>order\<close> is one ordered dictionary: a key is appended to
  \<open>order\<close> exactly when it is first stored, and a later store keeps its position.
\<close>

definition net_step :: "alias_map option \<Rightarrow> (change_id, change) dict \<Rightarrow> change \<Rightarrow> (change_id, change) dict result" where
  "net_step am selected c =
     bindR (change_key c am) (\<lambda>key.
       case dict_get selected key of
         None \<Rightarrow> Inr (dict_set selected key c)
       | Some cur \<Rightarrow> Inr (dict_set selected key (prefer_final_change cur c)))"

definition net_final_changes :: "change list \<Rightarrow> alias_map option \<Rightarrow> change list result" where
  "net_final_changes changes am =
     bindR (foldR (net_step am) [] changes) (\<lambda>selected. Inr (map snd selected))"

text \<open>\<open>preferred is item.change\<close> holds exactly when a tombstone meets a non-delete.\<close>

definition net_ignored_step :: "alias_map option \<Rightarrow> (change_id, ignored_change) dict \<Rightarrow> ignored_change \<Rightarrow>
    (change_id, ignored_change) dict result" where
  "net_ignored_step am selected item =
     bindR (change_key (ig_change item) am) (\<lambda>key.
       case dict_get selected key of
         None \<Rightarrow> Inr (dict_set selected key item)
       | Some cur \<Rightarrow>
           if ch_op (ig_change cur) = ''D'' \<and> ch_op (ig_change item) \<noteq> ''D''
           then Inr (dict_set selected key item) else Inr selected)"

definition net_final_ignored_changes :: "ignored_change list \<Rightarrow> alias_map option \<Rightarrow> ignored_change list result" where
  "net_final_ignored_changes ignored am =
     bindR (foldR (net_ignored_step am) [] ignored) (\<lambda>selected. Inr (map snd selected))"

section \<open>Configuration\<close>

record policy_config =
  pc_mode :: string
  pc_allowed_scopes :: "string list"
  pc_deny_patterns :: "string list"
  pc_hide_patterns :: "string list"
  pc_max_repair :: int
  pc_ignore_patterns :: "string list"

definition make_policy_config ::
  "string \<Rightarrow> string list \<Rightarrow> string list option \<Rightarrow> string list \<Rightarrow> int \<Rightarrow> string list \<Rightarrow> policy_config result" where
  "make_policy_config mode allowed deny hide max_repair ignore =
     (if mode \<notin> set MODES
      then Inl (ValueError (''unknown policy mode '' @ mode @ '' (expected one of '' @ join_with '', '' MODES @ '')''))
      else Inr \<lparr>pc_mode = mode, pc_allowed_scopes = allowed,
               pc_deny_patterns = (case deny of None \<Rightarrow> DEFAULT_DENY_PATTERNS | Some d \<Rightarrow> d),
               pc_hide_patterns = hide, pc_max_repair = max_repair,
               pc_ignore_patterns = DEFAULT_IGNORE_PATTERNS @ ignore\<rparr>)"

definition config_from_dict :: "pydict \<Rightarrow> policy_config result" where
  "config_from_dict d =
     bindR (bindR (get_item d ''mode'') as_str) (\<lambda>mode.
     bindR (as_strs (get_default d ''allowed_scopes'' (JArr []))) (\<lambda>allowed.
     bindR (case get_default d ''deny_patterns'' JNull of
              JNull \<Rightarrow> Inr None | v \<Rightarrow> bindR (as_strs v) (\<lambda>xs. Inr (Some xs))) (\<lambda>deny.
     bindR (as_strs (get_default d ''hide_patterns'' (JArr []))) (\<lambda>hide.
     bindR (as_int (get_default d ''max_policy_repair_attempts'' (JInt 2))) (\<lambda>mx.
     bindR (as_strs (get_default d ''ignore_patterns'' (JArr []))) (\<lambda>ign.
     make_policy_config mode allowed deny hide mx ign))))))"

definition config_to_dict :: "policy_config \<Rightarrow> pydict" where
  "config_to_dict c =
     [(''mode'', JStr (pc_mode c)), (''allowed_scopes'', jstrs (pc_allowed_scopes c)),
      (''deny_patterns'', jstrs (pc_deny_patterns c)), (''hide_patterns'', jstrs (pc_hide_patterns c)),
      (''max_policy_repair_attempts'', JInt (pc_max_repair c)),
      (''ignore_patterns'', jstrs (pc_ignore_patterns c))]"

section \<open>Ignore rules\<close>

definition has_glob_char :: "string \<Rightarrow> bool" where
  "has_glob_char p \<longleftrightarrow> list_ex (\<lambda>c. c \<in> set p) ''*?[''"

fun first_ignore :: "string list \<Rightarrow> string \<Rightarrow> string option result" where
  "first_ignore [] cpath = Inr None"
| "first_ignore (pattern # ps) cpath =
     (if path_matches pattern cpath then Inr (Some pattern)
      else if startswith pattern ''/'' \<and> \<not> has_glob_char pattern
      then bindR (is_within cpath pattern)
             (\<lambda>b. if b then Inr (Some pattern) else first_ignore ps cpath)
      else first_ignore ps cpath)"

definition ignore_pattern_for_path :: "string \<Rightarrow> policy_config \<Rightarrow> alias_map \<Rightarrow> string option result" where
  "ignore_pattern_for_path path config am =
     (if pc_ignore_patterns config = [] then Inr None
      else bindR (canonicalize am path) (first_ignore (pc_ignore_patterns config)))"

definition split_step :: "policy_config \<Rightarrow> alias_map \<Rightarrow> change list \<times> ignored_change list \<Rightarrow> change \<Rightarrow>
    (change list \<times> ignored_change list) result" where
  "split_step config am acc c =
     bindR (ignore_pattern_for_path (ch_path c) config am) (\<lambda>pattern.
       case pattern of
         None \<Rightarrow> Inr (fst acc @ [c], snd acc)
       | Some p \<Rightarrow> Inr (fst acc, snd acc @ [\<lparr>ig_change = c, ig_pattern = p\<rparr>]))"

definition split_ignored :: "change list \<Rightarrow> policy_config \<Rightarrow> alias_map \<Rightarrow>
    (change list \<times> ignored_change list) result" where
  "split_ignored changes config am =
     bindR (net_final_changes changes (Some am)) (foldR (split_step config am) ([], []))"

definition filter_ignored :: "change list \<Rightarrow> policy_config \<Rightarrow> alias_map \<Rightarrow> change list result" where
  "filter_ignored changes config am = bindR (split_ignored changes config am) (\<lambda>p. Inr (fst p))"

section \<open>Classification and decision\<close>

record deny_match =
  dm_path :: string
  dm_pattern :: string

definition deny_match_to_dict :: "deny_match \<Rightarrow> pydict" where
  "deny_match_to_dict m = [(''path'', JStr (dm_path m)), (''pattern'', JStr (dm_pattern m))]"

record policy_decision =
  pd_decision :: string
  pd_total :: nat
  pd_out_of_scope :: "string list"
  pd_deny_matches :: "deny_match list"
  pd_reasons :: "string list"

definition decision_to_dict :: "policy_decision \<Rightarrow> pydict" where
  "decision_to_dict d =
     [(''decision'', JStr (pd_decision d)), (''total_changes'', JInt (int (pd_total d))),
      (''out_of_scope'', jstrs (pd_out_of_scope d)),
      (''deny_matches'', JArr (map (\<lambda>m. JObj (deny_match_to_dict m)) (pd_deny_matches d))),
      (''reasons'', jstrs (pd_reasons d))]"

definition in_scope :: "string list \<Rightarrow> string \<Rightarrow> string \<Rightarrow> bool result" where
  "in_scope scopes kind cpath =
     bindR (anyR (\<lambda>scope. is_within cpath scope) scopes) (\<lambda>inside.
       if \<not> inside \<and> kind = ''dir'' then anyR (\<lambda>scope. is_within scope cpath) scopes
       else Inr inside)"

definition classify_step :: "string list \<Rightarrow> string list \<Rightarrow> alias_map \<Rightarrow> string list \<times> deny_match list \<Rightarrow>
    change \<Rightarrow> (string list \<times> deny_match list) result" where
  "classify_step scopes deny am acc c =
     bindR (canonicalize am (ch_path c)) (\<lambda>canonical.
     bindR (in_scope scopes (ch_kind c) canonical) (\<lambda>inside.
       Inr (if inside then fst acc else fst acc @ [canonical],
            case find (\<lambda>pattern. path_matches pattern canonical) deny of
              None \<Rightarrow> snd acc
            | Some pattern \<Rightarrow> snd acc @ [\<lparr>dm_path = ch_path c, dm_pattern = pattern\<rparr>])))"

definition classify :: "change list \<Rightarrow> policy_config \<Rightarrow> alias_map \<Rightarrow>
    (string list \<times> deny_match list) result" where
  "classify changes config am =
     bindR (net_final_changes changes (Some am)) (\<lambda>changes.
     bindR (mapR (canonicalize am) (pc_allowed_scopes config)) (\<lambda>scopes.
     foldR (classify_step scopes (pc_deny_patterns config @ pc_hide_patterns config) am) ([], []) changes))"

definition decide :: "policy_config \<Rightarrow> string list \<Rightarrow> deny_match list \<Rightarrow> string list \<Rightarrow> (string \<times> string list) result" where
  "decide config out_of_scope deny_matches reasons =
     (if pc_mode config = ''throwaway''
      then Inr (ABORT, reasons @ [''throwaway mode aborts at completion''])
      else if pc_mode config \<in> {''manual'', ''read-only-review''}
      then Inr (PENDING_REVIEW, reasons @ [pc_mode config @ '' mode always requires human review''])
      else if pc_mode config \<in> {''workspace-auto'', ''training-run''}
      then (if out_of_scope = [] \<and> deny_matches = []
            then Inr (AUTO_COMMIT, reasons @ [''all changes confined to allowed scopes''])
            else Inr (PENDING_REVIEW, reasons))
      else Inl (ValueError (''unknown policy mode '' @ pc_mode config)))"

definition base_reasons :: "string list \<Rightarrow> deny_match list \<Rightarrow> string list" where
  "base_reasons out_of_scope deny_matches =
     (if out_of_scope \<noteq> [] then [show_nat (length out_of_scope) @ '' change(s) outside allowed scopes''] else [])
     @ (if deny_matches \<noteq> [] then [show_nat (length deny_matches) @ '' change(s) matched deny/hide patterns''] else [])"

definition evaluate :: "change list \<Rightarrow> policy_config \<Rightarrow> alias_map \<Rightarrow> policy_decision result" where
  "evaluate changes config am =
     bindR (net_final_changes changes (Some am)) (\<lambda>changes.
       if changes = []
       then Inr \<lparr>pd_decision = NO_CHANGES, pd_total = 0, pd_out_of_scope = [], pd_deny_matches = [],
                pd_reasons = [''branch contains no changes'']\<rparr>
       else bindR (classify changes config am) (\<lambda>(out_of_scope, deny_matches).
         bindR (decide config out_of_scope deny_matches (base_reasons out_of_scope deny_matches)) (\<lambda>(decision, reasons).
              Inr \<lparr>pd_decision = decision, pd_total = length changes, pd_out_of_scope = out_of_scope,
                   pd_deny_matches = deny_matches, pd_reasons = reasons\<rparr>)))"

section \<open>The collapse agrees with a reference\<close>

text \<open>The keys in the order of their first occurrence, and the change that wins among those of one key.\<close>

definition first_occurrences :: "'a list \<Rightarrow> 'a list" where
  "first_occurrences ks = rev (remdups (rev ks))"

definition final_choice :: "change list \<Rightarrow> change" where
  "final_choice cs = (case find (\<lambda>c. ch_op c \<noteq> ''D'') cs of Some c \<Rightarrow> c | None \<Rightarrow> hd cs)"

definition net_reference :: "(change \<Rightarrow> change_id) \<Rightarrow> change list \<Rightarrow> change list" where
  "net_reference key changes =
     map (\<lambda>k. final_choice (filter (\<lambda>c. key c = k) changes)) (first_occurrences (map key changes))"

lemma set_first_occurrences [simp]: "set (first_occurrences ks) = set ks"
  by (simp add: first_occurrences_def)

lemma distinct_first_occurrences [simp]: "distinct (first_occurrences ks)"
  by (simp add: first_occurrences_def)

lemma first_occurrences_snoc:
  "first_occurrences (ks @ [k]) = (if k \<in> set ks then first_occurrences ks else first_occurrences ks @ [k])"
  by (simp add: first_occurrences_def)

lemma first_occurrences_distinct: "distinct ks \<Longrightarrow> first_occurrences ks = ks"
  by (induction ks rule: rev_induct) (auto simp: first_occurrences_snoc, simp add: first_occurrences_def)

lemma update_map_pairs:
  "distinct ks \<Longrightarrow> AList.update k v (map (\<lambda>k. (k, f k)) ks) =
     (if k \<in> set ks then map (\<lambda>k'. (k', if k' = k then v else f k')) ks
      else map (\<lambda>k. (k, f k)) ks @ [(k, v)])"
  by (induction ks) auto

lemma find_snoc: "find P (xs @ [x]) = (case find P xs of Some y \<Rightarrow> Some y | None \<Rightarrow> if P x then Some x else None)"
  by (induction xs) auto

lemma final_choice_single [simp]: "final_choice [c] = c"
  by (simp add: final_choice_def)

lemma find_hd: "find P cs = None \<Longrightarrow> cs \<noteq> [] \<Longrightarrow> \<not> P (hd cs)"
  by (cases cs) (auto split: if_splits)

lemma final_choice_snoc:
  assumes "cs \<noteq> []"
  shows "final_choice (cs @ [c]) = prefer_final_change (final_choice cs) c"
proof (cases "find (\<lambda>c. ch_op c \<noteq> ''D'') cs")
  case None
  with assms find_hd [OF None] show ?thesis
    by (simp add: final_choice_def prefer_final_change_def find_snoc)
next
  case (Some y)
  then have "ch_op y \<noteq> ''D''" by (auto simp: find_Some_iff)
  with Some show ?thesis by (simp add: final_choice_def prefer_final_change_def find_snoc)
qed

lemma net_loop_reference:
  "(\<And>c. c \<in> set changes \<Longrightarrow> change_key c am = Inr (key c)) \<Longrightarrow>
   foldR (net_step am) [] changes =
   Inr (map (\<lambda>k. (k, final_choice (filter (\<lambda>c. key c = k) changes))) (first_occurrences (map key changes)))"
proof (induction changes rule: rev_induct)
  case Nil
  then show ?case by (simp add: first_occurrences_def)
next
  case (snoc c cs)
  let ?f = "\<lambda>k. final_choice (filter (\<lambda>c. key c = k) cs)"
  let ?ks = "first_occurrences (map key cs)"
  have IH: "foldR (net_step am) [] cs = Inr (map (\<lambda>k. (k, ?f k)) ?ks)"
    using snoc by simp
  have get: "dict_get (map (\<lambda>k. (k, ?f k)) ?ks) (key c) = (if key c \<in> key ` set cs then Some (?f (key c)) else None)"
    by (auto simp: map_of_map_restrict restrict_map_def)
  have step: "foldR (net_step am) [] (cs @ [c]) = net_step am (map (\<lambda>k. (k, ?f k)) ?ks) c"
    by (simp add: foldR_append IH)
  have kc: "change_key c am = Inr (key c)" using snoc.prems by simp
  show ?case
  proof (cases "key c \<in> key ` set cs")
    case True
    then have "filter (\<lambda>x. key x = key c) cs \<noteq> []"
      by (auto simp: filter_empty_conv)
    then show ?thesis unfolding step using True
      by (simp add: net_step_def kc get first_occurrences_snoc update_map_pairs final_choice_snoc)
  next
    case False
    then have none: "filter (\<lambda>x. key x = key c) cs = []"
      by (simp add: filter_empty_conv) (metis imageI)
    then have other: "filter (\<lambda>x. key x = k) (cs @ [c]) = filter (\<lambda>x. key x = k) cs" if "k \<in> key ` set cs" for k
      using False that by auto
    have "map (\<lambda>k. (k, final_choice (filter (\<lambda>x. key x = k) (cs @ [c])))) ?ks = map (\<lambda>k. (k, ?f k)) ?ks"
      by (rule map_cong) (simp_all only: set_first_occurrences set_map other)
    then show ?thesis unfolding step using False none get
      by (simp add: net_step_def kc first_occurrences_snoc update_map_pairs)
  qed
qed

lemma net_final_changes_ref:
  "(\<And>c. c \<in> set changes \<Longrightarrow> change_key c am = Inr (key c)) \<Longrightarrow>
   net_final_changes changes am = Inr (net_reference key changes)"
  by (simp add: net_final_changes_def net_loop_reference net_reference_def comp_def)

definition net_key :: "alias_map \<Rightarrow> change \<Rightarrow> change_id" where
  "net_key am c = (ch_root c, canon_loop am (normpath (ch_path c)))"

lemma change_key_abs: "isabs (ch_path c) \<Longrightarrow> change_key c (Some am) = Inr (net_key am c)"
  by (simp add: change_key_def canonicalize_abs net_key_def)

lemma net_final_changes_abs:
  "\<forall>c\<in>set changes. isabs (ch_path c) \<Longrightarrow>
   net_final_changes changes (Some am) = Inr (net_reference (net_key am) changes)"
  by (intro net_final_changes_ref) (simp add: change_key_abs)

lemma final_choice_in: "cs \<noteq> [] \<Longrightarrow> final_choice cs \<in> set cs"
  by (auto simp: final_choice_def find_Some_iff split: option.splits)

lemma net_reference_member: "c \<in> set (net_reference key changes) \<Longrightarrow> c \<in> set changes"
proof -
  assume "c \<in> set (net_reference key changes)"
  then obtain k where k: "k \<in> key ` set changes" "c = final_choice (filter (\<lambda>c. key c = k) changes)"
    by (auto simp: net_reference_def)
  then have "filter (\<lambda>c. key c = k) changes \<noteq> []" by (auto simp: filter_empty_conv)
  with k final_choice_in [of "filter (\<lambda>c. key c = k) changes"] show ?thesis by auto
qed

lemma net_reference_keys: "map key (net_reference key changes) = first_occurrences (map key changes)"
proof -
  have "key (final_choice (filter (\<lambda>c. key c = k) changes)) = k" if "k \<in> key ` set changes" for k
  proof -
    from that have "filter (\<lambda>c. key c = k) changes \<noteq> []" by (auto simp: filter_empty_conv)
    then have "final_choice (filter (\<lambda>c. key c = k) changes) \<in> set (filter (\<lambda>c. key c = k) changes)"
      by (rule final_choice_in)
    then show ?thesis by simp
  qed
  then show ?thesis by (auto simp: net_reference_def intro!: map_idI)
qed

lemma net_reference_distinct: "distinct (map key changes) \<Longrightarrow> net_reference key changes = changes"
proof -
  assume d: "distinct (map key changes)"
  have "filter (\<lambda>c'. key c' = key c) changes = [c]" if "c \<in> set changes" for c
    using d that by (induction changes) (auto simp: filter_empty_conv image_iff)
  then have "map ((\<lambda>k. final_choice (filter (\<lambda>c. key c = k) changes)) \<circ> key) changes = changes"
    by (intro map_idI) (simp add: final_choice_def)
  then show ?thesis using d by (simp add: net_reference_def first_occurrences_distinct)
qed

lemma net_reference_Nil [simp]: "net_reference key changes = [] \<longleftrightarrow> changes = []"
  by (cases changes) (auto simp: net_reference_def first_occurrences_def)

lemma net_reference_idem: "net_reference key (net_reference key changes) = net_reference key changes"
  by (rule net_reference_distinct) (simp add: net_reference_keys)

section \<open>Ignored and visible changes\<close>

text \<open>The ignore test without exceptions, for an absolute path.\<close>

lemma first_ignore_member: "first_ignore ps p = Inr (Some q) \<Longrightarrow> q \<in> set ps"
  by (induction ps) (auto simp: bindR_eq_Inr split: if_splits)

lemma first_ignore_ok:
  assumes "isabs p"
  shows "\<exists>r. first_ignore ps p = Inr r"
proof (induction ps)
  case (Cons q ps)
  show ?case
  proof (cases "startswith q ''/''")
    case True
    then have "isabs q" by (simp add: isabs_def)
    with assms obtain b where "is_within p q = Inr b" using is_within_total by blast
    with Cons show ?thesis by auto
  next
    case False
    with Cons show ?thesis by auto
  qed
qed simp

lemma ignore_pattern_ok:
  assumes "alias_map_ok am" "isabs p"
  shows "\<exists>r. ignore_pattern_for_path p config am = Inr r"
proof (cases "pc_ignore_patterns config = []")
  case False
  obtain q where q: "canonicalize am p = Inr q" using assms(2) by (auto simp: canonicalize_abs)
  with assms(1) have "isabs q" by (rule canonicalize_isabs)
  with q False show ?thesis by (simp add: ignore_pattern_for_path_def first_ignore_ok)
qed (simp add: ignore_pattern_for_path_def)

lemma split_loop:
  "foldR (split_step config am) (vis0, ign0) changes = Inr (vis, ign) \<Longrightarrow>
   vis = vis0 @ filter (\<lambda>c. ignore_pattern_for_path (ch_path c) config am = Inr None) changes \<and>
   (\<exists>new. ign = ign0 @ new \<and>
      map ig_change new = filter (\<lambda>c. ignore_pattern_for_path (ch_path c) config am \<noteq> Inr None) changes \<and>
      (\<forall>i\<in>set new. ignore_pattern_for_path (ch_path (ig_change i)) config am = Inr (Some (ig_pattern i))))"
proof (induction changes arbitrary: vis0 ign0)
  case (Cons c cs)
  then obtain q where q: "ignore_pattern_for_path (ch_path c) config am = Inr q"
    by (auto simp: split_step_def bindR_eq_Inr)
  show ?case
  proof (cases q)
    case None
    with q have "split_step config am (vis0, ign0) c = Inr (vis0 @ [c], ign0)"
      by (simp add: split_step_def)
    with Cons.prems have "foldR (split_step config am) (vis0 @ [c], ign0) cs = Inr (vis, ign)"
      by simp
    from Cons.IH [OF this] q None show ?thesis by simp
  next
    case (Some p)
    with q have "split_step config am (vis0, ign0) c = Inr (vis0, ign0 @ [\<lparr>ig_change = c, ig_pattern = p\<rparr>])"
      by (simp add: split_step_def)
    with Cons.prems have "foldR (split_step config am)
        (vis0, ign0 @ [\<lparr>ig_change = c, ig_pattern = p\<rparr>]) cs = Inr (vis, ign)"
      by simp
    from Cons.IH [OF this] obtain new where
      "vis = vis0 @ filter (\<lambda>c. ignore_pattern_for_path (ch_path c) config am = Inr None) cs"
      "ign = (ign0 @ [\<lparr>ig_change = c, ig_pattern = p\<rparr>]) @ new"
      "map ig_change new = filter (\<lambda>c. ignore_pattern_for_path (ch_path c) config am \<noteq> Inr None) cs"
      "\<forall>i\<in>set new. ignore_pattern_for_path (ch_path (ig_change i)) config am = Inr (Some (ig_pattern i))"
      by blast
    then show ?thesis using q Some
      by (intro conjI exI [of _ "\<lparr>ig_change = c, ig_pattern = p\<rparr> # new"]) auto
  qed
qed simp

lemma split_ignored_ok:
  assumes "alias_map_ok am" "\<forall>c\<in>set changes. isabs (ch_path c)"
  shows "\<exists>r. split_ignored changes config am = Inr r"
proof -
  have net: "net_final_changes changes (Some am) = Inr (net_reference (net_key am) changes)"
    using assms(2) by (rule net_final_changes_abs)
  have "\<exists>r. foldR (split_step config am) acc cs = Inr r" if "set cs \<subseteq> set changes" for acc cs
    using that
  proof (induction cs arbitrary: acc)
    case (Cons c cs)
    with assms ignore_pattern_ok obtain r where
      "ignore_pattern_for_path (ch_path c) config am = Inr r" by fastforce
    with Cons show ?case by (cases r) (auto simp: split_step_def)
  qed simp
  moreover have "set (net_reference (net_key am) changes) \<subseteq> set changes"
    using net_reference_member by blast
  ultimately show ?thesis by (simp add: split_ignored_def net)
qed

section \<open>Classification\<close>

lemma in_scope_ok:
  assumes "isabs cpath" "\<forall>s\<in>set scopes. isabs s"
  shows "\<exists>b. in_scope scopes kind cpath = Inr b"
proof -
  have within: "is_within p q = Inr (the (case is_within p q of Inr b \<Rightarrow> Some b | Inl _ \<Rightarrow> None))"
    if "isabs p" "isabs q" for p q using is_within_total [OF that] by (auto split: sum.splits)
  have "\<exists>b. anyR (\<lambda>s. is_within cpath s) scopes = Inr b"
    using anyR_total [where f = "\<lambda>s. is_within cpath s", OF within] assms by blast
  moreover have "\<exists>b. anyR (\<lambda>s. is_within s cpath) scopes = Inr b"
    using anyR_total [where f = "\<lambda>s. is_within s cpath", OF within] assms by blast
  ultimately show ?thesis by (auto simp: in_scope_def)
qed

text \<open>What one change contributes: nothing exactly when it is in scope and matches no deny pattern.\<close>

definition change_clean :: "string list \<Rightarrow> string list \<Rightarrow> alias_map \<Rightarrow> change \<Rightarrow> bool" where
  "change_clean scopes deny am c \<longleftrightarrow>
     (\<exists>p. canonicalize am (ch_path c) = Inr p \<and> in_scope scopes (ch_kind c) p = Inr True \<and>
          (\<forall>d\<in>set deny. \<not> path_matches d p))"

lemma classify_step_mono:
  "classify_step scopes deny am acc c = Inr acc' \<Longrightarrow>
   (fst acc \<noteq> [] \<or> snd acc \<noteq> []) \<Longrightarrow> (fst acc' \<noteq> [] \<or> snd acc' \<noteq> [])"
  by (auto simp: classify_step_def bindR_eq_Inr split: if_splits option.splits)

lemma find_hit: "find P xs = Some y \<Longrightarrow> \<exists>x\<in>set xs. P x"
  by (auto simp: find_Some_iff)

lemma classify_step_clean:
  "classify_step scopes deny am ([], []) c = Inr acc' \<Longrightarrow>
   acc' = ([], []) \<longleftrightarrow> change_clean scopes deny am c"
  by (auto simp: classify_step_def change_clean_def bindR_eq_Inr find_None_iff
      split: if_splits option.splits dest: find_hit)

lemma classify_loop_clean:
  "foldR (classify_step scopes deny am) ([], []) cs = Inr acc \<Longrightarrow>
   acc = ([], []) \<longleftrightarrow> (\<forall>c\<in>set cs. change_clean scopes deny am c)"
proof (induction cs arbitrary: acc)
  case (Cons c cs)
  then obtain acc1 where s: "classify_step scopes deny am ([], []) c = Inr acc1"
    "foldR (classify_step scopes deny am) acc1 cs = Inr acc"
    by (auto simp: bindR_eq_Inr)
  show ?case
  proof (cases "acc1 = ([], [])")
    case True
    with s Cons.IH [of acc] classify_step_clean [OF s(1)] show ?thesis by simp
  next
    case False
    then have "fst acc1 \<noteq> [] \<or> snd acc1 \<noteq> []" by (cases acc1) auto
    then have "fst acc \<noteq> [] \<or> snd acc \<noteq> []"
      by (rule foldR_invariant [OF s(2)]) (auto dest: classify_step_mono)
    with False classify_step_clean [OF s(1)] show ?thesis by auto
  qed
qed simp

lemma classify_ok:
  assumes "alias_map_ok am" "\<forall>c\<in>set changes. isabs (ch_path c)"
    and "\<forall>s\<in>set (pc_allowed_scopes config). isabs s"
  shows "\<exists>r. classify changes config am = Inr r"
proof -
  let ?scopes = "map (\<lambda>s. canon_loop am (normpath s)) (pc_allowed_scopes config)"
  have net: "net_final_changes changes (Some am) = Inr (net_reference (net_key am) changes)"
    using assms(2) by (rule net_final_changes_abs)
  have scopes: "mapR (canonicalize am) (pc_allowed_scopes config) = Inr ?scopes"
    by (rule mapR_total) (use assms(3) canonicalize_abs in blast)
  have abs: "\<forall>s\<in>set ?scopes. isabs s"
    using assms canonicalize_isabs canonicalize_abs by fastforce
  have "\<exists>r. foldR (classify_step ?scopes deny am) acc cs = Inr r"
    if "set cs \<subseteq> set changes" for acc cs deny
    using that
  proof (induction cs arbitrary: acc)
    case (Cons c cs)
    then obtain p where p: "canonicalize am (ch_path c) = Inr p" "isabs p"
      using assms canonicalize_abs canonicalize_isabs by (metis list.set_intros(1) subsetD)
    obtain b where "in_scope ?scopes (ch_kind c) p = Inr b" using in_scope_ok [OF p(2) abs] by blast
    with p Cons show ?case by (simp add: classify_step_def)
  qed simp
  moreover have "set (net_reference (net_key am) changes) \<subseteq> set changes"
    using net_reference_member by blast
  ultimately show ?thesis by (simp add: classify_def net scopes)
qed

section \<open>Properties\<close>

text \<open>Collapsing raw status entries agrees with a reference: for absolute change paths,
  \<open>net_final_changes\<close> never raises and returns one change per (root, canonical path), in the
  order of first occurrence; the change is the first non-delete entry of that path, or its
  first tombstone when every entry is a delete.\<close>

theorem net_final_changes_reference:
  assumes "\<forall>c\<in>set changes. isabs (ch_path c)"
  shows "net_final_changes changes (Some am) = Inr (net_reference (net_key am) changes)"
  using assms by (rule net_final_changes_abs)

definition sample_change :: "string \<Rightarrow> string \<Rightarrow> change" where
  "sample_change op path = \<lparr>ch_op = op, ch_path = path, ch_kind = ''file'', ch_bytes = 1,
     ch_root = ''r'', ch_summary = []\<rparr>"

theorem net_final_changes_reference_witness:
  "net_final_changes [sample_change ''D'' ''/w/a'', sample_change ''A'' ''/w/b'', sample_change ''M'' ''/w/./a'']
     (Some []) = Inr [sample_change ''M'' ''/w/./a'', sample_change ''A'' ''/w/b'']"
proof -
  have h: "\<forall>c\<in>set [sample_change ''D'' ''/w/a'', sample_change ''A'' ''/w/b'', sample_change ''M'' ''/w/./a''].
    isabs (ch_path c)" by (simp add: sample_change_def)
  show ?thesis unfolding net_final_changes_reference [OF h] by code_simp
qed

text \<open>What the two forms of literal pattern match: a pattern without a slash and without glob
  characters matches exactly the paths that have it as a component.\<close>

theorem path_matches_component:
  assumes "plain pat" "sep \<notin> set pat"
  shows "path_matches pat p \<longleftrightarrow> pat \<in> set (split_on sep (strip_char sep p))"
  using assms by (auto simp: path_matches_def list_ex_iff fnmatch_plain)

theorem path_matches_component_witness:
  "path_matches ''.ssh'' ''/home/u/.ssh/id'' \<and> \<not> path_matches ''.ssh'' ''/home/u/x.ssh/id''"
proof -
  have h: "plain ''.ssh''" "sep \<notin> set ''.ssh''" by code_simp+
  show ?thesis unfolding path_matches_component [OF h] by code_simp
qed

text \<open>A literal pattern with a slash (and no leading one) matches exactly the paths that contain
  its components as a whole sequence, at the end or followed by more components: a match
  is closed under going below, and respects component boundaries on both sides.\<close>

theorem path_matches_sequence:
  assumes "plain pat" "sep \<in> set pat" "\<not> startswith pat ''/''"
  shows "path_matches pat p \<longleftrightarrow>
    (\<exists>before after. p = before @ ''/'' @ pat @ after \<and> (after = [] \<or> startswith after ''/''))"
proof -
  have e1: "fnmatchcase p (''*'' @ (''/'' @ pat)) \<longleftrightarrow> endswith p (''/'' @ pat)"
    by (rule fnmatch_star_plain) (simp only: plain_append plain_slash assms(1) simp_thms)
  have e2: "fnmatchcase p (''*'' @ (''/'' @ pat @ ''/'') @ ''*'') \<longleftrightarrow>
      (\<exists>b a. p = b @ (''/'' @ pat @ ''/'') @ a)"
    by (rule fnmatch_star_plain_star) (simp only: plain_append plain_slash assms(1) simp_thms)
  have "path_matches pat p \<longleftrightarrow>
      endswith p (''/'' @ pat) \<or> (\<exists>b a. p = b @ (''/'' @ pat @ ''/'') @ a)"
    using assms(2,3) unfolding e1 [symmetric] e2 [symmetric] by (simp add: path_matches_def)
  also have "\<dots> \<longleftrightarrow> (\<exists>before after. p = before @ ''/'' @ pat @ after \<and> (after = [] \<or> startswith after ''/''))"
    (is "?L = ?R")
  proof
    assume ?L
    then show ?R
    proof
      assume "endswith p (''/'' @ pat)"
      then obtain b where "p = b @ ''/'' @ pat @ []" by (auto simp: suffix_def)
      then show ?R by blast
    next
      assume "\<exists>b a. p = b @ (''/'' @ pat @ ''/'') @ a"
      then obtain b a where "p = b @ ''/'' @ pat @ (''/'' @ a)" by auto
      then show ?R by (metis prefixI)
    qed
  next
    assume ?R
    then obtain b a where p: "p = b @ ''/'' @ pat @ a" and a: "a = [] \<or> startswith a ''/''" by blast
    from a show ?L
    proof
      assume "a = []"
      with p show ?L by (metis append_Nil2 suffixI)
    next
      assume "startswith a ''/''"
      then obtain a' where "a = ''/'' @ a'" by (rule prefixE)
      with p have "p = b @ (''/'' @ pat @ ''/'') @ a'" by (simp only: append_assoc)
      then show ?L by blast
    qed
  qed
  finally show ?thesis .
qed

theorem path_matches_sequence_witness:
  "path_matches ''.git/hooks'' ''/w/.git/hooks/pre-commit'' \<and> \<not> path_matches ''.git/hooks'' ''/w/.git/hooks2''"
proof -
  have h: "plain ''.git/hooks''" "sep \<in> set ''.git/hooks''" "\<not> startswith ''.git/hooks'' ''/''" by code_simp+
  have "path_matches ''.git/hooks'' ''/w/.git/hooks/pre-commit''"
    unfolding path_matches_sequence [OF h]
    by (intro exI [of _ "''/w''"] exI [of _ "''/pre-commit''"]) (simp add: prefix_def)
  moreover have "\<not> path_matches ''.git/hooks'' ''/w/.git/hooks2''" by code_simp
  ultimately show ?thesis ..
qed

text \<open>Ignoring is a partition: when \<open>split_ignored\<close> returns, the visible changes are the net
  changes no ignore pattern matches, the ignored ones are exactly the rest in the same order,
  and each carries the pattern that was found for its path, one of the configured patterns.\<close>

theorem split_ignored_partition:
  assumes "split_ignored changes config am = Inr (visible, ignored)"
  shows "\<exists>net. net_final_changes changes (Some am) = Inr net \<and>
    visible = filter (\<lambda>c. ignore_pattern_for_path (ch_path c) config am = Inr None) net \<and>
    map ig_change ignored = filter (\<lambda>c. ignore_pattern_for_path (ch_path c) config am \<noteq> Inr None) net \<and>
    (\<forall>i\<in>set ignored. ignore_pattern_for_path (ch_path (ig_change i)) config am = Inr (Some (ig_pattern i)) \<and>
       ig_pattern i \<in> set (pc_ignore_patterns config))"
proof -
  obtain net where net: "net_final_changes changes (Some am) = Inr net"
    and loop: "foldR (split_step config am) ([], []) net = Inr (visible, ignored)"
    using assms by (auto simp: split_ignored_def bindR_eq_Inr)
  have "ignore_pattern_for_path p config am = Inr (Some q) \<Longrightarrow> q \<in> set (pc_ignore_patterns config)" for p q
    by (auto simp: ignore_pattern_for_path_def bindR_eq_Inr split: if_splits dest: first_ignore_member)
  with split_loop [OF loop] net show ?thesis by auto
qed

definition sample_config :: "string \<Rightarrow> policy_config" where
  "sample_config mode = \<lparr>pc_mode = mode, pc_allowed_scopes = [''/w''], pc_deny_patterns = [''.ssh''],
     pc_hide_patterns = [], pc_max_repair = 2, pc_ignore_patterns = [''.cache'', ''/w/tmp'']\<rparr>"

theorem split_ignored_partition_witness:
  "split_ignored [sample_change ''A'' ''/w/a'', sample_change ''A'' ''/w/.cache/x'', sample_change ''A'' ''/w/tmp/y'']
     (sample_config ''manual'') [] =
   Inr ([sample_change ''A'' ''/w/a''],
        [\<lparr>ig_change = sample_change ''A'' ''/w/.cache/x'', ig_pattern = ''.cache''\<rparr>,
         \<lparr>ig_change = sample_change ''A'' ''/w/tmp/y'', ig_pattern = ''/w/tmp''\<rparr>])
   \<and> ''/w/tmp'' \<in> set (pc_ignore_patterns (sample_config ''manual''))"
proof -
  have h: "split_ignored [sample_change ''A'' ''/w/a'', sample_change ''A'' ''/w/.cache/x'', sample_change ''A'' ''/w/tmp/y'']
     (sample_config ''manual'') [] =
   Inr ([sample_change ''A'' ''/w/a''],
        [\<lparr>ig_change = sample_change ''A'' ''/w/.cache/x'', ig_pattern = ''.cache''\<rparr>,
         \<lparr>ig_change = sample_change ''A'' ''/w/tmp/y'', ig_pattern = ''/w/tmp''\<rparr>])"
    by code_simp
  from split_ignored_partition [OF h] h show ?thesis by fastforce
qed

definition config_ok :: "policy_config \<Rightarrow> bool" where
  "config_ok config \<longleftrightarrow> pc_mode config \<in> set MODES \<and> (\<forall>s\<in>set (pc_allowed_scopes config). isabs s)"

definition decision_of :: "policy_config \<Rightarrow> bool \<Rightarrow> string" where
  "decision_of config clean =
     (if pc_mode config = ''throwaway'' then ABORT
      else if pc_mode config \<in> {''manual'', ''read-only-review''} then PENDING_REVIEW
      else if clean then AUTO_COMMIT else PENDING_REVIEW)"

lemma decide_mode:
  "pc_mode config \<in> set MODES \<Longrightarrow>
   \<exists>rs. decide config oos deny reasons = Inr (decision_of config (oos = [] \<and> deny = []), rs)"
  by (auto simp: decide_def decision_of_def MODES_def)

lemma evaluate_cases:
  assumes "alias_map_ok am" "config_ok config" "\<forall>c\<in>set changes. isabs (ch_path c)" "changes \<noteq> []"
  shows "\<exists>scopes d. mapR (canonicalize am) (pc_allowed_scopes config) = Inr scopes \<and>
    evaluate changes config am = Inr d \<and>
    pd_decision d = decision_of config (\<forall>c\<in>set (net_reference (net_key am) changes).
        change_clean scopes (pc_deny_patterns config @ pc_hide_patterns config) am c)"
proof -
  let ?net = "net_reference (net_key am) changes"
  have mode: "pc_mode config \<in> set MODES" and scope_abs: "\<forall>s\<in>set (pc_allowed_scopes config). isabs s"
    using assms(2) by (simp_all add: config_ok_def)
  have net: "net_final_changes changes (Some am) = Inr ?net"
    using assms(3) by (rule net_final_changes_abs)
  have mem: "\<forall>c\<in>set ?net. isabs (ch_path c)" using assms(3) net_reference_member by blast
  have net2: "net_final_changes ?net (Some am) = Inr ?net"
    using net_final_changes_abs [OF mem] by (simp add: net_reference_idem)
  obtain oos deny where r: "classify ?net config am = Inr (oos, deny)"
    using classify_ok [OF assms(1) mem scope_abs] by (metis surj_pair)
  obtain scopes where sc: "mapR (canonicalize am) (pc_allowed_scopes config) = Inr scopes"
    and loop: "foldR (classify_step scopes (pc_deny_patterns config @ pc_hide_patterns config) am) ([], []) ?net = Inr (oos, deny)"
    using r by (auto simp: classify_def net2 bindR_eq_Inr)
  have clean: "(oos = [] \<and> deny = []) \<longleftrightarrow> (\<forall>c\<in>set ?net.
        change_clean scopes (pc_deny_patterns config @ pc_hide_patterns config) am c)"
    using classify_loop_clean [OF loop] by simp
  obtain rs where "decide config oos deny (base_reasons oos deny) = Inr (decision_of config (oos = [] \<and> deny = []), rs)"
    using decide_mode [OF mode] by blast
  then have "\<exists>d. evaluate changes config am = Inr d \<and> pd_decision d = decision_of config (oos = [] \<and> deny = [])"
    using assms(4) by (simp add: evaluate_def net r)
  with sc clean show ?thesis by auto
qed

text \<open>C38. The commit gate: for a well-formed policy and absolute paths \<open>evaluate\<close> never raises, and
  it decides to commit automatically exactly when the mode is one of the two automatic ones,
  there is a change, and every net change is clean: inside an allowed scope (or a directory
  above one) and matched by no deny or hide pattern.\<close>

theorem evaluate_auto_commit:
  assumes "alias_map_ok am" "config_ok config" "\<forall>c\<in>set changes. isabs (ch_path c)"
  shows "\<exists>d scopes. evaluate changes config am = Inr d \<and>
    mapR (canonicalize am) (pc_allowed_scopes config) = Inr scopes \<and>
    (pd_decision d = AUTO_COMMIT \<longleftrightarrow>
       pc_mode config \<in> {''workspace-auto'', ''training-run''} \<and> changes \<noteq> [] \<and>
       (\<forall>c\<in>set (net_reference (net_key am) changes).
          change_clean scopes (pc_deny_patterns config @ pc_hide_patterns config) am c))"
proof (cases "changes = []")
  case True
  have "mapR (canonicalize am) (pc_allowed_scopes config)
      = Inr (map (\<lambda>s. canon_loop am (normpath s)) (pc_allowed_scopes config))"
    by (rule mapR_total) (use assms(2) in \<open>auto simp: config_ok_def canonicalize_abs\<close>)
  moreover have "net_final_changes changes (Some am) = Inr []"
    by (simp add: True net_final_changes_def)
  ultimately show ?thesis
    using True by (simp add: evaluate_def NO_CHANGES_def AUTO_COMMIT_def)
next
  case False
  have "pc_mode config \<in> set MODES" using assms(2) by (simp add: config_ok_def)
  then have auto: "decision_of config b = AUTO_COMMIT \<longleftrightarrow> pc_mode config \<in> {''workspace-auto'', ''training-run''} \<and> b" for b
    by (auto simp: decision_of_def MODES_def AUTO_COMMIT_def ABORT_def PENDING_REVIEW_def)
  from evaluate_cases [OF assms False] obtain scopes d where
    "mapR (canonicalize am) (pc_allowed_scopes config) = Inr scopes" "evaluate changes config am = Inr d"
    "pd_decision d = decision_of config (\<forall>c\<in>set (net_reference (net_key am) changes).
        change_clean scopes (pc_deny_patterns config @ pc_hide_patterns config) am c)" by blast
  with auto False show ?thesis by simp
qed

theorem evaluate_auto_commit_witness:
  "\<exists>d. evaluate [sample_change ''A'' ''/w/a''] (sample_config ''workspace-auto'') [] = Inr d \<and>
       pd_decision d = AUTO_COMMIT"
proof -
  have h: "alias_map_ok []" "config_ok (sample_config ''workspace-auto'')"
    "\<forall>c\<in>set [sample_change ''A'' ''/w/a'']. isabs (ch_path c)"
    by (simp_all add: alias_map_ok_def config_ok_def sample_config_def MODES_def sample_change_def)
  have e: "evaluate [sample_change ''A'' ''/w/a''] (sample_config ''workspace-auto'') [] =
      Inr \<lparr>pd_decision = AUTO_COMMIT, pd_total = 1, pd_out_of_scope = [], pd_deny_matches = [],
           pd_reasons = [''all changes confined to allowed scopes'']\<rparr>" by code_simp
  from evaluate_auto_commit [OF h] show ?thesis unfolding e by auto
qed

text \<open>The modes that need a human never commit by themselves: whatever the changes, a decision in
  mode manual or read-only-review is review (or no-changes for an empty set), a decision in
  mode throwaway is abort (or no-changes); no exception is raised for absolute paths.\<close>

theorem evaluate_mode_gate:
  assumes "alias_map_ok am" "config_ok config" "\<forall>c\<in>set changes. isabs (ch_path c)"
    and "pc_mode config \<in> {''manual'', ''read-only-review'', ''throwaway''}"
  shows "\<exists>d. evaluate changes config am = Inr d \<and>
    pd_decision d = (if changes = [] then NO_CHANGES
                     else if pc_mode config = ''throwaway'' then ABORT else PENDING_REVIEW)"
proof (cases "changes = []")
  case True
  then show ?thesis by (simp add: evaluate_def net_final_changes_def)
next
  case False
  from evaluate_cases [OF assms(1-3) False] obtain d b where
    "evaluate changes config am = Inr d" "pd_decision d = decision_of config b" by blast
  with assms(4) False show ?thesis by (auto simp: decision_of_def)
qed

theorem evaluate_mode_gate_witness:
  "\<exists>d. evaluate [sample_change ''A'' ''/w/a''] (sample_config ''manual'') [] = Inr d \<and>
       pd_decision d = PENDING_REVIEW"
proof -
  have h: "alias_map_ok []" "config_ok (sample_config ''manual'')"
    "\<forall>c\<in>set [sample_change ''A'' ''/w/a'']. isabs (ch_path c)"
    "pc_mode (sample_config ''manual'') \<in> {''manual'', ''read-only-review'', ''throwaway''}"
    by (simp_all add: alias_map_ok_def config_ok_def sample_config_def MODES_def sample_change_def)
  from evaluate_mode_gate [OF h] show ?thesis by (simp add: sample_config_def)
qed

end
