(* ===== verification/Contracts.thy ===== *)
theory Contracts
  imports Prelude
begin

text \<open>
  Two interfaces several components share.  \<open>lifecycle\<close>: an object moves through named states
  along a table of edges (the session and the delta route).  \<open>keyed_store\<close>: records are saved
  under their key and read back (the session store and the route table of a session).
\<close>

section \<open>Life cycles\<close>

definition successors :: "(string \<times> string list) list \<Rightarrow> string \<Rightarrow> string list" where
  "successors edges s = (case map_of edges s of None \<Rightarrow> [] | Some ss \<Rightarrow> ss)"

definition closed_states :: "(string \<times> string list) list \<Rightarrow> string set \<Rightarrow> bool" where
  "closed_states edges S \<longleftrightarrow> (\<forall>s\<in>S. set (successors edges s) \<subseteq> S)"

locale lifecycle =
  fixes step :: "'a \<Rightarrow> 'a \<Rightarrow> bool" and state :: "'a \<Rightarrow> string" and edges :: "(string \<times> string list) list"
  assumes step_edge: "step a b \<Longrightarrow> state b = state a \<or> state b \<in> set (successors edges (state a))"
begin

lemma run_stays:
  assumes "step\<^sup>*\<^sup>* a b" "closed_states edges S" "state a \<in> S"
  shows "state b \<in> S"
  using assms(1,3)
proof (induction rule: rtranclp_induct)
  case (step b c)
  then show ?case using step_edge [of b c] assms(2) by (auto simp: closed_states_def)
qed

lemma run_final: "step\<^sup>*\<^sup>* a b \<Longrightarrow> successors edges (state a) = [] \<Longrightarrow> state b = state a"
  using run_stays [of a b "{state a}"] by (simp add: closed_states_def)

text \<open>A state that only one other state leads to is entered from it.\<close>

lemma run_enters:
  assumes "step\<^sup>*\<^sup>* a b" "state b = target" "state a \<noteq> target"
  shows "\<exists>c d. step\<^sup>*\<^sup>* a c \<and> step c d \<and> step\<^sup>*\<^sup>* d b \<and> state c \<noteq> target \<and> state d = target \<and>
     target \<in> set (successors edges (state c))"
  using assms(1,2)
proof (induction rule: rtranclp_induct)
  case base
  then show ?case using assms(3) by simp
next
  case (step b c)
  show ?case
  proof (cases "state b = target")
    case True
    then obtain x y where "step\<^sup>*\<^sup>* a x" "step x y" "step\<^sup>*\<^sup>* y b" "state x \<noteq> target" "state y = target"
      "target \<in> set (successors edges (state x))" using step.IH by blast
    moreover from this(3) step.hyps(2) have "step\<^sup>*\<^sup>* y c" by (rule rtranclp.rtrancl_into_rtrancl)
    ultimately show ?thesis by blast
  next
    case False
    then show ?thesis using step step_edge [of b c] by auto
  qed
qed

end

section \<open>Keyed stores\<close>

locale keyed_store =
  fixes save :: "'a \<Rightarrow> 'r \<Rightarrow> 'r" and load :: "'r \<Rightarrow> string \<Rightarrow> 'a result"
    and key :: "'a \<Rightarrow> string" and storable :: "'a \<Rightarrow> bool"
  assumes load_save: "storable x \<Longrightarrow> load (save x r) (key x) = Inr x"
    and load_other: "k \<noteq> key x \<Longrightarrow> load (save x r) k = load r k"
begin

text \<open>After any sequence of saves a key reads as the last record saved under it.\<close>

lemma load_saves:
  assumes "\<forall>x\<in>set xs. storable x"
  shows "load (fold save xs r) k = (case find (\<lambda>x. key x = k) (rev xs) of None \<Rightarrow> load r k | Some x \<Rightarrow> Inr x)"
  using assms
proof (induction xs rule: rev_induct)
  case (snoc x xs)
  then show ?case by (cases "key x = k") (auto simp: load_save load_other)
qed simp

lemma load_update:
  "storable x \<Longrightarrow> load (save x r) k = (if k = key x then Inr x else load r k)"
  by (simp add: load_save load_other)

end

end
