(* ===== verification/Session.thy ===== *)
theory Session
  imports Paths Contracts
begin

text \<open>
  The module \<open>session.py\<close>: agent kinds, protected roots, the session record with its state
  machine, its JSON form, and the session store.  The clock (\<open>utc_now()\<close>) is an argument.
  A stored \<open>session.json\<close> is represented by the JSON value it holds; reading a field at
  another type than the code uses it with raises \<open>TypeError\<close>.
\<close>

section \<open>Agent kinds\<close>

definition REMOTE_AGENT_SUFFIX :: string where "REMOTE_AGENT_SUFFIX = ''-remote''"
definition REMOTE_BRIDGE_SUFFIX :: string where "REMOTE_BRIDGE_SUFFIX = ''-remote-bridge''"

definition remote_agent_kind :: "string \<Rightarrow> string" where
  "remote_agent_kind kind =
     (if endswith kind REMOTE_BRIDGE_SUFFIX then take (length kind - length ''-bridge'') kind
      else if endswith kind REMOTE_AGENT_SUFFIX then kind
      else kind @ REMOTE_AGENT_SUFFIX)"

definition remote_bridge_agent_kind :: "string \<Rightarrow> string" where
  "remote_bridge_agent_kind kind =
     (if endswith kind REMOTE_BRIDGE_SUFFIX then kind else remote_agent_kind kind @ ''-bridge'')"

section \<open>Protected roots\<close>

record protected_root =
  pr_name :: string
  pr_base :: string
  pr_store :: string
  pr_branch :: string
  pr_mount :: string
  pr_visible :: string
  pr_home_subdir :: "string option"
  pr_hide_paths :: "string list"

definition root_to_dict :: "protected_root \<Rightarrow> pydict" where
  "root_to_dict r =
     [(''name'', JStr (pr_name r)), (''base'', JStr (pr_base r)), (''store'', JStr (pr_store r)),
      (''branch'', JStr (pr_branch r)), (''mount'', JStr (pr_mount r)),
      (''visible'', JStr (pr_visible r)), (''hide_paths'', jstrs (pr_hide_paths r))]
     @ (case pr_home_subdir r of None \<Rightarrow> [] | Some h \<Rightarrow> [(''home_subdir'', JStr h)])"

definition str_field :: "pydict \<Rightarrow> string \<Rightarrow> string result" where
  "str_field d k = bindR (get_item d k) as_str"

fun opt_str :: "json \<Rightarrow> string option result" where
  "opt_str JNull = Inr None"
| "opt_str v = bindR (as_str v) (\<lambda>s. Inr (Some s))"

definition root_from_dict :: "pydict \<Rightarrow> protected_root result" where
  "root_from_dict d =
     bindR (str_field d ''name'') (\<lambda>name.
     bindR (str_field d ''base'') (\<lambda>base.
     bindR (str_field d ''store'') (\<lambda>store.
     bindR (str_field d ''branch'') (\<lambda>branch.
     bindR (str_field d ''mount'') (\<lambda>mount.
     bindR (str_field d ''visible'') (\<lambda>visible.
     bindR (opt_str (get_default d ''home_subdir'' JNull)) (\<lambda>home.
     bindR (as_strs (get_default d ''hide_paths'' (JArr []))) (\<lambda>hide.
     Inr \<lparr>pr_name = name, pr_base = base, pr_store = store, pr_branch = branch, pr_mount = mount,
          pr_visible = visible, pr_home_subdir = home, pr_hide_paths = hide\<rparr>))))))))"

section \<open>Sessions\<close>

definition STATES :: "string list" where
  "STATES = [''created'', ''mounting'', ''running'', ''finalizing'', ''frozen'', ''auto-committed'',
             ''pending-review'', ''committed'', ''aborted'', ''failed'']"

definition TERMINAL_STATES :: "string list" where
  "TERMINAL_STATES = [''auto-committed'', ''committed'', ''aborted'', ''failed'']"

definition TRANSITIONS :: "(string, string list) dict" where
  "TRANSITIONS =
    [(''created'', [''mounting'', ''aborted'', ''failed'']),
     (''mounting'', [''running'', ''aborted'', ''failed'']),
     (''running'', [''finalizing'', ''aborted'', ''failed'']),
     (''finalizing'', [''frozen'', ''aborted'', ''failed'']),
     (''frozen'', [''auto-committed'', ''pending-review'', ''committed'', ''aborted'', ''failed'']),
     (''pending-review'', [''committed'', ''aborted'', ''running'', ''failed'']),
     (''auto-committed'', []),
     (''committed'', []),
     (''aborted'', [''running'']),
     (''failed'', [''running''])]"

record session =
  s_id :: string
  s_owner :: string
  s_agent_kind :: string
  s_agent_command :: "string list"
  s_workspace :: "string option"
  s_policy :: pydict
  s_roots :: "(string, protected_root) dict"
  s_state :: string
  s_created_at :: string
  s_finished_at :: "string option"
  s_exit_status :: "int option"
  s_completion :: string
  s_events :: "json list"
  s_repair_attempts :: int
  s_workspace_state_version :: int
  s_auth_sessions :: pydict
  s_delta_routes :: pydict

definition is_remote_bridge :: "session \<Rightarrow> bool" where
  "is_remote_bridge s \<longleftrightarrow> endswith (s_agent_kind s) REMOTE_BRIDGE_SUFFIX"

text \<open>\<open>not self.finished_at\<close>: unset or empty.\<close>

definition str_unset :: "string option \<Rightarrow> bool" where
  "str_unset x \<longleftrightarrow> x = None \<or> x = Some []"

definition add_event :: "string \<Rightarrow> string \<Rightarrow> json option \<Rightarrow> session \<Rightarrow> session" where
  "add_event now event detail s =
     s\<lparr>s_events := s_events s @
        [JObj ([(''time'', JStr now), (''event'', JStr event)]
               @ (case detail of None \<Rightarrow> [] | Some d \<Rightarrow> [(''detail'', d)]))]\<rparr>"

definition transition :: "string \<Rightarrow> string \<Rightarrow> session \<Rightarrow> session result" where
  "transition now new_state s =
     (if new_state \<notin> set STATES then Inl (StateError (''unknown state '' @ new_state))
      else bindR (get_item TRANSITIONS (s_state s)) (\<lambda>allowed.
        if new_state \<notin> set allowed
        then Inl (StateError (''illegal transition '' @ s_state s @ '' -> '' @ new_state))
        else
          let was_terminal = s_state s \<in> set TERMINAL_STATES;
              s1 = s\<lparr>s_state := new_state\<rparr>;
              s2 = (if was_terminal \<and> new_state \<notin> set TERMINAL_STATES then s1\<lparr>s_finished_at := None\<rparr> else s1);
              s3 = (if new_state \<in> set TERMINAL_STATES \<and> str_unset (s_finished_at s2)
                    then s2\<lparr>s_finished_at := Some now\<rparr> else s2)
          in Inr (add_event now (''state:'' @ new_state) None s3)))"

definition roots_to_dict :: "(string, protected_root) dict \<Rightarrow> pydict" where
  "roots_to_dict roots = map (\<lambda>(name, r). (name, JObj (root_to_dict r))) roots"

definition jopt :: "('a \<Rightarrow> json) \<Rightarrow> 'a option \<Rightarrow> json" where
  "jopt f x = (case x of None \<Rightarrow> JNull | Some v \<Rightarrow> f v)"

definition session_to_dict :: "session \<Rightarrow> pydict" where
  "session_to_dict s =
     [(''session_id'', JStr (s_id s)), (''owner'', JStr (s_owner s)),
      (''agent_kind'', JStr (s_agent_kind s)), (''agent_command'', jstrs (s_agent_command s)),
      (''workspace'', jopt JStr (s_workspace s)), (''policy'', JObj (s_policy s)),
      (''protected_roots'', JObj (roots_to_dict (s_roots s))), (''state'', JStr (s_state s)),
      (''created_at'', JStr (s_created_at s)), (''finished_at'', jopt JStr (s_finished_at s)),
      (''exit_status'', jopt JInt (s_exit_status s)), (''completion'', JStr (s_completion s)),
      (''events'', JArr (s_events s)), (''repair_attempts'', JInt (s_repair_attempts s)),
      (''workspace_state_version'', JInt (s_workspace_state_version s)),
      (''authenticated_workspace_sessions'', JObj (s_auth_sessions s)),
      (''session_delta_routes'', JObj (s_delta_routes s))]"

text \<open>\<open>list(events or [])\<close> and \<open>dict(x or {})\<close>.\<close>

definition list_or_empty :: "json \<Rightarrow> json list result" where
  "list_or_empty v = (if truthy v then as_list v else Inr [])"

definition dict_or_empty :: "json \<Rightarrow> pydict result" where
  "dict_or_empty v = (if truthy v then as_obj v else Inr [])"

fun opt_int :: "json \<Rightarrow> int option result" where
  "opt_int JNull = Inr None"
| "opt_int v = bindR (as_int v) (\<lambda>i. Inr (Some i))"

definition roots_from_dict :: "pydict \<Rightarrow> (string, protected_root) dict result" where
  "roots_from_dict d =
     mapR (\<lambda>(name, v). bindR (as_obj v) (\<lambda>o'. bindR (root_from_dict o') (\<lambda>r. Inr (name, r)))) d"

definition session_from_dict :: "string \<Rightarrow> json \<Rightarrow> session result" where
  "session_from_dict now data =
     bindR (as_obj data) (\<lambda>d.
     bindR (str_field d ''session_id'') (\<lambda>sid.
     bindR (str_field d ''owner'') (\<lambda>owner.
     bindR (str_field d ''agent_kind'') (\<lambda>kind.
     bindR (bindR (get_item d ''agent_command'') as_strs) (\<lambda>command.
     bindR (bindR (get_item d ''workspace'') opt_str) (\<lambda>workspace.
     bindR (bindR (get_item d ''policy'') as_obj) (\<lambda>policy.
     bindR (bindR (bindR (get_item d ''protected_roots'') as_obj) roots_from_dict) (\<lambda>roots.
     bindR (str_field d ''state'') (\<lambda>state.
     bindR (opt_str (get_default d ''created_at'' JNull)) (\<lambda>created.
     bindR (opt_str (get_default d ''finished_at'' JNull)) (\<lambda>finished.
     bindR (opt_int (get_default d ''exit_status'' JNull)) (\<lambda>exit_status.
     bindR (as_str (get_default d ''completion'' (JStr ''process-exit''))) (\<lambda>completion.
     bindR (list_or_empty (get_default d ''events'' JNull)) (\<lambda>events.
     bindR (as_int (get_default d ''repair_attempts'' (JInt 0))) (\<lambda>repair.
     bindR (as_int (get_default d ''workspace_state_version'' (JInt 2))) (\<lambda>version.
     bindR (if version \<noteq> 2
            then Inl (ValueError (''unsupported workspace state version '' @ show_int version))
            else Inr ()) (\<lambda>_.
     bindR (dict_or_empty (get_default d ''authenticated_workspace_sessions'' JNull)) (\<lambda>auth.
     bindR (dict_or_empty (get_default d ''session_delta_routes'' JNull)) (\<lambda>routes.
     Inr \<lparr>s_id = sid, s_owner = owner, s_agent_kind = kind, s_agent_command = command,
          s_workspace = workspace, s_policy = policy, s_roots = roots, s_state = state,
          s_created_at = (if str_unset created then now else the created),
          s_finished_at = finished, s_exit_status = exit_status, s_completion = completion,
          s_events = events, s_repair_attempts = repair, s_workspace_state_version = version,
          s_auth_sessions = auth, s_delta_routes = routes\<rparr>)))))))))))))))))))"

section \<open>The store\<close>

text \<open>
  The session documents of a state directory, by bundle name, those of the legacy layout,
  the names \<open>os.listdir\<close> finds in the directory, and the (kind, session) pairs of the
  type-first artifact directories \<open>reviews/\<close>, \<open>mounts/\<close> and \<open>control/\<close>.
\<close>

record session_store =
  st_dir :: string
  st_names :: "string list"
  st_docs :: "(string, json) dict"
  st_legacy :: "(string, json) dict"
  st_type_first :: "(string \<times> string) list"

definition path_joins :: "string \<Rightarrow> string list \<Rightarrow> string" where
  "path_joins root parts = foldl path_join root parts"

definition bundle_dir :: "session_store \<Rightarrow> string \<Rightarrow> string" where
  "bundle_dir st sid = path_join (st_dir st) sid"

definition session_file :: "session_store \<Rightarrow> string \<Rightarrow> string" where
  "session_file st sid = path_join (path_join (bundle_dir st sid) ''session'') ''session.json''"

definition review_dir :: "session_store \<Rightarrow> string \<Rightarrow> string" where
  "review_dir st sid = path_join (bundle_dir st sid) ''reviews''"

definition safe_child_path :: "string \<Rightarrow> string list \<Rightarrow> string result" where
  "safe_child_path state_dir parts =
     (let root = abspath ''/'' state_dir;
          path = abspath ''/'' (path_joins root parts)
      in if path = root \<or> \<not> startswith path (root @ ''/'')
         then Inl (ValueError (''refusing to remove path outside state dir: '' @ path))
         else Inr path)"

definition new_session :: "string \<Rightarrow> string \<Rightarrow> string \<Rightarrow> string \<Rightarrow> string list \<Rightarrow> string option \<Rightarrow> pydict \<Rightarrow>
    (string, protected_root) dict \<Rightarrow> string \<Rightarrow> session" where
  "new_session now sid owner kind command workspace policy roots completion =
     \<lparr>s_id = sid, s_owner = owner, s_agent_kind = kind, s_agent_command = command,
      s_workspace = workspace, s_policy = policy, s_roots = roots, s_state = ''created'',
      s_created_at = now, s_finished_at = None, s_exit_status = None, s_completion = completion,
      s_events = [], s_repair_attempts = 0, s_workspace_state_version = 2, s_auth_sessions = [],
      s_delta_routes = []\<rparr>"

definition store_save :: "session \<Rightarrow> session_store \<Rightarrow> session_store" where
  "store_save s st =
     st\<lparr>st_names := List.insert (s_id s) (st_names st),
        st_docs := dict_set (st_docs st) (s_id s) (JObj (session_to_dict s))\<rparr>"

definition store_create :: "string \<Rightarrow> string \<Rightarrow> string \<Rightarrow> string \<Rightarrow> string list \<Rightarrow> string option \<Rightarrow> pydict \<Rightarrow>
    (string, protected_root) dict \<Rightarrow> string \<Rightarrow> session_store \<Rightarrow> session \<times> session_store" where
  "store_create now sid owner kind command workspace policy roots completion st =
     (let s = add_event now ''created'' None
                (new_session now sid owner kind command workspace policy roots completion)
      in (s, store_save s st))"

definition store_load :: "string \<Rightarrow> session_store \<Rightarrow> string \<Rightarrow> session result" where
  "store_load now st sid =
     (case dict_get (st_docs st) sid of
        Some doc \<Rightarrow> session_from_dict now doc
      | None \<Rightarrow> (case dict_get (st_legacy st) sid of
                  Some doc \<Rightarrow> session_from_dict now doc
                | None \<Rightarrow> Inl (KeyError (''no such session: '' @ sid))))"

text \<open>Corrupt entries that raise \<open>KeyError\<close> or \<open>ValueError\<close> are skipped.\<close>

fun is_skippable :: "pyexn \<Rightarrow> bool" where
  "is_skippable (KeyError _) = True"
| "is_skippable (ValueError _) = True"
| "is_skippable _ = False"

fun load_all :: "(string \<Rightarrow> session result) \<Rightarrow> string list \<Rightarrow> session list result" where
  "load_all load [] = Inr []"
| "load_all load (n # ns) =
     (case load n of
        Inr s \<Rightarrow> bindR (load_all load ns) (\<lambda>ss. Inr (s # ss))
      | Inl e \<Rightarrow> if is_skippable e then load_all load ns else Inl e)"

definition store_list :: "string \<Rightarrow> session_store \<Rightarrow> session list result" where
  "store_list now st =
     bindR (load_all (store_load now st)
              (filter (\<lambda>n. n \<notin> {''sessions'', ''reviews'', ''mounts'', ''control''}) (sort (st_names st))))
       (\<lambda>sessions.
          let seen = map s_id sessions
          in bindR (load_all (store_load now st)
                      (filter (\<lambda>n. n \<notin> set seen) (sort (map fst (st_legacy st)))))
               (\<lambda>legacy. Inr (sessions @ legacy)))"

text \<open>The guard of \<open>remove\<close> and the paths it deletes.\<close>

definition removal_paths :: "session_store \<Rightarrow> string \<Rightarrow> string list result" where
  "removal_paths st sid =
     (if sid = [] \<or> basename sid \<noteq> sid \<or> sid = ''.'' \<or> sid = ''..''
      then Inl (ValueError (''unsafe session id: '' @ sid))
      else mapR (safe_child_path (st_dir st))
             [[sid], [''sessions'', sid], [''reviews'', sid], [''mounts'', sid], [''control'', sid]])"

text \<open>
  Removing the bundle and the type-first directories removes what they hold; a session
  called \<open>sessions\<close> is the directory of the legacy layout itself.
\<close>

definition store_remove :: "string \<Rightarrow> session_store \<Rightarrow> (bool \<times> session_store) result" where
  "store_remove sid st =
     bindR (removal_paths st sid) (\<lambda>_.
       Inr (sid \<in> set (st_names st) \<or> dict_has (st_legacy st) sid \<or> sid \<in> snd ` set (st_type_first st),
            st\<lparr>st_names := removeAll sid (st_names st), st_docs := dict_pop (st_docs st) sid,
               st_legacy := (if sid = ''sessions'' then [] else dict_pop (st_legacy st) sid),
               st_type_first := filter (\<lambda>(k, i). i \<noteq> sid \<and> k \<noteq> sid) (st_type_first st)\<rparr>))"

section \<open>Facts about transitions\<close>

lemma transition_Inr:
  assumes "transition now new s = Inr t"
  shows "\<exists>allowed. dict_get TRANSITIONS (s_state s) = Some allowed \<and> new \<in> set allowed \<and>
    new \<in> set STATES \<and> s_state t = new \<and>
    s_finished_at t = (if new \<in> set TERMINAL_STATES
        then (if str_unset (s_finished_at s) then Some now else s_finished_at s)
        else if s_state s \<in> set TERMINAL_STATES then None else s_finished_at s) \<and>
    s_events t = s_events s @ [JObj [(''time'', JStr now), (''event'', JStr (''state:'' @ new))]]"
  using assms
  by (auto simp: transition_def get_item_def add_event_def Let_def bindR_eq_Inr split: if_splits option.splits)

lemma transition_frame:
  "transition now new s = Inr t \<Longrightarrow>
   t = s\<lparr>s_state := s_state t, s_finished_at := s_finished_at t, s_events := s_events t\<rparr>"
  by (auto simp: transition_def get_item_def add_event_def Let_def bindR_eq_Inr split: if_splits option.splits)

text \<open>The finish time is set exactly in the terminal states.\<close>

definition session_wf :: "session \<Rightarrow> bool" where
  "session_wf s \<longleftrightarrow> s_state s \<in> set STATES \<and>
     (s_state s \<in> set TERMINAL_STATES \<longleftrightarrow> \<not> str_unset (s_finished_at s))"

lemma str_unset_simps [simp]: "str_unset None" "str_unset (Some x) \<longleftrightarrow> x = []"
  by (auto simp: str_unset_def)

lemma transition_wf:
  assumes "now \<noteq> []" "session_wf s" "transition now new s = Inr t"
  shows "session_wf t"
proof -
  have st: "s_state t = new" "new \<in> set STATES"
    and fin: "s_finished_at t = (if new \<in> set TERMINAL_STATES
        then (if str_unset (s_finished_at s) then Some now else s_finished_at s)
        else if s_state s \<in> set TERMINAL_STATES then None else s_finished_at s)"
    using transition_Inr [OF assms(3)] by auto
  have "new \<in> set TERMINAL_STATES \<longleftrightarrow> \<not> str_unset (s_finished_at t)"
    using assms(1,2) unfolding fin session_wf_def by simp
  with st show ?thesis by (simp add: session_wf_def)
qed

lemma transition_allowed:
  "transition now new s = Inr t \<Longrightarrow> (s_state s, new) \<in>
     {(''created'', ''mounting''), (''mounting'', ''running''), (''running'', ''finalizing''),
      (''finalizing'', ''frozen''), (''frozen'', ''auto-committed''), (''frozen'', ''pending-review''),
      (''frozen'', ''committed''), (''pending-review'', ''committed''), (''pending-review'', ''running''),
      (''aborted'', ''running''), (''failed'', ''running'')}
   \<or> (s_state s \<in> {''created'', ''mounting'', ''running'', ''finalizing'', ''frozen'', ''pending-review''} \<and>
      new \<in> {''aborted'', ''failed''})"
  by (drule transition_Inr) (auto simp: TRANSITIONS_def split: if_splits)

text \<open>A step of a session: a transition or a recorded event; runs of steps.\<close>

inductive session_step :: "session \<Rightarrow> session \<Rightarrow> bool" where
  moves: "now \<noteq> [] \<Longrightarrow> transition now new s = Inr t \<Longrightarrow> session_step s t"
| records: "session_step s (add_event now e d s)"

inductive session_run :: "session \<Rightarrow> session \<Rightarrow> bool" where
  start: "session_run s s"
| step: "session_run s t \<Longrightarrow> session_step t u \<Longrightarrow> session_run s u"

inductive_cases session_stepE: "session_step s t"

lemma session_run_rtranclp: "session_run s t \<longleftrightarrow> session_step\<^sup>*\<^sup>* s t"
proof
  show "session_run s t \<Longrightarrow> session_step\<^sup>*\<^sup>* s t"
    by (induction rule: session_run.induct) (auto intro: rtranclp.rtrancl_into_rtrancl)
  show "session_step\<^sup>*\<^sup>* s t \<Longrightarrow> session_run s t"
    by (induction rule: rtranclp_induct) (auto intro: session_run.intros)
qed

lemma add_event_simps [simp]:
  "s_state (add_event now e d s) = s_state s"
  "s_finished_at (add_event now e d s) = s_finished_at s"
  "s_id (add_event now e d s) = s_id s"
  "s_policy (add_event now e d s) = s_policy s"
  "s_roots (add_event now e d s) = s_roots s"
  by (simp_all add: add_event_def)

text \<open>The session is an instance of the life-cycle interface.\<close>

interpretation sess: lifecycle session_step s_state TRANSITIONS
proof
  fix a b assume "session_step a b"
  then show "s_state b = s_state a \<or> s_state b \<in> set (successors TRANSITIONS (s_state a))"
    by (cases rule: session_step.cases) (auto dest!: transition_Inr simp: successors_def)
qed

lemma session_step_wf: "session_step s t \<Longrightarrow> session_wf s \<Longrightarrow> session_wf t"
  by (erule session_stepE) (auto dest: transition_wf simp: session_wf_def)

lemma session_run_wf: "session_run s t \<Longrightarrow> session_wf s \<Longrightarrow> session_wf t"
  by (induction rule: session_run.induct) (auto dest: session_step_wf)

text \<open>Which transition events a session has recorded.\<close>

definition entered :: "string \<Rightarrow> session \<Rightarrow> bool" where
  "entered state s \<longleftrightarrow> (\<exists>now. JObj [(''time'', JStr now), (''event'', JStr (''state:'' @ state))] \<in> set (s_events s))"

lemma entered_mono: "session_step s t \<Longrightarrow> entered state s \<Longrightarrow> entered state t"
  by (erule session_stepE) (auto simp: entered_def add_event_def dest!: transition_Inr)

lemma transition_entered: "transition now new s = Inr t \<Longrightarrow> entered new t"
  by (drule transition_Inr) (auto simp: entered_def)

text \<open>The states that only a freeze leads to.\<close>

definition froze :: "session \<Rightarrow> bool" where
  "froze s \<longleftrightarrow> (s_state s \<in> {''frozen'', ''auto-committed'', ''pending-review'', ''committed''} \<longrightarrow>
     entered ''frozen'' s)"

lemma transition_entered_mono: "transition now new s = Inr t \<Longrightarrow> entered state s \<Longrightarrow> entered state t"
  by (drule transition_Inr) (auto simp: entered_def)

lemma transition_froze:
  assumes "froze s" "transition now new s = Inr t"
  shows "froze t"
proof -
  have new: "s_state t = new" using transition_Inr [OF assms(2)] by auto
  consider "new = ''frozen''" | "new \<notin> {''frozen'', ''auto-committed'', ''pending-review'', ''committed''}"
    | "s_state s \<in> {''frozen'', ''pending-review''}"
    using transition_allowed [OF assms(2)] by auto
  then show ?thesis
  proof cases
    case 1
    with transition_entered [OF assms(2)] show ?thesis by (simp add: froze_def)
  next
    case 2
    with new show ?thesis by (simp add: froze_def)
  next
    case 3
    with assms(1) have "entered ''frozen'' s" by (auto simp: froze_def)
    with assms(2) have "entered ''frozen'' t" by (rule transition_entered_mono)
    then show ?thesis by (simp add: froze_def)
  qed
qed

lemma froze_add_event: "froze s \<Longrightarrow> froze (add_event now e d s)"
  unfolding froze_def add_event_simps using entered_mono [OF session_step.records] by blast

lemma session_step_froze: "session_step s t \<Longrightarrow> froze s \<Longrightarrow> froze t"
  by (erule session_stepE) (blast dest: transition_froze froze_add_event)+

lemma session_run_froze: "session_run s t \<Longrightarrow> froze s \<Longrightarrow> froze t"
  by (induction rule: session_run.induct) (auto dest: session_step_froze)

section \<open>Facts about the JSON form\<close>

lemma mapR_roots: "mapR (\<lambda>(name, v). bindR (as_obj v) (\<lambda>o'. bindR (root_from_dict o') (\<lambda>r. Inr (name, r))))
    (map (\<lambda>(name, r). (name, JObj (root_to_dict r))) roots) = Inr roots"
proof -
  have "root_from_dict (root_to_dict r) = Inr r" for r
    by (cases "pr_home_subdir r")
      (simp_all add: root_from_dict_def root_to_dict_def str_field_def get_item_def get_default_def)
  then show ?thesis by (induction roots) auto
qed

lemma opt_str_jopt [simp]: "opt_str (jopt JStr x) = Inr x"
  by (cases x) (simp_all add: jopt_def)

lemma opt_int_jopt [simp]: "opt_int (jopt JInt x) = Inr x"
  by (cases x) (simp_all add: jopt_def)

lemma list_or_empty_JArr [simp]: "list_or_empty (JArr xs) = Inr xs"
  by (simp add: list_or_empty_def)

lemma dict_or_empty_JObj [simp]: "dict_or_empty (JObj d) = Inr d"
  by (simp add: dict_or_empty_def)

lemma session_roundtrip:
  assumes "s_created_at s \<noteq> []" "s_workspace_state_version s = 2"
  shows "session_from_dict now (JObj (session_to_dict s)) = Inr s"
proof -
  have opt: "opt_str (JStr x) = Inr (Some x)" for x by simp
  show ?thesis
    using assms
    by (simp add: session_from_dict_def session_to_dict_def str_field_def get_item_def get_default_def
        roots_from_dict_def roots_to_dict_def mapR_roots str_unset_def)
qed

section \<open>Properties\<close>

text \<open>The transition guard: a transition succeeds exactly when the new state is a known state
  listed for the current one; it then changes the state, appends one event, sets or clears
  the finish time, and touches nothing else.  Otherwise \<open>StateError\<close> is raised and (a raised
  exception returning no new session) the session stays as it was.\<close>

theorem transition_guard:
  assumes "s_state s \<in> set STATES"
  shows "(case transition now new s of
      Inr t \<Rightarrow> new \<in> set STATES \<and> new \<in> set (the (dict_get TRANSITIONS (s_state s))) \<and>
        t = s\<lparr>s_state := new,
              s_finished_at := (if new \<in> set TERMINAL_STATES
                 then (if str_unset (s_finished_at s) then Some now else s_finished_at s)
                 else if s_state s \<in> set TERMINAL_STATES then None else s_finished_at s),
              s_events := s_events s @ [JObj [(''time'', JStr now), (''event'', JStr (''state:'' @ new))]]\<rparr>
    | Inl e \<Rightarrow> (\<exists>msg. e = StateError msg) \<and>
        \<not> (new \<in> set STATES \<and> new \<in> set (the (dict_get TRANSITIONS (s_state s)))))"
proof (cases "transition now new s")
  case (Inl e)
  have "\<exists>allowed. dict_get TRANSITIONS (s_state s) = Some allowed"
    using assms by (auto simp: STATES_def TRANSITIONS_def)
  then show ?thesis using Inl
    by (auto simp: transition_def get_item_def Let_def split: if_splits)
next
  case (Inr t)
  from transition_Inr [OF Inr] obtain allowed where
    a: "dict_get TRANSITIONS (s_state s) = Some allowed" "new \<in> set allowed" "new \<in> set STATES"
    and upd: "s_state t = new" "s_finished_at t = (if new \<in> set TERMINAL_STATES
        then (if str_unset (s_finished_at s) then Some now else s_finished_at s)
        else if s_state s \<in> set TERMINAL_STATES then None else s_finished_at s)"
      "s_events t = s_events s @ [JObj [(''time'', JStr now), (''event'', JStr (''state:'' @ new))]]"
    by blast
  from transition_frame [OF Inr] show ?thesis
    unfolding Inr sum.case upd using a by simp
qed

theorem transition_guard_witness:
  "(\<exists>t. transition ''now'' ''mounting'' (new_session ''t0'' ''s1'' ''u'' ''codex'' [] None [] [] ''process-exit'') = Inr t)
   \<and> (\<exists>m. transition ''now'' ''committed'' (new_session ''t0'' ''s1'' ''u'' ''codex'' [] None [] [] ''process-exit'') = Inl (StateError m))"
proof -
  have h: "s_state (new_session ''t0'' ''s1'' ''u'' ''codex'' [] None [] [] ''process-exit'') \<in> set STATES"
    by (simp add: new_session_def STATES_def)
  have a: "''mounting'' \<in> set STATES \<and> ''mounting'' \<in> set (the (dict_get TRANSITIONS ''created''))"
    "\<not> ''committed'' \<in> set (the (dict_get TRANSITIONS ''created''))"
    by (simp_all add: STATES_def TRANSITIONS_def)
  have st: "s_state (new_session ''t0'' ''s1'' ''u'' ''codex'' [] None [] [] ''process-exit'') = ''created''"
    by (simp add: new_session_def)
  show ?thesis
    using transition_guard [OF h, where now = "''now''" and new = "''mounting''"]
      transition_guard [OF h, where now = "''now''" and new = "''committed''"] a
    unfolding st by (auto split: sum.splits)
qed

text \<open>C39. Invariant of every run: in each session reachable from a well-formed one by transitions and
  recorded events, the finish time is set exactly in the terminal states, and a session that
  is frozen, committed, auto-committed or pending review has a recorded freeze.\<close>

theorem session_run_invariant:
  assumes "session_run s t" "session_wf s" "froze s"
  shows "session_wf t \<and> froze t"
  using assms session_run_wf session_run_froze by blast

theorem session_run_invariant_witness:
  "\<exists>t. session_run (new_session ''t0'' ''s1'' ''u'' ''codex'' [] None [] [] ''process-exit'') t \<and>
       s_state t = ''aborted'' \<and> session_wf t \<and> froze t"
proof -
  let ?s = "new_session ''t0'' ''s1'' ''u'' ''codex'' [] None [] [] ''process-exit''"
  have wf: "session_wf ?s" "froze ?s"
    by (simp_all add: session_wf_def froze_def new_session_def STATES_def TERMINAL_STATES_def)
  obtain t where t: "transition ''now'' ''aborted'' ?s = Inr t" "s_state t = ''aborted''"
    by (simp add: transition_def new_session_def STATES_def TRANSITIONS_def get_item_def
        TERMINAL_STATES_def add_event_def Let_def)
  have "session_run ?s t"
    by (rule session_run.step [OF session_run.start session_step.moves [OF _ t(1)]]) simp
  from session_run_invariant [OF this wf] this t(2) show ?thesis by blast
qed

text \<open>Committed work is final: from a session that is committed or auto-committed no run of
  transitions and events leaves that state; only aborted and failed sessions can be reopened,
  and only to running.\<close>

theorem committed_is_final:
  assumes "session_run s t" "s_state s \<in> {''committed'', ''auto-committed''}"
  shows "s_state t = s_state s"
  using sess.run_final [of s t] assms
  by (auto simp: session_run_rtranclp successors_def TRANSITIONS_def)

theorem committed_is_final_witness:
  "s_state (add_event ''t'' ''x'' None ((new_session ''t0'' ''s1'' ''u'' ''codex'' [] None [] [] ''process-exit'')
     \<lparr>s_state := ''committed''\<rparr>)) = ''committed''"
proof -
  let ?s = "(new_session ''t0'' ''s1'' ''u'' ''codex'' [] None [] [] ''process-exit'')\<lparr>s_state := ''committed''\<rparr>"
  have r: "session_run ?s (add_event ''t'' ''x'' None ?s)"
    by (rule session_run.step [OF session_run.start session_step.records])
  have c: "s_state ?s \<in> {''committed'', ''auto-committed''}" by simp
  from committed_is_final [OF r c] show ?thesis by simp
qed

definition sample_root :: protected_root where
  "sample_root = \<lparr>pr_name = ''storage'', pr_base = ''/real/storage'', pr_store = ''/store'', pr_branch = ''b1'',
     pr_mount = ''/mnt/storage'', pr_visible = ''/storage/user'', pr_home_subdir = Some ''home'',
     pr_hide_paths = [''.ssh'']\<rparr>"

definition sample_session :: session where
  "sample_session = new_session ''t0'' ''s1'' ''u'' ''codex'' [''codex'', ''exec''] (Some ''/storage/user/w'')
     [(''mode'', JStr ''workspace-auto'')] [(''storage'', sample_root)] ''process-exit''"

definition empty_store :: session_store where
  "empty_store = \<lparr>st_dir = ''/state'', st_names = [], st_docs = [], st_legacy = [], st_type_first = []\<rparr>"

text \<open>Sessions the store reads back as they were: a creation time and the supported schema version.\<close>

definition persistable :: "session \<Rightarrow> bool" where
  "persistable s \<longleftrightarrow> s_created_at s \<noteq> [] \<and> s_workspace_state_version s = 2"

interpretation sess_store: keyed_store store_save "store_load now" s_id persistable for now
proof
  fix x :: session and r assume "persistable x"
  then show "store_load now (store_save x r) (s_id x) = Inr x"
    using session_roundtrip by (simp add: persistable_def store_load_def store_save_def)
next
  fix k r and x :: session assume "k \<noteq> s_id x"
  then show "store_load now (store_save x r) k = store_load now r k"
    by (auto simp: store_load_def store_save_def split: option.split)
qed



text \<open>Deletion stays inside the state directory: for an absolute state directory other than the
  file-system root, \<open>removal_paths\<close> either refuses the session id (exactly when it is empty,
  contains a slash, or is \<open>.\<close> or \<open>..\<close>) or yields the five paths obtained by appending the id
  and the fixed legacy directory names to the normalised state directory.\<close>

theorem removal_confined:
  assumes "single_rooted (st_dir st)" "norm_comps (st_dir st) \<noteq> []"
  shows "removal_paths st sid =
    (if proper sid
     then Inr (map (\<lambda>ds. mk_path ''/'' (norm_comps (st_dir st) @ ds))
            [[sid], [''sessions'', sid], [''reviews'', sid], [''mounts'', sid], [''control'', sid]])
     else Inl (ValueError (''unsafe session id: '' @ sid)))"
proof (cases "proper sid")
  case False
  then show ?thesis by (auto simp: removal_paths_def proper_def basename_self)
next
  case True
  let ?cs = "norm_comps (st_dir st)"
  have abs: "isabs (st_dir st)" and root: "root_slashes (st_dir st) = ''/''"
    using assms(1) by (auto simp: single_rooted_def)
  have cs: "\<And>c. c \<in> set ?cs \<Longrightarrow> proper c" using norm_comps_proper [OF abs] by blast
  have r: "root_ok ''/''" by (simp add: root_ok_def)
  have base: "abspath ''/'' (st_dir st) = mk_path ''/'' ?cs"
    using abs root by (simp add: abspath_def normpath_abs)
  have one: "safe_child_path (st_dir st) ds = Inr (mk_path ''/'' (?cs @ ds))"
    if ds: "ds \<noteq> []" "\<And>c. c \<in> set ds \<Longrightarrow> proper c" for ds
  proof -
    have j: "path_joins (mk_path ''/'' ?cs) ds = mk_path ''/'' (?cs @ ds)"
      unfolding path_joins_def by (rule path_joins_mk_path [OF r cs ds(2)])
    have all: "\<And>c. c \<in> set (?cs @ ds) \<Longrightarrow> proper c" using cs ds(2) by auto
    have n: "abspath ''/'' (mk_path ''/'' (?cs @ ds)) = mk_path ''/'' (?cs @ ds)"
      unfolding abspath_def if_P [OF isabs_mk_path [OF r]] by (rule normpath_mk_path [OF r all])
    have ne: "mk_path ''/'' (?cs @ ds) \<noteq> mk_path ''/'' ?cs"
      using join_with_inj [of "?cs @ ds" ?cs] all cs ds(1) by (auto simp: mk_path_def)
    have "startswith (mk_path ''/'' (?cs @ ds)) (mk_path ''/'' ?cs @ ''/'')"
      using mk_path_prefix [of "''/''" ?cs "?cs @ ds"] cs all assms(2) ne by auto
    then show ?thesis unfolding safe_child_path_def Let_def base j n using ne by simp
  qed
  have fixed: "proper ''sessions''" "proper ''reviews''" "proper ''mounts''" "proper ''control''"
    by (simp_all add: proper_def)
  have guard: "\<not> (sid = [] \<or> basename sid \<noteq> sid \<or> sid = ''.'' \<or> sid = ''..'')"
    using True by (auto simp: proper_def basename_self)
  have "removal_paths st sid = mapR (safe_child_path (st_dir st))
     [[sid], [''sessions'', sid], [''reviews'', sid], [''mounts'', sid], [''control'', sid]]"
    unfolding removal_paths_def if_not_P [OF guard] ..
  also have "\<dots> = Inr (map (\<lambda>ds. mk_path ''/'' (?cs @ ds))
     [[sid], [''sessions'', sid], [''reviews'', sid], [''mounts'', sid], [''control'', sid]])"
    by (rule mapR_total, rule one) (use True fixed in auto)
  finally show ?thesis using True by simp
qed

theorem removal_confined_witness:
  "removal_paths empty_store ''s1'' = Inr [''/state/s1'', ''/state/sessions/s1'', ''/state/reviews/s1'',
     ''/state/mounts/s1'', ''/state/control/s1''] \<and>
   removal_paths empty_store ''../x'' = Inl (ValueError ''unsafe session id: ../x'')"
proof -
  have h: "single_rooted (st_dir empty_store)" "norm_comps (st_dir empty_store) \<noteq> []"
    by code_simp+
  show ?thesis unfolding removal_confined [OF h] by code_simp
qed

text \<open>Agent kinds: the remote label is idempotent, the bridge label is exactly what
  \<open>is_remote_bridge\<close> recognises, and turning a bridge label back gives the remote label.\<close>

theorem remote_kinds:
  "remote_agent_kind (remote_agent_kind k) = remote_agent_kind k \<and>
   endswith (remote_bridge_agent_kind k) REMOTE_BRIDGE_SUFFIX \<and>
   remote_agent_kind (remote_bridge_agent_kind k) = remote_agent_kind k"
proof -
  have e: "endswith (x @ p) p" for x p :: string by (rule suffixI) simp
  have bridge: "remote_agent_kind (x @ REMOTE_BRIDGE_SUFFIX) = x @ ''-remote''" for x
    by (simp add: remote_agent_kind_def REMOTE_BRIDGE_SUFFIX_def e)
  have remote: "remote_agent_kind (x @ ''-remote'') = x @ ''-remote''" for x
    by (auto simp: remote_agent_kind_def REMOTE_BRIDGE_SUFFIX_def REMOTE_AGENT_SUFFIX_def suffix_def
        append_eq_append_conv2)
  consider x where "k = x @ REMOTE_BRIDGE_SUFFIX" | x where "k = x @ ''-remote''" "\<not> endswith k REMOTE_BRIDGE_SUFFIX"
    | "\<not> endswith k REMOTE_BRIDGE_SUFFIX" "\<not> endswith k ''-remote''"
    by (auto simp: suffix_def REMOTE_BRIDGE_SUFFIX_def)
  then show ?thesis
  proof cases
    case 1
    then have "endswith k REMOTE_BRIDGE_SUFFIX" by (simp add: suffix_def)
    with 1 bridge remote e show ?thesis by (simp add: remote_bridge_agent_kind_def)
  next
    case 2
    have "remote_bridge_agent_kind k = x @ REMOTE_BRIDGE_SUFFIX"
      using 2 remote by (simp add: remote_bridge_agent_kind_def REMOTE_BRIDGE_SUFFIX_def)
    with 2(1) bridge remote e show ?thesis by simp
  next
    case 3
    then have k: "remote_agent_kind k = k @ ''-remote''"
      by (simp add: remote_agent_kind_def REMOTE_AGENT_SUFFIX_def)
    have "remote_bridge_agent_kind k = k @ REMOTE_BRIDGE_SUFFIX"
      using 3 k by (simp add: remote_bridge_agent_kind_def REMOTE_BRIDGE_SUFFIX_def)
    with k bridge remote e show ?thesis by simp
  qed
qed

text \<open>A document that is not an object raises an exception the listing does not catch.\<close>

lemma store_list_raises:
  "store_list now (empty_store\<lparr>st_names := [''s1''], st_docs := [(''s1'', JArr [])]\<rparr>)
     = Inl (TypeError ''dict expected'')"
  by (simp add: store_list_def store_load_def session_from_dict_def empty_store_def)

end
