(* ===== verification/Effects.thy ===== *)
theory Effects
  imports Prelude
begin

text \<open>
  Operations with effects.  An operation takes the state and returns a result together with
  the new state; a raised exception keeps the state changes made before it, as in Python.
  \<open>wp m Q E s\<close> says that running \<open>m\<close> in \<open>s\<close> ends with \<open>Q\<close> when it returns and with \<open>E\<close>
  when it raises; its equations reduce a property of a composed operation to properties of
  the parts.  \<open>wp_for\<close> is the loop rule.
\<close>

section \<open>Operations\<close>

type_synonym ('s, 'a) eff = "'s \<Rightarrow> 'a result \<times> 's"

definition retE :: "'a \<Rightarrow> ('s, 'a) eff" where
  "retE x = (\<lambda>s. (Inr x, s))"

definition raiseE :: "pyexn \<Rightarrow> ('s, 'a) eff" where
  "raiseE e = (\<lambda>s. (Inl e, s))"

definition bindE :: "('s, 'a) eff \<Rightarrow> ('a \<Rightarrow> ('s, 'b) eff) \<Rightarrow> ('s, 'b) eff" where
  "bindE m f = (\<lambda>s. case m s of (Inl e, s') \<Rightarrow> (Inl e, s') | (Inr x, s') \<Rightarrow> f x s')"

definition seqE :: "('s, 'a) eff \<Rightarrow> ('s, 'b) eff \<Rightarrow> ('s, 'b) eff" where
  "seqE m n = bindE m (\<lambda>_. n)"

definition getE :: "('s \<Rightarrow> 'a) \<Rightarrow> ('s, 'a) eff" where
  "getE f = (\<lambda>s. (Inr (f s), s))"

definition modE :: "('s \<Rightarrow> 's) \<Rightarrow> ('s, unit) eff" where
  "modE f = (\<lambda>s. (Inr (), f s))"

text \<open>A pure computation that may raise, and one that reads the state.\<close>

definition liftE :: "'a result \<Rightarrow> ('s, 'a) eff" where
  "liftE r = (\<lambda>s. (r, s))"

definition readE :: "('s \<Rightarrow> 'a result) \<Rightarrow> ('s, 'a) eff" where
  "readE f = (\<lambda>s. (f s, s))"

text \<open>\<open>try: m except ...: h\<close>; the handler re-raises what it does not handle.\<close>

definition catchE :: "('s, 'a) eff \<Rightarrow> (pyexn \<Rightarrow> ('s, 'a) eff) \<Rightarrow> ('s, 'a) eff" where
  "catchE m h = (\<lambda>s. case m s of (Inl e, s') \<Rightarrow> h e s' | (Inr x, s') \<Rightarrow> (Inr x, s'))"

definition whenE :: "bool \<Rightarrow> ('s, unit) eff \<Rightarrow> ('s, unit) eff" where
  "whenE b m = (if b then m else retE ())"

primrec forE :: "('a \<Rightarrow> ('s, 'b) eff) \<Rightarrow> 'a list \<Rightarrow> ('s, unit) eff" where
  "forE f [] = retE ()"
| "forE f (x # xs) = seqE (f x) (forE f xs)"

primrec mapE :: "('a \<Rightarrow> ('s, 'b) eff) \<Rightarrow> 'a list \<Rightarrow> ('s, 'b list) eff" where
  "mapE f [] = retE []"
| "mapE f (x # xs) = bindE (f x) (\<lambda>y. bindE (mapE f xs) (\<lambda>ys. retE (y # ys)))"

primrec foldE :: "('b \<Rightarrow> 'a \<Rightarrow> ('s, 'b) eff) \<Rightarrow> 'b \<Rightarrow> 'a list \<Rightarrow> ('s, 'b) eff" where
  "foldE f acc [] = retE acc"
| "foldE f acc (x # xs) = bindE (f acc x) (\<lambda>acc'. foldE f acc' xs)"

text \<open>Running an operation on a part of the state.\<close>

definition zoomE :: "('s \<Rightarrow> 't) \<Rightarrow> ('t \<Rightarrow> 's \<Rightarrow> 's) \<Rightarrow> ('t, 'a) eff \<Rightarrow> ('s, 'a) eff" where
  "zoomE get put m = (\<lambda>s. case m (get s) of (r, t) \<Rightarrow> (r, put t s))"

section \<open>Weakest preconditions\<close>

definition wp :: "('s, 'a) eff \<Rightarrow> ('a \<Rightarrow> 's \<Rightarrow> bool) \<Rightarrow> (pyexn \<Rightarrow> 's \<Rightarrow> bool) \<Rightarrow> 's \<Rightarrow> bool" where
  "wp m Q E s = (case m s of (Inl e, s') \<Rightarrow> E e s' | (Inr x, s') \<Rightarrow> Q x s')"

named_theorems wp_simps

lemma wp_ret [wp_simps]: "wp (retE x) Q E s = Q x s"
  by (simp add: wp_def retE_def)

lemma wp_raise [wp_simps]: "wp (raiseE e) Q E s = E e s"
  by (simp add: wp_def raiseE_def)

lemma wp_bind [wp_simps]: "wp (bindE m f) Q E s = wp m (\<lambda>x. wp (f x) Q E) E s"
  by (simp add: wp_def bindE_def split: prod.split sum.split)

lemma wp_seq [wp_simps]: "wp (seqE m n) Q E s = wp m (\<lambda>_. wp n Q E) E s"
  by (simp add: seqE_def wp_bind)

lemma wp_get [wp_simps]: "wp (getE g) Q E s = Q (g s) s"
  by (simp add: wp_def getE_def)

lemma wp_mod [wp_simps]: "wp (modE h) Q E s = Q () (h s)"
  by (simp add: wp_def modE_def)

lemma wp_catch [wp_simps]: "wp (catchE m k) Q E s = wp m Q (\<lambda>e. wp (k e) Q E) s"
  by (simp add: wp_def catchE_def split: prod.split sum.split)

lemma wp_when [wp_simps]: "wp (whenE b u) Q E s = (if b then wp u Q E s else Q () s)"
  by (simp add: whenE_def wp_ret)

lemma wp_lift [wp_simps]: "wp (liftE r) Q E s = (case r of Inl e \<Rightarrow> E e s | Inr x \<Rightarrow> Q x s)"
  by (simp add: wp_def liftE_def)

lemma wp_read [wp_simps]: "wp (readE g) Q E s = (case g s of Inl e \<Rightarrow> E e s | Inr x \<Rightarrow> Q x s)"
  by (simp add: wp_def readE_def)

lemma wp_zoom [wp_simps]:
  "wp (zoomE get put m) Q E s =
     wp m (\<lambda>x t. Q x (put t s)) (\<lambda>e t. E e (put t s)) (get s)"
  by (simp add: wp_def zoomE_def split: prod.split sum.split)

lemma wp_if: "wp (if b then m else n) Q E s = (if b then wp m Q E s else wp n Q E s)"
  by simp

lemma wp_mono:
  "wp m Q E s \<Longrightarrow> (\<And>x t. Q x t \<Longrightarrow> Q' x t) \<Longrightarrow> (\<And>e t. E e t \<Longrightarrow> E' e t) \<Longrightarrow> wp m Q' E' s"
  by (auto simp: wp_def split: prod.splits sum.splits)

lemma wp_conj:
  "wp m Q E s \<Longrightarrow> wp m Q' E' s \<Longrightarrow> wp m (\<lambda>x t. Q x t \<and> Q' x t) (\<lambda>e t. E e t \<and> E' e t) s"
  by (auto simp: wp_def split: prod.splits sum.splits)

lemma wp_result: "wp m Q E s \<Longrightarrow> m s = (r, t) \<Longrightarrow> (case r of Inl e \<Rightarrow> E e t | Inr x \<Rightarrow> Q x t)"
  by (auto simp: wp_def split: sum.splits)

lemma wp_ResI:
  "(\<And>x t. m s = (Inr x, t) \<Longrightarrow> Q x t) \<Longrightarrow> (\<And>e t. m s = (Inl e, t) \<Longrightarrow> E e t) \<Longrightarrow> wp m Q E s"
  by (auto simp: wp_def split: prod.splits sum.splits)

lemma wp_for:
  assumes "I s" "\<And>x t. x \<in> set xs \<Longrightarrow> I t \<Longrightarrow> wp (f x) (\<lambda>_. I) E t" "\<And>t. I t \<Longrightarrow> Q () t"
  shows "wp (forE f xs) Q E s"
  using assms(1,2)
proof (induction xs arbitrary: s)
  case (Cons x xs)
  have "wp (f x) (\<lambda>_. I) E s" using Cons.prems by simp
  then show ?case
    unfolding forE.simps wp_seq by (rule wp_mono) (use Cons in auto)
qed (simp add: wp_simps assms(3))

lemma wp_map:
  assumes "I s" "\<And>x t. x \<in> set xs \<Longrightarrow> I t \<Longrightarrow> wp (f x) (\<lambda>_. I) E t" "\<And>ys t. I t \<Longrightarrow> Q ys t"
  shows "wp (mapE f xs) Q E s"
  using assms(1,2,3)
proof (induction xs arbitrary: s Q)
  case (Cons x xs)
  have "wp (f x) (\<lambda>_. I) E s" using Cons.prems by simp
  then show ?case
    unfolding mapE.simps wp_bind wp_ret by (rule wp_mono) (use Cons in auto)
qed (simp add: wp_simps)

lemma wp_fold:
  assumes "I acc s" "\<And>x a t. x \<in> set xs \<Longrightarrow> I a t \<Longrightarrow> wp (f a x) I E t" "\<And>a t. I a t \<Longrightarrow> Q a t"
  shows "wp (foldE f acc xs) Q E s"
  using assms(1,2)
proof (induction xs arbitrary: s acc)
  case (Cons x xs)
  have "wp (f acc x) I E s" using Cons.prems by simp
  then show ?case
    unfolding foldE.simps wp_bind by (rule wp_mono) (use Cons in auto)
qed (simp add: wp_simps assms(3))

text \<open>An operation that keeps a relation to the state it started from, whatever it returns.\<close>

definition keeps :: "('s \<Rightarrow> bool) \<Rightarrow> ('s, 'a) eff \<Rightarrow> bool" where
  "keeps I m \<longleftrightarrow> (\<forall>s. I s \<longrightarrow> I (snd (m s)))"

lemma keeps_wp: "keeps I m \<longleftrightarrow> (\<forall>s. I s \<longrightarrow> wp m (\<lambda>_. I) (\<lambda>_. I) s)"
proof -
  have "wp m (\<lambda>_. I) (\<lambda>_. I) s \<longleftrightarrow> I (snd (m s))" for s
    by (simp add: wp_def split: prod.split sum.split)
  then show ?thesis by (simp add: keeps_def)
qed

named_theorems keeps_intros

lemma keeps_basic [keeps_intros]:
  "keeps I (retE x)"
  "keeps I (raiseE e)"
  "keeps I (getE g)"
  "keeps I (liftE r)"
  "keeps I (readE q)"
  by (simp_all add: keeps_def retE_def raiseE_def getE_def liftE_def readE_def)

lemma keeps_bind [keeps_intros]:
  "keeps I m \<Longrightarrow> (\<And>x. keeps I (f x)) \<Longrightarrow> keeps I (bindE m f)"
  unfolding keeps_wp wp_bind by (blast intro: wp_mono)

lemma keeps_seq [keeps_intros]: "keeps I m \<Longrightarrow> keeps I n \<Longrightarrow> keeps I (seqE m n)"
  by (simp add: seqE_def keeps_bind)

lemma keeps_catch [keeps_intros]:
  "keeps I m \<Longrightarrow> (\<And>e. keeps I (h e)) \<Longrightarrow> keeps I (catchE m h)"
  unfolding keeps_wp wp_catch by (blast intro: wp_mono)

lemma keeps_when [keeps_intros]: "(b \<Longrightarrow> keeps I m) \<Longrightarrow> keeps I (whenE b m)"
  by (simp add: whenE_def keeps_basic)

lemma keeps_if [keeps_intros]: "(b \<Longrightarrow> keeps I m) \<Longrightarrow> (\<not> b \<Longrightarrow> keeps I n) \<Longrightarrow> keeps I (if b then m else n)"
  by simp

lemma keeps_for [keeps_intros]: "(\<And>x. x \<in> set xs \<Longrightarrow> keeps I (f x)) \<Longrightarrow> keeps I (forE f xs)"
  by (induction xs) (auto intro!: keeps_intros)

lemma keeps_map [keeps_intros]: "(\<And>x. x \<in> set xs \<Longrightarrow> keeps I (f x)) \<Longrightarrow> keeps I (mapE f xs)"
  by (induction xs) (auto intro!: keeps_intros)

lemma keeps_fold [keeps_intros]:
  "(\<And>a x. x \<in> set xs \<Longrightarrow> keeps I (f a x)) \<Longrightarrow> keeps I (foldE f acc xs)"
  by (induction xs arbitrary: acc) (auto intro!: keeps_intros)

end
