(* ===== verification/FileSystem.thy ===== *)
theory FileSystem
  imports PosixPath Effects
begin

text \<open>
  The file system the supervisor works on, and the functions of \<open>os\<close>, \<open>os.path\<close> and
  \<open>shutil\<close> it calls.  A node is addressed by its physical path: the list of names from the
  root, free of symbolic links.  \<open>walk\<close> is the resolution of a path name by the kernel, with
  its limit of 40 symbolic links.  \<open>fs_fault\<close> is the kernel's refusal of a change or a read
  at a physical path (a permission error, a full disk); a property holds for every such
  function.  The order of \<open>fs_nodes\<close> is the order in which a directory lists its entries.
\<close>

section \<open>State\<close>

datatype content = Regular string | Directory | Symlink string | Fifo

record inode =
  in_content :: content
  in_dev :: int
  in_ino :: int
  in_perm :: int
  in_uid :: int
  in_gid :: int
  in_mtime :: int

type_synonym phys = "string list"

record fs =
  fs_nodes :: "(phys \<times> inode) list"
  fs_cwd :: string
  fs_next_ino :: int
  fs_clock :: int
  fs_fault :: "string \<Rightarrow> phys \<Rightarrow> pyexn option"

definition lookup :: "fs \<Rightarrow> phys \<Rightarrow> inode option" where
  "lookup fs p = map_of (fs_nodes fs) p"

definition put_node :: "phys \<Rightarrow> inode \<Rightarrow> fs \<Rightarrow> fs" where
  "put_node p i fs = fs\<lparr>fs_nodes := AList.update p i (fs_nodes fs)\<rparr>"

definition del_node :: "phys \<Rightarrow> fs \<Rightarrow> fs" where
  "del_node p fs = fs\<lparr>fs_nodes := AList.delete p (fs_nodes fs)\<rparr>"

text \<open>A new node: fresh inode number, owner of the process, current time.\<close>

definition new_node :: "phys \<Rightarrow> content \<Rightarrow> fs \<Rightarrow> fs" where
  "new_node p c fs =
     (put_node p \<lparr>in_content = c, in_dev = 1, in_ino = fs_next_ino fs, in_perm = 493,
        in_uid = 1000, in_gid = 1000, in_mtime = fs_clock fs\<rparr> fs)
     \<lparr>fs_next_ino := fs_next_ino fs + 1, fs_clock := fs_clock fs + 1\<rparr>"

definition is_dir_node :: "inode option \<Rightarrow> bool" where
  "is_dir_node n = (case n of Some i \<Rightarrow> in_content i = Directory | None \<Rightarrow> False)"

fun link_target :: "content \<Rightarrow> string option" where
  "link_target (Symlink t) = Some t"
| "link_target _ = None"

definition is_link_node :: "inode option \<Rightarrow> bool" where
  "is_link_node n = (case n of Some i \<Rightarrow> link_target (in_content i) \<noteq> None | None \<Rightarrow> False)"

fun regular_data :: "content \<Rightarrow> string option" where
  "regular_data (Regular d) = Some d"
| "regular_data _ = None"

section \<open>Path resolution\<close>

function walk :: "fs \<Rightarrow> nat \<Rightarrow> bool \<Rightarrow> phys \<Rightarrow> string list \<Rightarrow> phys result" where
  "walk fs n follow cur [] = Inr cur"
| "walk fs n follow cur (c # cs) =
     (if c = '''' \<or> c = ''.'' then walk fs n follow cur cs
      else if c = pardir then walk fs n follow (butlast cur) cs
      else (case lookup fs (cur @ [c]) of
          None \<Rightarrow> if list_all (\<lambda>d. d = '''') cs then Inr (cur @ [c])
                  else Inl (FileNotFoundError ''No such file or directory'')
        | Some i \<Rightarrow> (case in_content i of
              Directory \<Rightarrow> walk fs n follow (cur @ [c]) cs
            | Symlink t \<Rightarrow>
                if cs = [] \<and> \<not> follow then Inr (cur @ [c])
                else if n = 0 then Inl (OSError ''Too many levels of symbolic links'')
                else walk fs (n - 1) follow (if isabs t then [] else cur) (split_on sep t @ cs)
            | _ \<Rightarrow> if cs = [] then Inr (cur @ [c])
                   else Inl (NotADirectoryError ''Not a directory''))))"
  by pat_completeness auto
termination
  by (relation "measures [\<lambda>(fs, n, follow, cur, cs). n, \<lambda>(fs, n, follow, cur, cs). length cs]") auto

definition resolve :: "fs \<Rightarrow> bool \<Rightarrow> string \<Rightarrow> phys result" where
  "resolve fs follow p =
     (if p = [] then Inl (FileNotFoundError ''No such file or directory'')
      else walk fs 40 follow []
             (split_on sep (if isabs p then p else path_join (fs_cwd fs) p)))"

section \<open>Queries\<close>

definition stat_at :: "fs \<Rightarrow> bool \<Rightarrow> string \<Rightarrow> inode result" where
  "stat_at fs follow p = bindR (resolve fs follow p) (\<lambda>q.
     case lookup fs q of
       None \<Rightarrow> Inl (FileNotFoundError ''No such file or directory'')
     | Some i \<Rightarrow> Inr i)"

abbreviation lstat :: "fs \<Rightarrow> string \<Rightarrow> inode result" where "lstat fs \<equiv> stat_at fs False"

abbreviation stat :: "fs \<Rightarrow> string \<Rightarrow> inode result" where "stat fs \<equiv> stat_at fs True"

definition lexists :: "fs \<Rightarrow> string \<Rightarrow> bool" where
  "lexists fs p = is_ok (lstat fs p)"

definition exists_path :: "fs \<Rightarrow> string \<Rightarrow> bool" where
  "exists_path fs p = is_ok (stat fs p)"

definition islink :: "fs \<Rightarrow> string \<Rightarrow> bool" where
  "islink fs p = (case lstat fs p of Inl _ \<Rightarrow> False | Inr i \<Rightarrow> link_target (in_content i) \<noteq> None)"

definition isdir :: "fs \<Rightarrow> string \<Rightarrow> bool" where
  "isdir fs p = (case stat fs p of Inl _ \<Rightarrow> False | Inr i \<Rightarrow> in_content i = Directory)"

definition isfile :: "fs \<Rightarrow> string \<Rightarrow> bool" where
  "isfile fs p = (case stat fs p of Inl _ \<Rightarrow> False | Inr i \<Rightarrow> regular_data (in_content i) \<noteq> None)"

definition readlink :: "fs \<Rightarrow> string \<Rightarrow> string result" where
  "readlink fs p = bindR (lstat fs p) (\<lambda>i.
     case link_target (in_content i) of
       None \<Rightarrow> Inl (OSError ''Invalid argument'')
     | Some t \<Rightarrow> Inr t)"

text \<open>\<open>open(p, 'rb').read()\<close>.\<close>

definition read_file :: "fs \<Rightarrow> string \<Rightarrow> string result" where
  "read_file fs p = bindR (resolve fs True p) (\<lambda>q.
     case lookup fs q of
       None \<Rightarrow> Inl (FileNotFoundError ''No such file or directory'')
     | Some i \<Rightarrow> (case in_content i of
           Directory \<Rightarrow> Inl (IsADirectoryError ''Is a directory'')
         | Regular d \<Rightarrow> (case fs_fault fs ''read'' q of Some e \<Rightarrow> Inl e | None \<Rightarrow> Inr d)
         | _ \<Rightarrow> Inl (OSError ''not a regular file'')))"

definition child_names :: "fs \<Rightarrow> phys \<Rightarrow> string list" where
  "child_names fs q =
     map last (filter (\<lambda>k. k \<noteq> [] \<and> butlast k = q) (map fst (fs_nodes fs)))"

definition listdir :: "fs \<Rightarrow> string \<Rightarrow> string list result" where
  "listdir fs p = bindR (resolve fs True p) (\<lambda>q.
     case lookup fs q of
       None \<Rightarrow> Inl (FileNotFoundError ''No such file or directory'')
     | Some i \<Rightarrow> if in_content i \<noteq> Directory then Inl (NotADirectoryError ''Not a directory'')
                 else (case fs_fault fs ''read'' q of Some e \<Rightarrow> Inl e | None \<Rightarrow> Inr (child_names fs q)))"

section \<open>Changes\<close>

text \<open>Every change at a physical path first asks whether the kernel refuses it.\<close>

definition guarded :: "string \<Rightarrow> phys \<Rightarrow> (fs \<Rightarrow> fs) \<Rightarrow> (fs, unit) eff" where
  "guarded op q f =
     bindE (getE (\<lambda>fs. fs_fault fs op q)) (\<lambda>fault.
       case fault of Some e \<Rightarrow> raiseE e | None \<Rightarrow> modE f)"

definition remove_entry :: "phys \<Rightarrow> (fs, unit) eff" where
  "remove_entry q = guarded ''remove'' q (del_node q)"

definition os_unlink :: "string \<Rightarrow> (fs, unit) eff" where
  "os_unlink p =
     bindE (readE (\<lambda>fs. resolve fs False p)) (\<lambda>q.
     bindE (getE (\<lambda>fs. lookup fs q)) (\<lambda>node.
       case node of
         None \<Rightarrow> raiseE (FileNotFoundError ''No such file or directory'')
       | Some i \<Rightarrow> if in_content i = Directory then raiseE (IsADirectoryError ''Is a directory'')
                   else remove_entry q))"

definition os_rmdir :: "string \<Rightarrow> (fs, unit) eff" where
  "os_rmdir p =
     bindE (readE (\<lambda>fs. resolve fs False p)) (\<lambda>q.
     bindE (getE (\<lambda>fs. (lookup fs q, child_names fs q))) (\<lambda>(node, children).
       case node of
         None \<Rightarrow> raiseE (FileNotFoundError ''No such file or directory'')
       | Some i \<Rightarrow> if in_content i \<noteq> Directory then raiseE (NotADirectoryError ''Not a directory'')
                   else if children \<noteq> [] then raiseE (OSError ''Directory not empty'')
                   else remove_entry q))"

text \<open>\<open>shutil.rmtree\<close>: entries before the directory that holds them, symbolic links unlinked and
  never followed; the first refusal stops it.  The depth of the tree bounds the recursion.\<close>

primrec postorder :: "nat \<Rightarrow> fs \<Rightarrow> phys \<Rightarrow> phys list" where
  "postorder 0 fs q = [q]"
| "postorder (Suc n) fs q = concat (map (\<lambda>c. postorder n fs (q @ [c])) (child_names fs q)) @ [q]"

definition tree_depth :: "fs \<Rightarrow> nat" where
  "tree_depth fs = foldr (\<lambda>k m. max (length (fst k)) m) (fs_nodes fs) 0"

definition rmtree :: "string \<Rightarrow> (fs, unit) eff" where
  "rmtree p =
     bindE (readE (\<lambda>fs. resolve fs False p)) (\<lambda>q.
     bindE (getE (\<lambda>fs. (lookup fs q, postorder (tree_depth fs) fs q))) (\<lambda>(node, entries).
       case node of
         None \<Rightarrow> raiseE (FileNotFoundError ''No such file or directory'')
       | Some i \<Rightarrow>
           if link_target (in_content i) \<noteq> None
           then raiseE (OSError ''Cannot call rmtree on a symbolic link'')
           else if in_content i \<noteq> Directory then raiseE (NotADirectoryError ''Not a directory'')
           else forE remove_entry entries))"

definition os_mkdir :: "string \<Rightarrow> (fs, unit) eff" where
  "os_mkdir p =
     bindE (readE (\<lambda>fs. resolve fs False p)) (\<lambda>q.
     bindE (getE (\<lambda>fs. lookup fs q)) (\<lambda>node.
       if node \<noteq> None then raiseE (FileExistsError ''File exists'')
       else guarded ''create'' q (new_node q Directory)))"

definition os_symlink :: "string \<Rightarrow> string \<Rightarrow> (fs, unit) eff" where
  "os_symlink target p =
     bindE (readE (\<lambda>fs. resolve fs False p)) (\<lambda>q.
     bindE (getE (\<lambda>fs. lookup fs q)) (\<lambda>node.
       if node \<noteq> None then raiseE (FileExistsError ''File exists'')
       else guarded ''create'' q (new_node q (Symlink target))))"

text \<open>\<open>open(p, 'wb')\<close> and writing: follows symbolic links, truncates a present file in place.\<close>

definition write_file :: "string \<Rightarrow> string \<Rightarrow> (fs, unit) eff" where
  "write_file p data =
     bindE (readE (\<lambda>fs. resolve fs True p)) (\<lambda>q.
     bindE (getE (\<lambda>fs. lookup fs q)) (\<lambda>node.
       case node of
         None \<Rightarrow> guarded ''create'' q (new_node q (Regular data))
       | Some i \<Rightarrow> (case in_content i of
             Directory \<Rightarrow> raiseE (IsADirectoryError ''Is a directory'')
           | Regular _ \<Rightarrow> guarded ''write'' q (\<lambda>fs. (put_node q (i\<lparr>in_content := Regular data,
                 in_mtime := fs_clock fs\<rparr>) fs)\<lparr>fs_clock := fs_clock fs + 1\<rparr>)
           | _ \<Rightarrow> raiseE (OSError ''not a regular file''))))"

text \<open>\<open>os.replace\<close> of a file that is not a directory: the destination entry itself is replaced.\<close>

definition os_replace :: "string \<Rightarrow> string \<Rightarrow> (fs, unit) eff" where
  "os_replace src dst =
     bindE (readE (\<lambda>fs. resolve fs False src)) (\<lambda>q.
     bindE (readE (\<lambda>fs. resolve fs False dst)) (\<lambda>r.
     bindE (getE (\<lambda>fs. (lookup fs q, lookup fs r))) (\<lambda>(node, old).
       case node of
         None \<Rightarrow> raiseE (FileNotFoundError ''No such file or directory'')
       | Some i \<Rightarrow>
           if in_content i = Directory \<or> is_dir_node old then raiseE (IsADirectoryError ''Is a directory'')
           else seqE (guarded ''remove'' q (\<lambda>fs. fs))
                     (guarded ''create'' r (\<lambda>fs. put_node r i (if q = r then fs else del_node q fs))))))"

text \<open>\<open>os.makedirs(p, exist_ok=True)\<close>.\<close>

function makedirs :: "string \<Rightarrow> (fs, unit) eff" where
  "makedirs p =
     (let (head, tail) = (let (h, t) = (path_head p, path_tail p)
                          in if t = [] then (path_head h, path_tail h) else (h, t));
          make = catchE (os_mkdir p) (\<lambda>e. \<lambda>fs. if is_os_error e \<and> isdir fs p then (Inr (), fs) else (Inl e, fs))
      in (\<lambda>fs.
        if head \<noteq> [] \<and> tail \<noteq> [] \<and> \<not> exists_path fs head
        then seqE (catchE (makedirs head)
                     (\<lambda>e. case e of FileExistsError _ \<Rightarrow> retE () | _ \<Rightarrow> raiseE e))
                  (if tail = ''.'' then retE () else make) fs
        else make fs))"
  by pat_completeness auto

lemma rstrip_length: "length (rstrip c s) \<le> length s"
  unfolding rstrip_def by (metis length_dropWhile_le length_rev)

lemma path_head_length: "length (path_head p) + length (path_tail p) \<le> length p"
proof -
  have "length (takeWhile ((\<noteq>) sep) (rev p)) + length (dropWhile ((\<noteq>) sep) (rev p)) = length p"
    by (metis length_append length_rev takeWhile_dropWhile_id)
  then show ?thesis
    using rstrip_length [of sep "rev (dropWhile ((\<noteq>) sep) (rev p))"]
    by (auto simp: path_head_def path_tail_def Let_def)
qed

termination makedirs
proof (relation "measure length")
  fix p :: string and x head tail make and fs :: fs
  assume x: "x = (let (h, t) = (path_head p, path_tail p)
                  in if t = [] then (path_head h, path_tail h) else (h, t))"
    and "(head, tail) = x" and "head \<noteq> [] \<and> tail \<noteq> [] \<and> \<not> exists_path fs head"
  then show "(head, p) \<in> measure length"
    using path_head_length [of p] path_head_length [of "path_head p"]
    by (auto split: if_splits) (metis add_less_cancel_left add.right_neutral le_trans length_greater_0_conv
        less_le_trans linorder_not_less trans_le_add1)+
qed simp

declare makedirs.simps [simp del]

text \<open>\<open>shutil.copy2(src, dst, follow_symlinks=follow)\<close>: \<open>copyfile\<close> and then \<open>copystat\<close>.\<close>

definition same_file :: "fs \<Rightarrow> string \<Rightarrow> string \<Rightarrow> bool" where
  "same_file fs a b = (case (stat fs a, stat fs b) of
     (Inr i, Inr j) \<Rightarrow> in_ino i = in_ino j \<and> in_dev i = in_dev j
   | _ \<Rightarrow> False)"

definition is_fifo :: "fs \<Rightarrow> string \<Rightarrow> bool" where
  "is_fifo fs p = (case stat fs p of Inl _ \<Rightarrow> False | Inr i \<Rightarrow> in_content i = Fifo)"

definition copystat :: "string \<Rightarrow> string \<Rightarrow> bool \<Rightarrow> (fs, unit) eff" where
  "copystat src dst follow =
     bindE (readE (\<lambda>fs. stat_at fs follow src)) (\<lambda>i.
     bindE (readE (\<lambda>fs. resolve fs follow dst)) (\<lambda>q.
     bindE (readE (\<lambda>fs. stat_at fs follow dst)) (\<lambda>j.
       guarded ''setattr'' q (put_node q (j\<lparr>in_perm := in_perm i, in_mtime := in_mtime i\<rparr>)))))"

definition copy2 :: "string \<Rightarrow> string \<Rightarrow> bool \<Rightarrow> (fs, unit) eff" where
  "copy2 src dst0 follow =
     bindE (getE (\<lambda>fs. if isdir fs dst0 then path_join dst0 (basename src) else dst0)) (\<lambda>dst.
     bindE (getE (\<lambda>fs. (same_file fs src dst, is_fifo fs src \<or> is_fifo fs dst, islink fs src)))
       (\<lambda>(same, fifo, link).
       if same then raiseE (OSError ''are the same file'')
       else if fifo then raiseE (OSError ''is a named pipe'')
       else if \<not> follow \<and> link
       then bindE (readE (\<lambda>fs. readlink fs src)) (\<lambda>t.
              seqE (os_symlink t dst) (copystat src dst False))
       else bindE (readE (\<lambda>fs. read_file fs src)) (\<lambda>data.
              seqE (write_file dst data) (copystat src dst (follow \<or> \<not> link)))))"

end
