(* ===== verification/FsFacts.thy ===== *)
theory FsFacts
  imports FileSystem
begin

text \<open>
  Facts about the file system: lexical and physical resolution agree where no symbolic link
  is in the way, and every operation changes only the entry its path resolves to (for
  \<open>rmtree\<close>: the entries below it).
\<close>

section \<open>Well-formed file systems\<close>

definition dir_at :: "fs \<Rightarrow> phys \<Rightarrow> bool" where
  "dir_at fs p = is_dir_node (lookup fs p)"

definition link_at :: "fs \<Rightarrow> phys \<Rightarrow> bool" where
  "link_at fs p = is_link_node (lookup fs p)"

text \<open>The root is a directory and every other node stands in a directory.\<close>

definition fs_ok :: "fs \<Rightarrow> bool" where
  "fs_ok fs \<longleftrightarrow> dir_at fs [] \<and> (\<forall>p c. lookup fs (p @ [c]) \<noteq> None \<longrightarrow> dir_at fs p)"

text \<open>Every prefix of the path, itself included, is a directory.\<close>

definition real_dirs :: "fs \<Rightarrow> phys \<Rightarrow> bool" where
  "real_dirs fs p \<longleftrightarrow> (\<forall>q. prefix q p \<longrightarrow> dir_at fs q)"

lemma lookup_simps [simp]:
  "lookup (put_node q i fs) p = (if p = q then Some i else lookup fs p)"
  "lookup (del_node q fs) p = (if p = q then None else lookup fs p)"
  "lookup (fs\<lparr>fs_next_ino := n\<rparr>) p = lookup fs p"
  "lookup (fs\<lparr>fs_clock := t\<rparr>) p = lookup fs p"
  by (auto simp: lookup_def put_node_def del_node_def update_conv' delete_conv')

lemma put_fields [simp]:
  "fs_cwd (put_node q i fs) = fs_cwd fs" "fs_fault (put_node q i fs) = fs_fault fs"
  "fs_cwd (del_node q fs) = fs_cwd fs" "fs_fault (del_node q fs) = fs_fault fs"
  "fs_cwd (new_node q c fs) = fs_cwd fs" "fs_fault (new_node q c fs) = fs_fault fs"
  by (simp_all add: put_node_def del_node_def new_node_def)

lemma lookup_new_node:
  "lookup (new_node q c fs) p = (if p = q then Some \<lparr>in_content = c, in_dev = 1,
     in_ino = fs_next_ino fs, in_perm = 493, in_uid = 1000, in_gid = 1000,
     in_mtime = fs_clock fs\<rparr> else lookup fs p)"
  by (simp add: new_node_def)

lemma node_kinds [simp]:
  "\<not> is_dir_node None" "is_dir_node (Some i) \<longleftrightarrow> in_content i = Directory"
  "\<not> is_link_node None" "is_link_node (Some i) \<longleftrightarrow> link_target (in_content i) \<noteq> None"
  by (simp_all add: is_dir_node_def is_link_node_def)

lemma link_target_Some: "link_target c = Some t \<longleftrightarrow> c = Symlink t"
  by (cases c) auto

lemma link_target_None: "link_target c = None \<longleftrightarrow> (\<forall>t. c \<noteq> Symlink t)"
  by (cases c) auto

lemma dir_not_link: "dir_at fs p \<Longrightarrow> \<not> link_at fs p"
  by (auto simp: dir_at_def link_at_def is_dir_node_def is_link_node_def split: option.splits)

lemma fs_ok_parents: "fs_ok fs \<Longrightarrow> lookup fs (p @ q) \<noteq> None \<Longrightarrow> q \<noteq> [] \<Longrightarrow> dir_at fs p"
proof (induction q rule: rev_induct)
  case (snoc c q)
  then have "dir_at fs (p @ q)" by (auto simp: fs_ok_def simp flip: append_assoc)
  with snoc show ?case by (cases "q = []") (auto simp: dir_at_def is_dir_node_def split: option.splits)
qed simp

lemma fs_ok_above: "fs_ok fs \<Longrightarrow> lookup fs q = Some i \<Longrightarrow> strict_prefix p q \<Longrightarrow> dir_at fs p"
  using fs_ok_parents [of fs p] by (auto simp: strict_prefix_def prefix_def)

lemma fs_ok_missing: "fs_ok fs \<Longrightarrow> lookup fs p = None \<Longrightarrow> prefix p q \<Longrightarrow> lookup fs q = None"
  using fs_ok_parents [of fs p] by (cases "p = q") (auto simp: dir_at_def prefix_def)

lemma fs_ok_real_dirs: "fs_ok fs \<Longrightarrow> dir_at fs p \<Longrightarrow> real_dirs fs p"
  unfolding real_dirs_def prefix_def dir_at_def
  using fs_ok_parents [of fs] by (metis append_Nil2 dir_at_def node_kinds(1))

lemma real_dirs_take: "real_dirs fs p \<Longrightarrow> prefix q p \<Longrightarrow> real_dirs fs q"
  by (auto simp: real_dirs_def dest: prefix_order.trans)

section \<open>Lexical resolution\<close>

definition lexpath_step :: "phys \<Rightarrow> string \<Rightarrow> phys" where
  "lexpath_step cur c = (if c = '''' \<or> c = ''.'' then cur else if c = pardir then butlast cur else cur @ [c])"

definition lexpath :: "phys \<Rightarrow> string list \<Rightarrow> phys" where
  "lexpath cur cs = foldl lexpath_step cur cs"

lemma lexpath_simps [simp]: "lexpath cur [] = cur" "lexpath cur (c # cs) = lexpath (lexpath_step cur c) cs"
  "lexpath cur (xs @ ys) = lexpath (lexpath cur xs) ys"
  by (simp_all add: lexpath_def)

lemma lexpath_proper: "(\<And>c. c \<in> set cs \<Longrightarrow> proper c) \<Longrightarrow> lexpath cur cs = cur @ cs"
  by (induction cs arbitrary: cur) (auto simp: lexpath_step_def proper_def)

lemma norm_loop_lexpath:
  "pardir \<notin> set acc \<Longrightarrow> norm_loop True acc cs = lexpath (rev acc) cs"
proof (induction cs arbitrary: acc)
  case (Cons c cs)
  have "hd acc \<noteq> pardir" if "acc \<noteq> []" using Cons.prems that by (cases acc) auto
  moreover have "pardir \<notin> set (tl acc)" using Cons.prems by (cases acc) auto
  moreover have "rev (tl acc) = butlast (rev acc)" by (cases acc) auto
  ultimately show ?case using Cons by (auto simp: lexpath_step_def)
qed simp

lemma norm_comps_lexpath: "isabs p \<Longrightarrow> norm_comps p = lexpath [] (split_on sep p)"
  by (simp add: norm_comps_def norm_loop_lexpath)

text \<open>Where no lexical prefix is a symbolic link, the kernel's walk is the lexical one.\<close>

lemma walk_lexical:
  assumes "walk fs n follow cur cs = Inr q"
    and "\<And>i. i < length cs \<Longrightarrow> \<not> link_at fs (lexpath cur (take i cs))"
    and "follow \<Longrightarrow> \<not> link_at fs (lexpath cur cs)"
  shows "q = lexpath cur cs"
  using assms
proof (induction fs n follow cur cs rule: walk.induct)
  case (2 fs n follow cur c cs)
  have shift: "\<And>i. i < length cs \<Longrightarrow> \<not> link_at fs (lexpath (lexpath_step cur c) (take i cs))"
    using "2.prems"(2) [of "Suc _"] by simp
  have last: "follow \<Longrightarrow> \<not> link_at fs (lexpath (lexpath_step cur c) cs)"
    using "2.prems"(3) by simp
  consider (skip) "c = '''' \<or> c = ''.''" | (up) "c = pardir" | (down) "c \<noteq> ''''" "c \<noteq> ''.''" "c \<noteq> pardir"
    by blast
  then show ?case
  proof cases
    case skip
    then show ?thesis using "2.IH"(1) "2.prems"(1) shift last by (simp add: lexpath_step_def)
  next
    case up
    then show ?thesis using "2.IH"(2) "2.prems"(1) shift last by (simp add: lexpath_step_def)
  next
    case down
    have step: "lexpath_step cur c = cur @ [c]" using down by (simp add: lexpath_step_def)
    show ?thesis
    proof (cases "lookup fs (cur @ [c])")
      case None
      with "2.prems"(1) down have "list_all (\<lambda>d. d = '''') cs" "q = cur @ [c]"
        by (auto split: if_splits)
      moreover from this(1) have "lexpath (cur @ [c]) cs = cur @ [c]"
        by (induction cs) (auto simp: lexpath_step_def)
      ultimately show ?thesis by (simp add: step)
    next
      case (Some i)
      show ?thesis
      proof (cases "in_content i")
        case (Symlink t)
        with Some have link: "link_at fs (cur @ [c])" by (simp add: link_at_def)
        have "cs = []" using shift [of 0] link step by (cases cs) auto
        moreover have "\<not> follow" using last link step \<open>cs = []\<close> by auto
        ultimately show ?thesis using "2.prems"(1) down Some Symlink by (simp add: step)
      next
        case Directory
        then show ?thesis using "2.IH"(3) "2.prems"(1) down Some shift last by (simp add: step)
      qed (use "2.prems"(1) down Some step in \<open>auto split: if_splits\<close>)
    qed
  qed
qed simp

lemma walk_error: "walk fs n follow cur cs = Inl e \<Longrightarrow> is_os_error e"
proof (induction fs n follow cur cs rule: walk.induct)
  case (2 fs n follow cur c cs)
  then show ?case by (auto split: if_splits option.splits content.splits)
qed simp

lemma resolve_error: "resolve fs follow p = Inl e \<Longrightarrow> is_os_error e"
  using walk_error by (auto simp: resolve_def split: if_splits)

text \<open>A path through directories only.\<close>

lemma walk_dirs:
  assumes "\<And>i. 0 < i \<Longrightarrow> i \<le> length xs \<Longrightarrow> dir_at fs (lexpath cur (take i xs))"
  shows "walk fs n follow cur (xs @ ys) = walk fs n follow (lexpath cur xs) ys"
  using assms
proof (induction xs arbitrary: cur)
  case (Cons c xs)
  have d: "dir_at fs (lexpath_step cur c)" using Cons.prems [of 1] by simp
  have "walk fs n follow (lexpath_step cur c) (xs @ ys) = walk fs n follow (lexpath (lexpath_step cur c) xs) ys"
  proof (rule Cons.IH)
    fix i assume "0 < i" "i \<le> length xs"
    then show "dir_at fs (lexpath (lexpath_step cur c) (take i xs))" using Cons.prems [of "Suc i"] by simp
  qed
  with d show ?case
    by (auto simp: lexpath_step_def dir_at_def is_dir_node_def split: option.splits)
qed simp

text \<open>Following the last component makes no difference when it is not a symbolic link.\<close>

lemma walk_follow:
  "walk fs n False cur cs = Inr q \<Longrightarrow> \<not> link_at fs q \<Longrightarrow> walk fs n True cur cs = Inr q"
proof (induction fs n False cur cs rule: walk.induct)
  case (2 fs n cur c cs)
  note prems = "2.prems"
  consider (skip) "c = '''' \<or> c = ''.''" | (up) "c = pardir" "c \<noteq> ''''" "c \<noteq> ''.''" | (down) "c \<noteq> ''''" "c \<noteq> ''.''" "c \<noteq> pardir"
    by blast
  then show ?case
  proof cases
    case skip
    then show ?thesis using "2.hyps"(1) prems by auto
  next
    case up
    then show ?thesis using "2.hyps"(2) prems by auto
  next
    case down
    show ?thesis
    proof (cases "lookup fs (cur @ [c])")
      case None
      then show ?thesis using prems down by (auto split: if_splits)
    next
      case (Some j)
      show ?thesis
      proof (cases "in_content j")
        case Directory
        then show ?thesis using "2.hyps"(3) prems down Some by auto
      next
        case (Symlink l)
        show ?thesis
        proof (cases "cs = []")
          case True
          then show ?thesis using prems down Some Symlink by (simp add: link_at_def)
        next
          case False
          moreover have "n \<noteq> 0" using prems(1) down Some Symlink False by (auto split: if_splits)
          ultimately show ?thesis using "2.hyps"(4) prems down Some Symlink by auto
        qed
      qed (use prems down Some in \<open>auto split: if_splits\<close>)
    qed
  qed
qed simp

text \<open>Creating the entry a path resolves to makes the path resolve to it.\<close>

lemma walk_empties: "list_all (\<lambda>d. d = '''') cs \<Longrightarrow> walk fs n follow cur cs = Inr cur"
  by (induction cs) auto

lemma walk_put:
  assumes "walk fs n False cur cs = Inr q" "lookup fs q = None"
    and "in_content i = Directory \<or> cs = [] \<or> last cs \<noteq> ''''"
    and "\<And>p. p \<noteq> q \<Longrightarrow> lookup t p = lookup fs p" "lookup t q = Some i"
  shows "walk t n False cur cs = Inr q"
  using assms
proof (induction fs n False cur cs rule: walk.induct)
  case (2 fs n cur c cs)
  have c2: "in_content i = Directory \<or> cs = [] \<or> last cs \<noteq> ''''" using "2.prems"(3) by (cases cs) auto
  note rest = c2 "2.prems"(4) "2.prems"(5)
  consider (skip) "c = '''' \<or> c = ''.''" | (up) "c = pardir" "c \<noteq> ''''" "c \<noteq> ''.''" | (down) "c \<noteq> ''''" "c \<noteq> ''.''" "c \<noteq> pardir"
    by blast
  then show ?case
  proof cases
    case skip
    then show ?thesis using "2.hyps"(1) "2.prems"(1,2) rest by auto
  next
    case up
    then show ?thesis using "2.hyps"(2) "2.prems"(1,2) rest by auto
  next
    case down
    show ?thesis
    proof (cases "lookup fs (cur @ [c])")
      case None
      with "2.prems"(1) down have e: "list_all (\<lambda>d. d = '''') cs" "q = cur @ [c]"
        by (auto split: if_splits)
      then have at: "lookup t (cur @ [c]) = Some i" using rest by simp
      have "in_content i = Directory \<or> cs = []"
        using e(1) c2 by (cases cs rule: rev_cases) auto
      then show ?thesis using down at e by (auto simp: walk_empties split: content.splits)
    next
      case (Some j)
      then have same: "lookup t (cur @ [c]) = Some j" using rest(2) "2.prems"(2) by (metis option.distinct(1))
      show ?thesis
      proof (cases "in_content j")
        case Directory
        then show ?thesis using "2.hyps"(3) "2.prems"(1,2) rest down Some same by auto
      next
        case (Symlink l)
        show ?thesis
        proof (cases "cs = []")
          case True
          then have "q = cur @ [c]" using "2.prems"(1) down Some Symlink by simp
          then show ?thesis using "2.prems"(2) Some by simp
        next
          case False
          moreover have "n \<noteq> 0"
            using "2.prems"(1) down Some Symlink False by (auto split: if_splits)
          ultimately show ?thesis
            using "2.hyps"(4) "2.prems"(1,2) rest down Some same Symlink by auto
        qed
      qed (use "2.prems"(1,2) down Some in \<open>auto split: if_splits\<close>)
    qed
  qed
qed simp

section \<open>Path names with plain components\<close>

definition plain_name :: "string \<Rightarrow> bool" where
  "plain_name c \<longleftrightarrow> c \<noteq> [] \<and> sep \<notin> set c"

lemma plain_name_proper: "proper c \<Longrightarrow> plain_name c"
  by (simp add: proper_def plain_name_def)

abbreviation abs_path :: "string list \<Rightarrow> string" where
  "abs_path zs \<equiv> mk_path ''/'' zs"

lemma split_abs_path:
  "zs \<noteq> [] \<Longrightarrow> (\<And>c. c \<in> set zs \<Longrightarrow> plain_name c) \<Longrightarrow> split_on sep (abs_path zs) = '''' # zs"
  using split_join [of zs sep] by (auto simp: mk_path_def plain_name_def)

lemma resolve_abs_path:
  assumes "\<And>c. c \<in> set zs \<Longrightarrow> plain_name c"
  shows "resolve fs follow (abs_path zs) = walk fs 40 follow [] zs"
proof -
  have "isabs (abs_path zs)" "abs_path zs \<noteq> []" by (simp_all add: mk_path_def isabs_def)
  then show ?thesis
    using split_abs_path [OF _ assms]
    by (cases "zs = []") (simp_all add: resolve_def mk_path_def)
qed

lemma while_break:
  "c \<notin> set xs \<Longrightarrow> takeWhile ((\<noteq>) c) (xs @ c # w) = xs"
  "c \<notin> set xs \<Longrightarrow> dropWhile ((\<noteq>) c) (xs @ c # w) = c # w"
  by (induction xs) auto

lemma path_tail_abs:
  assumes "plain_name z"
  shows "path_tail (abs_path (ys @ [z])) = z"
proof -
  have "abs_path (ys @ [z]) = (if ys = [] then ''/'' else abs_path ys @ ''/'') @ z"
    by (cases "ys = []") (simp_all add: mk_path_def join_with_append)
  moreover have "sep \<notin> set (rev z)" using assms by (simp add: plain_name_def)
  ultimately show ?thesis
    by (cases "ys = []") (simp_all add: path_tail_def while_break)
qed

lemma last_abs_path:
  assumes "ys \<noteq> []" "\<And>c. c \<in> set ys \<Longrightarrow> plain_name c"
  shows "last (abs_path ys) \<noteq> sep"
proof -
  have "join_with ''/'' ys \<noteq> [] \<and> last (join_with ''/'' ys) \<noteq> sep"
    using assms
  proof (induction ys)
    case (Cons c ys)
    have c: "c \<noteq> []" "sep \<notin> set c" using Cons.prems(2) [of c] by (auto simp: plain_name_def)
    have "last c \<noteq> sep" using last_in_set [OF c(1)] c(2) by metis
    with Cons c show ?case by (cases "ys = []") (auto simp: join_with_Cons last_append)
  qed simp
  then show ?thesis by (simp add: mk_path_def)
qed

lemma path_head_abs:
  assumes "plain_name z" "\<And>c. c \<in> set ys \<Longrightarrow> plain_name c"
  shows "path_head (abs_path (ys @ [z])) = abs_path ys"
proof -
  have e: "abs_path (ys @ [z]) = (if ys = [] then ''/'' else abs_path ys @ ''/'') @ z"
    by (cases "ys = []") (simp_all add: mk_path_def join_with_append)
  have "sep \<notin> set (rev z)" using assms(1) by (simp add: plain_name_def)
  then have h: "rev (dropWhile ((\<noteq>) sep) (rev (abs_path (ys @ [z])))) =
      (if ys = [] then ''/'' else abs_path ys @ ''/'')"
    unfolding e by (cases "ys = []") (simp_all add: while_break)
  show ?thesis
  proof (cases "ys = []")
    case True
    with h show ?thesis by (simp add: path_head_def mk_path_def Let_def)
  next
    case False
    have l: "last (abs_path ys) \<noteq> sep" using last_abs_path [OF False] assms(2) by blast
    have ne: "abs_path ys \<noteq> []" by (simp add: mk_path_def)
    then have "last (abs_path ys) \<in> set (abs_path ys)" by simp
    with l have ex: "\<exists>c\<in>set (abs_path ys @ ''/''). c \<noteq> sep" by auto
    have r: "rstrip sep (abs_path ys @ ''/'') = abs_path ys"
      using l ne by (cases "abs_path ys" rule: rev_cases) (auto simp: rstrip_def)
    show ?thesis unfolding path_head_def h Let_def using False ex r by simp
  qed
qed

section \<open>What an operation may change\<close>

definition changes_only :: "(phys \<Rightarrow> bool) \<Rightarrow> fs \<Rightarrow> fs \<Rightarrow> bool" where
  "changes_only D fs fs' \<longleftrightarrow> (\<forall>p. \<not> D p \<longrightarrow> lookup fs' p = lookup fs p) \<and>
     fs_cwd fs' = fs_cwd fs \<and> fs_fault fs' = fs_fault fs"

lemma changes_only_refl [simp, intro]: "changes_only D fs fs"
  by (simp add: changes_only_def)

lemma changes_only_trans: "changes_only D fs gs \<Longrightarrow> changes_only D gs hs \<Longrightarrow> changes_only D fs hs"
  by (simp add: changes_only_def)

lemma changes_only_mono: "changes_only D fs gs \<Longrightarrow> (\<And>p. D p \<Longrightarrow> D' p) \<Longrightarrow> changes_only D' fs gs"
  by (auto simp: changes_only_def)

lemma changes_only_del [intro]: "D q \<Longrightarrow> changes_only D fs (del_node q fs)"
  by (auto simp: changes_only_def)

lemma changes_only_new [intro]: "D q \<Longrightarrow> changes_only D fs (new_node q c fs)"
  by (auto simp: changes_only_def lookup_new_node)

lemma changes_only_put [intro]: "D q \<Longrightarrow> changes_only D fs (put_node q i fs)"
  by (auto simp: changes_only_def)

lemma wp_guarded [wp_simps]:
  "wp (guarded op q f) Q E s = (case fs_fault s op q of None \<Rightarrow> Q () (f s) | Some e \<Rightarrow> E e s)"
  by (simp add: guarded_def wp_simps split: option.split)

lemma wp_remove_entry [wp_simps]:
  "wp (remove_entry q) Q E s = (case fs_fault s ''remove'' q of None \<Rightarrow> Q () (del_node q s) | Some e \<Rightarrow> E e s)"
  by (simp add: remove_entry_def wp_simps)

lemma unlink_wp:
  assumes "\<And>q i. resolve s False p = Inr q \<Longrightarrow> lookup s q = Some i \<Longrightarrow> in_content i \<noteq> Directory \<Longrightarrow> Q () (del_node q s)"
    and "\<And>e. E e s"
  shows "wp (os_unlink p) Q E s"
  using assms by (auto simp: os_unlink_def wp_simps split: sum.split option.split)

lemma mkdir_wp:
  assumes "\<And>q. resolve s False p = Inr q \<Longrightarrow> lookup s q = None \<Longrightarrow> Q () (new_node q Directory s)"
    and "\<And>e. E e s"
  shows "wp (os_mkdir p) Q E s"
  using assms by (auto simp: os_mkdir_def wp_simps split: sum.split option.split)

lemma symlink_wp:
  assumes "\<And>q. resolve s False p = Inr q \<Longrightarrow> lookup s q = None \<Longrightarrow> Q () (new_node q (Symlink t) s)"
    and "\<And>e. E e s"
  shows "wp (os_symlink t p) Q E s"
  using assms by (auto simp: os_symlink_def wp_simps split: sum.split option.split)

lemma write_wp:
  assumes "\<And>q. resolve s True p = Inr q \<Longrightarrow> lookup s q = None \<Longrightarrow> Q () (new_node q (Regular d) s)"
    and "\<And>q i old. resolve s True p = Inr q \<Longrightarrow> lookup s q = Some i \<Longrightarrow> in_content i = Regular old \<Longrightarrow>
       Q () ((put_node q (i\<lparr>in_content := Regular d, in_mtime := fs_clock s\<rparr>) s)\<lparr>fs_clock := fs_clock s + 1\<rparr>)"
    and "\<And>e. E e s"
  shows "wp (write_file p d) Q E s"
  using assms by (auto simp: write_file_def wp_simps split: sum.split option.split content.split)

lemma copystat_wp:
  assumes "\<And>i q j. stat_at s f src = Inr i \<Longrightarrow> resolve s f dst = Inr q \<Longrightarrow> lookup s q = Some j \<Longrightarrow>
       Q () (put_node q (j\<lparr>in_perm := in_perm i, in_mtime := in_mtime i\<rparr>) s)"
    and "\<And>e. E e s"
  shows "wp (copystat src dst f) Q E s"
  using assms
  by (auto simp: copystat_def wp_simps stat_at_def bindR_def split: sum.split option.split)

lemma postorder_prefix: "r \<in> set (postorder n fs q) \<Longrightarrow> prefix q r"
proof (induction n arbitrary: q r)
  case (Suc n)
  then show ?case by (auto dest: append_prefixD)
qed simp

lemma rmtree_wp:
  assumes "\<And>q i. resolve s False p = Inr q \<Longrightarrow> lookup s q = Some i \<Longrightarrow> in_content i = Directory \<Longrightarrow>
       wp (forE remove_entry (postorder (tree_depth s) s q)) Q E s"
    and "\<And>e. E e s"
  shows "wp (rmtree p) Q E s"
  using assms by (auto simp: rmtree_def wp_simps split: sum.split option.split)

lemma remove_entries_changes:
  assumes "\<And>r. r \<in> set rs \<Longrightarrow> D r"
  shows "wp (forE remove_entry rs) (\<lambda>_. changes_only D s) (\<lambda>_. changes_only D s) s"
proof (rule wp_for [where I = "changes_only D s"])
  fix r t assume "r \<in> set rs" "changes_only D s t"
  then show "wp (remove_entry r) (\<lambda>_. changes_only D s) (\<lambda>_. changes_only D s) t"
    using assms by (auto simp: wp_simps intro: changes_only_trans split: option.split)
qed auto

lemma remove_entries_gone:
  "wp (forE remove_entry rs) (\<lambda>_ t. \<forall>p. lookup t p = (if p \<in> set rs then None else lookup s p)) (\<lambda>_ _. True) s"
proof (induction rs arbitrary: s)
  case (Cons r rs)
  show ?case
    unfolding forE.simps wp_seq wp_remove_entry
    by (auto split: option.split intro!: wp_mono [OF Cons.IH])
qed (simp add: wp_simps)

text \<open>In a well-formed file system the post-order lists every node below the start.\<close>

lemma lookup_key: "lookup fs p \<noteq> None \<longleftrightarrow> p \<in> set (map fst (fs_nodes fs))"
  by (simp add: lookup_def map_of_eq_None_iff)

lemma child_names_iff: "c \<in> set (child_names fs q) \<longleftrightarrow> lookup fs (q @ [c]) \<noteq> None"
proof -
  have "c \<in> set (child_names fs q) \<longleftrightarrow> (\<exists>k\<in>set (map fst (fs_nodes fs)). k \<noteq> [] \<and> butlast k = q \<and> last k = c)"
    by (auto simp: child_names_def)
  also have "\<dots> \<longleftrightarrow> q @ [c] \<in> set (map fst (fs_nodes fs))"
    by (metis append_butlast_last_id butlast_snoc last_snoc snoc_eq_iff_butlast)
  finally show ?thesis unfolding lookup_key .
qed

lemma tree_depth_bound: "lookup fs p \<noteq> None \<Longrightarrow> length p \<le> tree_depth fs"
proof -
  have "p \<in> set (map fst nodes) \<Longrightarrow> length p \<le> foldr (\<lambda>k m. max (length (fst k)) m) nodes 0"
    for nodes :: "(phys \<times> inode) list"
  proof (induction nodes)
    case (Cons a nodes)
    then show ?case by (cases "p = fst a") (auto simp: max.coboundedI2)
  qed simp
  then show "lookup fs p \<noteq> None \<Longrightarrow> ?thesis" unfolding lookup_key tree_depth_def by blast
qed

lemma postorder_covers:
  assumes "fs_ok fs"
  shows "lookup fs (q @ r) \<noteq> None \<Longrightarrow> length r \<le> n \<Longrightarrow> q @ r \<in> set (postorder n fs q)"
proof (induction n arbitrary: q r)
  case (Suc n)
  show ?case
  proof (cases r)
    case (Cons c r')
    have "lookup fs (q @ [c]) \<noteq> None"
      using fs_ok_parents [OF assms, of "q @ [c]" r'] Suc.prems Cons
      by (cases "r' = []") (auto simp: dir_at_def is_dir_node_def split: option.splits)
    moreover have "(q @ [c]) @ r' \<in> set (postorder n fs (q @ [c]))"
      using Suc.IH [of "q @ [c]" r'] Suc.prems Cons by simp
    ultimately show ?thesis using Cons by (auto simp: child_names_iff)
  qed simp
qed simp

lemma postorder_all:
  "fs_ok fs \<Longrightarrow> prefix q p \<Longrightarrow> lookup fs p \<noteq> None \<Longrightarrow> p \<in> set (postorder (tree_depth fs) fs q)"
  using postorder_covers tree_depth_bound [of fs p] by (auto simp: prefix_def)

section \<open>makedirs\<close>

text \<open>Only directories appear, and only at places that were free.\<close>

definition grown :: "(phys \<Rightarrow> bool) \<Rightarrow> fs \<Rightarrow> fs \<Rightarrow> bool" where
  "grown D fs fs' \<longleftrightarrow> fs_cwd fs' = fs_cwd fs \<and> fs_fault fs' = fs_fault fs \<and>
     (\<forall>p. lookup fs' p = lookup fs p \<or> (lookup fs p = None \<and> D p \<and> dir_at fs' p))"

lemma grown_refl [simp, intro]: "grown D fs fs"
  by (simp add: grown_def)

lemma grown_trans: "grown D fs gs \<Longrightarrow> grown D gs hs \<Longrightarrow> grown D fs hs"
  unfolding grown_def dir_at_def by metis

lemma grown_changes: "grown D fs fs' \<Longrightarrow> changes_only D fs fs'"
  unfolding grown_def changes_only_def by metis

lemma grown_new: "D q \<Longrightarrow> lookup fs q = None \<Longrightarrow> grown D fs (new_node q Directory fs)"
  by (auto simp: grown_def lookup_new_node dir_at_def)

lemma grown_link: "grown D fs fs' \<Longrightarrow> \<not> link_at fs p \<Longrightarrow> \<not> link_at fs' p"
  unfolding grown_def using dir_not_link by (metis link_at_def)

lemma grown_dir: "grown D fs fs' \<Longrightarrow> dir_at fs p \<Longrightarrow> dir_at fs' p"
  unfolding grown_def dir_at_def by metis

text \<open>The components may be created: none of their prefixes is a symbolic link, and the missing
  ones lie in \<open>D\<close>.\<close>

definition may_create :: "(phys \<Rightarrow> bool) \<Rightarrow> fs \<Rightarrow> string list \<Rightarrow> bool" where
  "may_create D fs zs \<longleftrightarrow> (\<forall>z\<in>set zs. plain_name z) \<and> dir_at fs [] \<and>
     (\<forall>ys. prefix ys zs \<longrightarrow> \<not> link_at fs (lexpath [] ys) \<and> (lookup fs (lexpath [] ys) = None \<longrightarrow> D (lexpath [] ys)))"

lemma may_create_prefix: "may_create D fs zs \<Longrightarrow> prefix ys zs \<Longrightarrow> may_create D fs ys"
  by (auto simp: may_create_def dest: prefix_order.trans set_mono_prefix)

lemma may_create_grown: "may_create D fs zs \<Longrightarrow> grown D fs gs \<Longrightarrow> may_create D gs zs"
  unfolding may_create_def using grown_link grown_dir by (metis grown_def)

lemma may_create_resolve:
  assumes "may_create D fs zs" "resolve fs follow (abs_path zs) = Inr q"
  shows "q = lexpath [] zs"
proof -
  have "walk fs 40 follow [] zs = Inr q"
    using assms resolve_abs_path [of zs] by (simp add: may_create_def)
  then show ?thesis
    by (rule walk_lexical) (use assms(1) take_is_prefix in \<open>auto simp: may_create_def\<close>)
qed

lemma stat_root: "dir_at fs [] \<Longrightarrow> isdir fs ''/'' \<and> exists_path fs ''/''"
  by (auto simp: isdir_def exists_path_def stat_at_def resolve_def dir_at_def is_dir_node_def
      split: option.splits)

text \<open>The state after creating a directory: its path leads to it.\<close>

lemma isdir_new:
  assumes "may_create D fs zs" "resolve fs False (abs_path zs) = Inr q" "lookup fs q = None"
  shows "isdir (new_node q Directory fs) (abs_path zs)"
proof -
  have pn: "\<And>c. c \<in> set zs \<Longrightarrow> plain_name c" using assms(1) by (simp add: may_create_def)
  let ?i = "the (lookup (new_node q Directory fs) q)"
  have i: "in_content ?i = Directory" by (simp add: lookup_new_node)
  have "walk fs 40 False [] zs = Inr q"
    using assms(2) resolve_abs_path [OF pn] by simp
  from walk_put [OF this assms(3) disjI1 [OF i], of "new_node q Directory fs"]
  have w: "walk (new_node q Directory fs) 40 False [] zs = Inr q"
    by (simp add: lookup_new_node)
  have "\<not> link_at (new_node q Directory fs) q" by (simp add: link_at_def lookup_new_node)
  from walk_follow [OF w this] show ?thesis
    using resolve_abs_path [OF pn] by (simp add: isdir_def stat_at_def lookup_new_node)
qed

lemma makedirs_wp:
  "may_create D s zs \<Longrightarrow>
   wp (makedirs (abs_path zs)) (\<lambda>_ t. grown D s t \<and> (zs = [] \<or> last zs \<noteq> ''.'' \<longrightarrow> isdir t (abs_path zs)))
     (\<lambda>_ t. grown D s t) s"
proof (induction zs arbitrary: s rule: rev_induct)
  case Nil
  have root: "dir_at s []" using Nil by (simp add: may_create_def)
  have "path_head ''/'' = ''/''" "path_tail ''/'' = []" by code_simp+
  then have "makedirs ''/'' = catchE (os_mkdir ''/'')
      (\<lambda>e. \<lambda>fs. if is_os_error e \<and> isdir fs ''/'' then (Inr (), fs) else (Inl e, fs))"
    by (subst makedirs.simps) (simp add: Let_def fun_eq_iff)
  moreover have "os_mkdir ''/'' s = (Inl (FileExistsError ''File exists''), s)"
    using root by (auto simp: os_mkdir_def bindE_def readE_def getE_def resolve_def raiseE_def
        dir_at_def is_dir_node_def split: option.splits)
  ultimately show ?case
    using stat_root [OF root] by (simp add: mk_path_def wp_def catchE_def)
next
  case (snoc z zs)
  let ?p = "abs_path (zs @ [z])"
  let ?make = "catchE (os_mkdir ?p)
      (\<lambda>e. \<lambda>fs. if is_os_error e \<and> isdir fs ?p then (Inr (), fs) else (Inl e, fs))"
  have z: "plain_name z" "\<And>c. c \<in> set zs \<Longrightarrow> plain_name c" using snoc.prems by (auto simp: may_create_def)
  then have ht: "path_head ?p = abs_path zs" "path_tail ?p = z" "z \<noteq> []"
    by (auto simp: path_head_abs path_tail_abs plain_name_def)
  have make: "wp ?make (\<lambda>_ t'. grown D s t' \<and> isdir t' ?p) (\<lambda>_ t'. grown D s t') t"
    if t: "grown D s t" for t
  proof -
    have mc: "may_create D t (zs @ [z])" using may_create_grown [OF snoc.prems t] .
    have h: "wp ((\<lambda>e. \<lambda>fs. if is_os_error e \<and> isdir fs ?p then (Inr (), fs) else (Inl e, fs)) e)
        (\<lambda>_ t'. grown D s t' \<and> isdir t' ?p) (\<lambda>_ t'. grown D s t') t" for e
      using t by (simp add: wp_def)
    show ?thesis
      unfolding wp_catch
    proof (rule wp_mono [where Q = "\<lambda>_ t'. grown D s t' \<and> isdir t' ?p" and E = "\<lambda>_ t'. t' = t"])
      show "wp (os_mkdir ?p) (\<lambda>_ t'. grown D s t' \<and> isdir t' ?p) (\<lambda>_ t'. t' = t) t"
      proof (rule mkdir_wp)
        fix q assume q: "resolve t False ?p = Inr q" "lookup t q = None"
        then have "D q" using may_create_resolve [OF mc q(1)] mc by (auto simp: may_create_def)
        then show "grown D s (new_node q Directory t) \<and> isdir (new_node q Directory t) ?p"
          using grown_trans [OF t grown_new] isdir_new [OF mc q] q(2) by blast
      next
        show "t = t" ..
      qed
    qed (use h in auto)
  qed
  let ?H = "\<lambda>e. case e of FileExistsError _ \<Rightarrow> retE () | _ \<Rightarrow> raiseE e"
  have unfold: "makedirs ?p = (\<lambda>fs. if \<not> exists_path fs (abs_path zs)
      then seqE (catchE (makedirs (abs_path zs)) ?H) (if z = ''.'' then retE () else ?make) fs
      else ?make fs)"
    using ht by (subst makedirs.simps) (simp add: Let_def fun_eq_iff mk_path_def)
  let ?Q = "\<lambda>t. grown D s t \<and> (z \<noteq> ''.'' \<longrightarrow> isdir t ?p)"
  have "wp (seqE (catchE (makedirs (abs_path zs)) ?H) (if z = ''.'' then retE () else ?make))
      (\<lambda>_. ?Q) (\<lambda>_. grown D s) s"
    unfolding wp_seq wp_catch
  proof (rule wp_mono [OF snoc.IH])
    show "may_create D s zs" using may_create_prefix [OF snoc.prems] by simp
  next
    fix u t assume "grown D s t \<and> (zs = [] \<or> last zs \<noteq> ''.'' \<longrightarrow> isdir t (abs_path zs))"
    then have t: "grown D s t" by simp
    show "wp (if z = ''.'' then retE () else ?make) (\<lambda>_. ?Q) (\<lambda>_. grown D s) t"
      using t make [OF t] by (cases "z = ''.''") (simp_all add: wp_ret)
  next
    fix e t assume t: "grown D s t"
    have "wp (if z = ''.'' then retE () else ?make) (\<lambda>_. ?Q) (\<lambda>_. grown D s) t"
      using t make [OF t] by (cases "z = ''.''") (simp_all add: wp_ret)
    then show "wp (?H e) (\<lambda>_. wp (if z = ''.'' then retE () else ?make) (\<lambda>_. ?Q) (\<lambda>_. grown D s)) (\<lambda>_. grown D s) t"
      using t by (cases e) (simp_all add: wp_ret wp_raise)
  qed
  moreover have "wp ?make (\<lambda>_. ?Q) (\<lambda>_. grown D s) s"
    by (rule wp_mono [OF make [OF grown_refl]]) auto
  ultimately show ?case unfolding unfold by (simp add: wp_def)
qed

end
