(* ===== verification/Commits.thy ===== *)
theory Commits
  imports Policy Session FsFacts
begin

text \<open>
  The modules \<open>commit_failures.py\<close> and \<open>previous_commits.py\<close>: where a change lives in the
  branch store and in the base, the record of paths the underlay refused, pruning an applied
  change from the store, and the test whether a committed path still equals the underlay.
\<close>

section \<open>Held permission failures\<close>

definition COMMIT_PERMISSION_DENIED_KEY :: string where
  "COMMIT_PERMISSION_DENIED_KEY = ''commit_permission_denied''"

definition COMMIT_PARTIAL_APPLIED_KEY :: string where
  "COMMIT_PARTIAL_APPLIED_KEY = ''commit_partial_applied''"

fun is_permission_denied :: "pyexn \<Rightarrow> bool" where
  "is_permission_denied (PermissionError _) = True"
| "is_permission_denied _ = False"

text \<open>\<open>(rel, delta, base)\<close> of a change.  Both arguments of \<open>relpath\<close> are absolute, so the working
  directory does not matter.\<close>

definition store_paths :: "protected_root \<Rightarrow> change \<Rightarrow> alias_map \<Rightarrow> (string \<times> string \<times> string) result" where
  "store_paths root c am =
     bindR (canonicalize am (pr_visible root)) (\<lambda>visible.
     bindR (canonicalize am (ch_path c)) (\<lambda>path.
     bindR (relpath ''/'' path visible) (\<lambda>rel.
       Inr (rel, path_joins (pr_store root) [''branches'', pr_branch root, ''files'', rel],
            path_join (pr_base root) rel))))"

definition permission_failure_record :: "protected_root \<Rightarrow> change \<Rightarrow> string \<Rightarrow> pyexn \<Rightarrow> json" where
  "permission_failure_record root c rel e =
     JObj [(''root'', JStr (pr_name root)), (''path'', JStr (ch_path c)),
           (''relpath'', JStr (''/'' @ lstrip sep rel)), (''op'', JStr (ch_op c)),
           (''kind'', JStr (ch_kind c)), (''error'', JStr (exn_str e))]"

definition permission_failures :: "session \<Rightarrow> json list" where
  "permission_failures s =
     (case get_default (s_policy s) COMMIT_PERMISSION_DENIED_KEY (JArr []) of JArr xs \<Rightarrow> xs | _ \<Rightarrow> [])"

definition has_permission_failures :: "session \<Rightarrow> bool" where
  "has_permission_failures s \<longleftrightarrow> permission_failures s \<noteq> []"

definition remember_permission_failures :: "json list \<Rightarrow> int \<Rightarrow> session \<Rightarrow> session result" where
  "remember_permission_failures failures applied_count s =
     (let policy = dict_set (s_policy s) COMMIT_PERMISSION_DENIED_KEY (JArr failures);
          old = get_default policy COMMIT_PARTIAL_APPLIED_KEY (JInt 0)
      in bindR (if truthy old then as_int old else Inr 0) (\<lambda>n.
           Inr (s\<lparr>s_policy := dict_set policy COMMIT_PARTIAL_APPLIED_KEY (JInt (n + applied_count))\<rparr>)))"

definition clear_permission_failures :: "session \<Rightarrow> session" where
  "clear_permission_failures s =
     s\<lparr>s_policy := dict_pop (dict_pop (s_policy s) COMMIT_PERMISSION_DENIED_KEY) COMMIT_PARTIAL_APPLIED_KEY\<rparr>"

section \<open>Pruning the store\<close>

definition branch_files_dir :: "protected_root \<Rightarrow> string" where
  "branch_files_dir root = path_joins (pr_store root) [''branches'', pr_branch root, ''files'']"

definition branch_tombstones_path :: "protected_root \<Rightarrow> string" where
  "branch_tombstones_path root = path_joins (pr_store root) [''branches'', pr_branch root, ''tombstones'']"

definition is_rel_or_descendant :: "string \<Rightarrow> string \<Rightarrow> bool" where
  "is_rel_or_descendant candidate rel =
     (let candidate = strip_char sep candidate; rel = strip_char sep rel
      in candidate = rel \<or> startswith candidate (rstrip sep rel @ ''/''))"

text \<open>Iterating over a text file yields its lines; a final newline ends the last one.\<close>

definition file_lines :: "string \<Rightarrow> string list" where
  "file_lines data =
     (let ls = split_on CHR 0x0A data in if last ls = [] then butlast ls else ls)"

definition kept_tombstones :: "string \<Rightarrow> string list \<Rightarrow> string list" where
  "kept_tombstones rel ls =
     filter (\<lambda>line. str_strip line \<noteq> [] \<and> \<not> is_rel_or_descendant line rel) ls"

definition remove_tombstones :: "protected_root \<Rightarrow> string \<Rightarrow> (fs, unit) eff" where
  "remove_tombstones root rel =
     (let path = branch_tombstones_path root; tmp = path @ ''.tmp'' in
      bindE (catchE (bindE (readE (\<lambda>fs. read_file fs path)) (\<lambda>data. retE (Some (file_lines data))))
               (\<lambda>e. case e of FileNotFoundError _ \<Rightarrow> retE None | _ \<Rightarrow> raiseE e)) (\<lambda>ls.
        case ls of
          None \<Rightarrow> retE ()
        | Some ls \<Rightarrow>
            (let kept = kept_tombstones rel ls in
             if kept \<noteq> []
             then seqE (write_file tmp (concat (map (\<lambda>line. line @ [CHR 0x0A]) kept)))
                       (os_replace tmp path)
             else catchE (os_unlink path)
                    (\<lambda>e. case e of FileNotFoundError _ \<Rightarrow> retE () | _ \<Rightarrow> raiseE e))))"

text \<open>The loop walks up one directory at a time, so the length of the path is enough fuel.\<close>

primrec prune_loop :: "nat \<Rightarrow> string \<Rightarrow> string \<Rightarrow> (fs, unit) eff" where
  "prune_loop 0 path stop = retE ()"
| "prune_loop (Suc n) path stop =
     (if startswith path (stop @ ''/'') \<and> path \<noteq> stop
      then bindE (catchE (seqE (os_rmdir path) (retE True))
                    (\<lambda>e. if is_os_error e then retE False else raiseE e)) (\<lambda>go.
             if go then prune_loop n (dirname path) stop else retE ())
      else retE ())"

definition prune_empty_dirs :: "string \<Rightarrow> string \<Rightarrow> (fs, unit) eff" where
  "prune_empty_dirs path stop =
     bindE (getE (\<lambda>fs. (abspath (fs_cwd fs) path, abspath (fs_cwd fs) stop))) (\<lambda>(path, stop).
       prune_loop (length path) path stop)"

definition prune_store_change :: "protected_root \<Rightarrow> string \<Rightarrow> (fs, unit) eff" where
  "prune_store_change root rel =
     (let files_dir = branch_files_dir root; delta = path_join files_dir rel in
      seqE (bindE (getE (\<lambda>fs. (lexists fs delta, isdir fs delta, islink fs delta))) (\<lambda>(here, dir, link).
              whenE here (seqE (if dir \<and> \<not> link then rmtree delta else os_unlink delta)
                               (prune_empty_dirs (dirname delta) files_dir))))
           (remove_tombstones root rel))"

section \<open>Paths committed earlier in the session\<close>

definition TURN_PATH_DECISIONS :: string where "TURN_PATH_DECISIONS = ''turn_path_decisions''"
definition DECISION_COMMITTED :: string where "DECISION_COMMITTED = ''committed''"

definition path_keys :: "alias_map option \<Rightarrow> string \<Rightarrow> string list result" where
  "path_keys am path =
     (case am of None \<Rightarrow> Inr [normpath path]
      | Some a \<Rightarrow> bindR (canonicalize a path) (\<lambda>c. Inr [normpath path, normpath c]))"

definition committed_path_keys :: "session \<Rightarrow> alias_map option \<Rightarrow> string list result" where
  "committed_path_keys s am =
     (case get_default (s_policy s) TURN_PATH_DECISIONS (JObj []) of
        JObj decisions \<Rightarrow>
          bindR (mapR (\<lambda>(path, decision). path_keys am path)
                   (filter (\<lambda>(path, decision). decision = JStr DECISION_COMMITTED) decisions))
            (\<lambda>ks. Inr (concat ks))
      | _ \<Rightarrow> Inr [])"

definition change_path_keys :: "change \<Rightarrow> alias_map option \<Rightarrow> string list result" where
  "change_path_keys c am = path_keys am (ch_path c)"

definition same_symlink :: "fs \<Rightarrow> string \<Rightarrow> string \<Rightarrow> bool" where
  "same_symlink fs left right \<longleftrightarrow> islink fs left \<and> islink fs right \<and> readlink fs left = readlink fs right"

text \<open>Sizes first, then contents (\<open>filecmp.cmp\<close> with \<open>shallow=False\<close>); any \<open>OSError\<close> means different.\<close>

definition same_file_contents :: "fs \<Rightarrow> string \<Rightarrow> string \<Rightarrow> bool" where
  "same_file_contents fs left right =
     (case (read_file fs left, read_file fs right) of (Inr a, Inr b) \<Rightarrow> a = b | _ \<Rightarrow> False)"

definition change_matches_underlay :: "fs \<Rightarrow> protected_root \<Rightarrow> change \<Rightarrow> alias_map \<Rightarrow> bool result" where
  "change_matches_underlay fs root c am =
     bindR (store_paths root c am) (\<lambda>(rel, delta, base). Inr (
       if ch_op c = ''D'' then \<not> lexists fs base
       else if ch_kind c = ''dir'' then isdir fs base \<and> \<not> islink fs base
       else if \<not> lexists fs delta \<or> \<not> lexists fs base then False
       else if islink fs delta \<or> islink fs base then same_symlink fs delta base
       else if isdir fs delta \<or> isdir fs base then isdir fs delta \<and> isdir fs base
       else if isfile fs delta \<and> isfile fs base then same_file_contents fs delta base
       else False))"

definition split_previous_step :: "fs \<Rightarrow> string list \<Rightarrow> (string, protected_root) dict \<Rightarrow> alias_map \<Rightarrow>
    change list \<times> change list \<Rightarrow> change \<Rightarrow> (change list \<times> change list) result" where
  "split_previous_step fs committed roots am acc c =
     (case dict_get roots (ch_root c) of
        None \<Rightarrow> Inr (fst acc, snd acc @ [c])
      | Some root \<Rightarrow>
          bindR (change_path_keys c (Some am)) (\<lambda>keys.
          bindR (if set committed \<inter> set keys \<noteq> {} then change_matches_underlay fs root c am else Inr False) (\<lambda>same.
            Inr (if same then (fst acc @ [c], snd acc) else (fst acc, snd acc @ [c])))))"

definition split_previously_committed_changes :: "fs \<Rightarrow> change list \<Rightarrow> session \<Rightarrow>
    (string, protected_root) dict \<Rightarrow> alias_map \<Rightarrow> (change list \<times> change list) result" where
  "split_previously_committed_changes fs changes s roots am =
     bindR (committed_path_keys s (Some am)) (\<lambda>committed.
       foldR (split_previous_step fs committed roots am) ([], []) changes)"

section \<open>Facts\<close>

lemma store_paths_total:
  assumes "alias_map_ok am" "isabs (pr_visible root)" "isabs (ch_path c)"
  shows "\<exists>rel delta base. store_paths root c am = Inr (rel, delta, base)"
proof -
  have "canonicalize am (ch_path c) = Inr (canon_loop am (normpath (ch_path c)))"
    using canonicalize_abs assms(3) by blast
  then have "canon_loop am (normpath (ch_path c)) \<noteq> []"
    using canonicalize_isabs [OF assms(1)] by fastforce
  then show ?thesis
    by (simp add: store_paths_def canonicalize_abs assms(2,3) relpath_def Let_def)
qed

lemma change_matches_total:
  assumes "alias_map_ok am" "isabs (pr_visible root)" "isabs (ch_path c)"
  shows "\<exists>b. change_matches_underlay fs root c am = Inr b"
  using store_paths_total [OF assms] by (auto simp: change_matches_underlay_def)

lemma path_keys_abs: "isabs p \<Longrightarrow> path_keys (Some am) p = Inr [normpath p, normpath (canon_loop am (normpath p))]"
  by (simp add: path_keys_def canonicalize_abs)

lemma foldR_split:
  assumes "\<And>x. x \<in> set xs \<Longrightarrow> \<forall>a b. f (a, b) x = Inr (if P x then (a @ [x], b) else (a, b @ [x]))"
  shows "foldR f (a, b) xs = Inr (a @ filter P xs, b @ filter (\<lambda>x. \<not> P x) xs)"
  using assms by (induction xs arbitrary: a b) auto

section \<open>Properties\<close>

text \<open>Already committed: the root is known, the path was marked as committed and the delta still
  equals the underlay.\<close>

definition already_committed :: "fs \<Rightarrow> string list \<Rightarrow> (string, protected_root) dict \<Rightarrow> alias_map \<Rightarrow> change \<Rightarrow> bool" where
  "already_committed fs keys roots am c =
     (case dict_get roots (ch_root c) of
        None \<Rightarrow> False
      | Some root \<Rightarrow> set keys \<inter> {normpath (ch_path c), normpath (canon_loop am (normpath (ch_path c)))} \<noteq> {} \<and>
          change_matches_underlay fs root c am = Inr True)"

text \<open>The split of a change list into previously committed and new changes is a partition that
  keeps the order: a change is on the first list exactly when its root is known, one of its
  path keys was marked as committed and the underlay still equals the delta, so a committed
  path that was edited again is new.\<close>

theorem split_previous_partition:
  assumes "alias_map_ok am" "\<forall>c\<in>set changes. isabs (ch_path c)"
    and "\<forall>(n, r)\<in>set roots. isabs (pr_visible r)" "committed_path_keys s (Some am) = Inr keys"
  shows "split_previously_committed_changes fs changes s roots am =
    Inr (filter (already_committed fs keys roots am) changes,
         filter (\<lambda>c. \<not> already_committed fs keys roots am c) changes)"
proof -
  have "\<forall>a b. split_previous_step fs keys roots am (a, b) c =
      Inr (if already_committed fs keys roots am c then (a @ [c], b) else (a, b @ [c]))"
    if "c \<in> set changes" for c
  proof (cases "dict_get roots (ch_root c)")
    case None
    then show ?thesis by (simp add: split_previous_step_def already_committed_def)
  next
    case (Some root)
    then have "isabs (pr_visible root)" using assms(3) by (auto dest: map_of_SomeD)
    with change_matches_total [OF assms(1)] assms(2) that obtain m where
      "change_matches_underlay fs root c am = Inr m" by blast
    with Some show ?thesis using assms(2) that
      by (auto simp: split_previous_step_def already_committed_def change_path_keys_def path_keys_abs)
  qed
  from foldR_split [where f = "split_previous_step fs keys roots am", OF this] show ?thesis
    by (simp add: split_previously_committed_changes_def assms(4))
qed

definition turn_sample :: session where
  "turn_sample = sample_session\<lparr>s_policy :=
     [(TURN_PATH_DECISIONS, JObj [(''/storage/user/gone'', JStr ''committed''), (''/storage/user/k'', JStr ''kept'')])]\<rparr>"

definition empty_fs :: fs where
  "empty_fs = \<lparr>fs_nodes = [([], \<lparr>in_content = Directory, in_dev = 1, in_ino = 1, in_perm = 493, in_uid = 0,
      in_gid = 0, in_mtime = 0\<rparr>)], fs_cwd = ''/'', fs_next_ino = 2, fs_clock = 1, fs_fault = (\<lambda>_ _. None)\<rparr>"

definition deleted :: "string \<Rightarrow> change" where
  "deleted p = \<lparr>ch_op = ''D'', ch_path = p, ch_kind = ''tombstone'', ch_bytes = 0, ch_root = ''storage'', ch_summary = ''''\<rparr>"

theorem split_previous_partition_witness:
  "split_previously_committed_changes empty_fs [deleted ''/storage/user/gone'', deleted ''/storage/user/k'']
     turn_sample [(''storage'', sample_root)] []
   = Inr ([deleted ''/storage/user/gone''], [deleted ''/storage/user/k''])"
proof -
  have k: "committed_path_keys turn_sample (Some []) = Inr [''/storage/user/gone'', ''/storage/user/gone'']"
    by code_simp
  have h: "alias_map_ok []" "\<forall>c\<in>set [deleted ''/storage/user/gone'', deleted ''/storage/user/k'']. isabs (ch_path c)"
    "\<forall>(n, r)\<in>set [(''storage'', sample_root)]. isabs (pr_visible r)"
    by (simp_all add: alias_map_ok_def deleted_def sample_root_def)
  have c: "already_committed empty_fs [''/storage/user/gone'', ''/storage/user/gone''] [(''storage'', sample_root)] []
        (deleted ''/storage/user/gone'')"
    "\<not> already_committed empty_fs [''/storage/user/gone'', ''/storage/user/gone''] [(''storage'', sample_root)] []
        (deleted ''/storage/user/k'')"
    by code_simp+
  show ?thesis unfolding split_previous_partition [OF h k] using c by simp
qed

definition partial_applied :: "session \<Rightarrow> int result" where
  "partial_applied s =
     (let old = get_default (s_policy s) COMMIT_PARTIAL_APPLIED_KEY (JInt 0)
      in if truthy old then as_int old else Inr 0)"

text \<open>Accounting of held changes: remembering permission failures records exactly the given list,
  adds the number of applied changes to the running count and leaves every other policy
  entry alone; clearing forgets both and nothing else.\<close>

theorem permission_failures_accounting:
  assumes "remember_permission_failures failures n s = Inr t"
  shows "permission_failures t = failures \<and>
    (\<exists>m. partial_applied s = Inr m \<and> partial_applied t = Inr (m + n)) \<and>
    (\<forall>k. k \<noteq> COMMIT_PERMISSION_DENIED_KEY \<and> k \<noteq> COMMIT_PARTIAL_APPLIED_KEY \<longrightarrow>
        dict_get (s_policy t) k = dict_get (s_policy s) k \<and>
        dict_get (s_policy (clear_permission_failures t)) k = dict_get (s_policy s) k) \<and>
    \<not> has_permission_failures (clear_permission_failures t) \<and>
    partial_applied (clear_permission_failures t) = Inr 0"
proof -
  have ne: "COMMIT_PERMISSION_DENIED_KEY \<noteq> COMMIT_PARTIAL_APPLIED_KEY"
    by (simp add: COMMIT_PERMISSION_DENIED_KEY_def COMMIT_PARTIAL_APPLIED_KEY_def)
  obtain m where m: "partial_applied s = Inr m" and t: "t = s\<lparr>s_policy :=
      dict_set (dict_set (s_policy s) COMMIT_PERMISSION_DENIED_KEY (JArr failures))
        COMMIT_PARTIAL_APPLIED_KEY (JInt (m + n))\<rparr>"
    using assms ne
    by (auto simp: remember_permission_failures_def partial_applied_def get_default_def Let_def
        bindR_eq_Inr update_conv' split: if_splits option.splits)
  show ?thesis
    using ne m
    by (auto simp: t permission_failures_def has_permission_failures_def clear_permission_failures_def
        partial_applied_def get_default_def update_conv' delete_conv')
qed

theorem permission_failures_accounting_witness:
  "\<exists>t. remember_permission_failures [JStr ''x''] 3 turn_sample = Inr t \<and> permission_failures t = [JStr ''x''] \<and>
       partial_applied t = Inr 3"
proof -
  obtain t where t: "remember_permission_failures [JStr ''x''] 3 turn_sample = Inr t"
    by (simp add: remember_permission_failures_def get_default_def turn_sample_def COMMIT_PARTIAL_APPLIED_KEY_def
        COMMIT_PERMISSION_DENIED_KEY_def TURN_PATH_DECISIONS_def)
  have "partial_applied turn_sample = Inr 0" by code_simp
  with permission_failures_accounting [OF t] t show ?thesis by auto
qed

end
