(* ===== verification/Apply.thy ===== *)
theory Apply
  imports Commits
begin

text \<open>
  Writing one reviewed change to the real underlay (\<open>runner._verify_apply_parent\<close> and
  \<open>runner.apply_change_from_store\<close>).  The main theorems: whatever the change and the branch
  store hold and whatever the kernel refuses, nothing outside the protected root's base is
  created, changed or removed; and when the apply returns, the underlay has the change.
\<close>

section \<open>Definitions\<close>

primrec verify_loop :: "fs \<Rightarrow> string \<Rightarrow> string list \<Rightarrow> unit result" where
  "verify_loop fs current [] = Inr ()"
| "verify_loop fs current (component # rest) =
     (let current = path_join current component in
      if \<not> lexists fs current then Inr ()
      else if islink fs current then Inl (ValueError (''apply parent is a symlink: '' @ current))
      else if \<not> isdir fs current then Inl (ValueError (''apply parent is not a directory: '' @ current))
      else verify_loop fs current rest)"

definition verify_apply_parent :: "fs \<Rightarrow> protected_root \<Rightarrow> string \<Rightarrow> unit result" where
  "verify_apply_parent fs root base =
     (let root_base = normpath (pr_base root);
          parent = dirname (normpath base);
          outside = Inl (ValueError ''apply destination is outside protected root'')
      in case relpath (fs_cwd fs) parent root_base of
           Inl e \<Rightarrow> if is_value_error e then outside else Inl e
         | Inr rel \<Rightarrow>
             if rel = pardir \<or> startswith rel (pardir @ ''/'') then outside
             else if rel = ''.'' then Inr ()
             else verify_loop fs root_base (split_on sep rel))"

definition apply_change_from_store :: "protected_root \<Rightarrow> change \<Rightarrow> alias_map \<Rightarrow> (fs, unit) eff" where
  "apply_change_from_store root c am =
     bindE (liftE (store_paths root c am)) (\<lambda>(rel, delta, base).
     seqE (readE (\<lambda>fs. verify_apply_parent fs root base))
     (if ch_op c = ''D''
      then bindE (getE (\<lambda>fs. (islink fs base \<or> isfile fs base, isdir fs base))) (\<lambda>(leaf, dir).
             if leaf then os_unlink base else if dir then rmtree base else retE ())
      else if ch_kind c = ''dir''
      then seqE (bindE (getE (\<lambda>fs. islink fs base \<or> isfile fs base)) (\<lambda>leaf. whenE leaf (os_unlink base)))
                (makedirs base)
      else bindE (getE (\<lambda>fs. lexists fs delta)) (\<lambda>here. whenE here (
             seqE (let parent = dirname base in whenE (parent \<noteq> []) (makedirs parent))
            (seqE (bindE (getE (\<lambda>fs. (islink fs base, isdir fs base))) (\<lambda>(link, dir).
                     if link then os_unlink base else if dir then rmtree base else retE ()))
                  (copy2 delta base False))))))"

section \<open>The destination\<close>

text \<open>\<open>base\<close> is the path with components \<open>zs\<close>; it denotes an entry strictly below the directory
  \<open>bs\<close>, no component on the way is a symbolic link, and missing ones lie below \<open>bs\<close>.\<close>

definition safe_at :: "phys \<Rightarrow> fs \<Rightarrow> string list \<Rightarrow> bool" where
  "safe_at bs fs zs \<longleftrightarrow> (\<forall>z\<in>set zs. plain_name z) \<and> zs \<noteq> [] \<and> dir_at fs [] \<and>
     strict_prefix bs (lexpath [] zs) \<and>
     (\<forall>ys. strict_prefix ys zs \<longrightarrow> \<not> link_at fs (lexpath [] ys) \<and>
        (prefix (lexpath [] ys) bs \<or> strict_prefix (lexpath [] ys) (lexpath [] zs)) \<and>
        (lookup fs (lexpath [] ys) = None \<longrightarrow> strict_prefix bs (lexpath [] ys)))"

lemma strict_prefix_take: "i < length zs \<Longrightarrow> strict_prefix (take i zs) zs"
  by (metis append_take_drop_id length_take less_imp_le_nat min.absorb4 nat_neq_iff prefixI strict_prefix_def)

lemma safe_at_resolve:
  assumes "safe_at bs fs zs" "resolve fs follow (abs_path zs) = Inr q"
    and "follow \<Longrightarrow> \<not> link_at fs (lexpath [] zs)"
  shows "q = lexpath [] zs"
proof -
  have "walk fs 40 follow [] zs = Inr q"
    using assms(1,2) resolve_abs_path [of zs] by (simp add: safe_at_def)
  then show ?thesis
    by (rule walk_lexical) (use assms(1,3) strict_prefix_take in \<open>auto simp: safe_at_def\<close>)
qed

lemma safe_at_changes:
  assumes "safe_at bs fs zs" "changes_only (prefix (lexpath [] zs)) fs t"
  shows "safe_at bs t zs"
proof -
  have "\<not> prefix (lexpath [] zs) (lexpath [] ys)" if "strict_prefix ys zs" for ys
  proof -
    have "strict_prefix (lexpath [] ys) (lexpath [] zs)"
      using assms(1) that by (auto simp: safe_at_def intro: prefix_order.le_less_trans)
    then show ?thesis by (metis prefix_order.less_le_not_le)
  qed
  then have same: "lookup t (lexpath [] ys) = lookup fs (lexpath [] ys)" if "strict_prefix ys zs" for ys
    using assms(2) that by (auto simp: changes_only_def)
  have "lookup t [] = lookup fs []"
    using same [of "[]"] assms(1) by (cases zs) (auto simp: safe_at_def)
  with assms(1) same show ?thesis unfolding safe_at_def dir_at_def link_at_def by simp
qed

lemma safe_at_grown:
  assumes "safe_at bs fs zs" "grown D fs t"
  shows "safe_at bs t zs"
  using assms grown_link [OF assms(2)] grown_dir [OF assms(2)]
  unfolding safe_at_def grown_def by metis

lemma safe_at_may_create:
  assumes "safe_at bs fs zs"
  shows "may_create (strict_prefix bs) fs (butlast zs)"
proof -
  have "strict_prefix ys zs" if "prefix ys (butlast zs)" for ys
    using that assms by (metis append_butlast_last_id prefix_order.le_less_trans safe_at_def strict_prefixI')
  with assms show ?thesis by (auto simp: safe_at_def may_create_def dest: in_set_butlastD)
qed

section \<open>Relative paths\<close>

lemma nonempty_parts_plain: "c \<in> set (nonempty_parts p) \<Longrightarrow> plain_name c"
  by (auto simp: nonempty_parts_def plain_name_def dest: split_on_no_sep)

lemma nonempty_parts_abs:
  assumes "\<And>c. c \<in> set cs \<Longrightarrow> proper c"
  shows "nonempty_parts (abs_path cs) = cs"
proof (cases "cs = []")
  case False
  have "filter (\<lambda>c. c \<noteq> []) cs = cs" using assms by (auto simp: filter_id_conv proper_def)
  then show ?thesis
    using split_abs_path [OF False] assms by (simp add: nonempty_parts_def plain_name_proper)
qed (simp add: nonempty_parts_def mk_path_def)

lemma nonempty_parts_proper:
  assumes "isabs p"
  shows "\<forall>c\<in>set (nonempty_parts (normpath p)). proper c"
proof -
  have "nonempty_parts (mk_path (root_slashes p) (norm_comps p)) = norm_comps p"
  proof -
    have cs: "\<And>c. c \<in> set (norm_comps p) \<Longrightarrow> proper c" using norm_comps_proper [OF assms] by blast
    obtain k where "split_on sep (mk_path (root_slashes p) (norm_comps p))
        = replicate k '''' @ (if norm_comps p = [] then [''''] else norm_comps p)"
      using split_mk_path [OF root_slashes_ok [OF assms] cs] by blast
    then show ?thesis
      using cs by (auto simp: nonempty_parts_def filter_id_conv proper_def)
  qed
  then show ?thesis using norm_comps_proper [OF assms] by (simp add: normpath_abs [OF assms])
qed

text \<open>A relative path between absolute ones climbs and then descends through proper names.\<close>

lemma relpath_shape:
  assumes "isabs p" "isabs start" "relpath cwd p start = Inr rel"
  obtains "rel = ''.''" | k ds where "rel = join_with ''/'' (replicate k pardir @ ds)"
    "replicate k pardir @ ds \<noteq> []" "\<forall>d\<in>set ds. proper d"
proof -
  let ?ps = "nonempty_parts (abspath cwd p)"
  let ?ss = "nonempty_parts (abspath cwd start)"
  let ?i = "length (longest_common_prefix ?ss ?ps)"
  have s: "start \<noteq> []" "p \<noteq> []" using assms(1,2) by auto
  have rc: "relpath_comps ?ps ?ss = replicate (length ?ss - ?i) pardir @ drop ?i ?ps"
    by (simp add: relpath_comps_def Let_def)
  have rel: "rel = (if relpath_comps ?ps ?ss = [] then ''.'' else join_with ''/'' (relpath_comps ?ps ?ss))"
    using assms(3) s by (simp add: relpath_def Let_def)
  have "\<forall>d\<in>set (drop ?i ?ps). proper d"
    using nonempty_parts_proper [OF assms(1)] assms(1) by (auto simp: abspath_def dest: in_set_dropD)
  then show ?thesis
    using that rel rc by (cases "relpath_comps ?ps ?ss = []") auto
qed

lemma join_hd:
  assumes "rs \<noteq> []" "\<forall>r\<in>set rs. plain_name r"
  shows "\<exists>x xs. join_with ''/'' rs = x # xs \<and> x \<noteq> sep"
proof -
  obtain r rs' where rs: "rs = r # rs'" using assms(1) by (cases rs) auto
  obtain x xs where "r = x # xs" "x \<noteq> sep"
    using assms(2) rs by (cases r) (auto simp: plain_name_def)
  with rs show ?thesis by (cases rs') simp_all
qed

lemma join_path:
  assumes "\<forall>b\<in>set bs. proper b" "rs \<noteq> []" "\<forall>r\<in>set rs. plain_name r"
  shows "path_join (abs_path bs) (join_with ''/'' rs) = abs_path (bs @ rs)"
proof -
  have "\<not> startswith (join_with ''/'' rs) ''/''"
    using join_hd [OF assms(2,3)] by auto
  moreover have "endswith (abs_path bs) ''/'' \<longleftrightarrow> bs = []"
    using mk_path_endswith [of "''/''" bs] assms(1) by (simp add: root_ok_def)
  ultimately show ?thesis
    using assms(2) by (auto simp: path_join_def mk_path_def join_with_append)
qed

section \<open>What a verified parent guarantees\<close>

lemma resolve_in_dir:
  assumes "real_dirs fs cs" "\<forall>c\<in>set cs. proper c" "proper c"
  shows "resolve fs False (abs_path (cs @ [c])) = Inr (cs @ [c])"
proof -
  have "\<And>x. x \<in> set (cs @ [c]) \<Longrightarrow> plain_name x" using assms by (auto intro: plain_name_proper)
  then have "resolve fs False (abs_path (cs @ [c])) = walk fs 40 False [] (cs @ [c])"
    by (rule resolve_abs_path)
  also have "\<dots> = walk fs 40 False (lexpath [] cs) [c]"
  proof (rule walk_dirs)
    fix i
    have "\<And>x. x \<in> set (take i cs) \<Longrightarrow> proper x" using assms(2) by (auto dest: in_set_takeD)
    then show "dir_at fs (lexpath [] (take i cs))"
      using assms(1) take_is_prefix [of i cs] by (simp add: lexpath_proper real_dirs_def)
  qed
  also have "\<dots> = Inr (cs @ [c])"
    using assms(2,3) by (auto simp: lexpath_proper proper_def split: option.split content.split)
  finally show ?thesis .
qed

lemma queries_in_dir:
  assumes "real_dirs fs cs" "\<forall>c\<in>set cs. proper c" "proper c"
  shows "lexists fs (abs_path (cs @ [c])) \<longleftrightarrow> lookup fs (cs @ [c]) \<noteq> None"
    "islink fs (abs_path (cs @ [c])) \<longleftrightarrow> link_at fs (cs @ [c])"
    "\<not> link_at fs (cs @ [c]) \<Longrightarrow> isdir fs (abs_path (cs @ [c])) \<longleftrightarrow> dir_at fs (cs @ [c])"
proof -
  note r = resolve_in_dir [OF assms]
  show "lexists fs (abs_path (cs @ [c])) \<longleftrightarrow> lookup fs (cs @ [c]) \<noteq> None"
    "islink fs (abs_path (cs @ [c])) \<longleftrightarrow> link_at fs (cs @ [c])"
    using r by (auto simp: lexists_def islink_def stat_at_def link_at_def split: option.splits)
  assume l: "\<not> link_at fs (cs @ [c])"
  have "\<And>x. x \<in> set (cs @ [c]) \<Longrightarrow> plain_name x" using assms by (auto intro: plain_name_proper)
  then have "resolve fs True (abs_path (cs @ [c])) = Inr (cs @ [c])"
    using r walk_follow [OF _ l] resolve_abs_path by metis
  then show "isdir fs (abs_path (cs @ [c])) \<longleftrightarrow> dir_at fs (cs @ [c])"
    by (auto simp: isdir_def stat_at_def dir_at_def split: option.splits)
qed

lemma verify_loop_ok:
  assumes "fs_ok fs" "real_dirs fs cs" "\<forall>c\<in>set cs. proper c" "\<forall>c\<in>set es. proper c"
    and "verify_loop fs (abs_path cs) es = Inr ()"
  shows "\<forall>ys. prefix ys es \<longrightarrow> \<not> link_at fs (cs @ ys)"
  using assms(2-)
proof (induction es arbitrary: cs)
  case Nil
  then show ?case using dir_not_link by (auto simp: real_dirs_def)
next
  case (Cons c es)
  have c: "proper c" "\<forall>x\<in>set (cs @ [c]). proper x" using Cons.prems by auto
  have j: "path_join (abs_path cs) c = abs_path (cs @ [c])"
    using path_join_mk_path [of "''/''" cs c] Cons.prems(2) c(1) by (simp add: root_ok_def)
  note q = queries_in_dir [OF Cons.prems(1,2) c(1)]
  have first: "\<not> link_at fs cs" using Cons.prems(1) dir_not_link by (auto simp: real_dirs_def)
  have rest: "\<forall>ys. prefix ys es \<longrightarrow> \<not> link_at fs (cs @ [c] @ ys)"
  proof (cases "lookup fs (cs @ [c]) = None")
    case True
    have "lookup fs (cs @ [c] @ ys) = None" for ys
      using fs_ok_missing [OF assms(1) True, of "cs @ [c] @ ys"] by (simp add: prefix_def)
    then show ?thesis by (simp add: link_at_def)
  next
    case False
    have ok: "\<not> link_at fs (cs @ [c])" "dir_at fs (cs @ [c])"
      "verify_loop fs (abs_path (cs @ [c])) es = Inr ()"
      using Cons.prems(4) False q by (auto simp: j Let_def split: if_splits)
    show ?thesis
      using Cons.IH [OF fs_ok_real_dirs [OF assms(1) ok(2)] c(2) _ ok(3)] Cons.prems(3) by simp
  qed
  show ?case
  proof (intro allI impI)
    fix ys assume "prefix ys (c # es)"
    then show "\<not> link_at fs (cs @ ys)" using first rest by (cases ys) auto
  qed
qed

text \<open>The outside test of \<open>_verify_apply_parent\<close> on component lists.\<close>

lemma relpath_inside:
  assumes "\<forall>b\<in>set bs. proper b" "\<forall>p\<in>set ps. proper p"
    and "relpath cwd (abs_path ps) (abs_path bs) = Inr rel"
    and "\<not> (rel = pardir \<or> startswith rel (pardir @ ''/''))"
  shows "prefix bs ps" "rel = (if ps = bs then ''.'' else join_with ''/'' (drop (length bs) ps))"
proof -
  have n: "nonempty_parts (abspath cwd (abs_path cs)) = cs" if "\<forall>c\<in>set cs. proper c" for cs
    using that nonempty_parts_abs [of cs] normpath_mk_path [of "''/''" cs]
    by (simp add: abspath_def root_ok_def)
  let ?i = "length (longest_common_prefix bs ps)"
  let ?rc = "replicate (length bs - ?i) pardir @ drop ?i ps"
  have ne: "abs_path ps \<noteq> []" "abs_path bs \<noteq> []" by (simp_all add: mk_path_def)
  have rel: "rel = (if ?rc = [] then ''.'' else join_with ''/'' ?rc)"
    using assms(3) ne unfolding relpath_def by (simp add: n assms(1,2) relpath_comps_def Let_def)
  have pre: "prefix (longest_common_prefix bs ps) bs" "prefix (longest_common_prefix bs ps) ps"
    by (simp_all add: longest_common_prefix_prefix1 longest_common_prefix_prefix2)
  have len: "length bs - ?i = 0"
  proof (rule ccontr)
    assume "length bs - ?i \<noteq> 0"
    then obtain k where "length bs - ?i = Suc k" by (cases "length bs - ?i") auto
    then have "?rc = pardir # replicate k pardir @ drop ?i ps" by simp
    then have "rel = pardir \<or> startswith rel (pardir @ ''/'')"
      using rel by (cases "replicate k pardir @ drop ?i ps") (auto simp: join_with_Cons)
    with assms(4) show False by blast
  qed
  then have "longest_common_prefix bs ps = bs"
    using pre(1) by (metis diff_is_0_eq prefix_length_le le_antisym prefix_def append_eq_conv_conj take_all length_append le_add1 append_Nil2 add.right_neutral order.antisym)
  then show p: "prefix bs ps" using pre(2) by simp
  show "rel = (if ps = bs then ''.'' else join_with ''/'' (drop (length bs) ps))"
    using rel len p \<open>longest_common_prefix bs ps = bs\<close> by (auto simp: prefix_def)
qed

lemma lexpath_up: "lexpath cur (replicate k pardir) = take (length cur - k) cur"
proof (induction k arbitrary: cur)
  case (Suc k)
  have "lexpath cur (replicate (Suc k) pardir) = take (length (butlast cur) - k) (butlast cur)"
    using Suc by (simp add: lexpath_step_def)
  then show ?case by (simp add: butlast_conv_take take_take diff_diff_eq)
qed simp

lemma prefix_append_cases: "prefix ys (xs @ zs) \<Longrightarrow> prefix ys xs \<or> (\<exists>us. ys = xs @ us \<and> prefix us zs)"
  by (auto simp: prefix_append)

text \<open>Climbing out of the base and descending again never leaves the base or the way to the target.\<close>

lemma climb_prefixes:
  assumes "\<forall>b\<in>set bs. proper b" "\<forall>d\<in>set ds. proper d" "prefix ys (bs @ replicate k pardir @ ds)"
  shows "prefix (lexpath [] ys) bs \<or> (\<exists>us. prefix us ds \<and> ys = bs @ replicate k pardir @ us \<and>
     lexpath [] ys = take (length bs - k) bs @ us)"
proof -
  have bs: "lexpath [] us = us" if "prefix us bs" for us
    using lexpath_proper [of us "[]"] assms(1) that by (auto dest: set_mono_prefix)
  from prefix_append_cases [OF assms(3)] show ?thesis
  proof
    assume "prefix ys bs"
    then show ?thesis using bs by simp
  next
    assume "\<exists>us. ys = bs @ us \<and> prefix us (replicate k pardir @ ds)"
    then obtain us where us: "ys = bs @ us" "prefix us (replicate k pardir @ ds)" by blast
    from prefix_append_cases [OF us(2)] show ?thesis
    proof
      assume "prefix us (replicate k pardir)"
      then have "set us \<subseteq> set (replicate k pardir)" by (rule set_mono_prefix)
      then have "\<forall>y\<in>set us. y = pardir" by (auto simp: set_replicate_conv_if split: if_splits)
      then have "us = replicate (length us) pardir" by (simp add: replicate_length_same)
      then have "lexpath [] ys = take (length bs - length us) bs"
        using us(1) bs [of bs] lexpath_up [of bs "length us"] by simp
      then show ?thesis by (simp add: take_is_prefix)
    next
      assume "\<exists>vs. us = replicate k pardir @ vs \<and> prefix vs ds"
      then obtain vs where vs: "us = replicate k pardir @ vs" "prefix vs ds" by blast
      moreover have "\<And>c. c \<in> set vs \<Longrightarrow> proper c" using vs(2) assms(2) set_mono_prefix by blast
      ultimately have "lexpath [] ys = take (length bs - k) bs @ vs"
        using us(1) bs [of bs] lexpath_up [of bs k] lexpath_proper [of vs] by simp
      with vs us(1) show ?thesis by auto
    qed
  qed
qed

text \<open>Normal form and parent of a destination.\<close>

lemma normpath_abs_path:
  assumes "zs \<noteq> []" "\<forall>z\<in>set zs. plain_name z"
  shows "normpath (abs_path zs) = abs_path (lexpath [] zs)" "\<forall>c\<in>set (lexpath [] zs). proper c"
proof -
  have abs: "isabs (abs_path zs)" by (simp add: mk_path_def)
  have "norm_comps (abs_path zs) = lexpath [] zs"
    using split_abs_path [OF assms(1)] assms(2)
    by (simp add: norm_comps_lexpath [OF abs] lexpath_step_def)
  moreover have "root_slashes (abs_path zs) = ''/''"
    using join_hd [OF assms] by (auto simp: mk_path_def root_slashes_def)
  ultimately show "normpath (abs_path zs) = abs_path (lexpath [] zs)" "\<forall>c\<in>set (lexpath [] zs). proper c"
    using norm_comps_proper [OF abs] by (simp_all add: normpath_abs [OF abs])
qed

lemma dirname_abs_path:
  assumes "\<forall>c\<in>set ns. proper c"
  shows "dirname (abs_path ns) = abs_path (butlast ns)"
proof (cases ns rule: rev_cases)
  case Nil
  have "path_head ''/'' = ''/''" by code_simp
  with Nil show ?thesis by (simp add: dirname_def mk_path_def)
next
  case (snoc cs c)
  have "plain_name c" "\<And>x. x \<in> set cs \<Longrightarrow> plain_name x"
    using assms snoc by (auto intro: plain_name_proper)
  from path_head_abs [OF this] show ?thesis using snoc by (simp add: dirname_def)
qed

text \<open>A verified parent lies in the base, and no directory between is a symbolic link.\<close>

lemma verified_parent:
  assumes base: "pr_base root = abs_path bs" "\<forall>b\<in>set bs. proper b" and fs: "fs_ok fs" "real_dirs fs bs"
    and zs: "zs \<noteq> []" "\<forall>z\<in>set zs. plain_name z"
    and v: "verify_apply_parent fs root (abs_path zs) = Inr ()"
  shows "prefix bs (butlast (lexpath [] zs))"
    "prefix (bs @ us) (butlast (lexpath [] zs)) \<Longrightarrow> \<not> link_at fs (bs @ us)"
proof -
  let ?ns = "lexpath [] zs"
  let ?es = "drop (length bs) (butlast ?ns)"
  note n = normpath_abs_path [OF zs]
  have rb: "normpath (pr_base root) = abs_path bs"
    using normpath_mk_path [of "''/''" bs] base by (simp add: root_ok_def)
  obtain rel where rel: "relpath (fs_cwd fs) (abs_path (butlast ?ns)) (abs_path bs) = Inr rel"
      "\<not> (rel = pardir \<or> startswith rel (pardir @ ''/''))"
      "rel = ''.'' \<or> verify_loop fs (abs_path bs) (split_on sep rel) = Inr ()"
    using v unfolding verify_apply_parent_def Let_def n(1) dirname_abs_path [OF n(2)] rb
    by (auto split: sum.splits if_splits)
  have bp: "\<forall>c\<in>set (butlast ?ns). proper c" using n(2) by (auto dest: in_set_butlastD)
  note inside = relpath_inside [OF base(2) bp rel(1,2)]
  show "prefix bs (butlast ?ns)" by (rule inside(1))
  then have split: "butlast ?ns = bs @ ?es" by (auto simp: prefix_def)
  assume us0: "prefix (bs @ us) (butlast ?ns)"
  have us: "prefix us ?es" using us0 by (subst (asm) split) simp
  show "\<not> link_at fs (bs @ us)"
  proof (cases "?es = []")
    case True
    with us fs(2) dir_not_link show ?thesis by (auto simp: real_dirs_def)
  next
    case False
    have esp: "\<forall>c\<in>set ?es. proper c" using bp by (auto dest: in_set_dropD)
    have "butlast ?ns \<noteq> bs" using False by auto
    then have r: "rel = join_with ''/'' ?es" using inside(2) by simp
    have se: "split_on sep rel = ?es" unfolding r using split_join_proper [OF False] esp by blast
    have "rel \<noteq> ''.''"
    proof
      assume "rel = ''.''"
      then have "?es = [''.'']" using se by simp
      then have "proper ''.''" using esp by simp
      then show False by (simp add: proper_def)
    qed
    then have "verify_loop fs (abs_path bs) ?es = Inr ()" using rel(3) se by simp
    from verify_loop_ok [OF fs(1,2) base(2) esp this] us show ?thesis by blast
  qed
qed

lemma verified_target:
  assumes base: "pr_base root = abs_path bs" "\<forall>b\<in>set bs. proper b" "bs \<noteq> []"
    and fs: "fs_ok fs" "dir_at fs bs" and ds: "\<forall>d\<in>set ds. proper d"
    and zs: "zs = bs @ replicate k pardir @ ds"
    and v: "verify_apply_parent fs root (abs_path zs) = Inr ()"
  shows "safe_at bs fs zs"
proof -
  let ?ns = "lexpath [] zs"
  have real: "real_dirs fs bs" using fs_ok_real_dirs fs by blast
  have "plain_name pardir" by (simp add: plain_name_def)
  then have plain: "\<forall>z\<in>set zs. plain_name z"
    using base(2) ds by (auto simp: zs intro: plain_name_proper)
  have zne: "zs \<noteq> []" using zs base(3) by simp
  have ns: "?ns = take (length bs - k) bs @ ds"
    using zs lexpath_proper [of bs "[]"] lexpath_proper [of ds] base(2) ds lexpath_up [of bs k] by simp
  note parent = verified_parent [OF base(1,2) fs(1) real zne plain v]
  have nne: "?ns \<noteq> []" using parent(1) base(3) by auto
  then have sp: "strict_prefix bs ?ns"
    using parent(1) by (metis append_butlast_last_id prefix_order.le_less_trans strict_prefixI')
  have inner: "\<not> link_at fs (lexpath [] ys) \<and> (prefix (lexpath [] ys) bs \<or> strict_prefix (lexpath [] ys) ?ns) \<and>
      (lookup fs (lexpath [] ys) = None \<longrightarrow> strict_prefix bs (lexpath [] ys))" if "strict_prefix ys zs" for ys
  proof (cases "prefix (lexpath [] ys) bs")
    case True
    then have "dir_at fs (lexpath [] ys)" using real by (simp add: real_dirs_def)
    then show ?thesis using True dir_not_link by (auto simp: dir_at_def)
  next
    case False
    have "prefix ys (bs @ replicate k pardir @ ds)" using that zs by (simp add: strict_prefix_def)
    from climb_prefixes [OF base(2) ds this] False obtain us where
      us: "prefix us ds" "ys = bs @ replicate k pardir @ us" "lexpath [] ys = take (length bs - k) bs @ us"
      by blast
    have "us \<noteq> ds" using that us(2) zs by auto
    then have spn: "strict_prefix (lexpath [] ys) ?ns" using us by (auto simp: ns strict_prefix_def)
    then have pb: "prefix (lexpath [] ys) (butlast ?ns)"
      by (metis append_butlast_last_id nne prefix_snoc strict_prefix_def)
    with False parent(1) obtain vs where vs: "lexpath [] ys = bs @ vs"
      using prefix_same_cases [OF pb parent(1)] by (auto simp: prefix_def)
    then have "strict_prefix bs (lexpath [] ys)" using False by (auto simp: strict_prefix_def)
    then show ?thesis using parent(2) [of vs] pb vs spn by simp
  qed
  have "dir_at fs []" using real by (simp add: real_dirs_def)
  with plain zne sp inner show ?thesis by (simp add: safe_at_def)
qed

text \<open>Every destination the apply goes on with is safe.\<close>

lemma apply_target:
  assumes "alias_map_ok am" and base: "pr_base root = abs_path bs" "\<forall>b\<in>set bs. proper b" "bs \<noteq> []"
    and fs: "fs_ok fs" "dir_at fs bs"
    and sp: "store_paths root c am = Inr (rel, delta, dst)"
    and v: "verify_apply_parent fs root dst = Inr ()"
  obtains zs where "dst = abs_path zs" "safe_at bs fs zs"
proof -
  obtain visible path where rp: "isabs visible" "isabs path" "relpath ''/'' path visible = Inr rel"
      "dst = path_join (abs_path bs) rel"
    using sp canonicalize_isabs [OF assms(1)] base(1) by (auto simp: store_paths_def bindR_eq_Inr)
  from relpath_shape [OF rp(2,1,3)] show ?thesis
  proof cases
    case 1
    have rs: "[''.''] \<noteq> []" "\<forall>r\<in>set [''.'']. plain_name r" by (simp_all add: plain_name_def)
    have dst: "dst = abs_path (bs @ [''.''])"
      using join_path [OF base(2) rs] rp(4) 1 by simp
    have zs: "bs @ [''.''] \<noteq> []" "\<forall>z\<in>set (bs @ [''.'']). plain_name z"
      using base(2) rs(2) by (auto intro: plain_name_proper)
    have "lexpath [] (bs @ [''.'']) = bs"
      using lexpath_proper [of bs "[]"] base(2) by (simp add: lexpath_step_def)
    then have "prefix bs (butlast bs)"
      using verified_parent(1) [OF base(1,2) fs(1) fs_ok_real_dirs [OF fs] zs] v dst by simp
    then have "length bs \<le> length (butlast bs)" by (rule prefix_length_le)
    then show ?thesis using base(3) by (cases bs rule: rev_cases) auto
  next
    case (2 k ds)
    have "plain_name pardir" by (simp add: plain_name_def)
    then have "\<forall>r\<in>set (replicate k pardir @ ds). plain_name r" using 2(3) by (auto intro: plain_name_proper)
    from join_path [OF base(2) 2(2) this] have dst: "dst = abs_path (bs @ replicate k pardir @ ds)"
      using rp(4) 2(1) by simp
    show ?thesis using that [OF dst verified_target [OF base fs 2(3) refl]] v dst by simp
  qed
qed

section \<open>The steps of the apply at a safe destination\<close>

lemma walk_nofollow: "walk fs n True cur cs = Inr q \<Longrightarrow> \<exists>r. walk fs n False cur cs = Inr r"
proof (induction fs n True cur cs rule: walk.induct)
  case (2 fs n cur c cs)
  note prems = "2.prems"
  consider (skip) "c = '''' \<or> c = ''.''" | (up) "c = pardir" "c \<noteq> ''''" "c \<noteq> ''.''" | (down) "c \<noteq> ''''" "c \<noteq> ''.''" "c \<noteq> pardir"
    by blast
  then show ?case
  proof cases
    case down
    show ?thesis
    proof (cases "lookup fs (cur @ [c])")
      case None
      then show ?thesis using prems down by (auto split: if_splits)
    next
      case (Some j)
      show ?thesis
      proof (cases "in_content j")
        case Directory
        then show ?thesis using "2.hyps"(3) prems down Some by auto
      next
        case (Symlink l)
        moreover have "n \<noteq> 0" using prems down Some Symlink by (auto split: if_splits)
        ultimately show ?thesis using "2.hyps"(4) prems down Some by (cases "cs = []") auto
      qed (use prems down Some in \<open>auto split: if_splits\<close>)
    qed
  qed (use 2 in auto)
qed simp

lemma safe_at_follow:
  assumes "safe_at bs fs zs" "\<not> islink fs (abs_path zs)" "resolve fs True (abs_path zs) = Inr q"
  shows "q = lexpath [] zs"
proof -
  have p: "\<And>f. resolve fs f (abs_path zs) = walk fs 40 f [] zs"
    using assms(1) resolve_abs_path [of zs] by (simp add: safe_at_def)
  obtain r where r: "resolve fs False (abs_path zs) = Inr r"
    using walk_nofollow assms(3) unfolding p by blast
  with safe_at_resolve [OF assms(1) r] have "\<not> link_at fs (lexpath [] zs)"
    using assms(2) by (auto simp: islink_def stat_at_def link_at_def is_link_node_def split: option.splits)
  then show ?thesis using safe_at_resolve [OF assms(1,3)] by blast
qed

lemma gone_queries:
  assumes "safe_at bs fs zs" "lookup fs (lexpath [] zs) = None"
  shows "\<not> islink fs (abs_path zs)" "\<not> isdir fs (abs_path zs)"
proof -
  show l: "\<not> islink fs (abs_path zs)"
    using safe_at_resolve [OF assms(1), of False] assms(2)
    by (auto simp: islink_def stat_at_def bindR_def split: sum.splits option.splits)
  show "\<not> isdir fs (abs_path zs)"
    using safe_at_follow [OF assms(1) l] assms(2)
    by (auto simp: isdir_def stat_at_def bindR_def split: sum.splits option.splits)
qed

text \<open>Removing the old object at the destination.\<close>

lemma clear_wp:
  fixes zs defines "ns \<equiv> lexpath [] zs" and "p \<equiv> abs_path zs"
  assumes "safe_at bs s zs"
  shows "wp (if a then os_unlink p else if b then rmtree p else retE ())
    (\<lambda>_ t. changes_only (prefix ns) s t \<and> (if a \<or> b then lookup t ns = None \<and>
        (fs_ok s \<longrightarrow> (\<forall>q. prefix ns q \<longrightarrow> lookup t q = None)) else t = s))
    (\<lambda>_ t. changes_only (prefix ns) s t) s"
proof -
  have r: "q = ns" if "resolve s False p = Inr q" for q
    using safe_at_resolve [OF assms(3), of False] that by (simp add: ns_def p_def)
  have unlink: "wp (os_unlink p) (\<lambda>_ t. changes_only (prefix ns) s t \<and> lookup t ns = None \<and>
        (fs_ok s \<longrightarrow> (\<forall>q. prefix ns q \<longrightarrow> lookup t q = None)))
      (\<lambda>_ t. changes_only (prefix ns) s t) s"
  proof (rule unlink_wp)
    fix q i assume q: "resolve s False p = Inr q" "lookup s q = Some i" "in_content i \<noteq> Directory"
    have "lookup s x = None" if "fs_ok s" "prefix ns x" "x \<noteq> ns" for x
    proof -
      have "strict_prefix ns x" using \<open>prefix ns x\<close> \<open>x \<noteq> ns\<close> by (simp add: strict_prefix_def)
      from fs_ok_above [OF \<open>fs_ok s\<close> _ this] show ?thesis
        using q r [OF q(1)] by (cases "lookup s x") (auto simp: dir_at_def)
    qed
    then show "changes_only (prefix ns) s (del_node q s) \<and> lookup (del_node q s) ns = None \<and>
        (fs_ok s \<longrightarrow> (\<forall>x. prefix ns x \<longrightarrow> lookup (del_node q s) x = None))"
      using r [OF q(1)] by auto
  qed auto
  have rmtree: "wp (rmtree p) (\<lambda>_ t. changes_only (prefix ns) s t \<and> lookup t ns = None \<and>
        (fs_ok s \<longrightarrow> (\<forall>q. prefix ns q \<longrightarrow> lookup t q = None)))
      (\<lambda>_ t. changes_only (prefix ns) s t) s"
  proof (rule rmtree_wp)
    fix q i assume q: "resolve s False p = Inr q"
    let ?rs = "postorder (tree_depth s) s q"
    have "\<And>x. x \<in> set ?rs \<Longrightarrow> prefix ns x" using postorder_prefix r [OF q] by blast
    from wp_conj [OF remove_entries_changes [OF this] remove_entries_gone]
    show "wp (forE remove_entry ?rs) (\<lambda>_ t. changes_only (prefix ns) s t \<and> lookup t ns = None \<and>
        (fs_ok s \<longrightarrow> (\<forall>q. prefix ns q \<longrightarrow> lookup t q = None)))
      (\<lambda>_ t. changes_only (prefix ns) s t) s"
    proof (rule wp_mono)
      fix u t
      assume "changes_only (prefix ns) s t \<and> (\<forall>p. lookup t p = (if p \<in> set ?rs then None else lookup s p))"
      moreover have "ns \<in> set ?rs" using r [OF q] by (cases "tree_depth s") auto
      moreover have "lookup s x = None \<or> x \<in> set ?rs" if "fs_ok s" "prefix ns x" for x
        using postorder_all [OF that(1), of q x] that(2) r [OF q] by blast
      ultimately show "changes_only (prefix ns) s t \<and> lookup t ns = None \<and>
          (fs_ok s \<longrightarrow> (\<forall>q. prefix ns q \<longrightarrow> lookup t q = None))" by auto
    qed auto
  qed auto
  show ?thesis
    using wp_mono [OF unlink] wp_mono [OF rmtree] by (auto simp: wp_ret intro: wp_mono [OF unlink] wp_mono [OF rmtree])
qed

text \<open>Copying the delta: an entry with the content of the delta appears at the destination.\<close>

lemma copystat_safe:
  fixes zs defines "ns \<equiv> lexpath [] zs" and "p \<equiv> abs_path zs"
  assumes s: "safe_at bs s zs" "f \<Longrightarrow> \<not> islink s p" and n: "lookup s ns = Some i" "in_content i = c"
  shows "wp (copystat src p f)
    (\<lambda>_ t. changes_only (prefix ns) s t \<and> (\<exists>j. lookup t ns = Some j \<and> in_content j = c))
    (\<lambda>_ t. changes_only (prefix ns) s t) s"
proof (rule copystat_wp)
  fix j q k assume q: "resolve s f p = Inr q" "lookup s q = Some k"
  have "q = ns"
    using safe_at_follow [OF s(1)] safe_at_resolve [OF s(1), of f q] s(2) q(1)
    by (cases f) (auto simp: p_def ns_def)
  then show "changes_only (prefix ns) s (put_node q (k\<lparr>in_perm := in_perm j, in_mtime := in_mtime j\<rparr>) s) \<and>
     (\<exists>j'. lookup (put_node q (k\<lparr>in_perm := in_perm j, in_mtime := in_mtime j\<rparr>) s) ns = Some j' \<and> in_content j' = c)"
    using q(2) n by auto
qed auto

lemma link_queries:
  assumes "safe_at bs s zs" "lookup s (lexpath [] zs) = Some i" "in_content i = Regular d"
  shows "\<not> islink s (abs_path zs)"
  using safe_at_resolve [OF assms(1), of False] assms(2,3)
  by (auto simp: islink_def stat_at_def bindR_def split: sum.splits option.splits)

lemma new_content: "lookup (new_node q c s) q = Some i \<Longrightarrow> in_content i = c"
  by (auto simp: lookup_new_node)

lemma copy2_safe:
  fixes zs defines "ns \<equiv> lexpath [] zs" and "p \<equiv> abs_path zs"
  assumes s: "safe_at bs s zs" "\<not> islink s p" "\<not> isdir s p"
  shows "wp (copy2 src p False)
    (\<lambda>_ t. changes_only (prefix ns) s t \<and> (\<exists>j. lookup t ns = Some j \<and>
       (if islink s src then readlink s src = Inr (the (link_target (in_content j)))
          \<and> link_target (in_content j) \<noteq> None
        else \<exists>d. read_file s src = Inr d \<and> in_content j = Regular d)))
    (\<lambda>_ t. changes_only (prefix ns) s t) s"
proof -
  have r: "q = ns" if "resolve s f p = Inr q" for f q
    using safe_at_follow [OF s(1)] safe_at_resolve [OF s(1), of False] s(2) that
    by (cases f) (auto simp: p_def ns_def)
  let ?Q = "\<lambda>c t. changes_only (prefix ns) s t \<and> (\<exists>j. lookup t ns = Some j \<and> in_content j = c)"
  let ?E = "\<lambda>t. changes_only (prefix ns) s t"
  have stat: "wp (copystat src p f) (\<lambda>_. ?Q c) (\<lambda>_. ?E) t"
    if q: "?Q c t" and reg: "f \<Longrightarrow> \<exists>d. c = Regular d" for c f t
  proof -
    have t: "safe_at bs t zs" using safe_at_changes [OF s(1)] q by (simp add: ns_def)
    obtain j where j: "lookup t ns = Some j" "in_content j = c" using q by blast
    have "f \<Longrightarrow> \<not> islink t (abs_path zs)"
      using link_queries [OF t] reg j by (auto simp: ns_def)
    from copystat_safe [OF t this, folded ns_def p_def, OF _ j]
    have "wp (copystat src p f) (\<lambda>_ u. changes_only (prefix ns) t u \<and> (\<exists>j. lookup u ns = Some j \<and> in_content j = c))
        (\<lambda>_ u. changes_only (prefix ns) t u) t" by blast
    then show ?thesis
      by (rule wp_mono) (use q in \<open>auto intro: changes_only_trans\<close>)
  qed
  have link: "wp (seqE (os_symlink l p) (copystat src p False)) (\<lambda>_. ?Q (Symlink l)) (\<lambda>_. ?E) s" for l
    unfolding wp_seq
  proof (rule symlink_wp)
    fix q assume "resolve s False p = Inr q"
    then have "?Q (Symlink l) (new_node q (Symlink l) s)" using r by (auto simp: lookup_new_node)
    then show "wp (copystat src p False) (\<lambda>_. ?Q (Symlink l)) (\<lambda>_. ?E) (new_node q (Symlink l) s)"
      by (rule stat) simp
  qed auto
  have regular: "wp (seqE (write_file p d) (copystat src p True)) (\<lambda>_. ?Q (Regular d)) (\<lambda>_. ?E) s" for d
    unfolding wp_seq
  proof (rule write_wp)
    fix q assume "resolve s True p = Inr q"
    then have "?Q (Regular d) (new_node q (Regular d) s)" using r by (auto simp: lookup_new_node)
    then show "wp (copystat src p True) (\<lambda>_. ?Q (Regular d)) (\<lambda>_. ?E) (new_node q (Regular d) s)"
      by (rule stat) simp
  next
    fix q i old assume "resolve s True p = Inr q" "lookup s q = Some i"
    then have "?Q (Regular d) ((put_node q (i\<lparr>in_content := Regular d, in_mtime := fs_clock s\<rparr>) s)\<lparr>fs_clock := fs_clock s + 1\<rparr>)"
      using r by (auto simp: changes_only_def)
    then show "wp (copystat src p True) (\<lambda>_. ?Q (Regular d)) (\<lambda>_. ?E)
        ((put_node q (i\<lparr>in_content := Regular d, in_mtime := fs_clock s\<rparr>) s)\<lparr>fs_clock := fs_clock s + 1\<rparr>)"
      by (rule stat) simp
  qed auto
  show ?thesis
    unfolding copy2_def wp_bind wp_get using s(3)
    by (auto simp: wp_simps simp del: wp_seq split: sum.split intro!: wp_mono [OF link] wp_mono [OF regular])
qed

section \<open>The whole apply\<close>

text \<open>The branch store is apart from the base: the delta is reached through directories, none of
  them below the base.\<close>

definition delta_apart :: "phys \<Rightarrow> fs \<Rightarrow> phys \<Rightarrow> bool" where
  "delta_apart bs s xs \<longleftrightarrow> xs \<noteq> [] \<and> (\<forall>x\<in>set xs. proper x) \<and> real_dirs s (butlast xs) \<and> \<not> strict_prefix bs xs"

definition store_apart :: "phys \<Rightarrow> fs \<Rightarrow> string \<Rightarrow> bool" where
  "store_apart bs s delta \<longleftrightarrow> (\<exists>xs. delta = abs_path xs \<and> delta_apart bs s xs)"

lemma delta_resolve:
  assumes "delta_apart bs s xs" "changes_only (strict_prefix bs) s t"
  shows "resolve t False (abs_path xs) = Inr xs" "lookup t xs = lookup s xs"
proof -
  have xs: "xs = butlast xs @ [last xs]" using assms(1) by (simp add: delta_apart_def)
  have "real_dirs t (butlast xs)"
    unfolding real_dirs_def
  proof (intro allI impI)
    fix q assume q: "prefix q (butlast xs)"
    then have "prefix q xs" by (metis prefix_prefix xs)
    then have "\<not> strict_prefix bs q"
      using assms(1) prefix_order.less_le_trans by (auto simp: delta_apart_def)
    then show "dir_at t q"
      using assms q by (simp add: dir_at_def changes_only_def delta_apart_def real_dirs_def)
  qed
  moreover have "\<forall>c\<in>set (butlast xs). proper c" "proper (last xs)"
    using assms(1) by (auto simp: delta_apart_def dest: in_set_butlastD)
  ultimately show "resolve t False (abs_path xs) = Inr xs"
    using resolve_in_dir [of t "butlast xs" "last xs"] xs by simp
  show "lookup t xs = lookup s xs" using assms by (simp add: changes_only_def delta_apart_def)
qed

lemma delta_lstat:
  assumes "delta_apart bs s xs" "changes_only (strict_prefix bs) s t"
  shows "lstat t (abs_path xs) = lstat s (abs_path xs)"
  using delta_resolve [OF assms] delta_resolve [OF assms(1) changes_only_refl] by (simp add: stat_at_def)

lemma delta_read:
  assumes "delta_apart bs s xs" "changes_only (strict_prefix bs) s t"
    and "\<not> islink t (abs_path xs)" "read_file t (abs_path xs) = Inr d"
  shows "\<exists>i. lstat s (abs_path xs) = Inr i \<and> in_content i = Regular d"
proof -
  note r = delta_resolve [OF assms(1,2)]
  have nl: "\<not> link_at t xs" using assms(3) r(1)
    by (auto simp: islink_def stat_at_def link_at_def is_link_node_def split: option.splits)
  have plain: "\<And>c. c \<in> set xs \<Longrightarrow> plain_name c" using assms(1) by (auto simp: delta_apart_def intro: plain_name_proper)
  have "resolve t True (abs_path xs) = Inr xs"
    using r(1) walk_follow [OF _ nl] resolve_abs_path [OF plain] by metis
  then obtain i where "lookup t xs = Some i" "in_content i = Regular d"
    using assms(4) by (auto simp: read_file_def split: option.splits content.splits)
  then show ?thesis using r(2) delta_resolve [OF assms(1) changes_only_refl] by (simp add: stat_at_def)
qed

text \<open>What a returned apply has done at the destination \<open>ns\<close>.  A named pipe at the destination
  of a deletion is left alone by the code.\<close>

definition underlay_has :: "fs \<Rightarrow> fs \<Rightarrow> change \<Rightarrow> string \<Rightarrow> phys \<Rightarrow> bool" where
  "underlay_has s t c delta ns \<longleftrightarrow>
     (if ch_op c = ''D''
      then (\<forall>q. prefix ns q \<longrightarrow> lookup t q = None) \<or> (\<exists>i. lookup t ns = Some i \<and> in_content i = Fifo)
      else if ch_kind c = ''dir'' then dir_at t ns
      else if \<not> lexists s delta then t = s
      else \<exists>i j. lstat s delta = Inr i \<and> lookup t ns = Some j \<and> in_content j = in_content i)"

lemma safe_at_present:
  assumes "safe_at bs s zs" "fs_ok s" "real_dirs s bs" "lookup s (lexpath [] zs) = Some i"
  shows "resolve s False (abs_path zs) = Inr (lexpath [] zs)"
proof -
  have zs: "zs = butlast zs @ [last zs]" using assms(1) by (simp add: safe_at_def)
  have "resolve s False (abs_path zs) = walk s 40 False [] zs"
    using assms(1) resolve_abs_path [of zs] by (simp add: safe_at_def)
  also have "\<dots> = walk s 40 False [] (butlast zs @ [last zs])" using zs by simp
  also have "\<dots> = walk s 40 False (lexpath [] (butlast zs)) [last zs]"
  proof (rule walk_dirs)
    fix j assume "j \<le> length (butlast zs)"
    then have "strict_prefix (take j (butlast zs)) zs"
      using zs by (metis prefix_order.le_less_trans strict_prefixI' take_is_prefix)
    then have "prefix (lexpath [] (take j (butlast zs))) bs \<or>
        strict_prefix (lexpath [] (take j (butlast zs))) (lexpath [] zs)"
      using assms(1) by (simp add: safe_at_def)
    then show "dir_at s (lexpath [] (take j (butlast zs)))"
      using assms(3) fs_ok_above [OF assms(2,4)] by (auto simp: real_dirs_def)
  qed
  also have "\<dots> = Inr (lexpath_step (lexpath [] (butlast zs)) (last zs))"
    using assms(4) by (subst (asm) zs) (auto simp: lexpath_step_def split: content.split)
  also have "\<dots> = Inr (lexpath [] zs)" by (subst (3) zs) simp
  finally show ?thesis .
qed

lemma fifo_left:
  assumes "safe_at bs s zs" "fs_ok s" "real_dirs s bs"
    and "\<not> islink s (abs_path zs)" "\<not> isfile s (abs_path zs)" "\<not> isdir s (abs_path zs)"
    and "lookup s (lexpath [] zs) = Some i"
  shows "in_content i = Fifo"
proof -
  note r = safe_at_present [OF assms(1-3,7)]
  have nl: "\<not> link_at s (lexpath [] zs)" using assms(4,7) r
    by (auto simp: islink_def stat_at_def link_at_def)
  have plain: "\<And>c. c \<in> set zs \<Longrightarrow> plain_name c" using assms(1) by (simp add: safe_at_def)
  have "resolve s True (abs_path zs) = Inr (lexpath [] zs)"
    using r walk_follow [OF _ nl] resolve_abs_path [OF plain] by metis
  then show ?thesis using assms(5,6,7) nl
    by (cases "in_content i") (auto simp: isfile_def isdir_def stat_at_def link_at_def)
qed

lemma below_target: "safe_at bs s zs \<Longrightarrow> changes_only (prefix (lexpath [] zs)) t u \<Longrightarrow> changes_only (strict_prefix bs) t u"
  using prefix_order.less_le_trans [of bs "lexpath [] zs"] unfolding changes_only_def safe_at_def by blast

lemma apply_delete_wp:
  assumes s: "safe_at bs s zs" "fs_ok s" "real_dirs s bs"
  shows "wp (bindE (getE (\<lambda>fs. (islink fs (abs_path zs) \<or> isfile fs (abs_path zs), isdir fs (abs_path zs)))) (\<lambda>(leaf, dir).
       if leaf then os_unlink (abs_path zs) else if dir then rmtree (abs_path zs) else retE ()))
    (\<lambda>_ t. changes_only (strict_prefix bs) s t \<and>
       ((\<forall>q. prefix (lexpath [] zs) q \<longrightarrow> lookup t q = None) \<or>
        (\<exists>i. lookup t (lexpath [] zs) = Some i \<and> in_content i = Fifo)))
    (\<lambda>_ t. changes_only (strict_prefix bs) s t) s"
  unfolding wp_bind wp_get prod.case
proof (rule wp_mono [OF clear_wp [OF s(1)]])
  let ?ns = "lexpath [] zs" and ?p = "abs_path zs"
  fix u t
  assume t: "changes_only (prefix ?ns) s t \<and> (if (islink s ?p \<or> isfile s ?p) \<or> isdir s ?p
      then lookup t ?ns = None \<and> (fs_ok s \<longrightarrow> (\<forall>q. prefix ?ns q \<longrightarrow> lookup t q = None)) else t = s)"
  have "(\<forall>q. prefix ?ns q \<longrightarrow> lookup t q = None) \<or> (\<exists>i. lookup t ?ns = Some i \<and> in_content i = Fifo)"
  proof (cases "(islink s ?p \<or> isfile s ?p) \<or> isdir s ?p")
    case False
    with t have ts: "t = s" by simp
    show ?thesis
      using fs_ok_missing [OF s(2), of ?ns] fifo_left [OF s] False unfolding ts
      by (cases "lookup s ?ns") auto
  qed (use t s(2) in simp)
  then show "changes_only (strict_prefix bs) s t \<and> ((\<forall>q. prefix ?ns q \<longrightarrow> lookup t q = None) \<or>
      (\<exists>i. lookup t ?ns = Some i \<and> in_content i = Fifo))"
    using below_target [OF s(1)] t by blast
qed (use below_target [OF s(1)] in blast)

lemma safe_at_full_create:
  assumes "safe_at bs u zs" "\<not> link_at u (lexpath [] zs)"
  shows "may_create (strict_prefix bs) u zs" "last zs \<noteq> ''.''"
proof -
  show "may_create (strict_prefix bs) u zs"
    using assms unfolding may_create_def safe_at_def by (metis strict_prefix_def)
  show "last zs \<noteq> ''.''"
  proof
    assume "last zs = ''.''"
    then obtain ys where zs: "zs = ys @ [''.'']" using assms(1) by (cases zs rule: rev_cases) (auto simp: safe_at_def)
    then have "lexpath [] zs = lexpath [] ys" by (simp add: lexpath_step_def)
    moreover have "prefix (lexpath [] ys) bs \<or> strict_prefix (lexpath [] ys) (lexpath [] zs)"
      using assms(1) strict_prefixI' [OF zs] unfolding safe_at_def by blast
    ultimately show False
      using assms(1) by (metis prefix_order.less_le_not_le safe_at_def)
  qed
qed

lemma apply_dir_wp:
  assumes s: "safe_at bs s zs" "fs_ok s" "real_dirs s bs"
  shows "wp (seqE (bindE (getE (\<lambda>fs. islink fs (abs_path zs) \<or> isfile fs (abs_path zs)))
        (\<lambda>leaf. whenE leaf (os_unlink (abs_path zs)))) (makedirs (abs_path zs)))
    (\<lambda>_ t. changes_only (strict_prefix bs) s t \<and> dir_at t (lexpath [] zs))
    (\<lambda>_ t. changes_only (strict_prefix bs) s t) s"
proof -
  let ?ns = "lexpath [] zs" and ?p = "abs_path zs"
  let ?Q = "\<lambda>t. changes_only (strict_prefix bs) s t \<and> dir_at t ?ns"
  let ?E = "\<lambda>t. changes_only (strict_prefix bs) s t"
  have mk: "wp (makedirs ?p) (\<lambda>_. ?Q) (\<lambda>_. ?E) u"
    if u: "changes_only (prefix ?ns) s u" "\<not> link_at u ?ns" for u
  proof -
    have safe: "safe_at bs u zs" using safe_at_changes [OF s(1) u(1)] .
    note mc = safe_at_full_create [OF safe u(2)]
    show ?thesis
    proof (rule wp_mono [OF makedirs_wp [OF mc(1)]])
      fix x t
      assume t: "grown (strict_prefix bs) u t \<and> (zs = [] \<or> last zs \<noteq> ''.'' \<longrightarrow> isdir t ?p)"
      then obtain q i where q: "resolve t True ?p = Inr q" "lookup t q = Some i" "in_content i = Directory"
        using mc(2) by (auto simp: isdir_def stat_at_def bindR_def split: sum.splits option.splits)
      have "q = ?ns" using may_create_resolve [OF may_create_grown [OF mc(1)] q(1)] t by blast
      then show "?Q t" using q grown_changes t below_target [OF s(1) u(1)] changes_only_trans
        by (auto simp: dir_at_def)
    next
      fix e t assume "grown (strict_prefix bs) u t"
      then show "?E t" using grown_changes below_target [OF s(1) u(1)] changes_only_trans by blast
    qed
  qed
  have nolink: "\<not> link_at s ?ns" if "\<not> islink s ?p"
    using safe_at_present [OF s] that
    by (cases "lookup s ?ns") (auto simp: link_at_def islink_def stat_at_def)
  show ?thesis
  proof (cases "islink s ?p \<or> isfile s ?p")
    case True
    have "wp (os_unlink ?p) (\<lambda>_. wp (makedirs ?p) (\<lambda>_. ?Q) (\<lambda>_. ?E)) (\<lambda>_. ?E) s"
    proof (rule wp_mono [OF clear_wp [OF s(1), of True False, simplified]])
      fix x u
      assume "changes_only (prefix ?ns) s u \<and> lookup u ?ns = None \<and> (fs_ok s \<longrightarrow> (\<forall>q. prefix ?ns q \<longrightarrow> lookup u q = None))"
      then show "wp (makedirs ?p) (\<lambda>_. ?Q) (\<lambda>_. ?E) u" using mk by (simp add: link_at_def)
    qed (use below_target [OF s(1)] in blast)
    with True show ?thesis by (simp add: wp_seq wp_bind wp_get wp_when)
  next
    case False
    then show ?thesis using mk [OF changes_only_refl nolink] by (simp add: wp_seq wp_bind wp_get wp_when)
  qed
qed

lemma apply_file_wp:
  assumes s: "safe_at bs s zs"
  shows "wp (bindE (getE (\<lambda>fs. lexists fs delta)) (\<lambda>here. whenE here (
        seqE (let parent = dirname (abs_path zs) in whenE (parent \<noteq> []) (makedirs parent))
       (seqE (bindE (getE (\<lambda>fs. (islink fs (abs_path zs), isdir fs (abs_path zs)))) (\<lambda>(link, dir).
                if link then os_unlink (abs_path zs) else if dir then rmtree (abs_path zs) else retE ()))
             (copy2 delta (abs_path zs) False)))))
    (\<lambda>_ t. changes_only (strict_prefix bs) s t \<and>
       (store_apart bs s delta \<longrightarrow>
         (if \<not> lexists s delta then t = s
          else \<exists>i j. lstat s delta = Inr i \<and> lookup t (lexpath [] zs) = Some j \<and> in_content j = in_content i)))
    (\<lambda>_ t. changes_only (strict_prefix bs) s t) s"
proof (cases "lexists s delta")
  case False
  then show ?thesis unfolding wp_bind wp_get wp_when by auto
next
  case True
  let ?ns = "lexpath [] zs" and ?p = "abs_path zs"
  let ?D = "changes_only (strict_prefix bs) s"
  let ?Q = "\<lambda>t. ?D t \<and> (store_apart bs s delta \<longrightarrow>
     (\<exists>i j. lstat s delta = Inr i \<and> lookup t ?ns = Some j \<and> in_content j = in_content i))"
  let ?clear = "bindE (getE (\<lambda>fs. (islink fs ?p, isdir fs ?p))) (\<lambda>(link, dir).
      if link then os_unlink ?p else if dir then rmtree ?p else retE ())"
  have zs: "zs = butlast zs @ [last zs]" "plain_name (last zs)" "\<And>c. c \<in> set (butlast zs) \<Longrightarrow> plain_name c"
    using s by (auto simp: safe_at_def dest: in_set_butlastD)
  have "path_head (abs_path (butlast zs @ [last zs])) = abs_path (butlast zs)"
    by (rule path_head_abs [OF zs(2)]) (rule zs(3))
  then have parent: "dirname ?p = abs_path (butlast zs)"
    unfolding dirname_def zs(1) [symmetric] .
  have copy: "wp (copy2 delta ?p False) (\<lambda>_. ?Q) (\<lambda>_. ?D) v"
    if v: "?D v" "safe_at bs v zs" "\<not> islink v ?p" "\<not> isdir v ?p" for v
  proof (rule wp_mono [OF copy2_safe [OF v(2,3,4)]])
    fix x t
    assume t: "changes_only (prefix ?ns) v t \<and> (\<exists>j. lookup t ?ns = Some j \<and>
       (if islink v delta then readlink v delta = Inr (the (link_target (in_content j))) \<and> link_target (in_content j) \<noteq> None
        else \<exists>d. read_file v delta = Inr d \<and> in_content j = Regular d))"
    then obtain j where j: "lookup t ?ns = Some j"
      "if islink v delta then readlink v delta = Inr (the (link_target (in_content j))) \<and> link_target (in_content j) \<noteq> None
        else \<exists>d. read_file v delta = Inr d \<and> in_content j = Regular d" by blast
    have "\<exists>i. lstat s delta = Inr i \<and> in_content j = in_content i"
      if ap: "store_apart bs s delta"
    proof (cases "islink v delta")
      case True
      then obtain i where i: "lstat v delta = Inr i"
        by (cases "lstat v delta") (auto simp: islink_def)
      then have "link_target (in_content i) = link_target (in_content j)"
        using j(2) True by (auto simp: readlink_def split: option.splits)
      then have "in_content j = in_content i"
        using j(2) True by (cases "in_content i"; cases "in_content j") auto
      then show ?thesis using i delta_lstat [OF _ v(1)] ap by (auto simp: store_apart_def)
    next
      case False
      then obtain d where "read_file v delta = Inr d" "in_content j = Regular d" using j(2) by auto
      then show ?thesis using False delta_read [OF _ v(1)] ap unfolding store_apart_def by metis
    qed
    moreover have "?D t" using t below_target [OF v(2)] v(1) changes_only_trans by blast
    ultimately show "?Q t" using j(1) by blast
  next
    fix e t assume "changes_only (prefix ?ns) v t"
    then show "?D t" using below_target [OF v(2)] v(1) changes_only_trans by blast
  qed
  have clear: "wp (seqE ?clear (copy2 delta ?p False)) (\<lambda>_. ?Q) (\<lambda>_. ?D) u"
    if u: "?D u" "safe_at bs u zs" for u
    unfolding wp_seq wp_bind wp_get prod.case
  proof (rule wp_mono [OF clear_wp [OF u(2)]])
    fix x v
    assume v: "changes_only (prefix ?ns) u v \<and> (if islink u ?p \<or> isdir u ?p
        then lookup v ?ns = None \<and> (fs_ok u \<longrightarrow> (\<forall>q. prefix ?ns q \<longrightarrow> lookup v q = None)) else v = u)"
    have sv: "safe_at bs v zs" using safe_at_changes [OF u(2)] v by blast
    have "\<not> islink v ?p \<and> \<not> isdir v ?p"
      using v gone_queries [OF sv] by (auto split: if_splits)
    moreover have "?D v" using v below_target [OF u(2)] u(1) changes_only_trans by blast
    ultimately show "wp (copy2 delta ?p False) (\<lambda>_. ?Q) (\<lambda>_. ?D) v" using copy sv by blast
  next
    fix e v assume "changes_only (prefix ?ns) u v"
    then show "?D v" using below_target [OF u(2)] u(1) changes_only_trans by blast
  qed
  have "wp (makedirs (abs_path (butlast zs))) (\<lambda>_. wp (seqE ?clear (copy2 delta ?p False)) (\<lambda>_. ?Q) (\<lambda>_. ?D)) (\<lambda>_. ?D) s"
  proof (rule wp_mono [OF makedirs_wp [OF safe_at_may_create [OF s]]])
    fix x u assume "grown (strict_prefix bs) s u \<and> (butlast zs = [] \<or> last (butlast zs) \<noteq> ''.'' \<longrightarrow> isdir u (abs_path (butlast zs)))"
    then show "wp (seqE ?clear (copy2 delta ?p False)) (\<lambda>_. ?Q) (\<lambda>_. ?D) u"
      using clear safe_at_grown [OF s] grown_changes by blast
  qed (use grown_changes in blast)
  moreover have "abs_path (butlast zs) \<noteq> []" by (simp add: mk_path_def)
  ultimately show ?thesis
    using True by (simp add: wp_bind wp_get wp_when wp_seq Let_def parent)
qed

text \<open>All branches together.\<close>

lemma apply_wp:
  assumes am: "alias_map_ok am" and base: "pr_base root = abs_path bs" "\<forall>b\<in>set bs. proper b" "bs \<noteq> []"
    and fs: "fs_ok s" "dir_at s bs"
  shows "wp (apply_change_from_store root c am)
    (\<lambda>_ t. changes_only (strict_prefix bs) s t \<and>
       (\<exists>rel delta dst. store_paths root c am = Inr (rel, delta, dst) \<and> strict_prefix bs (norm_comps dst) \<and>
         (store_apart bs s delta \<longrightarrow> underlay_has s t c delta (norm_comps dst))))
    (\<lambda>_ t. changes_only (strict_prefix bs) s t) s"
proof (cases "store_paths root c am")
  case (Inr r)
  obtain rel delta dst where r: "r = (rel, delta, dst)" by (cases r) auto
  note sp = Inr [unfolded r]
  show ?thesis
  proof (cases "verify_apply_parent s root dst")
    case (Inl e)
    then show ?thesis by (simp add: apply_change_from_store_def wp_simps sp)
  next
    case (Inr u)
    then have v: "verify_apply_parent s root dst = Inr ()" by simp
    obtain zs where dst: "dst = abs_path zs" and safe: "safe_at bs s zs"
      using apply_target [OF am base fs sp v] by blast
    have real: "real_dirs s bs" using fs_ok_real_dirs fs by blast
    have zs: "zs \<noteq> []" "\<forall>z\<in>set zs. plain_name z" "strict_prefix bs (lexpath [] zs)"
      using safe by (auto simp: safe_at_def)
    have abs: "isabs (abs_path zs)" by (simp add: mk_path_def)
    have nc: "norm_comps dst = lexpath [] zs"
      using split_abs_path [OF zs(1)] zs(2) dst
      by (simp add: norm_comps_lexpath [OF abs] lexpath_step_def)
    let ?post = "\<lambda>t. changes_only (strict_prefix bs) s t \<and>
      (store_apart bs s delta \<longrightarrow> underlay_has s t c delta (lexpath [] zs))"
    let ?E = "\<lambda>t. changes_only (strict_prefix bs) s t"
    consider (del) "ch_op c = ''D''" | (dir) "ch_op c \<noteq> ''D''" "ch_kind c = ''dir''"
      | (leaf) "ch_op c \<noteq> ''D''" "ch_kind c \<noteq> ''dir''" by blast
    then have "wp (apply_change_from_store root c am) (\<lambda>_. ?post) (\<lambda>_. ?E) s"
    proof cases
      case del
      show ?thesis
        unfolding apply_change_from_store_def
        by (simp add: wp_bind [of "liftE _"] wp_lift sp wp_seq wp_read v [unfolded dst] del dst)
          (rule wp_mono [OF apply_delete_wp [OF safe fs(1) real]], simp_all add: underlay_has_def del)
    next
      case dir
      show ?thesis
        unfolding apply_change_from_store_def
        by (simp add: wp_bind [of "liftE _"] wp_lift sp wp_seq [of "readE _"] wp_read v [unfolded dst] dir dst)
          (rule wp_mono [OF apply_dir_wp [OF safe fs(1) real]], simp_all add: underlay_has_def dir)
    next
      case leaf
      show ?thesis
        unfolding apply_change_from_store_def
        by (simp add: wp_bind [of "liftE _"] wp_lift sp wp_seq [of "readE _"] wp_read v [unfolded dst] leaf dst)
          (rule wp_mono [OF apply_file_wp [OF safe]], auto simp: underlay_has_def leaf split: if_splits)
    qed
    then show ?thesis by (rule wp_mono) (use sp nc zs(3) in simp_all)
  qed
qed (simp add: apply_change_from_store_def wp_simps)

lemma verify_loop_error: "verify_loop fs cur cs = Inl e \<Longrightarrow> \<exists>msg. e = ValueError msg"
  by (induction cs arbitrary: cur) (auto simp: Let_def split: if_splits)

lemma verify_error: "verify_apply_parent fs root dst = Inl e \<Longrightarrow> \<exists>msg. e = ValueError msg"
  using verify_loop_error
  by (auto simp: verify_apply_parent_def Let_def relpath_def split: if_splits sum.splits)

lemma relpath_descend:
  assumes "\<forall>v\<in>set vs. proper v" "\<forall>d\<in>set ds. proper d" "ds \<noteq> []"
  shows "relpath cwd (abs_path (vs @ ds)) (abs_path vs) = Inr (join_with ''/'' ds)"
proof -
  have n: "nonempty_parts (abspath cwd (abs_path cs)) = cs" if "\<forall>c\<in>set cs. proper c" for cs
    using that nonempty_parts_abs [of cs] normpath_mk_path [of "''/''" cs]
    by (simp add: abspath_def root_ok_def)
  have l: "longest_common_prefix vs (vs @ ds) = vs" by (induction vs) auto
  have "\<forall>c\<in>set (vs @ ds). proper c" using assms by auto
  from n [OF this] n [OF assms(1)] show ?thesis
    using assms(3) by (simp add: relpath_def relpath_comps_def l Let_def mk_path_def)
qed

section \<open>Properties\<close>

text \<open>A file system with one protected root, a change in its branch store and a symbolic link from
  the base to \<open>/etc\<close>.\<close>

definition sample_node :: "content \<Rightarrow> inode" where
  "sample_node c = \<lparr>in_content = c, in_dev = 1, in_ino = 7, in_perm = 420, in_uid = 1000, in_gid = 1000, in_mtime = 5\<rparr>"

definition sample_fs :: fs where
  "sample_fs = \<lparr>fs_nodes = map (\<lambda>(p, c). (p, sample_node c))
     [([], Directory), ([''etc''], Directory), ([''etc'', ''passwd''], Regular ''root''),
      ([''real''], Directory), ([''real'', ''storage''], Directory), ([''real'', ''storage'', ''out''], Symlink ''/etc''),
      ([''store''], Directory), ([''store'', ''branches''], Directory), ([''store'', ''branches'', ''b1''], Directory),
      ([''store'', ''branches'', ''b1'', ''files''], Directory),
      ([''store'', ''branches'', ''b1'', ''files'', ''a.txt''], Regular ''hello'')],
     fs_cwd = ''/'', fs_next_ino = 100, fs_clock = 50, fs_fault = (\<lambda>_ _. None)\<rparr>"

definition sample_added :: change where
  "sample_added = \<lparr>ch_op = ''A'', ch_path = ''/storage/user/a.txt'', ch_kind = ''file'', ch_bytes = 5,
     ch_root = ''storage'', ch_summary = ''''\<rparr>"

lemma sample_keys: "lookup sample_fs p \<noteq> None \<Longrightarrow> p \<in> set (map fst (fs_nodes sample_fs))"
  by (simp only: lookup_key)

lemma sample_fs_ok: "fs_ok sample_fs" "dir_at sample_fs [''real'', ''storage'']"
proof -
  have "dir_at sample_fs []" "dir_at sample_fs [''etc'']" "dir_at sample_fs [''real'']"
    "dir_at sample_fs [''real'', ''storage'']" "dir_at sample_fs [''store'']"
    "dir_at sample_fs [''store'', ''branches'']" "dir_at sample_fs [''store'', ''branches'', ''b1'']"
    "dir_at sample_fs [''store'', ''branches'', ''b1'', ''files'']"
    by code_simp+
  moreover have "p \<in> {[], [''etc''], [''real''], [''real'', ''storage''], [''store''],
      [''store'', ''branches''], [''store'', ''branches'', ''b1''], [''store'', ''branches'', ''b1'', ''files'']}"
    if "lookup sample_fs (p @ [c]) \<noteq> None" for p c
  proof -
    have "butlast (p @ [c]) \<in> butlast ` set (map fst (fs_nodes sample_fs))"
      using sample_keys [OF that] by blast
    then show ?thesis by (auto simp: sample_fs_def)
  qed
  ultimately show "fs_ok sample_fs" "dir_at sample_fs [''real'', ''storage'']"
    unfolding fs_ok_def by blast+
qed

lemma sample_apply_setup:
  "alias_map_ok []" "pr_base sample_root = abs_path [''real'', ''storage'']"
  "\<forall>b\<in>set [''real'', ''storage'']. proper b" "[''real'', ''storage''] \<noteq> []"
  by (simp_all add: alias_map_ok_def sample_root_def mk_path_def proper_def)

text \<open>C34. Confinement of the apply: for every change record, every content of the branch store and
  every refusal of the kernel, whether it returns or raises, writing a change to the real
  underlay leaves each path that is not strictly below the protected root's base as it was.\<close>

theorem apply_confined:
  assumes "alias_map_ok am" "pr_base root = abs_path bs" "\<forall>b\<in>set bs. proper b" "bs \<noteq> []"
    and "fs_ok fs" "dir_at fs bs" "\<not> strict_prefix bs p"
  shows "lookup (snd (apply_change_from_store root c am fs)) p = lookup fs p"
proof -
  have "wp (apply_change_from_store root c am) (\<lambda>_ t. lookup t p = lookup fs p) (\<lambda>_ t. lookup t p = lookup fs p) fs"
    by (rule wp_mono [OF apply_wp [OF assms(1-6)]]) (use assms(7) in \<open>auto simp: changes_only_def\<close>)
  then show ?thesis by (auto simp: wp_def split: prod.splits sum.splits)
qed

theorem apply_confined_witness:
  "lookup (snd (apply_change_from_store sample_root sample_added [] sample_fs)) [''etc'', ''passwd'']
     = lookup sample_fs [''etc'', ''passwd'']"
  by (rule apply_confined [OF sample_apply_setup sample_fs_ok]) (simp add: strict_prefix_def)



text \<open>Rejection of aliased parents: when a directory between the base and the destination is a
  symbolic link in the underlay, the apply raises \<open>ValueError\<close> and changes nothing.\<close>

theorem apply_rejects_symlink_parent:
  assumes base: "pr_base root = abs_path bs" "\<forall>b\<in>set bs. proper b" "bs \<noteq> []" and fs: "fs_ok fs" "dir_at fs bs"
    and vis: "canonicalize am (pr_visible root) = Inr (abs_path vs)" "\<forall>v\<in>set vs. proper v"
    and path: "canonicalize am (ch_path c) = Inr (abs_path (vs @ ds))" "\<forall>d\<in>set ds. proper d"
    and link: "strict_prefix us ds" "link_at fs (bs @ us)"
  shows "\<exists>msg. apply_change_from_store root c am fs = (Inl (ValueError msg), fs)"
proof -
  have ds: "ds \<noteq> []" using link(1) by auto
  have pl: "\<forall>d\<in>set ds. plain_name d" "\<forall>z\<in>set (bs @ ds). plain_name z"
    using path(2) base(2) by (auto intro: plain_name_proper)
  have sp: "store_paths root c am = Inr (join_with ''/'' ds,
      path_joins (pr_store root) [''branches'', pr_branch root, ''files'', join_with ''/'' ds], abs_path (bs @ ds))"
    by (simp add: store_paths_def vis path relpath_descend [OF vis(2) path(2) ds] base(1)
        join_path [OF base(2) ds pl(1)])
  have real: "real_dirs fs bs" using fs_ok_real_dirs fs by blast
  have "lexpath [] (bs @ ds) = bs @ ds" using lexpath_proper [of "bs @ ds" "[]"] base(2) path(2) by auto
  moreover have "prefix us (butlast ds)"
    using link(1) ds by (metis append_butlast_last_id prefix_snoc strict_prefix_def)
  ultimately have "prefix (bs @ us) (butlast (lexpath [] (bs @ ds)))" using ds by (simp add: butlast_append)
  then have "verify_apply_parent fs root (abs_path (bs @ ds)) \<noteq> Inr ()"
    using verified_parent(2) [OF base(1,2) fs(1) real _ pl(2)] ds link(2) by blast
  then obtain e where v: "verify_apply_parent fs root (abs_path (bs @ ds)) = Inl e"
    by (cases "verify_apply_parent fs root (abs_path (bs @ ds))") auto
  obtain msg where "e = ValueError msg" using verify_error [OF v] by blast
  then show ?thesis
    using v by (simp add: apply_change_from_store_def sp bindE_def liftE_def seqE_def readE_def)
qed

theorem apply_rejects_symlink_parent_witness:
  "\<exists>msg. apply_change_from_store sample_root (sample_added\<lparr>ch_path := ''/storage/user/out/passwd''\<rparr>) [] sample_fs
     = (Inl (ValueError msg), sample_fs)"
proof (rule apply_rejects_symlink_parent [where vs = "[''storage'', ''user'']" and ds = "[''out'', ''passwd'']"
      and us = "[''out'']"])
  show "canonicalize [] (pr_visible sample_root) = Inr (abs_path [''storage'', ''user''])"
    "canonicalize [] (ch_path (sample_added\<lparr>ch_path := ''/storage/user/out/passwd''\<rparr>))
       = Inr (abs_path ([''storage'', ''user''] @ [''out'', ''passwd'']))"
    "link_at sample_fs ([''real'', ''storage''] @ [''out''])"
    by code_simp+
qed (use sample_apply_setup sample_fs_ok in \<open>simp_all add: proper_def strict_prefix_def\<close>)

end
