(* ===== verification/Workspace.thy ===== *)
theory Workspace
  imports Apply
begin

text \<open>
  The module \<open>workspace.py\<close>: admission of a workspace directory against the protected roots
  and the operator's ceilings, with the \<open>lstat\<close> identity of every directory on the way, and
  the revalidation of an admitted record.  \<open>WorkspaceAdmissionError\<close> is a \<open>ValueError\<close>; paths
  and records come from clients and from the session file, so they are JSON values.
\<close>

section \<open>Definitions\<close>

fun type_bits :: "content \<Rightarrow> int" where
  "type_bits (Regular _) = 32768"
| "type_bits Directory = 16384"
| "type_bits (Symlink _) = 40960"
| "type_bits Fifo = 4096"

definition st_mode :: "inode \<Rightarrow> int" where
  "st_mode i = type_bits (in_content i) + in_perm i"

definition identity :: "inode \<Rightarrow> json" where
  "identity i = JObj
     [(''st_dev'', JInt (in_dev i)), (''st_ino'', JInt (in_ino i)), (''st_mode'', JInt (st_mode i)),
      (''st_uid'', JInt (in_uid i)), (''st_gid'', JInt (in_gid i))]"

record admission_policy =
  ap_alias :: alias_map
  ap_allow_root :: bool
  ap_roots :: "(string \<times> string \<times> protected_root) list"
  ap_ceilings :: "string list"

definition canonical_key :: "alias_map \<Rightarrow> json \<Rightarrow> string result" where
  "canonical_key am path =
     (case path of
        JStr p \<Rightarrow>
          if p = [] \<or> CHR 0x00 \<in> set p then Inl (ValueError ''workspace path is empty or contains NUL'')
          else if str_in ''://'' p \<or> startswith p ''file:''
          then Inl (ValueError ''workspace path must be a local absolute path'')
          else bindR (normalize p) (canonicalize am)
      | _ \<Rightarrow> Inl (ValueError ''workspace path must be a string''))"

text \<open>The roots are sorted by decreasing length of their visible path; the first that holds the
  path (strictly, unless equality is permitted) is its protected root.\<close>

definition find_root :: "(string \<times> string \<times> protected_root) list \<Rightarrow> string \<Rightarrow> bool \<Rightarrow>
    (string \<times> string \<times> protected_root) option result" where
  "find_root roots canon permit_equal =
     foldR (\<lambda>found r. case found of Some _ \<Rightarrow> Inr found
        | None \<Rightarrow> bindR (is_within canon (fst r)) (\<lambda>inside.
            Inr (if inside \<and> \<not> (canon = fst r \<and> \<not> permit_equal) then Some r else None)))
       None roots"

definition configured_list :: "string list \<Rightarrow> json \<Rightarrow> json list result" where
  "configured_list visible configured =
     (case configured of
        JNull \<Rightarrow> Inr (map JStr visible)
      | JStr p \<Rightarrow> Inr [JStr p]
      | JArr xs \<Rightarrow> Inr xs
      | JObj d \<Rightarrow> Inr (map (\<lambda>(k, v). JStr k) d)
      | v \<Rightarrow> if truthy v then Inl (TypeError ''not iterable'') else Inr [])"

definition make_admission_policy :: "(string, protected_root) dict \<Rightarrow> alias_map \<Rightarrow> json \<Rightarrow> json \<Rightarrow>
    admission_policy result" where
  "make_admission_policy protected_roots am configured allow =
     bindR (mapR (\<lambda>(fallback, root). bindR (canonical_key am (JStr (pr_visible root)))
               (\<lambda>visible. Inr (visible, pr_name root, root))) protected_roots) (\<lambda>items.
       let roots = sort_longest (\<lambda>r. length (fst r)) items in
       if roots = [] then Inl (ValueError ''at least one protected root is required'')
       else bindR (configured_list (map fst roots) configured) (\<lambda>paths.
         bindR (foldR (\<lambda>acc path. bindR (canonical_key am path) (\<lambda>canon.
                  bindR (find_root roots canon True) (\<lambda>root.
                    if root = None
                    then Inl (ValueError ''workspace admission root is not under a protected root'')
                    else Inr (if canon \<in> set acc then acc else acc @ [canon])))) [] paths) (\<lambda>ceilings.
           Inr \<lparr>ap_alias = am, ap_allow_root = truthy allow, ap_roots = roots,
                ap_ceilings = sort_longest length ceilings\<rparr>)))"

definition protected_root_of :: "admission_policy \<Rightarrow> string \<Rightarrow> bool \<Rightarrow>
    (string \<times> string \<times> protected_root) option result" where
  "protected_root_of pol = find_root (ap_roots pol)"

definition authority_anchor :: "fs \<Rightarrow> protected_root \<Rightarrow> string" where
  "authority_anchor fs root =
     (if pr_mount root \<noteq> [] \<and> isdir fs (pr_mount root) \<and> \<not> islink fs (pr_mount root)
      then abspath (fs_cwd fs) (pr_mount root)
      else if pr_base root \<noteq> [] then abspath (fs_cwd fs) (pr_base root)
      else abspath (fs_cwd fs) (pr_visible root))"

text \<open>The pairs (relative path, physical path) of the anchor and of every component below it.\<close>

primrec component_paths :: "string list \<Rightarrow> string list \<Rightarrow> string \<Rightarrow> (string \<times> string) list" where
  "component_paths accumulated [] current = []"
| "component_paths accumulated (part # parts) current =
     (let accumulated = accumulated @ [part]; current = path_join current part
      in (path_joins (hd accumulated) (tl accumulated), current) # component_paths accumulated parts current)"

definition anchored_paths :: "string \<Rightarrow> string \<Rightarrow> (string \<times> string) list" where
  "anchored_paths anchor relative_path =
     (''.'', anchor) # (if relative_path \<noteq> ''.'' then component_paths [] (split_on sep relative_path) anchor else [])"

fun record_loop :: "fs \<Rightarrow> bool \<Rightarrow> (string \<times> string) list \<Rightarrow> json list \<Rightarrow> (json list \<times> bool) result" where
  "record_loop fs require [] records = Inr (records, False)"
| "record_loop fs require ((relative, physical) # rest) records =
     (case lstat fs physical of
        Inl e \<Rightarrow> if require then Inl (ValueError (''workspace path does not exist: '' @ exn_str e))
                 else Inr (records, True)
      | Inr info \<Rightarrow>
          if link_target (in_content info) \<noteq> None
          then Inl (ValueError (''workspace path traverses symlink component '' @ relative))
          else if in_content info \<noteq> Directory
          then Inl (ValueError (''workspace path component is not a directory: '' @ relative))
          else record_loop fs require rest
                 (records @ [JObj [(''relative_path'', JStr relative), (''identity'', identity info)]]))"

definition component_records :: "fs \<Rightarrow> string \<Rightarrow> string \<Rightarrow> bool \<Rightarrow> (json list \<times> json) result" where
  "component_records fs anchor relative_path require =
     bindR (record_loop fs require (anchored_paths anchor relative_path) []) (\<lambda>(records, missing).
       Inr (records, if \<not> missing \<and> records \<noteq> []
                     then (case last records of JObj d \<Rightarrow> get_default d ''identity'' JNull | _ \<Rightarrow> JNull)
                     else JNull))"

definition admission_root :: "admission_policy \<Rightarrow> string \<Rightarrow> string option result" where
  "admission_root pol canon =
     foldR (\<lambda>found ceiling. case found of Some _ \<Rightarrow> Inr found
        | None \<Rightarrow> bindR (is_within canon ceiling) (\<lambda>inside.
            Inr (if inside \<and> \<not> (canon = ceiling \<and> \<not> ap_allow_root pol) then Some ceiling else None)))
       None (ap_ceilings pol)"

definition visible_spelling :: "json \<Rightarrow> json" where
  "visible_spelling path =
     (case path of
        JStr p \<Rightarrow> (case normalize p of Inr v \<Rightarrow> JStr v | Inl e \<Rightarrow> JStr p)
      | _ \<Rightarrow> JNull)"

definition admit :: "admission_policy \<Rightarrow> fs \<Rightarrow> json \<Rightarrow> bool \<Rightarrow> pydict result" where
  "admit pol fs path require_existing =
     bindR (canonical_key (ap_alias pol) path) (\<lambda>canon.
     bindR (protected_root_of pol canon (ap_allow_root pol)) (\<lambda>matched.
       case matched of
         None \<Rightarrow> bindR (protected_root_of pol canon True) (\<lambda>equal_root.
           if equal_root \<noteq> None
           then Inl (ValueError ''protected root itself is not an admissible workspace'')
           else Inl (ValueError ''workspace is not a strict descendant of a protected root''))
       | Some (protected_visible, root_name, root) \<Rightarrow>
         bindR (admission_root pol canon) (\<lambda>ceiling.
           case ceiling of
             None \<Rightarrow> Inl (ValueError ''workspace is outside workspace_admission_roots'')
           | Some ceiling \<Rightarrow>
             bindR (relpath (fs_cwd fs) canon protected_visible) (\<lambda>relative.
             bindR (component_records fs (authority_anchor fs root) relative require_existing) (\<lambda>(components, final).
               if require_existing \<and> final = JNull then Inl (ValueError ''workspace path does not exist'')
               else Inr [(''visible_path'', visible_spelling path), (''canonical_path'', JStr canon),
                         (''canonical_key'', JStr canon), (''protected_root'', JStr root_name),
                         (''relative_path'', JStr relative), (''admission_root'', JStr ceiling),
                         (''identity'', final), (''components'', JArr components)])))))"

text \<open>\<open>a.get(k) != b.get(k)\<close> for the four identity fields.\<close>

definition same_field :: "pydict \<Rightarrow> pydict \<Rightarrow> string \<Rightarrow> bool" where
  "same_field a b k = py_eq (get_default a k JNull) (get_default b k JNull)"

definition revalidate :: "admission_policy \<Rightarrow> fs \<Rightarrow> json \<Rightarrow> pydict result" where
  "revalidate pol fs admitted =
     (case admitted of
        JObj rec \<Rightarrow>
          (case get_default rec ''canonical_path'' JNull of
             JStr canon \<Rightarrow>
               bindR (admit pol fs (JStr canon) True) (\<lambda>current.
                 if same_field current rec ''protected_root'' \<and> same_field current rec ''relative_path'' \<and>
                    same_field current rec ''identity'' \<and> same_field current rec ''components''
                 then Inr (dict_set current ''visible_path'' (get_default rec ''visible_path'' (JStr canon)))
                 else Inl (ValueError ''workspace root identity changed after admission''))
           | _ \<Rightarrow> Inl (ValueError ''admitted workspace record has no canonical path''))
      | _ \<Rightarrow> Inl (ValueError ''admitted workspace record must be an object''))"

definition contains_change :: "admission_policy \<Rightarrow> json \<Rightarrow> json \<Rightarrow> bool result" where
  "contains_change pol admitted change_path =
     (case bindR (case admitted of
              JObj rec \<Rightarrow> bindR (get_item rec ''canonical_path'') (canonical_key (ap_alias pol))
            | _ \<Rightarrow> Inl (TypeError ''not a mapping'')) (\<lambda>root_key.
            bindR (canonical_key (ap_alias pol) change_path) (\<lambda>ckey. Inr (ckey, root_key))) of
        Inl e \<Rightarrow> Inr False
      | Inr (ckey, root_key) \<Rightarrow> is_within ckey root_key)"

section \<open>Facts\<close>

definition component_record :: "fs \<Rightarrow> string \<times> string \<Rightarrow> json" where
  "component_record fs rp = JObj [(''relative_path'', JStr (fst rp)), (''identity'', identity (projr (lstat fs (snd rp))))]"

definition dir_component :: "fs \<Rightarrow> string \<times> string \<Rightarrow> bool" where
  "dir_component fs rp \<longleftrightarrow> (\<exists>i. lstat fs (snd rp) = Inr i \<and> in_content i = Directory)"

lemma record_loop_strict:
  "record_loop fs True ps records = Inr (out, missing) \<Longrightarrow>
   \<not> missing \<and> out = records @ map (component_record fs) ps \<and> (\<forall>rp\<in>set ps. dir_component fs rp)"
proof (induction fs True ps records rule: record_loop.induct)
  case (2 fs relative physical rest records)
  then show ?case
    by (auto simp: component_record_def dir_component_def split: sum.splits if_splits)
qed simp

lemma record_loop_dirs:
  "\<forall>rp\<in>set ps. dir_component fs rp \<Longrightarrow>
   record_loop fs require ps records = Inr (records @ map (component_record fs) ps, False)"
  by (induction fs require ps records rule: record_loop.induct)
     (auto simp: component_record_def dir_component_def)

lemma find_root_Some:
  assumes "find_root roots c eq = Inr (Some r)"
  shows "r \<in> set roots \<and> is_within c (fst r) = Inr True \<and> (c = fst r \<longrightarrow> eq)"
proof -
  have "foldR (\<lambda>found r. case found of Some _ \<Rightarrow> Inr found
        | None \<Rightarrow> bindR (is_within c (fst r)) (\<lambda>inside.
            Inr (if inside \<and> \<not> (c = fst r \<and> \<not> eq) then Some r else None))) acc xs = Inr out \<Longrightarrow>
      (\<forall>r. acc = Some r \<longrightarrow> r \<in> set roots \<and> is_within c (fst r) = Inr True \<and> (c = fst r \<longrightarrow> eq)) \<Longrightarrow>
      set xs \<subseteq> set roots \<Longrightarrow>
      \<forall>r. out = Some r \<longrightarrow> r \<in> set roots \<and> is_within c (fst r) = Inr True \<and> (c = fst r \<longrightarrow> eq)" for acc xs out
    by (rule foldR_invariant [where P = "\<lambda>acc. \<forall>r. acc = Some r \<longrightarrow> r \<in> set roots \<and>
          is_within c (fst r) = Inr True \<and> (c = fst r \<longrightarrow> eq)"])
       (auto simp: bindR_eq_Inr split: option.splits if_splits)
  from this [of None roots "Some r"] show ?thesis
    using assms by (auto simp: find_root_def)
qed

lemma admission_root_Some:
  assumes "admission_root pol c = Inr (Some ceiling)"
  shows "ceiling \<in> set (ap_ceilings pol) \<and> is_within c ceiling = Inr True \<and> (c = ceiling \<longrightarrow> ap_allow_root pol)"
proof -
  have "foldR (\<lambda>found ceiling. case found of Some _ \<Rightarrow> Inr found
        | None \<Rightarrow> bindR (is_within c ceiling) (\<lambda>inside.
            Inr (if inside \<and> \<not> (c = ceiling \<and> \<not> ap_allow_root pol) then Some ceiling else None))) acc xs = Inr out \<Longrightarrow>
      (\<forall>x. acc = Some x \<longrightarrow> x \<in> set (ap_ceilings pol) \<and> is_within c x = Inr True \<and> (c = x \<longrightarrow> ap_allow_root pol)) \<Longrightarrow>
      set xs \<subseteq> set (ap_ceilings pol) \<Longrightarrow>
      \<forall>x. out = Some x \<longrightarrow> x \<in> set (ap_ceilings pol) \<and> is_within c x = Inr True \<and> (c = x \<longrightarrow> ap_allow_root pol)" for acc xs out
    by (rule foldR_invariant [where P = "\<lambda>acc. \<forall>x. acc = Some x \<longrightarrow> x \<in> set (ap_ceilings pol) \<and>
          is_within c x = Inr True \<and> (c = x \<longrightarrow> ap_allow_root pol)"])
       (auto simp: bindR_eq_Inr split: option.splits if_splits)
  from this [of None "ap_ceilings pol" "Some ceiling"] show ?thesis
    using assms by (auto simp: admission_root_def)
qed

text \<open>Everything a successful strict admission has established.\<close>

definition admitted :: "admission_policy \<Rightarrow> fs \<Rightarrow> json \<Rightarrow> string \<Rightarrow> string \<Rightarrow> string \<Rightarrow> protected_root \<Rightarrow>
    string \<Rightarrow> string \<Rightarrow> pydict \<Rightarrow> bool" where
  "admitted pol fs path canon visible name root ceiling relative rec \<longleftrightarrow>
     (let ps = anchored_paths (authority_anchor fs root) relative in
      canonical_key (ap_alias pol) path = Inr canon \<and>
      protected_root_of pol canon (ap_allow_root pol) = Inr (Some (visible, name, root)) \<and>
      admission_root pol canon = Inr (Some ceiling) \<and>
      relpath (fs_cwd fs) canon visible = Inr relative \<and>
      (\<forall>rp\<in>set ps. dir_component fs rp) \<and>
      rec = [(''visible_path'', visible_spelling path), (''canonical_path'', JStr canon),
        (''canonical_key'', JStr canon), (''protected_root'', JStr name), (''relative_path'', JStr relative),
        (''admission_root'', JStr ceiling), (''identity'', identity (projr (lstat fs (snd (last ps))))),
        (''components'', JArr (map (component_record fs) ps))])"

lemma admit_Inr:
  assumes "admit pol fs path True = Inr rec"
  shows "\<exists>canon visible name root ceiling relative.
    admitted pol fs path canon visible name root ceiling relative rec"
proof -
  obtain canon visible name root ceiling relative records missing where
    h: "canonical_key (ap_alias pol) path = Inr canon"
    "protected_root_of pol canon (ap_allow_root pol) = Inr (Some (visible, name, root))"
    "admission_root pol canon = Inr (Some ceiling)" "relpath (fs_cwd fs) canon visible = Inr relative"
    and loop: "record_loop fs True (anchored_paths (authority_anchor fs root) relative) [] = Inr (records, missing)"
    and rec: "rec = [(''visible_path'', visible_spelling path), (''canonical_path'', JStr canon),
        (''canonical_key'', JStr canon), (''protected_root'', JStr name), (''relative_path'', JStr relative),
        (''admission_root'', JStr ceiling),
        (''identity'', if \<not> missing \<and> records \<noteq> []
           then (case last records of JObj d \<Rightarrow> get_default d ''identity'' JNull | _ \<Rightarrow> JNull) else JNull),
        (''components'', JArr records)]"
    using assms
    by (auto simp: admit_def component_records_def bindR_eq_Inr split: option.splits if_splits prod.splits)
  let ?ps = "anchored_paths (authority_anchor fs root) relative"
  have ne: "?ps \<noteq> []" by (simp add: anchored_paths_def)
  note l = record_loop_strict [OF loop]
  have "last (map (component_record fs) ?ps) = component_record fs (last ?ps)" using ne by (rule last_map)
  then have "admitted pol fs path canon visible name root ceiling relative rec"
    using h l rec ne by (simp add: admitted_def Let_def component_record_def get_default_def)
  then show ?thesis by blast
qed

lemma admit_canon:
  assumes "admit pol fs path True = Inr rec" "canonical_key (ap_alias pol) path = Inr canon"
  shows "\<exists>visible name root ceiling relative. admitted pol fs path canon visible name root ceiling relative rec"
proof -
  obtain c visible name root ceiling relative where
    a: "admitted pol fs path c visible name root ceiling relative rec"
    using admit_Inr [OF assms(1)] by blast
  then have "c = canon" using assms(2) by (simp add: admitted_def Let_def)
  with a show ?thesis by blast
qed

lemma admitted_admit:
  assumes "admitted pol fs path canon visible name root ceiling relative rec"
  shows "admit pol fs path True = Inr rec"
proof -
  let ?ps = "anchored_paths (authority_anchor fs root) relative"
  have ne: "?ps \<noteq> []" by (simp add: anchored_paths_def)
  have "last (map (component_record fs) ?ps) = component_record fs (last ?ps)" using ne by (rule last_map)
  moreover have "component_records fs (authority_anchor fs root) relative True =
      Inr (map (component_record fs) ?ps, identity (projr (lstat fs (snd (last ?ps)))))"
    using assms calculation record_loop_dirs [of ?ps fs True "[]"] ne
    by (simp add: admitted_def Let_def component_records_def component_record_def get_default_def)
  moreover have "identity i \<noteq> JNull" for i by (simp add: identity_def)
  ultimately show ?thesis using assms by (simp add: admitted_def Let_def admit_def)
qed

lemma admitted_fields:
  assumes "admitted pol fs path canon visible name root ceiling relative rec"
  shows "get_default rec ''canonical_path'' JNull = JStr canon"
    "get_default rec ''protected_root'' JNull = JStr name"
    "get_default rec ''relative_path'' JNull = JStr relative"
    "get_default rec ''visible_path'' d = visible_spelling path"
    "get_default rec ''components'' JNull = JArr (map (component_record fs) (anchored_paths (authority_anchor fs root) relative))"
    "get_default rec ''identity'' JNull = identity (projr (lstat fs (snd (last (anchored_paths (authority_anchor fs root) relative)))))"
  using assms by (simp_all add: admitted_def Let_def get_default_def)

lemma py_eq_arr: "py_eq (JArr xs) (JArr ys) \<longleftrightarrow> list_all2 py_eq xs ys"
proof (induction xs arbitrary: ys)
  case Nil
  then show ?case by (cases ys) auto
next
  case (Cons x xs)
  then show ?case by (cases ys) auto
qed

definition node_id :: "inode \<Rightarrow> int \<times> int \<times> int \<times> int \<times> int" where
  "node_id i = (in_dev i, in_ino i, st_mode i, in_uid i, in_gid i)"

lemma py_eq_component:
  "py_eq (component_record fs a) (component_record gs b) \<Longrightarrow>
   fst a = fst b \<and> node_id (projr (lstat fs (snd a))) = node_id (projr (lstat gs (snd b)))"
  by (simp add: component_record_def identity_def node_id_def)

lemma component_ok: "json_ok (component_record fs rp)"
  by (simp add: component_record_def identity_def)

lemma py_eq_components: "py_eq (JArr (map (component_record fs) ps)) (JArr (map (component_record fs) ps))"
  by (rule py_eq_refl) (auto simp: component_ok)

section \<open>Properties\<close>

text \<open>A strict admission is sound: the canonical path lies in the protected root and in an operator
  ceiling (properly, unless the roots themselves are allowed), and the anchor directory and
  every component below it on the way to the workspace exist and are directories, none of
  them a symbolic link.\<close>

theorem admit_sound:
  assumes "admit pol fs path True = Inr rec"
  shows "\<exists>canon visible name root ceiling relative.
    canonical_key (ap_alias pol) path = Inr canon \<and> (visible, name, root) \<in> set (ap_roots pol) \<and>
    is_within canon visible = Inr True \<and> (canon = visible \<longrightarrow> ap_allow_root pol) \<and>
    ceiling \<in> set (ap_ceilings pol) \<and> is_within canon ceiling = Inr True \<and> (canon = ceiling \<longrightarrow> ap_allow_root pol) \<and>
    relpath (fs_cwd fs) canon visible = Inr relative \<and>
    (\<forall>(r, p)\<in>set (anchored_paths (authority_anchor fs root) relative).
        \<exists>i. lstat fs p = Inr i \<and> in_content i = Directory)"
proof -
  obtain canon visible name root ceiling relative where
    "admitted pol fs path canon visible name root ceiling relative rec" using admit_Inr [OF assms] by blast
  then have h: "canonical_key (ap_alias pol) path = Inr canon"
    "protected_root_of pol canon (ap_allow_root pol) = Inr (Some (visible, name, root))"
    "admission_root pol canon = Inr (Some ceiling)" "relpath (fs_cwd fs) canon visible = Inr relative"
    "\<forall>rp\<in>set (anchored_paths (authority_anchor fs root) relative). dir_component fs rp"
    by (simp_all add: admitted_def Let_def)
  have "(visible, name, root) \<in> set (ap_roots pol) \<and> is_within canon visible = Inr True \<and>
      (canon = visible \<longrightarrow> ap_allow_root pol)"
    using find_root_Some h(2) unfolding protected_root_of_def by fastforce
  moreover have "\<forall>(r, p)\<in>set (anchored_paths (authority_anchor fs root) relative).
        \<exists>i. lstat fs p = Inr i \<and> in_content i = Directory"
    using h(5) by (auto simp: dir_component_def)
  ultimately show ?thesis using admission_root_Some [OF h(3)] h(1,4) by blast
qed

definition work_fs :: fs where
  "work_fs = sample_fs\<lparr>fs_nodes := fs_nodes sample_fs @ [([''real'', ''storage'', ''w''], sample_node Directory)]\<rparr>"

definition work_policy :: admission_policy where
  "work_policy = \<lparr>ap_alias = [], ap_allow_root = False, ap_roots = [(''/storage/user'', ''storage'', sample_root)],
     ap_ceilings = [''/storage/user'']\<rparr>"

definition work_record :: pydict where
  "work_record = (case admit work_policy work_fs (JStr ''/storage/user/w'') True of Inr r \<Rightarrow> r | Inl _ \<Rightarrow> [])"

lemma work_admitted: "admit work_policy work_fs (JStr ''/storage/user/w'') True = Inr work_record"
proof -
  have "is_ok (admit work_policy work_fs (JStr ''/storage/user/w'') True)" by code_simp
  then show ?thesis by (auto simp: work_record_def is_ok_iff)
qed

lemma work_policy_made:
  "make_admission_policy [(''storage'', sample_root)] [] JNull JNull = Inr work_policy"
  by code_simp

theorem admit_sound_witness:
  "\<exists>root. authority_anchor work_fs root = ''/real/storage'' \<and>
     (\<forall>(r, p)\<in>set (anchored_paths ''/real/storage'' ''w''). \<exists>i. lstat work_fs p = Inr i \<and> in_content i = Directory)"
proof -
  obtain canon visible name root relative where h: "canonical_key (ap_alias work_policy) (JStr ''/storage/user/w'') = Inr canon"
    "(visible, name, root) \<in> set (ap_roots work_policy)" "relpath (fs_cwd work_fs) canon visible = Inr relative"
    "\<forall>(r, p)\<in>set (anchored_paths (authority_anchor work_fs root) relative).
        \<exists>i. lstat work_fs p = Inr i \<and> in_content i = Directory"
    using admit_sound [OF work_admitted] by (elim exE conjE) (rule that; assumption)
  have v: "visible = ''/storage/user'' \<and> root = sample_root" using h(2) by (simp add: work_policy_def)
  have "canonical_key (ap_alias work_policy) (JStr ''/storage/user/w'') = Inr ''/storage/user/w''" by code_simp
  with h(1) have "canon = ''/storage/user/w''" by simp
  moreover have "relpath (fs_cwd work_fs) ''/storage/user/w'' ''/storage/user'' = Inr ''w''"
    "authority_anchor work_fs sample_root = ''/real/storage''" by code_simp+
  ultimately show ?thesis using h(3,4) v by auto
qed

text \<open>C36. Revalidation detects replaced directories: when a record admitted in one state of the file
  system revalidates in a later one, the anchor and every component on the way have the same
  device, inode, mode, owner and group as at admission, and are still plain directories.\<close>

theorem revalidate_same_directories:
  assumes "admit pol fs path True = Inr rec" "revalidate pol gs (JObj rec) = Inr cur"
    and "canonical_key (ap_alias pol) path = Inr canon" "canonical_key (ap_alias pol) (JStr canon) = Inr canon"
  shows "\<exists>root relative.
    list_all2 (\<lambda>a b. fst a = fst b \<and> (\<exists>i j. lstat fs (snd a) = Inr i \<and> lstat gs (snd b) = Inr j \<and>
        node_id i = node_id j \<and> in_content i = Directory \<and> in_content j = Directory))
      (anchored_paths (authority_anchor fs root) relative) (anchored_paths (authority_anchor gs root) relative) \<and>
    get_default rec ''relative_path'' JNull = JStr relative"
proof -
  obtain visible name root ceiling relative where a: "admitted pol fs path canon visible name root ceiling relative rec"
    using admit_canon [OF assms(1,3)] by blast
  note f = admitted_fields [OF a]
  obtain now where now: "admit pol gs (JStr canon) True = Inr now"
    and same: "same_field now rec ''relative_path''" "same_field now rec ''components''"
    using assms(2) f(1) by (auto simp: revalidate_def bindR_eq_Inr split: if_splits)
  obtain visible' name' root' ceiling' relative' where
    b: "admitted pol gs (JStr canon) canon visible' name' root' ceiling' relative' now"
    using admit_canon [OF now assms(4)] by blast
  note g = admitted_fields [OF b]
  have eq: "root' = root" "relative' = relative"
    using a b same(1) f(3) g(3) by (simp_all add: admitted_def same_field_def Let_def)
  let ?ps = "anchored_paths (authority_anchor fs root) relative" and ?qs = "anchored_paths (authority_anchor gs root) relative"
  have "list_all2 (\<lambda>b a. py_eq (component_record gs b) (component_record fs a)) ?qs ?ps"
    using same(2) f(5) g(5) eq by (simp add: same_field_def py_eq_arr list_all2_map1 list_all2_map2)
  then have "list_all2 (\<lambda>a b. py_eq (component_record gs b) (component_record fs a)) ?ps ?qs"
    by (simp add: list_all2_conv_all_nth)
  then have "list_all2 (\<lambda>a b. fst a = fst b \<and> (\<exists>i j. lstat fs (snd a) = Inr i \<and> lstat gs (snd b) = Inr j \<and>
        node_id i = node_id j \<and> in_content i = Directory \<and> in_content j = Directory)) ?ps ?qs"
  proof (rule list.rel_mono_strong)
    fix x y assume "x \<in> set ?ps" "y \<in> set ?qs" and eq: "py_eq (component_record gs y) (component_record fs x)"
    then have "dir_component fs x" "dir_component gs y" using a b \<open>root' = root\<close> \<open>relative' = relative\<close>
      by (simp_all add: admitted_def Let_def)
    then show "fst x = fst y \<and> (\<exists>i j. lstat fs (snd x) = Inr i \<and> lstat gs (snd y) = Inr j \<and>
        node_id i = node_id j \<and> in_content i = Directory \<and> in_content j = Directory)"
      using py_eq_component [OF eq] by (auto simp: dir_component_def)
  qed
  then show ?thesis using f(3) by blast
qed

theorem revalidate_same_directories_witness:
  "\<exists>i. lstat work_fs ''/real/storage/w'' = Inr i \<and> node_id i = (1, 7, 16804, 1000, 1000) \<and>
     (\<exists>root relative. list_all2 (\<lambda>a b. fst a = fst b)
        (anchored_paths (authority_anchor work_fs root) relative) (anchored_paths (authority_anchor work_fs root) relative) \<and>
        get_default work_record ''relative_path'' JNull = JStr relative)"
proof -
  have c: "canonical_key (ap_alias work_policy) (JStr ''/storage/user/w'') = Inr ''/storage/user/w''" by code_simp
  have "is_ok (revalidate work_policy work_fs (JObj work_record))" by code_simp
  then obtain cur where cur: "revalidate work_policy work_fs (JObj work_record) = Inr cur" by (auto simp: is_ok_iff)
  have i: "lstat work_fs ''/real/storage/w'' = Inr (sample_node Directory)" by code_simp
  have n: "node_id (sample_node Directory) = (1, 7, 16804, 1000, 1000)" by code_simp
  obtain root relative where r: "list_all2 (\<lambda>a b. fst a = fst b \<and> (\<exists>i j. lstat work_fs (snd a) = Inr i \<and>
        lstat work_fs (snd b) = Inr j \<and> node_id i = node_id j \<and> in_content i = Directory \<and> in_content j = Directory))
      (anchored_paths (authority_anchor work_fs root) relative) (anchored_paths (authority_anchor work_fs root) relative)"
    "get_default work_record ''relative_path'' JNull = JStr relative"
    using revalidate_same_directories [OF work_admitted cur c c] by blast
  have "list_all2 (\<lambda>a b. fst a = fst b)
        (anchored_paths (authority_anchor work_fs root) relative) (anchored_paths (authority_anchor work_fs root) relative)"
    by (rule list_all2_mono [OF r(1)]) simp
  with r(2) i n show ?thesis by blast
qed

text \<open>An unchanged workspace stays admitted: revalidating an admitted record in the same file
  system returns the record itself, with the spelling the client used.\<close>

theorem revalidate_unchanged:
  assumes "admit pol fs path True = Inr rec"
    and "canonical_key (ap_alias pol) path = Inr canon" "canonical_key (ap_alias pol) (JStr canon) = Inr canon"
  shows "revalidate pol fs (JObj rec) = Inr rec"
proof -
  obtain visible name root ceiling relative where a: "admitted pol fs path canon visible name root ceiling relative rec"
    using admit_canon [OF assms(1,2)] by blast
  note f = admitted_fields [OF a]
  define now where "now = dict_set rec ''visible_path'' (visible_spelling (JStr canon))"
  have b: "admitted pol fs (JStr canon) canon visible name root ceiling relative now"
    using a assms(3) by (simp add: admitted_def Let_def now_def)
  note g = admitted_fields [OF b]
  have same: "same_field now rec ''protected_root''" "same_field now rec ''relative_path''"
    "same_field now rec ''identity''" "same_field now rec ''components''"
    unfolding same_field_def f g by (rule py_eq_refl, simp add: identity_def component_ok)+
  have "dict_set now ''visible_path'' (get_default rec ''visible_path'' (JStr canon)) = rec"
    using a unfolding f(4) by (simp add: admitted_def Let_def now_def)
  then show ?thesis
    using admitted_admit [OF b] same f(1) by (simp add: revalidate_def)
qed

theorem revalidate_unchanged_witness:
  "revalidate work_policy work_fs (JObj work_record) = Inr work_record"
proof -
  have "canonical_key (ap_alias work_policy) (JStr ''/storage/user/w'') = Inr ''/storage/user/w''" by code_simp
  from revalidate_unchanged [OF work_admitted this this] show ?thesis .
qed

end
