(* ===== verification/DeltaRouting.thy ===== *)
theory DeltaRouting
  imports Session Effects
begin

text \<open>
  The module \<open>delta_routing.py\<close>: the durable record of a route that sends the work of one
  logical vendor session into nested branches, its validation, its state machine and its
  JSON form.  SHA-256 is an argument (\<open>sha\<close>, the hexadecimal digest of a string); the random
  route identifier and the clock are arguments.  Values read from JSON at a wrong type raise
  \<open>TypeError\<close>.  \<open>RouteStateError\<close> is a \<open>ValueError\<close>.
\<close>

section \<open>Validation\<close>

definition SCHEMA_VERSION :: int where "SCHEMA_VERSION = 2"

definition ROUTE_STATES :: "string list" where
  "ROUTE_STATES = [''provisioning'', ''active'', ''quiescing'', ''frozen'', ''merged'', ''pending-review'',
     ''aborted'', ''failed'']"

definition ROUTE_TRANSITIONS :: "(string \<times> string list) list" where
  "ROUTE_TRANSITIONS =
     [(''provisioning'', [''active'', ''pending-review'', ''aborted'', ''failed'']),
      (''active'', [''quiescing'', ''pending-review'', ''failed'']),
      (''quiescing'', [''active'', ''frozen'', ''pending-review'', ''failed'']),
      (''frozen'', [''active'', ''merged'', ''pending-review'', ''aborted'', ''failed'']),
      (''pending-review'', [''active'', ''merged'', ''aborted'', ''failed'']),
      (''merged'', []), (''aborted'', []), (''failed'', [])]"

definition required_string :: "json \<Rightarrow> string \<Rightarrow> string result" where
  "required_string v label =
     (case v of
        JStr s \<Rightarrow> if s = [] \<or> CHR 0x00 \<in> set s
                  then Inl (ValueError (label @ '' must be a non-empty string without NUL'')) else Inr s
      | _ \<Rightarrow> Inl (ValueError (label @ '' must be a non-empty string without NUL'')))"

definition is_hex :: "char \<Rightarrow> bool" where
  "is_hex c \<longleftrightarrow> c \<in> set ''0123456789abcdef''"

text \<open>The patterns end in \<open>$\<close>, which also matches before a final newline.\<close>

definition matches_hex :: "string \<Rightarrow> nat \<Rightarrow> string \<Rightarrow> bool" where
  "matches_hex label n s \<longleftrightarrow>
     (let s = (if s \<noteq> [] \<and> last s = CHR 0x0A then butlast s else s)
      in startswith s label \<and> length s = length label + n \<and> list_all is_hex (drop (length label) s))"

definition validate_route_id :: "json \<Rightarrow> string result" where
  "validate_route_id v =
     bindR (required_string v ''route_id'') (\<lambda>s.
       if matches_hex ''route-'' 32 s then Inr s
       else Inl (ValueError ''route_id must be an opaque route-<32 lowercase hex> id''))"

definition digest_logical_session :: "(string \<Rightarrow> string) \<Rightarrow> json \<Rightarrow> string result" where
  "digest_logical_session sha v =
     bindR (required_string v ''vendor_session_id'') (\<lambda>raw. Inr (''sha256:'' @ sha raw))"

definition validate_session_digest :: "json \<Rightarrow> string result" where
  "validate_session_digest v =
     bindR (required_string v ''logical_session_digest'') (\<lambda>s.
       if matches_hex ''sha256:'' 64 s then Inr s
       else Inl (ValueError ''logical_session_digest must be sha256:<64 lowercase hex>''))"

text \<open>\<open>json.loads(json.dumps(v, sort_keys=True))\<close>.\<close>

function (sequential) json_sort :: "json \<Rightarrow> json" where
  "json_sort (JObj d) = JObj (sort_key fst (map (\<lambda>kv. (fst kv, json_sort (snd kv))) d))"
| "json_sort (JArr xs) = JArr (map json_sort xs)"
| "json_sort v = v"
  by pat_completeness auto
termination json_sort
  by (relation "measure size") (auto dest: json_size_mem size_list_estimation' [of _ _ _ size] simp: less_Suc_eq_le)

definition copy_json_mapping :: "json \<Rightarrow> string \<Rightarrow> pydict result" where
  "copy_json_mapping v field =
     (case v of
        JNull \<Rightarrow> Inr []
      | JObj d \<Rightarrow> (case json_sort (JObj d) of JObj e \<Rightarrow> Inr e | _ \<Rightarrow> Inr [])
      | _ \<Rightarrow> Inl (ValueError (field @ '' must be a mapping'')))"

text \<open>\<open>list(records or ())\<close> and a round trip through JSON that keeps the order.\<close>

definition copy_json_records :: "json \<Rightarrow> json list result" where
  "copy_json_records v =
     (if \<not> truthy v then Inr []
      else case v of JArr xs \<Rightarrow> Inr xs | JObj d \<Rightarrow> Inr (map (\<lambda>kv. JStr (fst kv)) d) | _ \<Rightarrow> as_list v)"

record coverage =
  cv_routed :: int
  cv_bypassed :: int
  cv_warning :: "string option"
  cv_capability :: string

definition coverage_record :: "json \<Rightarrow> coverage result" where
  "coverage_record v =
     bindR (if truthy v then as_obj v else Inr []) (\<lambda>d.
     bindR (as_int (get_default d ''routed_bwrap_calls'' (JInt 0))) (\<lambda>routed.
     bindR (as_int (get_default d ''bypassed_or_unattributed_calls'' (JInt 0))) (\<lambda>bypassed.
     bindR (as_str (get_default d ''capability'' (JStr ''unknown''))) (\<lambda>capability.
       if routed < 0 \<or> bypassed < 0 then Inl (ValueError ''route coverage counters cannot be negative'')
       else (case get_default d ''last_warning'' JNull of
               JNull \<Rightarrow> Inr \<lparr>cv_routed = routed, cv_bypassed = bypassed, cv_warning = None, cv_capability = capability\<rparr>
             | JStr w \<Rightarrow> Inr \<lparr>cv_routed = routed, cv_bypassed = bypassed, cv_warning = Some w, cv_capability = capability\<rparr>
             | _ \<Rightarrow> Inl (ValueError ''route coverage last_warning must be a string or null''))))))"

definition coverage_to_dict :: "coverage \<Rightarrow> pydict" where
  "coverage_to_dict c =
     [(''routed_bwrap_calls'', JInt (cv_routed c)), (''bypassed_or_unattributed_calls'', JInt (cv_bypassed c)),
      (''last_warning'', jopt JStr (cv_warning c)), (''capability'', JStr (cv_capability c))]"

section \<open>Nested roots\<close>

record nested_root =
  nr_name :: string
  nr_base :: string
  nr_store :: string
  nr_parent_branch :: string
  nr_branch :: string
  nr_mount :: string
  nr_visible :: string
  nr_home_subdir :: "string option"
  nr_hide_paths :: "string list"

text \<open>A nested root is passed wherever the backend takes a root.\<close>

definition nested_as_root :: "nested_root \<Rightarrow> protected_root" where
  "nested_as_root r = \<lparr>pr_name = nr_name r, pr_base = nr_base r, pr_store = nr_store r, pr_branch = nr_branch r,
     pr_mount = nr_mount r, pr_visible = nr_visible r, pr_home_subdir = nr_home_subdir r, pr_hide_paths = nr_hide_paths r\<rparr>"

definition make_nested_root :: "json \<Rightarrow> json \<Rightarrow> json \<Rightarrow> json \<Rightarrow> json \<Rightarrow> json \<Rightarrow> json \<Rightarrow> string option \<Rightarrow> string list \<Rightarrow>
    nested_root result" where
  "make_nested_root name base store parent_branch branch mount visible home_subdir hide_paths =
     bindR (required_string name ''nested root name'') (\<lambda>name.
     bindR (required_string base ''nested root base'') (\<lambda>base.
     bindR (required_string store ''nested root store'') (\<lambda>store.
     bindR (required_string parent_branch ''parent branch'') (\<lambda>parent_branch.
     bindR (validate_route_id branch) (\<lambda>branch.
       if branch = parent_branch then Inl (ValueError ''nested branch must differ from its parent'')
       else
         bindR (required_string mount ''nested root mount'') (\<lambda>mount.
         bindR (required_string visible ''nested root visible path'') (\<lambda>visible.
           Inr \<lparr>nr_name = name, nr_base = base, nr_store = store, nr_parent_branch = parent_branch,
                nr_branch = branch, nr_mount = mount, nr_visible = visible, nr_home_subdir = home_subdir,
                nr_hide_paths = hide_paths\<rparr>)))))))"

definition nested_from_parent :: "protected_root \<Rightarrow> string \<Rightarrow> string \<Rightarrow> nested_root result" where
  "nested_from_parent parent route_id mount_dir =
     bindR (validate_route_id (JStr route_id)) (\<lambda>route_id.
       make_nested_root (JStr (pr_name parent)) (JStr (pr_base parent)) (JStr (pr_store parent))
         (JStr (pr_branch parent)) (JStr route_id) (JStr (path_join mount_dir (pr_name parent)))
         (JStr (pr_visible parent)) (pr_home_subdir parent) (pr_hide_paths parent))"

definition nested_to_dict :: "nested_root \<Rightarrow> pydict" where
  "nested_to_dict r =
     [(''name'', JStr (nr_name r)), (''base'', JStr (nr_base r)), (''store'', JStr (nr_store r)),
      (''parent_branch'', JStr (nr_parent_branch r)), (''branch'', JStr (nr_branch r)),
      (''mount'', JStr (nr_mount r)), (''visible'', JStr (nr_visible r)), (''hide_paths'', jstrs (nr_hide_paths r))]
     @ (case nr_home_subdir r of None \<Rightarrow> [] | Some h \<Rightarrow> [(''home_subdir'', JStr h)])"

definition missing_is_value :: "string \<Rightarrow> 'a result \<Rightarrow> 'a result" where
  "missing_is_value what r = (case r of Inl (KeyError k) \<Rightarrow> Inl (ValueError (what @ '' is missing '' @ k)) | _ \<Rightarrow> r)"

definition nested_from_dict :: "json \<Rightarrow> nested_root result" where
  "nested_from_dict v =
     (case v of
        JObj d \<Rightarrow> missing_is_value ''nested root record''
          (bindR (get_item d ''name'') (\<lambda>name. bindR (get_item d ''base'') (\<lambda>base.
           bindR (get_item d ''store'') (\<lambda>store. bindR (get_item d ''parent_branch'') (\<lambda>parent_branch.
           bindR (get_item d ''branch'') (\<lambda>branch. bindR (get_item d ''mount'') (\<lambda>mount.
           bindR (get_item d ''visible'') (\<lambda>visible.
           bindR (opt_str (get_default d ''home_subdir'' JNull)) (\<lambda>home_subdir.
           bindR (let h = get_default d ''hide_paths'' (JArr []) in if truthy h then as_strs h else Inr []) (\<lambda>hide_paths.
             make_nested_root name base store parent_branch branch mount visible home_subdir hide_paths))))))))))
      | _ \<Rightarrow> Inl (ValueError ''nested root record must be an object''))"

section \<open>Delta routes\<close>

record delta_route =
  dr_route_id :: string
  dr_provider :: string
  dr_digest :: string
  dr_parent_session :: string
  dr_roots :: "(string, nested_root) dict"
  dr_state :: string
  dr_created_at :: string
  dr_updated_at :: string
  dr_events :: "json list"
  dr_coverage :: coverage
  dr_workspace_key :: "string option"
  dr_workspace_generation :: "int option"
  dr_admitted_roots :: "json list"
  dr_outer_baseline :: pydict

text \<open>The keyword arguments of the constructor.\<close>

record route_args =
  ra_route_id :: json
  ra_provider :: json
  ra_parent_session :: json
  ra_roots :: "(string, nested_root) dict"
  ra_vendor_session :: json
  ra_digest :: json
  ra_state :: json
  ra_created_at :: json
  ra_updated_at :: json
  ra_events :: json
  ra_coverage :: json
  ra_workspace_key :: json
  ra_workspace_generation :: json
  ra_admitted_roots :: json
  ra_outer_baseline :: json

definition check_roots :: "string \<Rightarrow> (string, nested_root) dict \<Rightarrow> (string, nested_root) dict result" where
  "check_roots route_id roots =
     foldR (\<lambda>acc (name, root).
        if name \<noteq> nr_name root then Inl (ValueError (''nested root key '' @ name @ '' does not match''))
        else if nr_branch root \<noteq> route_id
        then Inl (ValueError (''nested root '' @ name @ '' does not use route branch''))
        else Inr (dict_set acc (nr_name root) root)) [] roots"

definition str_or :: "json \<Rightarrow> string \<Rightarrow> string result" where
  "str_or v dflt = (if truthy v then as_str v else Inr dflt)"

definition check_generation :: "json \<Rightarrow> int option result" where
  "check_generation v =
     (case v of
        JNull \<Rightarrow> Inr None
      | JBool _ \<Rightarrow> Inl (ValueError ''workspace_generation must be an integer'')
      | _ \<Rightarrow> bindR (as_int v) (\<lambda>n.
          if n < 0 then Inl (ValueError ''workspace_generation cannot be negative'') else Inr (Some n)))"

definition make_route :: "(string \<Rightarrow> string) \<Rightarrow> string \<Rightarrow> route_args \<Rightarrow> delta_route result" where
  "make_route sha now a =
     bindR (validate_route_id (ra_route_id a)) (\<lambda>route_id.
     bindR (required_string (ra_provider a) ''provider'') (\<lambda>provider.
     bindR (if ra_digest a = JNull then bindR (digest_logical_session sha (ra_vendor_session a)) (\<lambda>d. Inr (JStr d))
            else Inr (ra_digest a)) (\<lambda>digest.
     bindR (validate_session_digest digest) (\<lambda>digest.
     bindR (required_string (ra_parent_session a) ''parent_session_id'') (\<lambda>parent.
     bindR (case ra_state a of JStr s \<Rightarrow> if s \<in> set ROUTE_STATES then Inr s else Inl (ValueError (''unknown route state '' @ s))
              | _ \<Rightarrow> Inl (ValueError ''unknown route state'')) (\<lambda>state.
     bindR (check_roots route_id (ra_roots a)) (\<lambda>roots.
     bindR (str_or (ra_created_at a) now) (\<lambda>created.
     bindR (str_or (ra_updated_at a) created) (\<lambda>updated.
     bindR (copy_json_records (ra_events a)) (\<lambda>events.
     bindR (coverage_record (ra_coverage a)) (\<lambda>coverage.
     bindR (case ra_workspace_key a of JNull \<Rightarrow> Inr None
              | v \<Rightarrow> bindR (required_string v ''workspace_session_key'') (\<lambda>k. Inr (Some k))) (\<lambda>key.
     bindR (check_generation (ra_workspace_generation a)) (\<lambda>generation.
     bindR (copy_json_records (ra_admitted_roots a)) (\<lambda>admitted.
     bindR (copy_json_mapping (ra_outer_baseline a) ''outer route baseline'') (\<lambda>baseline.
       Inr \<lparr>dr_route_id = route_id, dr_provider = provider, dr_digest = digest, dr_parent_session = parent,
            dr_roots = roots, dr_state = state, dr_created_at = created, dr_updated_at = updated,
            dr_events = events, dr_coverage = coverage, dr_workspace_key = key,
            dr_workspace_generation = generation, dr_admitted_roots = admitted,
            dr_outer_baseline = baseline\<rparr>)))))))))))))))"

definition create_route :: "(string \<Rightarrow> string) \<Rightarrow> string \<Rightarrow> string \<Rightarrow> json \<Rightarrow> json \<Rightarrow> json \<Rightarrow>
    (string, protected_root) dict \<Rightarrow> string \<Rightarrow> json \<Rightarrow> json \<Rightarrow> json \<Rightarrow> json \<Rightarrow> delta_route result" where
  "create_route sha now fresh_id provider vendor_session parent_session parent_roots mount_dir
       workspace_key workspace_generation admitted_roots outer_baseline =
     bindR (validate_route_id (JStr fresh_id)) (\<lambda>route_id.
     bindR (mapR (\<lambda>(name, root). bindR (nested_from_parent root route_id (path_join mount_dir route_id))
              (\<lambda>r. Inr (name, r))) parent_roots) (\<lambda>roots.
       make_route sha now \<lparr>ra_route_id = JStr route_id, ra_provider = provider, ra_parent_session = parent_session,
         ra_roots = roots, ra_vendor_session = vendor_session, ra_digest = JNull, ra_state = JStr ''provisioning'',
         ra_created_at = JNull, ra_updated_at = JNull, ra_events = JNull, ra_coverage = JNull,
         ra_workspace_key = workspace_key, ra_workspace_generation = workspace_generation,
         ra_admitted_roots = admitted_roots, ra_outer_baseline = outer_baseline\<rparr>))"

definition route_transition :: "string \<Rightarrow> string \<Rightarrow> json option \<Rightarrow> delta_route \<Rightarrow> delta_route result" where
  "route_transition timestamp new_state detail r =
     (if new_state \<notin> set ROUTE_STATES then Inl (ValueError (''unknown route state '' @ new_state))
      else bindR (get_item ROUTE_TRANSITIONS (dr_state r)) (\<lambda>allowed.
        if new_state \<notin> set allowed
        then Inl (ValueError (''illegal route transition '' @ dr_state r @ '' -> '' @ new_state))
        else Inr (r\<lparr>dr_state := new_state, dr_updated_at := timestamp,
               dr_events := dr_events r @ [JObj ([(''time'', JStr timestamp), (''from'', JStr (dr_state r)),
                  (''to'', JStr new_state)] @ (case detail of None \<Rightarrow> [] | Some d \<Rightarrow> [(''detail'', d)]))]\<rparr>)))"

text \<open>These two change the record step by step; an exception keeps the steps made before it.\<close>

definition mod_coverage :: "(coverage \<Rightarrow> coverage) \<Rightarrow> (delta_route, unit) eff" where
  "mod_coverage f = modE (\<lambda>r. r\<lparr>dr_coverage := f (dr_coverage r)\<rparr>)"

definition record_coverage :: "string \<Rightarrow> string \<Rightarrow> json \<Rightarrow> json \<Rightarrow> (delta_route, unit) eff" where
  "record_coverage now outcome warning capability =
     seqE (if outcome = ''routed'' then mod_coverage (\<lambda>c. c\<lparr>cv_routed := cv_routed c + 1\<rparr>)
           else if outcome = ''bypassed'' \<or> outcome = ''unattributed''
           then mod_coverage (\<lambda>c. c\<lparr>cv_bypassed := cv_bypassed c + 1\<rparr>)
           else if outcome \<noteq> ''warning'' then raiseE (ValueError (''unknown routing coverage outcome '' @ outcome))
           else retE ())
    (seqE (whenE (warning \<noteq> JNull) (bindE (liftE (required_string warning ''routing warning''))
             (\<lambda>w. mod_coverage (\<lambda>c. c\<lparr>cv_warning := Some w\<rparr>))))
    (seqE (whenE (capability \<noteq> JNull) (bindE (liftE (required_string capability ''routing capability''))
             (\<lambda>k. mod_coverage (\<lambda>c. c\<lparr>cv_capability := k\<rparr>))))
          (modE (\<lambda>r. r\<lparr>dr_updated_at := now\<rparr>))))"

definition set_capability :: "string \<Rightarrow> json \<Rightarrow> json \<Rightarrow> (delta_route, unit) eff" where
  "set_capability now capability warning =
     bindE (liftE (required_string capability ''routing capability'')) (\<lambda>k.
     seqE (mod_coverage (\<lambda>c. c\<lparr>cv_capability := k\<rparr>))
    (seqE (whenE (warning \<noteq> JNull) (bindE (liftE (required_string warning ''routing warning''))
             (\<lambda>w. mod_coverage (\<lambda>c. c\<lparr>cv_warning := Some w\<rparr>))))
          (modE (\<lambda>r. r\<lparr>dr_updated_at := now\<rparr>))))"

definition route_to_dict :: "delta_route \<Rightarrow> pydict" where
  "route_to_dict r =
     [(''schema_version'', JInt SCHEMA_VERSION), (''route_id'', JStr (dr_route_id r)),
      (''provider'', JStr (dr_provider r)), (''logical_session_digest'', JStr (dr_digest r)),
      (''parent_session_id'', JStr (dr_parent_session r)), (''state'', JStr (dr_state r)),
      (''created_at'', JStr (dr_created_at r)), (''updated_at'', JStr (dr_updated_at r)),
      (''roots'', JObj (map (\<lambda>(name, root). (name, JObj (nested_to_dict root))) (sorted_items (dr_roots r)))),
      (''events'', JArr (dr_events r)), (''coverage'', JObj (coverage_to_dict (dr_coverage r))),
      (''workspace_session_key'', jopt JStr (dr_workspace_key r)),
      (''workspace_generation'', jopt JInt (dr_workspace_generation r)),
      (''admitted_roots'', JArr (dr_admitted_roots r)), (''outer_baseline'', JObj (dr_outer_baseline r))]"

definition route_from_dict :: "(string \<Rightarrow> string) \<Rightarrow> string \<Rightarrow> json \<Rightarrow> delta_route result" where
  "route_from_dict sha now v =
     (case v of
        JObj d \<Rightarrow>
          if \<not> py_eq (get_default d ''schema_version'' JNull) (JInt SCHEMA_VERSION)
          then Inl (ValueError ''unsupported delta route schema version'')
          else (case get_default d ''roots'' JNull of
             JObj roots_data \<Rightarrow> missing_is_value ''delta route record''
               (bindR (get_item d ''route_id'') (\<lambda>route_id. bindR (get_item d ''provider'') (\<lambda>provider.
                bindR (get_item d ''logical_session_digest'') (\<lambda>digest.
                bindR (get_item d ''parent_session_id'') (\<lambda>parent.
                bindR (mapR (\<lambda>(name, root). bindR (nested_from_dict root) (\<lambda>r. Inr (name, r))) roots_data) (\<lambda>roots.
                bindR (get_item d ''state'') (\<lambda>state. bindR (get_item d ''created_at'') (\<lambda>created.
                bindR (get_item d ''updated_at'') (\<lambda>updated.
                  make_route sha now \<lparr>ra_route_id = route_id, ra_provider = provider, ra_parent_session = parent,
                    ra_roots = roots, ra_vendor_session = JNull, ra_digest = digest, ra_state = state,
                    ra_created_at = created, ra_updated_at = updated, ra_events = get_default d ''events'' (JArr []),
                    ra_coverage = get_default d ''coverage'' JNull,
                    ra_workspace_key = get_default d ''workspace_session_key'' JNull,
                    ra_workspace_generation = get_default d ''workspace_generation'' JNull,
                    ra_admitted_roots = get_default d ''admitted_roots'' JNull,
                    ra_outer_baseline = get_default d ''outer_baseline'' JNull\<rparr>)))))))))
           | _ \<Rightarrow> Inl (ValueError ''delta route roots must be an object''))
      | _ \<Rightarrow> Inl (ValueError ''delta route record must be an object''))"

section \<open>Well-formed routes\<close>

definition good_string :: "string \<Rightarrow> bool" where
  "good_string s \<longleftrightarrow> s \<noteq> [] \<and> CHR 0x00 \<notin> set s"

lemma required_string_Inr: "required_string v label = Inr s \<longleftrightarrow> v = JStr s \<and> good_string s"
  by (auto simp: required_string_def good_string_def split: json.splits)

lemma required_string_JStr: "good_string s \<Longrightarrow> required_string (JStr s) label = Inr s"
  by (simp add: required_string_Inr)

lemma validate_route_id_Inr:
  "validate_route_id v = Inr s \<longleftrightarrow> v = JStr s \<and> good_string s \<and> matches_hex ''route-'' 32 s"
  by (auto simp: validate_route_id_def bindR_eq_Inr required_string_Inr)

lemma validate_digest_Inr:
  "validate_session_digest v = Inr s \<longleftrightarrow> v = JStr s \<and> good_string s \<and> matches_hex ''sha256:'' 64 s"
  by (auto simp: validate_session_digest_def bindR_eq_Inr required_string_Inr)

definition nested_ok :: "nested_root \<Rightarrow> bool" where
  "nested_ok r \<longleftrightarrow> good_string (nr_name r) \<and> good_string (nr_base r) \<and> good_string (nr_store r) \<and>
     good_string (nr_parent_branch r) \<and> good_string (nr_branch r) \<and> matches_hex ''route-'' 32 (nr_branch r) \<and>
     nr_branch r \<noteq> nr_parent_branch r \<and> good_string (nr_mount r) \<and> good_string (nr_visible r)"

lemma make_nested_root_ok: "make_nested_root n b s p br m v h hp = Inr r \<Longrightarrow> nested_ok r"
  by (auto simp: make_nested_root_def bindR_eq_Inr required_string_Inr validate_route_id_Inr nested_ok_def split: if_splits)

lemma nested_roundtrip: "nested_ok r \<Longrightarrow> nested_from_dict (JObj (nested_to_dict r)) = Inr r"
  by (cases "nr_home_subdir r")
     (simp_all add: nested_from_dict_def nested_to_dict_def get_item_def get_default_def make_nested_root_def
       required_string_JStr nested_ok_def validate_route_id_def missing_is_value_def jstrs_def as_strs_def)

definition coverage_ok :: "coverage \<Rightarrow> bool" where
  "coverage_ok c \<longleftrightarrow> 0 \<le> cv_routed c \<and> 0 \<le> cv_bypassed c"

definition route_ok :: "delta_route \<Rightarrow> bool" where
  "route_ok r \<longleftrightarrow> good_string (dr_route_id r) \<and> matches_hex ''route-'' 32 (dr_route_id r) \<and>
     good_string (dr_provider r) \<and> good_string (dr_digest r) \<and> matches_hex ''sha256:'' 64 (dr_digest r) \<and>
     good_string (dr_parent_session r) \<and> dr_state r \<in> set ROUTE_STATES \<and>
     distinct (map fst (dr_roots r)) \<and>
     (\<forall>(name, root)\<in>set (dr_roots r). name = nr_name root \<and> nr_branch root = dr_route_id r \<and> nested_ok root) \<and>
     dr_created_at r \<noteq> [] \<and> dr_updated_at r \<noteq> [] \<and> coverage_ok (dr_coverage r) \<and>
     (\<forall>k. dr_workspace_key r = Some k \<longrightarrow> good_string k) \<and>
     (\<forall>n. dr_workspace_generation r = Some n \<longrightarrow> 0 \<le> n) \<and>
     json_sort (JObj (dr_outer_baseline r)) = JObj (dr_outer_baseline r)"

text \<open>Canonical JSON stays as it is.\<close>

lemma json_sort_idem: "json_sort (json_sort v) = json_sort v"
proof (induction v rule: json_sort.induct)
  case (1 d)
  let ?f = "\<lambda>kv. (fst kv, json_sort (snd kv))"
  let ?ys = "sort_key fst (map ?f d)"
  have "map ?f ?ys = ?ys"
    using 1 by (auto intro!: map_idI)
  then show ?case by (simp add: sort_key_id_if_sorted)
qed (auto simp: map_idI)

lemma foldR_check_roots:
  "foldR (\<lambda>acc (name, root).
        if name \<noteq> nr_name root then Inl (ValueError (''nested root key '' @ name @ '' does not match''))
        else if nr_branch root \<noteq> rid
        then Inl (ValueError (''nested root '' @ name @ '' does not use route branch''))
        else Inr (dict_set acc (nr_name root) root)) acc roots = Inr out \<Longrightarrow>
   (\<forall>(name, root)\<in>set roots. name = nr_name root \<and> nr_branch root = rid) \<and>
   (distinct (map fst (acc @ roots)) \<longrightarrow> out = acc @ roots) \<and>
   (distinct (map fst acc) \<longrightarrow> distinct (map fst out)) \<and> set out \<subseteq> set acc \<union> set roots"
proof (induction roots arbitrary: acc)
  case (Cons x roots)
  obtain name root where x: "x = (name, root)" by (cases x)
  have h: "name = nr_name root" "nr_branch root = rid" and
    rest: "foldR (\<lambda>acc (name, root).
        if name \<noteq> nr_name root then Inl (ValueError (''nested root key '' @ name @ '' does not match''))
        else if nr_branch root \<noteq> rid
        then Inl (ValueError (''nested root '' @ name @ '' does not use route branch''))
        else Inr (dict_set acc (nr_name root) root)) (dict_set acc name root) roots = Inr out"
    using Cons.prems by (auto simp: x split: if_splits)
  have new: "dict_set acc name root = acc @ [(name, root)]" if "name \<notin> set (map fst acc)"
    using that by (induction acc) auto
  have sub: "set (dict_set acc name root) \<subseteq> insert (name, root) (set acc)"
    by (induction acc) auto
  show ?case
    using Cons.IH [OF rest] h new sub by (auto simp: x distinct_update)
qed simp

lemma check_roots_ok:
  assumes "check_roots rid roots = Inr out" "\<forall>(n, r)\<in>set roots. nested_ok r"
  shows "distinct (map fst out) \<and> (\<forall>(name, root)\<in>set out. name = nr_name root \<and> nr_branch root = rid \<and> nested_ok root)"
  using foldR_check_roots [of rid "[]" roots out] assms unfolding check_roots_def by fastforce

lemma check_roots_id:
  assumes "\<forall>(name, root)\<in>set roots. name = nr_name root \<and> nr_branch root = rid" "distinct (map fst roots)"
  shows "check_roots rid roots = Inr roots"
proof -
  have "\<exists>out. foldR (\<lambda>acc (name, root).
        if name \<noteq> nr_name root then Inl (ValueError (''nested root key '' @ name @ '' does not match''))
        else if nr_branch root \<noteq> rid
        then Inl (ValueError (''nested root '' @ name @ '' does not use route branch''))
        else Inr (dict_set acc (nr_name root) root)) acc roots = Inr out" for acc
    using assms(1) by (induction roots arbitrary: acc) auto
  then show ?thesis
    using foldR_check_roots [of rid "[]" roots] assms(2) unfolding check_roots_def by fastforce
qed

lemma coverage_record_ok: "coverage_record v = Inr c \<Longrightarrow> coverage_ok c"
  by (auto simp: coverage_record_def coverage_ok_def bindR_eq_Inr split: if_splits json.splits)

lemma coverage_roundtrip: "coverage_ok c \<Longrightarrow> coverage_record (JObj (coverage_to_dict c)) = Inr c"
  by (cases "cv_warning c")
     (simp_all add: coverage_record_def coverage_to_dict_def coverage_ok_def get_default_def jopt_def not_less)

lemma copy_mapping_ok: "copy_json_mapping v f = Inr d \<Longrightarrow> json_sort (JObj d) = JObj d"
proof -
  assume c: "copy_json_mapping v f = Inr d"
  show ?thesis
  proof (cases v)
    case (JObj e)
    have "json_sort (JObj e) = JObj d" using c JObj by (simp add: copy_json_mapping_def)
    then show ?thesis using json_sort_idem [of "JObj e"] by metis
  qed (use c in \<open>auto simp: copy_json_mapping_def\<close>)
qed

lemma copy_mapping_id: "json_sort (JObj d) = JObj d \<Longrightarrow> copy_json_mapping (JObj d) f = Inr d"
  by (simp only: copy_json_mapping_def json.case)

lemma check_generation_ok: "check_generation v = Inr g \<Longrightarrow> g = Some n \<Longrightarrow> 0 \<le> n"
  by (auto simp: check_generation_def bindR_eq_Inr split: json.splits if_splits)

lemma make_route_ok:
  assumes "make_route sha now a = Inr r" "now \<noteq> []" "\<forall>(n, x)\<in>set (ra_roots a). nested_ok x"
  shows "route_ok r"
proof -
  obtain rid provider digest parent state roots created updated events coverage key generation admitted baseline
    where h: "validate_route_id (ra_route_id a) = Inr rid" "required_string (ra_provider a) ''provider'' = Inr provider"
      "validate_session_digest (JStr digest) = Inr digest"
      "required_string (ra_parent_session a) ''parent_session_id'' = Inr parent"
      "state \<in> set ROUTE_STATES" "check_roots rid (ra_roots a) = Inr roots"
      "str_or (ra_created_at a) now = Inr created" "str_or (ra_updated_at a) created = Inr updated"
      "coverage_record (ra_coverage a) = Inr coverage"
      "\<forall>k. key = Some k \<longrightarrow> good_string k" "check_generation (ra_workspace_generation a) = Inr generation"
      "copy_json_mapping (ra_outer_baseline a) ''outer route baseline'' = Inr baseline"
    and r: "r = \<lparr>dr_route_id = rid, dr_provider = provider, dr_digest = digest, dr_parent_session = parent,
            dr_roots = roots, dr_state = state, dr_created_at = created, dr_updated_at = updated,
            dr_events = events, dr_coverage = coverage, dr_workspace_key = key,
            dr_workspace_generation = generation, dr_admitted_roots = admitted, dr_outer_baseline = baseline\<rparr>"
    using assms(1)
    by (auto simp: make_route_def bindR_eq_Inr required_string_Inr validate_digest_Inr split: if_splits json.splits)
  have c: "created \<noteq> []" using h(7) assms(2) by (auto simp: str_or_def split: if_splits elim!: as_str.elims)
  then have "updated \<noteq> []" using h(8) by (auto simp: str_or_def split: if_splits elim!: as_str.elims)
  with c h check_roots_ok [OF h(6) assms(3)] coverage_record_ok copy_mapping_ok check_generation_ok [OF h(11)]
  show ?thesis
    by (simp add: r route_ok_def validate_route_id_Inr required_string_Inr validate_digest_Inr)
qed

lemma sorted_items_set: "set (sorted_items d) = set d" "distinct (map fst d) \<Longrightarrow> distinct (map fst (sorted_items d))"
proof -
  show "set (sorted_items d) = set d" by (simp add: sorted_items_def)
  show "distinct (map fst d) \<Longrightarrow> distinct (map fst (sorted_items d))"
    by (simp add: sorted_items_def distinct_map)
qed

lemma mapR_nested:
  assumes "\<forall>(n, r)\<in>set roots. nested_ok r"
  shows "mapR (\<lambda>(name, root). bindR (nested_from_dict root) (\<lambda>r. Inr (name, r)))
     (map (\<lambda>(name, root). (name, JObj (nested_to_dict root))) roots) = Inr roots"
  using assms by (induction roots) (auto simp: nested_roundtrip)

text \<open>A well-formed route survives the trip through its JSON form; the roots come back sorted.\<close>

lemma route_roundtrip:
  assumes "route_ok r"
  shows "route_from_dict sha now (JObj (route_to_dict r)) = Inr (r\<lparr>dr_roots := sorted_items (dr_roots r)\<rparr>)"
proof -
  let ?roots = "sorted_items (dr_roots r)"
  have roots: "\<forall>(n, x)\<in>set ?roots. nested_ok x" "\<forall>(n, x)\<in>set ?roots. n = nr_name x \<and> nr_branch x = dr_route_id r"
    "distinct (map fst ?roots)"
    using assms sorted_items_set [of "dr_roots r"] by (auto simp: route_ok_def)
  have gen: "check_generation (jopt JInt (dr_workspace_generation r)) = Inr (dr_workspace_generation r)"
    using assms by (cases "dr_workspace_generation r") (auto simp: check_generation_def jopt_def route_ok_def)
  have key: "(case jopt JStr (dr_workspace_key r) of JNull \<Rightarrow> Inr None
       | v \<Rightarrow> bindR (required_string v ''workspace_session_key'') (\<lambda>k. Inr (Some k))) = Inr (dr_workspace_key r)"
    using assms by (cases "dr_workspace_key r") (auto simp: jopt_def route_ok_def required_string_JStr)
  have rec: "copy_json_records (JArr xs) = Inr xs" for xs by (simp add: copy_json_records_def)
  have ids: "validate_route_id (JStr (dr_route_id r)) = Inr (dr_route_id r)"
    "validate_session_digest (JStr (dr_digest r)) = Inr (dr_digest r)"
    using assms by (simp_all add: route_ok_def validate_route_id_Inr validate_digest_Inr)
  have strings: "\<And>l. required_string (JStr (dr_provider r)) l = Inr (dr_provider r)"
    "\<And>l. required_string (JStr (dr_parent_session r)) l = Inr (dr_parent_session r)"
    using assms by (simp_all add: route_ok_def required_string_JStr)
  have rest: "dr_created_at r \<noteq> []" "dr_updated_at r \<noteq> []" "dr_state r \<in> set ROUTE_STATES"
    "coverage_record (JObj (coverage_to_dict (dr_coverage r))) = Inr (dr_coverage r)"
    "\<And>f. copy_json_mapping (JObj (dr_outer_baseline r)) f = Inr (dr_outer_baseline r)"
    using assms coverage_roundtrip copy_mapping_id by (simp_all add: route_ok_def)
  show ?thesis
    using rest check_roots_id [OF roots(2,3)]
    by (simp add: ids strings route_from_dict_def route_to_dict_def get_item_def get_default_def SCHEMA_VERSION_def
        mapR_nested [OF roots(1)] missing_is_value_def make_route_def str_or_def rec key gen)
qed

section \<open>The life of a route\<close>

inductive route_step :: "delta_route \<Rightarrow> delta_route \<Rightarrow> bool" where
  moves: "now \<noteq> [] \<Longrightarrow> route_transition now new detail r = Inr t \<Longrightarrow> route_step r t"
| covers: "now \<noteq> [] \<Longrightarrow> record_coverage now outcome warning capability r = (res, t) \<Longrightarrow> route_step r t"
| probes: "now \<noteq> [] \<Longrightarrow> set_capability now capability warning r = (res, t) \<Longrightarrow> route_step r t"

inductive_cases route_stepE: "route_step r t"

definition route_run :: "delta_route \<Rightarrow> delta_route \<Rightarrow> bool" where
  "route_run r t \<longleftrightarrow> route_step\<^sup>*\<^sup>* r t"

lemma route_transition_Inr:
  assumes "route_transition now new detail r = Inr t"
  shows "new \<in> set ROUTE_STATES" "new \<in> set (successors ROUTE_TRANSITIONS (dr_state r))"
    "\<exists>e. t = r\<lparr>dr_state := new, dr_updated_at := now, dr_events := dr_events r @ [e]\<rparr>"
  using assms
  by (auto simp: route_transition_def bindR_eq_Inr get_item_def successors_def split: if_splits option.splits)

text \<open>What a route never changes.\<close>

definition route_fixed :: "delta_route \<Rightarrow> delta_route \<Rightarrow> bool" where
  "route_fixed r t \<longleftrightarrow> dr_route_id t = dr_route_id r \<and> dr_provider t = dr_provider r \<and> dr_digest t = dr_digest r \<and>
     dr_parent_session t = dr_parent_session r \<and> dr_roots t = dr_roots r \<and> dr_created_at t = dr_created_at r \<and>
     dr_workspace_key t = dr_workspace_key r \<and> dr_workspace_generation t = dr_workspace_generation r \<and>
     dr_admitted_roots t = dr_admitted_roots r \<and> dr_outer_baseline t = dr_outer_baseline r"

text \<open>A change of the coverage counters and the time of the last update.\<close>

definition covered :: "delta_route \<Rightarrow> delta_route \<Rightarrow> bool" where
  "covered r t \<longleftrightarrow> route_fixed r t \<and> dr_state t = dr_state r \<and> dr_events t = dr_events r \<and>
     (route_ok r \<longrightarrow> route_ok t) \<and> cv_routed (dr_coverage r) \<le> cv_routed (dr_coverage t) \<and>
     cv_bypassed (dr_coverage r) \<le> cv_bypassed (dr_coverage t)"

lemma route_ok_updates:
  "route_ok t \<Longrightarrow> coverage_ok c \<Longrightarrow> route_ok (t\<lparr>dr_coverage := c\<rparr>)"
  "now \<noteq> [] \<Longrightarrow> route_ok t \<Longrightarrow> route_ok (t\<lparr>dr_updated_at := now\<rparr>)"
  "route_ok t \<Longrightarrow> coverage_ok (dr_coverage t)"
  by (simp_all add: route_ok_def coverage_ok_def)

lemma covered_refl: "covered r r"
  by (simp add: covered_def route_fixed_def)

lemma covered_update:
  assumes "covered r t" "cv_routed (dr_coverage t) \<le> cv_routed c" "cv_bypassed (dr_coverage t) \<le> cv_bypassed c"
  shows "covered r (t\<lparr>dr_coverage := c\<rparr>)"
proof -
  have "route_ok t \<longrightarrow> route_ok (t\<lparr>dr_coverage := c\<rparr>)"
    using route_ok_updates(1,3) [of t] assms(2,3) unfolding coverage_ok_def by fastforce
  moreover have "cv_routed (dr_coverage r) \<le> cv_routed c" "cv_bypassed (dr_coverage r) \<le> cv_bypassed c"
    using assms unfolding covered_def by linarith+
  ultimately show ?thesis using assms(1) by (simp add: covered_def route_fixed_def)
qed

lemma covered_time: "now \<noteq> [] \<Longrightarrow> covered r t \<Longrightarrow> covered r (t\<lparr>dr_updated_at := now\<rparr>)"
  using route_ok_updates(2) [of now t] by (simp add: covered_def route_fixed_def)

lemma keeps_covered [keeps_intros]:
  "keeps (covered r) (mod_coverage (\<lambda>c. c\<lparr>cv_routed := cv_routed c + 1\<rparr>))"
  "keeps (covered r) (mod_coverage (\<lambda>c. c\<lparr>cv_bypassed := cv_bypassed c + 1\<rparr>))"
  "keeps (covered r) (mod_coverage (\<lambda>c. c\<lparr>cv_warning := w\<rparr>))"
  "keeps (covered r) (mod_coverage (\<lambda>c. c\<lparr>cv_capability := k\<rparr>))"
  "now \<noteq> [] \<Longrightarrow> keeps (covered r) (modE (\<lambda>t. t\<lparr>dr_updated_at := now\<rparr>))"
  by (simp_all add: keeps_def mod_coverage_def modE_def covered_update covered_time)

lemma record_coverage_covers: "now \<noteq> [] \<Longrightarrow> covered r (snd (record_coverage now outcome warning capability r))"
proof -
  assume "now \<noteq> []"
  then have "keeps (covered r) (record_coverage now outcome warning capability)"
    unfolding record_coverage_def by (intro keeps_intros)
  then show ?thesis by (simp add: keeps_def covered_refl)
qed

lemma set_capability_covers: "now \<noteq> [] \<Longrightarrow> covered r (snd (set_capability now capability warning r))"
proof -
  assume "now \<noteq> []"
  then have "keeps (covered r) (set_capability now capability warning)"
    unfolding set_capability_def by (intro keeps_intros)
  then show ?thesis by (simp add: keeps_def covered_refl)
qed

lemma route_step_cases:
  assumes "route_step r t"
  shows "covered r t \<or> (\<exists>now new detail. now \<noteq> [] \<and> route_transition now new detail r = Inr t)"
  using assms
  by (cases rule: route_step.cases) (use record_coverage_covers set_capability_covers in \<open>metis snd_conv\<close>)+

lemma route_step_fixed: "route_step r t \<Longrightarrow> route_fixed r t"
  by (drule route_step_cases) (auto simp: covered_def route_fixed_def dest!: route_transition_Inr(3))

lemma route_step_ok: "route_step r t \<Longrightarrow> route_ok r \<Longrightarrow> route_ok t"
proof (drule route_step_cases, elim disjE exE conjE)
  fix now new detail assume ok: "route_ok r" and now: "now \<noteq> []" and tr: "route_transition now new detail r = Inr t"
  from route_transition_Inr(1) [OF tr] route_transition_Inr(3) [OF tr] ok now show "route_ok t"
    by (auto simp: route_ok_def)
qed (simp add: covered_def)

text \<open>The route is an instance of the life-cycle interface.\<close>

interpretation rts: lifecycle route_step dr_state ROUTE_TRANSITIONS
proof
  fix a b assume "route_step a b"
  then show "dr_state b = dr_state a \<or> dr_state b \<in> set (successors ROUTE_TRANSITIONS (dr_state a))"
  proof (drule_tac route_step_cases, elim disjE exE conjE)
    fix now new detail assume "route_transition now new detail a = Inr b"
    from route_transition_Inr(2,3) [OF this] show ?thesis by auto
  qed (simp add: covered_def)
qed

text \<open>The table of routes in the session's document, an instance of the keyed store.\<close>

definition save_record :: "delta_route \<Rightarrow> (string, json) dict \<Rightarrow> (string, json) dict" where
  "save_record r table = dict_set table (dr_route_id r) (JObj (route_to_dict r))"

definition load_record :: "(string \<Rightarrow> string) \<Rightarrow> string \<Rightarrow> (string, json) dict \<Rightarrow> string \<Rightarrow> delta_route result" where
  "load_record sha now table k = bindR (get_item table k) (\<lambda>v. route_from_dict sha now v)"

definition route_storable :: "delta_route \<Rightarrow> bool" where
  "route_storable r \<longleftrightarrow> route_ok r \<and> sorted_items (dr_roots r) = dr_roots r"

interpretation rtable: keyed_store save_record "load_record sha now" dr_route_id route_storable for sha now
proof
  fix x :: delta_route and table assume "route_storable x"
  then have "route_from_dict sha now (JObj (route_to_dict x)) = Inr x"
    using route_roundtrip by (simp add: route_storable_def)
  then show "load_record sha now (save_record x table) (dr_route_id x) = Inr x"
    by (simp add: load_record_def save_record_def get_item_def update_conv)
next
  fix k table and x :: delta_route assume "k \<noteq> dr_route_id x"
  then show "load_record sha now (save_record x table) k = load_record sha now table k"
    by (simp add: load_record_def save_record_def get_item_def update_conv)
qed

section \<open>Properties\<close>

definition sample_sha :: "string \<Rightarrow> string" where
  "sample_sha s = replicate 64 (CHR ''a'')"

definition sample_root_record :: protected_root where
  "sample_root_record = \<lparr>pr_name = ''home'', pr_base = ''/base/home'', pr_store = ''/store/home'', pr_branch = ''s1'',
     pr_mount = ''/m/home'', pr_visible = ''/storage/user'', pr_home_subdir = None, pr_hide_paths = []\<rparr>"

definition sample_route_id :: string where
  "sample_route_id = ''route-'' @ replicate 32 (CHR ''0'')"

definition sample_route :: "string \<Rightarrow> delta_route" where
  "sample_route state = \<lparr>dr_route_id = sample_route_id, dr_provider = ''codex'', dr_digest = ''sha256:'' @ sample_sha ''v'',
     dr_parent_session = ''s1'', dr_roots = [], dr_state = state, dr_created_at = ''t0'', dr_updated_at = ''t0'',
     dr_events = [], dr_coverage = \<lparr>cv_routed = 0, cv_bypassed = 0, cv_warning = None, cv_capability = ''unknown''\<rparr>,
     dr_workspace_key = Some ''w'', dr_workspace_generation = Some 1, dr_admitted_roots = [], dr_outer_baseline = []\<rparr>"

lemma sample_route_ok: "state \<in> set ROUTE_STATES \<Longrightarrow> route_ok (sample_route state)"
  by (simp add: route_ok_def sample_route_def sample_route_id_def good_string_def matches_hex_def coverage_ok_def
      sample_sha_def is_hex_def numeral_eq_Suc)

lemma sample_route_moves:
  "route_transition ''t1'' ''merged'' None (sample_route ''frozen'') = Inr (sample_route ''frozen''
     \<lparr>dr_state := ''merged'', dr_updated_at := ''t1'',
      dr_events := [JObj [(''time'', JStr ''t1''), (''from'', JStr ''frozen''), (''to'', JStr ''merged'')]]\<rparr>)"
  by (simp add: route_transition_def sample_route_def ROUTE_STATES_def ROUTE_TRANSITIONS_def get_item_def)


lemma sample_route_run:
  "route_run (sample_route ''frozen'') (sample_route ''frozen''\<lparr>dr_state := ''merged'', dr_updated_at := ''t1'',
      dr_events := [JObj [(''time'', JStr ''t1''), (''from'', JStr ''frozen''), (''to'', JStr ''merged'')]]\<rparr>)"
  using route_step.moves [OF _ sample_route_moves] by (auto simp: route_run_def)


text \<open>A route that is merged, aborted or failed stays so.\<close>

theorem route_terminal:
  assumes "route_run r t" "dr_state r \<in> {''merged'', ''aborted'', ''failed''}"
  shows "dr_state t = dr_state r"
  using rts.run_final [of r t] assms by (auto simp: route_run_def successors_def ROUTE_TRANSITIONS_def)

lemma route_terminal_witness:
  "dr_state (snd (record_coverage ''t2'' ''routed'' JNull JNull (sample_route ''aborted''))) = ''aborted''"
proof -
  have "route_run (sample_route ''aborted'') (snd (record_coverage ''t2'' ''routed'' JNull JNull (sample_route ''aborted'')))"
    unfolding route_run_def by (rule r_into_rtranclp, rule route_step.covers [OF _ surjective_pairing]) simp
  from route_terminal [OF this] show ?thesis by (simp add: sample_route_def)
qed

text \<open>A route becomes merged only by a transition out of the state \<open>frozen\<close> or \<open>pending-review\<close>;
  a live (provisioning, active or quiescing) route is never merged directly.\<close>

theorem route_merge_source:
  assumes "route_run r t" "dr_state t = ''merged''" "dr_state r \<noteq> ''merged''"
  shows "\<exists>c now detail d. route_run r c \<and> dr_state c \<in> {''frozen'', ''pending-review''} \<and>
     route_transition now ''merged'' detail c = Inr d \<and> route_run d t"
proof -
  obtain c d where h: "route_step\<^sup>*\<^sup>* r c" "route_step c d" "route_step\<^sup>*\<^sup>* d t" "dr_state c \<noteq> ''merged''"
    "dr_state d = ''merged''" "''merged'' \<in> set (successors ROUTE_TRANSITIONS (dr_state c))"
    using rts.run_enters [OF assms(1) [unfolded route_run_def] assms(2,3)] by blast
  from route_step_cases [OF h(2)] h(4,5) obtain now new detail where tr: "route_transition now new detail c = Inr d"
    by (auto simp: covered_def)
  moreover have "new = ''merged''" using route_transition_Inr(3) [OF tr] h(5) by auto
  moreover have "dr_state c \<in> {''frozen'', ''pending-review''}"
    using h(6) by (auto simp: successors_def ROUTE_TRANSITIONS_def split: if_splits)
  ultimately show ?thesis using h(1,3) unfolding route_run_def by blast
qed

lemma route_merge_source_witness:
  "\<exists>c now detail d. route_run (sample_route ''frozen'') c \<and> dr_state c \<in> {''frozen'', ''pending-review''} \<and>
     route_transition now ''merged'' detail c = Inr d"
  using route_merge_source [OF sample_route_run] by (auto simp: sample_route_def)

text \<open>The session's route table reads back what was saved: after any sequence of saves of well-formed
  routes (roots in name order, as they are created), the record of a route id decodes to the route last
  saved under it, and to what it was before when none was saved.\<close>

theorem route_table_saves_load:
  assumes "\<forall>r\<in>set rs. route_storable r"
  shows "load_record sha now (fold save_record rs table) k =
    (case find (\<lambda>r. dr_route_id r = k) (rev rs) of None \<Rightarrow> load_record sha now table k | Some r \<Rightarrow> Inr r)"
  using assms by (rule rtable.load_saves)

lemma route_table_saves_load_witness:
  "load_record sample_sha ''t9'' (fold save_record [sample_route ''active'', sample_route ''quiescing''] []) sample_route_id =
     Inr (sample_route ''quiescing'')"
proof -
  have "\<forall>r\<in>set [sample_route ''active'', sample_route ''quiescing'']. route_storable r"
    using sample_route_ok [of "''active''"] sample_route_ok [of "''quiescing''"]
    by (simp add: ROUTE_STATES_def route_storable_def sample_route_def sorted_items_def)
  from route_table_saves_load [OF this, of sample_sha "''t9''" "[]" sample_route_id] show ?thesis
    by (simp add: sample_route_def)
qed

lemma nested_from_parent_Inr:
  assumes "nested_from_parent parent rid dir = Inr r"
  shows "nested_ok r \<and> r = \<lparr>nr_name = pr_name parent, nr_base = pr_base parent, nr_store = pr_store parent,
     nr_parent_branch = pr_branch parent, nr_branch = rid, nr_mount = path_join dir (pr_name parent),
     nr_visible = pr_visible parent, nr_home_subdir = pr_home_subdir parent, nr_hide_paths = pr_hide_paths parent\<rparr>"
proof -
  have "nested_ok r"
    using assms make_nested_root_ok by (auto simp: nested_from_parent_def bindR_eq_Inr)
  with assms show ?thesis
    by (auto simp: nested_from_parent_def bindR_eq_Inr make_nested_root_def required_string_Inr validate_route_id_Inr
        split: if_splits)
qed

lemma make_route_fields:
  assumes "make_route sha now a = Inr r"
  shows "ra_route_id a = JStr (dr_route_id r)" "ra_state a = JStr (dr_state r)"
    "ra_parent_session a = JStr (dr_parent_session r)" "check_roots (dr_route_id r) (ra_roots a) = Inr (dr_roots r)"
  using assms
  by (auto simp: make_route_def bindR_eq_Inr required_string_Inr validate_route_id_Inr split: json.splits if_splits)

text \<open>A created route is well-formed and still provisioning, and its nested roots are the session's
  roots one for one: same name, base, store and visible path, a branch named by the route id on top of
  the session's own branch (never that branch itself), mounted below the route's own directory.\<close>

theorem create_route_nests:
  assumes "create_route sha now fresh provider vendor parent_session parents mount_dir key generation admitted baseline = Inr r"
    and "now \<noteq> []" "distinct (map fst parents)"
  shows "route_ok r \<and> dr_state r = ''provisioning'' \<and> dr_route_id r = fresh \<and>
    list_all2 (\<lambda>(name, parent) (name', child). name' = name \<and> nr_name child = name \<and> pr_name parent = name \<and>
      nr_base child = pr_base parent \<and> nr_store child = pr_store parent \<and> nr_visible child = pr_visible parent \<and>
      nr_parent_branch child = pr_branch parent \<and> nr_branch child = fresh \<and> fresh \<noteq> pr_branch parent \<and>
      nr_mount child = path_join (path_join mount_dir fresh) name) parents (dr_roots r)"
proof -
  let ?f = "\<lambda>(name, root). bindR (nested_from_parent root fresh (path_join mount_dir fresh)) (\<lambda>r. Inr (name, r))"
  obtain roots where roots: "mapR ?f parents = Inr roots"
    and mk: "make_route sha now \<lparr>ra_route_id = JStr fresh, ra_provider = provider, ra_parent_session = parent_session,
         ra_roots = roots, ra_vendor_session = vendor, ra_digest = JNull, ra_state = JStr ''provisioning'',
         ra_created_at = JNull, ra_updated_at = JNull, ra_events = JNull, ra_coverage = JNull,
         ra_workspace_key = key, ra_workspace_generation = generation,
         ra_admitted_roots = admitted, ra_outer_baseline = baseline\<rparr> = Inr r"
    using assms(1) by (auto simp: create_route_def bindR_eq_Inr validate_route_id_Inr)
  have all2: "list_all2 (\<lambda>x y. ?f x = Inr y) parents roots" using roots by (simp add: mapR_eq_Inr)
  then have nested: "list_all2 (\<lambda>(name, parent) (name', child). name' = name \<and>
      nested_from_parent parent fresh (path_join mount_dir fresh) = Inr child) parents roots"
    by (rule list_all2_mono) (auto simp: bindR_eq_Inr)
  then have "list_all2 (\<lambda>_ (n, x). nested_ok x) parents roots"
    by (rule list_all2_mono) (auto dest!: nested_from_parent_Inr)
  then have ok: "\<forall>(n, x)\<in>set roots. nested_ok x"
    by (force simp: list_all2_conv_all_nth in_set_conv_nth)
  have fst: "map fst roots = map fst parents"
    using nested by (auto simp: list_all2_conv_all_nth intro!: nth_equalityI)
  from make_route_fields [OF mk] have fields: "dr_route_id r = fresh" "dr_state r = ''provisioning''"
    "check_roots fresh roots = Inr (dr_roots r)" by auto
  then have named: "\<forall>(name, root)\<in>set roots. name = nr_name root \<and> nr_branch root = fresh" and "dr_roots r = roots"
    using foldR_check_roots [of fresh "[]" roots "dr_roots r"] assms(3) fst by (auto simp: check_roots_def)
  moreover have "list_all2 (\<lambda>(name, parent) (name', child). name' = name \<and> nr_name child = name \<and> pr_name parent = name \<and>
      nr_base child = pr_base parent \<and> nr_store child = pr_store parent \<and> nr_visible child = pr_visible parent \<and>
      nr_parent_branch child = pr_branch parent \<and> nr_branch child = fresh \<and> fresh \<noteq> pr_branch parent \<and>
      nr_mount child = path_join (path_join mount_dir fresh) name) parents roots"
    unfolding list_all2_conv_all_nth
  proof (intro conjI allI impI)
    fix i assume i: "i < length parents"
    obtain name parent where p: "parents ! i = (name, parent)" by (cases "parents ! i")
    obtain n child where c: "roots ! i = (n, child)" by (cases "roots ! i")
    have "n = name" and nf: "nested_from_parent parent fresh (path_join mount_dir fresh) = Inr child"
      using list_all2_nthD [OF nested i] by (auto simp: p c)
    moreover have "(n, child) \<in> set roots"
      using i list_all2_lengthD [OF nested] nth_mem [of i roots] by (simp add: c)
    ultimately show "(case parents ! i of (name, parent) \<Rightarrow> \<lambda>(name', child). name' = name \<and> nr_name child = name \<and>
      pr_name parent = name \<and> nr_base child = pr_base parent \<and> nr_store child = pr_store parent \<and>
      nr_visible child = pr_visible parent \<and> nr_parent_branch child = pr_branch parent \<and> nr_branch child = fresh \<and>
      fresh \<noteq> pr_branch parent \<and> nr_mount child = path_join (path_join mount_dir fresh) name) (roots ! i)"
      using named nested_from_parent_Inr [OF nf] by (auto simp: p c nested_ok_def)
  qed (use list_all2_lengthD [OF nested] in simp)
  ultimately show ?thesis
    using make_route_ok [OF mk assms(2)] ok fields by simp
qed

lemma create_route_nests_witness:
  "\<exists>r. create_route sample_sha ''t0'' sample_route_id (JStr ''codex'') (JStr ''v'') (JStr ''s1'')
      [(''home'', sample_root_record)] ''/mnt'' JNull JNull JNull JNull = Inr r \<and> route_ok r \<and>
      map (nr_branch \<circ> snd) (dr_roots r) = [sample_route_id]"
proof -
  have "is_ok (create_route sample_sha ''t0'' sample_route_id (JStr ''codex'') (JStr ''v'') (JStr ''s1'')
      [(''home'', sample_root_record)] ''/mnt'' JNull JNull JNull JNull)"
    by code_simp
  then obtain r where r: "create_route sample_sha ''t0'' sample_route_id (JStr ''codex'') (JStr ''v'') (JStr ''s1'')
      [(''home'', sample_root_record)] ''/mnt'' JNull JNull JNull JNull = Inr r"
    by (auto simp: is_ok_def split: sum.splits)
  from create_route_nests [OF this] r show ?thesis
    by (auto simp: list_all2_Cons1)
qed

text \<open>The identifier pattern also accepts a trailing newline.\<close>

lemma route_id_with_newline:
  "validate_route_id (JStr (sample_route_id @ [CHR 0x0A])) = Inr (sample_route_id @ [CHR 0x0A])"
  by (simp add: validate_route_id_def required_string_def matches_hex_def sample_route_id_def is_hex_def numeral_eq_Suc)

end
