(* ===== verification/Status.thy ===== *)
theory Status
  imports Policy Session FsFacts
begin

text \<open>
  The status of a branch (\<open>branchfs.py\<close>): from the entries BranchFS reports, or from the branch's
  store when the daemon cannot answer, to the changes a reviewer sees.  Structural directories and
  shadowed tombstones are dropped, and a recursive delete is shown once, at its outermost path.
  Texts of warnings are abbreviated to the exception's message.
\<close>

section \<open>Reports\<close>

record status_warning =
  sw_path :: string
  sw_message :: string
  sw_root :: string

definition warning_to_dict :: "status_warning \<Rightarrow> pydict" where
  "warning_to_dict w = [(''path'', JStr (sw_path w)), (''message'', JStr (sw_message w)), (''root'', JStr (sw_root w))]"

record status_report =
  sr_changes :: "change list"
  sr_warnings :: "status_warning list"

text \<open>One element of the daemon's \<open>diff\<close> list, with the defaults the code reads it with.\<close>

record diff_entry =
  de_op :: string
  de_path :: string
  de_kind :: string
  de_bytes :: int

definition entry_of :: "json \<Rightarrow> diff_entry result" where
  "entry_of v =
     bindR (as_obj v) (\<lambda>d.
     bindR (as_str (get_default d ''path'' (JStr []))) (\<lambda>path.
     bindR (as_str (get_default d ''kind'' (JStr ''file''))) (\<lambda>kind.
     bindR (as_int (get_default d ''bytes'' (JInt 0))) (\<lambda>bytes.
       Inr \<lparr>de_op = (case get_default d ''op'' JNull of JStr s \<Rightarrow> s | _ \<Rightarrow> []), de_path = path,
            de_kind = kind, de_bytes = bytes\<rparr>))))"

definition rel_path :: "diff_entry \<Rightarrow> string" where
  "rel_path e = lstrip sep (de_path e)"

definition is_delete :: "diff_entry \<Rightarrow> bool" where
  "is_delete e \<longleftrightarrow> de_op e = ''delete''"

definition is_descendant_path :: "string \<Rightarrow> string \<Rightarrow> bool" where
  "is_descendant_path child parent \<longleftrightarrow> child \<noteq> parent \<and> startswith child (rstrip sep parent @ ''/'')"

definition nested_delete_summary :: "nat \<Rightarrow> string" where
  "nested_delete_summary count =
     (if count = 0 then []
      else show_nat count @ '' nested '' @ (if count = 1 then ''deletion'' else ''deletions'') @ '' hidden'')"

section \<open>Changes from status entries\<close>

text \<open>\<open>dirname\<close> iterated until it is empty or does not change.\<close>

lemma dirname_prefix: "prefix (dirname p) p"
proof -
  have h: "prefix (rev (dropWhile f (rev q))) q" for f and q :: string
    using suffix_dropWhile [of f "rev q"] by (simp add: suffix_to_prefix)
  moreover have "prefix (rev (dropWhile g (dropWhile f (rev q)))) q" for f g and q :: string
    using suffix_order.order_trans [OF suffix_dropWhile [of g "dropWhile f (rev q)"] suffix_dropWhile [of f "rev q"]] by (simp add: suffix_to_prefix)
  ultimately show ?thesis
    unfolding dirname_def path_head_def Let_def rstrip_def by simp
qed

lemma dirname_shorter: "dirname p \<noteq> p \<Longrightarrow> length (dirname p) < length p"
  using dirname_prefix [of p] by (metis prefix_length_less prefix_order.le_neq_trans)

function parent_chain :: "string \<Rightarrow> string list" where
  "parent_chain current =
     (if dirname current \<noteq> [] \<and> dirname current \<noteq> current
      then dirname current # parent_chain (dirname current) else [])"
  by pat_completeness auto
termination parent_chain
  by (relation "measure length") (auto intro: dirname_shorter)

declare parent_chain.simps [simp del]

definition changed_ancestors :: "diff_entry list \<Rightarrow> string set" where
  "changed_ancestors entries = set (concat (map (\<lambda>e. parent_chain (rstrip sep (rel_path e))) entries))"

definition has_changed_descendant :: "diff_entry list \<Rightarrow> string \<Rightarrow> bool" where
  "has_changed_descendant entries rel \<longleftrightarrow> rstrip sep rel \<in> changed_ancestors entries"

definition shadowed :: "diff_entry list \<Rightarrow> string \<Rightarrow> bool" where
  "shadowed entries rel \<longleftrightarrow> list_ex (\<lambda>e. \<not> is_delete e \<and> rel_path e = rel \<and> de_kind e \<noteq> ''dir'') entries"

definition structural :: "diff_entry list \<Rightarrow> diff_entry \<Rightarrow> bool" where
  "structural entries e \<longleftrightarrow> de_kind e = ''dir'' \<and> has_changed_descendant entries (rel_path e)"

definition visible_deletes :: "diff_entry list \<Rightarrow> string list" where
  "visible_deletes entries =
     remdups (map rel_path (filter (\<lambda>e. \<not> structural entries e \<and> is_delete e \<and> \<not> shadowed entries (rel_path e)) entries))"

definition outermost_delete :: "diff_entry list \<Rightarrow> string \<Rightarrow> string option" where
  "outermost_delete entries rel =
     (case filter (\<lambda>p. p \<in> set (visible_deletes entries)) (parent_chain (rstrip sep rel)) of
        [] \<Rightarrow> None | ps \<Rightarrow> Some (last ps))"

definition collapsed :: "diff_entry list \<Rightarrow> string \<Rightarrow> bool" where
  "collapsed entries rel \<longleftrightarrow>
     list_ex (\<lambda>e. is_delete e \<and> rel_path e = rel \<and> outermost_delete entries rel \<noteq> None) entries"

definition nested_count :: "diff_entry list \<Rightarrow> string \<Rightarrow> nat" where
  "nested_count entries rel =
     length (filter (\<lambda>e. is_delete e \<and> outermost_delete entries (rel_path e) = Some rel) entries)"

definition visible_path :: "protected_root \<Rightarrow> string \<Rightarrow> string" where
  "visible_path root rel = rstrip sep (pr_visible root) @ ''/'' @ rel"

definition has_target :: "fs \<Rightarrow> protected_root \<Rightarrow> diff_entry \<Rightarrow> bool" where
  "has_target fs root e \<longleftrightarrow> \<not> is_delete e \<or> lexists fs (path_join (pr_base root) (rel_path e))"

definition change_of_entry :: "fs \<Rightarrow> protected_root \<Rightarrow> diff_entry list \<Rightarrow> diff_entry \<Rightarrow> change list" where
  "change_of_entry fs root entries e =
     (let rel = rel_path e in
      if structural entries e then []
      else if is_delete e \<and> (shadowed entries rel \<or> collapsed entries rel) then []
      else [\<lparr>ch_op = (if is_delete e then ''D''
                       else if lexists fs (path_join (pr_base root) rel) then ''M'' else ''A''),
             ch_path = visible_path root rel, ch_kind = de_kind e, ch_bytes = de_bytes e, ch_root = pr_name root,
             ch_summary = (if is_delete e then nested_delete_summary (nested_count entries rel) else [])\<rparr>])"

definition changes_of_entries :: "fs \<Rightarrow> protected_root \<Rightarrow> diff_entry list \<Rightarrow> change list" where
  "changes_of_entries fs root diff =
     (let entries = filter (has_target fs root) diff
      in concat (map (change_of_entry fs root entries) entries))"

definition changes_from_status :: "fs \<Rightarrow> pydict \<Rightarrow> protected_root \<Rightarrow> change list result" where
  "changes_from_status fs data root =
     bindR (as_list (get_default data ''diff'' (JArr []))) (\<lambda>diff.
     bindR (mapR entry_of diff) (\<lambda>diff. Inr (changes_of_entries fs root diff)))"

section \<open>Warnings\<close>

definition visible_warning_path :: "protected_root \<Rightarrow> string \<Rightarrow> string" where
  "visible_warning_path root rel =
     (let rel = lstrip sep rel in if rel = [] then rstrip sep (pr_visible root) else visible_path root rel)"

definition make_warning :: "protected_root \<Rightarrow> string \<Rightarrow> string \<Rightarrow> status_warning" where
  "make_warning root rel message =
     \<lparr>sw_path = visible_warning_path root rel, sw_message = message, sw_root = pr_name root\<rparr>"

definition warnings_from_status :: "pydict \<Rightarrow> protected_root \<Rightarrow> status_warning list result" where
  "warnings_from_status data root =
     (let ws = get_default data ''warnings'' (JArr []) in
      if \<not> truthy ws then Inr []
      else bindR (as_list ws) (\<lambda>ws.
        bindR (mapR (\<lambda>w. case w of
            JObj d \<Rightarrow> bindR (let p = get_default d ''path'' (JStr []) in if truthy p then as_str p else Inr []) (\<lambda>path.
                      bindR (as_str (get_default d ''message'' (JStr []))) (\<lambda>message.
                        Inr [make_warning root path message]))
          | _ \<Rightarrow> Inr []) ws) (\<lambda>rs. Inr (concat rs))))"

section \<open>Fallback: the store of the branch\<close>

definition branch_dir :: "protected_root \<Rightarrow> string" where
  "branch_dir root = path_joins (pr_store root) [''branches'', pr_branch root]"

definition status_files_dir :: "protected_root \<Rightarrow> string" where
  "status_files_dir root = path_join (branch_dir root) ''files''"

definition status_tombstones_path :: "protected_root \<Rightarrow> string" where
  "status_tombstones_path root = path_join (branch_dir root) ''tombstones''"

definition join_rel :: "string \<Rightarrow> string \<Rightarrow> string" where
  "join_rel parent child = (if parent = [] then child else rstrip sep parent @ ''/'' @ child)"

fun entry_kind :: "content \<Rightarrow> string" where
  "entry_kind Directory = ''dir''"
| "entry_kind (Symlink t) = ''symlink''"
| "entry_kind _ = ''file''"

fun content_size :: "content \<Rightarrow> int" where
  "content_size (Regular d) = int (length d)"
| "content_size (Symlink t) = int (length t)"
| "content_size _ = 0"

definition warn_if_unreadable :: "fs \<Rightarrow> string \<Rightarrow> string \<Rightarrow> protected_root \<Rightarrow> content \<Rightarrow> status_warning list" where
  "warn_if_unreadable fs path rel root c =
     (if regular_data c = None then []
      else case read_file fs path of
             Inl (PermissionError m) \<Rightarrow> [make_warning root rel (''unreadable delta file: '' @ m @ ''; commit may fail'')]
           | _ \<Rightarrow> [])"

text \<open>The depth of the file system bounds the recursion.\<close>

primrec collect_store_delta :: "nat \<Rightarrow> fs \<Rightarrow> string \<Rightarrow> string \<Rightarrow> protected_root \<Rightarrow>
    diff_entry list \<times> status_warning list" where
  "collect_store_delta 0 fs files_dir rel root = ([], [])"
| "collect_store_delta (Suc n) fs files_dir rel root =
     (let directory = (if rel = [] then files_dir else path_join files_dir rel) in
      case listdir fs directory of
        Inl (FileNotFoundError _) \<Rightarrow> ([], [])
      | Inl (PermissionError m) \<Rightarrow> ([], [make_warning root rel (''unreadable delta directory: '' @ m
          @ ''; status may be incomplete; commit may fail'')])
      | Inl e \<Rightarrow> ([], [make_warning root rel (''could not scan delta directory: '' @ exn_str e
          @ ''; status may be incomplete'')])
      | Inr names \<Rightarrow>
          (let parts = map (\<lambda>name.
             (let child = join_rel rel name; path = path_join files_dir child in
              case lstat fs (path_join directory name) of
                Inl (PermissionError m) \<Rightarrow> ([], [make_warning root child (''unreadable delta entry metadata: '' @ m
                  @ ''; status may be incomplete; commit may fail'')])
              | Inl (FileNotFoundError _) \<Rightarrow> ([], [])
              | Inl e \<Rightarrow> ([], [make_warning root child (''could not stat delta entry: '' @ exn_str e
                  @ ''; status may be incomplete'')])
              | Inr node \<Rightarrow>
                  (let kind = entry_kind (in_content node);
                       entry = \<lparr>de_op = ''delta'', de_path = child, de_kind = kind,
                                de_bytes = (if kind = ''dir'' then 0 else content_size (in_content node))\<rparr>;
                       below = (if kind = ''dir'' then collect_store_delta n fs files_dir child root
                                else ([], warn_if_unreadable fs path child root (in_content node)))
                   in (entry # fst below, snd below)))) (sort names)
           in (concat (map fst parts), concat (map snd parts))))"

definition collect_store_tombstones :: "fs \<Rightarrow> protected_root \<Rightarrow> diff_entry list \<times> status_warning list" where
  "collect_store_tombstones fs root =
     (case read_file fs (status_tombstones_path root) of
        Inl (FileNotFoundError _) \<Rightarrow> ([], [])
      | Inl (PermissionError m) \<Rightarrow> ([], [make_warning root [] (''unreadable tombstone list: '' @ m
          @ ''; deletions may be missing'')])
      | Inl e \<Rightarrow> ([], [make_warning root [] (''could not read tombstone list: '' @ exn_str e
          @ ''; deletions may be missing'')])
      | Inr data \<Rightarrow>
          (map (\<lambda>rel. \<lparr>de_op = ''delete'', de_path = lstrip sep rel, de_kind = ''tombstone'', de_bytes = 0\<rparr>)
             (sort (remdups (filter (\<lambda>l. l \<noteq> []) (map str_strip (split_on CHR 0x0A data))))), []))"

definition fallback_status_report :: "fs \<Rightarrow> protected_root \<Rightarrow> pyexn \<Rightarrow> status_report result" where
  "fallback_status_report fs root reason =
     (if \<not> isdir fs (branch_dir root) then Inl reason
      else
        (let (delta, w1) = collect_store_delta (Suc (tree_depth fs)) fs (status_files_dir root) [] root;
             (deletes, w2) = collect_store_tombstones fs root
         in Inr \<lparr>sr_changes = changes_of_entries fs root (delta @ deletes),
                 sr_warnings = make_warning root [] (''branchfs status failed; using direct store fallback: ''
                    @ exn_str reason) # w1 @ w2\<rparr>))"

section \<open>Nested branches\<close>

definition validate_nested_roots :: "string \<Rightarrow> protected_root \<Rightarrow> protected_root \<Rightarrow> string \<Rightarrow> unit result" where
  "validate_nested_roots cwd outer child declared_parent =
     (if abspath cwd (pr_store outer) \<noteq> abspath cwd (pr_store child)
      then Inl (BranchfsError ''nested branch must use the outer BranchFS store'')
      else if abspath cwd (pr_base outer) \<noteq> abspath cwd (pr_base child)
      then Inl (BranchfsError ''nested branch must use the outer BranchFS base'')
      else if pr_branch outer = ''main'' then Inl (BranchfsError ''nested branch parent must be an outer delta, not main'')
      else if pr_branch outer = pr_branch child then Inl (BranchfsError ''nested branch must differ from its outer branch'')
      else if declared_parent \<noteq> pr_branch outer then Inl (BranchfsError ''nested root declares another parent'')
      else Inr ())"

section \<open>Facts\<close>

lemma parent_chain_unfold:
  "dirname p \<noteq> [] \<Longrightarrow> dirname p \<noteq> p \<Longrightarrow> parent_chain p = dirname p # parent_chain (dirname p)"
  "dirname p = [] \<or> dirname p = p \<Longrightarrow> parent_chain p = []"
  by (subst parent_chain.simps, simp)+

lemma dirname_relative:
  assumes "p \<noteq> []" "hd p \<noteq> sep" "dirname p \<noteq> []"
  shows "hd (dirname p) \<noteq> sep" "rstrip sep (dirname p) = dirname p"
proof -
  from dirname_prefix [of p] assms(3) have hd: "hd (dirname p) = hd p"
    by (auto simp: prefix_def) (metis hd_append2)
  with assms(2) show "hd (dirname p) \<noteq> sep" by simp
  let ?h = "rev (dropWhile ((\<noteq>) sep) (rev p))"
  have "\<exists>c\<in>set ?h. c \<noteq> sep"
  proof (rule ccontr)
    assume "\<not> (\<exists>c\<in>set ?h. c \<noteq> sep)"
    then have "dirname p = ?h" "set (dirname p) \<subseteq> {sep}"
      by (auto simp: dirname_def path_head_def Let_def)
    then show False using hd assms hd_in_set [OF assms(3)] by auto
  qed
  then have "dirname p = rstrip sep ?h" by (simp add: dirname_def path_head_def Let_def)
  then show "rstrip sep (dirname p) = dirname p" by (simp add: rstrip_def dropWhile_idem)
qed

lemma parent_chain_relative:
  assumes "a \<in> set (parent_chain p)" "p = [] \<or> hd p \<noteq> sep"
  shows "a \<noteq> [] \<and> hd a \<noteq> sep \<and> rstrip sep a = a"
  using assms
proof (induction p rule: parent_chain.induct)
  case (1 p)
  show ?case
  proof (cases "dirname p \<noteq> [] \<and> dirname p \<noteq> p")
    case True
    then have "p \<noteq> []" by (auto simp: dirname_def path_head_def Let_def)
    with True "1.prems"(2) dirname_relative [of p] have d: "hd (dirname p) \<noteq> sep" "rstrip sep (dirname p) = dirname p"
      by auto
    from True "1.prems"(1) consider "a = dirname p" | "a \<in> set (parent_chain (dirname p))"
      by (auto simp: parent_chain_unfold)
    then show ?thesis
    proof cases
      case 1 with True d show ?thesis by simp
    next
      case 2 with "1.IH" True d show ?thesis by blast
    qed
  qed (use "1.prems" in \<open>auto simp: parent_chain_unfold\<close>)
qed

text \<open>The chain of a member of the chain is the rest of the chain.\<close>

lemma parent_chain_suffix:
  "parent_chain p = xs @ a # ys \<Longrightarrow> parent_chain a = ys"
proof (induction p arbitrary: xs rule: parent_chain.induct)
  case (1 p)
  from "1.prems" have "dirname p \<noteq> [] \<and> dirname p \<noteq> p" by (auto simp: parent_chain_unfold)
  with 1 show ?case by (cases xs) (auto simp: parent_chain_unfold)
qed

lemma rel_path_relative: "rel_path e = [] \<or> hd (rel_path e) \<noteq> sep"
  unfolding rel_path_def lstrip_def using hd_dropWhile [of "(=) sep" "de_path e"] by metis

lemma rstrip_prefix: "prefix (rstrip c s) s"
  unfolding rstrip_def using suffix_dropWhile [of "(=) c" "rev s"] by (simp add: suffix_to_prefix)

lemma rstrip_relative: "p = [] \<or> hd p \<noteq> sep \<Longrightarrow> rstrip sep p = [] \<or> hd (rstrip sep p) \<noteq> sep"
  using rstrip_prefix [of sep p] by (cases "rstrip sep p") (auto simp: prefix_def)

text \<open>The outermost deleted ancestor is itself listed: it has no deleted ancestor.\<close>

lemma outermost_split:
  assumes "outermost_delete entries rel = Some a"
  obtains us vs where "parent_chain (rstrip sep rel) = us @ a # vs" "a \<in> set (visible_deletes entries)"
    "\<forall>v\<in>set vs. v \<notin> set (visible_deletes entries)"
proof -
  let ?P = "\<lambda>p. p \<in> set (visible_deletes entries)"
  have h: "filter ?P (parent_chain (rstrip sep rel)) \<noteq> []" "last (filter ?P (parent_chain (rstrip sep rel))) = a"
    using assms by (auto simp: outermost_delete_def split: list.splits)
  then have "\<exists>x\<in>set (parent_chain (rstrip sep rel)). ?P x" by (auto simp: filter_empty_conv)
  from split_list_last_prop [OF this] h(2) that show thesis by (auto simp: filter_empty_conv [THEN iffD2])
qed

lemma outermost_is_outermost:
  assumes "outermost_delete entries rel = Some a" "rel = [] \<or> hd rel \<noteq> sep"
  shows "outermost_delete entries a = None"
proof -
  obtain us vs where c: "parent_chain (rstrip sep rel) = us @ a # vs" "\<forall>v\<in>set vs. v \<notin> set (visible_deletes entries)"
    using outermost_split [OF assms(1)] by metis
  have "rstrip sep a = a"
    using parent_chain_relative [of a "rstrip sep rel"] rstrip_relative [OF assms(2)] c(1) by simp
  then show ?thesis
    using parent_chain_suffix [OF c(1)] c(2) by (simp add: outermost_delete_def filter_empty_conv [THEN iffD2])
qed

text \<open>A path in normal form is a list of names; its parents are its proper initial segments.\<close>

definition normal_rel :: "string \<Rightarrow> bool" where
  "normal_rel r \<longleftrightarrow> r \<noteq> [] \<and> hd r \<noteq> sep \<and> last r \<noteq> sep \<and> \<not> sublist ''//'' r"

lemma dirname_split:
  assumes "normal_rel (a @ ''/'' @ c)" "sep \<notin> set c"
  shows "dirname (a @ ''/'' @ c) = a" "normal_rel a"
proof -
  have c: "c \<noteq> []" using assms(1) by (auto simp: normal_rel_def)
  have a: "a \<noteq> []" using assms(1) by (cases a) (auto simp: normal_rel_def)
  have l: "last a \<noteq> sep"
  proof
    assume "last a = sep"
    then obtain b where "a = b @ [sep]" using a by (metis append_butlast_last_id)
    then have "a @ ''/'' @ c = b @ ''//'' @ c" by simp
    then have "sublist ''//'' (a @ ''/'' @ c)" unfolding sublist_def by blast
    then show False using assms(1) by (metis normal_rel_def)
  qed
  then show n: "normal_rel a"
    using assms(1) a sublist_appendI [of "''//''" "[]"] sublist_order.order_trans [of "''//''" a "a @ ''/'' @ c"]
    by (auto simp: normal_rel_def)
  have "dropWhile ((\<noteq>) sep) (rev c @ sep # rev a) = dropWhile ((\<noteq>) sep) (sep # rev a)"
    by (rule dropWhile_append2) (use assms(2) in auto)
  then have d: "dropWhile ((\<noteq>) sep) (rev c @ sep # rev a) = sep # rev a" by simp
  have "last a \<in> set (a @ [sep])" using last_in_set [OF a] by simp
  with l have "\<exists>x\<in>set (a @ [sep]). x \<noteq> sep" by blast
  moreover have "rstrip sep (a @ [sep]) = a"
  proof -
    have "rstrip sep (a @ [sep]) = rstrip sep a" by (simp add: rstrip_def)
    also have "\<dots> = a" by (rule rstrip_last [OF a l])
    finally show ?thesis .
  qed
  ultimately show "dirname (a @ ''/'' @ c) = a"
    using d by (simp add: dirname_def path_head_def Let_def)
qed

lemma chain_complete:
  assumes "normal_rel r" "prefix (a @ ''/'') r" "a \<noteq> []"
  shows "a \<in> set (parent_chain r)"
  using assms
proof (induction "length r" arbitrary: r rule: less_induct)
  case less
  then obtain t where r: "r = a @ ''/'' @ t" by (auto simp: prefix_def)
  show ?case
  proof (cases "sep \<in> set t")
    case False
    then have d: "dirname r = a" using dirname_split(1) less.prems(1) r by metis
    then show ?thesis using less.prems(3) r parent_chain_unfold(1) [of r] by simp
  next
    case True
    then obtain t1 c where t: "t = t1 @ sep # c" "sep \<notin> set c" by (meson split_list_last)
    have rr: "r = (a @ ''/'' @ t1) @ ''/'' @ c" using r t by simp
    have d: "dirname r = a @ ''/'' @ t1" "normal_rel (a @ ''/'' @ t1)"
      using dirname_split [of "a @ ''/'' @ t1" c] less.prems(1) rr t(2) by metis+
    have "a \<in> set (parent_chain (dirname r))"
      by (rule less.hyps) (use d rr less.prems(3) in \<open>simp_all add: prefix_def\<close>)
    then show ?thesis
      using parent_chain_unfold [of r] d(1) less.prems(3) rr by (cases "dirname r = r") auto
  qed
qed

lemma chain_sound:
  assumes "a \<in> set (parent_chain r)" "normal_rel r"
  shows "prefix (a @ ''/'') r \<and> normal_rel a"
  using assms
proof (induction r rule: parent_chain.induct)
  case (1 r)
  then have nz: "dirname r \<noteq> [] \<and> dirname r \<noteq> r" by (auto simp: parent_chain_unfold)
  have "sep \<in> set r"
  proof (rule ccontr)
    assume "sep \<notin> set r"
    then have e: "dropWhile ((\<noteq>) sep) (rev r) = []" by auto
    have "dirname r = []" unfolding dirname_def path_head_def Let_def e by simp
    then show False using nz by simp
  qed
  then obtain b c where r: "r = b @ ''/'' @ c" "sep \<notin> set c" using split_list_last by fastforce
  have d: "dirname r = b" "normal_rel b" using dirname_split [of b c] "1.prems"(2) r by auto
  from "1.prems"(1) nz consider "a = b" | "a \<in> set (parent_chain b)" by (auto simp: parent_chain_unfold d(1))
  then show ?case
  proof cases
    case 1 with d r show ?thesis by (simp add: prefix_def)
  next
    case 2
    with "1.IH" nz d have "prefix (a @ ''/'') b \<and> normal_rel a" by simp
    with r show ?thesis by (auto intro: prefix_order.order_trans)
  qed
qed

lemma normal_rel_rstrip: "normal_rel r \<Longrightarrow> rstrip sep r = r"
  by (simp add: normal_rel_def rstrip_last)

section \<open>Properties\<close>

definition base_has :: "fs \<Rightarrow> protected_root \<Rightarrow> diff_entry \<Rightarrow> bool" where
  "base_has fs root e \<longleftrightarrow> lexists fs (path_join (pr_base root) (rel_path e))"

lemma shadowed_filter: "shadowed (filter (has_target fs root) diff) r = shadowed diff r"
  by (auto simp: shadowed_def has_target_def list_ex_iff)

lemma in_changes:
  "c \<in> set (changes_of_entries fs root diff) \<longleftrightarrow>
     (\<exists>e\<in>set diff. has_target fs root e \<and> c \<in> set (change_of_entry fs root (filter (has_target fs root) diff) e))"
  by (auto simp: changes_of_entries_def Let_def)

lemma listed_delete:
  assumes "c \<in> set (changes_of_entries fs root diff)" "ch_op c = ''D''"
  obtains e where "e \<in> set diff" "is_delete e" "has_target fs root e" "ch_path c = visible_path root (rel_path e)"
    "rel_path e \<in> set (visible_deletes (filter (has_target fs root) diff))"
    "outermost_delete (filter (has_target fs root) diff) (rel_path e) = None"
proof -
  let ?es = "filter (has_target fs root) diff"
  obtain e where e: "e \<in> set diff" "has_target fs root e" "c \<in> set (change_of_entry fs root ?es e)"
    using assms(1) by (auto simp: in_changes)
  then have d: "is_delete e" "\<not> structural ?es e" "\<not> shadowed ?es (rel_path e)" "\<not> collapsed ?es (rel_path e)"
    "ch_path c = visible_path root (rel_path e)"
    using assms(2) by (auto simp: change_of_entry_def Let_def split: if_splits)
  moreover have "rel_path e \<in> set (visible_deletes ?es)"
    using e d by (auto simp: visible_deletes_def)
  moreover have "outermost_delete ?es (rel_path e) = None"
    using e(1,2) d(1,4) by (auto simp: collapsed_def list_ex_iff)
  ultimately show thesis using that e(1,2) by blast
qed

lemma descendant_visible:
  assumes "normal_rel r"
  shows "is_descendant_path (visible_path root r') (visible_path root r) \<longleftrightarrow> prefix (r @ ''/'') r'"
proof -
  have "visible_path root r \<noteq> []" "last (visible_path root r) \<noteq> sep"
    using assms by (auto simp: visible_path_def normal_rel_def)
  then have "rstrip sep (visible_path root r) = visible_path root r" by (rule rstrip_last)
  then show ?thesis
    by (auto simp: is_descendant_path_def visible_path_def)
qed

definition status_dir :: "int \<Rightarrow> inode" where
  "status_dir n = \<lparr>in_content = Directory, in_dev = 1, in_ino = n, in_perm = 493, in_uid = 1, in_gid = 1, in_mtime = 0\<rparr>"

definition status_fs :: fs where
  "status_fs = \<lparr>fs_nodes =
     [([], status_dir 1), ([''base''], status_dir 2), ([''base'', ''src''], status_dir 3), ([''base'', ''src'', ''a''], status_dir 4)],
     fs_cwd = ''/'', fs_next_ino = 9, fs_clock = 0, fs_fault = (\<lambda>_ _. None)\<rparr>"

definition status_root :: protected_root where
  "status_root = \<lparr>pr_name = ''home'', pr_base = ''/base'', pr_store = ''/store'', pr_branch = ''s1'',
     pr_mount = ''/m/home'', pr_visible = ''/home/user'', pr_home_subdir = None, pr_hide_paths = []\<rparr>"

definition deleted_entry :: "string \<Rightarrow> diff_entry" where
  "deleted_entry p = \<lparr>de_op = ''delete'', de_path = p, de_kind = ''tombstone'', de_bytes = 0\<rparr>"

definition written_entry :: "string \<Rightarrow> diff_entry" where
  "written_entry p = \<lparr>de_op = ''delta'', de_path = p, de_kind = ''file'', de_bytes = 5\<rparr>"

lemma normal_rel_samples: "normal_rel ''src''" "normal_rel ''src/a''" "normal_rel ''new''"
  by (code_simp+)

text \<open>A recursive delete is shown once: of two deletions listed in a branch's status, neither lies below
  the other.\<close>

theorem status_deletes_outermost:
  assumes "\<forall>e\<in>set diff. normal_rel (rel_path e)"
    and "c \<in> set (changes_of_entries fs root diff)" "d \<in> set (changes_of_entries fs root diff)"
    and "ch_op c = ''D''" "ch_op d = ''D''"
  shows "\<not> is_descendant_path (ch_path c) (ch_path d)"
proof
  assume below: "is_descendant_path (ch_path c) (ch_path d)"
  let ?es = "filter (has_target fs root) diff"
  obtain e where e: "e \<in> set diff" "ch_path c = visible_path root (rel_path e)" "outermost_delete ?es (rel_path e) = None"
    using listed_delete [OF assms(2,4)] by metis
  obtain f where f: "f \<in> set diff" "ch_path d = visible_path root (rel_path f)" "rel_path f \<in> set (visible_deletes ?es)"
    using listed_delete [OF assms(3,5)] by metis
  have n: "normal_rel (rel_path e)" "normal_rel (rel_path f)" using assms(1) e(1) f(1) by auto
  have "prefix (rel_path f @ ''/'') (rel_path e)"
    using below descendant_visible [OF n(2)] by (simp add: e(2) f(2))
  then have "rel_path f \<in> set (parent_chain (rstrip sep (rel_path e)))"
    using chain_complete n normal_rel_rstrip by (metis normal_rel_def)
  then show False
    using e(3) f(3) by (auto simp: outermost_delete_def filter_empty_conv split: list.splits)
qed

lemma status_deletes_outermost_witness:
  "\<exists>c d. c \<in> set (changes_of_entries status_fs status_root [deleted_entry ''src'', deleted_entry ''src/a'']) \<and>
     d \<in> set (changes_of_entries status_fs status_root [deleted_entry ''src'', deleted_entry ''src/a'']) \<and>
     ch_op c = ''D'' \<and> ch_op d = ''D'' \<and> \<not> is_descendant_path (ch_path c) (ch_path d)"
proof -
  let ?diff = "[deleted_entry ''src'', deleted_entry ''src/a'']"
  have n: "\<forall>e\<in>set ?diff. normal_rel (rel_path e)"
    using normal_rel_samples by (simp add: deleted_entry_def rel_path_def lstrip_def)
  have "list_all (\<lambda>c. ch_op c = ''D'') (changes_of_entries status_fs status_root ?diff) \<and>
     changes_of_entries status_fs status_root ?diff \<noteq> []"
    by code_simp
  then obtain c where c: "c \<in> set (changes_of_entries status_fs status_root ?diff)" "ch_op c = ''D''"
    by (cases "changes_of_entries status_fs status_root ?diff") auto
  from status_deletes_outermost [OF n c(1) c(1) c(2) c(2)] c show ?thesis by blast
qed

text \<open>No deletion is lost: a tombstone whose path the base has, and which no written file or link
  replaces, is listed as a deletion at its own path or at a listed deletion above it.\<close>

theorem status_delete_covered:
  assumes "\<forall>e\<in>set diff. normal_rel (rel_path e)"
    and "e \<in> set diff" "is_delete e" "de_kind e \<noteq> ''dir''" "base_has fs root e" "\<not> shadowed diff (rel_path e)"
  shows "\<exists>c\<in>set (changes_of_entries fs root diff). ch_op c = ''D'' \<and>
    (ch_path c = visible_path root (rel_path e) \<or> is_descendant_path (visible_path root (rel_path e)) (ch_path c))"
proof -
  let ?es = "filter (has_target fs root) diff"
  have listed: "\<exists>c\<in>set (changes_of_entries fs root diff). ch_op c = ''D'' \<and> ch_path c = visible_path root (rel_path f)"
    if "f \<in> set ?es" "is_delete f" "\<not> structural ?es f" "\<not> shadowed ?es (rel_path f)"
      "outermost_delete ?es (rel_path f) = None" for f
    using that by (force simp: in_changes change_of_entry_def Let_def collapsed_def list_ex_iff)
  have e: "e \<in> set ?es" "\<not> structural ?es e" "\<not> shadowed ?es (rel_path e)"
    using assms by (auto simp: has_target_def base_has_def structural_def shadowed_filter)
  show ?thesis
  proof (cases "outermost_delete ?es (rel_path e)")
    case None
    with listed [of e] e assms(3) show ?thesis by blast
  next
    case (Some a)
    obtain us vs where c: "parent_chain (rstrip sep (rel_path e)) = us @ a # vs" "a \<in> set (visible_deletes ?es)"
      using outermost_split [OF Some] by metis
    obtain f where f: "f \<in> set ?es" "is_delete f" "\<not> structural ?es f" "\<not> shadowed ?es (rel_path f)" "rel_path f = a"
      using c(2) by (auto simp: visible_deletes_def)
    have "outermost_delete ?es a = None" by (rule outermost_is_outermost [OF Some rel_path_relative])
    with listed [OF f(1-4)] f(5) obtain c where "c \<in> set (changes_of_entries fs root diff)" "ch_op c = ''D''"
      "ch_path c = visible_path root a" by auto
    moreover have n: "normal_rel (rel_path e)" using assms(1,2) by blast
    have "prefix (a @ ''/'') (rel_path e) \<and> normal_rel a"
      using chain_sound [of a "rel_path e"] c(1) n normal_rel_rstrip [OF n] by auto
    ultimately show ?thesis using descendant_visible by metis
  qed
qed

lemma status_delete_covered_witness:
  "\<exists>c\<in>set (changes_of_entries status_fs status_root [deleted_entry ''src'', deleted_entry ''src/a'']). ch_op c = ''D'' \<and>
    (ch_path c = ''/home/user/src/a'' \<or> is_descendant_path ''/home/user/src/a'' (ch_path c))"
proof -
  let ?diff = "[deleted_entry ''src'', deleted_entry ''src/a'']"
  have n: "\<forall>e\<in>set ?diff. normal_rel (rel_path e)"
    using normal_rel_samples by (simp add: deleted_entry_def rel_path_def lstrip_def)
  have "base_has status_fs status_root (deleted_entry ''src/a'')" "\<not> shadowed ?diff (rel_path (deleted_entry ''src/a''))"
    by (code_simp+)
  moreover have "visible_path status_root (rel_path (deleted_entry ''src/a'')) = ''/home/user/src/a''" by code_simp
  ultimately show ?thesis
    using status_delete_covered [OF n, of "deleted_entry ''src/a''" status_fs status_root]
    by (simp add: deleted_entry_def is_delete_def)
qed

text \<open>Every write is listed with the right operation: a written path that is not merely the parent directory
  of other changes is listed at its visible path, as a modification when the base has the path and as an
  addition when it does not, with the entry's kind and size.\<close>

theorem status_write_listed:
  assumes "e \<in> set diff" "\<not> is_delete e" "de_kind e \<noteq> ''dir''"
  shows "\<exists>c\<in>set (changes_of_entries fs root diff). ch_path c = visible_path root (rel_path e) \<and>
    ch_op c = (if base_has fs root e then ''M'' else ''A'') \<and> ch_kind c = de_kind e \<and>
    ch_bytes c = de_bytes e \<and> ch_root c = pr_name root"
proof -
  let ?es = "filter (has_target fs root) diff"
  let ?c = "\<lparr>ch_op = (if base_has fs root e then ''M'' else ''A''), ch_path = visible_path root (rel_path e),
     ch_kind = de_kind e, ch_bytes = de_bytes e, ch_root = pr_name root, ch_summary = []\<rparr>"
  have "change_of_entry fs root ?es e = [?c]"
    using assms(2,3) by (simp add: change_of_entry_def Let_def structural_def base_has_def)
  then have "?c \<in> set (changes_of_entries fs root diff)"
    using assms(1,2) by (auto simp: in_changes has_target_def)
  then show ?thesis by (rule rev_bexI) simp
qed

lemma status_write_listed_witness:
  "\<exists>c\<in>set (changes_of_entries status_fs status_root [written_entry ''new'']). ch_path c = ''/home/user/new'' \<and> ch_op c = ''A''"
proof -
  have "\<not> base_has status_fs status_root (written_entry ''new'')" "visible_path status_root (rel_path (written_entry ''new'')) = ''/home/user/new''"
    by (code_simp+)
  then show ?thesis
    using status_write_listed [of "written_entry ''new''" "[written_entry ''new'']" status_fs status_root]
    by (auto simp: written_entry_def is_delete_def)
qed

end
