(* ===== verification/Backend.thy ===== *)
theory Backend
  imports Status Commits DeltaRouting
begin

text \<open>
  The branch backends of \<open>branchfs.py\<close>.  A backend works on the file system and a state of its own;
  \<open>backend\<close> collects the operations the supervisor calls, so that its code is modelled once for
  every backend.  \<open>FakeBranchFS\<close> is the in-process backend, modelled here in full; the adapter
  around the \<open>branchfs\<close> binary is in \<open>BranchfsCli\<close>.  A nested root is passed together with the
  parent it declares.
\<close>

section \<open>The interface\<close>

type_synonym 'b disk = "fs \<times> 'b"

record 'b backend =
  be_start_daemon :: "protected_root \<Rightarrow> ('b disk, unit) eff"
  be_create_branch :: "protected_root \<Rightarrow> string \<Rightarrow> ('b disk, unit) eff"
  be_create_nested :: "protected_root \<Rightarrow> nested_root \<Rightarrow> ('b disk, unit) eff"
  be_mount :: "protected_root \<Rightarrow> ('b disk, unit) eff"
  be_unmount :: "protected_root \<Rightarrow> ('b disk, unit) eff"
  be_freeze :: "protected_root \<Rightarrow> ('b disk, unit) eff"
  be_thaw :: "protected_root \<Rightarrow> ('b disk, unit) eff"
  be_status_report :: "protected_root \<Rightarrow> ('b disk, status_report) eff"
  be_commit :: "protected_root \<Rightarrow> ('b disk, json) eff"
  be_commit_nested :: "protected_root \<Rightarrow> nested_root \<Rightarrow> ('b disk, json) eff"
  be_abort :: "protected_root \<Rightarrow> ('b disk, unit) eff"
  be_abort_nested :: "protected_root \<Rightarrow> nested_root \<Rightarrow> ('b disk, unit) eff"
  be_prune_change :: "(protected_root \<Rightarrow> string \<Rightarrow> ('b disk, unit) eff) option"
  be_revert_path :: "protected_root \<Rightarrow> string \<Rightarrow> ('b disk, unit) eff"

definition on_fs :: "(fs, 'a) eff \<Rightarrow> ('b disk, 'a) eff" where
  "on_fs m = zoomE fst (\<lambda>f d. (f, snd d)) m"

definition on_state :: "('b \<Rightarrow> 'b) \<Rightarrow> ('b disk, unit) eff" where
  "on_state f = modE (\<lambda>d. (fst d, f (snd d)))"

text \<open>\<open>commit_failures.prune_backend_change\<close>: a backend with no \<open>prune_change\<close> has its store pruned.\<close>

definition prune_backend_change :: "'b backend \<Rightarrow> protected_root \<Rightarrow> string \<Rightarrow> ('b disk, unit) eff" where
  "prune_backend_change B root rel =
     (case be_prune_change B of Some prune \<Rightarrow> prune root rel | None \<Rightarrow> on_fs (prune_store_change root rel))"

section \<open>Helpers\<close>

text \<open>\<open>_remove_path\<close>.\<close>

definition remove_path :: "string \<Rightarrow> (fs, unit) eff" where
  "remove_path p =
     bindE (getE (\<lambda>fs. (islink fs p \<or> isfile fs p, isdir fs p))) (\<lambda>(leaf, dir).
       if leaf then os_unlink p else if dir then rmtree p else retE ())"

text \<open>\<open>os.walk(top)\<close>, top down: each directory with the names in it that are no directories.  Links to
  directories are listed but not entered; a directory that cannot be listed is skipped.\<close>

primrec os_walk :: "nat \<Rightarrow> fs \<Rightarrow> string \<Rightarrow> (string \<times> string list) list" where
  "os_walk 0 fs dir = []"
| "os_walk (Suc n) fs dir =
     (case listdir fs dir of
        Inl _ \<Rightarrow> []
      | Inr names \<Rightarrow>
          (let dirs = filter (\<lambda>c. isdir fs (path_join dir c)) names;
               files = filter (\<lambda>c. \<not> isdir fs (path_join dir c)) names
           in (dir, files) # concat (map (\<lambda>c. let p = path_join dir c in
                if islink fs p then [] else os_walk n fs p) dirs)))"

text \<open>Every file below \<open>top\<close>: its path and its path relative to \<open>top\<close>.\<close>

definition walk_files :: "fs \<Rightarrow> string \<Rightarrow> (string \<times> string) list result" where
  "walk_files fs start =
     mapR (\<lambda>full. bindR (relpath (fs_cwd fs) full start) (\<lambda>rel. Inr (full, rel)))
       (concat (map (\<lambda>(dir, names). map (path_join dir) names) (os_walk (Suc (tree_depth fs)) fs start)))"

text \<open>\<open>_remove_empty_orphan_branch_dir\<close>: true when nothing of the branch is left.\<close>

definition remove_empty_orphan_branch_dir :: "protected_root \<Rightarrow> (fs, bool) eff" where
  "remove_empty_orphan_branch_dir root =
     (let path = branch_dir root in
      bindE (getE (\<lambda>fs. (exists_path fs path, isdir fs path, os_walk (Suc (tree_depth fs)) fs path)))
        (\<lambda>(here, dir, entries).
          if \<not> here then retE True
          else if \<not> dir then retE False
          else if list_ex (\<lambda>(d, names). names \<noteq> []) entries then retE False
          else seqE (rmtree path) (retE True)))"

section \<open>FakeBranchFS: state\<close>

type_synonym branch_key = "string \<times> string"

record fake =
  fk_state :: "(branch_key, string) dict"
  fk_deletes :: "(branch_key, string list) dict"
  fk_parents :: "(branch_key, string) dict"
  fk_mounted :: "(string, branch_key) dict"

definition empty_fake :: fake where
  "empty_fake = \<lparr>fk_state = [], fk_deletes = [], fk_parents = [], fk_mounted = []\<rparr>"

definition root_key :: "protected_root \<Rightarrow> branch_key" where
  "root_key root = (pr_store root, pr_branch root)"

definition fake_files_dir :: "protected_root \<Rightarrow> string" where
  "fake_files_dir root = path_joins (pr_store root) [''branches'', pr_branch root, ''files'']"

definition branch_state :: "fake \<Rightarrow> protected_root \<Rightarrow> string" where
  "branch_state k root = (case dict_get (fk_state k) (root_key root) of Some s \<Rightarrow> s | None \<Rightarrow> ''open'')"

definition deletes_of :: "fake \<Rightarrow> branch_key \<Rightarrow> string list" where
  "deletes_of k key = (case dict_get (fk_deletes k) key of Some ds \<Rightarrow> ds | None \<Rightarrow> [])"

definition parent_of :: "fake \<Rightarrow> branch_key \<Rightarrow> string" where
  "parent_of k key = (case dict_get (fk_parents k) key of Some p \<Rightarrow> p | None \<Rightarrow> ''main'')"

definition set_state :: "protected_root \<Rightarrow> string \<Rightarrow> fake \<Rightarrow> fake" where
  "set_state root s k = k\<lparr>fk_state := dict_set (fk_state k) (root_key root) s\<rparr>"

definition set_deletes :: "branch_key \<Rightarrow> string list \<Rightarrow> fake \<Rightarrow> fake" where
  "set_deletes key ds k = k\<lparr>fk_deletes := dict_set (fk_deletes k) key ds\<rparr>"

definition record_delete :: "protected_root \<Rightarrow> string \<Rightarrow> fake \<Rightarrow> fake" where
  "record_delete root rel k = set_deletes (root_key root) (List.insert rel (deletes_of k (root_key root))) k"

section \<open>FakeBranchFS: operations\<close>

definition fake_start_daemon :: "protected_root \<Rightarrow> (fake disk, unit) eff" where
  "fake_start_daemon root = on_fs (makedirs (pr_store root))"

definition fake_create_branch :: "protected_root \<Rightarrow> string \<Rightarrow> (fake disk, unit) eff" where
  "fake_create_branch root parent =
     seqE (on_fs (makedirs (fake_files_dir root)))
          (on_state (\<lambda>k. let k = set_state root ''open'' k;
                          k = set_deletes (root_key root) (deletes_of k (root_key root)) k
                      in k\<lparr>fk_parents := dict_set (fk_parents k) (root_key root) parent\<rparr>))"

definition fake_create_nested :: "protected_root \<Rightarrow> nested_root \<Rightarrow> (fake disk, unit) eff" where
  "fake_create_nested outer child =
     seqE (readE (\<lambda>(fs, k). validate_nested_roots (fs_cwd fs) outer (nested_as_root child) (nr_parent_branch child)))
    (bindE (getE (\<lambda>(fs, k). dict_has (fk_state k) (root_key outer))) (\<lambda>known.
       if \<not> known then raiseE (BranchfsError ''outer branch does not exist in fake BranchFS'')
       else fake_create_branch (nested_as_root child) (pr_branch outer)))"

definition fake_require_nested_parent :: "protected_root \<Rightarrow> nested_root \<Rightarrow> (fake disk, unit) eff" where
  "fake_require_nested_parent outer child =
     seqE (readE (\<lambda>(fs, k). validate_nested_roots (fs_cwd fs) outer (nested_as_root child) (nr_parent_branch child)))
    (bindE (getE (\<lambda>(fs, k). dict_get (fk_parents k) (root_key (nested_as_root child)))) (\<lambda>actual.
       if actual \<noteq> Some (pr_branch outer)
       then raiseE (BranchfsError ''nested branch has another parent; refusing an operation that could target base'')
       else retE ()))"

definition fake_mount :: "protected_root \<Rightarrow> (fake disk, unit) eff" where
  "fake_mount root =
     (let files = fake_files_dir root; parent = dirname (pr_mount root) in
      seqE (on_fs (makedirs files))
     (seqE (whenE (parent \<noteq> []) (on_fs (makedirs parent)))
     (seqE (bindE (getE (\<lambda>(fs, k). islink fs (pr_mount root) \<or> exists_path fs (pr_mount root))) (\<lambda>here.
              whenE (\<not> here) (on_fs (os_symlink files (pr_mount root)))))
           (on_state (\<lambda>k. k\<lparr>fk_mounted := dict_set (fk_mounted k) (pr_mount root) (root_key root)\<rparr>)))))"

definition fake_unmount :: "protected_root \<Rightarrow> (fake disk, unit) eff" where
  "fake_unmount root =
     seqE (on_state (\<lambda>k. k\<lparr>fk_mounted := dict_pop (fk_mounted k) (pr_mount root)\<rparr>))
    (bindE (getE (\<lambda>(fs, k). islink fs (pr_mount root))) (\<lambda>link.
       whenE link (on_fs (os_unlink (pr_mount root)))))"

definition fake_freeze :: "protected_root \<Rightarrow> (fake disk, unit) eff" where
  "fake_freeze root = on_state (set_state root ''frozen'')"

definition fake_thaw :: "protected_root \<Rightarrow> (fake disk, unit) eff" where
  "fake_thaw root = on_state (set_state root ''open'')"

text \<open>\<open>os.path.getsize\<close> follows links, and raises for one that leads nowhere.\<close>

definition fake_status_report :: "protected_root \<Rightarrow> (fake disk, status_report) eff" where
  "fake_status_report root = readE (\<lambda>(fs, k).
     let files = fake_files_dir root in
     bindR (if isdir fs files then walk_files fs files else Inr []) (\<lambda>found.
     bindR (mapR (\<lambda>(full, rel). bindR (stat fs full) (\<lambda>node.
              Inr \<lparr>de_op = ''delta'', de_path = rel, de_kind = ''file'', de_bytes = content_size (in_content node)\<rparr>))
              found) (\<lambda>delta.
       Inr \<lparr>sr_changes = changes_of_entries fs root (delta
              @ map (\<lambda>rel. \<lparr>de_op = ''delete'', de_path = rel, de_kind = ''tombstone'', de_bytes = 0\<rparr>)
                  (sort (deletes_of k (root_key root)))),
            sr_warnings = []\<rparr>)))"

definition branch_files :: "string \<Rightarrow> string \<Rightarrow> string" where
  "branch_files store branch = path_joins store [''branches'', branch, ''files'']"

definition is_deleted :: "fake \<Rightarrow> branch_key \<Rightarrow> string \<Rightarrow> bool" where
  "is_deleted k key rel =
     (let rel = strip_char sep rel in
      list_ex (\<lambda>d. rel = d \<or> startswith rel (rstrip sep d @ ''/'')) (deletes_of k key))"

text \<open>Each step goes to a branch not seen before, so the number of parents is enough fuel.\<close>

primrec visible_path_exists :: "nat \<Rightarrow> fs \<Rightarrow> fake \<Rightarrow> string \<Rightarrow> string \<Rightarrow> string \<Rightarrow> string \<Rightarrow> branch_key list \<Rightarrow> bool result" where
  "visible_path_exists 0 fs k store branch base rel seen = Inl (BranchfsError ''cycle in fake BranchFS parent graph'')"
| "visible_path_exists (Suc n) fs k store branch base rel seen =
     (let key = (store, branch) in
      if key \<in> set seen then Inl (BranchfsError ''cycle in fake BranchFS parent graph'')
      else if lexists fs (path_join (branch_files store branch) rel) then Inr True
      else if is_deleted k key rel then Inr False
      else let parent = parent_of k key in
        if parent = ''main'' then Inr (lexists fs (path_join base rel))
        else visible_path_exists n fs k store parent base rel (key # seen))"

definition inherited_path_exists :: "fs \<Rightarrow> fake \<Rightarrow> protected_root \<Rightarrow> string \<Rightarrow> string \<Rightarrow> bool result" where
  "inherited_path_exists fs k root branch rel =
     (let parent = parent_of k (pr_store root, branch) in
      if parent = ''main'' then Inr (lexists fs (path_join (pr_base root) rel))
      else visible_path_exists (length (fk_parents k) + 2) fs k (pr_store root) parent (pr_base root) rel [])"

text \<open>The tree that is copied is listed once, before the first copy.\<close>

definition copy_delta_files :: "string \<Rightarrow> string \<Rightarrow> (string \<Rightarrow> fake \<Rightarrow> fake) \<Rightarrow> (fake disk, unit) eff" where
  "copy_delta_files source destination on_copy =
     bindE (getE (\<lambda>(fs, k). isdir fs source)) (\<lambda>dir.
       whenE dir (bindE (readE (\<lambda>(fs, k). walk_files fs source)) (\<lambda>found.
         forE (\<lambda>(full, rel).
           (let dest = path_join destination rel in
            seqE (on_fs (remove_path dest))
           (seqE (on_fs (makedirs (dirname dest)))
           (seqE (bindE (getE (\<lambda>(fs, k). islink fs full)) (\<lambda>link.
                    if link then bindE (readE (\<lambda>(fs, k). readlink fs full)) (\<lambda>t. on_fs (os_symlink t dest))
                    else on_fs (copy2 full dest True)))
                 (on_state (on_copy rel)))))) found)))"

definition apply_to_base :: "protected_root \<Rightarrow> (fake disk, unit) eff" where
  "apply_to_base root =
     bindE (getE (\<lambda>(fs, k). deletes_of k (root_key root))) (\<lambda>deletes.
     seqE (forE (\<lambda>rel. on_fs (remove_path (path_join (pr_base root) rel))) deletes)
          (copy_delta_files (fake_files_dir root) (pr_base root) (\<lambda>_ k. k)))"

definition drop_tree :: "string \<Rightarrow> string list \<Rightarrow> string list" where
  "drop_tree rel ds = filter (\<lambda>d. \<not> (d = rel \<or> startswith d (rstrip sep rel @ ''/''))) ds"

definition merge_into_parent :: "protected_root \<Rightarrow> string \<Rightarrow> (fake disk, unit) eff" where
  "merge_into_parent root parent =
     (let pkey = (pr_store root, parent); files = branch_files (pr_store root) parent in
      bindE (getE (\<lambda>(fs, k). dict_has (fk_state k) pkey)) (\<lambda>known.
      if \<not> known then raiseE (BranchfsError (''parent branch '' @ parent @ '' does not exist''))
      else
        seqE (on_fs (makedirs files))
       (seqE (on_state (\<lambda>k. set_deletes pkey (deletes_of k pkey) k))
       (bindE (getE (\<lambda>(fs, k). sort (deletes_of k (root_key root)))) (\<lambda>deletes.
        seqE (forE (\<lambda>rel.
               (let rel = strip_char sep rel in
                bindE (readE (\<lambda>(fs, k). inherited_path_exists fs k root parent rel)) (\<lambda>inherited.
                seqE (on_fs (remove_path (path_join files rel)))
                     (on_state (\<lambda>k. let ds = drop_tree rel (deletes_of k pkey)
                                     in set_deletes pkey (if inherited then List.insert rel ds else ds) k))))) deletes)
             (copy_delta_files (fake_files_dir root) files
                (\<lambda>rel k. set_deletes pkey (drop_tree rel (deletes_of k pkey)) k)))))))"

definition fake_cleanup :: "protected_root \<Rightarrow> (fake disk, unit) eff" where
  "fake_cleanup root =
     (let files = fake_files_dir root in
      seqE (bindE (getE (\<lambda>(fs, k). isdir fs files)) (\<lambda>dir. whenE dir (on_fs (rmtree files))))
     (seqE (on_fs (makedirs files))
           (on_state (set_deletes (root_key root) []))))"

definition outcome_json :: "string \<Rightarrow> json" where
  "outcome_json parent = JObj [(''parent'', JStr parent), (''auto_merges'', JArr []), (''conflicts'', JArr [])]"

definition fake_commit :: "protected_root \<Rightarrow> (fake disk, json) eff" where
  "fake_commit root =
     bindE (getE (\<lambda>(fs, k). parent_of k (root_key root))) (\<lambda>parent.
     seqE (if parent = ''main'' then apply_to_base root else merge_into_parent root parent)
    (seqE (fake_cleanup root) (retE (outcome_json parent))))"

definition check_outcome :: "protected_root \<Rightarrow> json \<Rightarrow> json result" where
  "check_outcome outer outcome =
     bindR (as_obj outcome) (\<lambda>d.
       if get_default d ''parent'' JNull \<noteq> JStr (pr_branch outer)
       then Inl (BranchfsError ''nested commit reported another parent'') else Inr outcome)"

definition fake_commit_nested :: "protected_root \<Rightarrow> nested_root \<Rightarrow> (fake disk, json) eff" where
  "fake_commit_nested outer child =
     seqE (fake_require_nested_parent outer child)
    (bindE (fake_commit (nested_as_root child)) (\<lambda>outcome. liftE (check_outcome outer outcome)))"

definition fake_abort :: "protected_root \<Rightarrow> (fake disk, unit) eff" where
  "fake_abort root = fake_cleanup root"

definition fake_abort_nested :: "protected_root \<Rightarrow> nested_root \<Rightarrow> (fake disk, unit) eff" where
  "fake_abort_nested outer child =
     seqE (fake_require_nested_parent outer child) (fake_abort (nested_as_root child))"

definition fake_prune_change :: "protected_root \<Rightarrow> string \<Rightarrow> (fake disk, unit) eff" where
  "fake_prune_change root rel =
     seqE (on_fs (prune_store_change root rel))
          (on_state (\<lambda>k. set_deletes (root_key root)
             (drop_tree (strip_char sep rel) (deletes_of k (root_key root))) k))"

definition fake_revert_path :: "protected_root \<Rightarrow> string \<Rightarrow> (fake disk, unit) eff" where
  "fake_revert_path root rel = fake_prune_change root rel"

definition fake_backend :: "fake backend" where
  "fake_backend =
     \<lparr>be_start_daemon = fake_start_daemon, be_create_branch = fake_create_branch,
      be_create_nested = fake_create_nested, be_mount = fake_mount, be_unmount = fake_unmount,
      be_freeze = fake_freeze, be_thaw = fake_thaw, be_status_report = fake_status_report,
      be_commit = fake_commit, be_commit_nested = fake_commit_nested, be_abort = fake_abort,
      be_abort_nested = fake_abort_nested, be_prune_change = Some fake_prune_change,
      be_revert_path = fake_revert_path\<rparr>"

section \<open>The contract of nested branches\<close>

text \<open>
  What the route manager relies on: a nested operation on roots that do not describe one nested tree is
  refused before anything happens, and a nested commit that returns went into the outer branch.
\<close>

definition nested_valid :: "fs \<Rightarrow> protected_root \<Rightarrow> nested_root \<Rightarrow> unit result" where
  "nested_valid fs outer child = validate_nested_roots (fs_cwd fs) outer (nested_as_root child) (nr_parent_branch child)"

definition merged_into :: "protected_root \<Rightarrow> json \<Rightarrow> bool" where
  "merged_into outer outcome \<longleftrightarrow> pr_branch outer \<noteq> ''main'' \<and>
     (\<exists>m. outcome = JObj m \<and> get_default m ''parent'' JNull = JStr (pr_branch outer))"

lemma nested_valid_not_main: "nested_valid fs outer child = Inr () \<Longrightarrow> pr_branch outer \<noteq> ''main''"
  by (auto simp: nested_valid_def validate_nested_roots_def split: if_splits)

lemma check_outcome_Inr:
  "check_outcome outer outcome = Inr out \<Longrightarrow> \<exists>m. out = JObj m \<and> get_default m ''parent'' JNull = JStr (pr_branch outer)"
  by (cases outcome) (auto simp: check_outcome_def split: if_splits)

locale nested_backend =
  fixes B :: "'b backend"
  assumes nested_refused: "nested_valid (fst d) outer child = Inl e \<Longrightarrow>
      be_commit_nested B outer child d = (Inl e, d) \<and> be_abort_nested B outer child d = (Inl e, d) \<and>
      be_create_nested B outer child d = (Inl e, d)"
    and nested_outcome: "be_commit_nested B outer child d = (Inr outcome, d') \<Longrightarrow>
      \<exists>m. outcome = JObj m \<and> get_default m ''parent'' JNull = JStr (pr_branch outer)"
begin

lemma commit_nested_merges:
  assumes "be_commit_nested B outer child d = (Inr outcome, d')"
  shows "merged_into outer outcome"
proof -
  have "nested_valid (fst d) outer child = Inr ()"
    using nested_refused [of d outer child] assms by (cases "nested_valid (fst d) outer child") auto
  then show ?thesis
    using nested_valid_not_main nested_outcome [OF assms] by (auto simp: merged_into_def)
qed

end

text \<open>A check before an operation: the operation runs only when the check passes.\<close>

lemma read_seq_refused:
  assumes "q s = Inl e"
  shows "seqE (readE q) m s = (Inl e, s)"
  using assms by (simp add: seqE_def bindE_def readE_def)

lemma bind_lift_Inr:
  assumes "bindE m (\<lambda>x. liftE (f x)) s = (Inr y, t)"
  shows "\<exists>x. f x = Inr y"
  using assms by (auto simp: bindE_def liftE_def split: prod.splits sum.splits)

lemma seq_Inr: "seqE m n s = (Inr y, t) \<Longrightarrow> \<exists>x u. m s = (Inr x, u) \<and> n u = (Inr y, t)"
  by (auto simp: seqE_def bindE_def split: prod.splits sum.splits)

interpretation fake: nested_backend fake_backend
proof
  fix d :: "fake disk" and outer child e
  assume "nested_valid (fst d) outer child = Inl e"
  then have v: "(\<lambda>(fs, k). validate_nested_roots (fs_cwd fs) outer (nested_as_root child) (nr_parent_branch child)) d = Inl e"
    by (cases d) (simp add: nested_valid_def)
  have r: "fake_require_nested_parent outer child d = (Inl e, d)"
    unfolding fake_require_nested_parent_def by (rule read_seq_refused) (rule v)
  have "fake_create_nested outer child d = (Inl e, d)"
    unfolding fake_create_nested_def by (rule read_seq_refused) (rule v)
  with r show "be_commit_nested fake_backend outer child d = (Inl e, d) \<and> be_abort_nested fake_backend outer child d = (Inl e, d) \<and>
      be_create_nested fake_backend outer child d = (Inl e, d)"
    by (simp add: fake_backend_def fake_commit_nested_def fake_abort_nested_def seqE_def bindE_def)
next
  fix d d' :: "fake disk" and outer child outcome
  assume "be_commit_nested fake_backend outer child d = (Inr outcome, d')"
  then show "\<exists>m. outcome = JObj m \<and> get_default m ''parent'' JNull = JStr (pr_branch outer)"
    by (auto simp: fake_backend_def fake_commit_nested_def dest!: seq_Inr bind_lift_Inr check_outcome_Inr)
qed

end
