(* ===== verification/BranchfsCli.thy ===== *)
theory BranchfsCli
  imports Backend
begin

text \<open>
  The adapter around the \<open>branchfs\<close> binary (\<open>branchfs.BranchfsCli\<close>).  The binary and its daemon
  are code outside the repository: running a command is an operation given by the argument
  \<open>cl_run\<close>, which may do anything to the file system and to the daemon's state and may raise.
  \<open>cl_loads\<close> is \<open>json.loads\<close>, \<open>cl_ready\<close> the probe of the daemon's socket and \<open>cl_polls\<close> the number of
  polls that fit into the timeout.
\<close>

section \<open>Mount table\<close>

text \<open>\<open>str.replace\<close> for a non-empty pattern and \<open>str.split()\<close>.\<close>

function (sequential) str_replace :: "string \<Rightarrow> string \<Rightarrow> string \<Rightarrow> string" where
  "str_replace old new [] = []"
| "str_replace old new (x # xs) =
     (if old \<noteq> [] \<and> prefix old (x # xs) then new @ str_replace old new (drop (length old) (x # xs))
      else x # str_replace old new xs)"
  by pat_completeness auto
termination str_replace
  by (relation "measure (\<lambda>(old, new, s). length s)") auto

fun split_ws :: "string \<Rightarrow> string list" where
  "split_ws [] = []"
| "split_ws (x # xs) =
     (if is_space x then split_ws xs
      else case (xs, split_ws xs) of
             ([], _) \<Rightarrow> [[x]]
           | (y # ys, ws) \<Rightarrow> if is_space y then [x] # ws else (case ws of [] \<Rightarrow> [[x]] | w # rest \<Rightarrow> (x # w) # rest))"

definition decode_mountinfo_field :: "string \<Rightarrow> string" where
  "decode_mountinfo_field v =
     str_replace (CHR 0x5C # ''134'') [CHR 0x5C]
       (str_replace (CHR 0x5C # ''012'') [CHR 0x0A]
         (str_replace (CHR 0x5C # ''011'') [CHR 0x09]
           (str_replace (CHR 0x5C # ''040'') '' '' v)))"

record mount_entry =
  me_mountpoint :: string
  me_fstype :: string
  me_source :: string

definition mount_fields :: "string \<Rightarrow> string list \<Rightarrow> mount_entry option" where
  "mount_fields cwd columns =
     (if length columns < 10 then None
      else let before = takeWhile ((\<noteq>) ''-'') columns; after = drop (length before + 1) columns in
        if length before = length columns \<or> length after < 2 then None
        else Some \<lparr>me_mountpoint = abspath cwd (decode_mountinfo_field (columns ! 4)),
                   me_fstype = after ! 0, me_source = after ! 1\<rparr>)"

definition mountinfo_entry :: "fs \<Rightarrow> string \<Rightarrow> string \<Rightarrow> mount_entry option" where
  "mountinfo_entry fs path mountinfo_path =
     (let target = abspath (fs_cwd fs) path in
      case read_file fs mountinfo_path of
        Inl _ \<Rightarrow> None
      | Inr data \<Rightarrow>
          (case filter (\<lambda>m. case m of Some e \<Rightarrow> me_mountpoint e = target | None \<Rightarrow> False)
                  (map (\<lambda>line. mount_fields (fs_cwd fs) (split_ws line)) (file_lines data)) of
             Some e # _ \<Rightarrow> Some e
           | _ \<Rightarrow> None))"

definition branchfs_mountinfo_entry :: "fs \<Rightarrow> string \<Rightarrow> string \<Rightarrow> mount_entry option" where
  "branchfs_mountinfo_entry fs path mountinfo_path =
     (case mountinfo_entry fs path mountinfo_path of
        None \<Rightarrow> None
      | Some e \<Rightarrow> if (me_fstype e = ''fuse'' \<or> startswith (me_fstype e) ''fuse.'') \<and>
                    (me_source e = ''branchfs'' \<or> me_fstype e = ''fuse.branchfs'')
                  then Some e else None)"

section \<open>The adapter\<close>

type_synonym 'b command = "string list \<Rightarrow> ('b disk, int \<times> string \<times> string) eff"

record 'b cli =
  cl_binary :: string
  cl_run :: "'b command"
  cl_lazy_run :: "'b command"
  cl_loads :: "string \<Rightarrow> json result"
  cl_polls :: nat
  cl_timeout :: string
  cl_ready :: "string \<Rightarrow> ('b disk, bool) eff"
  cl_mountinfo_path :: string

definition str_or_else :: "string \<Rightarrow> string \<Rightarrow> string" where
  "str_or_else a b = (if a = [] then b else a)"

definition lazy_attempt :: "'b cli \<Rightarrow> string list \<Rightarrow> ('b disk, string option) eff" where
  "lazy_attempt c argv =
     bindE (cl_lazy_run c argv) (\<lambda>(code, out, err).
       if code = 0 then retE None
       else let detail = str_strip (str_or_else err (str_or_else out (''exit '' @ show_int code))) in
         retE (if str_in ''not mounted'' (str_lower detail) \<or> str_in ''not found in'' (str_lower detail) then None
               else Some (join_with '' '' argv @ '': '' @ detail)))"

text \<open>Three commands in turn, until one succeeds or says that nothing is mounted.\<close>

definition lazy_unmount_path :: "'b cli \<Rightarrow> string \<Rightarrow> ('b disk, unit) eff" where
  "lazy_unmount_path c path =
     bindE (foldE (\<lambda>acc argv. case acc of
              None \<Rightarrow> retE None
            | Some attempts \<Rightarrow> bindE (lazy_attempt c argv) (\<lambda>r. case r of
                None \<Rightarrow> retE None | Some a \<Rightarrow> retE (Some (attempts @ [a]))))
            (Some []) [[''fusermount3'', ''-uz'', path], [''fusermount'', ''-uz'', path], [''umount'', ''-l'', path]])
       (\<lambda>acc. case acc of
          None \<Rightarrow> retE ()
        | Some attempts \<Rightarrow> raiseE (BranchfsError (''lazy unmount failed for '' @ path @ '': '' @ join_with ''; '' attempts)))"

definition cli_invoke :: "'b cli \<Rightarrow> string list \<Rightarrow> ('b disk, string) eff" where
  "cli_invoke c argv =
     bindE (cl_run c (cl_binary c # argv)) (\<lambda>(code, out, err).
       if code \<noteq> 0
       then raiseE (BranchfsError (cl_binary c @ '' '' @ hd argv @ '' failed ('' @ show_int code @ ''): ''
              @ str_or_else (str_strip err) (str_strip out)))
       else retE out)"

definition daemon_socket :: "protected_root \<Rightarrow> string" where
  "daemon_socket root = path_join (pr_store root) ''daemon.sock''"

primrec wait_for_daemon_socket :: "nat \<Rightarrow> 'b cli \<Rightarrow> protected_root \<Rightarrow> ('b disk, bool) eff" where
  "wait_for_daemon_socket 0 c root = cl_ready c (daemon_socket root)"
| "wait_for_daemon_socket (Suc n) c root =
     bindE (cl_ready c (daemon_socket root)) (\<lambda>ready.
       if ready then retE True else wait_for_daemon_socket n c root)"

definition cli_start_daemon :: "'b cli \<Rightarrow> protected_root \<Rightarrow> ('b disk, unit) eff" where
  "cli_start_daemon c root =
     catchE (seqE (cli_invoke c [''start-daemon'', ''--base'', pr_base root, ''--storage'', pr_store root]) (retE ()))
       (\<lambda>e. case e of
          BranchfsError m \<Rightarrow>
            if \<not> str_in ''Daemon failed to start'' m then raiseE e
            else bindE (wait_for_daemon_socket (cl_polls c) c root) (\<lambda>ready.
              if ready then retE ()
              else raiseE (BranchfsError (m @ ''; daemon socket '' @ daemon_socket root
                     @ '' was not reachable within ccc-agent's '' @ cl_timeout c @ '' timeout.'')))
        | _ \<Rightarrow> raiseE e)"

definition cli_create_branch :: "'b cli \<Rightarrow> protected_root \<Rightarrow> string \<Rightarrow> ('b disk, unit) eff" where
  "cli_create_branch c root parent =
     seqE (cli_start_daemon c root)
    (seqE (cli_invoke c ([''create'', pr_branch root, ''--parent'', parent, ''--storage'', pr_store root]
             @ concat (map (\<lambda>h. [''--hide'', h]) (pr_hide_paths root)))) (retE ()))"

definition cli_create_nested :: "'b cli \<Rightarrow> protected_root \<Rightarrow> nested_root \<Rightarrow> ('b disk, unit) eff" where
  "cli_create_nested c outer child =
     seqE (readE (\<lambda>(fs, k). validate_nested_roots (fs_cwd fs) outer (nested_as_root child) (nr_parent_branch child)))
          (cli_create_branch c (nested_as_root child) (pr_branch outer))"

definition loads_or :: "'b cli \<Rightarrow> string \<Rightarrow> string \<Rightarrow> ('b disk, json) eff" where
  "loads_or c what out =
     catchE (liftE (cl_loads c out))
       (\<lambda>e. if is_value_error e then raiseE (BranchfsError (what @ exn_str e)) else raiseE e)"

definition cli_require_nested_parent :: "'b cli \<Rightarrow> protected_root \<Rightarrow> nested_root \<Rightarrow> ('b disk, unit) eff" where
  "cli_require_nested_parent c outer child =
     seqE (readE (\<lambda>(fs, k). validate_nested_roots (fs_cwd fs) outer (nested_as_root child) (nr_parent_branch child)))
    (seqE (cli_start_daemon c (nested_as_root child))
    (bindE (cli_invoke c [''status'', nr_branch child, ''--storage'', nr_store child, ''--json'']) (\<lambda>out.
     bindE (loads_or c ''unparseable nested branch status: '' out) (\<lambda>data.
     bindE (liftE (as_obj data)) (\<lambda>d.
       if get_default d ''parent'' JNull \<noteq> JStr (pr_branch outer)
       then raiseE (BranchfsError ''nested branch has another parent; refusing an operation that could target base'')
       else retE ())))))"

definition cli_commit :: "'b cli \<Rightarrow> protected_root \<Rightarrow> ('b disk, json) eff" where
  "cli_commit c root =
     seqE (cli_start_daemon c root)
    (bindE (cli_invoke c [''commit-branch'', pr_branch root, ''--storage'', pr_store root, ''--json'']) (\<lambda>out.
       loads_or c ''unparseable commit outcome: '' out))"

definition cli_commit_nested :: "'b cli \<Rightarrow> protected_root \<Rightarrow> nested_root \<Rightarrow> ('b disk, json) eff" where
  "cli_commit_nested c outer child =
     seqE (cli_require_nested_parent c outer child)
    (bindE (cli_commit c (nested_as_root child)) (\<lambda>outcome. liftE (check_outcome outer outcome)))"

definition cli_abort :: "'b cli \<Rightarrow> protected_root \<Rightarrow> ('b disk, unit) eff" where
  "cli_abort c root =
     seqE (cli_start_daemon c root)
    (catchE (seqE (cli_invoke c [''abort-branch'', pr_branch root, ''--storage'', pr_store root]) (retE ()))
       (\<lambda>e. case e of
          BranchfsError m \<Rightarrow>
            if str_in ''branch not found'' m
            then bindE (on_fs (remove_empty_orphan_branch_dir root)) (\<lambda>gone. if gone then retE () else raiseE e)
            else raiseE e
        | _ \<Rightarrow> raiseE e))"

definition cli_abort_nested :: "'b cli \<Rightarrow> protected_root \<Rightarrow> nested_root \<Rightarrow> ('b disk, unit) eff" where
  "cli_abort_nested c outer child =
     seqE (cli_require_nested_parent c outer child) (cli_abort c (nested_as_root child))"

definition cli_mount :: "'b cli \<Rightarrow> bool \<Rightarrow> bool \<Rightarrow> protected_root \<Rightarrow> ('b disk, unit) eff" where
  "cli_mount c agent allow_other root =
     seqE (cli_start_daemon c root)
    (seqE (cli_invoke c ([''mount'', ''--storage'', pr_store root, ''--branch'', pr_branch root]
             @ (if agent then [''--agent''] else []) @ (if allow_other then [''--allow-other''] else [])
             @ [pr_mount root])) (retE ()))"

definition mounted_here :: "'b cli \<Rightarrow> protected_root \<Rightarrow> ('b disk, bool) eff" where
  "mounted_here c root =
     getE (\<lambda>(fs, k). branchfs_mountinfo_entry fs (pr_mount root) (cl_mountinfo_path c) \<noteq> None)"

definition cli_cleanup_stale_mount :: "'b cli \<Rightarrow> protected_root \<Rightarrow> ('b disk, unit) eff" where
  "cli_cleanup_stale_mount c root =
     bindE (mounted_here c root) (\<lambda>m. if m then lazy_unmount_path c (pr_mount root) else retE ())"

definition cli_unmount :: "'b cli \<Rightarrow> protected_root \<Rightarrow> ('b disk, unit) eff" where
  "cli_unmount c root =
     catchE (seqE (cli_invoke c [''unmount'', pr_mount root, ''--storage'', pr_store root]) (retE ()))
       (\<lambda>e. case e of
          BranchfsError _ \<Rightarrow> bindE (mounted_here c root) (\<lambda>m.
            if m then lazy_unmount_path c (pr_mount root) else raiseE e)
        | _ \<Rightarrow> raiseE e)"

definition cli_freeze :: "'b cli \<Rightarrow> protected_root \<Rightarrow> ('b disk, unit) eff" where
  "cli_freeze c root =
     seqE (cli_start_daemon c root)
    (seqE (cli_invoke c [''freeze'', pr_branch root, ''--storage'', pr_store root]) (retE ()))"

definition cli_thaw :: "'b cli \<Rightarrow> protected_root \<Rightarrow> ('b disk, unit) eff" where
  "cli_thaw c root =
     seqE (cli_start_daemon c root)
    (seqE (cli_invoke c [''thaw'', pr_branch root, ''--storage'', pr_store root]) (retE ()))"

definition cli_status_report :: "'b cli \<Rightarrow> protected_root \<Rightarrow> ('b disk, status_report) eff" where
  "cli_status_report c root =
     bindE (catchE (seqE (cli_start_daemon c root)
                     (bindE (cli_invoke c [''status'', pr_branch root, ''--storage'', pr_store root, ''--json''])
                        (\<lambda>out. retE (Inr out))))
              (\<lambda>e. case e of
                 BranchfsError _ \<Rightarrow> bindE (readE (\<lambda>(fs, k). fallback_status_report fs root e)) (\<lambda>r. retE (Inl r))
               | _ \<Rightarrow> if is_os_error e
                      then bindE (readE (\<lambda>(fs, k). fallback_status_report fs root e)) (\<lambda>r. retE (Inl r))
                      else raiseE e))
       (\<lambda>answer. case answer of
          Inl report \<Rightarrow> retE report
        | Inr out \<Rightarrow>
            bindE (loads_or c ''unparseable status output: '' out) (\<lambda>data.
            bindE (liftE (as_obj data)) (\<lambda>d.
            bindE (readE (\<lambda>(fs, k). changes_from_status fs d root)) (\<lambda>changes.
            bindE (liftE (warnings_from_status d root)) (\<lambda>warnings.
              retE \<lparr>sr_changes = changes, sr_warnings = warnings\<rparr>)))))"

definition cli_revert_path :: "'b cli \<Rightarrow> protected_root \<Rightarrow> string \<Rightarrow> ('b disk, unit) eff" where
  "cli_revert_path c root rel =
     seqE (cli_start_daemon c root)
    (seqE (cli_invoke c [''revert-path'', pr_branch root, rel, ''--storage'', pr_store root]) (retE ()))"

definition cli_backend :: "'b cli \<Rightarrow> 'b backend" where
  "cli_backend c =
     \<lparr>be_start_daemon = cli_start_daemon c, be_create_branch = cli_create_branch c,
      be_create_nested = cli_create_nested c, be_mount = cli_mount c True False, be_unmount = cli_unmount c,
      be_freeze = cli_freeze c, be_thaw = cli_thaw c, be_status_report = cli_status_report c,
      be_commit = cli_commit c, be_commit_nested = cli_commit_nested c, be_abort = cli_abort c,
      be_abort_nested = cli_abort_nested c, be_prune_change = None, be_revert_path = cli_revert_path c\<rparr>"

text \<open>The adapter keeps the contract of nested branches, whatever the binary does.\<close>

interpretation cli: nested_backend "cli_backend c" for c :: "'b cli"
proof
  fix d :: "'b disk" and outer child e
  assume "nested_valid (fst d) outer child = Inl e"
  then have v: "(\<lambda>(fs, k). validate_nested_roots (fs_cwd fs) outer (nested_as_root child) (nr_parent_branch child)) d = Inl e"
    by (cases d) (simp add: nested_valid_def)
  have r: "cli_require_nested_parent c outer child d = (Inl e, d)"
    unfolding cli_require_nested_parent_def by (rule read_seq_refused) (rule v)
  have "cli_create_nested c outer child d = (Inl e, d)"
    unfolding cli_create_nested_def by (rule read_seq_refused) (rule v)
  with r show "be_commit_nested (cli_backend c) outer child d = (Inl e, d) \<and>
      be_abort_nested (cli_backend c) outer child d = (Inl e, d) \<and> be_create_nested (cli_backend c) outer child d = (Inl e, d)"
    by (simp add: cli_backend_def cli_commit_nested_def cli_abort_nested_def seqE_def bindE_def)
next
  fix d d' :: "'b disk" and outer child outcome
  assume "be_commit_nested (cli_backend c) outer child d = (Inr outcome, d')"
  then show "\<exists>m. outcome = JObj m \<and> get_default m ''parent'' JNull = JStr (pr_branch outer)"
    by (auto simp: cli_backend_def cli_commit_nested_def dest!: seq_Inr bind_lift_Inr check_outcome_Inr)
qed

end
