(* ===== verification/World.thy ===== *)
theory World
  imports BranchfsCli Apply
begin

text \<open>
  The state the supervisor's operations share: the file system, the backend's state, the live
  session, the session store and the live routes.  \<open>env\<close> holds what an operation gets from
  outside: the time it stamps, fresh names, SHA-256 and the JSON encoder and decoder.  One
  operation reads one time.
\<close>

record 'b world =
  w_fs :: fs
  w_be :: 'b
  w_session :: session
  w_store :: session_store
  w_routes :: "(string, delta_route) dict"

record env =
  en_now :: string
  en_fresh :: string
  en_sha :: "string \<Rightarrow> string"
  en_dumps :: "json \<Rightarrow> string"
  en_loads :: "string \<Rightarrow> json result"

definition disk_of :: "'b world \<Rightarrow> 'b disk" where
  "disk_of w = (w_fs w, w_be w)"

definition set_disk :: "'b disk \<Rightarrow> 'b world \<Rightarrow> 'b world" where
  "set_disk d w = w\<lparr>w_fs := fst d, w_be := snd d\<rparr>"

definition on_disk :: "('b disk, 'a) eff \<Rightarrow> ('b world, 'a) eff" where
  "on_disk m = zoomE disk_of set_disk m"

definition on_files :: "(fs, 'a) eff \<Rightarrow> ('b world, 'a) eff" where
  "on_files m = on_disk (on_fs m)"

definition on_session :: "(session \<Rightarrow> session result) \<Rightarrow> ('b world, unit) eff" where
  "on_session f = bindE (readE (\<lambda>w. f (w_session w))) (\<lambda>s. modE (\<lambda>w. w\<lparr>w_session := s\<rparr>))"

definition mod_session :: "(session \<Rightarrow> session) \<Rightarrow> ('b world, unit) eff" where
  "mod_session f = modE (\<lambda>w. w\<lparr>w_session := f (w_session w)\<rparr>)"

definition the_session :: "('b world, session) eff" where
  "the_session = getE w_session"

definition set_policy :: "string \<Rightarrow> json \<Rightarrow> session \<Rightarrow> session" where
  "set_policy k v s = s\<lparr>s_policy := dict_set (s_policy s) k v\<rparr>"

definition save_session :: "('b world, unit) eff" where
  "save_session = modE (\<lambda>w. w\<lparr>w_store := store_save (w_session w) (w_store w)\<rparr>)"

text \<open>The result of an operation as a value: \<open>try ... except Exception as exc\<close>.\<close>

definition tryE :: "('s, 'a) eff \<Rightarrow> ('s, 'a result) eff" where
  "tryE m = (\<lambda>s. case m s of (r, t) \<Rightarrow> (Inr r, t))"

lemma wp_try [wp_simps]: "wp (tryE m) Q E s = wp m (\<lambda>x. Q (Inr x)) (\<lambda>e. Q (Inl e)) s"
  by (simp add: wp_def tryE_def split: prod.split sum.split)

lemma wp_on_disk [wp_simps]:
  "wp (on_disk m) Q E w = wp m (\<lambda>x d. Q x (set_disk d w)) (\<lambda>e d. E e (set_disk d w)) (disk_of w)"
  by (simp add: on_disk_def wp_simps)

lemma keeps_try [keeps_intros]: "keeps I m \<Longrightarrow> keeps I (tryE m)"
  by (simp add: keeps_wp wp_try)

text \<open>\<open>str(v)\<close> of a JSON value; the rendering of a container is abbreviated.\<close>

fun py_str :: "json \<Rightarrow> string" where
  "py_str (JStr s) = s"
| "py_str (JInt i) = show_int i"
| "py_str (JBool b) = (if b then ''True'' else ''False'')"
| "py_str JNull = ''None''"
| "py_str (JArr _) = ''[...]''"
| "py_str (JObj _) = ''{...}''"

text \<open>The temporary file, its replacement of the destination, and its removal when that fails.\<close>

definition atomic_write :: "string \<Rightarrow> string \<Rightarrow> string \<Rightarrow> (fs, unit) eff" where
  "atomic_write fresh path data =
     (let parent = dirname path; tmp = path_join parent (''.tmp-'' @ fresh) in
      seqE (makedirs parent)
           (catchE (seqE (write_file tmp data) (os_replace tmp path))
              (\<lambda>e. seqE (bindE (getE (\<lambda>fs. exists_path fs tmp)) (\<lambda>here. whenE here (os_unlink tmp))) (raiseE e))))"

text \<open>What an operation on the disk leaves alone.\<close>

lemma set_disk_simps [simp]:
  "w_session (set_disk d w) = w_session w" "w_store (set_disk d w) = w_store w" "w_routes (set_disk d w) = w_routes w"
  "disk_of (set_disk d w) = d" "set_disk (disk_of w) w = w" "w_fs (set_disk d w) = fst d" "w_be (set_disk d w) = snd d"
  "set_disk d (set_disk d' w) = set_disk d w"
  by (simp_all add: set_disk_def disk_of_def)

lemma keeps_on_disk: "(\<And>d w. I w \<Longrightarrow> I (set_disk d w)) \<Longrightarrow> keeps I (on_disk m)"
  by (simp add: keeps_def on_disk_def zoomE_def split: prod.split)

lemma keeps_on_files: "(\<And>d w. I w \<Longrightarrow> I (set_disk d w)) \<Longrightarrow> keeps I (on_files m)"
  unfolding on_files_def by (rule keeps_on_disk)

lemma keeps_mod: "(\<And>s. I s \<Longrightarrow> I (f s)) \<Longrightarrow> keeps I (modE f)"
  by (simp add: keeps_def modE_def)

lemma keeps_mod_session: "(\<And>w. I w \<Longrightarrow> I (w\<lparr>w_session := f (w_session w)\<rparr>)) \<Longrightarrow> keeps I (mod_session f)"
  unfolding mod_session_def by (rule keeps_mod)

lemma keeps_cases [keeps_intros]:
  "(\<And>a b. x = (a, b) \<Longrightarrow> keeps I (f a b)) \<Longrightarrow> keeps I (case_prod f x)"
  "(\<And>a b. x = (a, b) \<Longrightarrow> keeps I (g a b y)) \<Longrightarrow> keeps I (case_prod g x y)"
  "keeps I none \<Longrightarrow> (\<And>y. opt = Some y \<Longrightarrow> keeps I (some y)) \<Longrightarrow> keeps I (case_option none some opt)"
  "(\<And>e. sm = Inl e \<Longrightarrow> keeps I (l e)) \<Longrightarrow> (\<And>y. sm = Inr y \<Longrightarrow> keeps I (r y)) \<Longrightarrow> keeps I (case_sum l r sm)"
  "(\<And>v. v = val \<Longrightarrow> keeps I (body v)) \<Longrightarrow> keeps I (let v = val in body v)"
  by (simp_all split: prod.split option.split sum.split)

lemma keeps_the_session [keeps_intros]: "keeps I the_session"
  unfolding the_session_def by (rule keeps_basic)

text \<open>What is kept holds afterwards.\<close>

lemma wp_keeps:
  assumes "keeps I m" "I s" "\<And>x t. I t \<Longrightarrow> Q x t" "\<And>e t. I t \<Longrightarrow> E e t"
  shows "wp m Q E s"
  using assms(1,2) unfolding keeps_wp by (blast intro: wp_mono assms(3,4))

lemma wp_total: "(\<And>x t. Q x t) \<Longrightarrow> (\<And>e t. E e t) \<Longrightarrow> wp m Q E s"
  by (rule wp_ResI)

text \<open>What the last operation establishes, whatever the first one does.\<close>

lemma wp_after:
  "(\<And>x t. wp (f x) Q E t) \<Longrightarrow> (\<And>e t. E e t) \<Longrightarrow> wp (bindE m f) Q E s"
  "(\<And>t. wp n Q E t) \<Longrightarrow> (\<And>e t. E e t) \<Longrightarrow> wp (seqE m n) Q E s"
  "(\<And>a b. x = (a, b) \<Longrightarrow> wp (g a b) Q E s) \<Longrightarrow> wp (case_prod g x) Q E s"
  by (simp_all add: wp_bind wp_seq wp_total split: prod.split)

end
