(* ===== verification/RouteManager.thy ===== *)
theory RouteManager
  imports World Workspace
begin

text \<open>
  The life-cycle manager of delta routes (\<open>route_manager.DeltaRouteManager\<close>).  The live routes are
  \<open>w_routes\<close>, their durable records the session's \<open>session_delta_routes\<close>.  An operation names a live
  route by its id, as the code shares the route object.  Its lock makes each operation atomic.
\<close>

section \<open>The table of routes\<close>

definition SANDBOX_ROUTE_ROOT :: string where "SANDBOX_ROUTE_ROOT = ''/run/ccc-agent/routes''"

definition routing_enabled :: "session \<Rightarrow> bool" where
  "routing_enabled s \<longleftrightarrow> get_default (s_policy s) ''session_delta_routing'' JNull = JBool True \<and>
     get_default (s_policy s) ''route_interposer_available'' JNull = JBool True"

definition routing_vendors :: "session \<Rightarrow> string list result" where
  "routing_vendors s =
     bindR (as_list (get_default (s_policy s) ''session_delta_routing_vendors'' (jstrs [''codex'']))) (\<lambda>vs.
       Inr (map (\<lambda>v. str_lower (str_strip (py_str v))) vs))"

definition mount_root :: "'b world \<Rightarrow> string" where
  "mount_root w = path_join (bundle_dir (w_store w) (s_id (w_session w))) ''route-mounts''"

definition sandbox_route_root :: "session \<Rightarrow> string result" where
  "sandbox_route_root s =
     (let v = normpath (py_str (get_default (s_policy s) ''sandbox_route_root'' (JStr SANDBOX_ROUTE_ROOT))) in
      if isabs v then Inr v else Inl (ValueError ''sandbox route root must be absolute''))"

definition review_root :: "'b world \<Rightarrow> string \<Rightarrow> string" where
  "review_root w rid = path_joins (review_dir (w_store w) (s_id (w_session w))) [''routes'', rid]"

definition load_routes :: "env \<Rightarrow> session \<Rightarrow> (string, delta_route) dict result" where
  "load_routes en s =
     foldR (\<lambda>routes (rid, payload).
       bindR (route_from_dict (en_sha en) (en_now en) payload) (\<lambda>route.
         if dr_route_id route \<noteq> rid then Inl (ValueError ''delta route key does not match route_id'')
         else if dr_parent_session route \<noteq> s_id s then Inl (ValueError ''delta route belongs to another outer session'')
         else Inr (dict_set routes rid route))) [] (s_delta_routes s)"

definition save_route :: "delta_route \<Rightarrow> ('b world, unit) eff" where
  "save_route r =
     seqE (modE (\<lambda>w. w\<lparr>w_routes := dict_set (w_routes w) (dr_route_id r) r,
             w_session := (w_session w)\<lparr>s_delta_routes := save_record r (s_delta_routes (w_session w))\<rparr>\<rparr>))
          save_session"

definition route_live :: "delta_route \<Rightarrow> bool" where
  "route_live r \<longleftrightarrow> dr_state r \<notin> {''merged'', ''aborted'', ''failed''}"

definition route_for_workspace :: "string option \<Rightarrow> (string, delta_route) dict \<Rightarrow> delta_route option result" where
  "route_for_workspace key routes =
     (case filter (\<lambda>r. dr_workspace_key r = key \<and> route_live r) (map snd routes) of
        [] \<Rightarrow> Inr None
      | [r] \<Rightarrow> Inr (Some r)
      | _ \<Rightarrow> Inl (ValueError ''multiple live routes exist for one workspace session''))"

section \<open>Fingerprints\<close>

text \<open>A modification time is kept in nanoseconds.\<close>

definition fingerprint_change :: "env \<Rightarrow> fs \<Rightarrow> protected_root \<Rightarrow> change \<Rightarrow> json result" where
  "fingerprint_change en fs root c =
     (let start = [(''op'', JStr (ch_op c)), (''kind'', JStr (ch_kind c)), (''bytes'', JInt (ch_bytes c))] in
      if ch_op c = ''D'' then Inr (JObj start)
      else
        bindR (relpath (fs_cwd fs) (ch_path c) (pr_visible root)) (\<lambda>rel.
        if rel = pardir \<or> startswith rel (pardir @ ''/'') then Inl (ValueError ''route change is outside its declared root'')
        else
          let path = path_join (pr_mount root) rel in
          bindR (lstat fs path) (\<lambda>i.
          let head = start @ [(''mode'', JInt (type_bits (in_content i))), (''size'', JInt (content_size (in_content i)))] in
          (case in_content i of
             Symlink t \<Rightarrow> bindR (readlink fs path) (\<lambda>t. Inr (JObj (head @ [(''symlink_target'', JStr t)])))
           | Regular d \<Rightarrow>
               if content_size (in_content i) \<le> 1024 * 1024
               then bindR (read_file fs path) (\<lambda>data. Inr (JObj (head @ [(''sha256'', JStr (en_sha en data))])))
               else Inr (JObj (head @ [(''mtime_ns'', JInt (in_mtime i))]))
           | _ \<Rightarrow> Inr (JObj head)))))"

definition outer_fingerprints :: "'b backend \<Rightarrow> env \<Rightarrow> ('b world, (string \<times> (string, json) dict) list) eff" where
  "outer_fingerprints B en =
     bindE the_session (\<lambda>s.
       mapE (\<lambda>(name, root).
         bindE (on_disk (be_status_report B root)) (\<lambda>report.
         bindE (foldE (\<lambda>acc c. bindE (readE (\<lambda>w. fingerprint_change en (w_fs w) root c)) (\<lambda>f.
                   retE (dict_set acc (ch_path c) f))) [] (sr_changes report)) (\<lambda>fps.
           retE (name, fps)))) (sorted_items (s_roots s)))"

definition baseline_json :: "(string \<times> (string, json) dict) list \<Rightarrow> json" where
  "baseline_json fps = JObj (map (\<lambda>(name, d). (name, JObj d)) fps)"

section \<open>Provisioning\<close>

definition session_root :: "string \<Rightarrow> ('b world, protected_root) eff" where
  "session_root name = readE (\<lambda>w. get_item (s_roots (w_session w)) name)"

text \<open>The children created so far, innermost last, and the exception that stopped the loop.\<close>

primrec provision_children :: "'b backend \<Rightarrow> (string \<times> nested_root) list \<Rightarrow> (protected_root \<times> nested_root) list \<Rightarrow>
    ('b world, (protected_root \<times> nested_root) list \<times> pyexn option) eff" where
  "provision_children B [] created = retE (created, None)"
| "provision_children B (x # xs) created =
     (let (name, child) = x in
      bindE (tryE (bindE (session_root name) (\<lambda>outer. seqE (on_disk (be_create_nested B outer child)) (retE outer))))
        (\<lambda>r. case r of
           Inl e \<Rightarrow> retE (created, Some e)
         | Inr outer \<Rightarrow>
             bindE (tryE (on_disk (be_mount B (nested_as_root child)))) (\<lambda>m. case m of
               Inl e \<Rightarrow> retE (created @ [(outer, child)], Some e)
             | Inr _ \<Rightarrow> provision_children B xs (created @ [(outer, child)]))))"

definition undo_children :: "'b backend \<Rightarrow> (protected_root \<times> nested_root) list \<Rightarrow> ('b world, string list) eff" where
  "undo_children B created =
     foldE (\<lambda>errors (outer, child).
       seqE (tryE (on_disk (be_unmount B (nested_as_root child))))
            (bindE (tryE (on_disk (be_abort_nested B outer child))) (\<lambda>r. case r of
               Inl e \<Rightarrow> retE (errors @ [exn_str e])
             | Inr _ \<Rightarrow> retE errors))) [] (rev created)"

text \<open>Running an operation on the route object; what it changed before an exception stays.\<close>

definition on_route :: "(delta_route, unit) eff \<Rightarrow> delta_route \<Rightarrow> ('b world, delta_route) eff" where
  "on_route m r =
     (case m r of (res, t) \<Rightarrow>
        seqE (modE (\<lambda>w. w\<lparr>w_routes := dict_set (w_routes w) (dr_route_id t) t\<rparr>))
             (bindE (liftE res) (\<lambda>_. retE t)))"

definition move_route :: "env \<Rightarrow> string \<Rightarrow> json option \<Rightarrow> delta_route \<Rightarrow> ('b world, delta_route) eff" where
  "move_route en new detail r =
     on_route (bindE (readE (route_transition (en_now en) new detail)) (\<lambda>t. modE (\<lambda>_. t))) r"

text \<open>The route object as it is now.\<close>

definition live_route :: "delta_route \<Rightarrow> ('b world, delta_route) eff" where
  "live_route r = getE (\<lambda>w. case dict_get (w_routes w) (dr_route_id r) of Some t \<Rightarrow> t | None \<Rightarrow> r)"

definition refresh_route :: "int \<Rightarrow> json list \<Rightarrow> delta_route \<Rightarrow> delta_route result" where
  "refresh_route generation adm r =
     (if generation < (case dr_workspace_generation r of Some n \<Rightarrow> n | None \<Rightarrow> 0)
      then Inl (ValueError ''stale workspace generation for delta route'')
      else Inr (r\<lparr>dr_workspace_generation := Some generation, dr_admitted_roots := adm\<rparr>))"

definition failed_provision :: "'b backend \<Rightarrow> env \<Rightarrow> delta_route \<Rightarrow> (protected_root \<times> nested_root) list \<Rightarrow> pyexn \<Rightarrow>
    ('b world, delta_route) eff" where
  "failed_provision B en r created e =
     bindE (undo_children B created) (\<lambda>errors.
       let target = (if errors = [] then ''failed'' else ''pending-review'') in
       bindE (catchE (move_route en target (Some (JObj [(''error'', JStr (take 256 (exn_str e))),
                (''cleanup_errors'', jstrs (take 8 errors))])) r)
                (\<lambda>_. on_route (modE (\<lambda>t. t\<lparr>dr_state := target\<rparr>)) r)) (\<lambda>r.
       bindE (on_route (set_capability (en_now en) (JStr ''unavailable'') (JStr (take 128 (exn_str e)))) r) (\<lambda>r.
       seqE (save_route r) (retE r))))"

definition provision :: "'b backend \<Rightarrow> env \<Rightarrow> string \<Rightarrow> json \<Rightarrow> string \<Rightarrow> int \<Rightarrow> json list \<Rightarrow>
    ('b world, delta_route option) eff" where
  "provision B en provider logical key generation adm =
     (let provider = str_lower (str_strip provider) in
      bindE (readE (\<lambda>w. bindR (if routing_enabled (w_session w) then routing_vendors (w_session w) else Inr []) (\<lambda>vs.
                Inr (provider \<in> set vs)))) (\<lambda>routed.
      if \<not> routed then retE None
      else bindE (readE (\<lambda>w. route_for_workspace (Some key) (w_routes w))) (\<lambda>current.
        case current of
          Some r \<Rightarrow>
            if dr_state r \<noteq> ''active'' then retE (Some r)
            else bindE (liftE (refresh_route generation adm r)) (\<lambda>r.
              seqE (save_route r) (retE (Some r)))
        | None \<Rightarrow>
            bindE (outer_fingerprints B en) (\<lambda>baseline.
            bindE (readE (\<lambda>w. create_route (en_sha en) (en_now en) (en_fresh en) (JStr provider) logical
                       (JStr (s_id (w_session w))) (s_roots (w_session w)) (mount_root w) (JStr key)
                       (JInt generation) (JArr adm) (baseline_json baseline))) (\<lambda>r.
            seqE (save_route r)
           (bindE (provision_children B (sorted_items (dr_roots r)) []) (\<lambda>(created, failure).
            bindE (case failure of
                     Some e \<Rightarrow> failed_provision B en r created e
                   | None \<Rightarrow>
                       bindE (tryE (bindE (move_route en ''active'' (Some (JObj [(''roots'', JInt (int (length (dr_roots r))))])) r) (\<lambda>r.
                         bindE (on_route (set_capability (en_now en) (JStr ''ready'') JNull) r) (\<lambda>r.
                         seqE (save_route r) (retE r))))) (\<lambda>res. case res of
                           Inr r \<Rightarrow> retE r
                         | Inl e \<Rightarrow> bindE (live_route r) (\<lambda>r. failed_provision B en r created e))) (\<lambda>r.
              retE (Some r)))))))))"

section \<open>Ending a workspace session\<close>

definition status_payload :: "status_report \<Rightarrow> json" where
  "status_payload report =
     JObj [(''changes'', JArr (map (\<lambda>c. JObj (change_to_dict c)) (sr_changes report))),
           (''warnings'', JArr (map (\<lambda>w. JObj (warning_to_dict w)) (sr_warnings report)))]"

definition write_json :: "env \<Rightarrow> string \<Rightarrow> json \<Rightarrow> ('b world, unit) eff" where
  "write_json en path payload = on_files (atomic_write (en_fresh en) path (en_dumps en payload @ [CHR 0x0A]))"

definition snapshot_route :: "'b backend \<Rightarrow> env \<Rightarrow> delta_route \<Rightarrow> ('b world, json) eff" where
  "snapshot_route B en r =
     bindE (mapE (\<lambda>(name, child). bindE (on_disk (be_status_report B (nested_as_root child))) (\<lambda>report.
              retE (name, status_payload report))) (sorted_items (dr_roots r))) (\<lambda>roots.
       let payload = JObj [(''route_id'', JStr (dr_route_id r)), (''roots'', JObj roots)] in
       bindE (getE (\<lambda>w. review_root w (dr_route_id r))) (\<lambda>dir.
       seqE (write_json en (path_join dir ''status.json'') payload)
      (seqE (write_json en (path_join dir ''route.json'') (JObj (route_to_dict r)))
            (retE payload))))"

definition conflict_paths :: "json list \<Rightarrow> protected_root \<Rightarrow> string list" where
  "conflict_paths conflicts outer =
     concat (map (\<lambda>item.
       let v = (case item of
                  JObj d \<Rightarrow> (let p = get_default d ''path'' JNull in
                             if truthy p then p else get_default d ''canonical_path'' JNull)
                | v \<Rightarrow> v)
       in case v of
            JStr p \<Rightarrow> if p = [] then [] else [normpath (if isabs p then p else path_join (pr_visible outer) p)]
          | _ \<Rightarrow> []) conflicts)"

definition admitted_scope :: "json list \<Rightarrow> string \<Rightarrow> string option result" where
  "admitted_scope adm path =
     foldR (\<lambda>found a. case found of
         Some c \<Rightarrow> Inr (Some c)
       | None \<Rightarrow> bindR (as_obj a) (\<lambda>d.
           case get_default d ''canonical_path'' JNull of
             JStr c \<Rightarrow> bindR (is_within path c) (\<lambda>inside. Inr (if inside then Some c else None))
           | _ \<Rightarrow> Inr None)) None adm"

definition route_ids_of :: "json option \<Rightarrow> json list result" where
  "route_ids_of existing =
     (case existing of
        Some (JObj d) \<Rightarrow> (let v = get_default d ''route_ids'' JNull in if truthy v then as_list v else Inr [])
      | _ \<Rightarrow> Inr [])"

text \<open>The record of one path a route has written.  The fingerprint of a path that conflicts, is not shown in the
  outer branch or cannot be read is null.\<close>

definition path_fingerprint :: "env \<Rightarrow> fs \<Rightarrow> protected_root \<Rightarrow> bool \<Rightarrow> change option \<Rightarrow> (bool \<times> json) result" where
  "path_fingerprint en fs outer conflict shown =
     (case shown of
        None \<Rightarrow> Inr (True, JNull)
      | Some c \<Rightarrow>
          if conflict then Inr (True, JNull)
          else (case fingerprint_change en fs outer c of
                  Inr f \<Rightarrow> Inr (False, f)
                | Inl e \<Rightarrow> if is_os_error e \<or> is_value_error e then Inr (True, JNull) else Inl e))"

definition attribution_record :: "delta_route \<Rightarrow> string \<Rightarrow> string option \<Rightarrow> bool \<Rightarrow> json \<Rightarrow> json list \<Rightarrow> bool \<Rightarrow> pydict" where
  "attribution_record r name scope conflict fingerprint ids shared =
     (let ids = (if JStr (dr_route_id r) \<in> set ids then ids else ids @ [JStr (dr_route_id r)]);
          multiple = (length ids > 1 \<or> shared);
          inside = (scope \<noteq> None \<and> scope \<noteq> Some []);
          category = (if multiple then ''multiply-influenced'' else if conflict then ''conflicted''
                      else if inside then ''attributed'' else ''attributed-out-of-scope'')
      in [(''category'', JStr category), (''authorized'', JBool (inside \<and> \<not> conflict \<and> \<not> multiple)),
          (''route_ids'', JArr ids), (''shared_outer_influence'', JBool shared), (''root'', JStr name),
          (''admitted_scope'', jopt JStr scope), (''fingerprint'', fingerprint), (''updated_at'', JStr (dr_updated_at r))])"

definition attribution :: "env \<Rightarrow> fs \<Rightarrow> delta_route \<Rightarrow> string \<Rightarrow> protected_root \<Rightarrow> bool \<Rightarrow>
    (string, change) dict \<Rightarrow> (string, json) dict \<Rightarrow> string \<Rightarrow> json option \<Rightarrow> pydict result" where
  "attribution en fs r name outer conflict current before path existing =
     bindR (admitted_scope (dr_admitted_roots r) path) (\<lambda>scope.
     bindR (path_fingerprint en fs outer conflict (dict_get current path)) (\<lambda>(conflict, fingerprint).
     bindR (route_ids_of existing) (\<lambda>ids.
       Inr (attribution_record r name scope conflict fingerprint ids (dict_has before path)))))"

definition attribution_records :: "session \<Rightarrow> pydict" where
  "attribution_records s = (case get_default (s_policy s) ''route_path_attribution'' (JObj []) of JObj d \<Rightarrow> d | _ \<Rightarrow> [])"

definition record_attribution :: "'b backend \<Rightarrow> env \<Rightarrow> delta_route \<Rightarrow> json \<Rightarrow> (string, json) dict \<Rightarrow> string list \<Rightarrow>
    (string \<times> (string, json) dict) list \<Rightarrow> ('b world, unit) eff" where
  "record_attribution B en r snapshot outcomes error_roots before =
     seqE (mod_session (\<lambda>s. set_policy ''route_path_attribution'' (JObj (attribution_records s)) s))
    (bindE (liftE (bindR (as_obj snapshot) (\<lambda>d. as_obj (get_default d ''roots'' (JObj []))))) (\<lambda>roots.
       forE (\<lambda>(name, root_snapshot).
         bindE (session_root name) (\<lambda>outer.
         bindE (liftE (case dict_get outcomes name of
                         Some v \<Rightarrow> if truthy v then as_obj v else Inr [] | None \<Rightarrow> Inr [])) (\<lambda>outcome.
         bindE (liftE (let v = get_default outcome ''conflicts'' JNull in if truthy v then as_list v else Inr [])) (\<lambda>conflicts.
         bindE (on_disk (be_status_report B outer)) (\<lambda>report.
         bindE (liftE (bindR (as_obj root_snapshot) (\<lambda>d.
                  let v = get_default d ''changes'' JNull in if truthy v then as_list v else Inr []))) (\<lambda>changes.
           forE (\<lambda>data.
             bindE (liftE (bindR (as_obj data) (\<lambda>d. bindR (get_item d ''path'') as_str))) (\<lambda>raw.
               let path = normpath raw;
                   conflict = (name \<in> set error_roots \<or> path \<in> set (conflict_paths conflicts outer));
                   current = fold (\<lambda>c d. dict_set d (ch_path c) c) (sr_changes report) [] in
               bindE (readE (\<lambda>w. attribution en (w_fs w) r name outer conflict current
                          (case dict_get before name of Some d \<Rightarrow> d | None \<Rightarrow> []) path
                          (dict_get (attribution_records (w_session w)) path))) (\<lambda>record.
                 mod_session (\<lambda>s. set_policy ''route_path_attribution''
                   (JObj (dict_set (attribution_records s) path (JObj record))) s)))) changes)))))) (sorted_items roots)))"

definition hold_route :: "env \<Rightarrow> string \<Rightarrow> string \<Rightarrow> delta_route \<Rightarrow> ('b world, delta_route) eff" where
  "hold_route en phase error r =
     bindE (move_route en ''pending-review'' (Some (JObj [(''phase'', JStr phase), (''error'', JStr error)])) r) (\<lambda>r.
     seqE (save_route r) (retE r))"

definition quiesce_route :: "'b backend \<Rightarrow> env \<Rightarrow> delta_route \<Rightarrow> ('b world, delta_route \<times> json option) eff" where
  "quiesce_route B en r =
     bindE (tryE (seqE (forE (\<lambda>(name, child). on_disk (be_freeze B (nested_as_root child))) (dr_roots r))
                 (bindE (snapshot_route B en r) (\<lambda>snapshot.
                  seqE (forE (\<lambda>(name, child). on_disk (be_unmount B (nested_as_root child))) (dr_roots r))
                 (bindE (move_route en ''frozen'' None r) (\<lambda>r.
                  seqE (save_route r) (retE (r, Some snapshot)))))))) (\<lambda>res.
       case res of
         Inr out \<Rightarrow> retE out
       | Inl e \<Rightarrow>
           bindE (live_route r) (\<lambda>r.
           bindE (hold_route en ''quiesce'' (take 256 (exn_str e)) r) (\<lambda>r. retE (r, None))))"

definition outcome_conflicts :: "json \<Rightarrow> json list result" where
  "outcome_conflicts outcome = bindR (as_obj outcome) (\<lambda>d.
     let v = get_default d ''conflicts'' JNull in if truthy v then as_list v else Inr [])"

text \<open>The merge of every child into the outer branch: the outcomes and the errors by root.\<close>

definition merge_children :: "'b backend \<Rightarrow> delta_route \<Rightarrow>
    ('b world, (string, json) dict \<times> json list \<times> (string \<times> string) list) eff" where
  "merge_children B r =
     foldE (\<lambda>(outcomes, conflicts, errors) (name, child).
       bindE (session_root name) (\<lambda>outer.
       bindE (tryE (on_disk (be_commit_nested B outer child))) (\<lambda>res. case res of
           Inl e \<Rightarrow> retE (outcomes, conflicts, errors @ [(name, take 256 (exn_str e))])
         | Inr outcome \<Rightarrow> (case outcome_conflicts outcome of
               Inr cs \<Rightarrow> retE (dict_set outcomes name outcome,
                 conflicts @ map (\<lambda>c. JObj [(''root'', JStr name), (''conflict'', c)]) cs, errors)
             | Inl e \<Rightarrow> retE (dict_set outcomes name outcome, conflicts, errors @ [(name, take 256 (exn_str e))])))))
       ([], [], []) (sorted_items (dr_roots r))"

definition merge_route :: "'b backend \<Rightarrow> env \<Rightarrow> json \<Rightarrow> delta_route \<Rightarrow> ('b world, delta_route) eff" where
  "merge_route B en snapshot r =
     bindE (outer_fingerprints B en) (\<lambda>before.
     bindE (merge_children B r) (\<lambda>(outcomes, conflicts, errors).
     seqE (record_attribution B en r snapshot outcomes (map fst errors) before)
    (bindE (getE (\<lambda>w. review_root w (dr_route_id r))) (\<lambda>dir.
     seqE (write_json en (path_join dir ''merge.json'') (JObj [(''outcomes'', JObj outcomes), (''conflicts'', JArr conflicts),
             (''errors'', JArr (map (\<lambda>(n, m). JObj [(''root'', JStr n), (''error'', JStr m)]) errors))]))
    (bindE (move_route en (if conflicts \<noteq> [] \<or> errors \<noteq> [] then ''pending-review'' else ''merged'')
              (Some (JObj [(''conflicts'', JInt (int (length conflicts))), (''errors'', JInt (int (length errors)))])) r) (\<lambda>r.
     seqE (save_route r) (retE r)))))))"

text \<open>The steps of \<open>end_workspace_session\<close>: from \<open>active\<close> to \<open>quiescing\<close>, from there to \<open>frozen\<close>, and the merge
  of a frozen route from its snapshot (the one just taken, or the one saved before a restart).\<close>

definition begin_quiesce :: "env \<Rightarrow> delta_route \<Rightarrow> ('b world, delta_route) eff" where
  "begin_quiesce en r =
     (if dr_state r = ''active''
      then bindE (move_route en ''quiescing'' None r) (\<lambda>r. seqE (save_route r) (retE r)) else retE r)"

definition load_snapshot :: "env \<Rightarrow> delta_route \<Rightarrow> json option \<Rightarrow> ('b world, json result) eff" where
  "load_snapshot en r snapshot =
     (case snapshot of
        Some v \<Rightarrow> retE (Inr v)
      | None \<Rightarrow> bindE (getE (\<lambda>w. path_join (review_root w (dr_route_id r)) ''status.json'')) (\<lambda>path.
          tryE (bindE (readE (\<lambda>w. read_file (w_fs w) path)) (\<lambda>data. liftE (en_loads en data)))))"

definition finish_frozen :: "'b backend \<Rightarrow> env \<Rightarrow> delta_route \<Rightarrow> json option \<Rightarrow> ('b world, delta_route) eff" where
  "finish_frozen B en r snapshot =
     bindE (load_snapshot en r snapshot) (\<lambda>snap.
       case snap of
         Inr v \<Rightarrow> merge_route B en v r
       | Inl e \<Rightarrow>
           if is_os_error e \<or> is_value_error e
           then hold_route en ''recovery'' (''route snapshot unavailable: '' @ exn_str e) r
           else raiseE e)"

definition end_route :: "'b backend \<Rightarrow> env \<Rightarrow> delta_route \<Rightarrow> ('b world, delta_route) eff" where
  "end_route B en r =
     bindE (begin_quiesce en r) (\<lambda>r.
     bindE (if dr_state r = ''quiescing'' then quiesce_route B en r else retE (r, None)) (\<lambda>(r, snapshot).
       if dr_state r \<noteq> ''frozen'' then retE r else finish_frozen B en r snapshot))"

definition end_workspace_session :: "'b backend \<Rightarrow> env \<Rightarrow> string option \<Rightarrow> ('b world, delta_route option) eff" where
  "end_workspace_session B en key =
     bindE (readE (\<lambda>w. route_for_workspace key (w_routes w))) (\<lambda>found. case found of
       None \<Rightarrow> retE None
     | Some r \<Rightarrow> bindE (end_route B en r) (\<lambda>t. retE (Some t)))"

section \<open>Lookup, results, recovery\<close>

definition no_active_route :: json where
  "no_active_route = JObj [(''ok'', JBool False), (''reason'', JStr ''no-active-route'')]"

definition route_bindings :: "string \<Rightarrow> string \<Rightarrow> delta_route \<Rightarrow> json list" where
  "route_bindings sandbox owner r =
     concat (map (\<lambda>(name, child).
       let source = sandbox @ ''/'' @ dr_route_id r @ ''/'' @ name in
       JObj [(''source'', JStr source), (''destination'', JStr (nr_visible child))]
       # (case nr_home_subdir child of
            Some h \<Rightarrow> if h = [] then [] else [JObj [(''source'', JStr (normpath (path_join source h))),
                        (''destination'', JStr (''/home/'' @ owner))]]
          | None \<Rightarrow> [])) (sorted_items (dr_roots r)))"

definition lookup_route :: "env \<Rightarrow> string \<Rightarrow> json \<Rightarrow> ('b world, json) eff" where
  "lookup_route en provider hint =
     (let provider = str_lower (str_strip provider) in
      readE (\<lambda>w.
        case digest_logical_session (en_sha en) hint of
          Inl e \<Rightarrow> if is_value_error e then Inr no_active_route else Inl e
        | Inr digest \<Rightarrow>
            (case filter (\<lambda>r. dr_provider r = provider \<and> dr_digest r = digest \<and> dr_state r = ''active'')
                    (map snd (w_routes w)) of
               [r] \<Rightarrow>
                 bindR (sandbox_route_root (w_session w)) (\<lambda>sandbox.
                   Inr (JObj [(''ok'', JBool True), (''route_id'', JStr (dr_route_id r)),
                     (''bindings'', JArr (route_bindings sandbox (s_owner (w_session w)) r))]))
             | _ \<Rightarrow> Inr no_active_route)))"

definition record_result :: "env \<Rightarrow> string \<Rightarrow> string \<Rightarrow> json \<Rightarrow> ('b world, json) eff" where
  "record_result en rid outcome reason =
     bindE (getE (\<lambda>w. dict_get (w_routes w) rid)) (\<lambda>found. case found of
       None \<Rightarrow> retE no_active_route
     | Some r \<Rightarrow>
         if dr_state r \<noteq> ''active'' then retE no_active_route
         else bindE (on_route (record_coverage (en_now en) outcome reason JNull) r) (\<lambda>r.
           seqE (save_route r) (retE (JObj [(''ok'', JBool True)]))))"

definition recover :: "'b backend \<Rightarrow> env \<Rightarrow> ('b world, (string, string) dict) eff" where
  "recover B en =
     bindE (getE (\<lambda>w. map fst (w_routes w))) (\<lambda>ids.
       foldE (\<lambda>outcomes rid.
         bindE (readE (\<lambda>w. get_item (w_routes w) rid)) (\<lambda>r.
           if dr_state r \<in> {''active'', ''quiescing'', ''frozen''}
           then bindE (end_workspace_session B en (dr_workspace_key r)) (\<lambda>t.
             retE (dict_set outcomes rid (case t of Some t \<Rightarrow> dr_state t | None \<Rightarrow> ''missing'')))
           else if dr_state r = ''provisioning''
           then bindE (hold_route en ''recovery'' ''provisioning was interrupted'' r) (\<lambda>t.
             retE (dict_set outcomes rid (dr_state t)))
           else retE outcomes)) [] ids)"

section \<open>Facts\<close>

definition routes_are :: "(string, delta_route) dict \<Rightarrow> pydict \<Rightarrow> 'b world \<Rightarrow> bool" where
  "routes_are R D w \<longleftrightarrow> w_routes w = R \<and> s_delta_routes (w_session w) = D"

lemma set_policy_simps [simp]:
  "s_delta_routes (set_policy k v s) = s_delta_routes s" "s_roots (set_policy k v s) = s_roots s"
  "s_state (set_policy k v s) = s_state s" "s_id (set_policy k v s) = s_id s"
  by (simp_all add: set_policy_def)

lemma keeps_routes [keeps_intros]:
  "keeps (routes_are R D) (on_disk m)"
  "keeps (routes_are R D) (on_files fm)"
  "keeps (routes_are R D) (mod_session (set_policy k v))"
  "keeps (routes_are R D) (mod_session (\<lambda>s. set_policy k (g s) s))"
  by (intro keeps_on_disk keeps_on_files keeps_mod_session; simp add: routes_are_def)+

lemma keeps_routes_parts [keeps_intros]:
  "keeps (routes_are R D) (session_root name)"
  "keeps (routes_are R D) (write_json en path payload)"
  "keeps (routes_are R D) (outer_fingerprints B en)"
  "keeps (routes_are R D) (snapshot_route B en r)"
  "keeps (routes_are R D) (merge_children B r)"
  unfolding session_root_def write_json_def outer_fingerprints_def snapshot_route_def merge_children_def Let_def
  by (intro keeps_intros)+

lemma keeps_attribution [keeps_intros]:
  "keeps (routes_are R D) (record_attribution B en r snapshot outcomes errors before)"
  unfolding record_attribution_def Let_def by (intro keeps_intros)

lemma wp_on_route [wp_simps]:
  "wp (on_route m r) Q E w =
     (case m r of (res, t) \<Rightarrow> let w' = w\<lparr>w_routes := dict_set (w_routes w) (dr_route_id t) t\<rparr> in
        case res of Inl e \<Rightarrow> E e w' | Inr _ \<Rightarrow> Q t w')"
  by (simp add: on_route_def wp_simps Let_def split: prod.split sum.split)

lemma wp_move_route [wp_simps]:
  "wp (move_route en new detail r) Q E w =
     (case route_transition (en_now en) new detail r of
        Inl e \<Rightarrow> E e (w\<lparr>w_routes := dict_set (w_routes w) (dr_route_id r) r\<rparr>)
      | Inr t \<Rightarrow> Q t (w\<lparr>w_routes := dict_set (w_routes w) (dr_route_id t) t\<rparr>))"
  unfolding move_route_def wp_on_route
  by (simp add: bindE_def readE_def modE_def Let_def split: sum.split)

lemma wp_save_route [wp_simps]:
  "wp (save_route r) Q E w = Q () (w\<lparr>w_routes := dict_set (w_routes w) (dr_route_id r) r,
     w_session := (w_session w)\<lparr>s_delta_routes := save_record r (s_delta_routes (w_session w))\<rparr>,
     w_store := store_save ((w_session w)\<lparr>s_delta_routes := save_record r (s_delta_routes (w_session w))\<rparr>) (w_store w)\<rparr>)"
  by (simp add: save_route_def save_session_def wp_simps)

text \<open>The route as it is returned is the route in the table, in the session record and in the store.\<close>

definition durable :: "delta_route \<Rightarrow> 'b world \<Rightarrow> bool" where
  "durable t w \<longleftrightarrow> dict_get (w_routes w) (dr_route_id t) = Some t \<and>
     dict_get (s_delta_routes (w_session w)) (dr_route_id t) = Some (JObj (route_to_dict t)) \<and>
     dict_get (st_docs (w_store w)) (s_id (w_session w)) = Some (JObj (session_to_dict (w_session w)))"

definition settled :: "delta_route \<Rightarrow> 'b world \<Rightarrow> bool" where
  "settled t w \<longleftrightarrow> dr_state t \<in> {''merged'', ''pending-review''} \<and> durable t w"

lemma route_transition_state: "route_transition now new detail r = Inr t \<Longrightarrow> dr_state t = new \<and> dr_route_id t = dr_route_id r"
  by (drule route_transition_Inr(3)) auto

lemma save_durable: "wp (save_route t) (\<lambda>_. durable t) E w"
  by (simp add: wp_simps durable_def save_record_def store_save_def)

lemma move_save:
  assumes "\<And>t. dr_state t = new \<Longrightarrow> dr_route_id t = dr_route_id r \<Longrightarrow> Q t"
  shows "wp (bindE (move_route en new detail r) (\<lambda>t. seqE (save_route t) (retE t)))
    (\<lambda>t w. Q t \<and> durable t w) (\<lambda>_ _. True) w"
proof -
  have "wp (seqE (save_route t) (retE t)) (\<lambda>t w. Q t \<and> durable t w) (\<lambda>_ _. True) w'" if "Q t" for t and w' :: "'a world"
    unfolding wp_seq wp_ret using that save_durable [of t "\<lambda>_ _. True" w'] by (auto intro: wp_mono)
  then show ?thesis
    using assms route_transition_state by (auto simp: wp_bind wp_move_route split: sum.split)
qed

lemma move_then:
  "(\<And>t w. dr_state t = new \<Longrightarrow> wp (f t) Q E w) \<Longrightarrow> (\<And>e w. E e w) \<Longrightarrow> wp (bindE (move_route en new detail r) f) Q E w"
  by (auto simp: wp_bind wp_move_route route_transition_state split: sum.split)

lemma hold_route_settles: "wp (hold_route en phase error r) settled (\<lambda>_ _. True) w"
  unfolding hold_route_def settled_def by (rule move_save) simp

lemma merge_route_settles: "wp (merge_route B en snapshot r) settled (\<lambda>_ _. True) w"
  unfolding merge_route_def settled_def
  by (rule move_save wp_after | simp)+

lemma quiesce_route_result:
  "wp (quiesce_route B en r) (\<lambda>(t, snapshot) w. dr_state t = ''frozen'' \<or> snapshot = None \<and> settled t w) (\<lambda>_ _. True) w"
proof -
  have ok: "wp (seqE (forE (\<lambda>(name, child). on_disk (be_freeze B (nested_as_root child))) (dr_roots r))
       (bindE (snapshot_route B en r) (\<lambda>snapshot.
        seqE (forE (\<lambda>(name, child). on_disk (be_unmount B (nested_as_root child))) (dr_roots r))
       (bindE (move_route en ''frozen'' None r) (\<lambda>r. seqE (save_route r) (retE (r, Some snapshot)))))))
     (\<lambda>(t, snapshot) w. dr_state t = ''frozen'') (\<lambda>_ _. True) w"
    by (rule move_then wp_after | simp add: wp_ret wp_seq wp_save_route)+
  have held: "wp (bindE (hold_route en ''quiesce'' m r) (\<lambda>r. retE (r, None)))
     (\<lambda>(t, snapshot) w. dr_state t = ''frozen'' \<or> snapshot = None \<and> settled t w) (\<lambda>_ _. True) w" for m r w
    unfolding wp_bind wp_ret by (rule wp_mono [OF hold_route_settles]) auto
  show ?thesis
    unfolding quiesce_route_def live_route_def wp_bind wp_try sum.case wp_get
    by (rule wp_mono [OF ok]) (use held in \<open>auto simp: wp_simps split: prod.split\<close>)
qed

text \<open>How ending a session leaves its route: settled, or untouched because there was nothing to end.\<close>

definition ended :: "'b world \<Rightarrow> delta_route \<Rightarrow> 'b world \<Rightarrow> bool" where
  "ended w t w' \<longleftrightarrow> settled t w' \<or> (w' = w \<and> dr_state t \<notin> {''active'', ''quiescing'', ''frozen''})"

lemma finish_frozen_ends: "wp (finish_frozen B en r snapshot) (ended w) (\<lambda>_ _. True) u"
proof -
  have s: "wp m settled (\<lambda>_ _. True) u \<Longrightarrow> wp m (ended w) (\<lambda>_ _. True) u" for m u
    by (erule wp_mono) (simp_all add: ended_def)
  show ?thesis
    unfolding finish_frozen_def
    by (rule wp_after(1)) (auto simp: wp_raise intro: s merge_route_settles hold_route_settles split: sum.split)
qed

lemma end_route_ends: "wp (end_route B en r) (ended w) (\<lambda>_ _. True) w"
proof -
  have quiescing: "wp (bindE (if dr_state r = ''quiescing'' then quiesce_route B en r else retE (r, None))
      (\<lambda>(r, snapshot). if dr_state r \<noteq> ''frozen'' then retE r else finish_frozen B en r snapshot)) (ended w) (\<lambda>_ _. True) u"
    if "dr_state r = ''quiescing'' \<or> (u = w \<and> dr_state r \<noteq> ''active'')" for r u
  proof (cases "dr_state r = ''quiescing''")
    case True
    then show ?thesis
      unfolding wp_bind
      by simp (rule wp_mono [OF quiesce_route_result], auto simp: wp_ret ended_def settled_def intro: finish_frozen_ends)
  next
    case False
    with that show ?thesis
      by (auto simp: wp_bind [of "retE _"] wp_ret ended_def intro: finish_frozen_ends)
  qed
  show ?thesis
  proof (cases "dr_state r = ''active''")
    case True
    have "wp (bindE (quiesce_route B en t) (\<lambda>(r, snapshot). if dr_state r \<noteq> ''frozen'' then retE r
        else finish_frozen B en r snapshot)) (ended w) (\<lambda>_ _. True) u" if "dr_state t = ''quiescing''" for t u
      using quiescing [of t u] that by simp
    with True show ?thesis
      unfolding end_route_def begin_quiesce_def
      by (simp add: wp_bind [of "bindE _ _"]) (rule move_then, auto simp: wp_seq wp_save_route wp_ret)
  next
    case False
    then show ?thesis
      unfolding end_route_def begin_quiesce_def by (simp add: wp_bind [of "retE _"] wp_ret quiescing)
  qed
qed


section \<open>Merging the children\<close>

lemma foldE_cons: "wp (foldE f acc (x # xs)) Q E s = wp (f acc x) (\<lambda>a. wp (foldE f a xs) Q E) E s"
  by (simp add: wp_bind)

text \<open>Every root met so far has an outcome or an error, and every outcome was merged into its outer branch.\<close>

definition accounted :: "(string, protected_root) dict \<Rightarrow> string list \<Rightarrow>
    (string, json) dict \<times> json list \<times> (string \<times> string) list \<Rightarrow> bool" where
  "accounted roots names acc = (case acc of (outcomes, conflicts, errors) \<Rightarrow>
     set names = set (map fst outcomes) \<union> set (map fst errors) \<and>
     (\<forall>(name, outcome)\<in>set outcomes. \<exists>outer. dict_get roots name = Some outer \<and> merged_into outer outcome))"

lemma set_dict_set: "set (dict_set d k v) \<subseteq> insert (k, v) (set d)" "set (map fst (dict_set d k v)) = insert k (set (map fst d))"
proof -
  show "set (dict_set d k v) \<subseteq> insert (k, v) (set d)" by (induction d) auto
  show "set (map fst (dict_set d k v)) = insert k (set (map fst d))" by (induction d) auto
qed

lemma accounted_outcome:
  assumes "accounted roots names (outcomes, conflicts, errors)" "dict_get roots name = Some outer" "merged_into outer outcome"
  shows "accounted roots (names @ [name]) (dict_set outcomes name outcome, cs, errors)"
  using assms set_dict_set(1) [of name outcome outcomes] set_dict_set(2) [of name outcome outcomes]
  unfolding accounted_def by auto

lemma accounted_error:
  "accounted roots names (outcomes, conflicts, errors) \<Longrightarrow>
   accounted roots (names @ [name]) (outcomes, conflicts, errors @ [(name, m)])"
  "accounted roots (names @ [name]) (outcomes, conflicts, errors) \<Longrightarrow>
   accounted roots (names @ [name]) (outcomes, conflicts, errors @ [(name, m)])"
  by (auto simp: accounted_def)

context nested_backend
begin

lemma merge_children_accounted:
  "wp (merge_children B r) (\<lambda>acc _. accounted (s_roots (w_session w)) (map fst (sorted_items (dr_roots r))) acc)
     (\<lambda>_ _. True) w"
proof -
  let ?roots = "s_roots (w_session w)"
  let ?f = "\<lambda>(outcomes, conflicts, errors) (name, child).
       bindE (session_root name) (\<lambda>outer.
       bindE (tryE (on_disk (be_commit_nested B outer child))) (\<lambda>res. case res of
           Inl e \<Rightarrow> retE (outcomes, conflicts, errors @ [(name, take 256 (exn_str e))])
         | Inr outcome \<Rightarrow> (case outcome_conflicts outcome of
               Inr cs \<Rightarrow> retE (dict_set outcomes name outcome,
                 conflicts @ map (\<lambda>c. JObj [(''root'', JStr name), (''conflict'', c)]) cs, errors)
             | Inl e \<Rightarrow> retE (dict_set outcomes name outcome, conflicts, errors @ [(name, take 256 (exn_str e))]))))"
  have step: "wp (?f acc x) (\<lambda>acc u. accounted ?roots (names @ [fst x]) acc \<and> s_roots (w_session u) = ?roots) (\<lambda>_ _. True) u"
    if acc: "accounted ?roots names acc" and u: "s_roots (w_session u) = ?roots" for acc x names u
  proof -
    obtain outcomes conflicts errors where a: "acc = (outcomes, conflicts, errors)" by (cases acc)
    obtain name child where x: "x = (name, child)" by (cases x)
    show ?thesis
    proof (cases "dict_get ?roots name")
      case None
      then show ?thesis by (simp add: a x wp_simps session_root_def get_item_def u)
    next
      case (Some outer)
      have commit: "wp (be_commit_nested B outer child) (\<lambda>o' d. merged_into outer o') (\<lambda>_ _. True) d" for d
        by (rule wp_ResI) (auto dest: commit_nested_merges)
      have g: "get_item ?roots name = Inr outer" using Some by (simp add: get_item_def)
      show ?thesis
        unfolding a x using accounted_outcome [OF acc [unfolded a] Some] accounted_error(1) [OF acc [unfolded a]]
            accounted_error(2) [OF accounted_outcome [OF acc [unfolded a] Some]]
        by (simp add: wp_simps session_root_def g u)
           (rule wp_mono [OF commit], auto simp: u wp_simps split: sum.split)
    qed
  qed
  have "wp (foldE ?f acc xs) (\<lambda>acc _. accounted ?roots (names @ map fst xs) acc) (\<lambda>_ _. True) u"
    if "accounted ?roots names acc" "s_roots (w_session u) = ?roots" for xs acc names u
    using that
  proof (induction xs arbitrary: acc names u)
    case (Cons x xs)
    show ?case
      unfolding foldE_cons
    proof (rule wp_mono [OF step [OF Cons.prems]])
      fix acc' and u' :: "'b world"
      assume "accounted ?roots (names @ [fst x]) acc' \<and> s_roots (w_session u') = ?roots"
      then show "wp (foldE ?f acc' xs) (\<lambda>acc _. accounted ?roots (names @ map fst (x # xs)) acc) (\<lambda>_ _. True) u'"
        using Cons.IH [of "names @ [fst x]" acc' u'] by simp
    qed simp
  qed (simp add: wp_ret)
  from this [of "[]" "([], [], [])" w "sorted_items (dr_roots r)"] show ?thesis
    unfolding merge_children_def by (simp add: accounted_def)
qed

end

section \<open>Properties\<close>


definition sample_env :: env where
  "sample_env = \<lparr>en_now = ''t9'', en_fresh = sample_route_id, en_sha = sample_sha, en_dumps = (\<lambda>_. ''{}''),
     en_loads = (\<lambda>_. Inr (JObj []))\<rparr>"

definition route_world :: "string \<Rightarrow> fake world" where
  "route_world state = \<lparr>w_fs = status_fs, w_be = empty_fake,
     w_session = sample_session\<lparr>s_roots := [], s_policy := []\<rparr>, w_store = empty_store,
     w_routes = [(sample_route_id, sample_route state)]\<rparr>"


text \<open>Merging a route accounts for every nested root: each has a recorded outcome or a recorded error, and a
  recorded outcome belongs to a root of the session whose branch is not \<open>main\<close> and names that branch as the
  parent that received the changes, so a child is merged into the session's branch and never into the base.\<close>

lemma merge_children_accounts:
  assumes "merge_children (cli_backend c) r w = (Inr (outcomes, conflicts, errors), w')"
  shows "set (map fst outcomes) \<union> set (map fst errors) = set (map fst (dr_roots r)) \<and>
    (\<forall>(name, outcome)\<in>set outcomes. \<exists>outer. dict_get (s_roots (w_session w)) name = Some outer \<and> merged_into outer outcome)"
  using wp_result [OF cli.merge_children_accounted assms] sorted_items_set(1) [of "dr_roots r"]
  by (auto simp: accounted_def)

text \<open>A binary that accepts every command and reports a merge into the branch \<open>s1\<close>.\<close>

definition sample_cli :: "unit cli" where
  "sample_cli = \<lparr>cl_binary = ''branchfs'', cl_run = (\<lambda>argv d. (Inr (0, [], []), d)), cl_lazy_run = (\<lambda>argv d. (Inr (0, [], []), d)),
     cl_loads = (\<lambda>_. Inr (JObj [(''parent'', JStr ''s1'')])), cl_polls = 0, cl_timeout = ''30s'',
     cl_ready = (\<lambda>_ d. (Inr True, d)), cl_mountinfo_path = ''/proc/self/mountinfo''\<rparr>"

definition sample_nested :: nested_root where
  "sample_nested = \<lparr>nr_name = ''home'', nr_base = ''/base/home'', nr_store = ''/store/home'', nr_parent_branch = ''s1'',
     nr_branch = sample_route_id, nr_mount = ''/mnt/home'', nr_visible = ''/storage/user'', nr_home_subdir = None,
     nr_hide_paths = []\<rparr>"

definition nested_route :: delta_route where
  "nested_route = (sample_route ''frozen'')\<lparr>dr_roots := [(''home'', sample_nested)]\<rparr>"

definition cli_world :: "unit world" where
  "cli_world = \<lparr>w_fs = status_fs, w_be = (), w_session = sample_session\<lparr>s_roots := [(''home'', sample_root_record)]\<rparr>,
     w_store = empty_store, w_routes = [(sample_route_id, nested_route)]\<rparr>"

lemma merge_children_accounts_witness:
  "\<exists>outcomes conflicts errors w'. merge_children (cli_backend sample_cli) nested_route cli_world =
       (Inr (outcomes, conflicts, errors), w') \<and> map fst outcomes = [''home''] \<and>
     (\<forall>(name, outcome)\<in>set outcomes. \<exists>outer. dict_get (s_roots (w_session cli_world)) name = Some outer \<and>
        merged_into outer outcome)"
proof -
  let ?run = "merge_children (cli_backend sample_cli) nested_route cli_world"
  have "(case fst ?run of Inr (outcomes, conflicts, errors) \<Rightarrow> map fst outcomes = [''home''] | _ \<Rightarrow> False)"
    by code_simp
  then obtain outcomes conflicts errors where
    f: "fst ?run = Inr (outcomes, conflicts, errors)" and names: "map fst outcomes = [''home'']"
    by (auto split: sum.splits)
  from f have run: "?run = (Inr (outcomes, conflicts, errors), snd ?run)" by (metis prod.collapse)
  show ?thesis
    by (intro exI conjI, rule run, rule names, rule conjunct2 [OF merge_children_accounts [OF run]])
qed

lemma admitted_scope_some:
  "foldR (\<lambda>found a. case found of Some c \<Rightarrow> Inr (Some c) | None \<Rightarrow> f a) (Some c) xs = Inr (Some c)"
  by (induction xs) auto

lemma admitted_scope_found:
  "admitted_scope xs path = Inr (Some c) \<Longrightarrow>
   \<exists>a. JObj a \<in> set xs \<and> get_default a ''canonical_path'' JNull = JStr c \<and> is_within path c = Inr True"
proof (induction xs)
  case (Cons x xs)
  then show ?case
    unfolding admitted_scope_def
    by (cases x) (auto simp: bindR_eq_Inr admitted_scope_some split: json.splits if_splits)
qed (simp add: admitted_scope_def)

text \<open>A path is recorded as authorized only when it lies in a directory the route was admitted to, was written
  by this route alone, was not changed in the outer branch before the merge, and did not conflict.\<close>

theorem authorized_is_sole_and_admitted:
  assumes "attribution en fs r name outer conflict current before path existing = Inr d"
    and "get_default d ''authorized'' JNull = JBool True"
  shows "(\<exists>a scope. JObj a \<in> set (dr_admitted_roots r) \<and> get_default a ''canonical_path'' JNull = JStr scope \<and>
      is_within path scope = Inr True \<and> get_default d ''admitted_scope'' JNull = JStr scope) \<and>
    \<not> dict_has before path \<and> dict_has current path \<and> \<not> conflict \<and>
    get_default d ''route_ids'' JNull = JArr [JStr (dr_route_id r)]"
proof -
  obtain scope conflict' fingerprint ids where
    s: "admitted_scope (dr_admitted_roots r) path = Inr scope"
    and f: "path_fingerprint en fs outer conflict (dict_get current path) = Inr (conflict', fingerprint)"
    and d: "d = attribution_record r name scope conflict' fingerprint ids (dict_has before path)"
    using assms(1) unfolding attribution_def by (auto simp: bindR_eq_Inr)
  have a: "scope \<noteq> None" "\<not> conflict'" "\<not> dict_has before path"
    and i: "length (if JStr (dr_route_id r) \<in> set ids then ids else ids @ [JStr (dr_route_id r)]) \<le> 1"
    using assms(2) by (auto simp: d attribution_record_def get_default_def Let_def split: if_splits)
  have ids: "(if JStr (dr_route_id r) \<in> set ids then ids else ids @ [JStr (dr_route_id r)]) = [JStr (dr_route_id r)]"
    using i by (cases ids) (auto split: if_splits)
  from a(1) obtain c where c: "scope = Some c" by blast
  have "\<exists>a. JObj a \<in> set (dr_admitted_roots r) \<and> get_default a ''canonical_path'' JNull = JStr c \<and>
      is_within path c = Inr True"
    using s unfolding c by (rule admitted_scope_found)
  moreover have "get_default d ''admitted_scope'' JNull = JStr c" "get_default d ''route_ids'' JNull = JArr [JStr (dr_route_id r)]"
    using ids by (simp_all add: d attribution_record_def get_default_def Let_def c jopt_def)
  moreover have "dict_has current path \<and> \<not> conflict"
    using f a(2) by (auto simp: path_fingerprint_def split: option.splits if_splits)
  ultimately show ?thesis using a(3) by blast
qed

definition admitted_route :: delta_route where
  "admitted_route = (sample_route ''frozen'')\<lparr>dr_admitted_roots := [JObj [(''canonical_path'', JStr ''/storage/user/w'')]]\<rparr>"

definition removed_path :: change where
  "removed_path = \<lparr>ch_op = ''D'', ch_path = ''/storage/user/w/x'', ch_kind = ''file'', ch_bytes = 0, ch_root = ''home'',
     ch_summary = []\<rparr>"

lemma authorized_is_sole_and_admitted_witness:
  "\<exists>d. attribution sample_env status_fs admitted_route ''home'' sample_root_record False
       [(''/storage/user/w/x'', removed_path)] [] ''/storage/user/w/x'' None = Inr d \<and>
     get_default d ''route_ids'' JNull = JArr [JStr (dr_route_id admitted_route)]"
proof -
  let ?run = "attribution sample_env status_fs admitted_route ''home'' sample_root_record False
       [(''/storage/user/w/x'', removed_path)] [] ''/storage/user/w/x'' None"
  have "(case ?run of Inr d \<Rightarrow> get_default d ''authorized'' JNull = JBool True | _ \<Rightarrow> False)" by code_simp
  then obtain d where d: "?run = Inr d" "get_default d ''authorized'' JNull = JBool True" by (auto split: sum.splits)
  from authorized_is_sole_and_admitted [OF this] d(1) show ?thesis by blast
qed

text \<open>A lookup changes nothing, and it hands out bindings only for the single active route of the provider and
  the session: if it answers with a route, exactly one live route matches and it is active.\<close>

theorem lookup_only_active:
  assumes "lookup_route en provider hint w = (Inr (JObj answer), w')"
    and "get_default answer ''ok'' JNull = JBool True"
  shows "w' = w \<and> (\<exists>r. r \<in> set (map snd (w_routes w)) \<and> get_default answer ''route_id'' JNull = JStr (dr_route_id r) \<and>
    dr_state r = ''active'' \<and> dr_provider r = str_lower (str_strip provider) \<and>
    digest_logical_session (en_sha en) hint = Inr (dr_digest r) \<and>
    filter (\<lambda>s. dr_provider s = dr_provider r \<and> dr_digest s = dr_digest r \<and> dr_state s = ''active'')
      (map snd (w_routes w)) = [r])"
proof -
  let ?P = "\<lambda>digest r. dr_provider r = str_lower (str_strip provider) \<and> dr_digest r = digest \<and> dr_state r = ''active''"
  have w: "w' = w" using assms(1) by (simp add: lookup_route_def readE_def Let_def)
  obtain digest where digest: "digest_logical_session (en_sha en) hint = Inr digest"
    using assms by (auto simp: lookup_route_def readE_def Let_def no_active_route_def get_default_def split: sum.splits if_splits)
  obtain r where r: "filter (?P digest) (map snd (w_routes w)) = [r]"
    using assms digest
    by (auto simp: lookup_route_def readE_def Let_def no_active_route_def get_default_def split: list.splits)
  then have "r \<in> set (filter (?P digest) (map snd (w_routes w)))" by simp
  then have P: "?P digest r" and m: "r \<in> set (map snd (w_routes w))" by auto
  moreover have "get_default answer ''route_id'' JNull = JStr (dr_route_id r)"
    using assms(1) digest r by (auto simp: lookup_route_def readE_def Let_def get_default_def bindR_eq_Inr)
  moreover have "filter (\<lambda>s. dr_provider s = dr_provider r \<and> dr_digest s = dr_digest r \<and> dr_state s = ''active'')
      (map snd (w_routes w)) = [r]"
    using r P by simp
  ultimately show ?thesis using w digest by blast
qed

lemma lookup_only_active_witness:
  "\<exists>answer. lookup_route sample_env ''codex'' (JStr ''v'') (route_world ''active'') = (Inr (JObj answer), route_world ''active'') \<and>
     get_default answer ''route_id'' JNull = JStr sample_route_id"
proof -
  let ?run = "lookup_route sample_env ''codex'' (JStr ''v'') (route_world ''active'')"
  have "(case fst ?run of Inr (JObj d) \<Rightarrow> get_default d ''ok'' JNull = JBool True | _ \<Rightarrow> False)"
    by code_simp
  then obtain d where d: "fst ?run = Inr (JObj d)" "get_default d ''ok'' JNull = JBool True"
    by (auto split: sum.splits json.splits)
  then have run: "?run = (Inr (JObj d), snd ?run)" by (metis prod.collapse)
  from lookup_only_active [OF run d(2)] run show ?thesis
    by (auto simp: route_world_def sample_route_def)
qed

end
