(* ===== verification/Artifacts.thy ===== *)
theory Artifacts
  imports World
begin

text \<open>
  The review artifacts of a session (\<open>artifacts.py\<close>): which files of the review directory are generated,
  their removal, the JSON documents and the text of \<open>summary.md\<close>.  The JSON text comes from the encoder
  in \<open>env\<close>.
\<close>

type_synonym changes_by_root = "(string, change list) dict"
type_synonym warnings_by_root = "(string, status_warning list) dict"
type_synonym ignored_by_root = "(string, ignored_change list) dict"

section \<open>Generated files\<close>

definition write_review_json :: "env \<Rightarrow> string \<Rightarrow> json \<Rightarrow> (fs, unit) eff" where
  "write_review_json en path data =
     (let tmp = path @ ''.tmp'' in
      seqE (write_file tmp (en_dumps en data @ [CHR 0x0A])) (os_replace tmp path))"

definition is_review_cache_file :: "string \<Rightarrow> bool" where
  "is_review_cache_file name \<longleftrightarrow>
     name \<in> {''session.json'', ''policy-decision.json'', ''summary.md'', ''commit-permission-denied.json'',
       ''route-reconciliation.json''} \<or>
     ((startswith name ''status.'' \<or> startswith name ''ignored.'' \<or> startswith name ''warnings.'') \<and>
      endswith name ''.json'')"

definition clear_review_cache :: "string \<Rightarrow> (fs, unit) eff" where
  "clear_review_cache review =
     bindE (getE (\<lambda>fs. isdir fs review)) (\<lambda>dir.
       whenE dir (bindE (readE (\<lambda>fs. listdir fs review)) (\<lambda>names.
         forE (\<lambda>name.
           if \<not> is_review_cache_file name then retE ()
           else let path = path_join review name in
             bindE (getE (\<lambda>fs. isfile fs path \<or> islink fs path)) (\<lambda>leaf. whenE leaf (os_unlink path))) names)))"

section \<open>The summary\<close>

definition list_of :: "(string, 'a list) dict \<Rightarrow> string \<Rightarrow> 'a list" where
  "list_of d name = (case dict_get d name of Some xs \<Rightarrow> xs | None \<Rightarrow> [])"

definition ignored_pattern_counts :: "ignored_by_root \<Rightarrow> (string, nat) dict" where
  "ignored_pattern_counts ignored =
     fold (\<lambda>i counts. dict_set counts (ig_pattern i) (case dict_get counts (ig_pattern i) of Some n \<Rightarrow> Suc n | None \<Rightarrow> 1))
       (concat (map snd ignored)) []"

definition quoted :: "string \<Rightarrow> string" where
  "quoted s = [CHR 0x60] @ s @ [CHR 0x60]"

definition render_change_item :: "change \<Rightarrow> string" where
  "render_change_item c =
     ''- '' @ quoted (ch_op c) @ '' '' @ quoted (ch_path c) @ '' ('' @ ch_kind c @ '', '' @ show_int (ch_bytes c)
       @ '' bytes'' @ (if ch_summary c = [] then [] else ''; '' @ ch_summary c) @ '')''"

text \<open>\<open>policy.get(key) or []\<close> as the list the code iterates over.\<close>

definition truthy_list :: "json \<Rightarrow> json list result" where
  "truthy_list v = (if truthy v then as_list v else Inr [])"

definition truthy_dict :: "json \<Rightarrow> pydict result" where
  "truthy_dict v = (if truthy v then as_obj v else Inr [])"

definition summary_head :: "session \<Rightarrow> policy_decision \<Rightarrow> string list" where
  "summary_head s d =
     [''# Agent session '' @ s_id s, [], ''| field | value |'', ''|---|---|'',
      ''| agent | '' @ s_agent_kind s @ '' |'',
      ''| command | '' @ quoted (join_with '' '' (s_agent_command s)) @ '' |'',
      ''| workspace | '' @ (case s_workspace s of Some w \<Rightarrow> w | None \<Rightarrow> ''None'') @ '' |'',
      ''| owner | '' @ s_owner s @ '' |'', ''| created | '' @ s_created_at s @ '' |'',
      ''| finished | '' @ (if str_unset (s_finished_at s) then ''-'' else the (s_finished_at s)) @ '' |'',
      ''| exit status | '' @ (case s_exit_status s of Some n \<Rightarrow> show_int n | None \<Rightarrow> ''-'') @ '' |'',
      ''| completion | '' @ s_completion s @ '' |'',
      ''| policy mode | '' @ py_str (get_default (s_policy s) ''mode'' (JStr ''-'')) @ '' |'',
      ''| decision | **'' @ pd_decision d @ ''** |'', [], ''## Protected roots'', []]"

definition summary_roots :: "session \<Rightarrow> changes_by_root \<Rightarrow> ignored_by_root \<Rightarrow> string list" where
  "summary_roots s changes ignored =
     map (\<lambda>(name, root). ''- '' @ quoted name @ '': branch '' @ quoted (pr_branch root) @ '' over '' @ quoted (pr_base root)
         @ '' ('' @ show_nat (length (list_of changes name)) @ '' change(s)''
         @ (if list_of ignored name = [] then [] else '', '' @ show_nat (length (list_of ignored name)) @ '' ignored'') @ '')'')
       (sorted_items (s_roots s)) @ [[]]"

definition summary_decision :: "policy_decision \<Rightarrow> string list" where
  "summary_decision d =
     (if pd_reasons d = [] then [] else [''## Decision reasons'', []] @ map (\<lambda>r. ''- '' @ r) (pd_reasons d) @ [[]])
     @ (if pd_out_of_scope d = [] then []
        else [''## Out-of-scope paths'', []] @ map (\<lambda>p. ''- '' @ quoted p) (pd_out_of_scope d) @ [[]])
     @ (if pd_deny_matches d = [] then []
        else [''## Deny/hide rule matches'', []]
             @ map (\<lambda>m. ''- '' @ quoted (dm_path m) @ '' (rule '' @ quoted (dm_pattern m) @ '')'') (pd_deny_matches d) @ [[]])"

definition summary_failures :: "session \<Rightarrow> string list result" where
  "summary_failures s =
     bindR (truthy_list (get_default (s_policy s) COMMIT_PERMISSION_DENIED_KEY JNull)) (\<lambda>failures.
     bindR (mapR as_obj failures) (\<lambda>items.
       Inr (if items = [] then []
            else [''## Permission denied during commit'', [],
                  ''Writable changes were applied to the real underlay. The paths below could not be written and remain only in the BranchFS branch.'', []]
              @ map (\<lambda>item. ''- '' @ quoted (py_str (get_default item ''root'' (JStr []))) @ '' ''
                  @ quoted (py_str (get_default item ''path'' (JStr []))) @ '': ''
                  @ py_str (get_default item ''error'' (JStr ''permission denied''))) items
              @ [[], ''Choose '' @ quoted ''abort'' @ ''/discard to drop these remaining branch-only files and finish, or keep the session pending and ''
                  @ quoted ''resume'' @ '' it to copy/move them elsewhere manually.'', []])))"

definition summary_warnings :: "warnings_by_root \<Rightarrow> string list" where
  "summary_warnings warnings =
     (if concat (map snd warnings) = [] then []
      else [''## BranchFS status warnings'', [],
            ''These warnings mean status may be incomplete or commit may fail; review before committing.'', []]
        @ concat (map (\<lambda>(name, ws). map (\<lambda>w. ''- '' @ quoted name @ '' '' @ quoted (sw_path w) @ '': '' @ sw_message w) ws)
            (sorted_items warnings)) @ [[]])"

definition summary_reconciliation :: "session \<Rightarrow> string list result" where
  "summary_reconciliation s =
     (case get_default (s_policy s) ''route_reconciliation'' JNull of
        JObj r \<Rightarrow>
          bindR (truthy_dict (get_default r ''category_counts'' JNull)) (\<lambda>counts.
          bindR (truthy_dict (get_default r ''coverage'' JNull)) (\<lambda>coverage.
          bindR (truthy_list (get_default r ''blockers'' JNull)) (\<lambda>blockers.
            Inr ([''## Session-delta reconciliation'', []]
              @ (if counts = [] then []
                 else [''- path categories: '' @ join_with '', '' (map (\<lambda>(k, v). k @ ''='' @ py_str v) (sorted_items counts))])
              @ [''- bwrap coverage: routed='' @ py_str (get_default coverage ''routed_bwrap_calls'' (JInt 0))
                  @ '', bypassed/unattributed='' @ py_str (get_default coverage ''bypassed_or_unattributed_calls'' (JInt 0))]
              @ map (\<lambda>b. ''- review blocker: '' @ py_str b) blockers @ [[]]))))
      | _ \<Rightarrow> Inr [])"

text \<open>Two changes have the same key exactly when they are equal.\<close>

definition summary_changes :: "changes_by_root \<Rightarrow> changes_by_root \<Rightarrow> string list" where
  "summary_changes changes previous =
     (let all = concat (map snd (sorted_items changes)); before = concat (map snd (sorted_items previous)) in
      [''## Changed paths'', []]
      @ (if before \<noteq> []
         then ''already commited previously:'' # map render_change_item before @ [[], ''new commits:'']
              @ (let new = filter (\<lambda>c. c \<notin> set before) all in
                 if new = [] then [''(none)''] else map render_change_item new)
         else if all = [] then [''(none)''] else map render_change_item all) @ [[]])"

definition summary_ignored :: "session \<Rightarrow> ignored_by_root \<Rightarrow> string list" where
  "summary_ignored s ignored =
     (let counts = ignored_pattern_counts ignored; tick = quoted in
      if counts = [] then []
      else [''## Ignored by policy (not committed)'', [],
            ''These changes are excluded from ordinary '' @ tick ''diff'' @ '', '' @ tick ''review --accept'' @ '', and ''
              @ tick ''commit'' @ '' decisions and will be discarded unless explicitly included.'', []]
        @ map (\<lambda>(p, n). ''- '' @ tick p @ '': '' @ show_nat n @ (if n = 1 then '' change'' else '' changes'')) (sorted_items counts)
        @ [[], ''To inspect them, run '' @ tick (''ccc-agent diff '' @ s_id s @ '' --show-ignored'') @ '' or ''
              @ tick (''ccc-agent review '' @ s_id s @ '' --show-ignored'') @ ''.'',
            ''To accept them too, run '' @ tick (''ccc-agent review '' @ s_id s @ '' --accept --include-ignored'') @ ''.'', []])"

definition summary_next :: "session \<Rightarrow> string list" where
  "summary_next s =
     [''## Next steps'', [], [CHR 0x60, CHR 0x60, CHR 0x60] @ ''bash'',
      ''ccc-agent show '' @ s_id s,
      ''ccc-agent review '' @ s_id s @ ''        # browse and choose accept/select/reject/later'',
      ''ccc-agent diff '' @ s_id s @ ''          # list changed paths only'',
      ''ccc-agent diff '' @ s_id s @ '' <path>   # unified diff for one text file'',
      ''ccc-agent commit '' @ s_id s @ ''   # scripted full commit; repeat IDs to batch'',
      ''ccc-agent abort '' @ s_id s @ ''    # scripted discard; repeat IDs to batch'',
      [CHR 0x60, CHR 0x60, CHR 0x60], []]"

definition render_summary :: "session \<Rightarrow> changes_by_root \<Rightarrow> policy_decision \<Rightarrow> warnings_by_root \<Rightarrow> ignored_by_root \<Rightarrow>
    changes_by_root \<Rightarrow> string result" where
  "render_summary s changes d warnings ignored previous =
     bindR (summary_failures s) (\<lambda>failures.
     bindR (summary_reconciliation s) (\<lambda>reconciliation.
       Inr (join_with [CHR 0x0A]
         (summary_head s d @ summary_roots s changes ignored @ summary_decision d @ failures @ summary_warnings warnings
          @ reconciliation @ summary_changes changes previous @ summary_ignored s ignored @ summary_next s))))"

section \<open>Writing a review\<close>

definition write_review :: "env \<Rightarrow> changes_by_root \<Rightarrow> policy_decision \<Rightarrow> warnings_by_root \<Rightarrow> ignored_by_root \<Rightarrow>
    changes_by_root \<Rightarrow> ('b world, string) eff" where
  "write_review en changes d warnings ignored previous =
     bindE the_session (\<lambda>s.
     bindE (getE (\<lambda>w. review_dir (w_store w) (s_id s))) (\<lambda>review.
     let write = (\<lambda>name data. on_files (write_review_json en (path_join review name) data)) in
     seqE (on_files (makedirs review))
    (seqE (on_files (clear_review_cache review))
    (seqE (write ''session.json'' (JObj (session_to_dict s)))
    (seqE (forE (\<lambda>(name, cs). write (''status.'' @ name @ ''.json'') (JArr (map (\<lambda>c. JObj (change_to_dict c)) cs))) changes)
    (seqE (forE (\<lambda>(name, cs). write (''ignored.'' @ name @ ''.json'')
             (JArr (map (\<lambda>i. JObj (ignored_to_dict i)) (list_of ignored name)))) changes)
    (seqE (forE (\<lambda>(name, ws). write (''warnings.'' @ name @ ''.json'') (JArr (map (\<lambda>w. JObj (warning_to_dict w)) ws))) warnings)
    (seqE (let failures = get_default (s_policy s) COMMIT_PERMISSION_DENIED_KEY JNull in
             whenE (truthy failures) (write ''commit-permission-denied.json'' failures))
    (seqE (let r = get_default (s_policy s) ''route_reconciliation'' JNull in
             whenE (is_obj r) (write ''route-reconciliation.json'' r))
    (seqE (write ''policy-decision.json'' (JObj (decision_to_dict d)))
    (seqE (on_files (write_file (path_join review ''summary.md'') []))
    (bindE (liftE (render_summary s changes d warnings ignored previous)) (\<lambda>text.
     seqE (on_files (write_file (path_join review ''summary.md'') text))
          (retE review))))))))))))))"

section \<open>The summary is complete\<close>

lemma join_with_member: "x \<in> set xs \<Longrightarrow> sublist x (join_with g xs)"
proof (induction g xs rule: join_with.induct)
  case (3 g y z zs)
  have "sublist x (y @ g @ join_with g (z # zs))"
  proof (cases "x = y")
    case False
    then obtain us vs where "join_with g (z # zs) = us @ x @ vs" using 3 by (auto simp: sublist_def)
    then have "y @ g @ join_with g (z # zs) = (y @ g @ us) @ x @ vs" by simp
    then show ?thesis unfolding sublist_def by blast
  qed simp
  then show ?case by simp
qed simp_all

lemma dict_member: "(name, cs) \<in> set d \<Longrightarrow> c \<in> set cs \<Longrightarrow> c \<in> set (concat (map snd (sorted_items d)))"
  by force

lemma listed:
  assumes "c \<in> set all \<or> c \<in> set before"
  shows "f c \<in> set (h @ (if before \<noteq> [] then x # map f before @ [e, y] @
      (if filter (\<lambda>c. c \<notin> set before) all = [] then [z] else map f (filter (\<lambda>c. c \<notin> set before) all))
      else if all = [] then [z] else map f all) @ t)"
  using assms by (cases "c \<in> set before") (auto simp: filter_empty_conv)

lemma summary_changes_listed:
  "c \<in> set (concat (map snd (sorted_items changes))) \<or> c \<in> set (concat (map snd (sorted_items previous))) \<Longrightarrow>
   render_change_item c \<in> set (summary_changes changes previous)"
  unfolding summary_changes_def Let_def by (rule listed)

lemma summary_reasons_listed:
  assumes "r \<in> set (pd_reasons d)"
  shows "''- '' @ r \<in> set (summary_decision d)"
proof -
  have "''- '' @ r \<in> (\<lambda>r. ''- '' @ r) ` set (pd_reasons d)" using assms by (rule imageI)
  moreover have "pd_reasons d \<noteq> []" using assms by auto
  ultimately show ?thesis unfolding summary_decision_def by (simp only: if_False set_append set_map) blast
qed

lemma summary_warnings_listed:
  assumes "(name, ws) \<in> set warnings" "w \<in> set ws"
  shows "''- '' @ quoted name @ '' '' @ quoted (sw_path w) @ '': '' @ sw_message w \<in> set (summary_warnings warnings)"
proof -
  let ?lines = "concat (map (\<lambda>(name, ws). map (\<lambda>w. ''- '' @ quoted name @ '' '' @ quoted (sw_path w) @ '': '' @ sw_message w) ws)
    (sorted_items warnings))"
  have "''- '' @ quoted name @ '' '' @ quoted (sw_path w) @ '': '' @ sw_message w \<in> set ?lines"
    using assms by force
  moreover have "set ?lines \<subseteq> set (summary_warnings warnings)" if "concat (map snd warnings) \<noteq> []"
    unfolding summary_warnings_def using that by (simp only: if_False set_append) blast
  moreover have "concat (map snd warnings) \<noteq> []" using assms by force
  ultimately show ?thesis by blast
qed

text \<open>Nothing is missing from the review: the summary shown to the reviewer contains the line of every change to be
  committed and of every previously committed one, every reason of the decision, and every status warning.\<close>

theorem summary_complete:
  assumes "render_summary s changes d warnings ignored previous = Inr out"
    and "(\<exists>name cs c. ((name, cs) \<in> set changes \<or> (name, cs) \<in> set previous) \<and> c \<in> set cs \<and> line = render_change_item c) \<or>
      (\<exists>r. r \<in> set (pd_reasons d) \<and> line = ''- '' @ r) \<or>
      (\<exists>name ws w. (name, ws) \<in> set warnings \<and> w \<in> set ws \<and>
         line = ''- '' @ quoted name @ '' '' @ quoted (sw_path w) @ '': '' @ sw_message w)"
  shows "sublist line out"
proof -
  obtain failures reconciliation where t: "out = join_with [CHR 0x0A]
         (summary_head s d @ summary_roots s changes ignored @ summary_decision d @ failures @ summary_warnings warnings
          @ reconciliation @ summary_changes changes previous @ summary_ignored s ignored @ summary_next s)"
    using assms(1) by (auto simp: render_summary_def bindR_eq_Inr)
  let ?lines = "set (summary_decision d) \<union> set (summary_warnings warnings) \<union> set (summary_changes changes previous)"
  have "line \<in> ?lines"
    using assms(2)
  proof (elim disjE exE conjE)
    fix name cs c assume c: "(name, cs) \<in> set changes" "c \<in> set cs" "line = render_change_item c"
    show ?thesis unfolding c(3)
      by (rule UnI2) (rule summary_changes_listed [OF disjI1 [OF dict_member [OF c(1,2)]]])
  next
    fix name cs c assume c: "(name, cs) \<in> set previous" "c \<in> set cs" "line = render_change_item c"
    show ?thesis unfolding c(3)
      by (rule UnI2) (rule summary_changes_listed [OF disjI2 [OF dict_member [OF c(1,2)]]])
  next
    fix r assume r: "r \<in> set (pd_reasons d)" "line = ''- '' @ r"
    show ?thesis unfolding r(2)
      by (rule UnI1, rule UnI1) (use summary_reasons_listed [OF r(1)] in simp)
  next
    fix name ws w assume w: "(name, ws) \<in> set warnings" "w \<in> set ws"
      "line = ''- '' @ quoted name @ '' '' @ quoted (sw_path w) @ '': '' @ sw_message w"
    show ?thesis unfolding w(3)
      by (rule UnI1, rule UnI2) (rule summary_warnings_listed [OF w(1,2)])
  qed
  then show ?thesis unfolding t by (intro join_with_member) auto
qed

lemma summary_complete_witness:
  "\<exists>out. render_summary sample_session [(''storage'', [sample_change ''A'' ''/w/a''])]
       \<lparr>pd_decision = PENDING_REVIEW, pd_total = 1, pd_out_of_scope = [], pd_deny_matches = [], pd_reasons = [''manual mode'']\<rparr>
       [] [] [] = Inr out \<and> sublist (render_change_item (sample_change ''A'' ''/w/a'')) out"
proof -
  let ?d = "\<lparr>pd_decision = PENDING_REVIEW, pd_total = 1, pd_out_of_scope = [], pd_deny_matches = [], pd_reasons = [''manual mode'']\<rparr>"
  have "summary_failures sample_session = Inr []" "summary_reconciliation sample_session = Inr []"
    by code_simp+
  then obtain out where r: "render_summary sample_session [(''storage'', [sample_change ''A'' ''/w/a''])] ?d [] [] [] = Inr out"
    by (simp add: render_summary_def)
  show ?thesis using summary_complete [OF r, of "render_change_item (sample_change ''A'' ''/w/a'')"] r by auto
qed

end
