(* ===== verification/Finalize.thy ===== *)
theory Finalize
  imports Artifacts RouteManager
begin

text \<open>
  The end of a session (\<open>runner.finalize_session\<close> and what it calls): freeze, status, preflight of every
  path the commit would write, reconciliation with the delta routes, the policy decision, the review
  artifacts, and the outcome: a selective apply, a discard, or a branch kept for review.
\<close>

section \<open>Status and failure\<close>

definition log_event :: "env \<Rightarrow> string \<Rightarrow> json option \<Rightarrow> ('b world, unit) eff" where
  "log_event en event detail = mod_session (add_event (en_now en) event detail)"

definition move_session :: "env \<Rightarrow> string \<Rightarrow> ('b world, unit) eff" where
  "move_session en new = on_session (transition (en_now en) new)"

definition fail_session :: "env \<Rightarrow> string \<Rightarrow> ('b world, unit) eff" where
  "fail_session en detail =
     seqE (log_event en ''error'' (Some (JStr detail)))
    (seqE (bindE the_session (\<lambda>s. whenE (s_state s \<noteq> ''failed'') (move_session en ''failed'')))
          save_session)"

definition collect_status_reports :: "'b backend \<Rightarrow> ('b world, (string, status_report) dict) eff" where
  "collect_status_reports B =
     bindE the_session (\<lambda>s.
       mapE (\<lambda>(name, root). bindE (on_disk (be_status_report B root)) (\<lambda>r. retE (name, r))) (sorted_items (s_roots s)))"

definition collect_status :: "'b backend \<Rightarrow> ('b world, changes_by_root) eff" where
  "collect_status B =
     bindE (collect_status_reports B) (\<lambda>reports. retE (map (\<lambda>(name, r). (name, sr_changes r)) reports))"

definition unmount_all :: "'b backend \<Rightarrow> ('b world, unit) eff" where
  "unmount_all B =
     bindE the_session (\<lambda>s. forE (\<lambda>(name, root). tryE (on_disk (be_unmount B root))) (s_roots s))"

text \<open>The changes and the ignored changes of every root, and the warnings of the roots that have some.\<close>

definition split_reports :: "(string, status_report) dict \<Rightarrow> policy_config \<Rightarrow> alias_map \<Rightarrow>
    (changes_by_root \<times> ignored_by_root) result" where
  "split_reports reports config am =
     bindR (mapR (\<lambda>(name, r). bindR (split_ignored (sr_changes r) config am) (\<lambda>p. Inr (name, p))) reports) (\<lambda>ps.
       Inr (map (\<lambda>(name, p). (name, fst p)) ps, map (\<lambda>(name, p). (name, snd p)) ps))"

definition report_warnings :: "(string, status_report) dict \<Rightarrow> warnings_by_root" where
  "report_warnings reports =
     map (\<lambda>(name, r). (name, sr_warnings r)) (filter (\<lambda>(name, r). sr_warnings r \<noteq> []) reports)"

section \<open>Preflight\<close>

definition preflight_error :: "fs \<Rightarrow> protected_root \<Rightarrow> alias_map \<Rightarrow> change \<Rightarrow> string list result" where
  "preflight_error fs root am c =
     (case bindR (store_paths root c am) (\<lambda>(rel, delta, base). verify_apply_parent fs root base) of
        Inr _ \<Rightarrow> Inr []
      | Inl e \<Rightarrow> if is_os_error e \<or> is_value_error e then Inr [ch_path c @ '': '' @ exn_str e] else Inl e)"

definition apply_preflight_errors :: "fs \<Rightarrow> session \<Rightarrow> changes_by_root \<Rightarrow> alias_map \<Rightarrow> string list result" where
  "apply_preflight_errors fs s changes am =
     bindR (mapR (\<lambda>(name, cs). bindR (get_item (s_roots s) name) (\<lambda>root.
              bindR (mapR (preflight_error fs root am) cs) (\<lambda>es. Inr (concat es)))) (sorted_items changes)) (\<lambda>es.
       Inr (concat es))"

text \<open>The persisted admission records: the launch workspace and the admitted roots of every route.  \<open>Inl\<close> is the
  early return with one error.  An empty list of admitted roots reads as malformed, as in the code, where
  \<open>or ()\<close> turns it into a tuple.\<close>

definition route_admissions :: "string \<Rightarrow> json \<Rightarrow> string + json list" where
  "route_admissions rid payload =
     (case payload of
        JObj d \<Rightarrow> (case get_default d ''admitted_roots'' JNull of
            JArr xs \<Rightarrow> if xs = [] then Inl (''route '' @ rid @ '' admitted roots are malformed'') else Inr (filter is_obj xs)
          | _ \<Rightarrow> Inl (''route '' @ rid @ '' admitted roots are malformed''))
      | _ \<Rightarrow> Inl (''route '' @ rid @ '' admission metadata is malformed''))"

primrec admission_records :: "(string \<times> json) list \<Rightarrow> string + json list" where
  "admission_records [] = Inr []"
| "admission_records (x # xs) =
     (case route_admissions (fst x) (snd x) of
        Inl e \<Rightarrow> Inl e
      | Inr rs \<Rightarrow> (case admission_records xs of Inl e \<Rightarrow> Inl e | Inr others \<Rightarrow> Inr (rs @ others)))"

definition admission_key :: "pydict \<Rightarrow> json" where
  "admission_key d =
     (let k = get_default d ''canonical_key'' JNull in if truthy k then k else get_default d ''canonical_path'' JNull)"

primrec revalidate_records :: "admission_policy \<Rightarrow> fs \<Rightarrow> json list \<Rightarrow> json list \<Rightarrow> string list result" where
  "revalidate_records pol fs seen [] = Inr []"
| "revalidate_records pol fs seen (r # rs) =
     bindR (as_obj r) (\<lambda>d.
       let key = admission_key d in
       if key \<in> set seen then revalidate_records pol fs seen rs
       else
         bindR (case revalidate pol fs (JObj d) of
                  Inr _ \<Rightarrow> Inr []
                | Inl e \<Rightarrow> if is_os_error e \<or> is_value_error e
                           then Inr [''workspace admission '' @ py_str key @ '' changed: '' @ exn_str e] else Inl e) (\<lambda>es.
         bindR (revalidate_records pol fs (key # seen) rs) (\<lambda>others. Inr (es @ others))))"

definition revalidate_commit_admissions :: "fs \<Rightarrow> session \<Rightarrow> alias_map \<Rightarrow> string list result" where
  "revalidate_commit_admissions fs s am =
     bindR (make_admission_policy (s_roots s) am (get_default (s_policy s) ''workspace_admission_roots'' JNull)
              (get_default (s_policy s) ''allow_protected_root_workspace'' (JBool False))) (\<lambda>pol.
       case admission_records (s_delta_routes s) of
         Inl e \<Rightarrow> Inr [e]
       | Inr rs \<Rightarrow>
           (let launch = get_default (s_policy s) ''launch_workspace_admission'' JNull in
            revalidate_records pol fs [] ((if is_obj launch then [launch] else []) @ rs)))"

section \<open>Route reconciliation\<close>

record reconciliation =
  rc_records :: pydict
  rc_items :: "json list"
  rc_authorized :: "string list"
  rc_blockers :: "string list"
  rc_counts :: "(string, int) dict"

definition attribution_index :: "alias_map \<Rightarrow> pydict \<Rightarrow> (string, string) dict result" where
  "attribution_index am records =
     foldR (\<lambda>index (path, record).
       if is_obj record then bindR (canonicalize am path) (\<lambda>key. Inr (dict_set index key path)) else Inr index) [] records"

definition route_blocking :: "string list" where
  "route_blocking = [''conflicted'', ''multiply-influenced'', ''attributed-out-of-scope'']"

text \<open>What one change comes to: its category, whether a route authorizes it, the routes that wrote it, the
  blockers it adds, and the record as it is left.\<close>

definition judge_change :: "env \<Rightarrow> fs \<Rightarrow> protected_root \<Rightarrow> change \<Rightarrow> string \<Rightarrow> pydict \<Rightarrow>
    (string \<times> bool \<times> json list \<times> string list \<times> pydict) result" where
  "judge_change en fs root c key record =
     (let named = (let v = get_default record ''category'' JNull in if truthy v then py_str v else ''conflicted'') in
      bindR (truthy_list (get_default record ''route_ids'' JNull)) (\<lambda>ids.
      if get_default record ''authorized'' JNull \<noteq> JBool True
      then Inr (named, False, ids, if named \<in> set route_blocking then [key @ '' is '' @ named] else [], record)
      else
        bindR (case fingerprint_change en fs root c of
                 Inr f \<Rightarrow> Inr (f, [])
               | Inl e \<Rightarrow> if is_os_error e \<or> is_value_error e
                          then Inr (JNull, [key @ '' could not be revalidated: '' @ exn_str e]) else Inl e) (\<lambda>(current, bs).
        if \<not> py_eq current (get_default record ''fingerprint'' JNull)
        then Inr (''conflicted-after-merge'', False, ids, bs @ [key @ '' changed after its route merge''],
               dict_set (dict_set record ''authorized'' (JBool False)) ''category'' (JStr ''conflicted-after-merge''))
        else Inr (named, True, ids, bs @ (if named \<in> set route_blocking then [key @ '' is '' @ named] else []), record))))"

definition reconcile_change :: "env \<Rightarrow> fs \<Rightarrow> alias_map \<Rightarrow> (string, string) dict \<Rightarrow> string \<Rightarrow> protected_root \<Rightarrow>
    reconciliation \<Rightarrow> change \<Rightarrow> reconciliation result" where
  "reconcile_change en fs am index name root acc c =
     bindR (canonicalize am (ch_path c)) (\<lambda>key.
     bindR (case dict_get index key of
              None \<Rightarrow> Inr (''shared/unattributed'', False, [], [], None)
            | Some path \<Rightarrow>
                bindR (bindR (get_item (rc_records acc) path) as_obj) (\<lambda>record.
                bindR (judge_change en fs root c key record) (\<lambda>(category, authorized, ids, bs, record').
                  Inr (category, authorized, ids, bs, Some (path, record')))))
       (\<lambda>(category, authorized, ids, bs, updated).
       Inr \<lparr>rc_records = (case updated of Some (path, r) \<Rightarrow> dict_set (rc_records acc) path (JObj r) | None \<Rightarrow> rc_records acc),
            rc_items = rc_items acc @ [JObj [(''path'', JStr key), (''root'', JStr name), (''op'', JStr (ch_op c)),
              (''category'', JStr category), (''authorized'', JBool authorized), (''route_ids'', JArr ids)]],
            rc_authorized = rc_authorized acc @ (if authorized then [key] else []),
            rc_blockers = rc_blockers acc @ bs,
            rc_counts = dict_set (rc_counts acc) category
              (case dict_get (rc_counts acc) category of Some n \<Rightarrow> n + 1 | None \<Rightarrow> 1)\<rparr>))"

definition open_route_states :: "string list" where
  "open_route_states = [''provisioning'', ''active'', ''quiescing'', ''frozen'', ''pending-review'']"

text \<open>States, blockers and the coverage counters of the session's routes.\<close>

definition route_overview :: "pydict \<Rightarrow> (pydict \<times> string list \<times> int \<times> int) result" where
  "route_overview routes =
     foldR (\<lambda>(states, bs, routed, bypassed) (rid, payload).
       case payload of
         JObj d \<Rightarrow>
           (let state = (let v = get_default d ''state'' JNull in if truthy v then py_str v else ''unknown'') in
            bindR (truthy_dict (get_default d ''coverage'' JNull)) (\<lambda>cov.
            bindR (as_int (get_default cov ''routed_bwrap_calls'' (JInt 0))) (\<lambda>m.
            bindR (as_int (get_default cov ''bypassed_or_unattributed_calls'' (JInt 0))) (\<lambda>n.
              Inr (dict_set states rid (JStr state),
                   bs @ (if state \<in> set open_route_states then [''route '' @ rid @ '' remains '' @ state] else []),
                   routed + m, bypassed + n)))))
       | _ \<Rightarrow> Inr (states, bs @ [''route '' @ rid @ '' metadata is malformed''], routed, bypassed))
     ([], [], 0, 0) (sorted_items routes)"

definition reconcile :: "env \<Rightarrow> fs \<Rightarrow> alias_map \<Rightarrow> changes_by_root \<Rightarrow> session \<Rightarrow>
    (reconciliation \<times> string list \<times> json) result" where
  "reconcile en fs am changes s =
     (let records = (case get_default (s_policy s) ''route_path_attribution'' JNull of JObj d \<Rightarrow> d | _ \<Rightarrow> []) in
      bindR (attribution_index am records) (\<lambda>index.
      bindR (foldR (\<lambda>acc (name, cs). bindR (get_item (s_roots s) name) (\<lambda>root.
               foldR (reconcile_change en fs am index name root) acc cs))
               \<lparr>rc_records = records, rc_items = [], rc_authorized = [], rc_blockers = [], rc_counts = []\<rparr>
               (sorted_items changes)) (\<lambda>rc.
      bindR (route_overview (s_delta_routes s)) (\<lambda>(states, bs, routed, bypassed).
        let blockers = sorted_set (rc_blockers rc @ bs) in
        Inr (rc, blockers, JObj [(''schema_version'', JInt 1), (''items'', JArr (rc_items rc)),
          (''category_counts'', JObj (map (\<lambda>(k, n). (k, JInt n)) (rc_counts rc))),
          (''authorized_paths'', jstrs (sorted_set (rc_authorized rc))), (''blockers'', jstrs blockers),
          (''route_states'', JObj states),
          (''coverage'', JObj [(''routed_bwrap_calls'', JInt routed), (''bypassed_or_unattributed_calls'', JInt bypassed)])])))))"

text \<open>The reconciliation is kept in the policy, next to the records as it leaves them.\<close>

definition route_reconciliation :: "env \<Rightarrow> changes_by_root \<Rightarrow> alias_map \<Rightarrow> ('b world, string list \<times> string list) eff" where
  "route_reconciliation en changes am =
     bindE (readE (\<lambda>w. reconcile en (w_fs w) am changes (w_session w))) (\<lambda>(rc, blockers, doc).
     seqE (mod_session (\<lambda>s. set_policy ''route_reconciliation'' doc
             (if is_obj (get_default (s_policy s) ''route_path_attribution'' JNull)
              then set_policy ''route_path_attribution'' (JObj (rc_records rc)) s else s)))
          (retE (sorted_set (rc_authorized rc), blockers)))"

section \<open>The decision\<close>

definition demote :: "string \<Rightarrow> policy_decision \<Rightarrow> policy_decision" where
  "demote reason d =
     d\<lparr>pd_reasons := (if reason \<in> set (pd_reasons d) then pd_reasons d else pd_reasons d @ [reason]),
       pd_decision := (if pd_decision d \<in> {AUTO_COMMIT, NO_CHANGES} then PENDING_REVIEW else pd_decision d)\<rparr>"

definition demote_for :: "string \<Rightarrow> string list \<Rightarrow> policy_decision \<Rightarrow> policy_decision" where
  "demote_for label problems d = (if problems = [] then d else demote (label @ join_with ''; '' (take 8 problems)) d)"

definition final_decision :: "string list \<Rightarrow> string list \<Rightarrow> nat \<Rightarrow> policy_decision \<Rightarrow> policy_decision" where
  "final_decision admission_errors blockers warnings d =
     (let d = demote_for ''safe apply preflight failed: '' admission_errors d;
          d = demote_for ''session-delta reconciliation requires review: '' blockers d
      in if warnings = 0 then d
         else demote (show_nat warnings @ '' BranchFS status warning(s); manual review required because status may be incomplete or commit may fail'') d)"

section \<open>Applying the decision\<close>

definition abort_roots :: "'b backend \<Rightarrow> ('b world, unit) eff" where
  "abort_roots B = bindE the_session (\<lambda>s. forE (\<lambda>(name, root). on_disk (be_abort B root)) (s_roots s))"

text \<open>The records of refused changes and the applied (root, relative path) pairs.\<close>

type_synonym applied_changes = "json list \<times> (protected_root \<times> string) list"

definition rel_of_change :: "protected_root \<Rightarrow> change \<Rightarrow> alias_map \<Rightarrow> string result" where
  "rel_of_change root c am = bindR (store_paths root c am) (\<lambda>(rel, delta, base). Inr rel)"

definition apply_one :: "env \<Rightarrow> alias_map \<Rightarrow> applied_changes \<Rightarrow> protected_root \<times> change \<Rightarrow> ('b world, applied_changes) eff" where
  "apply_one en am acc x =
     (case x of (root, c) \<Rightarrow>
        bindE (tryE (on_files (apply_change_from_store root c am))) (\<lambda>res. case res of
          Inl e \<Rightarrow>
            if \<not> is_permission_denied e then raiseE e
            else bindE (liftE (rel_of_change root c am)) (\<lambda>rel.
              seqE (log_event en ''commit-permission-denied'' (Some (JStr (ch_path c @ '': '' @ exn_str e))))
                   (retE (fst acc @ [permission_failure_record root c rel e], snd acc)))
        | Inr _ \<Rightarrow> bindE (liftE (rel_of_change root c am)) (\<lambda>rel. retE (fst acc, snd acc @ [(root, rel)]))))"

definition reviewed :: "session \<Rightarrow> changes_by_root \<Rightarrow> (protected_root \<times> change) list" where
  "reviewed s changes = concat (map (\<lambda>(name, root). map (Pair root) (list_of changes name)) (sorted_items (s_roots s)))"

definition apply_reviewed :: "env \<Rightarrow> alias_map \<Rightarrow> changes_by_root \<Rightarrow> ('b world, applied_changes) eff" where
  "apply_reviewed en am changes =
     bindE the_session (\<lambda>s. foldE (apply_one en am) ([], []) (reviewed s changes))"

definition pending_decision_for_permission_failures :: "json list \<Rightarrow> changes_by_root \<Rightarrow> policy_decision" where
  "pending_decision_for_permission_failures failures changes =
     \<lparr>pd_decision = PENDING_REVIEW, pd_total = length (concat (map snd changes)), pd_out_of_scope = [], pd_deny_matches = [],
      pd_reasons = [show_nat (length failures) @ (if length failures = 1 then '' change'' else '' changes'')
        @ '' could not be committed because the real underlay returned permission denied; writable changes were committed and these paths remain in BranchFS for discard or manual handling'']\<rparr>"

definition rewrite_review :: "'b backend \<Rightarrow> env \<Rightarrow> alias_map \<Rightarrow> json list \<Rightarrow> ('b world, unit) eff" where
  "rewrite_review B en am failures =
     bindE (readE (\<lambda>w. config_from_dict (s_policy (w_session w)))) (\<lambda>config.
     bindE (collect_status_reports B) (\<lambda>reports.
     bindE (liftE (split_reports reports config am)) (\<lambda>(changes, ignored).
     bindE (write_review en changes (pending_decision_for_permission_failures failures changes)
              (report_warnings reports) ignored []) (\<lambda>review.
       log_event en ''review-artifacts'' (Some (JStr review))))))"

text \<open>Some paths were refused: the applied ones leave the branch, the rest stays for review.\<close>

definition keep_refused :: "'b backend \<Rightarrow> env \<Rightarrow> alias_map \<Rightarrow> applied_changes \<Rightarrow> ('b world, unit) eff" where
  "keep_refused B en am res =
     (case res of (denied, applied) \<Rightarrow>
     seqE (forE (\<lambda>(root, rel). on_disk (prune_backend_change B root rel)) applied)
    (seqE (on_session (remember_permission_failures denied (int (length applied))))
    (seqE (rewrite_review B en am denied)
    (seqE (log_event en ''pending'' (Some (JStr (show_nat (length denied) @ '' permission-denied path(s) remain in BranchFS''))))
          (move_session en ''pending-review'')))))"

definition close_committed :: "'b backend \<Rightarrow> env \<Rightarrow> ('b world, unit) eff" where
  "close_committed B en =
     seqE (bindE the_session (\<lambda>s. forE (\<lambda>(name, root).
             seqE (on_disk (be_abort B root)) (log_event en ''committed-root'' (Some (JStr name)))) (sorted_items (s_roots s))))
          (move_session en ''auto-committed'')"

text \<open>True when the outcome is to be saved; a failed commit has saved itself.\<close>

definition auto_commit :: "'b backend \<Rightarrow> env \<Rightarrow> alias_map \<Rightarrow> changes_by_root \<Rightarrow> ('b world, bool) eff" where
  "auto_commit B en am changes =
     seqE (mod_session clear_permission_failures)
    (bindE (tryE (apply_reviewed en am changes)) (\<lambda>res. case res of
       Inl e \<Rightarrow>
         seqE (fail_session en (''commit failed, branch preserved for manual recovery: '' @ exn_str e)) (retE False)
     | Inr res \<Rightarrow>
         seqE (if fst res \<noteq> [] then keep_refused B en am res else close_committed B en) (retE True)))"

definition carry_out :: "'b backend \<Rightarrow> env \<Rightarrow> alias_map \<Rightarrow> changes_by_root \<Rightarrow> policy_decision \<Rightarrow> ('b world, bool) eff" where
  "carry_out B en am changes d =
     (if pd_decision d = NO_CHANGES
      then seqE (abort_roots B) (seqE (log_event en ''closed'' (Some (JStr ''no changes (no-op); branch discarded'')))
             (seqE (move_session en ''auto-committed'') (retE True)))
      else if pd_decision d = ABORT
      then seqE (abort_roots B) (seqE (log_event en ''closed'' (Some (JStr ''throwaway policy; branch aborted'')))
             (seqE (move_session en ''aborted'') (retE True)))
      else if pd_decision d = AUTO_COMMIT then auto_commit B en am changes
      else seqE (log_event en ''pending'' (Some (JStr (join_with ''; '' (pd_reasons d)))))
             (seqE (move_session en ''pending-review'') (retE True)))"

definition apply_decision :: "'b backend \<Rightarrow> env \<Rightarrow> alias_map \<Rightarrow> changes_by_root \<Rightarrow> policy_decision \<Rightarrow> ('b world, unit) eff" where
  "apply_decision B en am changes d =
     bindE (carry_out B en am changes d) (\<lambda>unsaved. whenE unsaved save_session)"

section \<open>Finalisation\<close>

definition freeze_session :: "'b backend \<Rightarrow> env \<Rightarrow> ('b world, unit) eff" where
  "freeze_session B en =
     seqE (bindE the_session (\<lambda>s. forE (\<lambda>(name, root). on_disk (be_freeze B root)) (s_roots s)))
    (seqE (log_event en ''frozen-bundle'' None)
    (seqE (move_session en ''frozen'') save_session))"

definition previously_committed :: "fs \<Rightarrow> session \<Rightarrow> alias_map \<Rightarrow> changes_by_root \<Rightarrow> changes_by_root result" where
  "previously_committed fs s am changes =
     bindR (mapR (\<lambda>(name, cs). bindR (split_previously_committed_changes fs cs s (s_roots s) am) (\<lambda>p.
              Inr (name, fst p))) changes) (\<lambda>ps. Inr (filter (\<lambda>(name, cs). cs \<noteq> []) ps))"

definition routes_in_use :: "session \<Rightarrow> bool" where
  "routes_in_use s \<longleftrightarrow> truthy (get_default (s_policy s) ''session_delta_routing'' JNull) \<or> s_delta_routes s \<noteq> []"

text \<open>What the decision is taken on: the changes to commit, and everything else shown in the review.\<close>

record evidence =
  ev_config :: policy_config
  ev_changes :: changes_by_root
  ev_ignored :: ignored_by_root
  ev_warnings :: warnings_by_root
  ev_previous :: changes_by_root
  ev_errors :: "string list"

definition gather_evidence :: "'b backend \<Rightarrow> alias_map \<Rightarrow> ('b world, evidence) eff" where
  "gather_evidence B am =
     bindE (readE (\<lambda>w. config_from_dict (s_policy (w_session w)))) (\<lambda>config.
     bindE (collect_status_reports B) (\<lambda>reports.
     bindE (liftE (split_reports reports config am)) (\<lambda>(changes, ignored).
     bindE (readE (\<lambda>w. previously_committed (w_fs w) (w_session w) am changes)) (\<lambda>previous.
     bindE (readE (\<lambda>w. revalidate_commit_admissions (w_fs w) (w_session w) am)) (\<lambda>admission.
     bindE (readE (\<lambda>w. apply_preflight_errors (w_fs w) (w_session w) changes am)) (\<lambda>preflight.
       retE \<lparr>ev_config = config, ev_changes = changes, ev_ignored = ignored, ev_warnings = report_warnings reports,
             ev_previous = previous, ev_errors = admission @ preflight\<rparr>))))))"

definition decide_session :: "env \<Rightarrow> alias_map \<Rightarrow> evidence \<Rightarrow> ('b world, policy_decision) eff" where
  "decide_session en am ev =
     bindE the_session (\<lambda>s.
     bindE (if routes_in_use s then route_reconciliation en (ev_changes ev) am else retE ([], [])) (\<lambda>(authorized, blockers).
     bindE (liftE (evaluate (concat (map snd (ev_changes ev)))
              ((ev_config ev)\<lparr>pc_allowed_scopes := pc_allowed_scopes (ev_config ev) @ authorized\<rparr>) am)) (\<lambda>d.
       retE (final_decision (ev_errors ev) blockers (length (concat (map snd (ev_warnings ev)))) d))))"

definition finalize_session :: "'b backend \<Rightarrow> env \<Rightarrow> alias_map \<Rightarrow> ('b world, policy_decision) eff" where
  "finalize_session B en am =
     seqE (freeze_session B en)
    (bindE (gather_evidence B am) (\<lambda>ev.
     bindE (decide_session en am ev) (\<lambda>d.
     bindE (write_review en (ev_changes ev) d (ev_warnings ev) (ev_ignored ev) (ev_previous ev)) (\<lambda>review.
     seqE (log_event en ''review-artifacts'' (Some (JStr review)))
    (seqE (unmount_all B)
    (seqE (log_event en ''unmounted-bundle'' None)
    (seqE (apply_decision B en am (ev_changes ev) d)
          (retE d))))))))"

section \<open>Remote bridges\<close>

definition discard_remote_bridge_session :: "'b backend \<Rightarrow> env \<Rightarrow> ('b world, bool) eff" where
  "discard_remote_bridge_session B en =
     seqE (unmount_all B)
    (seqE (log_event en ''unmounted-bundle'' None)
    (bindE (tryE (abort_roots B)) (\<lambda>res. case res of
       Inl e \<Rightarrow> seqE (fail_session en (''remote bridge discard failed; branch preserved: '' @ exn_str e)) (retE False)
     | Inr _ \<Rightarrow>
         seqE (log_event en ''closed'' (Some (JStr ''remote bridge finished; branch discarded'')))
        (seqE (move_session en ''aborted'')
        (seqE save_session
        (bindE (tryE (bindE (readE (\<lambda>w. store_remove (s_id (w_session w)) (w_store w))) (\<lambda>(removed, st).
                  modE (\<lambda>w. w\<lparr>w_store := st\<rparr>)))) (\<lambda>gone. case gone of
           Inr _ \<Rightarrow> retE True
         | Inl e \<Rightarrow>
             if is_os_error e \<or> is_value_error e
             then seqE (log_event en ''error'' (Some (JStr (''remote bridge bundle cleanup failed: '' @ exn_str e))))
                 (seqE save_session (retE False))
             else raiseE e)))))))"

end
