(* ===== verification/FsTree.thy ===== *)
theory FsTree
  imports World
begin

text \<open>
  The file system stays a tree: the root is a directory, every other node stands in a directory, and
  the kernel refuses to remove the root.  Every operation keeps this, whatever it returns, so a
  sequence of applies can be reasoned about one apply at a time.
\<close>

definition tree_ok :: "fs \<Rightarrow> bool" where
  "tree_ok fs \<longleftrightarrow> fs_ok fs \<and> fs_fault fs ''remove'' [] \<noteq> None"

lemma tree_fs_ok: "tree_ok fs \<Longrightarrow> fs_ok fs"
  by (simp add: tree_ok_def)

lemma tree_ok_clock [simp]: "tree_ok (fs\<lparr>fs_clock := n\<rparr>) = tree_ok fs" "tree_ok (fs\<lparr>fs_next_ino := k\<rparr>) = tree_ok fs"
  by (simp_all add: tree_ok_def fs_ok_def dir_at_def)

section \<open>Where a path leads\<close>

text \<open>The parent of what a path resolves to is a directory.\<close>

lemma dir_at_butlast: "fs_ok fs \<Longrightarrow> dir_at fs p \<Longrightarrow> dir_at fs (butlast p)"
  by (metis append_butlast_last_id butlast.simps(1) dir_at_def fs_ok_def node_kinds(1))

lemma walk_parent:
  "fs_ok fs \<Longrightarrow> walk fs n f cur cs = Inr q \<Longrightarrow> dir_at fs cur \<Longrightarrow> dir_at fs (butlast q)"
proof (induction fs n f cur cs rule: walk.induct)
  case (1 fs n f cur)
  then show ?case by (simp add: dir_at_butlast)
next
  case (2 fs n f cur c cs)
  have root: "dir_at fs []" using "2.prems" by (simp add: fs_ok_def)
  consider "c = '''' \<or> c = ''.''" | "c \<noteq> ''''" "c \<noteq> ''.''" "c = pardir" | (name) "c \<noteq> ''''" "c \<noteq> ''.''" "c \<noteq> pardir" by blast
  then show ?case
  proof cases
    case name
    show ?thesis
    proof (cases "lookup fs (cur @ [c])")
      case None
      then show ?thesis using "2.prems" name by (auto split: if_splits)
    next
      case (Some i)
      show ?thesis
      proof (cases "in_content i")
        case Directory
        then have "dir_at fs (cur @ [c])" using Some by (simp add: dir_at_def)
        then show ?thesis using "2.IH"(3) [OF _ _ Some Directory] "2.prems" Some Directory name by simp
      next
        case (Symlink t)
        have "dir_at fs (if isabs t then [] else cur)" using "2.prems" root by simp
        then show ?thesis
          using "2.IH"(4) [OF _ _ Some Symlink] "2.prems" Some Symlink name by (auto split: if_splits)
      qed (use "2.prems" Some name in \<open>auto split: if_splits\<close>)
    qed
  qed (use 2 dir_at_butlast in auto)
qed

lemma resolve_parent: "fs_ok fs \<Longrightarrow> resolve fs f p = Inr q \<Longrightarrow> dir_at fs (butlast q)"
  unfolding resolve_def by (auto split: if_splits intro: walk_parent simp: fs_ok_def)

section \<open>Every operation keeps the tree\<close>

lemma tree_new:
  assumes "tree_ok fs" "dir_at fs (butlast q)" "lookup fs q = None"
  shows "tree_ok (new_node q c fs)"
proof -
  have "q \<noteq> []" using assms by (auto simp: tree_ok_def fs_ok_def dir_at_def)
  moreover have "dir_at (new_node q c fs) p" if "dir_at fs p" for p
    using that assms(3) by (auto simp: dir_at_def lookup_new_node)
  ultimately show ?thesis
    using assms by (auto simp: tree_ok_def fs_ok_def lookup_new_node split: if_splits)
qed

lemma tree_put:
  assumes "tree_ok fs" "dir_at fs (butlast q)" "in_content i = Directory \<longleftrightarrow> dir_at fs q"
  shows "tree_ok (put_node q i fs)"
proof -
  have d: "dir_at (put_node q i fs) p = dir_at fs p" for p
    using assms(3) by (auto simp: dir_at_def)
  have "dir_at fs p" if "lookup (put_node q i fs) (p @ [c]) \<noteq> None" for p c
    using that assms(1,2) by (cases "q = p @ [c]") (auto simp: tree_ok_def fs_ok_def)
  then show ?thesis
    using assms(1) unfolding tree_ok_def fs_ok_def d by simp
qed

lemma tree_del:
  assumes "tree_ok fs" "q \<noteq> []" "\<And>c. lookup fs (q @ [c]) = None"
  shows "tree_ok (del_node q fs)"
  using assms by (auto simp: tree_ok_def fs_ok_def dir_at_def)

lemma tree_del_leaf:
  assumes "tree_ok fs" "\<not> dir_at fs q"
  shows "tree_ok (del_node q fs)"
proof (rule tree_del [OF assms(1)])
  show "q \<noteq> []" "lookup fs (q @ [c]) = None" for c
    using assms unfolding tree_ok_def fs_ok_def by blast+
qed

named_theorems keeps_tree

lemma tree_unlink [keeps_tree]: "keeps tree_ok (os_unlink p)"
  unfolding keeps_wp
  by (intro allI impI unlink_wp) (auto intro: tree_del_leaf simp: dir_at_def)

lemma tree_mkdir [keeps_tree]: "keeps tree_ok (os_mkdir p)"
  unfolding keeps_wp
  by (intro allI impI mkdir_wp) (auto intro: tree_new resolve_parent tree_fs_ok)

lemma tree_symlink [keeps_tree]: "keeps tree_ok (os_symlink t p)"
  unfolding keeps_wp
  by (intro allI impI symlink_wp) (auto intro: tree_new resolve_parent tree_fs_ok)

lemma tree_write [keeps_tree]: "keeps tree_ok (write_file p d)"
  unfolding keeps_wp
  by (intro allI impI write_wp) (auto intro!: tree_new tree_put resolve_parent tree_fs_ok simp: dir_at_def)

lemma tree_copystat [keeps_tree]: "keeps tree_ok (copystat src dst f)"
  unfolding keeps_wp
  by (intro allI impI copystat_wp) (auto intro!: tree_put resolve_parent tree_fs_ok simp: dir_at_def)

lemma tree_copy2 [keeps_tree]: "keeps tree_ok (copy2 src dst f)"
  unfolding copy2_def by (intro keeps_intros keeps_tree)

lemma keeps_cond: "keeps I m \<Longrightarrow> (\<And>s. b s \<Longrightarrow> keeps I n) \<Longrightarrow> keeps I (\<lambda>s. if b s then n s else m s)"
  by (auto simp: keeps_def)

lemma keeps_makedirs:
  assumes mk: "\<And>p. keeps I (os_mkdir p)"
  shows "keeps I (makedirs p)"
proof (induction p rule: measure_induct_rule [where f = length])
  case (less p)
  obtain head tail where ht: "(let (h, t) = (path_head p, path_tail p)
      in if t = [] then (path_head h, path_tail h) else (h, t)) = (head, tail)" by fastforce
  have IH: "keeps I (makedirs head)" if "head \<noteq> []" "tail \<noteq> []"
  proof (rule less.IH)
    show "length head < length p"
      using that ht path_head_length [of p] path_head_length [of "path_head p"]
      by (auto split: if_splits) (metis add_less_cancel_left add.right_neutral le_trans length_greater_0_conv
          less_le_trans linorder_not_less trans_le_add1)+
  qed
  have exist: "keeps I (\<lambda>fs. if is_os_error e \<and> isdir fs p then (Inr (), fs) else (Inl e, fs))" for e
    by (simp add: keeps_def)
  have again: "keeps I (case e of FileExistsError _ \<Rightarrow> retE () | _ \<Rightarrow> raiseE e)" for e
    by (cases e) (simp_all add: keeps_basic)
  show ?case
    unfolding makedirs.simps [of p] unfolding ht unfolding Let_def case_prod_conv
    by (rule keeps_cond) (intro exist keeps_intros mk again IH; simp)+
qed

lemma tree_makedirs [keeps_tree]: "keeps tree_ok (makedirs p)"
  by (intro keeps_makedirs keeps_tree)

text \<open>Removing a subtree, entries before the directory that holds them.\<close>

definition shrunk :: "fs \<Rightarrow> fs \<Rightarrow> bool" where
  "shrunk s t \<longleftrightarrow> (\<forall>p. lookup t p \<noteq> None \<longrightarrow> lookup s p \<noteq> None)"

lemma shrunk_basic: "shrunk s s" "shrunk s t \<Longrightarrow> shrunk t u \<Longrightarrow> shrunk s u" "shrunk s (del_node q s)"
  by (auto simp: shrunk_def)

lemma shrunk_none: "shrunk s t \<Longrightarrow> lookup s p = None \<Longrightarrow> lookup t p = None"
  by (auto simp: shrunk_def)

lemma forE_append: "forE f (xs @ ys) = seqE (forE f xs) (forE f ys)"
  by (induction xs) (simp_all add: seqE_def bindE_def retE_def fun_eq_iff split: prod.split sum.split)

lemma wp_for_single: "wp (forE f [x]) (\<lambda>_. Q) E s = wp (f x) (\<lambda>_. Q) E s"
  by (simp add: wp_def seqE_def bindE_def retE_def split: prod.split sum.split)

lemma remove_childless:
  assumes "tree_ok t" "\<And>c. lookup t (q @ [c]) = None"
  shows "wp (remove_entry q) (\<lambda>_ u. tree_ok u \<and> shrunk t u \<and> lookup u q = None) (\<lambda>_. tree_ok) t"
proof (cases "q = []")
  case True
  then show ?thesis using assms(1) by (auto simp: wp_simps tree_ok_def split: option.split)
next
  case False
  then show ?thesis
    using assms tree_del [OF assms(1) False] by (simp add: wp_simps shrunk_basic split: option.split)
qed

lemma postorder_removal:
  "tree_ok t \<Longrightarrow> shrunk s t \<Longrightarrow> tree_depth s \<le> n + length q \<Longrightarrow>
   wp (forE remove_entry (postorder n s q)) (\<lambda>_ u. tree_ok u \<and> shrunk t u \<and> lookup u q = None) (\<lambda>_. tree_ok) t"
proof (induction n arbitrary: q t)
  case 0
  have "lookup s (q @ [c]) = None" for c
    using 0 tree_depth_bound [of s "q @ [c]"] by fastforce
  then have "lookup t (q @ [c]) = None" for c using 0 shrunk_none by blast
  from remove_childless [OF 0(1) this] show ?case unfolding postorder.simps wp_for_single .
next
  case (Suc n)
  let ?down = "\<lambda>cs. concat (map (\<lambda>c. postorder n s (q @ [c])) cs)"
  have children: "tree_ok v \<Longrightarrow> shrunk t v \<Longrightarrow>
      wp (forE remove_entry (?down cs)) (\<lambda>_ u. tree_ok u \<and> shrunk v u \<and> (\<forall>c\<in>set cs. lookup u (q @ [c]) = None)) (\<lambda>_. tree_ok) v"
    for cs v
  proof (induction cs arbitrary: v)
    case (Cons c cs)
    have v: "shrunk s v" using Suc.prems Cons.prems shrunk_basic by blast
    have n: "tree_depth s \<le> n + length (q @ [c])" using Suc.prems by simp
    show ?case
      unfolding list.map concat.simps forE_append wp_seq
    proof (rule wp_mono [OF Suc.IH [OF Cons.prems(1) v n]])
      fix x u assume u: "tree_ok u \<and> shrunk v u \<and> lookup u (q @ [c]) = None"
      then have "shrunk t u" using Cons.prems shrunk_basic by blast
      note IH = Cons.IH [OF _ this]
      show "wp (forE remove_entry (?down cs))
          (\<lambda>_ u'. tree_ok u' \<and> shrunk v u' \<and> (\<forall>d\<in>set (c # cs). lookup u' (q @ [d]) = None)) (\<lambda>_. tree_ok) u"
      proof (rule wp_mono [OF IH])
        fix y u' assume "tree_ok u' \<and> shrunk u u' \<and> (\<forall>c\<in>set cs. lookup u' (q @ [c]) = None)"
        with u shrunk_basic(2) [of v u u'] shrunk_none [of u u' "q @ [c]"]
        show "tree_ok u' \<and> shrunk v u' \<and> (\<forall>d\<in>set (c # cs). lookup u' (q @ [d]) = None)" by simp
      qed (use u in simp_all)
    qed
  qed (simp add: wp_ret shrunk_basic)
  show ?case
    unfolding postorder.simps forE_append wp_seq
  proof (rule wp_mono [OF children [OF Suc.prems(1) shrunk_basic(1)]])
    fix x u assume u: "tree_ok u \<and> shrunk t u \<and> (\<forall>c\<in>set (child_names s q). lookup u (q @ [c]) = None)"
    have su: "shrunk s u" using u Suc.prems(2) shrunk_basic(2) by blast
    have "lookup u (q @ [c]) = None" for c
      using u shrunk_none [OF su, of "q @ [c]"] child_names_iff [of c s q] by blast
    then show "wp (forE remove_entry [q]) (\<lambda>_ u'. tree_ok u' \<and> shrunk t u' \<and> lookup u' q = None) (\<lambda>_. tree_ok) u"
      unfolding wp_for_single
      by (intro wp_mono [OF remove_childless]) (use u shrunk_basic(2) in blast)+
  qed
qed

lemma tree_rmtree [keeps_tree]: "keeps tree_ok (rmtree p)"
  unfolding keeps_wp
proof (intro allI impI rmtree_wp)
  fix s q i assume s: "tree_ok s"
  show "wp (forE remove_entry (postorder (tree_depth s) s q)) (\<lambda>_. tree_ok) (\<lambda>_. tree_ok) s"
    by (rule wp_mono [OF postorder_removal [OF s]]) (auto simp: shrunk_basic)
qed

lemma tree_apply [keeps_tree]: "keeps tree_ok (apply_change_from_store root c am)"
  unfolding apply_change_from_store_def Let_def by (intro keeps_intros keeps_tree)

text \<open>What lies outside every base stays, and so do the bases.\<close>

lemma changes_only_dir: "changes_only D s t \<Longrightarrow> \<not> D p \<Longrightarrow> dir_at s p \<Longrightarrow> dir_at t p"
  by (simp add: changes_only_def dir_at_def)

end
