(* ===== verification/FinalizeFacts.thy ===== *)
theory FinalizeFacts
  imports Finalize FsTree
begin

text \<open>
  What the end of a session guarantees: the state it ends in follows the decision and is saved, an automatic
  commit needs clean evidence, a session kept for review or for recovery keeps its branches, and the commit
  writes nothing outside the protected roots.
\<close>

section \<open>The session's state\<close>

definition in_state :: "string \<Rightarrow> 'b world \<Rightarrow> bool" where
  "in_state st w \<longleftrightarrow> s_state (w_session w) = st"

lemma in_state_disk [simp]: "in_state st (set_disk d w) = in_state st w"
  by (simp add: in_state_def)

lemma remember_state: "remember_permission_failures fs n s = Inr t \<Longrightarrow> s_state t = s_state s"
  by (auto simp: remember_permission_failures_def Let_def bindR_eq_Inr split: if_splits)

lemma wp_move_session [wp_simps]:
  "wp (move_session en new) Q E w =
     (case transition (en_now en) new (w_session w) of Inl e \<Rightarrow> E e w | Inr s \<Rightarrow> Q () (w\<lparr>w_session := s\<rparr>))"
  by (simp add: move_session_def on_session_def wp_simps split: sum.split)

lemma move_session_ends: "wp (move_session en new) (\<lambda>_. in_state new) (\<lambda>_ _. True) w"
  by (auto simp: wp_simps in_state_def dest: transition_Inr split: sum.split)

lemma keeps_state [keeps_intros]:
  "keeps (in_state st) (on_disk m)"
  "keeps (in_state st) (on_files fm)"
  "keeps (in_state st) (log_event en e d)"
  "keeps (in_state st) save_session"
  unfolding log_event_def save_session_def
  by (intro keeps_on_disk keeps_on_files keeps_mod_session keeps_mod; simp add: in_state_def add_event_def)+

lemma keeps_state_parts [keeps_intros]:
  "keeps (in_state st) (collect_status_reports B)"
  "keeps (in_state st) (write_review en changes d ws ig prev)"
  "keeps (in_state st) (unmount_all B)"
  unfolding collect_status_reports_def write_review_def unmount_all_def Let_def
  by (intro keeps_intros)+

text \<open>The state an operation ends in, and that the session of the last save is the session.\<close>

definition saved :: "'b world \<Rightarrow> bool" where
  "saved w \<longleftrightarrow> dict_get (st_docs (w_store w)) (s_id (w_session w)) = Some (JObj (session_to_dict (w_session w))) \<and>
     s_id (w_session w) \<in> set (st_names (w_store w))"

lemma save_session_saved: "wp save_session (\<lambda>_ w. saved w \<and> w_session w = w_session w0) E w0"
  by (simp add: save_session_def wp_simps saved_def store_save_def)

definition outcome :: "string \<Rightarrow> string set" where
  "outcome decision =
     (if decision = NO_CHANGES then {''auto-committed''}
      else if decision = ABORT then {''aborted''}
      else if decision = AUTO_COMMIT then {''auto-committed'', ''pending-review'', ''failed''}
      else {''pending-review''})"

lemma wp_thenI: "wp m (\<lambda>_. P) E s \<Longrightarrow> (\<And>t. P t \<Longrightarrow> wp n Q E t) \<Longrightarrow> wp (seqE m n) Q E s"
  unfolding wp_seq by (rule wp_mono)

lemma wp_bindI: "wp m P E s \<Longrightarrow> (\<And>x t. P x t \<Longrightarrow> wp (f x) Q E t) \<Longrightarrow> wp (bindE m f) Q E s"
  unfolding wp_bind by (rule wp_mono)

lemma save_in_state:
  assumes "s_state (w_session w) \<in> S"
  shows "wp save_session (\<lambda>_ v. s_state (w_session v) \<in> S \<and> saved v) E w"
  by (rule wp_mono [OF save_session_saved [of w E]]) (use assms in auto)

lemma distinct_decisions:
  "(ABORT = NO_CHANGES) = False" "(AUTO_COMMIT = NO_CHANGES) = False" "(AUTO_COMMIT = ABORT) = False"
  "(NO_CHANGES = ABORT) = False" "(NO_CHANGES = AUTO_COMMIT) = False" "(ABORT = AUTO_COMMIT) = False"
  by (simp_all add: NO_CHANGES_def ABORT_def AUTO_COMMIT_def)

lemma fail_session_ends:
  "wp (fail_session en detail) (\<lambda>_ w. s_state (w_session w) = ''failed'' \<and> saved w) (\<lambda>_ _. True) w"
proof -
  have move: "wp (bindE the_session (\<lambda>s. whenE (s_state s \<noteq> ''failed'') (move_session en ''failed'')))
      (\<lambda>_. in_state ''failed'') (\<lambda>_ _. True) u" for u :: "'a world"
    using move_session_ends [of en "''failed''" u]
    by (simp add: the_session_def wp_bind wp_get wp_when in_state_def)
  show ?thesis
    unfolding fail_session_def
    by (rule wp_after(2), rule wp_thenI [OF move]) (simp_all add: save_in_state [of _ "{''failed''}", simplified] in_state_def)
qed

text \<open>What the branches of the decision return: whether the outcome is still to be saved.\<close>

definition ends_in :: "string set \<Rightarrow> bool \<Rightarrow> 'b world \<Rightarrow> bool" where
  "ends_in S unsaved w \<longleftrightarrow> (if unsaved then s_state (w_session w) \<in> S else s_state (w_session w) = ''failed'' \<and> saved w)"

lemma move_ends_in: "st \<in> S \<Longrightarrow> wp (seqE (move_session en st) (retE True)) (ends_in S) (\<lambda>_ _. True) w"
  by (rule wp_thenI [OF move_session_ends]) (simp add: wp_ret ends_in_def in_state_def)

lemma keep_refused_ends: "wp (keep_refused B en am res) (\<lambda>_. in_state ''pending-review'') (\<lambda>_ _. True) w"
  unfolding keep_refused_def by (rule wp_after move_session_ends | simp)+

lemma close_committed_ends: "wp (close_committed B en) (\<lambda>_. in_state ''auto-committed'') (\<lambda>_ _. True) w"
  unfolding close_committed_def by (rule wp_after move_session_ends | simp)+

lemma auto_commit_ends:
  "wp (auto_commit B en am changes) (ends_in {''auto-committed'', ''pending-review''}) (\<lambda>_ _. True) w"
proof -
  let ?Q = "ends_in {''auto-committed'', ''pending-review''}"
  have failed: "wp (seqE (fail_session en detail) (retE False)) ?Q (\<lambda>_ _. True) u" for detail and u :: "'a world"
    by (rule wp_thenI [OF fail_session_ends]) (simp add: wp_ret ends_in_def)
  have refused: "wp (keep_refused B en am res) (\<lambda>_ v. s_state (w_session v) \<in> {''auto-committed'', ''pending-review''}) (\<lambda>_ _. True) u"
    for res and u :: "'a world"
    by (rule wp_mono [OF keep_refused_ends]) (simp_all add: in_state_def)
  have closed: "wp (close_committed B en) (\<lambda>_ v. s_state (w_session v) \<in> {''auto-committed'', ''pending-review''}) (\<lambda>_ _. True) u"
    for u :: "'a world"
    by (rule wp_mono [OF close_committed_ends]) (simp_all add: in_state_def)
  have finished: "wp (seqE (if b then keep_refused B en am res else close_committed B en) (retE True))
      ?Q (\<lambda>_ _. True) u" for b res and u :: "'a world"
    by (rule wp_thenI [where P = "\<lambda>v. s_state (w_session v) \<in> {''auto-committed'', ''pending-review''}"])
      (use refused closed in \<open>cases b; simp\<close>, simp add: wp_ret ends_in_def)
  show ?thesis
    unfolding auto_commit_def
    by (rule wp_after | simp)+ (auto simp: failed finished split: sum.split)
qed

lemma carry_out_ends:
  "wp (carry_out B en am changes d)
    (\<lambda>unsaved w. ends_in (outcome (pd_decision d)) unsaved w \<and> (\<not> unsaved \<longrightarrow> pd_decision d = AUTO_COMMIT)) (\<lambda>_ _. True) w"
proof -
  let ?Q = "\<lambda>unsaved w. ends_in (outcome (pd_decision d)) unsaved w \<and> (\<not> unsaved \<longrightarrow> pd_decision d = AUTO_COMMIT)"
  have moved: "wp (seqE m (seqE n (seqE (move_session en st) (retE True)))) ?Q (\<lambda>_ _. True) w"
    if "st \<in> outcome (pd_decision d)" for st and m n :: "('a world, unit) eff"
    by (rule wp_after(2), rule wp_after(2), rule wp_thenI [OF move_session_ends])
      (use that in \<open>simp_all add: wp_ret ends_in_def in_state_def\<close>)
  have noted: "wp (seqE n (seqE (move_session en st) (retE True))) ?Q (\<lambda>_ _. True) w"
    if "st \<in> outcome (pd_decision d)" for st and n :: "('a world, unit) eff"
    by (rule wp_after(2), rule wp_thenI [OF move_session_ends])
      (use that in \<open>simp_all add: wp_ret ends_in_def in_state_def\<close>)
  consider (none) "pd_decision d = NO_CHANGES" | (abort) "pd_decision d = ABORT" | (auto) "pd_decision d = AUTO_COMMIT"
    | (review) "pd_decision d \<notin> {NO_CHANGES, ABORT, AUTO_COMMIT}" by blast
  then show ?thesis
  proof cases
    case none
    show ?thesis
      unfolding carry_out_def none simp_thms if_True by (rule moved [unfolded none]) (simp add: outcome_def)
  next
    case abort
    show ?thesis
      unfolding carry_out_def abort distinct_decisions simp_thms if_True if_False
      by (rule moved [unfolded abort distinct_decisions simp_thms]) (simp add: outcome_def distinct_decisions)
  next
    case auto
    have "wp (auto_commit B en am changes) ?Q (\<lambda>_ _. True) w"
      by (rule wp_mono [OF auto_commit_ends]) (auto simp: ends_in_def outcome_def auto distinct_decisions)
    then show ?thesis by (simp only: carry_out_def auto distinct_decisions simp_thms if_True if_False)
  next
    case review
    then have ne: "(pd_decision d = NO_CHANGES) = False" "(pd_decision d = ABORT) = False" "(pd_decision d = AUTO_COMMIT) = False"
      by auto
    show ?thesis unfolding carry_out_def ne if_False by (rule noted [unfolded ne]) (simp add: outcome_def ne)
  qed
qed

lemma apply_decision_ends:
  "wp (apply_decision B en am changes d) (\<lambda>_ w. s_state (w_session w) \<in> outcome (pd_decision d) \<and> saved w) (\<lambda>_ _. True) w"
  unfolding apply_decision_def
proof (rule wp_bindI [OF carry_out_ends])
  fix unsaved and u :: "'a world"
  assume "ends_in (outcome (pd_decision d)) unsaved u \<and> (\<not> unsaved \<longrightarrow> pd_decision d = AUTO_COMMIT)"
  then show "wp (whenE unsaved save_session) (\<lambda>_ v. s_state (w_session v) \<in> outcome (pd_decision d) \<and> saved v) (\<lambda>_ _. True) u"
    by (cases unsaved)
      (auto simp: wp_when ends_in_def save_in_state outcome_def NO_CHANGES_def ABORT_def AUTO_COMMIT_def)
qed

lemma finalize_ends:
  "wp (finalize_session B en am) (\<lambda>d w. s_state (w_session w) \<in> outcome (pd_decision d) \<and> saved w) (\<lambda>_ _. True) w"
proof -
  have last: "wp (seqE (apply_decision B en am changes d) (retE d))
      (\<lambda>d w. s_state (w_session w) \<in> outcome (pd_decision d) \<and> saved w) (\<lambda>_ _. True) u" for changes d and u :: "'a world"
    by (rule wp_thenI [OF apply_decision_ends]) (simp add: wp_ret)
  show ?thesis
    unfolding finalize_session_def by (rule last wp_after | simp)+
qed

section \<open>Branches kept\<close>

lemma bindE_returns: "bindE m f w = (Inr x, v) \<longleftrightarrow> (\<exists>y u. m w = (Inr y, u) \<and> f y u = (Inr x, v))"
  by (auto simp: bindE_def split: prod.splits sum.splits)

lemma seqE_returns: "seqE m n w = (Inr x, v) \<longleftrightarrow> (\<exists>y u. m w = (Inr y, u) \<and> n u = (Inr x, v))"
  by (simp add: seqE_def bindE_returns)

lemma basic_returns:
  "retE y w = (Inr x, v) \<longleftrightarrow> y = x \<and> w = v"
  "getE g w = (Inr x, v) \<longleftrightarrow> g w = x \<and> w = v"
  "liftE r w = (Inr x, v) \<longleftrightarrow> r = Inr x \<and> w = v"
  "readE h w = (Inr x, v) \<longleftrightarrow> h w = Inr x \<and> w = v"
  by (auto simp: retE_def getE_def liftE_def readE_def)

lemmas returns = bindE_returns seqE_returns

text \<open>The parts that do not discard a branch.\<close>

lemma discard_free [simp]:
  "freeze_session (B\<lparr>be_abort := f\<rparr>) = freeze_session B"
  "collect_status_reports (B\<lparr>be_abort := f\<rparr>) = collect_status_reports B"
  "gather_evidence (B\<lparr>be_abort := f\<rparr>) = gather_evidence B"
  "unmount_all (B\<lparr>be_abort := f\<rparr>) = unmount_all B"
  "keep_refused (B\<lparr>be_abort := f\<rparr>) = keep_refused B"
  by (simp_all add: fun_eq_iff freeze_session_def collect_status_reports_def gather_evidence_def unmount_all_def
      keep_refused_def prune_backend_change_def rewrite_review_def)

definition kept_open :: "'b world \<Rightarrow> bool" where
  "kept_open w \<longleftrightarrow> s_state (w_session w) \<in> {''pending-review'', ''failed''}"

lemma seq_ends:
  assumes "seqE m (retE b) w = (Inr x, v)" "wp m (\<lambda>_. in_state st) (\<lambda>_ _. True) w"
  shows "s_state (w_session v) = st"
  using wp_result [OF assms(2)] assms(1) by (fastforce simp: returns retE_def in_state_def)

lemma auto_commit_kept:
  assumes "auto_commit B en am changes w = (Inr b, v)" "kept_open v"
  shows "auto_commit (B\<lparr>be_abort := f\<rparr>) en am changes w = (Inr b, v)"
proof -
  obtain x u res t where r: "mod_session clear_permission_failures w = (Inr x, u)"
    "tryE (apply_reviewed en am changes) u = (Inr res, t)"
    "(case res of Inl e \<Rightarrow> seqE (fail_session en (''commit failed, branch preserved for manual recovery: '' @ exn_str e)) (retE False)
       | Inr res \<Rightarrow> seqE (if fst res \<noteq> [] then keep_refused B en am res else close_committed B en) (retE True)) t = (Inr b, v)"
    using assms(1) unfolding auto_commit_def returns by blast
  have "fst y \<noteq> []" if "res = Inr y" for y
  proof
    assume "fst y = []"
    then have "s_state (w_session v) = ''auto-committed''"
      using seq_ends [OF _ close_committed_ends] r(3) that by simp
    then show False using assms(2) by (simp add: kept_open_def)
  qed
  with r(3) have "(case res of Inl e \<Rightarrow> seqE (fail_session en (''commit failed, branch preserved for manual recovery: '' @ exn_str e)) (retE False)
       | Inr res \<Rightarrow> seqE (if fst res \<noteq> [] then keep_refused (B\<lparr>be_abort := f\<rparr>) en am res
                         else close_committed (B\<lparr>be_abort := f\<rparr>) en) (retE True)) t = (Inr b, v)"
    by (auto split: sum.splits)
  with r(1,2) show ?thesis unfolding auto_commit_def returns by blast
qed

lemma carry_out_kept:
  assumes "carry_out B en am changes d w = (Inr b, v)" "kept_open v"
  shows "carry_out (B\<lparr>be_abort := f\<rparr>) en am changes d w = (Inr b, v)"
proof -
  have "ends_in (outcome (pd_decision d)) b v \<and> (\<not> b \<longrightarrow> pd_decision d = AUTO_COMMIT)"
    using wp_result [OF carry_out_ends assms(1)] by simp
  then have "pd_decision d \<noteq> NO_CHANGES" "pd_decision d \<noteq> ABORT"
    using assms(2) by (auto simp: ends_in_def outcome_def kept_open_def distinct_decisions split: if_splits)
  then show ?thesis
    using assms auto_commit_kept [OF _ assms(2)] by (simp add: carry_out_def split: if_splits)
qed

lemma apply_decision_kept:
  assumes "apply_decision B en am changes d w = (Inr u, v)" "kept_open v"
  shows "apply_decision (B\<lparr>be_abort := f\<rparr>) en am changes d w = (Inr u, v)"
proof -
  obtain b t where r: "carry_out B en am changes d w = (Inr b, t)" "whenE b save_session t = (Inr u, v)"
    using assms(1) unfolding apply_decision_def returns by blast
  have "w_session t = w_session v"
    using r(2) by (auto simp: whenE_def retE_def save_session_def modE_def split: if_splits)
  then have "kept_open t" using assms(2) by (simp add: kept_open_def)
  with r show ?thesis unfolding apply_decision_def returns using carry_out_kept by blast
qed

lemma finalize_kept:
  assumes "finalize_session B en am w = (Inr d, v)" "kept_open v"
  shows "finalize_session (B\<lparr>be_abort := f\<rparr>) en am w = (Inr d, v)"
  using assms apply_decision_kept unfolding finalize_session_def returns discard_free
  by (fastforce simp: retE_def)

section \<open>The evidence of an automatic commit\<close>

lemma demote_blocks: "pd_decision (demote reason d) \<notin> {AUTO_COMMIT, NO_CHANGES}"
  by (simp add: demote_def PENDING_REVIEW_def AUTO_COMMIT_def NO_CHANGES_def)

lemma final_decision_clean:
  assumes "pd_decision (final_decision errors blockers n d) \<in> {AUTO_COMMIT, NO_CHANGES}"
  shows "errors = [] \<and> blockers = [] \<and> n = 0 \<and> final_decision errors blockers n d = d"
proof -
  have stuck: "pd_decision d' \<notin> {AUTO_COMMIT, NO_CHANGES} \<Longrightarrow> pd_decision (demote r d') \<notin> {AUTO_COMMIT, NO_CHANGES}" for r d'
    by (rule demote_blocks)
  have "errors = []"
  proof (rule ccontr)
    assume "errors \<noteq> []"
    then show False
      using assms demote_blocks stuck by (auto simp: final_decision_def demote_for_def Let_def split: if_splits)
  qed
  moreover have "blockers = []"
  proof (rule ccontr)
    assume "blockers \<noteq> []"
    then show False
      using assms demote_blocks stuck by (auto simp: final_decision_def demote_for_def Let_def split: if_splits)
  qed
  moreover have "n = 0"
    using assms demote_blocks by (auto simp: final_decision_def demote_for_def Let_def split: if_splits)
  ultimately show ?thesis by (simp add: final_decision_def demote_for_def)
qed

lemma final_decision_reasons:
  "set (pd_reasons d) \<subseteq> set (pd_reasons (final_decision errors blockers n d))"
  by (auto simp: final_decision_def demote_for_def demote_def Let_def)

lemma decide_session_clean:
  assumes "decide_session en am ev w = (Inr d, v)" "pd_decision d \<in> {AUTO_COMMIT, NO_CHANGES}"
  shows "ev_errors ev = [] \<and> concat (map snd (ev_warnings ev)) = [] \<and>
    (\<exists>authorized. evaluate (concat (map snd (ev_changes ev)))
         ((ev_config ev)\<lparr>pc_allowed_scopes := pc_allowed_scopes (ev_config ev) @ authorized\<rparr>) am = Inr d \<and>
       (if routes_in_use (w_session w)
        then \<exists>rc doc. reconcile en (w_fs w) am (ev_changes ev) (w_session w) = Inr (rc, [], doc) \<and>
               authorized = sorted_set (rc_authorized rc)
        else authorized = []))"
proof -
  obtain authorized blockers u d0 where r:
    "(if routes_in_use (w_session w) then route_reconciliation en (ev_changes ev) am else retE ([], [])) w = (Inr (authorized, blockers), u)"
    "evaluate (concat (map snd (ev_changes ev)))
         ((ev_config ev)\<lparr>pc_allowed_scopes := pc_allowed_scopes (ev_config ev) @ authorized\<rparr>) am = Inr d0"
    "d = final_decision (ev_errors ev) blockers (length (concat (map snd (ev_warnings ev)))) d0"
    using assms(1) unfolding decide_session_def
    by (auto simp: the_session_def returns basic_returns)
  note clean = final_decision_clean [OF assms(2) [unfolded r(3)]]
  have "if routes_in_use (w_session w)
        then \<exists>rc doc. reconcile en (w_fs w) am (ev_changes ev) (w_session w) = Inr (rc, [], doc) \<and>
               authorized = sorted_set (rc_authorized rc)
        else authorized = []"
    using r(1) clean unfolding route_reconciliation_def
    by (auto simp: returns basic_returns split: if_splits)
  moreover have "d = d0" using clean unfolding r(3) by blast
  ultimately show ?thesis using r(2) clean by (intro conjI exI [of _ authorized]) simp_all
qed

text \<open>A change that a route authorizes: its record says so and the content it recorded is still there.\<close>

definition justified :: "env \<Rightarrow> fs \<Rightarrow> alias_map \<Rightarrow> changes_by_root \<Rightarrow> session \<Rightarrow> string \<Rightarrow> bool" where
  "justified en fs am changes s key \<longleftrightarrow>
     (\<exists>name cs c root record path records f.
        (name, cs) \<in> set changes \<and> c \<in> set cs \<and> canonicalize am (ch_path c) = Inr key \<and>
        get_item (s_roots s) name = Inr root \<and>
        get_default (s_policy s) ''route_path_attribution'' JNull = JObj records \<and> (path, JObj record) \<in> set records \<and>
        get_default record ''authorized'' JNull = JBool True \<and>
        fingerprint_change en fs root c = Inr f \<and> py_eq f (get_default record ''fingerprint'' JNull))"

definition record_kept :: "pydict \<Rightarrow> string \<times> json \<Rightarrow> bool" where
  "record_kept originals p \<longleftrightarrow> p \<in> set originals \<or>
     (\<exists>r. snd p = JObj r \<and> get_default r ''authorized'' JNull \<noteq> JBool True)"

lemma judge_change_authorized:
  assumes "judge_change en fs root c key record = Inr (category, True, ids, bs, record')"
  shows "record' = record \<and> get_default record ''authorized'' JNull = JBool True \<and>
    (bs \<noteq> [] \<or> (\<exists>f. fingerprint_change en fs root c = Inr f \<and> py_eq f (get_default record ''fingerprint'' JNull)))"
  using assms
  by (auto simp: judge_change_def Let_def bindR_eq_Inr split: if_splits sum.splits)

lemma judge_change_record:
  assumes "judge_change en fs root c key record = Inr (category, authorized, ids, bs, record')"
  shows "record' = record \<or> get_default record' ''authorized'' JNull \<noteq> JBool True"
proof -
  have "get_default (dict_set (dict_set record ''authorized'' (JBool False)) ''category'' v) ''authorized'' JNull \<noteq> JBool True" for v
    by (simp add: get_default_def)
  with assms show ?thesis
    by (auto simp: judge_change_def Let_def bindR_eq_Inr simp del: dict_get_set split: if_splits sum.splits)
qed

definition rc_inv :: "env \<Rightarrow> fs \<Rightarrow> alias_map \<Rightarrow> changes_by_root \<Rightarrow> session \<Rightarrow> pydict \<Rightarrow> reconciliation \<Rightarrow> bool" where
  "rc_inv en fs am changes s originals rc \<longleftrightarrow> (\<forall>p\<in>set (rc_records rc). record_kept originals p) \<and>
     (rc_blockers rc = [] \<longrightarrow> (\<forall>key\<in>set (rc_authorized rc). justified en fs am changes s key))"

lemma as_obj_Inr: "as_obj v = Inr d \<longleftrightarrow> v = JObj d"
  by (cases v) auto

lemma reconcile_change_inv:
  assumes "rc_inv en fs am changes s originals acc" "reconcile_change en fs am index name root acc c = Inr acc'"
    and "(name, cs) \<in> set changes" "c \<in> set cs" "get_item (s_roots s) name = Inr root"
    and "get_default (s_policy s) ''route_path_attribution'' JNull = JObj originals \<or> originals = []"
  shows "rc_inv en fs am changes s originals acc'"
proof (cases "canonicalize am (ch_path c)")
  case (Inr key)
  show ?thesis
  proof (cases "dict_get index key")
    case None
    then show ?thesis using assms(1,2) Inr by (auto simp: reconcile_change_def rc_inv_def)
  next
    case (Some path)
    obtain r0 category authorized ids bs r1 where r:
      "dict_get (rc_records acc) path = Some (JObj r0)"
      "judge_change en fs root c key r0 = Inr (category, authorized, ids, bs, r1)"
      "rc_records acc' = dict_set (rc_records acc) path (JObj r1)"
      "rc_authorized acc' = rc_authorized acc @ (if authorized then [key] else [])"
      "rc_blockers acc' = rc_blockers acc @ bs"
      using assms(2) Inr Some
      by (auto simp: reconcile_change_def bindR_eq_Inr get_item_def as_obj_Inr split: option.splits)
    then have mem: "(path, JObj r0) \<in> set (rc_records acc)" by (simp add: map_of_SomeD)
    have kept: "record_kept originals (path, JObj r0)" using assms(1) mem by (auto simp: rc_inv_def)
    have kept': "record_kept originals (path, JObj r1)"
      using judge_change_record [OF r(2)] kept by (auto simp: record_kept_def)
    have "\<forall>p\<in>set (rc_records acc'). record_kept originals p"
      using assms(1) kept' set_dict_set(1) [where d = "rc_records acc" and k = path and v = "JObj r1"] r(3) by (auto simp: rc_inv_def)
    moreover have "justified en fs am changes s key" if b: "bs = []" and a: "authorized"
    proof -
      obtain f where f: "get_default r0 ''authorized'' JNull = JBool True"
        "fingerprint_change en fs root c = Inr f" "py_eq f (get_default r0 ''fingerprint'' JNull)"
        using judge_change_authorized [of en fs root c key r0 category ids bs r1] r(2) a b by auto
      then have "(path, JObj r0) \<in> set originals" using kept by (simp add: record_kept_def)
      moreover from this have "get_default (s_policy s) ''route_path_attribution'' JNull = JObj originals"
        using assms(6) by auto
      ultimately show ?thesis
        unfolding justified_def using assms(3-5) Inr f by blast
    qed
    ultimately show ?thesis using assms(1) r(4,5) by (auto simp: rc_inv_def)
  qed
qed (use assms in \<open>simp add: reconcile_change_def\<close>)

lemma reconcile_justified:
  assumes "reconcile en fs am changes s = Inr (rc, [], doc)" "key \<in> set (rc_authorized rc)"
  shows "justified en fs am changes s key"
proof -
  define originals where "originals = (case get_default (s_policy s) ''route_path_attribution'' JNull of JObj d \<Rightarrow> d | _ \<Rightarrow> [])"
  obtain index bs where r: "foldR (\<lambda>acc (name, cs). bindR (get_item (s_roots s) name) (\<lambda>root.
               foldR (reconcile_change en fs am index name root) acc cs))
               \<lparr>rc_records = originals, rc_items = [], rc_authorized = [], rc_blockers = [], rc_counts = []\<rparr>
               (sorted_items changes) = Inr rc" "sorted_set (rc_blockers rc @ bs) = []"
    using assms(1) unfolding reconcile_def Let_def originals_def [symmetric] by (auto simp: bindR_eq_Inr)
  have pol: "get_default (s_policy s) ''route_path_attribution'' JNull = JObj originals \<or> originals = []"
    by (cases "get_default (s_policy s) ''route_path_attribution'' JNull") (simp_all add: originals_def)
  have "rc_inv en fs am changes s originals rc"
  proof (rule foldR_invariant [OF r(1)])
    show "rc_inv en fs am changes s originals
        \<lparr>rc_records = originals, rc_items = [], rc_authorized = [], rc_blockers = [], rc_counts = []\<rparr>"
      by (simp add: rc_inv_def record_kept_def)
  next
    fix acc x acc' assume x: "x \<in> set (sorted_items changes)" and inv: "rc_inv en fs am changes s originals acc"
      and step: "(case x of (name, cs) \<Rightarrow> bindR (get_item (s_roots s) name) (\<lambda>root.
               foldR (reconcile_change en fs am index name root) acc cs)) = Inr acc'"
    obtain name cs root where n: "x = (name, cs)" "get_item (s_roots s) name = Inr root"
      "foldR (reconcile_change en fs am index name root) acc cs = Inr acc'"
      using step by (cases x) (auto simp: bindR_eq_Inr)
    show "rc_inv en fs am changes s originals acc'"
      by (rule foldR_invariant [OF n(3), where P = "rc_inv en fs am changes s originals", OF inv]) (use x n pol reconcile_change_inv in auto)
  qed
  moreover have "rc_blockers rc = []"
    using r(2) sorted_set_props(1) [of "rc_blockers rc @ bs"] by simp
  ultimately show ?thesis using assms(2) by (simp add: rc_inv_def)
qed

section \<open>Where the commit writes\<close>

text \<open>The protected roots the commit works on: absolute bases that are directories, none inside another.\<close>

definition based :: "protected_root \<Rightarrow> phys \<Rightarrow> bool" where
  "based root bs \<longleftrightarrow> pr_base root = abs_path bs \<and> (\<forall>b\<in>set bs. proper b) \<and> bs \<noteq> []"

definition roots_ready :: "session \<Rightarrow> fs \<Rightarrow> bool" where
  "roots_ready s fs \<longleftrightarrow> tree_ok fs \<and>
     (\<forall>(name, root)\<in>set (s_roots s). \<exists>bs. based root bs \<and> dir_at fs bs \<and>
        (\<forall>(name', root')\<in>set (s_roots s). \<forall>bs'. based root' bs' \<longrightarrow> \<not> strict_prefix bs' bs))"

definition inside_roots :: "session \<Rightarrow> phys \<Rightarrow> bool" where
  "inside_roots s p \<longleftrightarrow> (\<exists>(name, root)\<in>set (s_roots s). \<exists>bs. based root bs \<and> strict_prefix bs p)"

definition applied_inv :: "session \<Rightarrow> fs \<Rightarrow> 'b world \<Rightarrow> bool" where
  "applied_inv s fs w \<longleftrightarrow> tree_ok (w_fs w) \<and> changes_only (inside_roots s) fs (w_fs w)"

lemma based_parts: "based root bs \<Longrightarrow> nonempty_parts (pr_base root) = bs"
  by (simp add: based_def nonempty_parts_abs)

lemma keeps_applied_log: "keeps (applied_inv s fs) (log_event en e d)"
  unfolding log_event_def by (intro keeps_mod_session) (simp add: applied_inv_def)

lemma changes_inside_dir:
  assumes "roots_ready s fs" "changes_only (inside_roots s) fs fs'" "(name, root) \<in> set (s_roots s)"
  shows "\<exists>bs. based root bs \<and> dir_at fs' bs"
proof -
  obtain bs where bs: "based root bs" "dir_at fs bs"
    "\<forall>(name', root')\<in>set (s_roots s). \<forall>bs'. based root' bs' \<longrightarrow> \<not> strict_prefix bs' bs"
    using assms(1,3) unfolding roots_ready_def by fastforce
  then have "\<not> inside_roots s bs" by (auto simp: inside_roots_def)
  then show ?thesis using bs changes_only_dir [OF assms(2)] by blast
qed

lemma apply_one_inv:
  assumes "alias_map_ok am" "roots_ready s fs" "(name, root) \<in> set (s_roots s)" "applied_inv s fs w"
  shows "wp (apply_one en am acc (root, c)) (\<lambda>_. applied_inv s fs) (\<lambda>_. applied_inv s fs) w"
proof -
  obtain bs where bs: "based root bs" "dir_at (w_fs w) bs"
    using changes_inside_dir [OF assms(2) _ assms(3)] assms(4) by (auto simp: applied_inv_def)
  have b: "pr_base root = abs_path bs" "\<forall>b\<in>set bs. proper b" "bs \<noteq> []" using bs by (auto simp: based_def)
  have tree: "wp (apply_change_from_store root c am) (\<lambda>_. tree_ok) (\<lambda>_. tree_ok) (w_fs w)"
    using tree_apply assms(4) by (auto simp: keeps_wp applied_inv_def)
  have "wp (apply_change_from_store root c am) (\<lambda>_. changes_only (strict_prefix bs) (w_fs w))
      (\<lambda>_. changes_only (strict_prefix bs) (w_fs w)) (w_fs w)"
    by (rule wp_mono [OF apply_wp [OF assms(1) b _ bs(2)]]) (use assms(4) in \<open>auto simp: applied_inv_def tree_ok_def\<close>)
  note both = wp_conj [OF tree this]
  have inside: "applied_inv s fs (set_disk (t, w_be w) w)" if "tree_ok t \<and> changes_only (strict_prefix bs) (w_fs w) t" for t
  proof -
    have "changes_only (inside_roots s) (w_fs w) t"
      by (rule changes_only_mono [of "strict_prefix bs"]) (use that assms(3) bs(1) in \<open>auto simp: inside_roots_def\<close>)
    then show ?thesis using that assms(4) changes_only_trans by (auto simp: applied_inv_def)
  qed
  have "wp (on_files (apply_change_from_store root c am)) (\<lambda>_. applied_inv s fs) (\<lambda>_. applied_inv s fs) w"
    unfolding on_files_def wp_on_disk
    by (simp add: on_fs_def wp_zoom disk_of_def) (rule wp_mono [OF both], use inside in auto)
  then have "wp (tryE (on_files (apply_change_from_store root c am))) (\<lambda>_. applied_inv s fs) (\<lambda>_. applied_inv s fs) w"
    by (simp add: wp_try)
  then show ?thesis
    unfolding apply_one_def case_prod_conv
    by (rule wp_bindI)
       (rule wp_keeps [where I = "applied_inv s fs"], intro keeps_intros keeps_applied_log, simp_all)
qed

lemma apply_reviewed_inv:
  assumes "alias_map_ok am" "roots_ready (w_session w) (w_fs w)"
  shows "wp (apply_reviewed en am changes) (\<lambda>_. applied_inv (w_session w) (w_fs w)) (\<lambda>_. applied_inv (w_session w) (w_fs w)) w"
proof -
  have "applied_inv (w_session w) (w_fs w) w"
    using assms(2) by (simp add: applied_inv_def roots_ready_def)
  then show ?thesis
    unfolding apply_reviewed_def the_session_def wp_bind wp_get
  proof (rule wp_fold [where I = "\<lambda>_. applied_inv (w_session w) (w_fs w)"])
    fix x acc v assume "x \<in> set (reviewed (w_session w) changes)" "applied_inv (w_session w) (w_fs w) v"
    then show "wp (apply_one en am acc x) (\<lambda>_. applied_inv (w_session w) (w_fs w)) (\<lambda>_. applied_inv (w_session w) (w_fs w)) v"
      using apply_one_inv [OF assms, of _ _ v en acc] by (auto simp: reviewed_def)
  qed auto
qed

section \<open>Every reviewed change is accounted for\<close>

text \<open>The reviewed changes, each marked as applied or refused, against the two lists the commit returns.\<close>

definition accounts :: "alias_map \<Rightarrow> (protected_root \<times> change) list \<Rightarrow> bool list \<Rightarrow> applied_changes \<Rightarrow> bool" where
  "accounts am xs marks res \<longleftrightarrow> length marks = length xs \<and>
     list_all2 (\<lambda>(root, c) (root', rel). root' = root \<and> rel_of_change root c am = Inr rel)
       (map fst (filter snd (zip xs marks))) (snd res) \<and>
     list_all2 (\<lambda>(root, c) r. \<exists>rel e. rel_of_change root c am = Inr rel \<and> is_permission_denied e \<and>
         r = permission_failure_record root c rel e)
       (map fst (filter (\<lambda>x. \<not> snd x) (zip xs marks))) (fst res)"

lemma accounts_step:
  assumes "accounts am xs marks acc"
  shows "rel_of_change root c am = Inr rel \<Longrightarrow> accounts am (xs @ [(root, c)]) (marks @ [True]) (fst acc, snd acc @ [(root, rel)])"
    and "rel_of_change root c am = Inr rel \<Longrightarrow> is_permission_denied e \<Longrightarrow>
      accounts am (xs @ [(root, c)]) (marks @ [False]) (fst acc @ [permission_failure_record root c rel e], snd acc)"
  using assms by (auto simp: accounts_def intro!: list_all2_appendI)

lemma apply_one_accounts:
  assumes "accounts am xs marks acc"
  shows "wp (apply_one en am acc x) (\<lambda>acc' _. \<exists>m. accounts am (xs @ [x]) (marks @ [m]) acc') (\<lambda>_ _. True) w"
proof (cases x)
  case (Pair root c)
  show ?thesis
    unfolding apply_one_def Pair case_prod_conv wp_bind [of "tryE _"] wp_try
    by (rule wp_total)
      (use accounts_step [OF assms, of root c] in \<open>auto simp: wp_simps log_event_def mod_session_def intro!: exI split: sum.split\<close>)
qed

lemma apply_all_accounts:
  "accounts am ys marks acc \<Longrightarrow>
   wp (foldE (apply_one en am) acc xs) (\<lambda>acc' _. \<exists>marks. accounts am (ys @ xs) marks acc') (\<lambda>_ _. True) w"
proof (induction xs arbitrary: acc ys marks w)
  case Nil
  then show ?case by (auto simp: wp_ret)
next
  case (Cons y zs)
  show ?case
    unfolding foldE.simps
  proof (rule wp_bindI [OF apply_one_accounts [OF Cons.prems]])
    fix acc' and t :: "'a world" assume "\<exists>m. accounts am (ys @ [y]) (marks @ [m]) acc'"
    then show "wp (foldE (apply_one en am) acc' zs) (\<lambda>acc' _. \<exists>marks. accounts am (ys @ y # zs) marks acc')
        (\<lambda>_ _. True) t" using Cons.IH [of "ys @ [y]" _ acc' t] by auto
  qed
qed

section \<open>Properties\<close>


text \<open>A session that waits for review or for recovery keeps its branches: the runs of the finalisation that end
  so are the same whatever discarding a branch would do, so none of them discards one.\<close>

theorem finalize_keeps_branches:
  "(finalize_session B en am w = (Inr d, v) \<and> kept_open v)
     \<longleftrightarrow> (finalize_session (B\<lparr>be_abort := f\<rparr>) en am w = (Inr d, v) \<and> kept_open v)"
proof
  assume "finalize_session (B\<lparr>be_abort := f\<rparr>) en am w = (Inr d, v) \<and> kept_open v"
  then show "finalize_session B en am w = (Inr d, v) \<and> kept_open v"
    using finalize_kept [of "B\<lparr>be_abort := f\<rparr>" en am w d v "be_abort B"] by simp
qed (use finalize_kept in blast)

text \<open>C2. Nothing is committed on doubtful evidence: a decision to commit or to close without a review means that no
  admission or preflight error and no status warning was found, that no route blocks, and that the policy
  itself decided so, with its allowed scopes widened only by the paths the routes authorize.\<close>

theorem commit_needs_clean_evidence:
  assumes "decide_session en am ev w = (Inr d, v)" "pd_decision d \<in> {AUTO_COMMIT, NO_CHANGES}"
  shows "ev_errors ev = [] \<and> concat (map snd (ev_warnings ev)) = [] \<and>
    (\<exists>authorized. evaluate (concat (map snd (ev_changes ev)))
         ((ev_config ev)\<lparr>pc_allowed_scopes := pc_allowed_scopes (ev_config ev) @ authorized\<rparr>) am = Inr d \<and>
       (if routes_in_use (w_session w)
        then \<exists>rc doc. reconcile en (w_fs w) am (ev_changes ev) (w_session w) = Inr (rc, [], doc) \<and>
               authorized = sorted_set (rc_authorized rc)
        else authorized = []))"
  using assms by (rule decide_session_clean)

definition clean_evidence :: evidence where
  "clean_evidence = \<lparr>ev_config = sample_config ''workspace-auto'', ev_changes = [(''storage'', [sample_change ''A'' ''/w/a''])],
     ev_ignored = [], ev_warnings = [], ev_previous = [], ev_errors = []\<rparr>"

definition commit_world :: "fake world" where
  "commit_world = \<lparr>w_fs = sample_fs\<lparr>fs_fault := (\<lambda>op p. if p = [] then Some (OSError ''busy'') else None)\<rparr>, w_be = empty_fake,
     w_session = sample_session\<lparr>s_state := ''finalizing''\<rparr>, w_store = empty_store, w_routes = []\<rparr>"

lemma commit_needs_clean_evidence_witness:
  "\<exists>d v. decide_session sample_env [] clean_evidence commit_world = (Inr d, v) \<and> pd_decision d = AUTO_COMMIT \<and>
     ev_errors clean_evidence = []"
proof -
  have "case fst (decide_session sample_env [] clean_evidence commit_world) of Inr d \<Rightarrow> pd_decision d = AUTO_COMMIT | Inl _ \<Rightarrow> False"
    by code_simp
  then obtain d v where r: "decide_session sample_env [] clean_evidence commit_world = (Inr d, v)" "pd_decision d = AUTO_COMMIT"
    by (auto split: sum.splits simp: prod_eq_iff)
  with commit_needs_clean_evidence [OF r(1)] show ?thesis by simp
qed

text \<open>C4. A route's authorization counts only while it holds: when no blocker is left, every path a route authorizes
  is the path of a change in this commit, the session's attribution record for it says so, and the fingerprint
  taken now equals the one the record was made with.\<close>

theorem authorized_revalidated:
  assumes "reconcile en fs am changes s = Inr (rc, [], doc)" "key \<in> set (rc_authorized rc)"
  shows "justified en fs am changes s key"
  using assms by (rule reconcile_justified)

definition route_authorized :: session where
  "route_authorized = sample_session\<lparr>s_policy := [(''mode'', JStr ''workspace-auto''),
     (''route_path_attribution'', JObj [(''/storage/user/a.txt'', JObj [(''category'', JStr ''solely-attributed''),
        (''authorized'', JBool True), (''route_ids'', JArr [JStr ''r1'']),
        (''fingerprint'', JObj [(''op'', JStr ''D''), (''kind'', JStr ''file''), (''bytes'', JInt 1)])])])]\<rparr>"

lemma authorized_revalidated_witness:
  "justified sample_env sample_fs [] [(''storage'', [sample_change ''D'' ''/storage/user/a.txt''])] route_authorized ''/storage/user/a.txt''"
proof -
  let ?run = "reconcile sample_env sample_fs [] [(''storage'', [sample_change ''D'' ''/storage/user/a.txt''])] route_authorized"
  have "case ?run of Inr (rc, bs, doc) \<Rightarrow> bs = [] \<and> ''/storage/user/a.txt'' \<in> set (rc_authorized rc) | Inl _ \<Rightarrow> False"
    by code_simp
  then obtain rc doc where r: "?run = Inr (rc, [], doc)" "''/storage/user/a.txt'' \<in> set (rc_authorized rc)"
    by (auto split: sum.splits)
  show ?thesis by (rule authorized_revalidated [OF r])
qed

text \<open>C1. The commit stays inside the protected roots: applying all reviewed changes, whatever they are and whether it
  returns or raises, leaves every path that is not strictly below the base of a root of the session as it was.\<close>

theorem commit_confined:
  assumes "alias_map_ok am" "roots_ready (w_session w) (w_fs w)" "\<not> inside_roots (w_session w) p"
  shows "lookup (w_fs (snd (apply_reviewed en am changes w))) p = lookup (w_fs w) p"
  using apply_reviewed_inv [OF assms(1,2), of en changes] assms(3)
  by (auto simp: wp_def applied_inv_def changes_only_def split: prod.splits sum.splits)

lemma sample_based: "based sample_root [''real'', ''storage'']"
  using sample_apply_setup by (simp add: based_def)

lemma commit_world_ready: "roots_ready (w_session commit_world) (w_fs commit_world)"
proof -
  have look: "lookup (w_fs commit_world) p = lookup sample_fs p" for p
    by (simp add: commit_world_def lookup_def)
  have "tree_ok (w_fs commit_world)"
    using sample_fs_ok(1) by (simp add: tree_ok_def fs_ok_def dir_at_def look) (simp add: commit_world_def)
  moreover have "dir_at (w_fs commit_world) [''real'', ''storage'']"
    using sample_fs_ok(2) by (simp add: dir_at_def look)
  moreover have roots: "s_roots (w_session commit_world) = [(''storage'', sample_root)]"
    by (simp add: commit_world_def sample_session_def new_session_def)
  moreover have "bs' = [''real'', ''storage'']" if "based sample_root bs'" for bs'
    using based_parts [OF that] based_parts [OF sample_based] by simp
  then have "\<not> strict_prefix bs' [''real'', ''storage'']" if "based sample_root bs'" for bs'
    using that unfolding strict_prefix_def by blast
  ultimately show ?thesis
    unfolding roots_ready_def roots using sample_based by (simp add: Ball_def) blast
qed

lemma commit_confined_witness:
  "lookup (w_fs (snd (apply_reviewed sample_env [] [(''storage'', [sample_added])] commit_world))) [''etc'', ''passwd'']
     = lookup (w_fs commit_world) [''etc'', ''passwd'']"
proof (rule commit_confined)
  show "alias_map_ok []" "roots_ready (w_session commit_world) (w_fs commit_world)"
    using sample_apply_setup commit_world_ready by simp_all
  show "\<not> inside_roots (w_session commit_world) [''etc'', ''passwd'']"
  proof
    assume "inside_roots (w_session commit_world) [''etc'', ''passwd'']"
    then obtain bs where bs: "based sample_root bs" "strict_prefix bs [''etc'', ''passwd'']"
      by (auto simp: inside_roots_def commit_world_def sample_session_def new_session_def)
    have "bs = [''real'', ''storage'']" using based_parts [OF bs(1)] based_parts [OF sample_based] by simp
    with bs(2) show False by (simp add: strict_prefix_def)
  qed
qed

text \<open>The commit accounts for every reviewed change: when it returns, the changes are split into the applied ones, in
  order and with their relative paths, and the ones the kernel refused, each with its record.\<close>

theorem commit_accounts:
  "case apply_reviewed en am changes w of
     (Inr res, v) \<Rightarrow> \<exists>marks. accounts am (reviewed (w_session w) changes) marks res
   | (Inl e, v) \<Rightarrow> True"
proof -
  have "accounts am [] [] ([], [])" by (simp add: accounts_def)
  from apply_all_accounts [OF this, of en "reviewed (w_session w) changes" w] show ?thesis
    by (auto simp: apply_reviewed_def the_session_def bindE_def getE_def wp_def split: prod.splits sum.splits)
qed

end
