(* ===== verification/TextMerge.thy ===== *)
theory TextMerge
  imports Prelude
begin

text \<open>
  The three-way text merge of \<open>ctl.py\<close>: strict UTF-8 decoding, \<open>str.splitlines(True)\<close>, the changed range of
  a version against the base, and the merge of two ranges that do not overlap.  A file content is a list of
  bytes (\<open>string\<close>), a decoded text a list of code points.
\<close>

section \<open>UTF-8\<close>

definition continuation :: "int \<Rightarrow> bool" where
  "continuation b \<longleftrightarrow> 128 \<le> b \<and> b < 192"

definition surrogate :: "int \<Rightarrow> bool" where
  "surrogate u \<longleftrightarrow> 55296 \<le> u \<and> u < 57344"

text \<open>\<open>bytes.decode("utf-8")\<close>: overlong forms, surrogates and values past U+10FFFF are errors.\<close>

fun utf8_decode :: "int list \<Rightarrow> int list option" where
  "utf8_decode [] = Some []"
| "utf8_decode (b # bs) =
     (if b < 128 then map_option ((#) b) (utf8_decode bs)
      else if 194 \<le> b \<and> b < 224 then
        (case bs of
           c # cs \<Rightarrow> if continuation c then map_option ((#) ((b - 192) * 64 + (c - 128))) (utf8_decode cs) else None
         | _ \<Rightarrow> None)
      else if 224 \<le> b \<and> b < 240 then
        (case bs of
           c # d # ds \<Rightarrow>
             (let u = (b - 224) * 4096 + (c - 128) * 64 + (d - 128)
              in if continuation c \<and> continuation d \<and> 2048 \<le> u \<and> \<not> surrogate u
                 then map_option ((#) u) (utf8_decode ds) else None)
         | _ \<Rightarrow> None)
      else if 240 \<le> b \<and> b < 245 then
        (case bs of
           c # d # e # es \<Rightarrow>
             (let u = (b - 240) * 262144 + (c - 128) * 4096 + (d - 128) * 64 + (e - 128)
              in if continuation c \<and> continuation d \<and> continuation e \<and> 65536 \<le> u \<and> u < 1114112
                 then map_option ((#) u) (utf8_decode es) else None)
         | _ \<Rightarrow> None)
      else None)"

definition utf8_char :: "int \<Rightarrow> int list" where
  "utf8_char u =
     (if u < 128 then [u]
      else if u < 2048 then [192 + u div 64, 128 + u mod 64]
      else if u < 65536 then [224 + u div 4096, 128 + u div 64 mod 64, 128 + u mod 64]
      else [240 + u div 262144, 128 + u div 4096 mod 64, 128 + u div 64 mod 64, 128 + u mod 64])"

definition utf8_encode :: "int list \<Rightarrow> int list" where
  "utf8_encode us = concat (map utf8_char us)"

definition decode_text :: "string \<Rightarrow> int list option" where
  "decode_text s = utf8_decode (map of_char s)"

definition encode_text :: "int list \<Rightarrow> string" where
  "encode_text us = map char_of (utf8_encode us)"

text \<open>\<open>str.splitlines(True)\<close>.\<close>

definition line_break :: "int \<Rightarrow> bool" where
  "line_break u \<longleftrightarrow> u \<in> {10, 11, 12, 13, 28, 29, 30, 133, 8232, 8233}"

fun splitlines :: "int list \<Rightarrow> int list list" where
  "splitlines [] = []"
| "splitlines [u] = [[u]]"
| "splitlines (u # v # us) =
     (if u = 13 \<and> v = 10 then [u, v] # splitlines us
      else if line_break u then [u] # splitlines (v # us)
      else (case splitlines (v # us) of l # ls \<Rightarrow> (u # l) # ls | [] \<Rightarrow> [[u]]))"

section \<open>The merge\<close>

fun common_prefix :: "'a list \<Rightarrow> 'a list \<Rightarrow> nat" where
  "common_prefix (x # xs) (y # ys) = (if x = y then Suc (common_prefix xs ys) else 0)"
| "common_prefix _ _ = 0"

definition changed_range :: "'a list \<Rightarrow> 'a list \<Rightarrow> nat \<times> nat \<times> 'a list" where
  "changed_range base changed =
     (let p = common_prefix base changed;
          s = common_prefix (take (length base - p) (rev base)) (take (length changed - p) (rev changed));
          base_end = length base - s;
          changed_end = length changed - s
      in (p, base_end, take (changed_end - p) (drop p changed)))"

definition slice :: "nat \<Rightarrow> nat \<Rightarrow> 'a list \<Rightarrow> 'a list" where
  "slice i j xs = take (j - i) (drop i xs)"

definition merge_lines :: "'a list \<Rightarrow> 'a list \<Rightarrow> 'a list \<Rightarrow> 'a list option" where
  "merge_lines base current session =
     (let (cur_start, cur_end, cur_repl) = changed_range base current;
          (ses_start, ses_end, ses_repl) = changed_range base session
      in if \<not> (cur_end \<le> ses_start \<or> ses_end \<le> cur_start) then None
         else if cur_start \<le> ses_start
         then Some (take cur_start base @ cur_repl @ slice cur_end ses_start base @ ses_repl @ drop ses_end base)
         else Some (take ses_start base @ ses_repl @ slice ses_end cur_start base @ cur_repl @ drop cur_end base))"

definition try_three_way_text_merge :: "string \<Rightarrow> string \<Rightarrow> string \<Rightarrow> string option" where
  "try_three_way_text_merge base current session =
     (if current = session then Some session
      else if base = current then Some session
      else if base = session then Some current
      else
        (case (decode_text base, decode_text current, decode_text session) of
           (Some b, Some c, Some s) \<Rightarrow>
             map_option (\<lambda>ls. encode_text (concat ls)) (merge_lines (splitlines b) (splitlines c) (splitlines s))
         | _ \<Rightarrow> None))"

section \<open>Decoding and encoding\<close>

lemma digit64: "0 \<le> z \<Longrightarrow> (z::int) < 64 \<Longrightarrow> (n * 64 + z) div 64 = n" "0 \<le> z \<Longrightarrow> (z::int) < 64 \<Longrightarrow> (n * 64 + z) mod 64 = z"
  by simp_all

lemma digits64:
  fixes x y z w :: int
  assumes "0 \<le> y" "y < 64" "0 \<le> z" "z < 64" "0 \<le> w" "w < 64"
  shows "(x * 64 + y) div 64 = x" "(x * 64 + y) mod 64 = y"
    "(x * 4096 + y * 64 + z) div 4096 = x" "(x * 4096 + y * 64 + z) div 64 mod 64 = y" "(x * 4096 + y * 64 + z) mod 64 = z"
    "(x * 262144 + y * 4096 + z * 64 + w) div 262144 = x" "(x * 262144 + y * 4096 + z * 64 + w) div 4096 mod 64 = y"
    "(x * 262144 + y * 4096 + z * 64 + w) div 64 mod 64 = z" "(x * 262144 + y * 4096 + z * 64 + w) mod 64 = w"
proof -
  have three: "x * 4096 + y * 64 + z = (x * 64 + y) * 64 + z" by simp
  have four: "x * 262144 + y * 4096 + z * 64 + w = ((x * 64 + y) * 64 + z) * 64 + w" by simp
  have div: "n div 4096 = n div 64 div 64" "n div 262144 = n div 64 div 64 div 64" for n :: int
    by (simp_all add: zdiv_zmult2_eq [symmetric])
  show "(x * 64 + y) div 64 = x" "(x * 64 + y) mod 64 = y" by (simp_all only: digit64 assms)
  show "(x * 4096 + y * 64 + z) div 4096 = x" "(x * 4096 + y * 64 + z) div 64 mod 64 = y" "(x * 4096 + y * 64 + z) mod 64 = z"
    unfolding three div by (simp_all only: digit64 assms)
  show "(x * 262144 + y * 4096 + z * 64 + w) div 262144 = x" "(x * 262144 + y * 4096 + z * 64 + w) div 4096 mod 64 = y"
    "(x * 262144 + y * 4096 + z * 64 + w) div 64 mod 64 = z" "(x * 262144 + y * 4096 + z * 64 + w) mod 64 = w"
    unfolding four div by (simp_all only: digit64 assms)
qed

lemma continuation_digit: "continuation c \<Longrightarrow> \<exists>y. c = 128 + y \<and> 0 \<le> y \<and> y < 64 \<and> c - 128 = y"
  by (rule exI [of _ "c - 128"]) (auto simp: continuation_def)

lemma utf8_decode_step:
  assumes "utf8_decode (b # bs) = Some us"
  shows "\<exists>u vs cs. us = u # vs \<and> utf8_decode cs = Some vs \<and> b # bs = utf8_char u @ cs"
proof -
  have found: ?thesis if "us = u # vs" "utf8_decode cs = Some vs" "b # bs = utf8_char u @ cs" for u vs cs
    using that by blast
  consider (one) "b < 128" | (two) "194 \<le> b" "b < 224" | (three) "224 \<le> b" "b < 240" | (four) "240 \<le> b" "b < 245"
    | (bad) "128 \<le> b" "b < 194 \<or> 245 \<le> b" by linarith
  then show ?thesis
  proof cases
    case one
    then obtain vs where "us = b # vs" "utf8_decode bs = Some vs" using assms by auto
    then show ?thesis by (rule found) (simp add: utf8_char_def one)
  next
    case two
    obtain c cs vs where r: "bs = c # cs" "continuation c" "utf8_decode cs = Some vs" "us = ((b - 192) * 64 + (c - 128)) # vs"
      using assms two by (auto split: list.splits if_splits)
    obtain y where y: "c = 128 + y" "0 \<le> y" "y < 64" "c - 128 = y" using continuation_digit r(2) by blast
    have "128 \<le> (b - 192) * 64 + y" using two y by simp
    moreover have "(b - 192) * 64 + y < 2048" using two y by simp
    ultimately have "utf8_char ((b - 192) * 64 + y) = [b, c]"
      using two y digits64(1,2) [of y 0 0 "b - 192"] by (simp add: utf8_char_def)
    then show ?thesis by (intro found [OF r(4,3)]) (simp add: r(1) y)
  next
    case three
    obtain c d ds vs where r: "bs = c # d # ds" "continuation c" "continuation d" "utf8_decode ds = Some vs"
      "2048 \<le> (b - 224) * 4096 + (c - 128) * 64 + (d - 128)" "us = ((b - 224) * 4096 + (c - 128) * 64 + (d - 128)) # vs"
      using assms three by (auto simp: Let_def split: list.splits if_splits)
    obtain y where y: "c = 128 + y" "0 \<le> y" "y < 64" "c - 128 = y" using continuation_digit r(2) by blast
    obtain z where z: "d = 128 + z" "0 \<le> z" "z < 64" "d - 128 = z" using continuation_digit r(3) by blast
    have "(b - 224) * 4096 + y * 64 + z < 65536" using three y z by simp
    then have "utf8_char ((b - 224) * 4096 + y * 64 + z) = [b, c, d]"
      using three r(5) y z digits64(3-5) [of y z 0 "b - 224"] by (simp add: utf8_char_def)
    then show ?thesis by (intro found [OF r(6,4)]) (simp add: r(1) y z)
  next
    case four
    obtain c d e es vs where r: "bs = c # d # e # es" "continuation c" "continuation d" "continuation e"
      "utf8_decode es = Some vs"
      "65536 \<le> (b - 240) * 262144 + (c - 128) * 4096 + (d - 128) * 64 + (e - 128)"
      "us = ((b - 240) * 262144 + (c - 128) * 4096 + (d - 128) * 64 + (e - 128)) # vs"
      using assms four by (auto simp: Let_def split: list.splits if_splits)
    obtain y where y: "c = 128 + y" "0 \<le> y" "y < 64" "c - 128 = y" using continuation_digit r(2) by blast
    obtain z where z: "d = 128 + z" "0 \<le> z" "z < 64" "d - 128 = z" using continuation_digit r(3) by blast
    obtain w where w: "e = 128 + w" "0 \<le> w" "w < 64" "e - 128 = w" using continuation_digit r(4) by blast
    define u where "u = (b - 240) * 262144 + y * 4096 + z * 64 + w"
    have u: "us = u # vs" "65536 \<le> u" using r(6,7) by (simp_all add: u_def y(4) z(4) w(4))
    note dv = digits64(6-9) [OF y(2,3) z(2,3) w(2,3), of "b - 240", folded u_def]
    have "\<not> u < 128" "\<not> u < 2048" "\<not> u < 65536" using u(2) by linarith+
    then have "utf8_char u = [240 + (b - 240), 128 + y, 128 + z, 128 + w]"
      unfolding utf8_char_def dv by (simp only: if_False)
    then show ?thesis by (intro found [OF u(1) r(5)]) (simp add: r(1) y(1) z(1) w(1))
  qed (use assms in auto)
qed

lemma utf8_char_nonempty: "utf8_char u \<noteq> []"
  by (simp add: utf8_char_def)

lemma utf8_decode_encode: "utf8_decode bs = Some us \<Longrightarrow> utf8_encode us = bs"
proof (induction "length bs" arbitrary: bs us rule: less_induct)
  case less
  show ?case
  proof (cases bs)
    case Nil
    then show ?thesis using less.prems by (simp add: utf8_encode_def)
  next
    case (Cons b bs')
    obtain u vs cs where s: "us = u # vs" "utf8_decode cs = Some vs" "bs = utf8_char u @ cs"
      using utf8_decode_step less.prems unfolding Cons by blast
    then have "length cs < length bs" using utf8_char_nonempty [of u] by simp
    then show ?thesis using less.hyps [OF _ s(2)] s by (simp add: utf8_encode_def)
  qed
qed

lemma decode_encode_text: "decode_text s = Some us \<Longrightarrow> encode_text us = s"
  unfolding decode_text_def encode_text_def
  by (drule utf8_decode_encode) (simp add: comp_def)

lemma concat_splitlines: "concat (splitlines us) = us"
proof (induction us rule: splitlines.induct)
  case (3 u v us)
  show ?case
  proof (cases "u = 13 \<and> v = 10")
    case False
    then show ?thesis using 3(2,3) by (cases "line_break u") (auto split: list.splits)
  qed (use 3(1) in simp)
qed simp_all

lemma encode_text_append: "encode_text (us @ vs) = encode_text us @ encode_text vs"
  by (simp add: encode_text_def utf8_encode_def)

lemma splitlines_nonempty: "l \<in> set (splitlines us) \<Longrightarrow> l \<noteq> []"
  by (induction us rule: splitlines.induct) (auto split: if_splits list.splits)

section \<open>Changed ranges\<close>

lemma drop_slice: "u \<le> v \<Longrightarrow> drop u xs = slice u v xs @ drop v xs"
  using append_take_drop_id [of "v - u" "drop u xs"] by (simp add: slice_def)

lemma take_slice: "u \<le> v \<Longrightarrow> take v xs = take u xs @ slice u v xs"
  using take_add [of u "v - u" xs] by (simp add: slice_def)

lemma common_prefix_take:
  "common_prefix xs ys \<le> length xs" "common_prefix xs ys \<le> length ys"
  "take (common_prefix xs ys) xs = take (common_prefix xs ys) ys"
  by (induction xs ys rule: common_prefix.induct) auto

lemma changed_range_spec:
  assumes "changed_range base changed = (p, e, r)"
  shows "p \<le> e \<and> e \<le> length base \<and> changed = take p base @ r @ drop e base"
proof -
  let ?k = "common_prefix base changed"
  let ?s = "common_prefix (take (length base - ?k) (rev base)) (take (length changed - ?k) (rev changed))"
  have d: "p = ?k" "e = length base - ?s" "r = take (length changed - ?s - ?k) (drop ?k changed)"
    using assms by (auto simp: changed_range_def Let_def)
  have k: "?k \<le> length base" "?k \<le> length changed" "take ?k base = take ?k changed"
    by (rule common_prefix_take)+
  have s: "?s \<le> length base - ?k" "?s \<le> length changed - ?k"
    using common_prefix_take(1,2) [of "take (length base - ?k) (rev base)" "take (length changed - ?k) (rev changed)"] by simp_all
  have "take ?s (take (length base - ?k) (rev base)) = take ?s (take (length changed - ?k) (rev changed))"
    by (rule common_prefix_take)
  then have "take ?s (rev base) = take ?s (rev changed)" using s by (simp add: min_absorb1)
  then have tail: "drop (length base - ?s) base = drop (length changed - ?s) changed"
    by (simp add: take_rev)
  have "?k \<le> length changed - ?s" using s k by simp
  from drop_slice [OF this, of changed]
  have whole: "changed = take ?k changed @ take (length changed - ?s - ?k) (drop ?k changed) @ drop (length changed - ?s) changed"
    unfolding slice_def by (metis append_take_drop_id)
  have "changed = take p base @ r @ drop e base"
    unfolding d(1,2,3) tail k(3) by (rule whole)
  moreover have "p \<le> e" "e \<le> length base" using d(1,2) s(1) k(1) by linarith+
  ultimately show ?thesis by blast
qed

text \<open>One version inserts lines right before lines the other one replaces or deletes.\<close>

definition inserts_before_edit :: "'a list \<Rightarrow> 'a list \<Rightarrow> 'a list \<Rightarrow> bool" where
  "inserts_before_edit base current session \<longleftrightarrow>
     (let (cur_start, cur_end, _) = changed_range base current; (ses_start, ses_end, _) = changed_range base session
      in ses_start = cur_start \<and> ses_end = ses_start \<and> cur_start < cur_end)"

text \<open>\<open>m\<close> has the edits of both versions, at disjoint places of the base.\<close>

definition both_edits :: "'a list \<Rightarrow> 'a list \<Rightarrow> 'a list \<Rightarrow> 'a list \<Rightarrow> bool" where
  "both_edits base one two m \<longleftrightarrow>
     (\<exists>A X B Y C X' Y'. base = A @ X @ B @ Y @ C \<and> one = A @ X' @ B @ Y @ C \<and> two = A @ X @ B @ Y' @ C \<and>
        m = A @ X' @ B @ Y' @ C)"

lemma disjoint_edits:
  assumes "p \<le> e" "e \<le> q" "q \<le> f"
  shows "both_edits base (take p base @ r @ drop e base) (take q base @ t @ drop f base)
    (take p base @ r @ slice e q base @ t @ drop f base)"
proof -
  have base: "base = take p base @ slice p e base @ slice e q base @ slice q f base @ drop f base"
    using drop_slice [OF assms(1), of base] drop_slice [OF assms(2), of base] drop_slice [OF assms(3), of base]
    by (metis append_take_drop_id)
  have one: "drop e base = slice e q base @ slice q f base @ drop f base"
    using drop_slice [OF assms(2), of base] drop_slice [OF assms(3), of base] by simp
  have two: "take q base = take p base @ slice p e base @ slice e q base"
    using take_slice [OF assms(1), of base] take_slice [OF assms(2), of base] by simp
  show ?thesis
    unfolding both_edits_def
    by (rule exI [of _ "take p base"], rule exI [of _ "slice p e base"], rule exI [of _ "slice e q base"],
        rule exI [of _ "slice q f base"], rule exI [of _ "drop f base"], rule exI [of _ r], rule exI [of _ t])
      (simp add: one two base [symmetric])
qed

lemma merge_lines_edits:
  assumes "merge_lines base current session = Some m" "\<not> inserts_before_edit base current session"
  shows "both_edits base current session m \<or> both_edits base session current m"
proof -
  obtain p e r where c: "changed_range base current = (p, e, r)" by (rule prod_cases3)
  obtain q f t where s: "changed_range base session = (q, f, t)" by (rule prod_cases3)
  note cs = changed_range_spec [OF c] and ss = changed_range_spec [OF s]
  have apart: "e \<le> q \<or> f \<le> p" and m: "m = (if p \<le> q then take p base @ r @ slice e q base @ t @ drop f base
      else take q base @ t @ slice f p base @ r @ drop e base)"
    using assms(1) by (auto simp: merge_lines_def c s split: if_splits)
  show ?thesis
  proof (cases "p \<le> q")
    case True
    have "\<not> (q = p \<and> f = q \<and> p < e)" using assms(2) by (simp add: inserts_before_edit_def c s)
    then have "e \<le> q" using apart cs ss True by linarith
    then show ?thesis using disjoint_edits [of p e q f base r t] cs ss m True by auto
  next
    case False
    then have "f \<le> p" using apart cs by auto
    then show ?thesis using disjoint_edits [of q f p e base t r] cs ss m False by auto
  qed
qed

text \<open>In the excluded case the merge keeps the lines that the current version replaced.\<close>

lemma merge_lines_resurrects:
  assumes "merge_lines base current session = Some m" "inserts_before_edit base current session"
  shows "\<exists>A X C X' Y'. X \<noteq> [] \<and> set X \<subseteq> set base \<and> base = A @ X @ C \<and> current = A @ X' @ C \<and> session = A @ Y' @ X @ C \<and>
    m = A @ X' @ Y' @ X @ C"
proof -
  obtain p e r where c: "changed_range base current = (p, e, r)" by (rule prod_cases3)
  obtain q f t where s: "changed_range base session = (q, f, t)" by (rule prod_cases3)
  note cs = changed_range_spec [OF c] and ss = changed_range_spec [OF s]
  have eq: "q = p" "f = p" "p < e" using assms(2) by (auto simp: inserts_before_edit_def c s)
  have m: "m = take p base @ r @ t @ drop p base"
    using assms(1) eq by (auto simp: merge_lines_def c s slice_def split: if_splits)
  have d: "drop p base = slice p e base @ drop e base" using drop_slice eq(3) by (metis less_imp_le)
  have "slice p e base \<noteq> []" using cs eq(3) by (auto simp: slice_def)
  moreover have "set (slice p e base) \<subseteq> set base" unfolding slice_def by (meson set_drop_subset set_take_subset subset_trans)
  moreover have "base = take p base @ slice p e base @ drop e base" using d append_take_drop_id [of p base] by simp
  ultimately show ?thesis using cs ss eq m d by blast
qed

section \<open>Properties\<close>

definition text_of :: "int list list \<Rightarrow> string" where
  "text_of ls = encode_text (concat ls)"

lemma text_of_append: "text_of (xs @ ys) = text_of xs @ text_of ys"
  by (simp add: text_of_def encode_text_append)

lemma text_of_lines: "decode_text s = Some us \<Longrightarrow> text_of (splitlines us) = s"
  by (simp add: text_of_def concat_splitlines decode_encode_text)

definition text_inserts_before_edit :: "string \<Rightarrow> string \<Rightarrow> string \<Rightarrow> bool" where
  "text_inserts_before_edit base current session =
     (case (decode_text base, decode_text current, decode_text session) of
        (Some b, Some c, Some s) \<Rightarrow> inserts_before_edit (splitlines b) (splitlines c) (splitlines s)
      | _ \<Rightarrow> False)"

lemma merge_decoded:
  assumes "try_three_way_text_merge base current session = Some m" "current \<noteq> session" "base \<noteq> current" "base \<noteq> session"
  shows "\<exists>b c s ls. decode_text base = Some b \<and> decode_text current = Some c \<and> decode_text session = Some s \<and>
    merge_lines (splitlines b) (splitlines c) (splitlines s) = Some ls \<and> m = text_of ls"
  using assms by (auto simp: try_three_way_text_merge_def text_of_def split: option.splits if_splits)

lemma both_edits_text:
  assumes "both_edits xs ys zs ms"
  shows "both_edits (text_of xs) (text_of ys) (text_of zs) (text_of ms)"
proof -
  obtain A X B Y C X' Y' where s: "xs = A @ X @ B @ Y @ C" "ys = A @ X' @ B @ Y @ C" "zs = A @ X @ B @ Y' @ C" "ms = A @ X' @ B @ Y' @ C"
    using assms unfolding both_edits_def by blast
  show ?thesis
    unfolding both_edits_def s text_of_append by blast
qed

text \<open>C32. A clean merge keeps both edits: when the three-way merge returns a text and the two versions differ, the
  text has the edits of the underlay and of the session at disjoint places of the common base and is the base
  elsewhere, unless the session inserts lines right before lines the underlay changed.\<close>

theorem merge_keeps_both_edits:
  assumes "try_three_way_text_merge base current session = Some m" "current \<noteq> session"
    and "\<not> text_inserts_before_edit base current session"
  shows "both_edits base current session m \<or> both_edits base session current m"
proof (cases "base = current \<or> base = session")
  case True
  have "both_edits base base x x" for x :: string
    unfolding both_edits_def
    by (rule exI [of _ "[]"], rule exI [of _ "[]"], rule exI [of _ "[]"], rule exI [of _ base], rule exI [of _ "[]"],
        rule exI [of _ "[]"], rule exI [of _ x]) simp
  then show ?thesis using True assms(1,2) by (auto simp: try_three_way_text_merge_def)
next
  case False
  then obtain b c s ls where r: "decode_text base = Some b" "decode_text current = Some c" "decode_text session = Some s"
    "merge_lines (splitlines b) (splitlines c) (splitlines s) = Some ls" "m = text_of ls"
    using merge_decoded [OF assms(1,2)] by blast
  then have "\<not> inserts_before_edit (splitlines b) (splitlines c) (splitlines s)"
    using assms(3) by (simp add: text_inserts_before_edit_def)
  from merge_lines_edits [OF r(4) this] show ?thesis
    using both_edits_text r(5) text_of_lines r(1-3) by metis
qed

lemma merge_keeps_both_edits_witness:
  "try_three_way_text_merge (''a'' @ [CHR 0x0A] @ ''b'') (''x'' @ [CHR 0x0A] @ ''b'') (''a'' @ [CHR 0x0A] @ ''c'') =
     Some (''x'' @ [CHR 0x0A] @ ''c'') \<and>
   (both_edits (''a'' @ [CHR 0x0A] @ ''b'') (''x'' @ [CHR 0x0A] @ ''b'') (''a'' @ [CHR 0x0A] @ ''c'') (''x'' @ [CHR 0x0A] @ ''c'') \<or>
    both_edits (''a'' @ [CHR 0x0A] @ ''b'') (''a'' @ [CHR 0x0A] @ ''c'') (''x'' @ [CHR 0x0A] @ ''b'') (''x'' @ [CHR 0x0A] @ ''c''))"
proof -
  have r: "try_three_way_text_merge (''a'' @ [CHR 0x0A] @ ''b'') (''x'' @ [CHR 0x0A] @ ''b'') (''a'' @ [CHR 0x0A] @ ''c'') =
      Some (''x'' @ [CHR 0x0A] @ ''c'')"
    "\<not> text_inserts_before_edit (''a'' @ [CHR 0x0A] @ ''b'') (''x'' @ [CHR 0x0A] @ ''b'') (''a'' @ [CHR 0x0A] @ ''c'')"
    by code_simp+
  have "''x'' @ [CHR 0x0A] @ ''b'' \<noteq> ''a'' @ [CHR 0x0A] @ ''c''" by code_simp
  from merge_keeps_both_edits [OF r(1) this r(2)] r(1) show ?thesis by (intro conjI)
qed

text \<open>The case the merge gets wrong: when the session inserts lines right before lines the underlay changed, the merged
  text has the insertion and the underlay's replacement, and then the replaced lines again.\<close>

theorem merge_resurrects_lines:
  assumes "try_three_way_text_merge base current session = Some m" "current \<noteq> session" "base \<noteq> current" "base \<noteq> session"
    and "text_inserts_before_edit base current session"
  shows "\<exists>A X C X' Y'. X \<noteq> [] \<and> base = A @ X @ C \<and> current = A @ X' @ C \<and> session = A @ Y' @ X @ C \<and> m = A @ X' @ Y' @ X @ C"
proof -
  obtain b c s ls where r: "decode_text base = Some b" "decode_text current = Some c" "decode_text session = Some s"
    "merge_lines (splitlines b) (splitlines c) (splitlines s) = Some ls" "m = text_of ls"
    using merge_decoded [OF assms(1-4)] by blast
  have "inserts_before_edit (splitlines b) (splitlines c) (splitlines s)"
    using assms(5) r(1-3) by (simp add: text_inserts_before_edit_def)
  from merge_lines_resurrects [OF r(4) this] obtain A X C X' Y' where s: "X \<noteq> []" "set X \<subseteq> set (splitlines b)"
    "splitlines b = A @ X @ C" "splitlines c = A @ X' @ C" "splitlines s = A @ Y' @ X @ C" "ls = A @ X' @ Y' @ X @ C"
    by blast
  have "hd X \<noteq> []" using s(1,2) splitlines_nonempty by (metis list.set_sel(1) subsetD)
  then have "text_of X \<noteq> []"
    using s(1) utf8_char_nonempty by (cases X; cases "hd X") (auto simp: text_of_def encode_text_def utf8_encode_def)
  moreover have "base = text_of A @ text_of X @ text_of C" "current = text_of A @ text_of X' @ text_of C"
    "session = text_of A @ text_of Y' @ text_of X @ text_of C" "m = text_of A @ text_of X' @ text_of Y' @ text_of X @ text_of C"
    using text_of_lines [OF r(1)] text_of_lines [OF r(2)] text_of_lines [OF r(3)] r(5) s(3-6)
    by (simp_all add: text_of_append)
  ultimately show ?thesis by blast
qed

lemma merge_resurrects_lines_witness:
  "try_three_way_text_merge (''a'' @ [CHR 0x0A]) (''x'' @ [CHR 0x0A]) (''n'' @ [CHR 0x0A] @ ''a'' @ [CHR 0x0A]) =
     Some (''x'' @ [CHR 0x0A] @ ''n'' @ [CHR 0x0A] @ ''a'' @ [CHR 0x0A]) \<and>
   (\<exists>A X C X' Y'. X \<noteq> [] \<and> ''a'' @ [CHR 0x0A] = A @ X @ C \<and> ''x'' @ [CHR 0x0A] = A @ X' @ C \<and>
     ''n'' @ [CHR 0x0A] @ ''a'' @ [CHR 0x0A] = A @ Y' @ X @ C \<and>
     ''x'' @ [CHR 0x0A] @ ''n'' @ [CHR 0x0A] @ ''a'' @ [CHR 0x0A] = A @ X' @ Y' @ X @ C)"
proof -
  have r: "try_three_way_text_merge (''a'' @ [CHR 0x0A]) (''x'' @ [CHR 0x0A]) (''n'' @ [CHR 0x0A] @ ''a'' @ [CHR 0x0A]) =
     Some (''x'' @ [CHR 0x0A] @ ''n'' @ [CHR 0x0A] @ ''a'' @ [CHR 0x0A])"
    "text_inserts_before_edit (''a'' @ [CHR 0x0A]) (''x'' @ [CHR 0x0A]) (''n'' @ [CHR 0x0A] @ ''a'' @ [CHR 0x0A])"
    by code_simp+
  have n: "''x'' @ [CHR 0x0A] \<noteq> ''n'' @ [CHR 0x0A] @ ''a'' @ [CHR 0x0A]" "''a'' @ [CHR 0x0A] \<noteq> ''x'' @ [CHR 0x0A]"
    "''a'' @ [CHR 0x0A] \<noteq> ''n'' @ [CHR 0x0A] @ ''a'' @ [CHR 0x0A]"
    by code_simp+
  from merge_resurrects_lines [OF r(1) n r(2)] r(1) show ?thesis by (intro conjI)
qed

end
