(* ===== verification/Ctl.thy ===== *)
theory Ctl
  imports Finalize TextMerge
begin

text \<open>
  The operator's and the hooks' control surface (\<open>ctl.py\<close>): loading a session, reading its status, the
  operator's commit with three-way merges and conflict reports, abort, selective commit, thaw, finish, the
  bounded self-repair check and the removal of old bundles.  What is only printed is not modelled.
\<close>

record 'b controller =
  ct_backend :: "'b backend"
  ct_aliases :: alias_map
  ct_mountinfo :: string

definition CLEANUP_STATES :: "string list" where
  "CLEANUP_STATES = [''auto-committed'', ''committed'', ''aborted'']"

definition LIVE_STATUS_STATES :: "string list" where
  "LIVE_STATUS_STATES = [''created'', ''mounting'', ''running'', ''finalizing'']"

definition MAX_TEXT_MERGE_BYTES :: int where "MAX_TEXT_MERGE_BYTES = 1024 * 1024"

section \<open>What the branch saw at the first touch\<close>

definition hex_digit :: "nat \<Rightarrow> char" where
  "hex_digit n = ''0123456789abcdef'' ! n"

definition touch_content_key :: "string \<Rightarrow> string" where
  "touch_content_key rel =
     concat (map (\<lambda>c. let n = of_char c in [hex_digit (n div 16), hex_digit (n mod 16)]) rel) @ ''.base''"

definition touches_path :: "protected_root \<Rightarrow> string" where
  "touches_path root = path_join (branch_dir root) ''touches.json''"

definition touch_content_path :: "protected_root \<Rightarrow> string \<Rightarrow> string" where
  "touch_content_path root key = path_joins (branch_dir root) [''touch-content'', key]"

definition load_touch_records :: "env \<Rightarrow> fs \<Rightarrow> protected_root \<Rightarrow> pydict result" where
  "load_touch_records en fs root =
     (case bindR (read_file fs (touches_path root)) (en_loads en) of
        Inr (JObj d) \<Rightarrow> Inr d
      | Inr _ \<Rightarrow> Inr []
      | Inl e \<Rightarrow> if is_os_error e \<or> is_value_error e then Inr [] else Inl e)"

definition touch_record_for_rel :: "env \<Rightarrow> fs \<Rightarrow> protected_root \<Rightarrow> string \<Rightarrow> json result" where
  "touch_record_for_rel en fs root rel =
     bindR (load_touch_records en fs root) (\<lambda>touches.
       let r = get_default touches (''/'' @ rel) JNull in Inr (if truthy r then r else get_default touches rel JNull))"

definition path_identity :: "fs \<Rightarrow> string \<Rightarrow> json" where
  "path_identity fs path =
     (case lstat fs path of
        Inl _ \<Rightarrow> JObj [(''exists'', JBool False), (''kind'', JStr ''missing''), (''bytes'', JInt 0), (''mtime_ns'', JNull)]
      | Inr i \<Rightarrow>
          (let (kind, size) =
             (if isdir fs path \<and> \<not> islink fs path then (''dir'', 0)
              else if islink fs path then (''symlink'', 0)
              else if isfile fs path then (''file'', content_size (in_content i))
              else (''other'', 0))
           in JObj [(''exists'', JBool True), (''kind'', JStr kind), (''bytes'', JInt size), (''mtime_ns'', JInt (in_mtime i))]))"

definition read_bounded_text :: "fs \<Rightarrow> string \<Rightarrow> string option result" where
  "read_bounded_text fs path =
     (case stat fs path of
        Inl _ \<Rightarrow> Inr None
      | Inr i \<Rightarrow>
          if \<not> isfile fs path \<or> content_size (in_content i) > MAX_TEXT_MERGE_BYTES then Inr None
          else bindR (read_file fs path) (\<lambda>data.
            Inr (if CHR 0x00 \<in> set data \<or> decode_text data = None then None else Some data)))"

section \<open>Conflicts and merges\<close>

definition session_action :: "change \<Rightarrow> pydict \<Rightarrow> string" where
  "session_action c first =
     (if ch_op c = ''D'' then ''delete'' else if truthy (get_default first ''exists'' JNull) then ''modify'' else ''create'')"

definition report_head :: "protected_root \<Rightarrow> change \<Rightarrow> string \<Rightarrow> pydict \<Rightarrow> json \<Rightarrow> pydict" where
  "report_head root c rel first current =
     [(''root'', JStr (pr_name root)), (''path'', JStr (ch_path c)), (''relpath'', JStr (''/'' @ rel)),
      (''session_action'', JStr (session_action c first)), (''base_at_first_touch'', JObj first), (''base_at_commit'', current)]"

text \<open>The bytes of the base when the branch first touched the file, \<open>None\<close> when they cannot be read.\<close>

definition first_touch_bytes :: "fs \<Rightarrow> protected_root \<Rightarrow> string \<Rightarrow> pydict \<Rightarrow> string option result" where
  "first_touch_bytes fs root rel rec =
     bindR (let k = get_default rec ''base_content_key'' JNull in if truthy k then as_str k else Inr (touch_content_key (''/'' @ rel))) (\<lambda>key.
       case read_file fs (touch_content_path root key) of
         Inr data \<Rightarrow> Inr (Some data)
       | Inl e \<Rightarrow> if is_os_error e then Inr None else Inl e)"

definition merged_text :: "fs \<Rightarrow> protected_root \<Rightarrow> string \<Rightarrow> string \<Rightarrow> string \<Rightarrow> pydict \<Rightarrow> string option result" where
  "merged_text fs root rel delta base rec =
     bindR (first_touch_bytes fs root rel rec) (\<lambda>first.
     bindR (read_bounded_text fs base) (\<lambda>current.
     bindR (read_bounded_text fs delta) (\<lambda>session.
       Inr (case (first, current, session) of
              (Some b, Some c, Some s) \<Rightarrow> try_three_way_text_merge b c s
            | _ \<Rightarrow> None))))"

definition commit_report_for_change :: "env \<Rightarrow> fs \<Rightarrow> protected_root \<Rightarrow> change \<Rightarrow> string \<Rightarrow> string \<Rightarrow> string \<Rightarrow>
    (pydict option \<times> string option) result" where
  "commit_report_for_change en fs root c rel delta base =
     bindR (touch_record_for_rel en fs root rel) (\<lambda>raw.
     if \<not> truthy raw then Inr (None, None)
     else bindR (as_obj raw) (\<lambda>rec.
     let given = get_default rec ''base_at_first_touch'' JNull;
         touched = (if truthy given then given else JObj []);
         current = path_identity fs base in
     if py_eq touched current then Inr (None, None)
     else bindR (as_obj touched) (\<lambda>first.
     let head = report_head root c rel first current;
         conflict = (Some (head @ [(''kind'', JStr ''conflict''), (''resolution'', JStr ''session_won''),
                                   (''reason'', JStr ''parent_changed_after_first_touch'')]), None) in
     bindR (if ch_op c \<noteq> ''D'' \<and> get_default first ''kind'' JNull = JStr ''file'' \<and>
               (case current of JObj d \<Rightarrow> get_default d ''kind'' JNull = JStr ''file'' | _ \<Rightarrow> False)
            then merged_text fs root rel delta base rec else Inr None) (\<lambda>merged.
       Inr (case merged of
              Some m \<Rightarrow> (Some (head @ [(''kind'', JStr ''auto_merge''), (''resolution'', JStr ''clean_text_merge'')]), Some m)
            | None \<Rightarrow> conflict)))))"

definition is_conflict :: "pydict \<Rightarrow> bool" where
  "is_conflict r \<longleftrightarrow> get_default r ''kind'' JNull = JStr ''conflict''"

definition is_auto_merge :: "pydict \<Rightarrow> bool" where
  "is_auto_merge r \<longleftrightarrow> get_default r ''kind'' JNull = JStr ''auto_merge''"

definition write_commit_conflict_report :: "env \<Rightarrow> pydict list \<Rightarrow> ('b world, unit) eff" where
  "write_commit_conflict_report en reports =
     whenE (reports \<noteq> [])
       (bindE (getE (\<lambda>w. review_dir (w_store w) (s_id (w_session w)))) (\<lambda>review.
        seqE (on_files (makedirs review))
             (on_files (write_file (path_join review ''commit-conflicts.json'')
                (en_dumps en (JObj [(''auto_merges'', JArr (map JObj (filter is_auto_merge reports))),
                                    (''conflicts'', JArr (map JObj (filter is_conflict reports)))]) @ [CHR 0x0A])))))"

section \<open>The operator's apply\<close>

definition clear_target :: "string \<Rightarrow> (fs, unit) eff" where
  "clear_target base =
     bindE (getE (\<lambda>fs. (islink fs base, isdir fs base))) (\<lambda>(link, dir).
       if link then os_unlink base else if dir then rmtree base else retE ())"

definition make_parent :: "string \<Rightarrow> (fs, unit) eff" where
  "make_parent base = whenE (dirname base \<noteq> []) (makedirs (dirname base))"

definition operator_apply :: "env \<Rightarrow> protected_root \<Rightarrow> change \<Rightarrow> alias_map \<Rightarrow> (fs, pydict option) eff" where
  "operator_apply en root c am =
     bindE (liftE (store_paths root c am)) (\<lambda>(rel, delta, base).
     bindE (readE (\<lambda>fs. commit_report_for_change en fs root c rel delta base)) (\<lambda>(report, merged).
     case merged of
       Some m \<Rightarrow> seqE (make_parent base) (seqE (clear_target base) (seqE (write_file base m) (retE report)))
     | None \<Rightarrow>
         seqE
           (if ch_op c = ''D''
            then bindE (getE (\<lambda>fs. (islink fs base \<or> isfile fs base, isdir fs base))) (\<lambda>(leaf, dir).
                   if leaf then os_unlink base else if dir then rmtree base else retE ())
            else if ch_kind c = ''dir'' then makedirs base
            else bindE (getE (\<lambda>fs. lexists fs delta)) (\<lambda>here. whenE here
                   (seqE (make_parent base) (seqE (clear_target base) (copy2 delta base False)))))
           (retE report)))"

section \<open>Sessions and their status\<close>

definition ctl_load :: "env \<Rightarrow> string \<Rightarrow> ('b world, unit) eff" where
  "ctl_load en sid =
     bindE (tryE (readE (\<lambda>w. store_load (en_now en) (w_store w) sid))) (\<lambda>r. case r of
       Inr s \<Rightarrow> modE (\<lambda>w. w\<lparr>w_session := s\<rparr>)
     | Inl e \<Rightarrow> (case e of KeyError _ \<Rightarrow> raiseE (ControlError (''no such session: '' @ sid)) | _ \<Rightarrow> raiseE e))"

definition require_state :: "string list \<Rightarrow> string \<Rightarrow> ('b world, unit) eff" where
  "require_state allowed action =
     bindE the_session (\<lambda>s. whenE (s_state s \<notin> set allowed)
       (raiseE (ControlError (''cannot '' @ action @ '' session '' @ s_id s @ '' in state '' @ s_state s
          @ '' (needs one of: '' @ join_with '', '' allowed @ '')''))))"

definition live_status :: "'b controller \<Rightarrow> protected_root \<Rightarrow> string \<Rightarrow> ('b world, change list) eff" where
  "live_status C root action =
     bindE the_session (\<lambda>s.
     bindE (tryE (on_disk (be_status_report (ct_backend C) root))) (\<lambda>r. case r of
       Inr report \<Rightarrow> retE (sr_changes report)
     | Inl e \<Rightarrow> raiseE (ControlError (''could not read live BranchFS status for session '' @ s_id s @ '' root '' @ pr_name root
         @ '' while running '' @ action @ '': '' @ exn_str e
         @ (if s_state s \<in> {''mounting'', ''running'', ''finalizing''}
            then ''; session is marked '' @ s_state s @ ''; use resume or finish'' else [])))))"

definition ctl_changes :: "'b controller \<Rightarrow> bool \<Rightarrow> ('b world, (protected_root \<times> change) list) eff" where
  "ctl_changes C include_ignored =
     bindE the_session (\<lambda>s.
     bindE (liftE (config_from_dict (s_policy s))) (\<lambda>config.
     bindE (mapE (\<lambda>(name, root).
              bindE (live_status C root ''review'') (\<lambda>changes.
              bindE (liftE (if include_ignored then net_final_changes changes (Some (ct_aliases C))
                            else filter_ignored changes config (ct_aliases C))) (\<lambda>kept.
                retE (map (Pair root) kept)))) (sorted_items (s_roots s))) (\<lambda>css.
       retE (concat css))))"

text \<open>\<open>os.path.ismount\<close>.\<close>

definition ismount :: "fs \<Rightarrow> string \<Rightarrow> bool" where
  "ismount fs path =
     (case lstat fs path of
        Inl _ \<Rightarrow> False
      | Inr i \<Rightarrow>
          if link_target (in_content i) \<noteq> None then False
          else (case stat fs (path_join path pardir) of
                  Inl _ \<Rightarrow> False
                | Inr j \<Rightarrow> in_dev i \<noteq> in_dev j \<or> in_ino i = in_ino j))"

definition mount_still_active :: "'b controller \<Rightarrow> fs \<Rightarrow> protected_root \<Rightarrow> bool" where
  "mount_still_active C fs root \<longleftrightarrow>
     mountinfo_entry fs (pr_mount root) (ct_mountinfo C) \<noteq> None \<or> ismount fs (pr_mount root)"

text \<open>The branch is discarded only once its mount is gone; \<open>strict\<close> turns a failure into an exception.\<close>

definition abort_branch :: "'b controller \<Rightarrow> env \<Rightarrow> string \<Rightarrow> protected_root \<Rightarrow> string \<Rightarrow> bool \<Rightarrow> ('b world, bool) eff" where
  "abort_branch C en name root action strict =
     bindE (tryE (on_disk (be_abort (ct_backend C) root))) (\<lambda>r. case r of
       Inr _ \<Rightarrow> retE True
     | Inl e \<Rightarrow>
         (let detail = action @ '' could not discard branch '' @ pr_branch root @ '' for root '' @ name @ '': '' @ exn_str e in
          seqE (log_event en (if strict then ''error'' else ''discard-warning'') (Some (JStr detail)))
         (seqE save_session (if strict then raiseE (ControlError detail) else retE False))))"

definition discard_branch :: "'b controller \<Rightarrow> env \<Rightarrow> string \<Rightarrow> protected_root \<Rightarrow> string \<Rightarrow> bool \<Rightarrow> ('b world, bool) eff" where
  "discard_branch C en name root action strict =
     bindE (tryE (on_disk (be_unmount (ct_backend C) root))) (\<lambda>r. case r of
       Inr _ \<Rightarrow> seqE (log_event en ''unmounted-root'' (Some (JStr name))) (abort_branch C en name root action strict)
     | Inl e \<Rightarrow>
         (let detail = action @ '' could not unmount root '' @ name @ '' at '' @ pr_mount root @ '': '' @ exn_str e in
          bindE (getE (\<lambda>w. mount_still_active C (w_fs w) root)) (\<lambda>active.
            if active
            then seqE (log_event en ''error'' (Some (JStr detail)))
                (seqE save_session (if strict then raiseE (ControlError detail) else retE False))
            else seqE (log_event en ''unmount-skipped'' (Some (JStr detail))) (abort_branch C en name root action strict))))"

definition discard_all :: "'b controller \<Rightarrow> env \<Rightarrow> string \<Rightarrow> string \<Rightarrow> (string \<Rightarrow> json) \<Rightarrow> ('b world, unit) eff" where
  "discard_all C en action event detail =
     bindE the_session (\<lambda>s. forE (\<lambda>(name, root).
       seqE (discard_branch C en name root action False) (log_event en event (Some (detail name)))) (sorted_items (s_roots s)))"

section \<open>Commit and abort\<close>

text \<open>The conflict reports, the records of refused changes, the applied (root, relative path) pairs.\<close>

type_synonym operator_applied = "pydict list \<times> json list \<times> (protected_root \<times> string) list"

definition operator_apply_one :: "env \<Rightarrow> alias_map \<Rightarrow> operator_applied \<Rightarrow> protected_root \<times> change \<Rightarrow> ('b world, operator_applied) eff" where
  "operator_apply_one en am acc x =
     (case (acc, x) of ((reports, denied, applied), (root, c)) \<Rightarrow>
        bindE (tryE (on_files (operator_apply en root c am))) (\<lambda>res. case res of
          Inl e \<Rightarrow>
            if \<not> is_permission_denied e then raiseE e
            else bindE (liftE (rel_of_change root c am)) (\<lambda>rel.
              seqE (log_event en ''commit-permission-denied'' (Some (JStr (ch_path c @ '': '' @ exn_str e))))
                   (retE (reports, denied @ [permission_failure_record root c rel e], applied)))
        | Inr report \<Rightarrow> bindE (liftE (rel_of_change root c am)) (\<lambda>rel.
              retE (reports @ (case report of Some r \<Rightarrow> [r] | None \<Rightarrow> []), denied, applied @ [(root, rel)]))))"

definition ctl_keep_refused :: "'b controller \<Rightarrow> env \<Rightarrow> json list \<Rightarrow> (protected_root \<times> string) list \<Rightarrow> ('b world, unit) eff" where
  "ctl_keep_refused C en denied applied =
     seqE (forE (\<lambda>(root, rel). on_disk (prune_backend_change (ct_backend C) root rel)) applied)
    (seqE (on_session (remember_permission_failures denied (int (length applied))))
    (seqE (rewrite_review (ct_backend C) en (ct_aliases C) denied)
    (seqE (log_event en ''pending'' (Some (JStr (show_nat (length denied) @ '' permission-denied path(s) remain in BranchFS''))))
    (seqE (bindE the_session (\<lambda>s. whenE (s_state s = ''frozen'') (move_session en ''pending-review'')))
          save_session))))"

definition ctl_close_committed :: "'b controller \<Rightarrow> env \<Rightarrow> pydict list \<Rightarrow> ('b world, unit) eff" where
  "ctl_close_committed C en reports =
     seqE (discard_all C en ''commit cleanup'' ''committed-root'' JStr)
    (seqE (let conflicts = filter is_conflict reports; merges = filter is_auto_merge reports in
           whenE (conflicts \<noteq> [] \<or> merges \<noteq> [])
             (log_event en ''commit-conflict-report'' (Some (JStr (show_nat (length merges) @ '' auto-merge(s), ''
                @ show_nat (length conflicts) @ '' conflict(s); latest session won conflicts'')))))
    (seqE (move_session en ''committed'') save_session))"

text \<open>The rest of \<open>commit\<close>, once the changes have been applied or one of them has failed.\<close>

definition ctl_conclude :: "'b controller \<Rightarrow> env \<Rightarrow> operator_applied result \<Rightarrow> ('b world, unit) eff" where
  "ctl_conclude C en res =
     (case res of
       Inl e \<Rightarrow>
         (let detail = ''commit failed, branch preserved: '' @ exn_str e in
          seqE (log_event en ''error'' (Some (JStr detail))) (seqE save_session (raiseE (ControlError detail))))
     | Inr (reports, denied, applied) \<Rightarrow>
         seqE (write_commit_conflict_report en reports)
              (if denied \<noteq> [] then ctl_keep_refused C en denied applied else ctl_close_committed C en reports))"

definition ctl_commit :: "'b controller \<Rightarrow> env \<Rightarrow> string \<Rightarrow> bool \<Rightarrow> ('b world, unit) eff" where
  "ctl_commit C en sid include_ignored =
     seqE (ctl_load en sid)
    (seqE (require_state [''pending-review'', ''frozen''] ''commit'')
    (bindE (ctl_changes C include_ignored) (\<lambda>changes.
     seqE (mod_session clear_permission_failures)
    (bindE (tryE (foldE (operator_apply_one en (ct_aliases C)) ([], [], []) changes)) (ctl_conclude C en)))))"

definition abort_one :: "'b controller \<Rightarrow> env \<Rightarrow> string \<times> protected_root \<Rightarrow> ('b world, unit) eff" where
  "abort_one C en x =
     (case x of (name, root) \<Rightarrow>
        seqE (discard_branch C en name root ''abort'' True)
             (bindE the_session (\<lambda>s. log_event en
                (if has_permission_failures s then ''discarded-permission-denied-remainder'' else ''aborted-root'') (Some (JStr name)))))"

definition ctl_abort :: "'b controller \<Rightarrow> env \<Rightarrow> string \<Rightarrow> ('b world, unit) eff" where
  "ctl_abort C en sid =
     seqE (ctl_load en sid)
    (bindE the_session (\<lambda>s.
     if s_state s \<in> set TERMINAL_STATES
     then raiseE (ControlError (''session '' @ sid @ '' already '' @ s_state s))
     else seqE (forE (abort_one C en) (sorted_items (s_roots s)))
         (seqE (bindE the_session (\<lambda>s.
                  if has_permission_failures s
                  then seqE (mod_session clear_permission_failures) (move_session en ''committed'')
                  else move_session en ''aborted''))
               save_session)))"

section \<open>Selective review\<close>

definition finish_selective :: "'b controller \<Rightarrow> env \<Rightarrow> string \<Rightarrow> ('b world, unit) eff" where
  "finish_selective C en detail =
     seqE (discard_all C en ''selective cleanup'' ''selective-commit'' (\<lambda>name. JStr (name @ '': '' @ detail)))
    (seqE (move_session en ''committed'') save_session)"

text \<open>The writing choices of \<open>review\<close>: the chosen paths are applied and the rest is discarded; a patch is applied by
  the external program \<open>patch\<close>, given here as an operation that returns its exit status.\<close>

datatype review_choice = Accept | Reject | ApplyPatch string | CommitPaths "string list"

definition ctl_review :: "'b controller \<Rightarrow> env \<Rightarrow> (string \<Rightarrow> string \<Rightarrow> (fs, int) eff) \<Rightarrow> string \<Rightarrow> review_choice \<Rightarrow> bool \<Rightarrow>
    ('b world, unit) eff" where
  "ctl_review C en run_patch sid choice include_ignored =
     (case choice of
        Accept \<Rightarrow> ctl_commit C en sid include_ignored
      | Reject \<Rightarrow> ctl_abort C en sid
      | ApplyPatch patch \<Rightarrow>
          seqE (ctl_load en sid)
         (seqE (require_state [''pending-review'', ''frozen''] ''review'')
         (seqE (ctl_changes C include_ignored)
         (bindE the_session (\<lambda>s.
          case sort_key pr_name (map snd (s_roots s)) of
            [] \<Rightarrow> raiseE (KeyError ''list index out of range'')
          | root # _ \<Rightarrow>
              bindE (on_files (run_patch patch (pr_base root))) (\<lambda>status.
                if status \<noteq> 0 then raiseE (ControlError (''patch failed (rc='' @ show_int status @ '')''))
                else finish_selective C en ''patch applied'')))))
      | CommitPaths paths \<Rightarrow>
          seqE (ctl_load en sid)
         (seqE (require_state [''pending-review'', ''frozen''] ''review'')
         (bindE (ctl_changes C include_ignored) (\<lambda>changes.
          seqE (forE (\<lambda>(root, c). on_files (operator_apply en root c (ct_aliases C)))
                  (filter (\<lambda>(root, c). ch_path c \<in> set paths) changes))
               (finish_selective C en ''file-level commit'')))))"

definition ctl_thaw :: "'b controller \<Rightarrow> env \<Rightarrow> string \<Rightarrow> ('b world, unit) eff" where
  "ctl_thaw C en sid =
     seqE (ctl_load en sid)
    (seqE (require_state [''pending-review''] ''thaw'')
    (bindE the_session (\<lambda>s.
     seqE (forE (\<lambda>(name, root). on_disk (be_thaw (ct_backend C) root)) (s_roots s))
    (seqE (bindE (getE (\<lambda>w. review_dir (w_store w) (s_id s))) (\<lambda>review. on_files (clear_review_cache review)))
    (seqE (move_session en ''running'')
    (seqE (log_event en ''thawed'' None)
    (seqE (log_event en ''review-cache-cleared'' None)
          save_session)))))))"

definition ctl_finish :: "'b controller \<Rightarrow> env \<Rightarrow> string \<Rightarrow> ('b world, unit) eff" where
  "ctl_finish C en sid =
     seqE (ctl_load en sid)
    (seqE (require_state [''running''] ''finish'')
    (seqE (move_session en ''finalizing'')
    (seqE save_session
    (seqE (finalize_session (ct_backend C) en (ct_aliases C))
    (bindE (readE (\<lambda>w. store_load (en_now en) (w_store w) sid)) (\<lambda>s. modE (\<lambda>w. w\<lparr>w_session := s\<rparr>)))))))"

definition ctl_finish_turn :: "env \<Rightarrow> string \<Rightarrow> ('b world, unit) eff" where
  "ctl_finish_turn en sid = seqE (ctl_load en sid) (seqE (log_event en ''turn-finished'' None) save_session)"

section \<open>The self-repair check\<close>

definition CHECK_ALLOW :: string where "CHECK_ALLOW = ''allow''"
definition CHECK_REPAIR :: string where "CHECK_REPAIR = ''repair''"
definition CHECK_EXHAUSTED :: string where "CHECK_EXHAUSTED = ''exhausted''"

text \<open>The live changes of one root and the conflicts among them.\<close>

definition check_root :: "'b controller \<Rightarrow> env \<Rightarrow> string \<times> protected_root \<Rightarrow> ('b world, change list \<times> pydict list) eff" where
  "check_root C en x =
     (case x of (name, root) \<Rightarrow>
        bindE (live_status C root ''turn-check'') (\<lambda>changes.
        bindE (mapE (\<lambda>c.
                 bindE (liftE (store_paths root c (ct_aliases C))) (\<lambda>(rel, delta, base).
                 bindE (readE (\<lambda>w. commit_report_for_change en (w_fs w) root c rel delta base)) (\<lambda>(report, merged).
                   retE (case report of Some r \<Rightarrow> if is_conflict r then [r] else [] | None \<Rightarrow> [])))) changes) (\<lambda>reports.
          retE (changes, concat reports))))"

definition repair_verdict :: "env \<Rightarrow> policy_config \<Rightarrow> nat \<Rightarrow> bool \<Rightarrow> ('b world, string) eff" where
  "repair_verdict en config count clean =
     bindE the_session (\<lambda>s.
       if clean
       then seqE (log_event en ''check-clean'' (Some (JStr (show_nat count @ '' change(s), all in scope''))))
           (seqE save_session (retE CHECK_ALLOW))
       else if s_repair_attempts s \<ge> pc_max_repair config
       then seqE (log_event en ''repair-budget-exhausted'' (Some (JStr (show_int (s_repair_attempts s) @ ''/''
                    @ show_int (pc_max_repair config) @ '' attempts used; deferring to review at finalize''))))
           (seqE save_session (retE CHECK_EXHAUSTED))
       else seqE (mod_session (\<lambda>s. s\<lparr>s_repair_attempts := s_repair_attempts s + 1\<rparr>))
           (seqE (log_event en ''repair-requested'' (Some (JStr (''attempt '' @ show_int (s_repair_attempts s + 1) @ ''/''
                    @ show_int (pc_max_repair config)))))
           (seqE save_session (retE CHECK_REPAIR))))"

definition check_before_final :: "'b controller \<Rightarrow> env \<Rightarrow> string \<Rightarrow> ('b world, string) eff" where
  "check_before_final C en sid =
     seqE (ctl_load en sid)
    (seqE (require_state [''running''] ''turn-check'')
    (bindE the_session (\<lambda>s.
     bindE (liftE (config_from_dict (s_policy s))) (\<lambda>config.
     bindE (mapE (check_root C en) (sorted_items (s_roots s))) (\<lambda>found.
     bindE (liftE (filter_ignored (concat (map fst found)) config (ct_aliases C))) (\<lambda>changes.
     let conflicts = filter (\<lambda>r. get_default r ''path'' JNull \<in> JStr ` ch_path ` set changes) (concat (map snd found)) in
     bindE (liftE (classify changes config (ct_aliases C))) (\<lambda>(out_of_scope, deny_matches).
       repair_verdict en config (length changes) (out_of_scope = [] \<and> deny_matches = [] \<and> conflicts = []))))))))"

end
