(* ===== verification/CtlView.thy ===== *)
theory CtlView
  imports Ctl
begin

text \<open>
  The read-only side of \<open>ctl.py\<close> and the removal of old bundles: time stamps, the effective view of a change
  list, the changes a stored review holds, the listing and \<open>cleanup\<close>.
\<close>

section \<open>Time stamps\<close>

definition is_digit :: "char \<Rightarrow> bool" where
  "is_digit c \<longleftrightarrow> 48 \<le> (of_char c :: nat) \<and> (of_char c :: nat) \<le> 57"

definition digits_value :: "string \<Rightarrow> int" where
  "digits_value ds = foldl (\<lambda>n c. n * 10 + (of_char c - 48)) 0 ds"

text \<open>A field of \<open>strptime\<close>: at most \<open>width\<close> digits with a value in range, a leading space for the day of the month.\<close>

definition stamp_field :: "nat \<Rightarrow> int \<Rightarrow> int \<Rightarrow> string \<Rightarrow> int option" where
  "stamp_field width low high ds =
     (if ds \<noteq> [] \<and> length ds \<le> width \<and> list_all is_digit ds \<and> low \<le> digits_value ds \<and> digits_value ds \<le> high
      then Some (digits_value ds) else None)"

definition leap_year :: "int \<Rightarrow> bool" where
  "leap_year y \<longleftrightarrow> y mod 4 = 0 \<and> (y mod 100 \<noteq> 0 \<or> y mod 400 = 0)"

definition days_in_month :: "int \<Rightarrow> int \<Rightarrow> int" where
  "days_in_month y m =
     (if m = 2 then (if leap_year y then 29 else 28) else if m \<in> {4, 6, 9, 11} then 30 else 31)"

definition days_before_year :: "int \<Rightarrow> int" where
  "days_before_year y = (y - 1) * 365 + (y - 1) div 4 - (y - 1) div 100 + (y - 1) div 400"

definition days_before_month :: "int \<Rightarrow> int \<Rightarrow> int" where
  "days_before_month y m = sum_list (map (days_in_month y) [1..m - 1])"

text \<open>Seconds since the epoch, 1970-01-01.\<close>

definition timegm :: "int \<Rightarrow> int \<Rightarrow> int \<Rightarrow> int \<Rightarrow> int \<Rightarrow> int \<Rightarrow> int" where
  "timegm y mo d h mi s =
     (((days_before_year y + days_before_month y mo + d - 1 - 719162) * 24 + h) * 60 + mi) * 60 + s"

text \<open>\<open>strptime(stamp, "%Y-%m-%dT%H:%M:%SZ")\<close>: letters match in either case, a second may be 60 or 61.\<close>

definition parse_stamp :: "string \<Rightarrow> int option" where
  "parse_stamp stamp =
     (let (year, r1) = (takeWhile ((\<noteq>) CHR ''-'') stamp, drop 1 (dropWhile ((\<noteq>) CHR ''-'') stamp));
          (month, r2) = (takeWhile ((\<noteq>) CHR ''-'') r1, drop 1 (dropWhile ((\<noteq>) CHR ''-'') r1));
          is_t = (\<lambda>c. c \<in> {CHR ''T'', CHR ''t''});
          (day, r3) = (takeWhile (\<lambda>c. \<not> is_t c) r2, drop 1 (dropWhile (\<lambda>c. \<not> is_t c) r2));
          (hour, r4) = (takeWhile ((\<noteq>) CHR '':'') r3, drop 1 (dropWhile ((\<noteq>) CHR '':'') r3));
          (minute, r5) = (takeWhile ((\<noteq>) CHR '':'') r4, drop 1 (dropWhile ((\<noteq>) CHR '':'') r4));
          (second, z) = (takeWhile is_digit r5, dropWhile is_digit r5)
      in if length year \<noteq> 4 \<or> z \<notin> {''Z'', ''z''} then None
         else case (stamp_field 4 1 9999 year, stamp_field 2 1 12 month, stamp_field 2 1 31 (if length day = 2 then lstrip CHR '' '' day else day),
                    stamp_field 2 0 23 hour, stamp_field 2 0 59 minute, stamp_field 2 0 61 second) of
                (Some y, Some mo, Some d, Some h, Some mi, Some s) \<Rightarrow>
                  if d \<le> days_in_month y mo then Some (timegm y mo d h mi s) else None
              | _ \<Rightarrow> None)"

definition utc_seconds :: "string \<Rightarrow> int option" where
  "utc_seconds stamp = (if stamp = [] then None else parse_stamp stamp)"

section \<open>The effective view of a change list\<close>

definition visible_delete_paths :: "change list \<Rightarrow> string \<Rightarrow> string set" where
  "visible_delete_paths changes root = (\<lambda>c. normpath (ch_path c)) ` {c \<in> set changes. ch_op c = ''D'' \<and> ch_root c = root}"

definition outermost_visible_delete_ancestor :: "change list \<Rightarrow> change \<Rightarrow> string option" where
  "outermost_visible_delete_ancestor changes c =
     (case filter (\<lambda>p. p \<in> visible_delete_paths changes (ch_root c)) (parent_chain (rstrip sep (normpath (ch_path c)))) of
        [] \<Rightarrow> None | ps \<Rightarrow> Some (last ps))"

definition hidden_below :: "change list \<Rightarrow> change \<Rightarrow> nat" where
  "hidden_below changes c =
     length (filter (\<lambda>d. ch_op d = ''D'' \<and> ch_root d = ch_root c \<and>
        outermost_visible_delete_ancestor changes d = Some (normpath (ch_path c))) changes)"

definition normalized_change_view :: "change list \<Rightarrow> change list result" where
  "normalized_change_view changes =
     bindR (net_final_changes changes None) (\<lambda>net.
       Inr (map (\<lambda>c. if ch_op c = ''D'' \<and> ch_summary c = []
                     then c\<lparr>ch_summary := nested_delete_summary (hidden_below net c)\<rparr> else c)
             (filter (\<lambda>c. ch_op c = ''D'' \<longrightarrow> outermost_visible_delete_ancestor net c = None) net)))"

definition change_line :: "change \<Rightarrow> string" where
  "change_line c =
     ch_op c @ '' '' @ ch_path c @ '' ('' @ ch_kind c @ '', '' @ show_int (ch_bytes c) @ '' bytes''
       @ (if ch_summary c = [] then [] else ''; '' @ ch_summary c) @ '')''"

definition ignored_line :: "ignored_change \<Rightarrow> string" where
  "ignored_line i = change_line (ig_change i) @ '' (ignored by '' @ ig_pattern i @ '')''"

section \<open>Stored reviews\<close>

definition can_use_stored_review :: "session \<Rightarrow> bool" where
  "can_use_stored_review s \<longleftrightarrow> s_state s \<notin> set LIVE_STATUS_STATES"

definition has_delete_target :: "fs \<Rightarrow> alias_map \<Rightarrow> session \<Rightarrow> change \<Rightarrow> bool result" where
  "has_delete_target fs am s c =
     (if ch_op c \<noteq> ''D'' then Inr True
      else (case dict_get (s_roots s) (ch_root c) of
              None \<Rightarrow> Inr True
            | Some root \<Rightarrow>
                bindR (canonicalize am (pr_visible root)) (\<lambda>visible.
                bindR (canonicalize am (ch_path c)) (\<lambda>path.
                bindR (is_within path visible) (\<lambda>inside.
                if \<not> inside then Inr True
                else bindR (relpath (fs_cwd fs) path visible) (\<lambda>rel. Inr (lexists fs (path_join (pr_base root) rel))))))))"

definition filterR :: "('a \<Rightarrow> bool result) \<Rightarrow> 'a list \<Rightarrow> 'a list result" where
  "filterR p xs = bindR (mapR (\<lambda>x. bindR (p x) (\<lambda>b. Inr (if b then [x] else []))) xs) (\<lambda>yss. Inr (concat yss))"

definition load_entries :: "env \<Rightarrow> fs \<Rightarrow> (pydict \<Rightarrow> 'a result) \<Rightarrow> string \<Rightarrow> 'a list result" where
  "load_entries en fs from_dict path =
     bindR (bindR (bindR (read_file fs path) (en_loads en)) as_list) (mapR (\<lambda>entry. bindR (as_obj entry) from_dict))"

definition stored_file :: "env \<Rightarrow> fs \<Rightarrow> alias_map \<Rightarrow> session \<Rightarrow> string \<Rightarrow> bool \<times> change list \<times> ignored_change list \<Rightarrow> string \<Rightarrow>
    (bool \<times> change list \<times> ignored_change list) result" where
  "stored_file en fs am s review acc name =
     (case acc of (saw, changes, ignored) \<Rightarrow>
        let path = path_join review name in
        if startswith name ''status.'' \<and> endswith name ''.json''
        then bindR (load_entries en fs change_from_dict path) (\<lambda>cs.
             bindR (filterR (has_delete_target fs am s) cs) (\<lambda>kept. Inr (True, changes @ kept, ignored)))
        else if startswith name ''ignored.'' \<and> endswith name ''.json''
        then bindR (load_entries en fs ignored_from_dict path) (\<lambda>is.
             bindR (filterR (\<lambda>i. has_delete_target fs am s (ig_change i)) is) (\<lambda>kept. Inr (saw, changes, ignored @ kept)))
        else Inr acc)"

definition stored_review_changes :: "env \<Rightarrow> fs \<Rightarrow> alias_map \<Rightarrow> session \<Rightarrow> string \<Rightarrow>
    (bool \<times> change list \<times> ignored_change list) result" where
  "stored_review_changes en fs am s review =
     bindR (listdir fs review) (\<lambda>names.
     bindR (foldR (stored_file en fs am s review) (False, [], []) (sort names)) (\<lambda>(saw, changes, ignored).
     bindR (net_final_changes changes (Some am)) (\<lambda>changes.
     bindR (net_final_ignored_changes ignored (Some am)) (\<lambda>ignored.
       Inr (saw, changes, ignored)))))"

section \<open>Listing and cleanup\<close>

definition ctl_list :: "string \<Rightarrow> session_store \<Rightarrow> string \<Rightarrow> session list result" where
  "ctl_list now st start =
     bindR (store_list now st) (\<lambda>ss.
       Inr (filter (\<lambda>s. \<not> is_remote_bridge s \<and> (start = [] \<or> startswith (s_id s) start)) ss))"

definition cleanup_stamp :: "session \<Rightarrow> string" where
  "cleanup_stamp s = (if str_unset (s_finished_at s) then s_created_at s else the (s_finished_at s))"

definition cleanup_due :: "int \<Rightarrow> string list \<Rightarrow> session \<Rightarrow> bool" where
  "cleanup_due cutoff states s \<longleftrightarrow>
     s_state s \<in> set states \<and> (case utc_seconds (cleanup_stamp s) of None \<Rightarrow> False | Some t \<Rightarrow> t \<le> cutoff)"

text \<open>Ids removed (or to be removed), skipped for an active mount, and failed.\<close>

type_synonym cleanup_result = "string list \<times> string list \<times> string list"

definition cleanup_one :: "'b controller \<Rightarrow> int \<Rightarrow> string list \<Rightarrow> bool \<Rightarrow> cleanup_result \<Rightarrow> session \<Rightarrow> ('b world, cleanup_result) eff" where
  "cleanup_one C cutoff states dry_run acc s =
     (case acc of (matched, skipped, failed) \<Rightarrow>
        if \<not> cleanup_due cutoff states s then retE acc
        else bindE (getE (\<lambda>w. list_ex (\<lambda>(name, root). mount_still_active C (w_fs w) root) (s_roots s))) (\<lambda>active.
          if active then retE (matched, skipped @ [s_id s], failed)
          else if dry_run then retE (matched @ [s_id s], skipped, failed)
          else bindE (tryE (bindE (readE (\<lambda>w. store_remove (s_id s) (w_store w))) (\<lambda>(gone, st). modE (\<lambda>w. w\<lparr>w_store := st\<rparr>)))) (\<lambda>r. case r of
            Inr _ \<Rightarrow> retE (matched @ [s_id s], skipped, failed)
          | Inl e \<Rightarrow> if is_os_error e \<or> is_value_error e then retE (matched, skipped, failed @ [s_id s]) else raiseE e)))"

definition ctl_cleanup :: "'b controller \<Rightarrow> env \<Rightarrow> int \<Rightarrow> int \<Rightarrow> bool \<Rightarrow> bool \<Rightarrow> ('b world, string list) eff" where
  "ctl_cleanup C en older_than_days now dry_run all_types =
     (if older_than_days < 0 then raiseE (ControlError ''cleanup --older-than must be a non-negative day count'')
      else
        bindE (readE (\<lambda>w. store_list (en_now en) (w_store w))) (\<lambda>sessions.
        bindE (foldE (cleanup_one C (now - older_than_days * 86400) (if all_types then STATES else CLEANUP_STATES) dry_run)
                 ([], [], []) sessions) (\<lambda>(matched, skipped, failed).
          if failed \<noteq> [] then raiseE (ControlError (''cleanup failed for '' @ show_nat (length failed) @ '' session(s)''))
          else retE matched)))"

end
