(* ===== verification/CtlFacts.thy ===== *)
theory CtlFacts
  imports CtlView FinalizeFacts
begin

text \<open>
  What the operator's commands and the hooks' check guarantee: the repair budget bounds the repairs asked for,
  nothing is written for a session that does not wait for review, a commit that fails or is refused in part keeps
  the branch, an abort ends where it may, and the cleanup removes only old closed bundles without a live mount.
\<close>

section \<open>The repair budget\<close>

definition same_session :: "session \<Rightarrow> session_store \<Rightarrow> 'b world \<Rightarrow> bool" where
  "same_session s st w \<longleftrightarrow> w_session w = s \<and> w_store w = st"

lemma keeps_same_session [keeps_intros]:
  "keeps (same_session s st) (on_disk m)"
  "keeps (same_session s st) (on_files fm)"
  by (intro keeps_on_disk keeps_on_files; simp add: same_session_def)+

lemma keeps_same_parts [keeps_intros]:
  "keeps (same_session s st) (require_state allowed action)"
  "keeps (same_session s st) (live_status C root action)"
  "keeps (same_session s st) (check_root C en x)"
  unfolding require_state_def live_status_def check_root_def
  by (intro keeps_intros)+

text \<open>A document the store reads back at any time.\<close>

definition stored :: "session \<Rightarrow> session_store \<Rightarrow> bool" where
  "stored s st \<longleftrightarrow> dict_get (st_docs st) (s_id s) = Some (JObj (session_to_dict s)) \<and> persistable s"

lemma stored_load: "stored s st \<Longrightarrow> store_load now st (s_id s) = Inr s"
  using session_roundtrip by (simp add: stored_def store_load_def persistable_def)

lemma stored_save: "persistable s \<Longrightarrow> stored s (store_save s st)"
  by (simp add: stored_def store_save_def)

lemma wp_load: "store_load (en_now en) (w_store w) sid = Inr s \<Longrightarrow>
   wp (ctl_load en sid) Q E w = Q () (w\<lparr>w_session := s\<rparr>)"
  by (simp add: ctl_load_def wp_simps)

definition checked :: "session \<Rightarrow> policy_config \<Rightarrow> session_store \<Rightarrow> string \<Rightarrow> 'b world \<Rightarrow> bool" where
  "checked s config st v w \<longleftrightarrow>
     (\<exists>ev. w_session w = s\<lparr>s_repair_attempts := s_repair_attempts s + (if v = CHECK_REPAIR then 1 else 0), s_events := ev\<rparr>) \<and>
     w_store w = store_save (w_session w) st \<and>
     (v = CHECK_REPAIR \<longrightarrow> s_repair_attempts s < pc_max_repair config)"

lemma repair_verdict_checked:
  assumes "same_session s st w"
  shows "wp (repair_verdict en config n clean) (checked s config st) (\<lambda>_. same_session s st) w"
  using assms
  by (auto simp: repair_verdict_def wp_simps the_session_def log_event_def mod_session_def save_session_def checked_def
      same_session_def add_event_def CHECK_ALLOW_def CHECK_REPAIR_def CHECK_EXHAUSTED_def)

lemma check_checked:
  assumes "store_load (en_now en) (w_store w) sid = Inr s" "config_from_dict (s_policy s) = Inr config"
  shows "wp (check_before_final C en sid) (checked s config (w_store w)) (\<lambda>_. \<lambda>v. w_store v = w_store w) w"
proof -
  let ?I = "same_session s (w_store w)"
  have start: "?I (w\<lparr>w_session := s\<rparr>)" by (simp add: same_session_def)
  have last: "wp (repair_verdict en config n clean) (checked s config (w_store w)) (\<lambda>_ v. w_store v = w_store w) u"
    if "?I u" for n clean u
    by (rule wp_mono [OF repair_verdict_checked [OF that]]) (simp_all add: same_session_def)
  have step: "wp m Q (\<lambda>_ v. w_store v = w_store w) u" if "keeps ?I m" "?I u" "\<And>x t. ?I t \<Longrightarrow> Q x t"
    for m :: "('a world, 'x) eff" and Q u
    by (rule wp_keeps [OF that(1,2)]) (use that(3) in \<open>auto simp: same_session_def\<close>)
  show ?thesis
    unfolding check_before_final_def wp_seq wp_load [OF assms(1)] Let_def wp_bind
  proof (rule step [OF _ start], goal_cases)
    case (2 x t)
    have "wp (mapE (check_root C en) (sorted_items (s_roots s)))
       (\<lambda>found. wp (liftE (filter_ignored (concat (map fst found)) config (ct_aliases C)))
         (\<lambda>changes. wp (liftE (classify changes config (ct_aliases C)))
            (\<lambda>x. wp (case x of (out_of_scope, deny_matches) \<Rightarrow>
                repair_verdict en config (length changes) (out_of_scope = [] \<and> deny_matches = [] \<and>
                  filter (\<lambda>r. get_default r ''path'' JNull \<in> JStr ` ch_path ` set changes) (concat (map snd found)) = []))
              (checked s config (w_store w)) (\<lambda>_ v. w_store v = w_store w)) (\<lambda>_ v. w_store v = w_store w)) (\<lambda>_ v. w_store v = w_store w))
       (\<lambda>_ v. w_store v = w_store w) t"
      by (rule step [OF _ 2]) (auto simp: wp_lift last same_session_def intro!: keeps_intros split: sum.split prod.split)
    then show ?case using 2 assms(2) by (simp add: same_session_def the_session_def wp_get wp_lift)
  qed (intro keeps_intros)
qed

text \<open>A history of checks: before each one the agent and others change the world, but not the stored session.\<close>

fun run_checks :: "'b controller \<Rightarrow> string \<Rightarrow> (env \<times> ('b world \<Rightarrow> 'b world)) list \<Rightarrow> 'b world \<Rightarrow> string result list" where
  "run_checks C sid [] w = []"
| "run_checks C sid ((en, work) # steps) w =
     (case check_before_final C en sid (work w) of (r, v) \<Rightarrow> r # run_checks C sid steps v)"

definition repairs :: "string result list \<Rightarrow> int" where
  "repairs rs = int (length (filter (\<lambda>r. r = Inr CHECK_REPAIR) rs))"

lemma repairs_Cons: "repairs (r # rs) = (if r = Inr CHECK_REPAIR then 1 else 0) + repairs rs"
  by (simp add: repairs_def)

lemma run_checks_budget:
  assumes "stored s (w_store w)" "config_from_dict (s_policy s) = Inr config"
    and "\<forall>(en, work)\<in>set steps. \<forall>v. w_store (work v) = w_store v"
  shows "repairs (run_checks C (s_id s) steps w) \<le> max 0 (pc_max_repair config - s_repair_attempts s)"
  using assms
proof (induction C "s_id s" steps w arbitrary: s rule: run_checks.induct)
  case (2 C en work steps w)
  obtain r v where run: "check_before_final C en (s_id s) (work w) = (r, v)" by fastforce
  have same: "w_store (work w) = w_store w" using "2.prems"(3) by simp
  have load: "store_load (en_now en) (w_store (work w)) (s_id s) = Inr s"
    using stored_load [OF "2.prems"(1)] by (simp add: same)
  note checked = wp_result [OF check_checked [OF load "2.prems"(2)] run]
  have rest: "\<forall>(en, work)\<in>set steps. \<forall>v. w_store (work v) = w_store v" using "2.prems"(3) by simp
  show ?case
  proof (cases r)
    case (Inl e)
    then have "stored s (w_store v)" using checked "2.prems"(1) same by simp
    from "2.hyps" [OF run [symmetric] refl this "2.prems"(2) rest] show ?thesis by (simp add: run repairs_Cons Inl)
  next
    case (Inr verdict)
    then obtain ev where t: "w_session v = s\<lparr>s_repair_attempts := s_repair_attempts s + (if verdict = CHECK_REPAIR then 1 else 0),
        s_events := ev\<rparr>" "w_store v = store_save (w_session v) (w_store w)"
      "verdict = CHECK_REPAIR \<longrightarrow> s_repair_attempts s < pc_max_repair config"
      using checked same by (auto simp: checked_def)
    have p: "persistable (w_session v)" using "2.prems"(1) t(1) by (simp add: stored_def persistable_def)
    have "stored (w_session v) (w_store v)" using stored_save [OF p] t(2) by simp
    then have "repairs (run_checks C (s_id s) steps v) \<le> max 0 (pc_max_repair config - s_repair_attempts (w_session v))"
      using "2.hyps" [OF run [symmetric], of "w_session v"] "2.prems"(2) rest t(1) by simp
    then show ?thesis using t(1,3) Inr by (auto simp: run repairs_Cons)
  qed
qed (simp add: repairs_def)

section \<open>Commands that need a session under review\<close>

lemma require_state_refuses:
  assumes "s_state (w_session w) \<notin> set allowed"
  shows "\<exists>msg. require_state allowed action w = (Inl (ControlError msg), w)"
  using assms by (simp add: require_state_def bindE_def the_session_def getE_def whenE_def raiseE_def)

lemma load_then:
  assumes "store_load (en_now en) (w_store w) sid = Inr s"
  shows "seqE (ctl_load en sid) m w = m (w\<lparr>w_session := s\<rparr>)"
  using assms by (simp add: ctl_load_def seqE_def bindE_def tryE_def readE_def modE_def)

lemma stops_at: "n w = (Inl e, w') \<Longrightarrow> seqE n m w = (Inl e, w')"
  by (simp add: seqE_def bindE_def)

lemma review_refused:
  assumes "store_load (en_now en) (w_store w) sid = Inr s" "s_state s \<notin> {''pending-review'', ''frozen''}"
  shows "\<exists>msg. seqE (ctl_load en sid) (seqE (require_state [''pending-review'', ''frozen''] action) m) w
    = (Inl (ControlError msg), w\<lparr>w_session := s\<rparr>)"
proof -
  obtain msg where "require_state [''pending-review'', ''frozen''] action (w\<lparr>w_session := s\<rparr>) = (Inl (ControlError msg), w\<lparr>w_session := s\<rparr>)"
    using require_state_refuses [of "w\<lparr>w_session := s\<rparr>" "[''pending-review'', ''frozen'']" action] assms(2) by auto
  then show ?thesis by (simp add: load_then [OF assms(1)] stops_at)
qed

section \<open>A commit that does not go through keeps the branch\<close>

lemma ctl_discard_free [simp]:
  "ctl_changes (C\<lparr>ct_backend := ct_backend C\<lparr>be_abort := f\<rparr>\<rparr>) = ctl_changes C"
  "ctl_keep_refused (C\<lparr>ct_backend := ct_backend C\<lparr>be_abort := f\<rparr>\<rparr>) = ctl_keep_refused C"
  by (simp_all add: fun_eq_iff ctl_changes_def ctl_keep_refused_def live_status_def prune_backend_change_def rewrite_review_def
      collect_status_reports_def cong: if_cong)

lemma wp_log_event: "wp (log_event en e d) Q E w = Q () (w\<lparr>w_session := add_event (en_now en) e d (w_session w)\<rparr>)"
  by (simp add: log_event_def mod_session_def wp_simps)

lemma wp_save_session: "wp save_session Q E w = Q () (w\<lparr>w_store := store_save (w_session w) (w_store w)\<rparr>)"
  by (simp add: save_session_def wp_simps)

lemma abort_branch_soft:
  "s_state (w_session w) = st \<Longrightarrow>
   wp (abort_branch C en name root action False) (\<lambda>_ v. s_state (w_session v) = st) (\<lambda>_ _. False) w"
  unfolding abort_branch_def wp_bind wp_try wp_on_disk
  by (rule wp_total) (simp_all add: wp_ret wp_seq wp_log_event wp_save_session Let_def)

lemma discard_branch_soft:
  assumes "s_state (w_session w) = st"
  shows "wp (discard_branch C en name root action False) (\<lambda>_ v. s_state (w_session v) = st) (\<lambda>_ _. False) w"
proof -
  have log: "wp (seqE (log_event en e d) (abort_branch C en name root action False)) (\<lambda>_ v. s_state (w_session v) = st) (\<lambda>_ _. False) u"
    if "s_state (w_session u) = st" for e d u
    unfolding wp_seq wp_log_event by (rule abort_branch_soft) (simp add: that)
  have stop: "wp (seqE (log_event en e d) (seqE save_session (retE False))) (\<lambda>_ v. s_state (w_session v) = st) (\<lambda>_ _. False) u"
    if "s_state (w_session u) = st" for e d u
    by (simp add: wp_seq wp_log_event wp_save_session wp_ret that)
  show ?thesis
    unfolding discard_branch_def wp_bind wp_try wp_on_disk
    by (rule wp_total) (use assms in \<open>simp_all add: log stop wp_bind wp_get Let_def del: append.simps\<close>)
qed

lemma discard_all_soft:
  assumes "s_state (w_session w) = st"
  shows "wp (discard_all C en action event detail) (\<lambda>_ v. s_state (w_session v) = st) (\<lambda>_ _. False) w"
proof -
  have one: "wp (seqE (discard_branch C en name root action False) (log_event en event (Some (detail name))))
      (\<lambda>_ v. s_state (w_session v) = st) (\<lambda>_ _. False) u" if "s_state (w_session u) = st" for name root u
    unfolding wp_seq
    by (rule wp_mono [OF discard_branch_soft [OF that]]) (simp_all add: wp_log_event)
  show ?thesis
    unfolding discard_all_def the_session_def wp_bind wp_get
  proof (rule wp_for [where I = "\<lambda>v. s_state (w_session v) = st"])
    fix x :: "string \<times> protected_root" and t :: "'a world" assume "s_state (w_session t) = st"
    then show "wp (case x of (name, root) \<Rightarrow> seqE (discard_branch C en name root action False)
        (log_event en event (Some (detail name)))) (\<lambda>_ v. s_state (w_session v) = st) (\<lambda>_ _. False) t"
      by (cases x) (simp add: one)
  qed (use assms in simp_all)
qed

lemma transition_admitted:
  assumes "dict_get TRANSITIONS (s_state s) = Some allowed" "new \<in> set allowed" "new \<in> set STATES"
  shows "\<exists>t. transition now new s = Inr t \<and> s_state t = new"
proof -
  have "is_ok (transition now new s)" using assms by (simp add: transition_def get_item_def Let_def)
  then show ?thesis by (metis is_ok_iff transition_Inr)
qed

lemma to_committed:
  assumes "s_state s \<in> {''pending-review'', ''frozen''}"
  shows "\<exists>t. transition now ''committed'' s = Inr t \<and> s_state t = ''committed''"
proof -
  have "dict_get TRANSITIONS ''pending-review'' = Some [''committed'', ''aborted'', ''running'', ''failed'']"
    "dict_get TRANSITIONS ''frozen'' = Some [''auto-committed'', ''pending-review'', ''committed'', ''aborted'', ''failed'']"
    "''committed'' \<in> set STATES" by (simp_all add: TRANSITIONS_def STATES_def)
  then show ?thesis using assms by (fastforce intro: transition_admitted)
qed

lemma move_committed:
  assumes "s_state (w_session w) \<in> {''pending-review'', ''frozen''}"
  shows "wp (seqE (move_session en ''committed'') save_session) (\<lambda>_ v. s_state (w_session v) = ''committed'' \<and> saved v) (\<lambda>_ _. False) w"
proof -
  obtain t where "transition (en_now en) ''committed'' (w_session w) = Inr t" "s_state t = ''committed''"
    using to_committed [OF assms] by blast
  then show ?thesis
    using save_in_state [of "w\<lparr>w_session := t\<rparr>" "{''committed''}"] by (simp add: wp_seq wp_move_session)
qed

lemma close_committed_sure:
  assumes "s_state (w_session w) \<in> {''pending-review'', ''frozen''}"
  shows "wp (ctl_close_committed C en reports) (\<lambda>_ v. s_state (w_session v) = ''committed'' \<and> saved v) (\<lambda>_ _. False) w"
  unfolding ctl_close_committed_def
proof (rule wp_thenI [OF discard_all_soft [OF refl]], rule wp_thenI)
  fix t :: "'a world" assume t: "s_state (w_session t) = s_state (w_session w)"
  show "wp (let conflicts = filter is_conflict reports; merges = filter is_auto_merge reports in
           whenE (conflicts \<noteq> [] \<or> merges \<noteq> [])
             (log_event en ''commit-conflict-report'' (Some (JStr (show_nat (length merges) @ '' auto-merge(s), ''
                @ show_nat (length conflicts) @ '' conflict(s); latest session won conflicts'')))))
     (\<lambda>_ v. s_state (w_session v) = s_state (w_session w)) (\<lambda>_ _. False) t"
    using t by (simp add: wp_when wp_log_event Let_def)
next
  fix t u :: "'a world" assume "s_state (w_session u) = s_state (w_session w)"
  then show "wp (seqE (move_session en ''committed'') save_session) (\<lambda>_ v. s_state (w_session v) = ''committed'' \<and> saved v) (\<lambda>_ _. False) u"
    using move_committed [of u] assms by simp
qed

text \<open>A run that raised, or that leaves the session short of committed, and the operations that give the same such runs.\<close>

fun unsettled :: "unit result \<times> 'b world \<Rightarrow> bool" where
  "unsettled (Inl e, v) = True"
| "unsettled (Inr x, v) = (s_state (w_session v) \<noteq> ''committed'')"

definition spared :: "('b world, unit) eff \<Rightarrow> ('b world, unit) eff \<Rightarrow> 'b world \<Rightarrow> bool" where
  "spared m n w \<longleftrightarrow> unsettled (m w) \<longrightarrow> n w = m w"

lemma spared_same: "spared m m w"
  by (simp add: spared_def)

lemma spared_bind: "wp m (\<lambda>x. spared (f x) (g x)) (\<lambda>_ _. True) w \<Longrightarrow> spared (bindE m f) (bindE m g) w"
  by (auto simp: spared_def bindE_def wp_def split: sum.splits prod.splits)

lemma spared_seq: "wp m (\<lambda>_. spared f g) (\<lambda>_ _. True) w \<Longrightarrow> spared (seqE m f) (seqE m g) w"
  unfolding seqE_def by (rule spared_bind)

lemma spared_committed:
  assumes "wp m (\<lambda>_ v. s_state (w_session v) = ''committed'') (\<lambda>_ _. False) w"
  shows "spared m n w"
proof (cases "m w")
  case (Pair r v)
  with wp_result [OF assms this] show ?thesis by (cases r) (simp_all add: spared_def)
qed

definition reviewable :: "'b world \<Rightarrow> bool" where
  "reviewable w \<longleftrightarrow> s_state (w_session w) \<in> {''pending-review'', ''frozen''}"

lemma wp_require_state:
  "wp (require_state allowed action) Q E w =
     (if s_state (w_session w) \<in> set allowed then Q () w
      else E (ControlError (''cannot '' @ action @ '' session '' @ s_id (w_session w) @ '' in state '' @ s_state (w_session w)
        @ '' (needs one of: '' @ join_with '', '' allowed @ '')'')) w)"
  by (simp add: require_state_def the_session_def wp_simps)

lemma keeps_reviewable [keeps_intros]:
  "keeps reviewable (on_disk m)"
  "keeps reviewable (on_files fm)"
  "keeps reviewable (log_event en e d)"
  "keeps reviewable (mod_session clear_permission_failures)"
  unfolding log_event_def
  by (intro keeps_on_disk keeps_on_files keeps_mod_session;
      simp add: reviewable_def add_event_def clear_permission_failures_def)+

lemma keeps_reviewable_parts [keeps_intros]:
  "keeps reviewable (ctl_changes C include_ignored)"
  "keeps reviewable (write_commit_conflict_report en reports)"
  "keeps reviewable (operator_apply_one en am acc x)"
  unfolding ctl_changes_def write_commit_conflict_report_def operator_apply_one_def live_status_def case_prod_beta
  by (intro keeps_intros)+

lemma spared_keeps:
  assumes "keeps reviewable m" "reviewable w" "\<And>x t. reviewable t \<Longrightarrow> spared (f x) (g x) t"
  shows "spared (bindE m f) (bindE m g) w"
  by (rule spared_bind, rule wp_keeps [OF assms(1,2)]) (use assms(3) in auto)

lemma conclude_spares:
  assumes "reviewable w"
  shows "spared (ctl_conclude C en res) (ctl_conclude (C\<lparr>ct_backend := ct_backend C\<lparr>be_abort := f\<rparr>\<rparr>) en res) w"
proof -
  have close: "spared (ctl_close_committed C en reports) m t" if "reviewable t" for reports m t
    by (rule spared_committed, rule wp_mono [OF close_committed_sure]) (use that in \<open>simp_all add: reviewable_def\<close>)
  show ?thesis
  proof (cases res)
    case (Inl e)
    then show ?thesis by (simp add: ctl_conclude_def spared_same)
  next
    case (Inr x)
    obtain reports denied applied where x: "x = (reports, denied, applied)" by (cases x)
    show ?thesis
      unfolding ctl_conclude_def Inr x sum.case case_prod_conv seqE_def
      by (rule spared_keeps [OF _ assms]) (auto simp: close spared_same intro!: keeps_intros)
  qed
qed

lemma ctl_commit_spares: "spared (ctl_commit C en sid i) (ctl_commit (C\<lparr>ct_backend := ct_backend C\<lparr>be_abort := f\<rparr>\<rparr>) en sid i) w"
proof -
  let ?C = "C\<lparr>ct_backend := ct_backend C\<lparr>be_abort := f\<rparr>\<rparr>"
  let ?apply = "\<lambda>cs. tryE (foldE (operator_apply_one en (ct_aliases C)) ([], [], []) cs)"
  have changes: "spared
      (bindE (ctl_changes C i) (\<lambda>cs. seqE (mod_session clear_permission_failures) (bindE (?apply cs) (ctl_conclude C en))))
      (bindE (ctl_changes C i) (\<lambda>cs. seqE (mod_session clear_permission_failures) (bindE (?apply cs) (ctl_conclude ?C en)))) t"
    if "reviewable t" for t
    unfolding seqE_def by (intro spared_keeps [OF _ that] spared_keeps) (auto simp: conclude_spares intro!: keeps_intros)
  show ?thesis
    unfolding ctl_commit_def ctl_discard_free
    by (rule spared_seq, rule wp_ResI, rule spared_seq)
      (simp_all add: wp_require_state changes reviewable_def)
qed

section \<open>Aborting\<close>

text \<open>Discarding keeps the session's state and its refusals.\<close>

definition undecided :: "session \<Rightarrow> 'b world \<Rightarrow> bool" where
  "undecided s w \<longleftrightarrow> s_state (w_session w) = s_state s \<and> has_permission_failures (w_session w) = has_permission_failures s"

lemma keeps_undecided [keeps_intros]:
  "keeps (undecided s) (on_disk m)"
  "keeps (undecided s) (log_event en e d)"
  "keeps (undecided s) save_session"
  unfolding log_event_def save_session_def
  by (rule keeps_on_disk keeps_mod_session keeps_mod,
      simp add: undecided_def add_event_def has_permission_failures_def permission_failures_def)+

lemma keeps_undecided_discard [keeps_intros]:
  "keeps (undecided s) (abort_branch C en name root action strict)"
  "keeps (undecided s) (discard_branch C en name root action strict)"
  "keeps (undecided s) (abort_one C en x)"
  unfolding abort_one_def discard_branch_def abort_branch_def the_session_def Let_def case_prod_beta
  by (intro keeps_intros)+

lemma committed_from:
  assumes "transition now ''committed'' s = Inr t"
  shows "s_state s \<in> {''frozen'', ''pending-review''}"
  using transition_allowed [OF assms] transition_Inr [OF assms] by auto

lemma abort_ends:
  "wp (ctl_abort C en sid) (\<lambda>_ v. \<exists>s. store_load (en_now en) (w_store w) sid = Inr s \<and> s_state s \<notin> set TERMINAL_STATES \<and>
      saved v \<and> (if has_permission_failures s then s_state (w_session v) = ''committed'' \<and> s_state s \<in> {''frozen'', ''pending-review''}
                  else s_state (w_session v) = ''aborted'')) (\<lambda>_ _. True) w"
proof (cases "store_load (en_now en) (w_store w) sid")
  case (Inl e)
  then show ?thesis by (simp add: ctl_abort_def ctl_load_def wp_simps split: pyexn.split)
next
  case (Inr s)
  let ?Q = "\<lambda>v. saved v \<and> (if has_permission_failures s then s_state (w_session v) = ''committed'' \<and> s_state s \<in> {''frozen'', ''pending-review''}
                  else s_state (w_session v) = ''aborted'')"
  have ends: "wp (seqE (bindE the_session (\<lambda>s. if has_permission_failures s
                  then seqE (mod_session clear_permission_failures) (move_session en ''committed'')
                  else move_session en ''aborted'')) save_session) (\<lambda>_. ?Q) (\<lambda>_ _. True) t" if "undecided s t" for t
    using that committed_from [of "en_now en" "clear_permission_failures (w_session t)"]
    by (auto simp: the_session_def mod_session_def wp_simps undecided_def wp_save_session saved_def store_save_def
        clear_permission_failures_def dest!: transition_Inr split: sum.split)
  have "wp (seqE (forE (abort_one C en) (sorted_items (s_roots s)))
         (seqE (bindE the_session (\<lambda>s. if has_permission_failures s
                  then seqE (mod_session clear_permission_failures) (move_session en ''committed'')
                  else move_session en ''aborted'')) save_session)) (\<lambda>_. ?Q) (\<lambda>_ _. True) (w\<lparr>w_session := s\<rparr>)"
    unfolding wp_seq [of "forE _ _"]
    by (rule wp_keeps [where I = "undecided s"]) (auto intro!: keeps_intros simp: ends, simp add: undecided_def)
  then show ?thesis
    by (auto simp: ctl_abort_def wp_seq wp_load [OF Inr] wp_bind wp_raise the_session_def wp_get Inr)
qed

section \<open>Cleaning up\<close>

text \<open>The sessions whose bundle may go: old enough, in one of the states asked for, and without a live mount.\<close>

definition removable :: "'b controller \<Rightarrow> int \<Rightarrow> string list \<Rightarrow> fs \<Rightarrow> session list \<Rightarrow> string set" where
  "removable C cutoff states fs ss =
     {s_id s | s t. s \<in> set ss \<and> s_state s \<in> set states \<and> utc_seconds (cleanup_stamp s) = Some t \<and> t \<le> cutoff \<and>
        (\<forall>root\<in>set (map snd (s_roots s)). \<not> mount_still_active C fs root)}"

definition cleaned :: "'b world \<Rightarrow> string set \<Rightarrow> 'b world \<Rightarrow> bool" where
  "cleaned w0 ids w \<longleftrightarrow> w_fs w = w_fs w0 \<and> set (st_names (w_store w0)) \<subseteq> set (st_names (w_store w)) \<union> ids"

lemma store_remove_names: "store_remove sid st = Inr (gone, st') \<Longrightarrow> set (st_names st') = set (st_names st) - {sid}"
  by (auto simp: store_remove_def bindR_eq_Inr)

lemma cleanup_one_cleaned:
  assumes "s \<in> set ss" "cleaned w0 ids w"
    and "\<not> dry_run \<Longrightarrow> removable C cutoff states (w_fs w0) ss \<subseteq> ids"
  shows "wp (cleanup_one C cutoff states dry_run acc s) (\<lambda>_. cleaned w0 ids) (\<lambda>_. cleaned w0 ids) w"
proof (cases "\<not> dry_run \<and> cleanup_due cutoff states s \<and> \<not> list_ex (\<lambda>(name, root). mount_still_active C (w_fs w) root) (s_roots s)")
  case True
  then have "\<forall>root\<in>set (map snd (s_roots s)). \<not> mount_still_active C (w_fs w0) root"
    using assms(2) by (auto simp: cleaned_def list_ex_iff)
  moreover obtain t where "s_state s \<in> set states" "utc_seconds (cleanup_stamp s) = Some t" "t \<le> cutoff"
    using True by (auto simp: cleanup_due_def split: option.splits)
  ultimately have "s_id s \<in> removable C cutoff states (w_fs w0) ss"
    unfolding removable_def using assms(1) by blast
  with True assms have "s_id s \<in> ids" by blast
  then show ?thesis
    using True assms(2)
    by (auto simp: cleanup_one_def wp_simps cleaned_def dest!: store_remove_names split: prod.split sum.split)
next
  case False
  then show ?thesis
    using assms(2) by (auto simp: cleanup_one_def wp_simps split: prod.split)
qed

lemma ctl_cleanup_cleaned:
  assumes "store_list (en_now en) (w_store w) = Inr ss"
  shows "wp (ctl_cleanup C en days now dry_run all_types)
    (\<lambda>_. cleaned w (if dry_run then {} else
        removable C (now - days * 86400) (if all_types then STATES else CLEANUP_STATES) (w_fs w) ss))
    (\<lambda>_. cleaned w (if dry_run then {} else
        removable C (now - days * 86400) (if all_types then STATES else CLEANUP_STATES) (w_fs w) ss)) w"
    (is "wp _ (\<lambda>_. cleaned w ?ids) _ _")
proof -
  have start: "cleaned w ?ids w" by (simp add: cleaned_def)
  have "wp (foldE (cleanup_one C (now - days * 86400) (if all_types then STATES else CLEANUP_STATES) dry_run) ([], [], []) ss)
      (\<lambda>x. wp (case x of (matched, skipped, failed) \<Rightarrow>
          if failed \<noteq> [] then raiseE (ControlError (''cleanup failed for '' @ show_nat (length failed) @ '' session(s)''))
          else retE matched) (\<lambda>_. cleaned w ?ids) (\<lambda>_. cleaned w ?ids)) (\<lambda>_. cleaned w ?ids) w"
  proof (rule wp_fold [where I = "\<lambda>_. cleaned w ?ids"])
    fix s acc t assume "s \<in> set ss" "cleaned w ?ids t"
    then show "wp (cleanup_one C (now - days * 86400) (if all_types then STATES else CLEANUP_STATES) dry_run acc s)
        (\<lambda>_. cleaned w ?ids) (\<lambda>_. cleaned w ?ids) t"
      by (rule cleanup_one_cleaned) simp
  qed (use start in \<open>auto simp: wp_raise wp_ret split: prod.split\<close>)
  then show ?thesis using start by (simp add: ctl_cleanup_def wp_raise wp_bind wp_read assms)
qed

section \<open>Properties\<close>

text \<open>C15. The agent is asked at most as often as its budget says to repair its work: over any history of checks, with
  anything happening in between except to the stored session, the check answers \<open>repair\<close> at most
  \<open>max_repair_attempts\<close> times less the attempts already used.\<close>

theorem repair_budget:
  assumes "stored s (w_store w)" "config_from_dict (s_policy s) = Inr config"
    and "\<forall>(en, work)\<in>set steps. \<forall>v. w_store (work v) = w_store v"
  shows "repairs (run_checks C (s_id s) steps w) \<le> max 0 (pc_max_repair config - s_repair_attempts s)"
  using assms by (rule run_checks_budget)

definition sample_controller :: "fake controller" where
  "sample_controller = \<lparr>ct_backend = fake_backend, ct_aliases = [], ct_mountinfo = ''/proc/self/mountinfo''\<rparr>"

definition checked_world :: "fake world" where
  "checked_world = commit_world\<lparr>w_session := sample_session, w_store := store_save sample_session empty_store\<rparr>"

lemma repair_budget_witness:
  "repairs (run_checks sample_controller ''s1'' (replicate 7 (sample_env, \<lambda>v. v\<lparr>w_be := empty_fake\<rparr>)) checked_world) \<le> 2"
proof -
  have p: "persistable sample_session" by (simp add: persistable_def sample_session_def new_session_def)
  have "case config_from_dict (s_policy sample_session) of Inr c \<Rightarrow> pc_max_repair c = 2 | Inl _ \<Rightarrow> False"
    by code_simp
  then obtain c where c: "config_from_dict (s_policy sample_session) = Inr c" "pc_max_repair c = 2"
    by (auto split: sum.splits)
  have st: "stored sample_session (w_store checked_world)" using stored_save [OF p] by (simp add: checked_world_def)
  have "repairs (run_checks sample_controller (s_id sample_session)
     (replicate 7 (sample_env, \<lambda>v. v\<lparr>w_be := empty_fake\<rparr>)) checked_world)
     \<le> max 0 (pc_max_repair c - s_repair_attempts sample_session)"
    by (rule repair_budget [OF st c(1)]) simp
  then show ?thesis by (simp add: sample_session_def new_session_def c(2))
qed

text \<open>Only a session that waits for a review is reviewed: in every other state a commit, a patch or a choice of
  paths is refused, and all that has changed is which session is loaded.\<close>

theorem review_only_pending:
  assumes "store_load (en_now en) (w_store w) sid = Inr s" "s_state s \<notin> {''pending-review'', ''frozen''}" "choice \<noteq> Reject"
  shows "\<exists>msg. ctl_review C en run_patch sid choice include_ignored w = (Inl (ControlError msg), w\<lparr>w_session := s\<rparr>)"
  using review_refused [OF assms(1,2)] assms(3) by (cases choice) (simp_all add: ctl_review_def ctl_commit_def)

lemma review_only_pending_witness:
  "\<exists>msg. ctl_review sample_controller sample_env (\<lambda>_ _. retE 0) ''s1'' (CommitPaths [''/w/a'']) False checked_world =
     (Inl (ControlError msg), checked_world\<lparr>w_session := sample_session\<rparr>)"
proof -
  have p: "persistable sample_session" by (simp add: persistable_def sample_session_def new_session_def)
  have id: "s_id sample_session = ''s1''" by (simp add: sample_session_def new_session_def)
  have "store_load (en_now sample_env) (w_store checked_world) ''s1'' = Inr sample_session"
    using stored_load [OF stored_save [OF p]] by (simp add: checked_world_def flip: id)
  from review_only_pending [OF this] show ?thesis by (simp add: sample_session_def new_session_def)
qed

text \<open>A commit that does not go through keeps the branches: a run that raises, or that leaves the session short of
  committed because changes were refused, is the same whatever discarding a branch would do.\<close>

theorem commit_keeps_branches:
  "(ctl_commit C en sid i w = (r, v) \<and> unsettled (r, v))
     \<longleftrightarrow> (ctl_commit (C\<lparr>ct_backend := ct_backend C\<lparr>be_abort := f\<rparr>\<rparr>) en sid i w = (r, v) \<and> unsettled (r, v))"
proof -
  let ?C = "C\<lparr>ct_backend := ct_backend C\<lparr>be_abort := f\<rparr>\<rparr>"
  have "C = ?C\<lparr>ct_backend := ct_backend ?C\<lparr>be_abort := be_abort (ct_backend C)\<rparr>\<rparr>" by simp
  then have "spared (ctl_commit ?C en sid i) (ctl_commit C en sid i) w" by (metis ctl_commit_spares)
  then show ?thesis using ctl_commit_spares [of C en sid i f w] by (auto simp: spared_def)
qed

text \<open>What an abort ends in: it returns only for a session that was not closed yet; the session then ends aborted,
  or committed when changes had been applied and the rest refused (and then it was frozen or pending review), and
  it is saved.\<close>

theorem abort_outcome:
  "case ctl_abort C en sid w of
     (Inr _, v) \<Rightarrow> \<exists>s. store_load (en_now en) (w_store w) sid = Inr s \<and> s_state s \<notin> set TERMINAL_STATES \<and> saved v \<and>
        (if has_permission_failures s then s_state (w_session v) = ''committed'' \<and> s_state s \<in> {''frozen'', ''pending-review''}
         else s_state (w_session v) = ''aborted'')
   | (Inl e, v) \<Rightarrow> True"
  using abort_ends [of C en sid w] by (auto simp: wp_def split: prod.splits sum.splits)



end
