(* ===== verification/TurnScopes.thy ===== *)
theory TurnScopes
  imports Ctl
begin

text \<open>
  The workspace scopes of a running session (\<open>turn.py\<close>, first half of \<open>TurnController\<close>): the scopes the session
  may commit without asking, the hooks' references and proposals, and the operator's ceiling.  All of it
  is kept in the session's policy document, and every operation writes back what it has cleaned.
\<close>

record 'b turn_controller =
  tn_backend :: "'b backend"
  tn_aliases :: alias_map
  tn_admission :: admission_policy

definition WORKSPACE_SCOPES :: string where "WORKSPACE_SCOPES = ''workspace_scopes''"
definition HOOK_WORKSPACE_REFS :: string where "HOOK_WORKSPACE_REFS = ''hook_workspace_refs''"
definition WORKSPACE_SCOPE_CEILING :: string where "WORKSPACE_SCOPE_CEILING = ''workspace_scope_ceiling''"
definition WORKSPACE_PROPOSALS :: string where "WORKSPACE_PROPOSALS = ''hook_workspace_proposals''"
definition MCP_WORKSPACE_ROOTS :: string where "MCP_WORKSPACE_ROOTS = ''mcp_workspace_roots''"
definition ALLOWED_SCOPES :: string where "ALLOWED_SCOPES = ''allowed_scopes''"

definition VERDICT_WORKSPACE_UPDATED :: string where "VERDICT_WORKSPACE_UPDATED = ''workspace-updated''"
definition VERDICT_WORKSPACE_PROPOSED :: string where "VERDICT_WORKSPACE_PROPOSED = ''workspace-proposed''"
definition VERDICT_WORKSPACE_PROPOSAL_STATUS :: string where
  "VERDICT_WORKSPACE_PROPOSAL_STATUS = ''workspace-proposal-status''"

section \<open>Paths and their keys\<close>

text \<open>\<open>except ValueError: continue\<close>.\<close>

fun skip_value :: "'a result \<Rightarrow> 'a option result" where
  "skip_value (Inr x) = Inr (Some x)"
| "skip_value (Inl e) = (if is_value_error e then Inr None else Inl e)"

definition scope_key :: "admission_policy \<Rightarrow> string \<Rightarrow> string result" where
  "scope_key pol path = canonical_key (ap_alias pol) (JStr path)"

definition validate_workspace :: "admission_policy \<Rightarrow> fs \<Rightarrow> json \<Rightarrow> bool \<Rightarrow> (string \<times> string) result" where
  "validate_workspace pol fs path require_existing =
     bindR (admit pol fs path require_existing) (\<lambda>rec.
     bindR (bindR (get_item rec ''visible_path'') as_str) (\<lambda>visible.
     bindR (bindR (get_item rec ''canonical_path'') as_str) (\<lambda>canon.
       Inr (visible, canon))))"

definition unique_step :: "admission_policy \<Rightarrow> fs \<Rightarrow> string list \<times> string list \<Rightarrow> json \<Rightarrow> (string list \<times> string list) result" where
  "unique_step pol fs acc path =
     bindR (skip_value (validate_workspace pol fs path False)) (\<lambda>v. Inr (case (acc, v) of
         ((found, seen), Some (visible, canon)) \<Rightarrow> if canon \<in> set seen then acc else (found @ [visible], seen @ [canon])
       | (_, None) \<Rightarrow> acc))"

definition unique_paths_by_canonical :: "admission_policy \<Rightarrow> fs \<Rightarrow> json list \<Rightarrow> string list result" where
  "unique_paths_by_canonical pol fs paths =
     bindR (foldR (unique_step pol fs) ([], []) paths) (\<lambda>acc. Inr (fst acc))"

text \<open>The keys of the paths that have one.\<close>

definition known_keys :: "admission_policy \<Rightarrow> json list \<Rightarrow> string list result" where
  "known_keys pol paths =
     bindR (mapR (\<lambda>p. bindR (skip_value (canonical_key (ap_alias pol) p)) (\<lambda>k. Inr (case k of None \<Rightarrow> [] | Some k \<Rightarrow> [k]))) paths)
       (\<lambda>kss. Inr (concat kss))"

section \<open>The scopes in force\<close>

definition policy_list :: "string \<Rightarrow> session \<Rightarrow> json list result" where
  "policy_list k s = as_list (get_default (s_policy s) k (JArr []))"

definition put_policy :: "string \<Rightarrow> json \<Rightarrow> ('b world, unit) eff" where
  "put_policy k v = mod_session (set_policy k v)"

definition stored_scopes :: "session \<Rightarrow> json list" where
  "stored_scopes s =
     (case get_default (s_policy s) WORKSPACE_SCOPES JNull of
        JArr xs \<Rightarrow> xs
      | _ \<Rightarrow> if str_unset (s_workspace s) then [] else [JStr (the (s_workspace s))])"

definition workspace_scopes :: "admission_policy \<Rightarrow> ('b world, string list) eff" where
  "workspace_scopes pol =
     bindE (readE (\<lambda>w. unique_paths_by_canonical pol (w_fs w) (stored_scopes (w_session w)))) (\<lambda>scopes.
     seqE (put_policy WORKSPACE_SCOPES (jstrs scopes)) (retE scopes))"

text \<open>The allowed scopes that are no workspace of the session.\<close>

definition preserved_step :: "admission_policy \<Rightarrow> string list \<Rightarrow> string list \<Rightarrow> json \<Rightarrow> string list result" where
  "preserved_step pol old_keys acc scope =
     bindR (skip_value (canonical_key (ap_alias pol) scope)) (\<lambda>k.
       case k of
         None \<Rightarrow> Inr acc
       | Some k \<Rightarrow> if k \<in> set old_keys then Inr acc else bindR (normalize (py_str scope)) (\<lambda>p. Inr (acc @ [p])))"

definition keyed_step :: "admission_policy \<Rightarrow> string list \<times> string list \<Rightarrow> string \<Rightarrow> (string list \<times> string list) result" where
  "keyed_step pol acc scope =
     bindR (skip_value (scope_key pol scope)) (\<lambda>k. Inr (case (acc, k) of
         ((allowed, seen), Some k) \<Rightarrow> if k \<in> set seen then acc else (allowed @ [scope], seen @ [k])
       | (_, None) \<Rightarrow> acc))"

definition rewrite_workspace_scopes :: "admission_policy \<Rightarrow> string list \<Rightarrow> ('b world, string list \<times> string list) eff" where
  "rewrite_workspace_scopes pol workspaces =
     bindE (workspace_scopes pol) (\<lambda>old.
     bindE (liftE (mapR (scope_key pol) old)) (\<lambda>old_keys.
     bindE (readE (\<lambda>w. unique_paths_by_canonical pol (w_fs w) (map JStr workspaces))) (\<lambda>new_workspaces.
     bindE (readE (\<lambda>w. bindR (policy_list ALLOWED_SCOPES (w_session w)) (foldR (preserved_step pol old_keys) []))) (\<lambda>preserved.
     bindE (liftE (foldR (keyed_step pol) ([], []) (new_workspaces @ preserved))) (\<lambda>(allowed, seen).
     seqE (put_policy WORKSPACE_SCOPES (jstrs new_workspaces))
    (seqE (put_policy ALLOWED_SCOPES (jstrs allowed))
          (retE (new_workspaces, allowed))))))))"

section \<open>References, proposals and the ceiling\<close>

text \<open>A path with the hook sessions that hold it.\<close>

record held_path =
  hp_path :: json
  hp_owners :: "string list"

type_synonym held_paths = "(string, held_path) dict"

definition held_json :: "held_paths \<Rightarrow> json" where
  "held_json d = JObj (map (\<lambda>(k, h). (k, JObj [(''path'', hp_path h), (''owners'', jstrs (hp_owners h))])) d)"

definition owner_name :: "json \<Rightarrow> string" where
  "owner_name v = (if truthy v then str_strip (py_str v) else [])"

definition unique_owners :: "json list \<Rightarrow> string list" where
  "unique_owners vs = first_occurrences (filter (\<lambda>x. x \<noteq> []) (map owner_name vs))"

definition policy_dict :: "string \<Rightarrow> session \<Rightarrow> pydict" where
  "policy_dict k s = (case get_default (s_policy s) k JNull of JObj d \<Rightarrow> d | _ \<Rightarrow> [])"

definition clean_ref :: "string \<times> json \<Rightarrow> held_paths" where
  "clean_ref kv =
     (case snd kv of
        JObj e \<Rightarrow>
          (case (get_default e ''path'' JNull, get_default e ''owners'' JNull) of
             (path, JArr owners) \<Rightarrow>
               if truthy path \<and> unique_owners owners \<noteq> []
               then [(fst kv, \<lparr>hp_path = path, hp_owners = unique_owners owners\<rparr>)] else []
           | _ \<Rightarrow> [])
      | _ \<Rightarrow> [])"

definition put_held :: "string \<Rightarrow> held_paths \<Rightarrow> ('b world, unit) eff" where
  "put_held k d = put_policy k (held_json d)"

definition hook_workspace_refs :: "('b world, held_paths) eff" where
  "hook_workspace_refs =
     bindE (getE (\<lambda>w. concat (map clean_ref (policy_dict HOOK_WORKSPACE_REFS (w_session w))))) (\<lambda>refs.
     seqE (put_held HOOK_WORKSPACE_REFS refs) (retE refs))"

definition proposal_step :: "admission_policy \<Rightarrow> fs \<Rightarrow> held_paths \<Rightarrow> string \<times> json \<Rightarrow> held_paths result" where
  "proposal_step pol fs acc kv =
     (case snd kv of
        JObj e \<Rightarrow>
          bindR (skip_value (validate_workspace pol fs (get_default e ''path'' JNull) False)) (\<lambda>v.
            Inr (case (v, get_default e ''owners'' JNull) of
                   (Some (visible, canon), JArr owners) \<Rightarrow>
                     if unique_owners owners \<noteq> []
                     then dict_set acc canon \<lparr>hp_path = JStr visible, hp_owners = unique_owners owners\<rparr> else acc
                 | _ \<Rightarrow> acc))
      | _ \<Rightarrow> Inr acc)"

definition workspace_proposals :: "admission_policy \<Rightarrow> ('b world, held_paths) eff" where
  "workspace_proposals pol =
     bindE (readE (\<lambda>w. foldR (proposal_step pol (w_fs w)) [] (policy_dict WORKSPACE_PROPOSALS (w_session w)))) (\<lambda>proposals.
     seqE (put_held WORKSPACE_PROPOSALS proposals) (retE proposals))"

text \<open>The entries a hook session no longer holds, but for one: what is left and the keys that are gone.\<close>

definition release_workspace_owner :: "held_paths \<Rightarrow> string \<Rightarrow> string \<Rightarrow> held_paths \<times> string list" where
  "release_workspace_owner entries owner except_key =
     (let left = (\<lambda>h. filter (\<lambda>x. x \<noteq> owner) (hp_owners h))
      in (map (\<lambda>(k, h). (k, if k = except_key then h else h\<lparr>hp_owners := left h\<rparr>))
            (filter (\<lambda>(k, h). k = except_key \<or> left h \<noteq> []) entries),
          map fst (filter (\<lambda>(k, h). k \<noteq> except_key \<and> left h = []) entries)))"

text \<open>The scopes the operator gave, without those that hooks or clients have added.\<close>

definition initial_ceiling :: "admission_policy \<Rightarrow> session \<Rightarrow> json list result" where
  "initial_ceiling pol s =
     bindR (bindR (policy_list MCP_WORKSPACE_ROOTS s) (known_keys pol)) (\<lambda>mcp_keys.
     bindR (policy_list ALLOWED_SCOPES s) (\<lambda>scopes.
     bindR (mapR (\<lambda>scope. bindR (skip_value (canonical_key (ap_alias pol) scope)) (\<lambda>k. Inr (case k of
               None \<Rightarrow> []
             | Some k \<Rightarrow> if k \<in> set (map fst (policy_dict HOOK_WORKSPACE_REFS s)) \<union> set mcp_keys then [] else [scope]))) scopes)
       (\<lambda>kept. Inr (concat kept))))"

definition workspace_ceiling :: "admission_policy \<Rightarrow> ('b world, string list) eff" where
  "workspace_ceiling pol =
     bindE (readE (\<lambda>w. bindR (case get_default (s_policy (w_session w)) WORKSPACE_SCOPE_CEILING JNull of
                JArr xs \<Rightarrow> Inr xs
              | _ \<Rightarrow> initial_ceiling pol (w_session w)) (unique_paths_by_canonical pol (w_fs w)))) (\<lambda>ceiling.
     seqE (put_policy WORKSPACE_SCOPE_CEILING (jstrs ceiling)) (retE ceiling))"

definition authorized_by_ceiling :: "admission_policy \<Rightarrow> string \<Rightarrow> ('b world, bool) eff" where
  "authorized_by_ceiling pol canon =
     bindE (workspace_ceiling pol) (\<lambda>ceiling.
       liftE (anyR (\<lambda>scope. bindR (scope_key pol scope) (is_within canon)) ceiling))"

end
