(* ===== verification/TurnWorkspaces.thy ===== *)
theory TurnWorkspaces
  imports TurnScopes
begin

text \<open>
  The workspace operations of \<open>TurnController\<close> (\<open>turn.py\<close>): what a hook may propose or activate, what it gives
  back, the logical sessions an authenticated client reports with their generations, the union of the roots
  of the active ones, and the revalidation of these roots before an automatic apply.
\<close>

section \<open>Hooks\<close>

text \<open>The response of a hook operation; the flags are those that are true.\<close>

definition workspace_response :: "string \<Rightarrow> string \<Rightarrow> string \<Rightarrow> string list \<times> string list \<Rightarrow> string \<Rightarrow> string list \<Rightarrow> pydict" where
  "workspace_response verdict action workspace scopes hook flags =
     [(''verdict'', JStr verdict), (''action'', JStr action), (''workspace'', JStr workspace),
      (''workspaces'', jstrs (fst scopes)), (''allowed_scopes'', jstrs (snd scopes)), (''hook_session'', JStr hook)]
     @ map (\<lambda>k. (k, JBool (k \<in> set flags)))
         [''added'', ''owned'', ''removed'', ''proposed'', ''proposal_removed'', ''authorized_by_ceiling'']"

definition validate_hook_session :: "json \<Rightarrow> string result" where
  "validate_hook_session hook =
     (if owner_name hook = [] then Inl (ValueError ''hook workspace operation requires hook_session'') else Inr (owner_name hook))"

text \<open>The scopes whose keys are not among the given ones.\<close>

definition scopes_without :: "admission_policy \<Rightarrow> string list \<Rightarrow> string list \<Rightarrow> string list result" where
  "scopes_without pol keys scopes =
     bindR (mapR (\<lambda>p. bindR (scope_key pol p) (\<lambda>k. Inr (if k \<in> set keys then [] else [p]))) scopes) (\<lambda>pss. Inr (concat pss))"

definition add_owner :: "string \<Rightarrow> held_path \<Rightarrow> held_path" where
  "add_owner hook h = (if hook \<in> set (hp_owners h) then h else h\<lparr>hp_owners := hp_owners h @ [hook]\<rparr>)"

definition propose_workspace :: "'b turn_controller \<Rightarrow> env \<Rightarrow> string \<Rightarrow> string \<Rightarrow> string \<Rightarrow> string list \<Rightarrow> held_paths \<Rightarrow>
    ('b world, pydict) eff" where
  "propose_workspace T en hook workspace key scopes proposals =
     (let entry = (case dict_get proposals key of Some h \<Rightarrow> h | None \<Rightarrow> \<lparr>hp_path = JStr workspace, hp_owners = []\<rparr>) in
      seqE (put_held WORKSPACE_PROPOSALS (dict_set proposals key (add_owner hook entry)))
     (bindE (rewrite_workspace_scopes (tn_admission T) scopes) (\<lambda>written.
      seqE (log_event en ''turn-workspace-proposed'' (Some (JStr (hook @ '' '' @ workspace))))
     (seqE save_session
           (retE (workspace_response VERDICT_WORKSPACE_PROPOSED ''propose'' workspace written hook [''proposed'']))))))"

definition activate_workspace :: "'b turn_controller \<Rightarrow> env \<Rightarrow> string \<Rightarrow> string \<Rightarrow> string \<Rightarrow> string list \<Rightarrow> bool \<Rightarrow>
    held_paths \<Rightarrow> held_paths \<Rightarrow> bool \<Rightarrow> ('b world, pydict) eff" where
  "activate_workspace T en hook workspace key scopes listed refs proposals authorized =
     (let (scopes, refs, added, owned) =
        (case dict_get refs key of
           Some h \<Rightarrow> (scopes, dict_set refs key (add_owner hook h), False, True)
         | None \<Rightarrow>
             if listed then (scopes, refs, False, False)
             else (scopes @ [workspace], dict_set refs key \<lparr>hp_path = JStr workspace, hp_owners = [hook]\<rparr>, True, True))
      in seqE (put_held WORKSPACE_PROPOSALS (dict_pop proposals key))
        (seqE (put_held HOOK_WORKSPACE_REFS refs)
        (bindE (rewrite_workspace_scopes (tn_admission T) scopes) (\<lambda>written.
         seqE (mod_session (\<lambda>s. if str_unset (s_workspace s) then s\<lparr>s_workspace := Some workspace\<rparr> else s))
        (seqE (log_event en ''turn-workspace-add'' (Some (JStr (hook @ '' '' @ workspace))))
        (seqE save_session
              (retE (workspace_response VERDICT_WORKSPACE_UPDATED ''add'' workspace written hook
                 ((if added then [''added''] else []) @ (if owned then [''owned''] else [])
                  @ (if authorized then [''authorized_by_ceiling''] else []))))))))))"

definition add_workspace :: "'b turn_controller \<Rightarrow> env \<Rightarrow> json \<Rightarrow> json \<Rightarrow> ('b world, pydict) eff" where
  "add_workspace T en path hook_session =
     (let pol = tn_admission T in
      bindE (liftE (validate_hook_session hook_session)) (\<lambda>hook.
      bindE (readE (\<lambda>w. validate_workspace pol (w_fs w) path False)) (\<lambda>(workspace, key).
      bindE (workspace_scopes pol) (\<lambda>scopes.
      bindE hook_workspace_refs (\<lambda>refs.
      bindE (workspace_proposals pol) (\<lambda>proposals.
      let (refs, removed) = release_workspace_owner refs hook key;
          (proposals, _) = release_workspace_owner proposals hook key
      in seqE (put_held HOOK_WORKSPACE_REFS refs)
        (seqE (put_held WORKSPACE_PROPOSALS proposals)
        (bindE (liftE (if removed = [] then Inr scopes else scopes_without pol removed scopes)) (\<lambda>scopes.
         bindE (authorized_by_ceiling pol key) (\<lambda>authorized.
         bindE (liftE (mapR (scope_key pol) scopes)) (\<lambda>scope_keys.
         bindE (readE (\<lambda>w. bindR (policy_list ALLOWED_SCOPES (w_session w)) (mapR (canonical_key (ap_alias pol))))) (\<lambda>allowed_keys.
           let listed = (key \<in> set scope_keys \<or> key \<in> set allowed_keys) in
           if \<not> authorized \<and> \<not> listed then propose_workspace T en hook workspace key scopes proposals
           else activate_workspace T en hook workspace key scopes listed refs proposals authorized))))))))))))"

text \<open>The proposal and the reference a hook gives back: what is left of each, and whether it is gone.\<close>

definition drop_owner :: "held_paths \<Rightarrow> string \<Rightarrow> string \<Rightarrow> held_paths" where
  "drop_owner entries key hook =
     (case dict_get entries key of
        None \<Rightarrow> entries
      | Some h \<Rightarrow>
          (let left = filter (\<lambda>x. x \<noteq> hook) (hp_owners h)
           in if left \<noteq> [] then dict_set entries key (h\<lparr>hp_owners := left\<rparr>) else dict_pop entries key))"

definition remove_workspace :: "'b turn_controller \<Rightarrow> env \<Rightarrow> json \<Rightarrow> json \<Rightarrow> ('b world, pydict) eff" where
  "remove_workspace T en path hook_session =
     (let pol = tn_admission T in
      bindE (liftE (validate_hook_session hook_session)) (\<lambda>hook.
      bindE (readE (\<lambda>w. validate_workspace pol (w_fs w) path False)) (\<lambda>(workspace, key).
      bindE (workspace_scopes pol) (\<lambda>scopes.
      bindE hook_workspace_refs (\<lambda>refs.
      bindE (workspace_proposals pol) (\<lambda>proposals.
      let proposal_removed = (dict_has proposals key \<and> \<not> dict_has (drop_owner proposals key hook) key);
          ref_gone = (dict_has refs key \<and> \<not> dict_has (drop_owner refs key hook) key)
      in seqE (put_held WORKSPACE_PROPOSALS (drop_owner proposals key hook))
        (seqE (put_held HOOK_WORKSPACE_REFS (drop_owner refs key hook))
        (bindE (readE (\<lambda>w. if ref_gone
                 then bindR (policy_list MCP_WORKSPACE_ROOTS (w_session w)) (mapR (canonical_key (ap_alias pol))) else Inr [])) (\<lambda>mcp_keys.
         let removed = (ref_gone \<and> key \<notin> set mcp_keys) in
         bindE (liftE (if removed then scopes_without pol [key] scopes else Inr scopes)) (\<lambda>scopes.
         bindE (rewrite_workspace_scopes pol scopes) (\<lambda>written.
         bindE (readE (\<lambda>w. skip_value (case s_workspace (w_session w) of Some p \<Rightarrow> scope_key pol p
                                | None \<Rightarrow> canonical_key (ap_alias pol) JNull))) (\<lambda>current.
         seqE (whenE (current = Some key \<and> removed \<and> fst written \<noteq> [])
                 (mod_session (\<lambda>s. s\<lparr>s_workspace := Some (hd (fst written))\<rparr>)))
        (seqE (log_event en ''turn-workspace-remove'' (Some (JStr (hook @ '' '' @ workspace))))
        (seqE save_session
              (retE (workspace_response VERDICT_WORKSPACE_UPDATED ''remove'' workspace written hook
                 ((if removed then [''removed''] else []) @ (if proposal_removed then [''proposal_removed''] else []))))))))))))))))))"

definition proposal_paths :: "held_paths \<Rightarrow> json list" where
  "proposal_paths proposals = map JStr (sort (map (\<lambda>(k, h). py_str (hp_path h)) proposals))"

definition workspace_proposal_status :: "'b turn_controller \<Rightarrow> ('b world, pydict) eff" where
  "workspace_proposal_status T =
     bindE (workspace_proposals (tn_admission T)) (\<lambda>proposals.
       retE [(''verdict'', JStr VERDICT_WORKSPACE_PROPOSAL_STATUS), (''proposals'', JArr (proposal_paths proposals)),
             (''count'', JInt (int (length proposals)))])"

section \<open>Logical sessions\<close>

definition WORKSPACE_SESSION_SOURCES :: "string list" where
  "WORKSPACE_SESSION_SOURCES = [''codex-app-server'', ''mcp-claude'', ''mcp-codex'', ''hermes-client'']"

definition authority_char :: "char \<Rightarrow> bool" where
  "authority_char c \<longleftrightarrow> (let n = of_char c :: nat in
     65 \<le> n \<and> n \<le> 90 \<or> 97 \<le> n \<and> n \<le> 122 \<or> 48 \<le> n \<and> n \<le> 57 \<or> c \<in> set ''_.:-'')"

text \<open>The key, the digest, the source and the authority instance.\<close>

definition workspace_session_key :: "env \<Rightarrow> json \<Rightarrow> json \<Rightarrow> json \<Rightarrow> (string \<times> string \<times> string \<times> string) result" where
  "workspace_session_key en source instance_id logical =
     (let source = str_lower (owner_name source); instance_id = owner_name instance_id in
      if source \<notin> set WORKSPACE_SESSION_SOURCES then Inl (ValueError (''unsupported workspace authority source '' @ source))
      else if \<not> (instance_id \<noteq> [] \<and> length instance_id \<le> 128 \<and> list_all authority_char instance_id)
      then Inl (ValueError ''invalid workspace authority instance'')
      else (case logical of
              JStr l \<Rightarrow>
                if l = [] \<or> CHR 0x00 \<in> set l \<or> length l > 4096 then Inl (ValueError ''logical workspace session id is invalid'')
                else Inr (join_with '':'' [source, instance_id, en_sha en l], ''sha256:'' @ en_sha en l, source, instance_id)
            | _ \<Rightarrow> Inl (ValueError ''logical workspace session id is invalid'')))"

definition active_record :: "json \<Rightarrow> bool" where
  "active_record v = (case v of JObj rec \<Rightarrow> get_default rec ''state'' JNull = JStr ''active'' | _ \<Rightarrow> False)"

text \<open>\<open>record.get("roots") or ()\<close>.\<close>

definition record_roots :: "pydict \<Rightarrow> json list result" where
  "record_roots rec = (let v = get_default rec ''roots'' JNull in if truthy v then as_list v else Inr [])"

definition derived_step :: "string list \<times> string list \<Rightarrow> json \<Rightarrow> string list \<times> string list" where
  "derived_step acc root =
     (case (acc, root) of
        ((roots, seen), JObj d) \<Rightarrow>
          (case (get_default d ''visible_path'' JNull, get_default d ''canonical_path'' JNull) of
             (JStr visible, JStr canon) \<Rightarrow> if canon \<in> set seen then acc else (roots @ [visible], seen @ [canon])
           | _ \<Rightarrow> acc)
      | _ \<Rightarrow> acc)"

definition derived_workspace_roots :: "admission_policy \<Rightarrow> session \<Rightarrow> string list result" where
  "derived_workspace_roots pol s =
     bindR (mapR (\<lambda>(k, v). case v of JObj rec \<Rightarrow> if active_record v then record_roots rec else Inr [] | _ \<Rightarrow> Inr []) (s_auth_sessions s)) (\<lambda>rss.
     let roots = fst (foldl derived_step ([], []) (concat rss)) in
     bindR (mapR (\<lambda>p. bindR (scope_key pol p) (\<lambda>k. Inr (k, p))) roots) (\<lambda>kps.
       Inr (map snd (sort_key fst kps))))"

text \<open>The scopes that stay when the dynamic roots are replaced.\<close>

definition staying_scope :: "string list \<Rightarrow> string list \<Rightarrow> string list \<Rightarrow> held_paths \<Rightarrow> string \<Rightarrow> bool" where
  "staying_scope old_keys new_keys ceiling_keys refs key \<longleftrightarrow>
     \<not> (key \<in> set old_keys \<and> key \<notin> set new_keys \<and> key \<notin> set ceiling_keys \<and> \<not> dict_has refs key)"

definition union_step :: "admission_policy \<Rightarrow> string list \<times> string list \<times> held_paths \<Rightarrow> string \<Rightarrow>
    (string list \<times> string list \<times> held_paths) result" where
  "union_step pol acc workspace =
     bindR (scope_key pol workspace) (\<lambda>key. Inr (case acc of (scopes, keys, proposals) \<Rightarrow>
       (if key \<in> set keys then scopes else scopes @ [workspace], if key \<in> set keys then keys else keys @ [key],
        dict_pop proposals key)))"

definition replace_dynamic_union :: "'b turn_controller \<Rightarrow> env \<Rightarrow> string list \<Rightarrow> string \<Rightarrow> string \<Rightarrow>
    ('b world, (string list \<times> string list) \<times> held_paths) eff" where
  "replace_dynamic_union T en confirmed event detail =
     (let pol = tn_admission T in
      bindE (readE (\<lambda>w. bindR (policy_list MCP_WORKSPACE_ROOTS (w_session w)) (unique_paths_by_canonical pol (w_fs w)))) (\<lambda>old_roots.
      bindE (liftE (mapR (scope_key pol) old_roots)) (\<lambda>old_keys.
      bindE (liftE (mapR (scope_key pol) confirmed)) (\<lambda>new_keys.
      bindE (workspace_ceiling pol) (\<lambda>ceiling.
      bindE (liftE (mapR (scope_key pol) ceiling)) (\<lambda>ceiling_keys.
      bindE hook_workspace_refs (\<lambda>refs.
      bindE (workspace_proposals pol) (\<lambda>proposals.
      bindE (workspace_scopes pol) (\<lambda>scopes.
      bindE (liftE (mapR (\<lambda>p. bindR (scope_key pol p) (\<lambda>k. Inr (k, p))) scopes)) (\<lambda>keyed.
      let staying = filter (\<lambda>(k, p). staying_scope old_keys new_keys ceiling_keys refs k) keyed in
      bindE (liftE (foldR (union_step pol) (map snd staying, map fst staying, proposals) confirmed)) (\<lambda>(scopes, _, proposals).
      seqE (put_held WORKSPACE_PROPOSALS proposals)
     (seqE (put_policy MCP_WORKSPACE_ROOTS (jstrs confirmed))
     (bindE (rewrite_workspace_scopes pol scopes) (\<lambda>written.
      seqE (mod_session (\<lambda>s. if str_unset (s_workspace s) \<and> confirmed \<noteq> [] then s\<lparr>s_workspace := Some (hd confirmed)\<rparr> else s))
     (seqE (log_event en event (Some (JStr detail)))
     (seqE save_session
           (retE (written, proposals))))))))))))))))))"

end
