(* ===== verification/TurnSessions.thy ===== *)
theory TurnSessions
  imports TurnWorkspaces
begin

text \<open>
  The authenticated half of the workspace operations of \<open>TurnController\<close> (\<open>turn.py\<close>): a client replaces the roots
  of one logical session under a growing generation, a closed transport ends the sessions it owned, the
  process-pinned client confirms its roots, a restart drops everything dynamic, and before an automatic
  apply the roots of the active sessions are checked again.
\<close>

section \<open>Replacing the roots of a logical session\<close>

definition root_fields :: "string list" where
  "root_fields = [''visible_path'', ''canonical_path'', ''canonical_key'', ''protected_root'', ''relative_path'',
     ''admission_root'', ''identity'', ''components'']"

definition admit_step :: "admission_policy \<Rightarrow> fs \<Rightarrow> (string \<times> pydict) list \<Rightarrow> json \<Rightarrow> (string \<times> pydict) list result" where
  "admit_step pol fs acc path =
     bindR (admit pol fs path True) (\<lambda>rec.
     bindR (bindR (get_item rec ''canonical_path'') as_str) (\<lambda>canon.
       if canon \<in> set (map fst acc) then Inr acc
       else bindR (mapR (\<lambda>k. bindR (get_item rec k) (\<lambda>v. Inr (k, v))) root_fields) (\<lambda>root. Inr (acc @ [(canon, root)]))))"

text \<open>The admitted roots, sorted by their canonical paths.\<close>

definition admit_roots :: "admission_policy \<Rightarrow> fs \<Rightarrow> json list \<Rightarrow> pydict list result" where
  "admit_roots pol fs paths = bindR (foldR (admit_step pol fs) [] paths) (\<lambda>rs. Inr (map snd (sort_key fst rs)))"

definition check_replacement :: "json \<Rightarrow> json \<Rightarrow> json \<Rightarrow> (int \<times> json list \<times> string) result" where
  "check_replacement generation paths state =
     (case generation of
        JInt n \<Rightarrow>
          if n < 0 then Inl (ValueError ''workspace generation cannot be negative'')
          else if state \<notin> {JStr ''active'', JStr ''ended''} then Inl (ValueError ''workspace session state must be active or ended'')
          else (case paths of
                  JArr ps \<Rightarrow>
                    if length ps > 128 then Inl (ValueError ''workspace root replacement is too large'')
                    else if state = JStr ''ended'' \<and> ps \<noteq> [] then Inl (ValueError ''ended workspace sessions must have no roots'')
                    else Inr (n, ps, py_str state)
                | _ \<Rightarrow> Inl (ValueError ''workspace roots must be an array''))
      | _ \<Rightarrow> Inl (ValueError ''workspace generation must be an integer''))"

text \<open>What the record of the last generation says: a stale generation is refused, the same generation must bring the
  same roots and is then not applied again.\<close>

datatype generation_check = Stale | Collision | Repeated | Newer

definition check_generation_against :: "json option \<Rightarrow> int \<Rightarrow> string \<Rightarrow> pydict list \<Rightarrow> generation_check" where
  "check_generation_against old n state roots =
     (case old of
        Some (JObj rec) \<Rightarrow>
          (case as_number (get_default rec ''generation'' JNull) of
             None \<Rightarrow> Newer
           | Some m \<Rightarrow>
               if n < m then Stale
               else if n = m
               then (if get_default rec ''state'' JNull \<noteq> JStr state \<or>
                        \<not> py_eq (get_default rec ''roots'' JNull) (JArr (map JObj roots)) then Collision else Repeated)
               else Newer)
      | _ \<Rightarrow> Newer)"

definition put_record :: "string \<Rightarrow> json \<Rightarrow> ('b world, unit) eff" where
  "put_record key v = mod_session (\<lambda>s. s\<lparr>s_auth_sessions := dict_set (s_auth_sessions s) key v\<rparr>)"

definition session_record :: "env \<Rightarrow> string \<Rightarrow> string \<Rightarrow> string \<Rightarrow> int \<Rightarrow> pydict list \<Rightarrow> string \<Rightarrow> json" where
  "session_record en source instance_id digest n roots state =
     JObj [(''source'', JStr source), (''authority_instance'', JStr instance_id), (''logical_session_digest'', JStr digest),
           (''generation'', JInt n), (''roots'', JArr (map JObj roots)), (''state'', JStr state), (''updated_at'', JStr (en_now en))]"

definition visible_roots :: "pydict list \<Rightarrow> json" where
  "visible_roots roots = JArr (map (\<lambda>r. get_default r ''visible_path'' JNull) roots)"

definition route_summary :: "delta_route option \<Rightarrow> json" where
  "route_summary route =
     (case route of
        None \<Rightarrow> JNull
      | Some r \<Rightarrow> JObj [(''route_id'', JStr (dr_route_id r)), (''state'', JStr (dr_state r)),
                         (''capability'', JStr (cv_capability (dr_coverage r)))])"

definition replaced_head :: "string \<Rightarrow> int \<Rightarrow> string \<Rightarrow> pydict list \<Rightarrow> pydict" where
  "replaced_head key n state roots =
     [(''verdict'', JStr VERDICT_WORKSPACE_UPDATED), (''action'', JStr ''replace-session-roots''), (''workspace_session_key'', JStr key),
      (''generation'', JInt n), (''state'', JStr state), (''confirmed'', visible_roots roots)]"

definition replace_workspace_session :: "'b turn_controller \<Rightarrow> env \<Rightarrow> json \<Rightarrow> json \<Rightarrow> json \<Rightarrow> json \<Rightarrow> json \<Rightarrow> json \<Rightarrow>
    ('b world, pydict) eff" where
  "replace_workspace_session T en source logical generation paths state instance_id =
     (let pol = tn_admission T in
      bindE (liftE (workspace_session_key en source instance_id logical)) (\<lambda>(key, digest, source, instance_id).
      bindE (liftE (check_replacement generation paths state)) (\<lambda>(n, paths, state).
      bindE (readE (\<lambda>w. admit_roots pol (w_fs w) paths)) (\<lambda>roots.
      bindE (getE (\<lambda>w. check_generation_against (dict_get (s_auth_sessions (w_session w)) key) n state roots)) (\<lambda>check.
      case check of
        Stale \<Rightarrow> raiseE (ValueError ''stale generation cannot replace workspace roots'')
      | Collision \<Rightarrow> raiseE (ValueError ''workspace generation collision'')
      | Repeated \<Rightarrow> retE (replaced_head key n state roots @ [(''idempotent'', JBool True)])
      | Newer \<Rightarrow>
          seqE (put_record key (session_record en source instance_id digest n roots state))
         (bindE (readE (\<lambda>w. derived_workspace_roots pol (w_session w))) (\<lambda>confirmed.
          bindE (replace_dynamic_union T en confirmed ''turn-workspace-session-replaced''
                   (source @ '' generation '' @ show_int n @ '' '' @ state)) (\<lambda>(scopes, proposals).
          bindE (if source \<noteq> ''codex-app-server'' then retE None
                 else if state = ''active'' then provision (tn_backend T) en ''codex'' logical key n (map JObj roots)
                 else end_workspace_session (tn_backend T) en (Some key)) (\<lambda>route.
            retE (replaced_head key n state roots @
              [(''derived_roots'', jstrs confirmed), (''workspaces'', jstrs (fst scopes)), (''allowed_scopes'', jstrs (snd scopes)),
               (''proposals'', JArr (proposal_paths proposals)), (''route'', route_summary route),
               (''idempotent'', JBool False)]))))))))))"

section \<open>Revocation, confirmation, reset\<close>

definition owned_by :: "string \<Rightarrow> string \<Rightarrow> json \<Rightarrow> bool" where
  "owned_by source instance_id v =
     (case v of
        JObj rec \<Rightarrow> get_default rec ''source'' JNull = JStr source \<and> get_default rec ''authority_instance'' JNull = JStr instance_id \<and>
          active_record v
      | _ \<Rightarrow> False)"

definition end_record :: "env \<Rightarrow> pydict \<Rightarrow> json result" where
  "end_record en rec =
     bindR (as_int (get_default rec ''generation'' (JInt 0))) (\<lambda>g.
       Inr (JObj (dict_set (dict_set (dict_set (dict_set rec ''state'' (JStr ''ended'')) ''roots'' (JArr []))
              ''generation'' (JInt (g + 1))) ''updated_at'' (JStr (en_now en)))))"

definition revoke_one :: "'b turn_controller \<Rightarrow> env \<Rightarrow> string \<Rightarrow> string \<Rightarrow> int \<times> (string, string) dict \<Rightarrow> string \<Rightarrow>
    ('b world, int \<times> (string, string) dict) eff" where
  "revoke_one T en source instance_id acc key =
     bindE (readE (\<lambda>w. get_item (s_auth_sessions (w_session w)) key)) (\<lambda>v.
       case v of
         JObj rec \<Rightarrow>
           if \<not> owned_by source instance_id v then retE acc
           else bindE (end_workspace_session (tn_backend T) en (Some key)) (\<lambda>route.
             bindE (liftE (end_record en rec)) (\<lambda>v'.
             seqE (put_record key v')
                  (retE (fst acc + 1, case route of None \<Rightarrow> snd acc | Some r \<Rightarrow> dict_set (snd acc) (dr_route_id r) (dr_state r)))))
       | _ \<Rightarrow> retE acc)"

definition revoke_workspace_authority :: "'b turn_controller \<Rightarrow> env \<Rightarrow> json \<Rightarrow> json \<Rightarrow> json \<Rightarrow> ('b world, pydict) eff" where
  "revoke_workspace_authority T en source instance_id reason =
     (let source = str_lower (owner_name source); instance_id = owner_name instance_id in
      bindE (getE (\<lambda>w. map fst (s_auth_sessions (w_session w)))) (\<lambda>keys.
      bindE (foldE (revoke_one T en source instance_id) (0, []) keys) (\<lambda>(changed, outcomes).
      bindE (readE (\<lambda>w. derived_workspace_roots (tn_admission T) (w_session w))) (\<lambda>confirmed.
      bindE (replace_dynamic_union T en confirmed ''turn-workspace-authority-revoked''
               (source @ '' '' @ instance_id @ '' '' @ show_int changed @ '' session(s): '' @ take 128 (py_str reason))) (\<lambda>(scopes, _).
        retE [(''verdict'', JStr VERDICT_WORKSPACE_UPDATED), (''action'', JStr ''revoke-workspace-authority''),
              (''source'', JStr source), (''authority_instance'', JStr instance_id), (''revoked'', JInt changed),
              (''route_outcomes'', JObj (map (\<lambda>(k, st). (k, JStr st)) outcomes)), (''derived_roots'', jstrs confirmed),
              (''workspaces'', jstrs (fst scopes)), (''allowed_scopes'', jstrs (snd scopes))])))))"

definition confirm_step :: "admission_policy \<Rightarrow> fs \<Rightarrow> (string \<times> string) list \<Rightarrow> json \<Rightarrow> (string \<times> string) list result" where
  "confirm_step pol fs acc path =
     bindR (validate_workspace pol fs path True) (\<lambda>(visible, canon).
       Inr (if canon \<in> set (map fst acc) then acc else acc @ [(canon, visible)]))"

definition confirm_workspace_roots :: "'b turn_controller \<Rightarrow> env \<Rightarrow> json \<Rightarrow> ('b world, pydict) eff" where
  "confirm_workspace_roots T en paths =
     bindE (liftE (if truthy paths then as_list paths else Inr [])) (\<lambda>paths.
     bindE (readE (\<lambda>w. foldR (confirm_step (tn_admission T) (w_fs w)) [] paths)) (\<lambda>found.
     let confirmed = map snd found in
     bindE (replace_dynamic_union T en confirmed ''turn-workspace-roots-confirmed'' (show_nat (length confirmed) @ '' root(s)'')) (\<lambda>(scopes, proposals).
       retE [(''verdict'', JStr VERDICT_WORKSPACE_UPDATED), (''action'', JStr ''confirm-roots''), (''confirmed'', jstrs confirmed),
             (''workspaces'', jstrs (fst scopes)), (''allowed_scopes'', jstrs (snd scopes)),
             (''proposals'', JArr (proposal_paths proposals))])))"

definition reset_agent_workspaces :: "'b turn_controller \<Rightarrow> env \<Rightarrow> ('b world, pydict) eff" where
  "reset_agent_workspaces T en =
     (let pol = tn_admission T in
      bindE hook_workspace_refs (\<lambda>refs.
      bindE (workspace_proposals pol) (\<lambda>proposals.
      bindE (getE (\<lambda>w. s_auth_sessions (w_session w) \<noteq> [])) (\<lambda>had_sessions.
      seqE (mod_session (\<lambda>s. s\<lparr>s_auth_sessions := []\<rparr>))
     (bindE (readE (\<lambda>w. bindR (policy_list MCP_WORKSPACE_ROOTS (w_session w)) (unique_paths_by_canonical pol (w_fs w)))) (\<lambda>mcp_roots.
      bindE (liftE (mapR (scope_key pol) mcp_roots)) (\<lambda>mcp_keys.
      bindE (workspace_scopes pol) (\<lambda>scopes.
      bindE (liftE (mapR (\<lambda>p. bindR (scope_key pol p) (\<lambda>k. Inr (dict_has refs k \<or> k \<in> set mcp_keys, p))) scopes)) (\<lambda>marked.
      let removed = map snd (filter fst marked); scopes = map snd (filter (\<lambda>(stale, p). \<not> stale) marked) in
      seqE (put_held HOOK_WORKSPACE_REFS [])
     (seqE (put_policy MCP_WORKSPACE_ROOTS (JArr []))
     (seqE (put_held WORKSPACE_PROPOSALS [])
     (bindE (rewrite_workspace_scopes pol scopes) (\<lambda>written.
      seqE (whenE (removed \<noteq> [] \<or> had_sessions)
              (log_event en ''turn-workspace-reset'' (Some (JStr (show_nat (length removed) @ '' stale scope(s)'')))))
     (seqE save_session
           (retE [(''verdict'', JStr VERDICT_WORKSPACE_UPDATED), (''action'', JStr ''reset''), (''removed'', jstrs removed),
                  (''proposals_removed'', JArr (proposal_paths proposals)), (''workspaces'', jstrs (fst written)),
                  (''allowed_scopes'', jstrs (snd written))])))))))))))))))"

section \<open>Revalidation before an automatic apply\<close>

text \<open>The refreshed roots are written back; a session whose roots changed is reported with the reason.\<close>

definition revalidate_one :: "admission_policy \<Rightarrow> (string \<times> string) list \<Rightarrow> string \<Rightarrow> ('b world, (string \<times> string) list) eff" where
  "revalidate_one pol invalid key =
     bindE (readE (\<lambda>w. get_item (s_auth_sessions (w_session w)) key)) (\<lambda>v.
       case v of
         JObj rec \<Rightarrow>
           if \<not> active_record v then retE invalid
           else bindE (tryE (readE (\<lambda>w. bindR (record_roots rec) (mapR (revalidate pol (w_fs w)))))) (\<lambda>r. case r of
               Inr roots \<Rightarrow> seqE (put_record key (JObj (dict_set rec ''roots'' (JArr (map JObj roots))))) (retE invalid)
             | Inl e \<Rightarrow> if is_value_error e then retE (invalid @ [(key, exn_str e)]) else raiseE e)
       | _ \<Rightarrow> retE invalid)"

definition invalidate_record :: "env \<Rightarrow> string \<times> string \<Rightarrow> ('b world, unit) eff" where
  "invalidate_record en x =
     bindE (readE (\<lambda>w. bindR (get_item (s_auth_sessions (w_session w)) (fst x)) as_obj)) (\<lambda>rec.
       put_record (fst x) (JObj (dict_set (dict_set (dict_set (dict_set rec ''state'' (JStr ''invalid'')) ''roots'' (JArr []))
         ''updated_at'' (JStr (en_now en))) ''invalid_reason'' (JStr (take 256 (snd x))))))"

definition revalidate_active_sessions :: "'b turn_controller \<Rightarrow> env \<Rightarrow> ('b world, unit) eff" where
  "revalidate_active_sessions T en =
     bindE (getE (\<lambda>w. map fst (s_auth_sessions (w_session w)))) (\<lambda>keys.
     bindE (foldE (revalidate_one (tn_admission T)) [] keys) (\<lambda>invalid.
     whenE (invalid \<noteq> [])
       (seqE (forE (invalidate_record en) invalid)
       (bindE (readE (\<lambda>w. derived_workspace_roots (tn_admission T) (w_session w))) (\<lambda>confirmed.
        seqE (replace_dynamic_union T en confirmed ''turn-workspace-session-invalidated''
                (show_nat (length invalid) @ '' logical session(s) failed identity revalidation''))
             (raiseE (ValueError (''workspace identity changed; automatic apply refused for '' @ show_nat (length invalid)
                @ '' session(s)''))))))))"

end
