(* ===== verification/Turn.thy ===== *)
theory Turn
  imports TurnSessions
begin

text \<open>
  The turns of a running session (\<open>turn.py\<close>, second half of \<open>TurnController\<close>).  When the agent stops, the changes in
  scope are copied from the live view to the base, the others wait for an approval; the answers commit,
  keep or discard them, and the decision for each path is remembered in the session.  The approval tokens
  that are open are the controller's own state, beside the world.
\<close>

section \<open>Live changes and decisions\<close>

definition DECISION_KEPT :: string where "DECISION_KEPT = ''kept''"
definition VERDICT_COMMITTED :: string where "VERDICT_COMMITTED = ''committed''"
definition VERDICT_NEEDS_APPROVAL :: string where "VERDICT_NEEDS_APPROVAL = ''needs-approval''"
definition VERDICT_NOOP :: string where "VERDICT_NOOP = ''noop''"
definition VERDICT_HELD :: string where "VERDICT_HELD = ''held''"
definition VERDICT_DISCARDED :: string where "VERDICT_DISCARDED = ''discarded''"
definition VERDICT_KEPT_STATUS :: string where "VERDICT_KEPT_STATUS = ''kept-status''"
definition VERDICT_NEEDS_KEPT_REVIEW :: string where "VERDICT_NEEDS_KEPT_REVIEW = ''needs-kept-review''"

definition live_changes :: "'b turn_controller \<Rightarrow> ('b world, change list) eff" where
  "live_changes T =
     bindE the_session (\<lambda>s.
     bindE (mapE (\<lambda>(name, root). on_disk (be_status_report (tn_backend T) root)) (sorted_items (s_roots s))) (\<lambda>reports.
       liftE (bindR (config_from_dict (s_policy s)) (\<lambda>config.
         filter_ignored (concat (map sr_changes reports)) config (tn_aliases T)))))"

definition decisions :: "session \<Rightarrow> pydict" where
  "decisions s = policy_dict TURN_PATH_DECISIONS s"

text \<open>\<open>_decision_map\<close> makes sure the policy holds a dictionary.\<close>

definition decision_map :: "('b world, pydict) eff" where
  "decision_map =
     bindE (getE (\<lambda>w. decisions (w_session w))) (\<lambda>d. seqE (put_policy TURN_PATH_DECISIONS (JObj d)) (retE d))"

definition hashable :: "json \<Rightarrow> bool" where
  "hashable v \<longleftrightarrow> \<not> is_obj v \<and> \<not> is_arr v"

definition paths_with_decisions :: "string list \<Rightarrow> ('b world, string list) eff" where
  "paths_with_decisions values =
     bindE decision_map (\<lambda>d.
       if list_all (\<lambda>(p, v). hashable v) d then retE (map fst (filter (\<lambda>(p, v). v \<in> JStr ` set values) d))
       else raiseE (TypeError ''unhashable type''))"

definition mark_paths :: "string list \<Rightarrow> string \<Rightarrow> ('b world, unit) eff" where
  "mark_paths paths decision =
     bindE decision_map (\<lambda>d.
       put_policy TURN_PATH_DECISIONS (JObj (foldl (\<lambda>d p. dict_set d p (JStr decision)) d (sorted_set paths))))"

definition unmark_paths :: "string list \<Rightarrow> ('b world, unit) eff" where
  "unmark_paths paths =
     bindE decision_map (\<lambda>d. put_policy TURN_PATH_DECISIONS (JObj (foldl dict_pop d (sorted_set paths))))"

definition keep_paths :: "string list \<Rightarrow> ('b world, string list) eff" where
  "keep_paths paths = seqE (mark_paths paths DECISION_KEPT) (retE (sorted_set paths))"

definition out_of_scope_paths :: "'b turn_controller \<Rightarrow> session \<Rightarrow> change list \<Rightarrow> string list result" where
  "out_of_scope_paths T s changes =
     bindR (config_from_dict (s_policy s)) (\<lambda>config.
     bindR (classify changes config (tn_aliases T)) (\<lambda>(out_of_scope, deny).
       Inr (out_of_scope @ map dm_path deny)))"

section \<open>Copying to the base\<close>

definition change_root_rel :: "'b turn_controller \<Rightarrow> 'b world \<Rightarrow> change \<Rightarrow> (protected_root \<times> string) option result" where
  "change_root_rel T w c =
     (case dict_get (s_roots (w_session w)) (ch_root c) of
        None \<Rightarrow> Inr None
      | Some root \<Rightarrow>
          bindR (canonicalize (tn_aliases T) (pr_visible root)) (\<lambda>visible.
          bindR (canonicalize (tn_aliases T) (ch_path c)) (\<lambda>path.
          bindR (relpath (fs_cwd (w_fs w)) path visible) (\<lambda>rel. Inr (Some (root, rel))))))"

definition copy_from_view :: "protected_root \<Rightarrow> string \<Rightarrow> change \<Rightarrow> (fs, unit) eff" where
  "copy_from_view root rel c =
     (let dst = path_join (pr_base root) rel in
      if ch_op c = ''D'' then remove_path dst
      else if ch_kind c = ''dir'' then makedirs dst
      else
        (let src = path_join (pr_mount root) rel in
         bindE (getE (\<lambda>fs. exists_path fs src)) (\<lambda>here. whenE here (seqE (make_parent dst) (copy2 src dst True)))))"

definition turn_apply_one :: "'b turn_controller \<Rightarrow> string list \<times> string list \<Rightarrow> change \<Rightarrow> ('b world, string list \<times> string list) eff" where
  "turn_apply_one T acc c =
     bindE (readE (\<lambda>w. change_root_rel T w c)) (\<lambda>where_to. case where_to of
       None \<Rightarrow> retE acc
     | Some (root, rel) \<Rightarrow>
         bindE (tryE (on_files (copy_from_view root rel c))) (\<lambda>r. case r of
           Inr _ \<Rightarrow> retE (fst acc @ [ch_path c], snd acc)
         | Inl e \<Rightarrow> if is_permission_denied e then retE (fst acc, snd acc @ [ch_path c]) else raiseE e))"

definition turn_apply :: "'b turn_controller \<Rightarrow> change list \<Rightarrow> ('b world, string list \<times> string list) eff" where
  "turn_apply T changes = foldE (turn_apply_one T) ([], []) changes"

section \<open>The end of a turn\<close>

type_synonym 'b turn = "'b world \<times> (string, string list) dict"

definition on_world :: "('b world, 'a) eff \<Rightarrow> ('b turn, 'a) eff" where
  "on_world m = zoomE fst (\<lambda>w t. (w, snd t)) m"

definition abort_requested :: "session \<Rightarrow> bool" where
  "abort_requested s \<longleftrightarrow> truthy (get_default (s_policy s) ''mcp_abort_requested'' JNull)"

definition hold_for_abort :: "'b turn_controller \<Rightarrow> env \<Rightarrow> ('b world, pydict) eff" where
  "hold_for_abort T en =
     bindE (live_changes T) (\<lambda>changes.
     bindE (keep_paths (map ch_path changes)) (\<lambda>kept.
     seqE (log_event en ''turn-held-for-abort'' (Some (JStr (show_nat (length kept) @ '' path(s) awaiting process-exit abort''))))
    (seqE save_session
          (retE [(''verdict'', JStr VERDICT_HELD), (''abort_requested'', JBool True), (''committed'', JArr []),
                 (''kept'', jstrs kept), (''held'', jstrs kept)]))))"

text \<open>The paths that are newly out of scope, and the changes to apply: those approved before, and those in scope that
  are not kept back.\<close>

definition turn_plan :: "'b turn_controller \<Rightarrow> change list \<Rightarrow> ('b world, string list \<times> change list) eff" where
  "turn_plan T changes =
     bindE (readE (\<lambda>w. out_of_scope_paths T (w_session w) changes)) (\<lambda>oos.
     bindE (paths_with_decisions [DECISION_COMMITTED]) (\<lambda>committed.
     bindE (paths_with_decisions [DECISION_COMMITTED, DECISION_KEPT]) (\<lambda>resolved.
     bindE (paths_with_decisions [DECISION_KEPT]) (\<lambda>held.
       retE (filter (\<lambda>p. p \<notin> set resolved) oos,
             filter (\<lambda>c. ch_path c \<in> set committed \<or> (ch_path c \<notin> set oos \<and> ch_path c \<notin> set held)) changes)))))"

text \<open>Applies the changes and records what became of them: the committed paths and those refused, which are kept.\<close>

definition turn_commit :: "'b turn_controller \<Rightarrow> env \<Rightarrow> change list \<Rightarrow> ('b world, string list \<times> string list) eff" where
  "turn_commit T en to_apply =
     seqE (whenE (to_apply \<noteq> []) (revalidate_active_sessions T en))
    (bindE (turn_apply T to_apply) (\<lambda>(committed, denied).
     seqE (mark_paths committed DECISION_COMMITTED)
    (bindE (if denied = [] then retE []
            else bindE (keep_paths denied) (\<lambda>kept.
                 seqE (log_event en ''turn-permission-denied'' (Some (JStr (show_nat (length kept) @ '' path(s) kept in branch''))))
                      (retE kept))) (\<lambda>kept. retE (committed, kept)))))"

definition committed_or :: "string \<Rightarrow> string list \<Rightarrow> string \<times> json" where
  "committed_or other committed = (''verdict'', JStr (if committed \<noteq> [] then VERDICT_COMMITTED else other))"

definition default_kept :: "env \<Rightarrow> string list \<Rightarrow> string list \<Rightarrow> string list \<Rightarrow> ('b world, pydict) eff" where
  "default_kept en new_oos committed refused =
     bindE (keep_paths (new_oos @ refused)) (\<lambda>kept.
     seqE (log_event en ''turn-default-kept'' (Some (JStr (show_nat (length (remdups new_oos)) @ '' new out-of-scope path(s) kept in branch''))))
    (seqE save_session
          (retE [committed_or VERDICT_HELD committed, (''committed'', jstrs committed), (''kept'', jstrs kept), (''held'', jstrs kept),
                 (''default_keep'', JBool True), (''permission_denied'', jstrs refused)])))"

definition ask_approval :: "env \<Rightarrow> string list \<Rightarrow> string list \<Rightarrow> string list \<Rightarrow> ('b turn, pydict) eff" where
  "ask_approval en new_oos committed refused =
     seqE (modE (\<lambda>t. (fst t, dict_set (snd t) (en_fresh en) new_oos)))
    (on_world
       (seqE (log_event en ''turn-needs-approval'' (Some (JStr (show_nat (length (remdups new_oos)) @ '' new out-of-scope path(s)''))))
       (seqE save_session
             (retE [(''verdict'', JStr VERDICT_NEEDS_APPROVAL), (''out_of_scope'', jstrs (sorted_set new_oos)),
                    (''approval_token'', JStr (en_fresh en)), (''committed'', jstrs committed), (''kept'', jstrs refused),
                    (''permission_denied'', jstrs refused)]))))"

definition close_turn :: "env \<Rightarrow> string list \<Rightarrow> string list \<Rightarrow> ('b world, pydict) eff" where
  "close_turn en committed refused =
     (if refused \<noteq> []
      then seqE save_session
             (retE [committed_or VERDICT_HELD committed, (''committed'', jstrs committed), (''kept'', jstrs refused),
                    (''held'', jstrs refused), (''permission_denied'', jstrs refused)])
      else seqE (log_event en ''turn-committed'' (Some (JStr (show_nat (length committed) @ '' change(s) applied''))))
          (seqE save_session (retE [committed_or VERDICT_NOOP committed, (''committed'', jstrs committed)])))"

definition conclude_turn :: "env \<Rightarrow> bool \<Rightarrow> string list \<Rightarrow> string list \<Rightarrow> string list \<Rightarrow> ('b turn, pydict) eff" where
  "conclude_turn en default_keep new_oos committed refused =
     (if new_oos = [] then on_world (close_turn en committed refused)
      else if default_keep then on_world (default_kept en new_oos committed refused)
      else ask_approval en new_oos committed refused)"

definition turn_noop :: "env \<Rightarrow> ('b world, pydict) eff" where
  "turn_noop en =
     seqE (log_event en ''turn-noop'' None) (seqE save_session (retE [(''verdict'', JStr VERDICT_NOOP), (''changed'', JInt 0)]))"

definition finalize_turn :: "'b turn_controller \<Rightarrow> env \<Rightarrow> bool \<Rightarrow> ('b turn, pydict) eff" where
  "finalize_turn T en default_keep =
     bindE (on_world the_session) (\<lambda>s.
     if abort_requested s then on_world (hold_for_abort T en)
     else
       bindE (on_world (live_changes T)) (\<lambda>changes.
       if changes = [] then on_world (turn_noop en)
       else
         bindE (on_world (turn_plan T changes)) (\<lambda>(new_oos, to_apply).
         bindE (on_world (turn_commit T en to_apply)) (\<lambda>(committed, refused).
           conclude_turn en default_keep new_oos committed refused))))"

end
