(* ===== verification/TurnReview.thy ===== *)
theory TurnReview
  imports Turn
begin

text \<open>
  The answers to a turn that needs approval (\<open>turn.py\<close>): commit, keep or discard the flagged paths, resolve a kept
  path later, the status of the kept paths, a requested abort, and the dispatch of the control requests.
\<close>

section \<open>Committing, discarding\<close>

definition YES :: "string list" where
  "YES = [''yes'', ''y'', ''true'', ''1'', ''approve'', ''ok'', ''all'', ''accept'', ''commit'']"
definition KEEP :: "string list" where
  "KEEP = [[], ''no'', ''n'', ''keep'', ''kept'', ''hold'', ''held'', ''later'']"
definition REVERT :: "string list" where
  "REVERT = [''revert'', ''reject'', ''discard'', ''abort'', ''undo'']"

definition allow_scope :: "json list \<Rightarrow> string \<Rightarrow> json list" where
  "allow_scope scopes p = (if JStr p \<in> set scopes then scopes else scopes @ [JStr p])"

definition commit_paths :: "'b turn_controller \<Rightarrow> env \<Rightarrow> string list \<Rightarrow> ('b world, string list) eff" where
  "commit_paths T en paths =
     (if paths = [] then retE []
      else
        bindE (live_changes T) (\<lambda>live.
        let changes = filter (\<lambda>c. ch_path c \<in> set paths) live in
        seqE (whenE (changes \<noteq> []) (revalidate_active_sessions T en))
       (bindE (turn_apply T changes) (\<lambda>(committed, denied).
        seqE (mark_paths committed DECISION_COMMITTED)
       (seqE (whenE (denied \<noteq> [])
                (seqE (mark_paths denied DECISION_KEPT)
                      (log_event en ''turn-permission-denied'' (Some (JStr (show_nat (length denied) @ '' approved path(s) kept in branch''))))))
       (bindE (readE (\<lambda>w. policy_list ALLOWED_SCOPES (w_session w))) (\<lambda>scopes.
        seqE (put_policy ALLOWED_SCOPES (JArr (foldl allow_scope scopes committed)))
             (retE committed))))))))"

text \<open>The discarded paths and those with no live change.\<close>

definition discard_one :: "'b turn_controller \<Rightarrow> change list \<Rightarrow> string list \<times> string list \<Rightarrow> string \<Rightarrow>
    ('b world, string list \<times> string list) eff" where
  "discard_one T live acc path =
     (case filter (\<lambda>c. ch_path c = path) live of
        [] \<Rightarrow> retE (fst acc, snd acc @ [path])
      | cs \<Rightarrow>
          bindE (readE (\<lambda>w. change_root_rel T w (last cs))) (\<lambda>where_to. case where_to of
            None \<Rightarrow> retE (fst acc, snd acc @ [path])
          | Some (root, rel) \<Rightarrow>
              seqE (on_disk (be_revert_path (tn_backend T) root rel)) (retE (fst acc @ [path], snd acc))))"

definition discard_paths :: "'b turn_controller \<Rightarrow> string list \<Rightarrow> ('b world, string list \<times> string list) eff" where
  "discard_paths T paths =
     (if paths = [] then retE ([], [])
      else
        bindE (live_changes T) (\<lambda>live.
        bindE (foldE (discard_one T live) ([], []) (sorted_set paths)) (\<lambda>(discarded, stale).
        bindE (live_changes T) (\<lambda>remaining.
        let failed = sorted_set (filter (\<lambda>p. p \<in> ch_path ` set remaining) discarded) in
        if failed \<noteq> []
        then raiseE (RuntimeError (''discard did not remove live BranchFS change(s): '' @ join_with '', '' failed))
        else seqE (unmark_paths (discarded @ stale)) (retE (discarded, stale))))))"

section \<open>Kept paths\<close>

definition decision_path_view :: "'b turn_controller \<Rightarrow> string \<Rightarrow> ('b world, string list \<times> string list) eff" where
  "decision_path_view T decision =
     bindE (live_changes T) (\<lambda>changes.
     bindE (paths_with_decisions [decision]) (\<lambda>remembered.
     let live = ch_path ` set changes in
       retE (sorted_set (filter (\<lambda>p. p \<in> live) remembered), sorted_set (filter (\<lambda>p. p \<notin> live) remembered))))"

definition kept_status :: "'b turn_controller \<Rightarrow> ('b world, pydict) eff" where
  "kept_status T =
     bindE (decision_path_view T DECISION_KEPT) (\<lambda>(kept, stale).
     bindE (decision_path_view T DECISION_COMMITTED) (\<lambda>(committed, committed_stale).
       retE [(''verdict'', JStr VERDICT_KEPT_STATUS), (''kept'', jstrs kept), (''committed'', jstrs committed), (''stale'', jstrs stale),
             (''committed_stale'', jstrs committed_stale), (''count'', JInt (int (length kept))),
             (''committed_count'', JInt (int (length committed)))]))"

definition review_kept :: "'b turn_controller \<Rightarrow> env \<Rightarrow> ('b world, pydict) eff" where
  "review_kept T en =
     bindE the_session (\<lambda>s.
     if abort_requested s
     then retE [(''verdict'', JStr VERDICT_NOOP), (''abort_requested'', JBool True), (''kept'', JArr []), (''stale'', JArr []),
                (''message'', JStr ''Session abort is approved; exit the agent so process-exit finalization can discard it.'')]
     else
       bindE (decision_path_view T DECISION_KEPT) (\<lambda>(kept, stale).
       if kept = []
       then retE [(''verdict'', JStr VERDICT_NOOP), (''kept'', JArr []), (''stale'', jstrs stale),
                  (''message'', JStr ''no kept non-workspace paths'')]
       else
         seqE (log_event en ''turn-kept-review-requested'' (Some (JStr (show_nat (length kept) @ '' path(s)''))))
        (seqE save_session
              (retE [(''verdict'', JStr VERDICT_NEEDS_KEPT_REVIEW), (''kept'', jstrs kept), (''stale'', jstrs stale),
                     (''message'', JStr (show_nat (length kept) @ '' kept non-workspace path(s) remain pending.''))]))))"

section \<open>Approval\<close>

fun check_no_overlap :: "(string \<times> string) list \<Rightarrow> (string \<times> string list) list \<Rightarrow> unit result" where
  "check_no_overlap seen [] = Inr ()"
| "check_no_overlap seen ((name, []) # groups) = check_no_overlap seen groups"
| "check_no_overlap seen ((name, p # ps) # groups) =
     (case map_of seen p of
        Some other \<Rightarrow> Inl (ValueError (''path '' @ p @ '' appears in both '' @ other @ '' and '' @ name))
      | None \<Rightarrow> check_no_overlap ((p, name) # seen) ((name, ps) # groups))"

record resolution =
  rs_committed :: "string list"
  rs_kept :: "string list"
  rs_discarded :: "string list"
  rs_stale :: "string list"

definition resolve_granular :: "'b turn_controller \<Rightarrow> env \<Rightarrow> string list \<Rightarrow> string list \<Rightarrow> string list \<Rightarrow> string list \<Rightarrow>
    ('b world, resolution) eff" where
  "resolve_granular T en pending commit keep discard =
     seqE (liftE (check_no_overlap [] [(''commit'', remdups commit), (''keep'', remdups keep), (''discard'', remdups discard)]))
    (let commit_now = filter (\<lambda>p. p \<in> set commit) pending;
         discard_now = filter (\<lambda>p. p \<in> set discard) pending;
         keep_now = filter (\<lambda>p. p \<in> set keep \<or> (p \<notin> set commit \<and> p \<notin> set discard)) pending in
     bindE (commit_paths T en commit_now) (\<lambda>committed.
     bindE (keep_paths keep_now) (\<lambda>kept.
     bindE (discard_paths T discard_now) (\<lambda>(discarded, stale).
       retE \<lparr>rs_committed = committed, rs_kept = kept, rs_discarded = discarded, rs_stale = stale\<rparr>))))"

definition granular_verdict :: "resolution \<Rightarrow> string" where
  "granular_verdict r =
     (if rs_committed r \<noteq> [] then VERDICT_COMMITTED else if rs_kept r \<noteq> [] then VERDICT_HELD
      else if rs_discarded r \<noteq> [] then VERDICT_DISCARDED else VERDICT_NOOP)"

text \<open>\<open>set(value or ())\<close> of a list of paths in a request.\<close>

definition path_args :: "json \<Rightarrow> string list result" where
  "path_args v = (if truthy v then as_strs v else Inr [])"

definition decision_word :: "json \<Rightarrow> string" where
  "decision_word v = str_lower (owner_name v)"

definition settle :: "env \<Rightarrow> string \<Rightarrow> nat \<Rightarrow> pydict \<Rightarrow> ('b world, pydict) eff" where
  "settle en event n response = seqE (log_event en event (Some (JStr (show_nat n @ '' path(s)'')))) (seqE save_session (retE response))"

definition approve_pending :: "'b turn_controller \<Rightarrow> env \<Rightarrow> string list \<Rightarrow> json \<Rightarrow> json \<Rightarrow> json \<Rightarrow> json \<Rightarrow> json \<Rightarrow>
    ('b world, pydict) eff" where
  "approve_pending T en pending decision paths commit keep discard =
     (let word = decision_word decision in
      if truthy commit \<or> truthy keep \<or> truthy discard
      then
        bindE (liftE (bindR (path_args commit) (\<lambda>cs. bindR (path_args keep) (\<lambda>ks. bindR (path_args discard) (\<lambda>ds. Inr (cs, ks, ds)))))) (\<lambda>(cs, ks, ds).
        bindE (resolve_granular T en pending cs ks ds) (\<lambda>r.
          settle en ''turn-approved-granular'' (length (rs_committed r))
            [(''verdict'', JStr (granular_verdict r)), (''committed'', jstrs (rs_committed r)), (''kept'', jstrs (rs_kept r)),
             (''held'', jstrs (rs_kept r)), (''discarded'', jstrs (rs_discarded r)), (''stale'', jstrs (rs_stale r))]))
      else if truthy paths
      then
        bindE (liftE (as_strs paths)) (\<lambda>ps.
        bindE (commit_paths T en (filter (\<lambda>p. p \<in> set ps) pending)) (\<lambda>committed.
        bindE (keep_paths (filter (\<lambda>p. p \<notin> set ps) pending)) (\<lambda>kept.
          settle en ''turn-approved-partial'' (length (remdups (filter (\<lambda>p. p \<in> set ps) pending)))
            [(''verdict'', JStr VERDICT_COMMITTED), (''committed'', jstrs committed), (''held'', jstrs kept), (''kept'', jstrs kept)])))
      else if word \<in> set YES
      then
        bindE (commit_paths T en pending) (\<lambda>committed.
          settle en ''turn-approved'' (length (remdups pending)) [(''verdict'', JStr VERDICT_COMMITTED), (''committed'', jstrs committed)])
      else if word \<in> set REVERT
      then
        bindE (discard_paths T pending) (\<lambda>(discarded, stale).
          settle en ''turn-discarded'' (length discarded)
            [(''verdict'', JStr (if discarded \<noteq> [] then VERDICT_DISCARDED else VERDICT_NOOP)), (''discarded'', jstrs discarded),
             (''stale'', jstrs stale)])
      else
        bindE (keep_paths pending) (\<lambda>kept.
          settle en ''turn-held'' (length (remdups pending))
            [(''verdict'', JStr VERDICT_HELD), (''denied'', jstrs kept), (''kept'', jstrs kept), (''held'', jstrs kept)]))"

definition approve_turn :: "'b turn_controller \<Rightarrow> env \<Rightarrow> json \<Rightarrow> json \<Rightarrow> json \<Rightarrow> json \<Rightarrow> json \<Rightarrow> json \<Rightarrow> ('b turn, pydict) eff" where
  "approve_turn T en token decision paths commit keep discard =
     bindE (readE (\<lambda>t. case token of
         JStr k \<Rightarrow> (case dict_get (snd t) k of
             Some pending \<Rightarrow> Inr (k, pending)
           | None \<Rightarrow> Inl (KeyError ''unknown or already-resolved approval token''))
       | _ \<Rightarrow> if hashable token then Inl (KeyError ''unknown or already-resolved approval token'')
              else Inl (TypeError ''unhashable type''))) (\<lambda>(k, pending).
     seqE (modE (\<lambda>t. (fst t, dict_pop (snd t) k)))
          (on_world (approve_pending T en pending decision paths commit keep discard)))"

definition resolve_turn :: "'b turn_controller \<Rightarrow> env \<Rightarrow> json \<Rightarrow> json \<Rightarrow> ('b world, pydict) eff" where
  "resolve_turn T en decision paths =
     bindE (liftE (path_args paths)) (\<lambda>ps.
     if ps = [] then raiseE (ValueError ''turn-resolve requires at least one path'')
     else
       bindE (decision_path_view T DECISION_KEPT) (\<lambda>(kept, stale).
       let not_kept = sorted_set (filter (\<lambda>p. p \<notin> set kept) ps); word = decision_word decision in
       if not_kept \<noteq> []
       then raiseE (ValueError (''turn-resolve accepts only currently remembered kept paths: '' @ join_with '', '' not_kept))
       else if word \<in> set YES
       then bindE (commit_paths T en ps) (\<lambda>committed.
              settle en ''turn-resolved-commit'' (length committed) [(''verdict'', JStr VERDICT_COMMITTED), (''committed'', jstrs committed)])
       else if word \<in> set REVERT
       then bindE (discard_paths T ps) (\<lambda>(discarded, stale).
              settle en ''turn-resolved-discard'' (length discarded)
                [(''verdict'', JStr (if discarded \<noteq> [] then VERDICT_DISCARDED else VERDICT_NOOP)), (''discarded'', jstrs discarded),
                 (''stale'', jstrs stale)])
       else if word \<in> set KEEP
       then bindE (keep_paths ps) (\<lambda>kept.
              settle en ''turn-resolved-keep'' (length kept)
                [(''verdict'', JStr VERDICT_HELD), (''kept'', jstrs kept), (''held'', jstrs kept)])
       else raiseE (ValueError (''unknown turn decision '' @ word))))"

definition request_abort :: "env \<Rightarrow> ('b world, pydict) eff" where
  "request_abort en =
     seqE (put_policy ''mode'' (JStr ''throwaway''))
    (seqE (put_policy ''mcp_abort_requested'' (JBool True))
    (seqE (log_event en ''mcp-abort-requested'' (Some (JStr ''approved abort will discard the branch at process exit'')))
    (seqE save_session
          (retE [(''verdict'', JStr ''abort-requested''), (''apply'', JStr ''process-exit''),
                 (''message'', JStr ''Exit the agent to discard all session changes.'')]))))"

section \<open>The control requests\<close>

definition outcome_word :: "json \<Rightarrow> string" where
  "outcome_word v = (case v of JStr s \<Rightarrow> s | _ \<Rightarrow> [])"

definition record_request :: "env \<Rightarrow> pydict \<Rightarrow> ('b world, json) eff" where
  "record_request en req =
     (case get_default req ''route_id'' JNull of
        JStr rid \<Rightarrow> record_result en rid (outcome_word (get_default req ''outcome'' JNull)) (get_default req ''reason'' JNull)
      | v \<Rightarrow> if hashable v then retE no_active_route else raiseE (TypeError ''unhashable type''))"

definition handle :: "'b turn_controller \<Rightarrow> env \<Rightarrow> pydict \<Rightarrow> ('b turn, json) eff" where
  "handle T en req =
     (let arg = (\<lambda>k. get_default req k JNull);
          op = arg ''op'';
          answer = (\<lambda>m. bindE m (\<lambda>d. retE (JObj d))) in
      if op = JStr ''turn-finalize'' then answer (finalize_turn T en (truthy (arg ''default_keep'')))
      else if op = JStr ''turn-approve''
      then answer (approve_turn T en (arg ''approval_token'') (get_default req ''decision'' (JStr ''no'')) (arg ''paths'') (arg ''commit_paths'')
             (arg ''keep_paths'') (arg ''discard_paths''))
      else if op = JStr ''turn-resolve''
      then answer (on_world (resolve_turn T en (get_default req ''decision'' (JStr ''keep'')) (arg ''paths'')))
      else if op = JStr ''turn-request-abort'' then answer (on_world (request_abort en))
      else if op = JStr ''turn-confirm-workspace-roots'' then answer (on_world (confirm_workspace_roots T en (arg ''paths'')))
      else if op = JStr ''workspace-session-replace''
      then answer (on_world (replace_workspace_session T en (arg ''source'') (arg ''logical_session_id'') (arg ''generation'') (arg ''paths'')
             (get_default req ''state'' (JStr ''active'')) (get_default req ''authority_instance'' (JStr ''current''))))
      else if op = JStr ''workspace-authority-revoke''
      then answer (on_world (revoke_workspace_authority T en (arg ''source'') (arg ''authority_instance'')
             (get_default req ''reason'' (JStr ''trusted-transport-closed''))))
      else if op = JStr ''route-lookup''
      then on_world (lookup_route en (owner_name (arg ''provider'')) (arg ''logical_session_hint''))
      else if op = JStr ''route-record-result'' then on_world (record_request en req)
      else if op = JStr ''turn-workspace-proposal-status'' then answer (on_world (workspace_proposal_status T))
      else if op = JStr ''turn-kept-status'' then answer (on_world (kept_status T))
      else if op = JStr ''turn-review-kept'' then answer (on_world (review_kept T en))
      else if op = JStr ''turn-add-workspace'' then answer (on_world (add_workspace T en (arg ''path'') (arg ''hook_session'')))
      else if op = JStr ''turn-remove-workspace'' then answer (on_world (remove_workspace T en (arg ''path'') (arg ''hook_session'')))
      else retE (JObj [(''ok'', JBool False), (''error'', JStr ''unknown op'')]))"

end
