(* ===== verification/TurnFacts.thy ===== *)
theory TurnFacts
  imports TurnReview CtlFacts
begin

text \<open>
  What the turns of a session guarantee: only admitted paths are committed without asking, an approval is given
  once and covers no more than the flagged paths, a workspace that changed its identity stops the
  automatic apply, and the copy into the base follows links (a flaw of the code).
\<close>

section \<open>Only admitted paths\<close>

definition marked :: "session \<Rightarrow> string \<Rightarrow> string \<Rightarrow> bool" where
  "marked s decision p \<longleftrightarrow> (p, JStr decision) \<in> set (decisions s)"

lemma decisions_put: "decisions (set_policy TURN_PATH_DECISIONS (JObj d) s) = d"
  by (simp add: decisions_def policy_dict_def set_policy_def get_default_def)

lemma wp_decision_map:
  "wp decision_map Q E w = Q (decisions (w_session w))
     (w\<lparr>w_session := set_policy TURN_PATH_DECISIONS (JObj (decisions (w_session w))) (w_session w)\<rparr>)"
  by (simp add: decision_map_def put_policy_def mod_session_def wp_simps)

lemma decided_paths:
  "p \<in> set (map fst (filter (\<lambda>(p, v). v \<in> JStr ` set values) d)) \<longleftrightarrow> (\<exists>x\<in>set values. (p, JStr x) \<in> set d)"
  by force

lemma wp_paths_with_decisions:
  assumes "\<And>v ps. decisions (w_session v) = decisions (w_session w) \<Longrightarrow>
      \<forall>p. p \<in> set ps \<longleftrightarrow> (\<exists>d\<in>set values. marked (w_session w) d p) \<Longrightarrow> Q ps v" "\<And>e v. E e v"
  shows "wp (paths_with_decisions values) Q E w"
  unfolding paths_with_decisions_def wp_bind wp_decision_map marked_def
  using assms by (simp add: wp_ret wp_raise decisions_put marked_def decided_paths del: set_map set_filter)

lemma wp_turn_plan:
  assumes "\<And>v oos new_oos to_apply. decisions (w_session v) = decisions (w_session w) \<Longrightarrow>
      out_of_scope_paths T (w_session w) changes = Inr oos \<Longrightarrow>
      set new_oos = {p \<in> set oos. \<not> marked (w_session w) DECISION_COMMITTED p \<and> \<not> marked (w_session w) DECISION_KEPT p} \<Longrightarrow>
      set to_apply = {c \<in> set changes. marked (w_session w) DECISION_COMMITTED (ch_path c) \<or>
         (ch_path c \<notin> set oos \<and> \<not> marked (w_session w) DECISION_KEPT (ch_path c))} \<Longrightarrow> Q (new_oos, to_apply) v"
    and "\<And>e v. E e v"
  shows "wp (turn_plan T changes) Q E w"
proof (cases "out_of_scope_paths T (w_session w) changes")
  case (Inl e)
  then show ?thesis by (simp add: turn_plan_def wp_bind wp_read assms(2))
next
  case (Inr oos)
  have m: "marked (w_session v) = marked (w_session w)" if "decisions (w_session v) = decisions (w_session w)" for v :: "'a world"
    using that by (simp add: marked_def fun_eq_iff)
  show ?thesis
    unfolding turn_plan_def wp_bind wp_read Inr sum.case
  proof (rule wp_paths_with_decisions [OF _ assms(2)], rule wp_paths_with_decisions [OF _ assms(2)],
      rule wp_paths_with_decisions [OF _ assms(2)], goal_cases)
    case (1 v committed v' resolved v'' held)
    then show ?case
    proof -
      have same: "decisions (w_session v) = decisions (w_session w)" "decisions (w_session v') = decisions (w_session w)"
        "decisions (w_session v'') = decisions (w_session w)" using 1 by simp_all
      note sets = 1(2,4,6) [unfolded m [OF same(1)] m [OF same(2)], simplified]
      show ?thesis
        unfolding wp_ret
      proof (rule assms(1) [OF same(3) Inr])
        show "set (filter (\<lambda>p. p \<notin> set resolved) oos) =
            {p \<in> set oos. \<not> marked (w_session w) DECISION_COMMITTED p \<and> \<not> marked (w_session w) DECISION_KEPT p}"
          by (simp add: sets)
      qed (simp add: sets)
    qed
  qed
qed

text \<open>What is committed and what is refused comes from the changes applied.\<close>

lemma wp_turn_apply:
  "wp (turn_apply T changes) (\<lambda>(committed, denied) v. set committed \<union> set denied \<subseteq> ch_path ` set changes) (\<lambda>_ _. True) w"
  unfolding turn_apply_def
proof (rule wp_fold [where I = "\<lambda>acc v. set (fst acc) \<union> set (snd acc) \<subseteq> ch_path ` set changes"])
  fix c acc and v :: "'a world"
  assume c: "c \<in> set changes" "set (fst acc) \<union> set (snd acc) \<subseteq> ch_path ` set changes"
  show "wp (turn_apply_one T acc c) (\<lambda>acc v. set (fst acc) \<union> set (snd acc) \<subseteq> ch_path ` set changes) (\<lambda>_ _. True) v"
  proof (cases "change_root_rel T v c")
    case (Inr r)
    show ?thesis
      unfolding turn_apply_one_def wp_bind [of "readE _"] wp_read Inr sum.case
    proof (cases r)
      case (Some x)
      then show "wp (case r of None \<Rightarrow> retE acc | Some (root, rel) \<Rightarrow>
         bindE (tryE (on_files (copy_from_view root rel c))) (\<lambda>r. case r of
           Inr _ \<Rightarrow> retE (fst acc @ [ch_path c], snd acc)
         | Inl e \<Rightarrow> if is_permission_denied e then retE (fst acc, snd acc @ [ch_path c]) else raiseE e))
        (\<lambda>acc v. set (fst acc) \<union> set (snd acc) \<subseteq> ch_path ` set changes) (\<lambda>_ _. True) v"
        using c by (cases x) (simp add: wp_bind wp_try wp_total wp_ret wp_raise)
    qed (use c in \<open>simp add: wp_ret\<close>)
  qed (simp add: turn_apply_one_def wp_bind wp_read)
qed (auto split: prod.split)

lemma wp_turn_commit:
  "wp (turn_commit T en to_apply) (\<lambda>(committed, refused) v. set committed \<subseteq> ch_path ` set to_apply) (\<lambda>_ _. True) w"
proof -
  have after: "wp (turn_apply T to_apply)
      (\<lambda>x. wp (case x of (committed, denied) \<Rightarrow> seqE (mark_paths committed DECISION_COMMITTED)
        (bindE (if denied = [] then retE []
            else bindE (keep_paths denied) (\<lambda>kept.
                 seqE (log_event en ''turn-permission-denied'' (Some (JStr (show_nat (length kept) @ '' path(s) kept in branch''))))
                      (retE kept))) (\<lambda>kept. retE (committed, kept))))
        (\<lambda>(committed, refused) v. set committed \<subseteq> ch_path ` set to_apply) (\<lambda>_ _. True)) (\<lambda>_ _. True) t" for t
  proof (rule wp_mono [OF wp_turn_apply])
    fix x :: "string list \<times> string list" and t :: "'a world"
    assume "(case x of (committed, denied) \<Rightarrow> \<lambda>v. set committed \<union> set denied \<subseteq> ch_path ` set to_apply) t"
    then have c: "set (fst x) \<subseteq> ch_path ` set to_apply" by auto
    show "wp (case x of (committed, denied) \<Rightarrow> seqE (mark_paths committed DECISION_COMMITTED)
        (bindE (if denied = [] then retE []
            else bindE (keep_paths denied) (\<lambda>kept.
                 seqE (log_event en ''turn-permission-denied'' (Some (JStr (show_nat (length kept) @ '' path(s) kept in branch''))))
                      (retE kept))) (\<lambda>kept. retE (committed, kept))))
        (\<lambda>(committed, refused) v. set committed \<subseteq> ch_path ` set to_apply) (\<lambda>_ _. True) t"
      unfolding case_prod_beta wp_seq [of "mark_paths _ _"] wp_bind [of "If _ _ _"] wp_ret
      by (intro wp_total) (simp_all add: c)
  qed simp
  show ?thesis
    unfolding turn_commit_def wp_seq wp_bind [of "turn_apply _ _"]
    by (rule wp_total) (rule after, rule TrueI)
qed

lemma keeps_live_changes: "keeps (same_session s st) (live_changes T)"
  unfolding live_changes_def by (intro keeps_intros)+

definition admitted_now :: "'b turn_controller \<Rightarrow> session \<Rightarrow> change list \<Rightarrow> string \<Rightarrow> bool" where
  "admitted_now T s live p \<longleftrightarrow> (\<exists>oos. out_of_scope_paths T s live = Inr oos \<and> p \<in> ch_path ` set live \<and>
     (marked s DECISION_COMMITTED p \<or> p \<notin> set oos \<and> \<not> marked s DECISION_KEPT p))"

text \<open>The committed paths a response names.\<close>

definition names_committed :: "pydict \<Rightarrow> string list \<Rightarrow> bool" where
  "names_committed d cs \<longleftrightarrow> get_default d ''committed'' JNull = jstrs cs"

lemma jstrs_inj [simp]: "jstrs xs = jstrs ys \<longleftrightarrow> xs = ys"
  by (simp add: jstrs_def inj_map_eq_map inj_def)

lemma ends_name_committed:
  "wp (close_turn en committed refused) (\<lambda>d _. names_committed d committed) (\<lambda>_ _. True) t"
  "wp (default_kept en new_oos committed refused) (\<lambda>d _. names_committed d committed) (\<lambda>_ _. True) t"
  "wp (ask_approval en new_oos committed refused) (\<lambda>d _. names_committed d committed) (\<lambda>_ _. True) u"
  by (simp_all add: close_turn_def default_kept_def ask_approval_def on_world_def committed_or_def names_committed_def get_default_def
      keep_paths_def mark_paths_def wp_decision_map put_policy_def mod_session_def wp_log_event wp_save_session wp_simps)

lemma turn_noop_names: "wp (turn_noop en) (\<lambda>d _. \<forall>cs. \<not> names_committed d cs) (\<lambda>_ _. True) t"
  by (simp add: turn_noop_def names_committed_def get_default_def jstrs_def wp_log_event wp_save_session wp_simps)

lemma hold_for_abort_names: "wp (hold_for_abort T en) (\<lambda>d _. names_committed d []) (\<lambda>_ _. True) t"
  unfolding hold_for_abort_def wp_bind wp_seq wp_ret
  by (intro wp_total) (simp_all add: names_committed_def get_default_def jstrs_def)

lemma wp_on_world: "wp (on_world m) Q E t = wp m (\<lambda>x w. Q x (w, snd t)) (\<lambda>e w. E e (w, snd t)) (fst t)"
  by (simp add: on_world_def wp_zoom)

lemma wp_run:
  "m w = (Inl e, u) \<Longrightarrow> wp m Q E w = E e u"
  "m w = (Inr x, u) \<Longrightarrow> wp m Q E w = Q x u"
  by (simp_all add: wp_def)

definition commits_admitted :: "'b turn_controller \<Rightarrow> 'b world \<Rightarrow> pydict \<Rightarrow> bool" where
  "commits_admitted T w d \<longleftrightarrow> (\<forall>cs p. names_committed d cs \<longrightarrow> p \<in> set cs \<longrightarrow>
     (\<exists>live u. live_changes T w = (Inr live, u) \<and> admitted_now T (w_session w) live p))"

lemma finalize_admits:
  "wp (finalize_turn T en default_keep) (\<lambda>d _. commits_admitted T w d) (\<lambda>_ _. True) (w, pending)"
    (is "wp _ ?Q _ _")
proof (cases "abort_requested (w_session w)")
  case True
  have "wp (on_world (hold_for_abort T en)) ?Q (\<lambda>_ _. True) (w, pending)"
    unfolding on_world_def wp_zoom
    by (rule wp_mono [OF hold_for_abort_names]) (auto simp: names_committed_def commits_admitted_def)
  then show ?thesis using True by (simp add: finalize_turn_def the_session_def wp_bind wp_on_world wp_get)
next
  case False
  obtain r u where run: "live_changes T w = (r, u)" by fastforce
  have sess: "w_session u = w_session w"
    using keeps_live_changes [of "w_session w" "w_store w" T] run
    by (metis (no_types, lifting) keeps_def same_session_def snd_conv)
  show ?thesis
  proof (cases r)
    case (Inl e)
    then show ?thesis using False run
      by (simp add: finalize_turn_def the_session_def wp_bind wp_on_world wp_get wp_run(1))
  next
    case (Inr live)
    have ends: "wp (conclude_turn en default_keep new_oos committed refused) ?Q (\<lambda>_ _. True) t"
      if "\<And>p. p \<in> set committed \<Longrightarrow> admitted_now T (w_session w) live p" for new_oos committed refused t
    proof -
      have "wp (conclude_turn en default_keep new_oos committed refused) (\<lambda>d _. names_committed d committed) (\<lambda>_ _. True) t"
        by (simp add: conclude_turn_def on_world_def wp_zoom ends_name_committed)
      then show ?thesis
        by (rule wp_mono) (use that run Inr in \<open>auto simp: names_committed_def commits_admitted_def\<close>)
    qed
    have commit: "wp (turn_commit T en to_apply) (\<lambda>y v. wp (conclude_turn en default_keep new_oos (fst y) (snd y)) ?Q (\<lambda>_ _. True) (v, pending)) (\<lambda>_ _. True) v"
      if "\<And>c. c \<in> set to_apply \<Longrightarrow> admitted_now T (w_session w) live (ch_path c)" for new_oos to_apply v
      by (rule wp_mono [OF wp_turn_commit]) (use that in \<open>auto intro!: ends\<close>)
    have plan: "wp (turn_plan T live) (\<lambda>x. wp (turn_commit T en (snd x))
         (\<lambda>y v. wp (conclude_turn en default_keep (fst x) (fst y) (snd y)) ?Q (\<lambda>_ _. True) (v, pending)) (\<lambda>_ _. True)) (\<lambda>_ _. True) u"
      by (rule wp_turn_plan) (auto simp: sess admitted_now_def intro!: commit)
    have noop: "wp (turn_noop en) (\<lambda>x v. ?Q x (v, pending)) (\<lambda>_ _. True) u"
      by (rule wp_mono [OF turn_noop_names]) (simp add: commits_admitted_def)
    show ?thesis
      using False run Inr noop plan
      by (simp add: finalize_turn_def the_session_def wp_bind wp_on_world wp_get wp_run(2) case_prod_beta)
  qed
qed

section \<open>Approvals\<close>

lemma on_world_pending [simp]: "snd (snd (on_world m t)) = snd t"
  by (simp add: on_world_def zoomE_def split: prod.split)

lemma approve_unknown:
  assumes "dict_get (snd t) k = None"
  shows "approve_turn T en (JStr k) decision paths commit keep discard t =
    (Inl (KeyError ''unknown or already-resolved approval token''), t)"
  using assms by (simp add: approve_turn_def bindE_def readE_def)

lemma approve_known:
  assumes "dict_get (snd t) k = Some pending"
  shows "approve_turn T en (JStr k) decision paths commit keep discard t =
    on_world (approve_pending T en pending decision paths commit keep discard) (fst t, dict_pop (snd t) k)"
  using assms by (simp add: approve_turn_def bindE_def readE_def seqE_def modE_def)

lemma approve_pops: "dict_get (snd (snd (approve_turn T en (JStr k) decision paths commit keep discard t))) k = None"
  by (cases "dict_get (snd t) k") (simp_all add: approve_unknown approve_known)

lemma wp_commit_paths: "wp (commit_paths T en paths) (\<lambda>cs _. set cs \<subseteq> set paths) (\<lambda>_ _. True) w"
proof (cases "paths = []")
  case False
  have inside: "wp (turn_apply T (filter (\<lambda>c. ch_path c \<in> set paths) live))
      (\<lambda>x. wp (case x of (committed, denied) \<Rightarrow> seqE (mark_paths committed DECISION_COMMITTED)
       (seqE (whenE (denied \<noteq> [])
                (seqE (mark_paths denied DECISION_KEPT)
                      (log_event en ''turn-permission-denied'' (Some (JStr (show_nat (length denied) @ '' approved path(s) kept in branch''))))))
       (bindE (readE (\<lambda>w. policy_list ALLOWED_SCOPES (w_session w))) (\<lambda>scopes.
        seqE (put_policy ALLOWED_SCOPES (JArr (foldl allow_scope scopes committed)))
             (retE committed))))) (\<lambda>cs _. set cs \<subseteq> set paths) (\<lambda>_ _. True)) (\<lambda>_ _. True) t" for live t
  proof (rule wp_mono [OF wp_turn_apply])
    fix x :: "string list \<times> string list" and v :: "'a world"
    assume "(case x of (committed, denied) \<Rightarrow>
       \<lambda>v. set committed \<union> set denied \<subseteq> ch_path ` set (filter (\<lambda>c. ch_path c \<in> set paths) live)) v"
    then have c: "set (fst x) \<subseteq> set paths" by auto
    show "wp (case x of (committed, denied) \<Rightarrow> seqE (mark_paths committed DECISION_COMMITTED)
       (seqE (whenE (denied \<noteq> [])
                (seqE (mark_paths denied DECISION_KEPT)
                      (log_event en ''turn-permission-denied'' (Some (JStr (show_nat (length denied) @ '' approved path(s) kept in branch''))))))
       (bindE (readE (\<lambda>w. policy_list ALLOWED_SCOPES (w_session w))) (\<lambda>scopes.
        seqE (put_policy ALLOWED_SCOPES (JArr (foldl allow_scope scopes committed)))
             (retE committed))))) (\<lambda>cs _. set cs \<subseteq> set paths) (\<lambda>_ _. True) v"
      unfolding case_prod_beta wp_seq wp_bind [of "readE _"] wp_ret
      by (intro wp_total) (simp_all add: c)
  qed simp
  show ?thesis
    using False unfolding commit_paths_def Let_def
    by (simp add: wp_bind [of "live_changes _"] wp_seq [of "whenE _ _"] wp_bind [of "turn_apply _ _"] inside wp_total)
qed (simp add: commit_paths_def wp_ret)

lemma wp_settle: "wp (settle en event n response) Q E w = Q response
    (w\<lparr>w_session := add_event (en_now en) event (Some (JStr (show_nat n @ '' path(s)''))) (w_session w),
       w_store := store_save (add_event (en_now en) event (Some (JStr (show_nat n @ '' path(s)''))) (w_session w)) (w_store w)\<rparr>)"
  by (simp add: settle_def wp_seq wp_log_event wp_save_session wp_ret)

lemma wp_resolve_granular:
  "wp (resolve_granular T en pending commit keep discard) (\<lambda>r _. set (rs_committed r) \<subseteq> set pending) (\<lambda>_ _. True) w"
proof -
  have "wp (bindE (commit_paths T en (filter (\<lambda>p. p \<in> set commit) pending)) (\<lambda>committed.
     bindE (keep_paths keep_now) (\<lambda>kept.
     bindE (discard_paths T discard_now) (\<lambda>(discarded, stale).
       retE \<lparr>rs_committed = committed, rs_kept = kept, rs_discarded = discarded, rs_stale = stale\<rparr>))))
     (\<lambda>r _. set (rs_committed r) \<subseteq> set pending) (\<lambda>_ _. True) t" for keep_now discard_now t
  proof (rule wp_bindI [OF wp_commit_paths])
    fix committed and v :: "'a world" assume c: "set committed \<subseteq> set (filter (\<lambda>p. p \<in> set commit) pending)"
    show "wp (bindE (keep_paths keep_now) (\<lambda>kept. bindE (discard_paths T discard_now) (\<lambda>(discarded, stale).
       retE \<lparr>rs_committed = committed, rs_kept = kept, rs_discarded = discarded, rs_stale = stale\<rparr>)))
     (\<lambda>r _. set (rs_committed r) \<subseteq> set pending) (\<lambda>_ _. True) v"
      unfolding wp_bind case_prod_beta wp_ret by (intro wp_total) (use c in auto)
  qed
  then show ?thesis
    unfolding resolve_granular_def Let_def by (intro wp_after(2)) simp_all
qed

definition within_flagged :: "string list \<Rightarrow> pydict \<Rightarrow> bool" where
  "within_flagged pending d \<longleftrightarrow> (\<forall>cs. names_committed d cs \<longrightarrow> set cs \<subseteq> set pending)"

lemma within_flagged_keys:
  "set cs \<subseteq> set pending \<Longrightarrow> within_flagged pending ((''verdict'', v) # (''committed'', jstrs cs) # d)"
  "within_flagged pending [(''verdict'', v), (''discarded'', x), (''stale'', y)]"
  "within_flagged pending [(''verdict'', v), (''denied'', x), (''kept'', y), (''held'', z)]"
  by (auto simp: within_flagged_def names_committed_def get_default_def jstrs_def[of "_ :: string list"] inj_map_eq_map inj_def
      dest!: arg_cong [of _ _ "\<lambda>v. case v of JArr xs \<Rightarrow> map (\<lambda>x. case x of JStr s \<Rightarrow> s) xs | _ \<Rightarrow> []"] simp: comp_def)

lemma wp_ifI: "(b \<Longrightarrow> wp m Q E s) \<Longrightarrow> (\<not> b \<Longrightarrow> wp n Q E s) \<Longrightarrow> wp (if b then m else n) Q E s"
  by simp

lemma approve_within:
  "wp (approve_pending T en pending decision paths commit keep discard) (\<lambda>d _. within_flagged pending d) (\<lambda>_ _. True) w"
proof -
  have granular: "wp (bindE (resolve_granular T en pending cs ks ds) (\<lambda>r.
          settle en ''turn-approved-granular'' (length (rs_committed r))
            [(''verdict'', JStr (granular_verdict r)), (''committed'', jstrs (rs_committed r)), (''kept'', jstrs (rs_kept r)),
             (''held'', jstrs (rs_kept r)), (''discarded'', jstrs (rs_discarded r)), (''stale'', jstrs (rs_stale r))]))
      (\<lambda>d _. within_flagged pending d) (\<lambda>_ _. True) t" for cs ks ds t
    by (rule wp_bindI [OF wp_resolve_granular]) (simp add: wp_settle within_flagged_keys)
  have some: "wp (bindE (commit_paths T en (filter (\<lambda>p. p \<in> set ps) pending)) (\<lambda>committed.
        bindE (keep_paths (filter (\<lambda>p. p \<notin> set ps) pending)) (\<lambda>kept.
          settle en ''turn-approved-partial'' n
            [(''verdict'', JStr VERDICT_COMMITTED), (''committed'', jstrs committed), (''held'', jstrs kept), (''kept'', jstrs kept)])))
      (\<lambda>d _. within_flagged pending d) (\<lambda>_ _. True) t" for ps n t
  proof (rule wp_bindI [OF wp_commit_paths])
    fix committed and v :: "'a world" assume c: "set committed \<subseteq> set (filter (\<lambda>p. p \<in> set ps) pending)"
    show "wp (bindE (keep_paths (filter (\<lambda>p. p \<notin> set ps) pending)) (\<lambda>kept.
          settle en ''turn-approved-partial'' n
            [(''verdict'', JStr VERDICT_COMMITTED), (''committed'', jstrs committed), (''held'', jstrs kept), (''kept'', jstrs kept)]))
      (\<lambda>d _. within_flagged pending d) (\<lambda>_ _. True) v"
      unfolding wp_bind wp_settle by (intro wp_total) (use c in \<open>auto intro!: within_flagged_keys\<close>)
  qed
  have yes: "wp (bindE (commit_paths T en pending) (\<lambda>committed. settle en ''turn-approved'' n
        [(''verdict'', JStr VERDICT_COMMITTED), (''committed'', jstrs committed)]))
      (\<lambda>d _. within_flagged pending d) (\<lambda>_ _. True) t" for n t
    by (rule wp_bindI [OF wp_commit_paths]) (simp add: wp_settle within_flagged_keys)
  show ?thesis
    unfolding approve_pending_def Let_def
  proof (intro wp_ifI, goal_cases)
    case 1
    show ?case by (rule wp_after(1), rule wp_after(3), rule wp_after(3), rule granular) simp
  next
    case 2
    show ?case by (rule wp_after(1)) (simp_all add: some)
  next
    case 3
    show ?case by (rule yes)
  next
    case 4
    show ?case by (intro wp_after(1) wp_after(3)) (simp_all add: wp_settle within_flagged_keys)
  next
    case 5
    show ?case by (rule wp_after(1)) (simp_all add: wp_settle within_flagged_keys)
  qed
qed

text \<open>The token of a turn that needs approval stands for the paths the response names.\<close>

definition asks :: "pydict \<Rightarrow> (string, string list) dict \<Rightarrow> bool" where
  "asks d pending \<longleftrightarrow> (get_default d ''verdict'' JNull = JStr VERDICT_NEEDS_APPROVAL \<longrightarrow>
     (\<exists>k flagged. get_default d ''approval_token'' JNull = JStr k \<and> get_default d ''out_of_scope'' JNull = jstrs (sorted_set flagged) \<and>
        dict_get pending k = Some flagged))"

lemma conclude_asks: "wp (conclude_turn en default_keep new_oos committed refused) (\<lambda>d t. asks d (snd t)) (\<lambda>_ _. True) t"
  unfolding conclude_turn_def wp_on_world
proof (intro wp_ifI, goal_cases)
  case 1
  show ?case
    unfolding wp_on_world
    by (simp add: close_turn_def committed_or_def asks_def get_default_def wp_log_event wp_save_session wp_simps
        VERDICT_COMMITTED_def VERDICT_HELD_def VERDICT_NOOP_def VERDICT_NEEDS_APPROVAL_def)
next
  case 2
  show ?case
    unfolding wp_on_world default_kept_def wp_bind wp_seq wp_ret
    by (intro wp_total) (simp_all add: committed_or_def asks_def get_default_def
        VERDICT_COMMITTED_def VERDICT_HELD_def VERDICT_NEEDS_APPROVAL_def)
next
  case 3
  show ?case
    by (simp add: ask_approval_def asks_def get_default_def wp_on_world wp_log_event wp_save_session wp_simps)
qed

lemma finalize_asks: "wp (finalize_turn T en default_keep) (\<lambda>d t. asks d (snd t)) (\<lambda>_ _. True) t"
proof -
  have noop: "wp (on_world (turn_noop en)) (\<lambda>d t. asks d (snd t)) (\<lambda>_ _. True) u" for u
    by (simp add: turn_noop_def asks_def get_default_def wp_on_world wp_log_event wp_save_session wp_simps VERDICT_NOOP_def VERDICT_NEEDS_APPROVAL_def)
  have hold: "wp (on_world (hold_for_abort T en)) (\<lambda>d t. asks d (snd t)) (\<lambda>_ _. True) u" for u
    unfolding wp_on_world hold_for_abort_def wp_bind wp_seq wp_ret
    by (intro wp_total) (simp_all add: asks_def get_default_def VERDICT_HELD_def VERDICT_NEEDS_APPROVAL_def)
  show ?thesis
    unfolding finalize_turn_def
    by (intro wp_after(1) wp_after(3) wp_ifI noop hold conclude_asks) simp_all
qed

section \<open>A workspace that changed its identity\<close>

text \<open>The files and the backend as they were.\<close>

definition disk_is :: "'b disk \<Rightarrow> 'b world \<Rightarrow> bool" where
  "disk_is d w \<longleftrightarrow> disk_of w = d"

lemma keeps_disk [keeps_intros]:
  "keeps (disk_is d) (mod_session f)"
  "keeps (disk_is d) save_session"
  "keeps (disk_is d) (put_policy k v)"
  "keeps (disk_is d) (put_held k h)"
  "keeps (disk_is d) (put_record k v)"
  "keeps (disk_is d) (log_event en event detail)"
  unfolding put_held_def put_policy_def put_record_def log_event_def save_session_def mod_session_def
  by (rule keeps_mod, simp add: disk_is_def disk_of_def)+

lemma keeps_disk_scopes [keeps_intros]:
  "keeps (disk_is d) (workspace_scopes pol)"
  "keeps (disk_is d) hook_workspace_refs"
  "keeps (disk_is d) (workspace_proposals pol)"
  "keeps (disk_is d) (workspace_ceiling pol)"
  unfolding workspace_scopes_def hook_workspace_refs_def workspace_proposals_def workspace_ceiling_def
  by (intro keeps_intros)+

lemma keeps_disk_union [keeps_intros]:
  "keeps (disk_is d) (rewrite_workspace_scopes pol scopes)"
  "keeps (disk_is d) (invalidate_record en x)"
  unfolding rewrite_workspace_scopes_def invalidate_record_def
  by (intro keeps_intros)+

lemma keeps_disk_replace [keeps_intros]: "keeps (disk_is d) (replace_dynamic_union T en confirmed event detail)"
  unfolding replace_dynamic_union_def by (intro keeps_intros)

lemma keeps_disk_revalidate [keeps_intros]: "keeps (disk_is d) (revalidate_one pol invalid key)"
proof -
  have "keeps (disk_is d) (case v of
         JObj rec \<Rightarrow>
           if \<not> active_record v then retE invalid
           else bindE (tryE (readE (\<lambda>w. bindR (record_roots rec) (mapR (revalidate pol (w_fs w)))))) (\<lambda>r. case r of
               Inr roots \<Rightarrow> seqE (put_record key (JObj (dict_set rec ''roots'' (JArr (map JObj roots))))) (retE invalid)
             | Inl e \<Rightarrow> if is_value_error e then retE (invalid @ [(key, exn_str e)]) else raiseE e)
       | _ \<Rightarrow> retE invalid)" for v
    by (cases v) (auto intro!: keeps_intros)
  then show ?thesis unfolding revalidate_one_def by (intro keeps_bind keeps_basic)
qed

definition auth_record :: "string \<Rightarrow> 'b world \<Rightarrow> json option" where
  "auth_record key w = dict_get (s_auth_sessions (w_session w)) key"

text \<open>The active sessions of which a root no longer is what was admitted.\<close>

definition identity_lost :: "admission_policy \<Rightarrow> string \<Rightarrow> 'b world \<Rightarrow> bool" where
  "identity_lost pol key w \<longleftrightarrow> (\<exists>rec e. auth_record key w = Some (JObj rec) \<and> active_record (JObj rec) \<and>
     bindR (record_roots rec) (mapR (revalidate pol (w_fs w))) = Inl e)"

lemma revalidate_one_lost:
  assumes "invalid \<noteq> [] \<or> identity_lost pol key w"
  shows "wp (revalidate_one pol invalid y) (\<lambda>invalid' v. (invalid \<noteq> [] \<longrightarrow> invalid' \<noteq> []) \<and> (invalid' \<noteq> [] \<or> y \<noteq> key \<and> identity_lost pol key v)) (\<lambda>_ _. True) w"
proof (cases "auth_record y w")
  case None
  then show ?thesis by (simp add: revalidate_one_def wp_bind wp_read get_item_def auth_record_def)
next
  case (Some val)
  have get: "get_item (s_auth_sessions (w_session w)) y = Inr val" using Some by (simp add: get_item_def auth_record_def)
  have other: "identity_lost pol key (w\<lparr>w_session := (w_session w)\<lparr>s_auth_sessions := dict_set (s_auth_sessions (w_session w)) y v'\<rparr>\<rparr>)"
    if "y \<noteq> key" "identity_lost pol key w" for v'
    using that by (auto simp: identity_lost_def auth_record_def)
  have mine: "invalid \<noteq> [] \<or> (y \<noteq> key \<and> identity_lost pol key w) \<or>
      (\<exists>rec e. val = JObj rec \<and> active_record val \<and> bindR (record_roots rec) (mapR (revalidate pol (w_fs w))) = Inl e)"
    using assms Some by (cases "y = key") (auto simp: identity_lost_def)
  show ?thesis
    using mine other
    by (cases val) (auto simp: revalidate_one_def wp_bind wp_read get wp_ret wp_try wp_raise put_record_def mod_session_def wp_seq wp_mod
        split: sum.split)
qed

lemma revalidate_all_lost:
  assumes "invalid \<noteq> [] \<or> key \<in> set keys \<and> identity_lost pol key w"
  shows "wp (foldE (revalidate_one pol) invalid keys) (\<lambda>invalid' _. invalid' \<noteq> []) (\<lambda>_ _. True) w"
  using assms
proof (induction keys arbitrary: invalid w)
  case (Cons y zs)
  have start: "invalid \<noteq> [] \<or> identity_lost pol key w" using Cons.prems by auto
  show ?case
    unfolding foldE.simps
  proof (rule wp_bindI [OF revalidate_one_lost [OF start, of y]])
    fix invalid' :: "(string \<times> string) list" and v :: "'a world"
    assume "(invalid \<noteq> [] \<longrightarrow> invalid' \<noteq> []) \<and> (invalid' \<noteq> [] \<or> y \<noteq> key \<and> identity_lost pol key v)"
    then show "wp (foldE (revalidate_one pol) invalid' zs) (\<lambda>invalid' _. invalid' \<noteq> []) (\<lambda>_ _. True) v"
      using Cons.prems by (intro Cons.IH) auto
  qed
qed (simp add: wp_ret)

lemma revalidate_refuses:
  assumes "identity_lost (tn_admission T) key w"
  shows "wp (revalidate_active_sessions T en) (\<lambda>_ _. False) (\<lambda>_. disk_is (disk_of w)) w"
proof -
  have key: "key \<in> set (map fst (s_auth_sessions (w_session w)))"
    using assms by (auto simp: identity_lost_def auth_record_def) (metis (no_types, lifting) map_of_SomeD fst_conv image_eqI)
  have keeps: "keeps (disk_is (disk_of w)) (revalidate_active_sessions T en)"
    unfolding revalidate_active_sessions_def by (intro keeps_intros)
  have "wp (foldE (revalidate_one (tn_admission T)) [] (map fst (s_auth_sessions (w_session w))))
      (\<lambda>invalid. wp (whenE (invalid \<noteq> [])
       (seqE (forE (invalidate_record en) invalid)
       (bindE (readE (\<lambda>w. derived_workspace_roots (tn_admission T) (w_session w))) (\<lambda>confirmed.
        seqE (replace_dynamic_union T en confirmed ''turn-workspace-session-invalidated''
                (show_nat (length invalid) @ '' logical session(s) failed identity revalidation''))
             (raiseE (ValueError (''workspace identity changed; automatic apply refused for '' @ show_nat (length invalid)
                @ '' session(s)''))))))) (\<lambda>_ _. False) (\<lambda>_ _. True)) (\<lambda>_ _. True) w"
  proof (rule wp_mono [OF revalidate_all_lost])
    show "[] \<noteq> [] \<or> key \<in> set (map fst (s_auth_sessions (w_session w))) \<and> identity_lost (tn_admission T) key w"
      using key assms by simp
    fix invalid :: "(string \<times> string) list" and v :: "'a world"
    assume "invalid \<noteq> []"
    then show "wp (whenE (invalid \<noteq> [])
       (seqE (forE (invalidate_record en) invalid)
       (bindE (readE (\<lambda>w. derived_workspace_roots (tn_admission T) (w_session w))) (\<lambda>confirmed.
        seqE (replace_dynamic_union T en confirmed ''turn-workspace-session-invalidated''
                (show_nat (length invalid) @ '' logical session(s) failed identity revalidation''))
             (raiseE (ValueError (''workspace identity changed; automatic apply refused for '' @ show_nat (length invalid)
                @ '' session(s)''))))))) (\<lambda>_ _. False) (\<lambda>_ _. True) v"
      unfolding wp_when by (simp only: if_True not_False_eq_True) (intro wp_after(1,2), simp_all add: wp_raise)
  qed simp
  then have "wp (revalidate_active_sessions T en) (\<lambda>_ _. False) (\<lambda>_ _. True) w"
    unfolding revalidate_active_sessions_def by (simp add: wp_bind wp_get)
  moreover have "wp (revalidate_active_sessions T en) (\<lambda>_. disk_is (disk_of w)) (\<lambda>_. disk_is (disk_of w)) w"
    by (rule wp_keeps [OF keeps]) (simp_all add: disk_is_def)
  ultimately show ?thesis by (auto dest: wp_conj intro: wp_mono)
qed

lemma turn_commit_refuses:
  assumes "identity_lost (tn_admission T) key w" "to_apply \<noteq> []"
  shows "wp (turn_commit T en to_apply) (\<lambda>_ _. False) (\<lambda>_. disk_is (disk_of w)) w"
  unfolding turn_commit_def wp_seq wp_when using assms(2)
  by (simp add: wp_mono [OF revalidate_refuses [OF assms(1)]])

lemma keeps_disk_map [keeps_intros]: "keeps (disk_is d) decision_map"
  unfolding decision_map_def by (intro keeps_intros)

lemma keeps_disk_marks [keeps_intros]:
  "keeps (disk_is d) (mark_paths paths decision)"
  "keeps (disk_is d) (paths_with_decisions values)"
  unfolding mark_paths_def paths_with_decisions_def by (intro keeps_intros)+

lemma keeps_disk_plan [keeps_intros]:
  "keeps (disk_is d) (keep_paths paths)"
  "keeps (disk_is d) (turn_plan T changes)"
  unfolding keep_paths_def turn_plan_def by (intro keeps_intros)+

text \<open>A backend whose status only reads.\<close>

definition reads_status :: "'b backend \<Rightarrow> protected_root list \<Rightarrow> bool" where
  "reads_status B roots \<longleftrightarrow> (\<forall>root\<in>set roots. \<forall>d. snd (be_status_report B root d) = d)"

lemma keeps_disk_read: "(\<And>d. snd (m d) = d) \<Longrightarrow> keeps (disk_is d') (on_disk m)"
  by (simp add: keeps_def on_disk_def zoomE_def disk_is_def case_prod_beta)

lemma live_changes_reads:
  assumes "reads_status (tn_backend T) (map snd (s_roots (w_session w)))" "live_changes T w = (r, u)"
  shows "disk_of u = disk_of w \<and> w_session u = w_session w"
proof -
  have "keeps (disk_is (disk_of w)) (mapE (\<lambda>(name, root). on_disk (be_status_report (tn_backend T) root)) (sorted_items (s_roots (w_session w))))"
  proof (rule keeps_map)
    fix x assume "x \<in> set (sorted_items (s_roots (w_session w)))"
    then have "snd (be_status_report (tn_backend T) (snd x) d) = d" for d
      using assms(1) by (cases d) (auto simp: reads_status_def)
    then show "keeps (disk_is (disk_of w)) (case x of (name, root) \<Rightarrow> on_disk (be_status_report (tn_backend T) root))"
      by (cases x) (simp add: keeps_disk_read)
  qed
  then have "wp (live_changes T) (\<lambda>_. disk_is (disk_of w)) (\<lambda>_. disk_is (disk_of w)) w"
    unfolding live_changes_def wp_bind the_session_def wp_get
    by (rule wp_keeps) (auto simp: disk_is_def wp_lift split: sum.split)
  moreover have "wp (live_changes T) (\<lambda>_. same_session (w_session w) (w_store w)) (\<lambda>_. same_session (w_session w) (w_store w)) w"
    by (rule wp_keeps [OF keeps_live_changes]) (simp_all add: same_session_def)
  ultimately show ?thesis
    using assms(2) by (auto simp: wp_def disk_is_def same_session_def split: sum.splits)
qed

lemma keeps_lost [keeps_intros]:
  "keeps (identity_lost pol key) (put_policy k v)"
  unfolding put_policy_def by (rule keeps_mod_session) (simp add: identity_lost_def auth_record_def set_policy_def)

lemma keeps_lost_plan [keeps_intros]: "keeps (identity_lost pol key) (turn_plan T changes)"
  unfolding turn_plan_def paths_with_decisions_def decision_map_def by (intro keeps_intros)

definition nothing_applied :: "'b disk \<Rightarrow> pydict \<Rightarrow> 'b turn \<Rightarrow> bool" where
  "nothing_applied d response t \<longleftrightarrow> disk_is d (fst t) \<and> (\<forall>cs. names_committed response cs \<longrightarrow> cs = [])"

lemma keeps_disk_ends [keeps_intros]:
  "keeps (disk_is d) (turn_noop en)"
  "keeps (disk_is d) (close_turn en committed refused)"
  "keeps (disk_is d) (default_kept en new_oos committed refused)"
  unfolding turn_noop_def close_turn_def default_kept_def by (intro keeps_intros)+

lemma keeps_disk_world: "keeps (disk_is d) m \<Longrightarrow> keeps (\<lambda>t. disk_is d (fst t)) (on_world m)"
  by (simp add: keeps_def on_world_def zoomE_def case_prod_beta)

lemma keeps_disk_conclude: "keeps (\<lambda>t. disk_is d (fst t)) (conclude_turn en default_keep new_oos committed refused)"
  unfolding conclude_turn_def ask_approval_def
  by (intro keeps_if keeps_seq keeps_disk_world keeps_mod keeps_intros) auto

lemma conclude_none:
  assumes "disk_is d (fst t)"
  shows "wp (conclude_turn en default_keep new_oos [] refused) (nothing_applied d) (\<lambda>_ t. disk_is d (fst t)) t"
proof -
  have "wp (conclude_turn en default_keep new_oos [] refused) (\<lambda>r _. names_committed r []) (\<lambda>_ _. True) t"
    by (simp add: conclude_turn_def wp_on_world ends_name_committed)
  moreover have "wp (conclude_turn en default_keep new_oos [] refused) (\<lambda>_ t. disk_is d (fst t)) (\<lambda>_ t. disk_is d (fst t)) t"
    by (rule wp_keeps [OF keeps_disk_conclude]) (simp_all add: assms)
  ultimately show ?thesis
    by (rule wp_mono [OF wp_conj]) (simp_all add: nothing_applied_def names_committed_def)
qed

lemma turn_commit_none:
  "wp (turn_commit T en []) (\<lambda>y v. fst y = [] \<and> disk_is (disk_of w) v) (\<lambda>_. disk_is (disk_of w)) w"
proof -
  have "wp (mark_paths [] DECISION_COMMITTED) (\<lambda>_. disk_is (disk_of w)) (\<lambda>_. disk_is (disk_of w)) w"
    by (rule wp_keeps [where I = "disk_is (disk_of w)"]) (auto intro: keeps_intros simp: disk_is_def)
  then have "wp (mark_paths [] DECISION_COMMITTED) (\<lambda>_. wp (bindE (retE []) (\<lambda>kept. retE ([], kept)))
      (\<lambda>y v. fst y = [] \<and> disk_is (disk_of w) v) (\<lambda>_. disk_is (disk_of w))) (\<lambda>_. disk_is (disk_of w)) w"
    by (rule wp_mono) (simp_all add: wp_bind wp_ret)
  then show ?thesis
    by (simp add: turn_commit_def turn_apply_def wp_simps)
qed

lemma finalize_refuses:
  assumes "identity_lost (tn_admission T) key w" "reads_status (tn_backend T) (map snd (s_roots (w_session w)))"
  shows "wp (finalize_turn T en default_keep) (nothing_applied (disk_of w)) (\<lambda>_ t. disk_is (disk_of w) (fst t)) (w, pending)"
proof -
  obtain r u where run: "live_changes T w = (r, u)" by fastforce
  have u: "disk_of u = disk_of w" "w_session u = w_session w" using live_changes_reads [OF assms(2) run] by simp_all
  then have lost: "identity_lost (tn_admission T) key u"
    using assms(1) by (simp add: identity_lost_def auth_record_def disk_of_def)
  have here: "disk_is (disk_of w) u" by (simp add: disk_is_def u)
  have commit: "wp (turn_commit T en to_apply) (\<lambda>y v. wp (conclude_turn en default_keep new_oos (fst y) (snd y))
      (nothing_applied (disk_of w)) (\<lambda>_ t. disk_is (disk_of w) (fst t)) (v, pending)) (\<lambda>_. disk_is (disk_of w)) v"
    if "disk_is (disk_of w) v" "identity_lost (tn_admission T) key v" for v to_apply new_oos
  proof (cases "to_apply = []")
    case True
    have d: "disk_of v = disk_of w" using that(1) by (simp add: disk_is_def)
    show ?thesis
      unfolding True by (rule wp_mono [OF turn_commit_none [of T en v]]) (auto simp: d conclude_none)
  next
    case False
    show ?thesis
      by (rule wp_mono [OF turn_commit_refuses [OF that(2) False]]) (use that(1) in \<open>auto simp: disk_is_def\<close>)
  qed
  have plan: "wp (turn_plan T live) (\<lambda>x. wp (turn_commit T en (snd x))
       (\<lambda>y v. wp (conclude_turn en default_keep (fst x) (fst y) (snd y)) (nothing_applied (disk_of w))
          (\<lambda>_ t. disk_is (disk_of w) (fst t)) (v, pending)) (\<lambda>_. disk_is (disk_of w))) (\<lambda>_. disk_is (disk_of w)) u" for live
  proof -
    have "keeps (\<lambda>v. disk_is (disk_of w) v \<and> identity_lost (tn_admission T) key v) (turn_plan T live)"
      using keeps_disk_plan(2) [of "disk_of w" T live] keeps_lost_plan [of "tn_admission T" key T live] by (simp add: keeps_def)
    then show ?thesis by (rule wp_keeps) (simp_all add: here lost commit)
  qed
  let ?C = "\<lambda>_ :: pyexn. disk_is (disk_of w)"
  have hold: "wp (hold_for_abort T en) (\<lambda>d v. nothing_applied (disk_of w) d (v, pending)) ?C w"
  proof -
    have "wp (live_changes T) (\<lambda>_. disk_is (disk_of w)) ?C w"
      using run here by (cases r) (simp_all add: wp_run)
    then have "wp (hold_for_abort T en) (\<lambda>_. disk_is (disk_of w)) ?C w"
      unfolding hold_for_abort_def
      by (rule wp_bindI) (auto intro!: wp_keeps [where I = "disk_is (disk_of w)"] keeps_intros)
    then show ?thesis
      by (rule wp_mono [OF wp_conj [OF hold_for_abort_names]]) (auto simp: nothing_applied_def names_committed_def)
  qed
  have noop: "wp (turn_noop en) (\<lambda>d v. nothing_applied (disk_of w) d (v, pending)) ?C u"
  proof -
    have "wp (turn_noop en) (\<lambda>_. disk_is (disk_of w)) ?C u"
      by (rule wp_keeps [OF keeps_disk_ends(1)]) (simp_all add: here)
    then show ?thesis
      by (rule wp_mono [OF wp_conj [OF turn_noop_names]]) (auto simp: nothing_applied_def)
  qed
  show ?thesis
  proof (cases "abort_requested (w_session w)")
    case True
    then show ?thesis using hold by (simp add: finalize_turn_def the_session_def wp_bind wp_on_world wp_get)
  next
    case False
    then show ?thesis using run noop plan here
      by (cases r) (simp_all add: finalize_turn_def the_session_def wp_bind wp_on_world wp_get wp_run case_prod_beta)
  qed
qed

section \<open>A sample session\<close>

definition turn_change :: "string \<Rightarrow> string \<Rightarrow> change" where
  "turn_change op path = \<lparr>ch_op = op, ch_path = path, ch_kind = ''file'', ch_bytes = 0, ch_root = ''storage'', ch_summary = []\<rparr>"

definition turn_setup :: "change list \<Rightarrow> fake turn_controller" where
  "turn_setup cs = \<lparr>tn_backend = fake_backend\<lparr>be_status_report := \<lambda>root. retE \<lparr>sr_changes = cs, sr_warnings = []\<rparr>\<rparr>,
     tn_aliases = [], tn_admission = work_policy\<rparr>"

definition turn_session :: session where
  "turn_session = sample_session\<lparr>s_policy := [(''mode'', JStr ''workspace-auto''), (''allowed_scopes'', jstrs [''/storage/user/w'']),
     (''deny_patterns'', jstrs [''.ssh'']), (''ignore_patterns'', JArr [])]\<rparr>"

definition turn_world :: "session \<Rightarrow> fake world" where
  "turn_world s = \<lparr>w_fs = sample_fs, w_be = empty_fake, w_session = s, w_store = empty_store, w_routes = []\<rparr>"

section \<open>Properties\<close>



text \<open>C18. An approval covers what was asked, and no more: whatever happens to the world between the question and the
  answer, the paths an answer commits are among the out-of-scope paths the question named.\<close>

theorem approval_covers_question:
  assumes "finalize_turn T en default_keep t = (Inr d, (w, pending))" "get_default d ''verdict'' JNull = JStr VERDICT_NEEDS_APPROVAL"
    and "approve_turn T' en' (get_default d ''approval_token'' JNull) decision paths commit keep discard (w', pending) = (Inr a, u)"
    and "get_default a ''committed'' JNull = jstrs cs"
  shows "\<exists>asked. get_default d ''out_of_scope'' JNull = jstrs asked \<and> set cs \<subseteq> set asked"
proof -
  obtain k flagged where k: "get_default d ''approval_token'' JNull = JStr k" "get_default d ''out_of_scope'' JNull = jstrs (sorted_set flagged)"
    "dict_get pending k = Some flagged"
    using wp_result [OF finalize_asks assms(1)] assms(2) by (auto simp: asks_def)
  have "on_world (approve_pending T' en' flagged decision paths commit keep discard) (w', dict_pop pending k) = (Inr a, u)"
    using assms(3) k by (simp add: approve_known)
  moreover have "wp (on_world (approve_pending T' en' flagged decision paths commit keep discard)) (\<lambda>d _. within_flagged flagged d)
      (\<lambda>_ _. True) (w', dict_pop pending k)"
    by (simp add: wp_on_world approve_within)
  ultimately have "within_flagged flagged a" by (auto dest: wp_result)
  then show ?thesis using k(2) assms(4) by (auto simp: within_flagged_def names_committed_def)
qed

lemma approval_covers_question_witness:
  "\<exists>asked. jstrs [''/storage/user/y''] = jstrs asked \<and> {''/storage/user/y''} \<subseteq> set asked"
proof -
  let ?T = "turn_setup [turn_change ''D'' ''/storage/user/y'']"
  let ?turn = "finalize_turn ?T sample_env False (turn_world turn_session, [])"
  have turn: "case ?turn of (Inr d, t) \<Rightarrow> get_default d ''verdict'' JNull = JStr VERDICT_NEEDS_APPROVAL \<and>
      get_default d ''approval_token'' JNull = JStr sample_route_id \<and> get_default d ''out_of_scope'' JNull = jstrs [''/storage/user/y''] \<and>
      snd t = [(sample_route_id, [''/storage/user/y''])] | (Inl _, t) \<Rightarrow> False"
    by code_simp
  obtain r w p where r: "?turn = (r, (w, p))" by (metis prod.exhaust)
  with turn obtain d where d: "?turn = (Inr d, (w, [(sample_route_id, [''/storage/user/y''])]))"
    "get_default d ''verdict'' JNull = JStr VERDICT_NEEDS_APPROVAL" "get_default d ''approval_token'' JNull = JStr sample_route_id"
    "get_default d ''out_of_scope'' JNull = jstrs [''/storage/user/y'']"
    by (cases r) (simp_all del: split_paired_Ex)
  have "case fst (approve_turn ?T sample_env (JStr sample_route_id) (JStr ''yes'') JNull JNull JNull JNull
      (turn_world turn_session, [(sample_route_id, [''/storage/user/y''])])) of
      Inr a \<Rightarrow> get_default a ''committed'' JNull = jstrs [''/storage/user/y''] | Inl _ \<Rightarrow> False"
    by code_simp
  then obtain a u where a: "approve_turn ?T sample_env (get_default d ''approval_token'' JNull) (JStr ''yes'') JNull JNull JNull JNull
      (turn_world turn_session, [(sample_route_id, [''/storage/user/y''])]) = (Inr a, u)"
    "get_default a ''committed'' JNull = jstrs [''/storage/user/y'']"
    by (auto split: sum.splits simp: prod_eq_iff d(3))
  show ?thesis using approval_covers_question [OF d(1,2) a] by (simp add: d(4))
qed

text \<open>An approval token is good once: after an answer, whatever came of it, the same token is refused and nothing
  changes.\<close>

theorem approval_token_once:
  "approve_turn T' en' (JStr k) decision' paths' commit' keep' discard'
       (snd (approve_turn T en (JStr k) decision paths commit keep discard t)) =
     (Inl (KeyError ''unknown or already-resolved approval token''),
      snd (approve_turn T en (JStr k) decision paths commit keep discard t))"
  by (rule approve_unknown) (rule approve_pops)

text \<open>C19. When a root of an active session is no longer the directory that was admitted, a turn applies nothing: no
  file and no branch changes, and no path is reported as committed.\<close>

theorem identity_change_stops_turn:
  assumes "dict_get (s_auth_sessions (w_session w)) key = Some (JObj rec)" "active_record (JObj rec)"
    and "bindR (record_roots rec) (mapR (revalidate (tn_admission T) (w_fs w))) = Inl e"
    and "\<forall>root\<in>set (map snd (s_roots (w_session w))). \<forall>d. snd (be_status_report (tn_backend T) root d) = d"
    and "finalize_turn T en default_keep (w, pending) = (r, (v, pending'))"
  shows "w_fs v = w_fs w \<and> w_be v = w_be w \<and>
    (\<forall>d cs. r = Inr d \<longrightarrow> get_default d ''committed'' JNull = jstrs cs \<longrightarrow> cs = [])"
proof -
  have "identity_lost (tn_admission T) key w" "reads_status (tn_backend T) (map snd (s_roots (w_session w)))"
    using assms(1-4) by (auto simp: identity_lost_def auth_record_def reads_status_def)
  from wp_result [OF finalize_refuses [OF this] assms(5)] show ?thesis
    by (auto simp: nothing_applied_def disk_is_def disk_of_def names_committed_def split: sum.splits)
qed

lemma identity_change_stops_turn_witness:
  "\<exists>r v pending. finalize_turn (turn_setup [turn_change ''D'' ''/storage/user/w/x'']) sample_env False
       (turn_world (turn_session\<lparr>s_auth_sessions := [(''k'', JObj [(''state'', JStr ''active''), (''roots'', JArr [JObj []])])]\<rparr>), [])
       = (r, (v, pending)) \<and> w_fs v = sample_fs"
proof -
  let ?s = "turn_session\<lparr>s_auth_sessions := [(''k'', JObj [(''state'', JStr ''active''), (''roots'', JArr [JObj []])])]\<rparr>"
  let ?T = "turn_setup [turn_change ''D'' ''/storage/user/w/x'']"
  obtain r v pending where run: "finalize_turn ?T sample_env False (turn_world ?s, []) = (r, (v, pending))"
    by (metis prod.exhaust)
  have "w_fs v = w_fs (turn_world ?s) \<and> w_be v = w_be (turn_world ?s) \<and>
    (\<forall>d cs. r = Inr d \<longrightarrow> get_default d ''committed'' JNull = jstrs cs \<longrightarrow> cs = [])"
    by (rule identity_change_stops_turn [OF _ _ _ _ run, of "''k''" "[(''state'', JStr ''active''), (''roots'', JArr [JObj []])]"])
      (simp_all add: turn_world_def active_record_def get_default_def record_roots_def revalidate_def turn_setup_def retE_def)
  then show ?thesis using run by (auto simp: turn_world_def)
qed

definition linked_fs :: fs where
  "linked_fs = sample_fs\<lparr>fs_nodes := fs_nodes sample_fs @
     [([''real'', ''storage'', ''p''], sample_node (Symlink ''/etc/passwd'')), ([''mnt''], sample_node Directory),
      ([''mnt'', ''storage''], sample_node Directory), ([''mnt'', ''storage'', ''p''], (sample_node (Regular ''new''))\<lparr>in_ino := 8\<rparr>)]\<rparr>"

text \<open>The copy into the base follows links: where the base holds a link and the view a file of the same path, the
  target of the link is overwritten, here a file outside the protected root.\<close>

theorem turn_copy_follows_links:
  "case copy_from_view sample_root ''p'' (turn_change ''M'' ''/storage/user/p'') linked_fs of
     (Inr _, fs) \<Rightarrow> islink linked_fs ''/real/storage/p'' \<and> islink fs ''/real/storage/p'' \<and>
        read_file linked_fs ''/etc/passwd'' = Inr ''root'' \<and> read_file fs ''/etc/passwd'' = Inr ''new''
   | (Inl _, fs) \<Rightarrow> False"
  by code_simp

text \<open>A dangling link in the view is reported as committed though nothing was copied.\<close>

lemma turn_reports_uncopied_link:
  "case turn_apply (turn_setup []) [turn_change ''A'' ''/storage/user/q'']
       ((turn_world turn_session)\<lparr>w_fs := linked_fs\<lparr>fs_nodes := fs_nodes linked_fs @ [([''mnt'', ''storage'', ''q''], sample_node (Symlink ''/none''))]\<rparr>\<rparr>) of
     (Inr (committed, denied), v) \<Rightarrow> committed = [''/storage/user/q''] \<and> \<not> lexists (w_fs v) ''/real/storage/q''
   | (Inl _, v) \<Rightarrow> False"
  by code_simp

end
