(* ===== verification/TurnAuth.thy ===== *)
theory TurnAuth
  imports TurnFacts
begin

text \<open>
  The authority a client holds over a logical session: the generation under which its roots are recorded never
  goes back, a stale replacement changes nothing, a revocation ends exactly the sessions of one closed
  transport, and a hook never widens the scopes beyond the operator's ceiling.
\<close>

section \<open>What leaves the logical sessions alone\<close>

definition on_auth :: "(pydict \<Rightarrow> bool) \<Rightarrow> 'b world \<Rightarrow> bool" where
  "on_auth P w \<longleftrightarrow> P (s_auth_sessions (w_session w))"

lemma keeps_auth [keeps_intros]:
  "keeps (on_auth P) (on_disk m)"
  "keeps (on_auth P) (on_files fm)"
  "keeps (on_auth P) save_session"
  "keeps (on_auth P) (log_event en event detail)"
  "keeps (on_auth P) (put_policy k v)"
  "keeps (on_auth P) (put_held k h)"
  "keeps (on_auth P) (mod_session (set_policy k v))"
  "keeps (on_auth P) (mod_session (\<lambda>s. set_policy k (g s) s))"
  "keeps (on_auth P) (modE (\<lambda>w. w\<lparr>w_routes := f w\<rparr>))"
  unfolding save_session_def log_event_def put_held_def put_policy_def
  by (intro keeps_on_disk keeps_on_files keeps_mod_session keeps_mod; simp add: on_auth_def add_event_def set_policy_def)+

lemma keeps_auth_route [keeps_intros]:
  "keeps (on_auth P) (save_route r)"
  "keeps (on_auth P) (on_route m r)"
  "keeps (on_auth P) (move_route en new detail r)"
  "keeps (on_auth P) (live_route r)"
  "keeps (on_auth P) (session_root name)"
  "keeps (on_auth P) (write_json en path payload)"
proof -
  show "keeps (on_auth P) (save_route r)"
    unfolding save_route_def by (intro keeps_intros keeps_mod) (simp add: on_auth_def)
  show on: "keeps (on_auth P) (on_route m r)" for m
    unfolding on_route_def by (intro keeps_intros)
  show "keeps (on_auth P) (move_route en new detail r)"
    unfolding move_route_def by (rule on)
  show "keeps (on_auth P) (live_route r)"
    unfolding live_route_def by (intro keeps_intros)
  show "keeps (on_auth P) (session_root name)"
    unfolding session_root_def by (intro keeps_intros)
  show "keeps (on_auth P) (write_json en path payload)"
    unfolding write_json_def by (intro keeps_intros)
qed

lemma keeps_auth_children [keeps_intros]: "keeps (on_auth P) (provision_children B xs created)"
  by (induction xs arbitrary: created) (auto simp: Let_def intro!: keeps_intros split: prod.split)

lemma keeps_auth_parts [keeps_intros]:
  "keeps (on_auth P) (outer_fingerprints B en)"
  "keeps (on_auth P) (snapshot_route B en r)"
  "keeps (on_auth P) (merge_children B r)"
  "keeps (on_auth P) (undo_children B created)"
  "keeps (on_auth P) (hold_route en phase error r)"
  "keeps (on_auth P) (begin_quiesce en r)"
  "keeps (on_auth P) (load_snapshot en r snapshot)"
  unfolding outer_fingerprints_def snapshot_route_def merge_children_def undo_children_def hold_route_def
    begin_quiesce_def load_snapshot_def Let_def
  by (intro keeps_intros)+

lemma keeps_auth_attribution [keeps_intros]:
  "keeps (on_auth P) (record_attribution B en r snapshot outcomes errors before)"
  unfolding record_attribution_def Let_def by (intro keeps_intros)

lemma keeps_auth_steps [keeps_intros]:
  "keeps (on_auth P) (quiesce_route B en r)"
  "keeps (on_auth P) (merge_route B en v r)"
  "keeps (on_auth P) (failed_provision B en r created e)"
  unfolding quiesce_route_def merge_route_def failed_provision_def Let_def
  by (intro keeps_intros)+

lemma keeps_auth_frozen [keeps_intros]: "keeps (on_auth P) (finish_frozen B en r snapshot)"
  unfolding finish_frozen_def by (intro keeps_intros)

lemma keeps_auth_end [keeps_intros]: "keeps (on_auth P) (end_route B en r)"
  unfolding end_route_def by (intro keeps_intros)

lemma keeps_auth_routes [keeps_intros]:
  "keeps (on_auth P) (end_workspace_session B en key)"
  "keeps (on_auth P) (provision B en provider logical key' generation adm)"
  unfolding end_workspace_session_def provision_def Let_def by (intro keeps_intros)+

lemma keeps_auth_scopes [keeps_intros]:
  "keeps (on_auth P) (workspace_scopes pol)"
  "keeps (on_auth P) hook_workspace_refs"
  "keeps (on_auth P) (workspace_proposals pol)"
  "keeps (on_auth P) (workspace_ceiling pol)"
  unfolding workspace_scopes_def hook_workspace_refs_def workspace_proposals_def workspace_ceiling_def
  by (intro keeps_intros)+

lemma keeps_auth_rewrite [keeps_intros]: "keeps (on_auth P) (rewrite_workspace_scopes pol scopes)"
  unfolding rewrite_workspace_scopes_def by (intro keeps_intros)

lemma keeps_auth_union [keeps_intros]: "keeps (on_auth P) (replace_dynamic_union T en confirmed event detail)"
proof -
  have first: "keeps (on_auth P) (mod_session (\<lambda>s. if str_unset (s_workspace s) \<and> c then s\<lparr>s_workspace := x\<rparr> else s))" for c x
    by (rule keeps_mod_session) (simp add: on_auth_def)
  show ?thesis unfolding replace_dynamic_union_def by (intro keeps_intros first)
qed

lemma keeps_auth_decisions [keeps_intros]:
  "keeps (on_auth P) (live_changes T)"
  "keeps (on_auth P) decision_map"
  "keeps (on_auth P) (mark_paths paths decision)"
  "keeps (on_auth P) (unmark_paths paths)"
  unfolding live_changes_def decision_map_def mark_paths_def unmark_paths_def
  by (intro keeps_intros)+

lemma keeps_auth_marks [keeps_intros]:
  "keeps (on_auth P) (paths_with_decisions values)"
  "keeps (on_auth P) (keep_paths paths)"
  "keeps (on_auth P) (turn_apply_one T acc c)"
  unfolding paths_with_decisions_def keep_paths_def turn_apply_one_def
  by (intro keeps_intros)+

lemma keeps_auth_views [keeps_intros]:
  "keeps (on_auth P) (turn_plan T changes)"
  "keeps (on_auth P) (turn_apply T changes)"
  "keeps (on_auth P) (decision_path_view T decision)"
  "keeps (on_auth P) (hold_for_abort T en)"
  "keeps (on_auth P) (turn_noop en)"
  "keeps (on_auth P) (close_turn en committed refused)"
  "keeps (on_auth P) (default_kept en new_oos committed refused)"
  unfolding turn_plan_def turn_apply_def decision_path_view_def hold_for_abort_def turn_noop_def close_turn_def default_kept_def Let_def
  by (intro keeps_intros)+

lemma keeps_auth_discard_one [keeps_intros]: "keeps (on_auth P) (discard_one T live acc path)"
  unfolding discard_one_def by (cases "filter (\<lambda>c. ch_path c = path) live") (auto intro!: keeps_intros)

lemma keeps_auth_discard [keeps_intros]: "keeps (on_auth P) (discard_paths T paths)"
  unfolding discard_paths_def Let_def by (intro keeps_intros)

lemma keeps_auth_small [keeps_intros]:
  "keeps (on_auth P) (settle en event n response)"
  "keeps (on_auth P) (kept_status T)"
  "keeps (on_auth P) (review_kept T en)"
  "keeps (on_auth P) (request_abort en)"
  "keeps (on_auth P) (workspace_proposal_status T)"
  "keeps (on_auth P) (confirm_workspace_roots T en ps)"
  "keeps (on_auth P) (lookup_route en provider hint)"
  "keeps (on_auth P) (record_result en rid verdict reason)"
  unfolding settle_def kept_status_def review_kept_def request_abort_def workspace_proposal_status_def confirm_workspace_roots_def
    lookup_route_def record_result_def Let_def
  by (intro keeps_intros)+

lemma keeps_auth_request [keeps_intros]: "keeps (on_auth P) (record_request en req)"
  unfolding record_request_def by (cases "get_default req ''route_id'' JNull") (auto intro!: keeps_intros)

lemma keeps_auth_hooks [keeps_intros]:
  "keeps (on_auth P) (authorized_by_ceiling pol key)"
  "keeps (on_auth P) (propose_workspace T en hook workspace key scopes proposals)"
  unfolding authorized_by_ceiling_def propose_workspace_def Let_def
  by (intro keeps_intros)+

lemma keeps_auth_workspace [keeps_intros]:
  "keeps (on_auth P) (mod_session (\<lambda>s. if str_unset (s_workspace s) then s\<lparr>s_workspace := x\<rparr> else s))"
  "keeps (on_auth P) (mod_session (\<lambda>s. s\<lparr>s_workspace := x\<rparr>))"
  by (rule keeps_mod_session, simp add: on_auth_def)+

lemma keeps_auth_activate [keeps_intros]:
  "keeps (on_auth P) (activate_workspace T en hook workspace key scopes listed refs proposals authorized)"
  unfolding activate_workspace_def Let_def by (intro keeps_intros)

lemma keeps_auth_hook_requests [keeps_intros]:
  "keeps (on_auth P) (add_workspace T en path hook)"
  "keeps (on_auth P) (remove_workspace T en path hook)"
  unfolding add_workspace_def remove_workspace_def Let_def by (intro keeps_intros keeps_auth_workspace(2))+

section \<open>Generations\<close>

text \<open>The generation under which a logical session is recorded.\<close>

definition generation_of :: "(string, json) dict \<Rightarrow> string \<Rightarrow> int option" where
  "generation_of auth key = (case dict_get auth key of
     Some (JObj rec) \<Rightarrow> as_number (get_default rec ''generation'' JNull) | _ \<Rightarrow> None)"

definition gen_floor :: "string \<Rightarrow> int \<Rightarrow> (string, json) dict \<Rightarrow> bool" where
  "gen_floor key m auth \<longleftrightarrow> (\<exists>n\<ge>m. generation_of auth key = Some n)"

text \<open>Writing a record whose generation is not below the one it replaces.\<close>

definition raises_generation :: "string \<Rightarrow> json \<Rightarrow> (string, json) dict \<Rightarrow> bool" where
  "raises_generation key v auth \<longleftrightarrow> (\<forall>m. generation_of auth key = Some m \<longrightarrow> gen_floor key m (dict_set auth key v))"

lemma put_record_floor:
  assumes "gen_floor key m (s_auth_sessions (w_session w))" "raises_generation k v (s_auth_sessions (w_session w))"
  shows "wp (put_record k v) (\<lambda>_. on_auth (gen_floor key m)) E w"
  using assms unfolding put_record_def mod_session_def wp_mod
  by (cases "k = key") (auto simp: on_auth_def gen_floor_def raises_generation_def generation_of_def)

lemma put_record_then:
  assumes "gen_floor key m (s_auth_sessions (w_session w))" "raises_generation k v (s_auth_sessions (w_session w))"
    "keeps (on_auth (gen_floor key m)) n"
  shows "wp (seqE (put_record k v) n) (\<lambda>_. on_auth (gen_floor key m)) (\<lambda>_. on_auth (gen_floor key m)) w"
  unfolding wp_seq
  by (rule wp_mono [OF put_record_floor [OF assms(1,2)]]) (use assms(3) in \<open>auto simp: keeps_wp\<close>)

lemma newer_raises:
  assumes "check_generation_against (dict_get auth key) n state roots = Newer"
  shows "raises_generation key (session_record en source inst digest n roots' state') auth"
proof -
  have "m \<le> n" if "generation_of auth key = Some m" for m
    using assms that unfolding check_generation_against_def generation_of_def
    by (auto split: option.splits json.splits if_splits)
  then show ?thesis
    by (auto simp: raises_generation_def gen_floor_def generation_of_def session_record_def get_default_def)
qed

lemma keeps_floor_replace [keeps_intros]:
  "keeps (on_auth (gen_floor key m)) (replace_workspace_session T en source logical generation paths state inst)"
proof -
  have newer: "wp (seqE (put_record k (session_record en source inst digest n roots state)) rest)
        (\<lambda>_. on_auth (gen_floor key m)) (\<lambda>_. on_auth (gen_floor key m)) w"
    if "on_auth (gen_floor key m) w" "check_generation_against (dict_get (s_auth_sessions (w_session w)) k) n state roots = Newer"
      "keeps (on_auth (gen_floor key m)) rest"
    for k source inst digest n roots state rest and w :: "'b world"
    by (rule put_record_then [OF _ newer_raises]) (use that in \<open>auto simp: on_auth_def\<close>)
  have check: "keeps (on_auth (gen_floor key m))
      (bindE (getE (\<lambda>w. check_generation_against (dict_get (s_auth_sessions (w_session w)) k) n state roots)) (\<lambda>check. case check of
        Stale \<Rightarrow> raiseE e | Collision \<Rightarrow> raiseE e' | Repeated \<Rightarrow> retE d
      | Newer \<Rightarrow> seqE (put_record k (session_record en source inst digest n roots state)) rest))"
    if "keeps (on_auth (gen_floor key m)) rest" for k n state roots e e' d source inst digest and rest :: "('b world, pydict) eff"
    unfolding keeps_wp wp_bind wp_get
    by (auto split: generation_check.split simp: wp_simps intro: newer [unfolded wp_seq] that)
  show ?thesis
    unfolding replace_workspace_session_def Let_def
    by (intro keeps_intros check)
qed

text \<open>A record that is written back with other fields.\<close>

lemma same_generation_raises:
  assumes "dict_get auth key = Some (JObj rec)" "get_default rec' ''generation'' JNull = get_default rec ''generation'' JNull"
  shows "raises_generation key (JObj rec') auth"
  using assms by (auto simp: raises_generation_def gen_floor_def generation_of_def)

lemma ended_raises:
  assumes "dict_get auth key = Some (JObj rec)" "end_record en rec = Inr v"
  shows "raises_generation key v auth"
proof -
  obtain g where g: "as_int (get_default rec ''generation'' (JInt 0)) = Inr g"
    and v: "v = JObj (dict_set (dict_set (dict_set (dict_set rec ''state'' (JStr ''ended'')) ''roots'' (JArr []))
              ''generation'' (JInt (g + 1))) ''updated_at'' (JStr (en_now en)))"
    using assms(2) unfolding end_record_def by (auto simp: bindR_eq_Inr)
  have "m = g" if "as_number (get_default rec ''generation'' JNull) = Some m" for m
    using g that by (cases "dict_get rec ''generation''"; cases "the (dict_get rec ''generation'')") (auto simp: get_default_def)
  then show ?thesis
    using assms(1) by (auto simp: v raises_generation_def gen_floor_def generation_of_def get_default_def)
qed

lemma get_item_object:
  "get_item d k = Inr v \<Longrightarrow> dict_get d k = Some v"
  by (simp add: get_item_def split: option.splits)

lemma wp_end_one:
  fixes w :: "'b world"
  assumes w: "on_auth (gen_floor key m) w" and rec: "dict_get (s_auth_sessions (w_session w)) k = Some (JObj rec)"
  shows "wp (bindE (end_workspace_session B en (Some k)) (\<lambda>route. bindE (liftE (end_record en rec)) (\<lambda>v'. seqE (put_record k v') (retE (f route)))))
           (\<lambda>_. on_auth (gen_floor key m)) (\<lambda>_. on_auth (gen_floor key m)) w" (is "wp _ (\<lambda>_. ?I) _ w")
proof -
  let ?auth = "s_auth_sessions (w_session w)"
  have floor: "gen_floor key m ?auth" using w by (simp add: on_auth_def)
  have rest: "wp (bindE (liftE (end_record en rec)) (\<lambda>v'. seqE (put_record k v') (retE (f route)))) (\<lambda>_. ?I) (\<lambda>_. ?I) u"
    if "on_auth ((=) ?auth) u" for u :: "'b world" and route
  proof (cases "end_record en rec")
    case (Inr v')
    have "wp (seqE (put_record k v') (retE (f route))) (\<lambda>_. ?I) (\<lambda>_. ?I) u"
      by (rule put_record_then [OF _ ended_raises [OF _ Inr] keeps_basic(1)]) (use that floor rec in \<open>auto simp: on_auth_def\<close>)
    then show ?thesis by (simp add: wp_bind wp_lift Inr)
  qed (use that floor in \<open>simp add: wp_simps on_auth_def\<close>)
  have err: "?I u" if "on_auth ((=) ?auth) u" for u :: "'b world" using that floor by (simp add: on_auth_def)
  show ?thesis
    unfolding wp_bind [of "end_workspace_session B en (Some k)"]
    by (rule wp_keeps [OF keeps_auth_routes(1) [where P = "(=) ?auth"]]) (simp add: on_auth_def, erule rest, erule err)
qed

lemma keeps_floor_revoke_one [keeps_intros]: "keeps (on_auth (gen_floor key m)) (revoke_one (T :: 'b turn_controller) en source inst acc k)"
  unfolding keeps_wp
proof (intro allI impI)
  fix w :: "'b world" assume w: "on_auth (gen_floor key m) w"
  show "wp (revoke_one T en source inst acc k) (\<lambda>_. on_auth (gen_floor key m)) (\<lambda>_. on_auth (gen_floor key m)) w"
  proof (cases "get_item (s_auth_sessions (w_session w)) k")
    case (Inr v)
    show ?thesis
      unfolding revoke_one_def wp_bind [of "readE _"] wp_read Inr
      by (cases v) (use w wp_end_one [OF w] get_item_object [OF Inr] in \<open>auto simp: wp_ret\<close>)
  qed (auto simp: revoke_one_def wp_simps w)
qed

lemma keeps_floor_revoke [keeps_intros]:
  "keeps (on_auth (gen_floor key m)) (revoke_workspace_authority T en source inst reason)"
  unfolding revoke_workspace_authority_def Let_def by (intro keeps_intros)

lemma keeps_floor_revalidate_one [keeps_intros]: "keeps (on_auth (gen_floor key m)) (revalidate_one pol invalid k :: ('b world, _) eff)"
  unfolding keeps_wp
proof (intro allI impI)
  fix w :: "'b world" assume w: "on_auth (gen_floor key m) w"
  show "wp (revalidate_one pol invalid k) (\<lambda>_. on_auth (gen_floor key m)) (\<lambda>_. on_auth (gen_floor key m)) w"
  proof (cases "get_item (s_auth_sessions (w_session w)) k")
    case (Inr v)
    have put: "wp (seqE (put_record k (JObj (dict_set rec ''roots'' x))) (retE invalid))
        (\<lambda>_. on_auth (gen_floor key m)) (\<lambda>_. on_auth (gen_floor key m)) w" if "v = JObj rec" for rec x
      by (rule put_record_then [OF _ same_generation_raises keeps_basic(1)])
        (use w that get_item_object [OF Inr] in \<open>auto simp: on_auth_def get_default_def\<close>)
    show ?thesis
      unfolding revalidate_one_def wp_bind [of "readE _"] wp_read Inr
      by (cases v) (use w put in \<open>auto simp: wp_simps split: sum.split\<close>)
  qed (auto simp: revalidate_one_def wp_simps w)
qed

lemma keeps_floor_invalidate [keeps_intros]: "keeps (on_auth (gen_floor key m)) (invalidate_record en x :: ('b world, _) eff)"
  unfolding keeps_wp
proof (intro allI impI)
  fix w :: "'b world" assume w: "on_auth (gen_floor key m) w"
  have put: "wp (put_record (fst x) (JObj (dict_set (dict_set (dict_set (dict_set rec ''state'' a) ''roots'' b) ''updated_at'' c) ''invalid_reason'' d)))
      (\<lambda>_. on_auth (gen_floor key m)) (\<lambda>_. on_auth (gen_floor key m)) w"
    if "get_item (s_auth_sessions (w_session w)) (fst x) = Inr (JObj rec)" for rec a b c d
    by (rule put_record_floor [OF _ same_generation_raises])
      (use w get_item_object [OF that] in \<open>auto simp: on_auth_def get_default_def\<close>)
  show "wp (invalidate_record en x) (\<lambda>_. on_auth (gen_floor key m)) (\<lambda>_. on_auth (gen_floor key m)) w"
  proof (cases "get_item (s_auth_sessions (w_session w)) (fst x)")
    case (Inr v)
    then show ?thesis by (cases v) (auto simp: invalidate_record_def wp_simps w put)
  qed (auto simp: invalidate_record_def wp_simps w)
qed

lemma keeps_floor_sessions [keeps_intros]: "keeps (on_auth (gen_floor key m)) (revalidate_active_sessions T en)"
  unfolding revalidate_active_sessions_def by (intro keeps_intros)

lemma keeps_floor_commit [keeps_intros]:
  "keeps (on_auth (gen_floor key m)) (turn_commit T en to_apply)"
  "keeps (on_auth (gen_floor key m)) (commit_paths T en paths)"
  unfolding turn_commit_def commit_paths_def Let_def by (intro keeps_intros)+

lemma keeps_floor_review [keeps_intros]:
  "keeps (on_auth (gen_floor key m)) (resolve_granular T en pending commit keep discard)"
  "keeps (on_auth (gen_floor key m)) (resolve_turn T en decision ps)"
  unfolding resolve_granular_def resolve_turn_def Let_def by (intro keeps_intros)+

lemma keeps_floor_approve [keeps_intros]:
  "keeps (on_auth (gen_floor key m)) (approve_pending T en pending decision ps commit keep discard)"
  unfolding approve_pending_def Let_def by (intro keeps_intros)

text \<open>The controller's own state beside the world.\<close>

lemma keeps_on_world [keeps_intros]: "keeps I m \<Longrightarrow> keeps (\<lambda>t. I (fst t)) (on_world m)"
  unfolding keeps_wp wp_on_world by auto

lemma keeps_beside: "keeps (\<lambda>t. I (fst t)) (modE (\<lambda>t. (fst t, f t)))"
  by (rule keeps_mod) simp

lemma keeps_floor_turn [keeps_intros]:
  "keeps (\<lambda>t. on_auth (gen_floor key m) (fst t)) (conclude_turn en default_keep new_oos committed refused)"
  "keeps (\<lambda>t. on_auth (gen_floor key m) (fst t)) (approve_turn T en token decision ps commit keep discard)"
  unfolding conclude_turn_def ask_approval_def approve_turn_def by (intro keeps_intros keeps_beside)+

lemma keeps_floor_finalize [keeps_intros]:
  "keeps (\<lambda>t. on_auth (gen_floor key m) (fst t)) (finalize_turn T en default_keep)"
  unfolding finalize_turn_def by (intro keeps_intros)

lemma keeps_floor_handle: "keeps (\<lambda>t. on_auth (gen_floor key m) (fst t)) (handle T en req)"
  unfolding handle_def Let_def by (intro keeps_intros)

text \<open>The requests of a controller, one after the other, each with its own environment.\<close>

inductive served :: "'b turn_controller \<Rightarrow> 'b turn \<Rightarrow> 'b turn \<Rightarrow> bool" for T where
  served_none: "served T t t"
| served_request: "served T t u \<Longrightarrow> served T t (snd (handle T en req u))"

section \<open>Revocation\<close>

text \<open>What a revocation makes of a record: a record owned by the closed transport is ended, another one stays.\<close>

definition after_revocation :: "env \<Rightarrow> string \<Rightarrow> string \<Rightarrow> json option \<Rightarrow> json option" where
  "after_revocation en source inst old =
     (case old of
        Some (JObj rec) \<Rightarrow>
          if owned_by source inst (JObj rec) then (case end_record en rec of Inr v \<Rightarrow> Some v | Inl e \<Rightarrow> None) else old
      | _ \<Rightarrow> old)"

lemma ended_not_owned: "end_record en rec = Inr v \<Longrightarrow> \<not> owned_by source inst v"
  by (auto simp: end_record_def bindR_eq_Inr owned_by_def active_record_def get_default_def)

lemma after_revocation_not_owned: "after_revocation en source inst old = Some v \<Longrightarrow> \<not> owned_by source inst v"
  unfolding after_revocation_def
  by (auto split: option.splits json.splits if_splits sum.splits dest: ended_not_owned)
    (auto simp: owned_by_def)

lemma after_revocation_idem [simp]:
  "after_revocation en source inst (after_revocation en source inst old) = after_revocation en source inst old"
proof (cases "after_revocation en source inst old")
  case (Some v)
  then have "\<not> owned_by source inst v" by (rule after_revocation_not_owned)
  then show ?thesis unfolding Some by (cases v) (auto simp: after_revocation_def)
qed (simp add: after_revocation_def)

definition records_follow :: "(string \<Rightarrow> json option) \<Rightarrow> 'b world \<Rightarrow> bool" where
  "records_follow f w \<longleftrightarrow> (\<forall>key. auth_record key w = f key)"

lemma records_follow_auth: "records_follow f = on_auth (\<lambda>auth. \<forall>key. dict_get auth key = f key)"
  by (auto simp: records_follow_def on_auth_def auth_record_def fun_eq_iff)

lemma wp_revoke_one:
  assumes f: "records_follow f w"
  shows "wp (revoke_one T en source inst acc k)
           (\<lambda>_. records_follow (f(k := after_revocation en source inst (f k)))) (\<lambda>_ _. True) w"
proof (cases "get_item (s_auth_sessions (w_session w)) k")
  case (Inr v)
  have fk: "f k = Some v" using f get_item_object [OF Inr] by (simp add: records_follow_def auth_record_def)
  have stays: ?thesis if "\<not> owned_by source inst v"
  proof -
    have "after_revocation en source inst (f k) = f k"
      using that by (auto simp: after_revocation_def fk split: json.split)
    then show ?thesis
      unfolding revoke_one_def wp_bind wp_read Inr using that f by (cases v) (auto simp: wp_ret)
  qed
  show ?thesis
  proof (cases "owned_by source inst v")
    case True
    then obtain rec where v: "v = JObj rec" by (cases v) (auto simp: owned_by_def)
    have put: "wp (bindE (liftE (end_record en rec)) (\<lambda>v'. seqE (put_record k v') (retE (g route))))
        (\<lambda>_. records_follow (f(k := after_revocation en source inst (f k)))) (\<lambda>_ _. True) u"
      if "records_follow f u" for u :: "'a world" and g :: "delta_route option \<Rightarrow> int \<times> (string, string) dict" and route
      using that True
      by (auto simp: wp_simps put_record_def mod_session_def records_follow_def auth_record_def after_revocation_def fk v split: sum.split)
    show ?thesis
      unfolding revoke_one_def wp_bind [of "readE _"] wp_read Inr v json.simps sum.case
      using True unfolding v
      by (simp, unfold wp_bind [of "end_workspace_session _ _ _"])
        (rule wp_keeps [OF keeps_auth_routes(1) f [unfolded records_follow_auth]], unfold records_follow_auth [symmetric], erule put, simp)
  qed (rule stays)
qed (simp add: revoke_one_def wp_simps)

lemma wp_revoke_all:
  fixes T :: "'b turn_controller"
  shows "records_follow f w \<Longrightarrow> wp (foldE (revoke_one T en source inst) acc ks)
     (\<lambda>_. records_follow (\<lambda>key. if key \<in> set ks then after_revocation en source inst (f key) else f key)) (\<lambda>_ _. True) w"
proof (induction ks arbitrary: f acc w)
  case (Cons k ks)
  show ?case
    unfolding foldE.simps wp_bind
  proof (rule wp_mono [OF wp_revoke_one [OF Cons.prems]])
    fix acc' and u :: "'b world" assume "records_follow (f(k := after_revocation en source inst (f k))) u"
    from Cons.IH [OF this]
    show "wp (foldE (revoke_one T en source inst) acc' ks)
        (\<lambda>_. records_follow (\<lambda>key. if key \<in> set (k # ks) then after_revocation en source inst (f key) else f key)) (\<lambda>_ _. True) u"
      by (rule wp_mono) (auto simp: records_follow_def)
  qed simp
qed (simp add: wp_ret)

lemma wp_then_keeps:
  "wp m (\<lambda>_. I) (\<lambda>_ _. True) s \<Longrightarrow> (\<And>x. keeps I (f x)) \<Longrightarrow> wp (bindE m f) (\<lambda>_. I) (\<lambda>_ _. True) s"
  unfolding wp_bind by (erule wp_mono) (auto intro: wp_keeps)

lemma wp_revoke_authority:
  "wp (revoke_workspace_authority T en source inst reason)
     (\<lambda>_. records_follow (\<lambda>key. after_revocation en (str_lower (owner_name source)) (owner_name inst) (auth_record key w))) (\<lambda>_ _. True) w"
  (is "wp _ (\<lambda>_. records_follow ?f) _ _")
proof -
  have all: "wp (foldE (revoke_one T en (str_lower (owner_name source)) (owner_name inst)) acc (map fst (s_auth_sessions (w_session w))))
      (\<lambda>_. records_follow ?f) (\<lambda>_ _. True) w" for acc
  proof (rule wp_mono [OF wp_revoke_all])
    show "records_follow (\<lambda>key. auth_record key w) w" by (simp add: records_follow_def)
    have missing: "?f key = auth_record key w" if "key \<notin> set (map fst (s_auth_sessions (w_session w)))" for key
      using that map_of_eq_None_iff [of "s_auth_sessions (w_session w)" key]
      by (auto simp: auth_record_def after_revocation_def)
    fix u :: "'a world"
    assume "records_follow (\<lambda>key. if key \<in> set (map fst (s_auth_sessions (w_session w)))
       then after_revocation en (str_lower (owner_name source)) (owner_name inst) (auth_record key w) else auth_record key w) u"
    then show "records_follow ?f u" using missing by (simp add: records_follow_def)
  qed simp
  show ?thesis
    unfolding revoke_workspace_authority_def Let_def wp_bind [of "getE _"] wp_get
    by (rule wp_then_keeps [OF all], unfold records_follow_auth) (intro keeps_intros)
qed

section \<open>Replacement\<close>

lemma wp_put_generation:
  "keeps (on_auth (gen_floor key n)) rest \<Longrightarrow>
   wp (seqE (put_record key (session_record en source inst digest n roots state)) rest) (\<lambda>_. on_auth (gen_floor key n)) (\<lambda>_ _. True) w"
  unfolding wp_seq put_record_def mod_session_def wp_mod
  by (erule wp_keeps) (auto simp: on_auth_def gen_floor_def generation_of_def session_record_def get_default_def)

lemma repeated_floor: "check_generation_against (dict_get auth key) n state roots = Repeated \<Longrightarrow> gen_floor key n auth"
  unfolding check_generation_against_def gen_floor_def generation_of_def
  by (auto split: option.splits json.splits if_splits)

lemma stale_check: "gen_floor key n auth \<Longrightarrow> m < n \<Longrightarrow> check_generation_against (dict_get auth key) m state roots = Stale"
  unfolding check_generation_against_def gen_floor_def generation_of_def
  by (auto split: option.splits json.splits)

lemma wp_read_then:
  "(\<And>x. g s = Inr x \<Longrightarrow> wp (f x) Q (\<lambda>_ _. True) s) \<Longrightarrow> wp (bindE (readE g) f) Q (\<lambda>_ _. True) s"
  "(\<And>x. r = Inr x \<Longrightarrow> wp (f x) Q (\<lambda>_ _. True) s) \<Longrightarrow> wp (bindE (liftE r) f) Q (\<lambda>_ _. True) s"
  by (simp_all add: wp_simps split: sum.split)

lemma wp_replace_floor:
  assumes key: "workspace_session_key en source inst logical = Inr (key, digest, source', inst')"
  shows "wp (replace_workspace_session T en source logical (JInt n) paths state inst) (\<lambda>_. on_auth (gen_floor key n)) (\<lambda>_ _. True) w"
proof -
  have rest: "wp (bindE (getE (\<lambda>w. check_generation_against (dict_get (s_auth_sessions (w_session w)) key) m state roots)) (\<lambda>check. case check of
        Stale \<Rightarrow> raiseE e | Collision \<Rightarrow> raiseE e' | Repeated \<Rightarrow> retE d
      | Newer \<Rightarrow> seqE (put_record key (session_record en source inst digest m roots state)) rest))
      (\<lambda>_. on_auth (gen_floor key n)) (\<lambda>_ _. True) u"
    if "m = n" "keeps (on_auth (gen_floor key n)) rest" for m state roots e e' d source inst digest rest and u :: "'a world"
    using wp_put_generation [OF that(2)] repeated_floor [of "s_auth_sessions (w_session u)"]
    by (auto simp: that(1) wp_bind wp_get wp_raise wp_ret on_auth_def split: generation_check.split)
  have n: "n' = n" if "check_replacement (JInt n) paths state = Inr (n', ps, st)" for n' ps st
    using that by (auto simp: check_replacement_def split: if_splits json.splits)
  show ?thesis
    unfolding replace_workspace_session_def Let_def key
    by (rule wp_read_then(2), clarsimp, rule wp_read_then(2), clarsimp, rule wp_read_then(1), rule rest, simp add: n, intro keeps_intros)
qed

lemma keeps_floor_served:
  assumes "served T t u" "on_auth (gen_floor key m) (fst t)"
  shows "on_auth (gen_floor key m) (fst u)"
  using assms
proof (induction rule: served.induct)
  case (served_request t u en req)
  then show ?case using keeps_floor_handle [of key m T en req] unfolding keeps_def by blast
qed

section \<open>Properties\<close>

text \<open>C20. Whatever requests the control socket serves, in any order and with any outcome, the generation under which a
  logical session is recorded never goes back.\<close>

theorem generations_never_decrease:
  assumes "served T (w, pending) (w', pending')" "generation_of (s_auth_sessions (w_session w)) key = Some m"
  shows "\<exists>n\<ge>m. generation_of (s_auth_sessions (w_session w')) key = Some n"
  using keeps_floor_served [OF assms(1), of key m] assms(2) by (auto simp: on_auth_def gen_floor_def)

definition auth_world :: "fake world" where
  "auth_world = turn_world (turn_session\<lparr>s_auth_sessions := [(''k'', JObj [(''source'', JStr ''mcp-codex''),
     (''authority_instance'', JStr ''i1''), (''generation'', JInt 4), (''roots'', JArr []), (''state'', JStr ''active'')])]\<rparr>)"

definition revoke_request :: pydict where
  "revoke_request = [(''op'', JStr ''workspace-authority-revoke''), (''source'', JStr ''mcp-codex''), (''authority_instance'', JStr ''i1'')]"

lemma generations_never_decrease_witness:
  "\<exists>w' n. snd (handle (turn_setup []) sample_env revoke_request (auth_world, [])) = (w', []) \<and>
     generation_of (s_auth_sessions (w_session w')) ''k'' = Some n \<and> 4 \<le> n"
proof -
  obtain w' p where run: "snd (handle (turn_setup []) sample_env revoke_request (auth_world, [])) = (w', p)"
    by (metis prod.exhaust)
  have p: "snd (snd (handle (turn_setup []) sample_env revoke_request (auth_world, []))) = []" by code_simp
  have "served (turn_setup []) (auth_world, []) (w', p)"
    using served_request [OF served_none [of "turn_setup []" "(auth_world, [])"], where en = sample_env and req = revoke_request]
    by (simp add: run)
  moreover have "generation_of (s_auth_sessions (w_session auth_world)) ''k'' = Some 4" by code_simp
  ultimately show ?thesis using generations_never_decrease p run by fastforce
qed

text \<open>C21. Replay is refused: once a replacement under a generation has been accepted, and whatever was served since, a
  replacement of the same logical session under a smaller generation is refused and changes nothing.\<close>

theorem stale_generation_refused:
  assumes "replace_workspace_session T en source logical (JInt n) paths state inst w = (Inr d, w1)"
    and "served T (w1, pending) (w2, pending2)" and "m < n" and "en_sha en' = en_sha en"
  shows "\<exists>e. replace_workspace_session T en' source logical (JInt m) paths' state' inst w2 = (Inl e, w2)"
proof (cases "workspace_session_key en source inst logical")
  case (Inl e)
  then show ?thesis using assms(1) by (simp add: replace_workspace_session_def bindE_def liftE_def)
next
  case (Inr r)
  obtain key digest source' inst' where r: "r = (key, digest, source', inst')" by (cases r)
  have key': "workspace_session_key en' source inst logical = Inr (key, digest, source', inst')"
    using Inr [unfolded r] unfolding workspace_session_key_def assms(4) .
  have "on_auth (gen_floor key n) w1" using wp_result [OF wp_replace_floor [OF Inr [unfolded r]] assms(1)] by simp
  then have "on_auth (gen_floor key n) w2" using keeps_floor_served [OF assms(2)] by simp
  then have stale: "check_generation_against (dict_get (s_auth_sessions (w_session w2)) key) m st roots = Stale" for st roots
    using stale_check assms(3) by (simp add: on_auth_def)
  have m: "m' = m" if "check_replacement (JInt m) paths' state' = Inr (m', ps, st)" for m' ps st
    using that by (auto simp: check_replacement_def split: if_splits json.splits)
  show ?thesis
    unfolding replace_workspace_session_def Let_def key'
    by (auto simp: bindE_def liftE_def readE_def getE_def raiseE_def stale dest!: m split: sum.split)
qed

text \<open>Revoking a transport ends exactly what it owns: after a revocation that returns, every record of an active
  session of this source and instance is ended, without roots and under a new generation, no other record has
  changed, and no active record of the transport is left.\<close>

theorem revoke_ends_exactly:
  assumes "revoke_workspace_authority T en source inst reason w = (Inr d, w')"
  shows "auth_record key w' = after_revocation en (str_lower (owner_name source)) (owner_name inst) (auth_record key w) \<and>
    (\<forall>v. auth_record key w' = Some v \<longrightarrow> \<not> owned_by (str_lower (owner_name source)) (owner_name inst) v)"
  using wp_result [OF wp_revoke_authority assms] after_revocation_not_owned by (auto simp: records_follow_def)

lemma revoke_ends_exactly_witness:
  "\<exists>d w'. revoke_workspace_authority (turn_setup []) sample_env (JStr ''mcp-codex'') (JStr ''i1'') JNull auth_world = (Inr d, w') \<and>
     generation_of (s_auth_sessions (w_session w')) ''k'' = Some 5"
proof -
  let ?run = "revoke_workspace_authority (turn_setup []) sample_env (JStr ''mcp-codex'') (JStr ''i1'') JNull auth_world"
  have "case fst ?run of Inr d \<Rightarrow> True | Inl _ \<Rightarrow> False" by code_simp
  then obtain d w' where run: "?run = (Inr d, w')" by (auto split: sum.splits simp: prod_eq_iff)
  have "case after_revocation sample_env (str_lower (owner_name (JStr ''mcp-codex''))) (owner_name (JStr ''i1'')) (auth_record ''k'' auth_world) of
      Some (JObj rec) \<Rightarrow> as_number (get_default rec ''generation'' JNull) = Some 5 | _ \<Rightarrow> False"
    by code_simp
  moreover have "auth_record ''k'' w' = after_revocation sample_env (str_lower (owner_name (JStr ''mcp-codex''))) (owner_name (JStr ''i1''))
      (auth_record ''k'' auth_world)"
    using revoke_ends_exactly [OF run] by simp
  ultimately have "generation_of (s_auth_sessions (w_session w')) ''k'' = Some 5"
    by (auto simp: generation_of_def auth_record_def split: option.splits json.splits)
  then show ?thesis using run by blast
qed

definition replace_run :: "int \<Rightarrow> fake world \<Rightarrow> pydict result \<times> fake world" where
  "replace_run n = replace_workspace_session (turn_setup []) sample_env (JStr ''mcp-codex'') (JStr ''thread'') (JInt n) (JArr [])
     (JStr ''active'') (JStr ''i1'')"

lemma stale_generation_refused_witness: "\<exists>e w'. replace_run 2 (snd (replace_run 3 auth_world)) = (Inl e, w')"
proof -
  have "case fst (replace_run 3 auth_world) of Inr d \<Rightarrow> True | Inl _ \<Rightarrow> False" by code_simp
  then obtain d w' where run: "replace_run 3 auth_world = (Inr d, w')" by (auto split: sum.splits simp: prod_eq_iff)
  have "\<exists>e. replace_run 2 w' = (Inl e, w')"
    unfolding replace_run_def
    by (rule stale_generation_refused [OF run [unfolded replace_run_def] served_none [of _ "(w', [])"]]) simp_all
  then show ?thesis by (metis run snd_conv)
qed

end
