(* ===== verification/Procs.thy ===== *)
theory Procs
  imports CtlView
begin

text \<open>
  What the control server reads of a process (\<open>control.py\<close>, top): the identity parsed out of procfs, whether its
  descriptors are hidden, its process ids in the namespaces, the names it is recognised by and its ancestry.
  The files of procfs are the argument \<open>procs\<close>: one operation reads one table, \<open>None\<close> is a file that cannot be read.
\<close>

record proc_files =
  pf_stat :: "string option"
  pf_cmdline :: "string option"
  pf_exe :: "string option"
  pf_fd :: "pyexn option"
  pf_status :: "string option"
  pf_children :: "string option"

type_synonym procs = "(int, proc_files) dict"

section \<open>Reading numbers\<close>

text \<open>\<open>int(s)\<close> of a decimal text.\<close>

definition py_int :: "string \<Rightarrow> int result" where
  "py_int s =
     (let t = str_strip s;
          sign = (if startswith t ''-'' then -1 else 1);
          ds = (if startswith t ''-'' \<or> startswith t ''+'' then tl t else t)
      in if ds \<noteq> [] \<and> list_all is_digit ds then Inr (sign * digits_value ds) else Inl (ValueError ''invalid literal for int()''))"

definition item :: "'a list \<Rightarrow> nat \<Rightarrow> 'a result" where
  "item xs n = (if n < length xs then Inr (xs ! n) else Inl (ValueError ''list index out of range''))"

text \<open>\<open>s[s.rfind(c) + n:]\<close>, where \<open>rfind\<close> is -1 for a missing character.\<close>

fun after_last :: "char \<Rightarrow> string \<Rightarrow> string option" where
  "after_last c [] = None"
| "after_last c (x # xs) = (case after_last c xs of Some t \<Rightarrow> Some t | None \<Rightarrow> if x = c then Some xs else None)"

definition after_comm :: "string \<Rightarrow> string" where
  "after_comm line = (case after_last (CHR '')'') line of Some t \<Rightarrow> drop 1 t | None \<Rightarrow> drop 1 line)"

definition is_ascii :: "string \<Rightarrow> bool" where
  "is_ascii s \<longleftrightarrow> list_all (\<lambda>c. (of_char c :: nat) < 128) s"

section \<open>Identity\<close>

record identity =
  id_pid :: int
  id_ppid :: int
  id_start :: int
  id_argv :: "string list"
  id_exe :: string

definition proc_identity :: "procs \<Rightarrow> int \<Rightarrow> identity option" where
  "proc_identity ps pid =
     (case dict_get ps pid of
        None \<Rightarrow> None
      | Some p \<Rightarrow>
          (case (pf_stat p, pf_cmdline p) of
             (Some line, Some cmdline) \<Rightarrow>
               if \<not> is_ascii line then None
               else (let fields = split_ws (after_comm line) in
                 (case bindR (item fields 1) py_int of
                    Inl _ \<Rightarrow> None
                  | Inr ppid \<Rightarrow>
                      (case bindR (item fields 19) py_int of
                         Inl _ \<Rightarrow> None
                       | Inr start \<Rightarrow>
                           Some \<lparr>id_pid = pid, id_ppid = ppid, id_start = start,
                             id_argv = filter (\<lambda>a. a \<noteq> []) (split_on (CHR 0x00) cmdline),
                             id_exe = (case pf_exe p of Some e \<Rightarrow> e | None \<Rightarrow> [])\<rparr>)))
           | _ \<Rightarrow> None))"

text \<open>The descriptor table can be listed, or listing it fails: with a permission error it is hidden.\<close>

definition proc_fds_hidden :: "procs \<Rightarrow> int \<Rightarrow> bool" where
  "proc_fds_hidden ps pid =
     (case dict_get ps pid of Some p \<Rightarrow> (case pf_fd p of Some (PermissionError _) \<Rightarrow> True | _ \<Rightarrow> False) | None \<Rightarrow> False)"

definition proc_namespace_pids :: "procs \<Rightarrow> int \<Rightarrow> int list" where
  "proc_namespace_pids ps pid =
     (case dict_get ps pid of
        None \<Rightarrow> []
      | Some p \<Rightarrow>
          (case pf_status p of
             None \<Rightarrow> []
           | Some s \<Rightarrow>
               (case filter (\<lambda>l. startswith l ''NSpid:'') (split_on (CHR 0x0A) s) of
                  [] \<Rightarrow> [pid]
                | l # _ \<Rightarrow> (case mapR py_int (tl (split_ws l)) of Inl _ \<Rightarrow> [] | Inr ns \<Rightarrow> ns))))"

text \<open>The direct child that has the reported process id in one of its namespaces; none when it is not unique.\<close>

definition registered_child_host_pid :: "procs \<Rightarrow> int \<Rightarrow> int \<Rightarrow> int option" where
  "registered_child_host_pid ps parent child_ns =
     (case dict_get ps parent of
        None \<Rightarrow> None
      | Some p \<Rightarrow>
          (case pf_children p of
             None \<Rightarrow> None
           | Some s \<Rightarrow>
               (case mapR py_int (split_ws s) of
                  Inl _ \<Rightarrow> None
                | Inr children \<Rightarrow>
                    (case filter (\<lambda>c. (case proc_identity ps c of
                                      Some i \<Rightarrow> id_ppid i = parent \<and> child_ns \<in> set (proc_namespace_pids ps c)
                                    | None \<Rightarrow> False)) children of
                       [c] \<Rightarrow> Some c
                     | _ \<Rightarrow> None))))"

section \<open>Recognition\<close>

definition process_names :: "identity \<Rightarrow> string list" where
  "process_names i =
     str_lower (basename (id_exe i)) #
       (case id_argv i of
          [] \<Rightarrow> []
        | a # rest \<Rightarrow> str_lower (basename a) # map (\<lambda>x. str_lower (basename x)) (take 2 rest))"

definition process_match_name :: "identity option \<Rightarrow> string list \<Rightarrow> string option" where
  "process_match_name i expected =
     (case i of
        None \<Rightarrow> None
      | Some i \<Rightarrow> find (\<lambda>c. c \<in> set (process_names i)) (map str_lower expected))"

definition is_claude_remote_client :: "identity option \<Rightarrow> bool" where
  "is_claude_remote_client i =
     (case i of
        None \<Rightarrow> False
      | Some i \<Rightarrow>
          list_ex (\<lambda>candidate. isabs candidate \<and>
              (let parts = split_on sep (normpath candidate) in
                4 \<le> length parts \<and> take 3 (drop (length parts - 4) parts) = [''.claude'', ''remote'', ''ccd-cli''] \<and> last parts \<noteq> []))
            (id_exe i # take 1 (id_argv i)))"

definition process_matches :: "identity option \<Rightarrow> string list \<Rightarrow> bool" where
  "process_matches i expected \<longleftrightarrow> process_match_name i expected \<noteq> None"

text \<open>At most 64 steps up the tree.\<close>

primrec descends :: "procs \<Rightarrow> int \<Rightarrow> nat \<Rightarrow> int \<Rightarrow> bool" where
  "descends ps ancestor 0 current = False"
| "descends ps ancestor (Suc n) current =
     (if current = ancestor then True
      else (case proc_identity ps current of
              None \<Rightarrow> False
            | Some i \<Rightarrow> if id_ppid i \<le> 0 \<or> id_ppid i = current then False else descends ps ancestor n (id_ppid i)))"

definition is_descendant :: "procs \<Rightarrow> int \<Rightarrow> int \<Rightarrow> bool" where
  "is_descendant ps pid ancestor = descends ps ancestor 64 pid"

end
