(* ===== verification/Control.thy ===== *)
theory Control
  imports Procs TurnReview
begin

text \<open>
  The control socket's server (\<open>control.py\<close>, \<open>ControlServer\<close>): which process may use which channel.  The state holds
  the launched process, the client registered by the namespace's PID 1, and the connections that are pinned: one
  hardened MCP connection, or any number of read-only ones, and one workspace connection.  The lock of the server
  makes each operation atomic; an operation reads one table of processes, after the waits it makes for the launch
  and the registration.
\<close>

section \<open>State\<close>

type_synonym fingerprint = "int \<times> int"
type_synonym mcp_fingerprint = "int \<times> int \<times> int \<times> int"

record control_server =
  cs_token :: string
  cs_hook_token :: string
  cs_expected :: "string list"
  cs_wrappers :: "string list"
  cs_require_boundary :: bool
  cs_enforce_mcp :: bool
  cs_allow_unregistered :: bool
  cs_euid :: int
  cs_launch_pid :: "int option"
  cs_launch_start :: "int option"
  cs_launch_supported :: bool
  cs_client :: "fingerprint option"
  cs_client_name :: "string option"
  cs_runner :: "fingerprint option"
  cs_mcp :: "mcp_fingerprint option"
  cs_mcp_name :: "string option"
  cs_mcp_conn :: "nat option"
  cs_mcp_destructive :: bool
  cs_read_only :: "(nat, mcp_fingerprint \<times> string) dict"
  cs_workspace :: "fingerprint option"
  cs_workspace_name :: "string option"
  cs_workspace_conn :: "nat option"

text \<open>A connection: its identity and the credentials the kernel reports, process, user and group.\<close>

record connection =
  cn_id :: nat
  cn_peer :: "(int \<times> int \<times> int) result"

definition make_control_server :: "string \<Rightarrow> string \<Rightarrow> string list \<Rightarrow> bool \<Rightarrow> bool \<Rightarrow> string list \<Rightarrow> bool \<Rightarrow> int \<Rightarrow> control_server" where
  "make_control_server token hook_token expected require_boundary enforce_mcp wrappers allow_unregistered euid =
     \<lparr>cs_token = token, cs_hook_token = hook_token,
      cs_expected = map (\<lambda>n. str_lower (basename n)) (filter (\<lambda>n. n \<noteq> []) expected),
      cs_wrappers = map normpath (filter isabs wrappers), cs_require_boundary = require_boundary, cs_enforce_mcp = enforce_mcp,
      cs_allow_unregistered = allow_unregistered, cs_euid = euid,
      cs_launch_pid = None, cs_launch_start = None, cs_launch_supported = False, cs_client = None, cs_client_name = None,
      cs_runner = None, cs_mcp = None, cs_mcp_name = None, cs_mcp_conn = None, cs_mcp_destructive = False, cs_read_only = [],
      cs_workspace = None, cs_workspace_name = None, cs_workspace_conn = None\<rparr>"

definition refusal :: "string \<Rightarrow> pydict" where
  "refusal msg = [(''ok'', JBool False), (''error'', JStr msg)]"

text \<open>\<open>int(value)\<close>.\<close>

fun as_pid :: "json \<Rightarrow> int result" where
  "as_pid (JStr s) = py_int s"
| "as_pid v = as_int v"

section \<open>The launch boundary\<close>

definition set_launch_process :: "procs \<Rightarrow> int \<Rightarrow> bool \<Rightarrow> control_server \<Rightarrow> control_server result" where
  "set_launch_process ps pid supported S =
     (case proc_identity ps pid of
        None \<Rightarrow> Inl (ControlError ''cannot identify launched agent process'')
      | Some i \<Rightarrow> Inr (S\<lparr>cs_launch_pid := Some pid, cs_launch_start := Some (id_start i), cs_launch_supported := supported\<rparr>))"

definition wait_for_launch :: "control_server \<Rightarrow> bool" where
  "wait_for_launch S \<longleftrightarrow> \<not> cs_require_boundary S \<or> cs_launch_pid S \<noteq> None"

text \<open>The process is still the one that was fingerprinted.\<close>

definition still :: "procs \<Rightarrow> fingerprint \<Rightarrow> identity option" where
  "still ps fp = (case proc_identity ps (fst fp) of Some i \<Rightarrow> if id_start i = snd fp then Some i else None | None \<Rightarrow> None)"

definition launch_boundary_valid :: "procs \<Rightarrow> control_server \<Rightarrow> int \<Rightarrow> bool" where
  "launch_boundary_valid ps S pid =
     (if \<not> cs_require_boundary S then True
      else cs_launch_supported S \<and>
        (case (cs_launch_pid S, cs_launch_start S) of
           (Some launch, Some start) \<Rightarrow> still ps (launch, start) \<noteq> None \<and> is_descendant ps pid launch
         | _ \<Rightarrow> False))"

definition register_initial_client :: "procs \<Rightarrow> connection \<Rightarrow> json \<Rightarrow> control_server \<Rightarrow> pydict \<times> control_server" where
  "register_initial_client ps conn child S =
     (case bindR (cn_peer conn) (\<lambda>peer. bindR (as_pid child) (\<lambda>ns. Inr (peer, ns))) of
        Inl e \<Rightarrow> (refusal (''invalid client registration: '' @ exn_str e), S)
      | Inr ((pid, uid, gid), ns) \<Rightarrow>
          if uid \<noteq> cs_euid S then (refusal ''runner uid is not the supervisor uid'', S)
          else if \<not> wait_for_launch S \<or> \<not> cs_launch_supported S then (refusal ''launch boundary is unavailable'', S)
          else
            (case (cs_launch_pid S, cs_launch_start S, proc_identity ps pid) of
               (Some launch, Some start, Some runner) \<Rightarrow>
                 if still ps (launch, start) = None \<or> proc_namespace_pids ps pid = [] \<or>
                    last (proc_namespace_pids ps pid) \<noteq> 1 \<or> \<not> is_descendant ps pid launch
                 then (refusal ''registration peer is not trusted PID 1'', S)
                 else
                   (let client = (case registered_child_host_pid ps pid ns of Some c \<Rightarrow> proc_identity ps c | None \<Rightarrow> None) in
                    case (client, process_match_name client (cs_expected S)) of
                      (Some c, Some name) \<Rightarrow>
                        (let fp = (id_pid c, id_start c) in
                         if cs_client S \<noteq> None \<and> cs_client S \<noteq> Some fp then (refusal ''initial client is already registered'', S)
                         else ([(''ok'', JBool True), (''registered'', JBool True)],
                               S\<lparr>cs_client := Some fp, cs_client_name := Some name, cs_runner := Some (id_pid runner, id_start runner)\<rparr>))
                    | _ \<Rightarrow> (refusal ''registered child is not the expected client'', S))
             | _ \<Rightarrow> (refusal ''registration peer is not trusted PID 1'', S)))"

section \<open>Eligible peers\<close>

record eligibility =
  el_fingerprint :: mcp_fingerprint
  el_destructive :: bool
  el_reason :: "string option"

text \<open>A client behind a server wrapper: the parent of the peer, recognised by name, inside the launch boundary.\<close>

definition unregistered_peer :: "procs \<Rightarrow> control_server \<Rightarrow> identity \<Rightarrow> eligibility option" where
  "unregistered_peer ps S peer =
     (let client = proc_identity ps (id_ppid peer) in
      case client of
        None \<Rightarrow> None
      | Some c \<Rightarrow>
          if (process_matches client (cs_expected S) \<or> ''claude'' \<in> set (cs_expected S) \<and> is_claude_remote_client client) \<and>
             launch_boundary_valid ps S (id_pid c)
          then Some \<lparr>el_fingerprint = (id_pid peer, id_start peer, id_pid c, id_start c), el_destructive = False,
                 el_reason = Some ''official client is behind a server wrapper; destructive operations require external review''\<rparr>
          else None)"

definition client_of_peer :: "procs \<Rightarrow> control_server \<Rightarrow> identity \<Rightarrow> identity option" where
  "client_of_peer ps S peer =
     (if cs_require_boundary S
      then (case cs_client S of
              None \<Rightarrow> None
            | Some fp \<Rightarrow>
                (case still ps fp of
                   None \<Rightarrow> None
                 | Some c \<Rightarrow> if id_ppid peer = id_pid c \<and> launch_boundary_valid ps S (id_pid c) then Some c else None))
      else if process_matches (proc_identity ps (id_ppid peer)) (cs_expected S) then proc_identity ps (id_ppid peer)
      else if process_matches (Some peer) (cs_expected S) then Some peer
      else None)"

definition eligible_mcp_peer :: "procs \<Rightarrow> control_server \<Rightarrow> int \<Rightarrow> eligibility option" where
  "eligible_mcp_peer ps S pid =
     (case proc_identity ps pid of
        None \<Rightarrow> None
      | Some peer \<Rightarrow>
          if cs_expected S = [] then None
          else if cs_require_boundary S \<and> (\<not> wait_for_launch S \<or> \<not> cs_launch_supported S) then None
          else if cs_require_boundary S \<and> cs_client S = None
          then (if cs_allow_unregistered S then unregistered_peer ps S peer else None)
          else
            (case client_of_peer ps S peer of
               None \<Rightarrow> None
             | Some c \<Rightarrow>
                 (let hardened = (proc_fds_hidden ps (id_pid peer) \<and> proc_fds_hidden ps (id_pid c)) in
                  Some \<lparr>el_fingerprint = (id_pid peer, id_start peer, id_pid c, id_start c), el_destructive = hardened,
                    el_reason = (if hardened then None else Some ''trusted client/MCP descriptor access is not hidden'')\<rparr>)))"

text \<open>The checks of the runner's connection that fail.\<close>

definition runner_connection_failures :: "procs \<Rightarrow> connection \<Rightarrow> control_server \<Rightarrow> string list" where
  "runner_connection_failures ps conn S =
     (case cn_peer conn of
        Inl _ \<Rightarrow> [''peer-credentials'']
      | Inr (pid, uid, gid) \<Rightarrow>
          (let runner = proc_identity ps pid;
               client = (case cs_client S of Some fp \<Rightarrow> proc_identity ps (fst fp) | None \<Rightarrow> None);
               checks =
                 [(''uid'', uid = cs_euid S),
                  (''runner-pinned'', cs_runner S \<noteq> None),
                  (''client-pinned'', cs_client S \<noteq> None),
                  (''runner-live'', runner \<noteq> None),
                  (''client-live'', client \<noteq> None),
                  (''runner-peer'', map_option fst (cs_runner S) = Some pid),
                  (''runner-start'', runner \<noteq> None \<and> cs_runner S \<noteq> None \<and> map_option id_start runner = map_option snd (cs_runner S)),
                  (''client-start'', client \<noteq> None \<and> cs_client S \<noteq> None \<and> map_option id_start client = map_option snd (cs_client S)),
                  (''direct-child'', client \<noteq> None \<and> runner \<noteq> None \<and> map_option id_ppid client = map_option id_pid runner),
                  (''launch-boundary'', runner \<noteq> None \<and> launch_boundary_valid ps S pid),
                  (''runner-fds-hidden'', runner \<noteq> None \<and> proc_fds_hidden ps pid),
                  (''client-fds-hidden'', (case client of Some c \<Rightarrow> proc_fds_hidden ps (id_pid c) | None \<Rightarrow> False))]
           in map fst (filter (\<lambda>(name, passed). \<not> passed) checks)))"

text \<open>Waiting for the client's hardening: the tables are those seen until the deadline; only that one failure is waited
  for.  The table of the last look is returned with the failures.\<close>

primrec wait_runner_connection :: "procs list \<Rightarrow> procs \<Rightarrow> connection \<Rightarrow> control_server \<Rightarrow> string list \<times> procs" where
  "wait_runner_connection [] ps conn S = (runner_connection_failures ps conn S, ps)"
| "wait_runner_connection (later # rest) ps conn S =
     (if runner_connection_failures ps conn S \<noteq> [''client-fds-hidden''] then (runner_connection_failures ps conn S, ps)
      else wait_runner_connection rest later conn S)"

definition runner_connection_valid :: "procs \<Rightarrow> connection \<Rightarrow> control_server \<Rightarrow> bool" where
  "runner_connection_valid ps conn S \<longleftrightarrow> runner_connection_failures ps conn S = []"

section \<open>The workspace channel\<close>

definition eligible_workspace_peer :: "procs \<Rightarrow> control_server \<Rightarrow> int \<Rightarrow> fingerprint option" where
  "eligible_workspace_peer ps S pid =
     (case (proc_identity ps pid, cs_client S) of
        (Some peer, Some fp) \<Rightarrow>
          if id_pid peer = fst fp \<and> id_start peer = snd fp \<and> launch_boundary_valid ps S pid \<and> proc_fds_hidden ps pid
          then Some (id_pid peer, id_start peer) else None
      | _ \<Rightarrow> None)"

definition admit_workspace_client :: "procs \<Rightarrow> connection \<Rightarrow> json \<Rightarrow> control_server \<Rightarrow> pydict \<times> control_server" where
  "admit_workspace_client ps conn client S =
     (if py_str client \<noteq> ''hermes'' \<or> ''hermes'' \<notin> set (cs_expected S)
      then (refusal ''direct workspace channel is reserved for Hermes'', S)
      else
        (case cn_peer conn of
           Inl e \<Rightarrow> (refusal (exn_str e), S)
         | Inr (pid, uid, gid) \<Rightarrow>
             if uid \<noteq> cs_euid S then (refusal ''workspace peer uid is not trusted'', S)
             else
               (case eligible_workspace_peer ps S pid of
                  None \<Rightarrow> (refusal ''workspace peer is not the hardened initial client'', S)
                | Some fp \<Rightarrow>
                    if cs_workspace S \<noteq> None then (refusal ''a workspace client is already pinned'', S)
                    else ([(''ok'', JBool True), (''admitted'', JBool True)],
                          S\<lparr>cs_workspace := Some fp, cs_workspace_name := Some ''hermes'', cs_workspace_conn := Some (cn_id conn)\<rparr>))))"

definition workspace_pinned :: "connection \<Rightarrow> control_server \<Rightarrow> bool" where
  "workspace_pinned conn S \<longleftrightarrow> cs_workspace_conn S = Some (cn_id conn)"

definition workspace_connection_valid :: "procs \<Rightarrow> connection \<Rightarrow> control_server \<Rightarrow> bool" where
  "workspace_connection_valid ps conn S \<longleftrightarrow> workspace_pinned conn S \<and>
     (case cs_workspace S of
        None \<Rightarrow> False
      | Some fp \<Rightarrow> still ps fp \<noteq> None \<and> launch_boundary_valid ps S (fst fp) \<and> proc_fds_hidden ps (fst fp))"

section \<open>The MCP channel\<close>

definition admit_mcp :: "procs \<Rightarrow> connection \<Rightarrow> json \<Rightarrow> control_server \<Rightarrow> pydict \<times> control_server" where
  "admit_mcp ps conn client S =
     (let name = str_lower (owner_name client) in
      if name \<notin> {''codex'', ''claude''} then (refusal ''unsupported MCP client identity'', S)
      else
        (case cn_peer conn of
           Inl e \<Rightarrow> (refusal (exn_str e), S)
         | Inr (pid, uid, gid) \<Rightarrow>
             if uid \<noteq> cs_euid S then (refusal ''MCP peer uid is not the supervisor uid'', S)
             else
               (case eligible_mcp_peer ps S pid of
                  None \<Rightarrow> (refusal ''MCP peer is not the eligible official client child'', S)
                | Some el \<Rightarrow>
                    (let answer = [(''ok'', JBool True), (''admitted'', JBool True), (''destructive_authorized'', JBool (el_destructive el)),
                           (''authorization_reason'', jopt JStr (el_reason el))] in
                     if el_destructive el
                     then (if cs_mcp S \<noteq> None \<or> cs_read_only S \<noteq> []
                           then (refusal ''an MCP process/connection is already pinned'', S)
                           else (answer, S\<lparr>cs_mcp := Some (el_fingerprint el), cs_mcp_name := Some name,
                                   cs_mcp_conn := Some (cn_id conn), cs_mcp_destructive := True\<rparr>))
                     else (if cs_mcp S \<noteq> None then (refusal ''a destructive MCP connection is already pinned'', S)
                           else (answer, S\<lparr>cs_read_only := dict_set (cs_read_only S) (cn_id conn) (el_fingerprint el, name)\<rparr>))))))"

definition mcp_connection_record :: "connection \<Rightarrow> control_server \<Rightarrow> (mcp_fingerprint \<times> bool) option" where
  "mcp_connection_record conn S =
     (if cs_mcp_conn S = Some (cn_id conn) \<and> cs_mcp S \<noteq> None then Some (the (cs_mcp S), cs_mcp_destructive S)
      else (case dict_get (cs_read_only S) (cn_id conn) of Some (fp, name) \<Rightarrow> Some (fp, False) | None \<Rightarrow> None))"

definition is_mcp_connection :: "connection \<Rightarrow> control_server \<Rightarrow> bool" where
  "is_mcp_connection conn S \<longleftrightarrow> mcp_connection_record conn S \<noteq> None"

definition mcp_connection_valid :: "procs \<Rightarrow> connection \<Rightarrow> control_server \<Rightarrow> bool" where
  "mcp_connection_valid ps conn S \<longleftrightarrow>
     (case mcp_connection_record conn S of
        None \<Rightarrow> False
      | Some ((peer_pid, peer_start, client_pid, client_start), destructive) \<Rightarrow>
          (case (still ps (peer_pid, peer_start), still ps (client_pid, client_start)) of
             (Some peer, Some client) \<Rightarrow>
               (peer_pid = client_pid \<or> id_ppid peer = client_pid) \<and> launch_boundary_valid ps S client_pid \<and>
               (destructive \<longrightarrow> proc_fds_hidden ps peer_pid \<and> proc_fds_hidden ps client_pid)
           | _ \<Rightarrow> False))"

definition mcp_destructive_authorized :: "procs \<Rightarrow> connection \<Rightarrow> control_server \<Rightarrow> bool" where
  "mcp_destructive_authorized ps conn S \<longleftrightarrow>
     (case mcp_connection_record conn S of Some (fp, True) \<Rightarrow> mcp_connection_valid ps conn S | _ \<Rightarrow> False)"

section \<open>Routes and authority\<close>

text \<open>The route adapter: a descendant of the registered client that runs one of the wrappers, and asks for its own provider.\<close>

definition name_or_empty :: "json \<Rightarrow> string" where
  "name_or_empty v = (if truthy v then py_str v else [])"

definition eligible_route_peer :: "procs \<Rightarrow> connection \<Rightarrow> pydict \<Rightarrow> control_server \<Rightarrow> (int \<times> string) option" where
  "eligible_route_peer ps conn req S =
     (case cn_peer conn of
        Inl _ \<Rightarrow> None
      | Inr (pid, uid, gid) \<Rightarrow>
          if uid \<noteq> cs_euid S then None
          else
            (case (proc_identity ps pid, cs_client S, cs_client_name S) of
               (Some peer, Some fp, Some name) \<Rightarrow>
                 if name \<notin> {''codex'', ''claude''} then None
                 else if still ps fp = None \<or> pid = fst fp \<or> \<not> is_descendant ps pid (fst fp) \<or> \<not> launch_boundary_valid ps S (fst fp)
                 then None
                 else if (\<forall>a\<in>set (map normpath (filter isabs (take 4 (id_argv peer)))). a \<notin> set (cs_wrappers S)) \<and>
                         process_match_name (Some peer) [''ccc-bwrap-route'', ''ccc-bwrap-route.py''] = None
                 then None
                 else if get_default req ''op'' JNull = JStr ''route-lookup'' \<and> str_lower (name_or_empty (get_default req ''provider'' JNull)) \<noteq> name
                 then None
                 else Some (pid, name)
             | _ \<Rightarrow> None))"

definition dashed :: "int list \<Rightarrow> string" where
  "dashed ns = join_with ''-'' (map show_int ns)"

definition workspace_authority :: "procs \<Rightarrow> connection \<Rightarrow> control_server \<Rightarrow> (string \<times> string) option" where
  "workspace_authority ps conn S =
     (if cs_mcp_conn S = Some (cn_id conn)
      then (case (cs_mcp S, cs_mcp_name S) of
              (Some (a, b, c, d), Some name) \<Rightarrow>
                if cs_mcp_destructive S \<and> mcp_connection_valid ps conn S \<and> name \<in> {''codex'', ''claude''}
                then Some (''mcp-'' @ name, ''mcp-'' @ dashed [a, b, c, d]) else None
            | _ \<Rightarrow> None)
      else if workspace_pinned conn S
      then (case cs_workspace S of
              Some (a, b) \<Rightarrow>
                if workspace_connection_valid ps conn S then Some (''hermes-client'', ''workspace-'' @ dashed [a, b]) else None
            | None \<Rightarrow> None)
      else if runner_connection_valid ps conn S
      then (case (cs_client_name S, cs_runner S, cs_client S) of
              (Some name, Some (a, b), Some (c, d)) \<Rightarrow>
                if name = ''codex'' then Some (''codex-app-server'', ''runner-'' @ dashed [a, b, c, d]) else None
            | _ \<Rightarrow> None)
      else None)"

end
