(* ===== verification/ControlServe.thy ===== *)
theory ControlServe
  imports Control
begin

text \<open>
  The requests on the control socket (\<open>control.py\<close>, \<open>ControlServer._handle_conn\<close>): the guards a request passes in
  their order, the supervisor's handler as an argument with a state of its own, the loop over the lines of a
  connection, and the release of a closed one.  Connections are served by threads: a run is a sequence of
  whole requests and releases, in any order.
\<close>

type_synonym 'h handler = "pydict \<Rightarrow> ('h, json) eff"
type_synonym 'h service = "control_server \<times> 'h"

definition WORKSPACE_HOOK_OPS :: "string list" where
  "WORKSPACE_HOOK_OPS = [''turn-add-workspace'', ''turn-remove-workspace'']"
definition MCP_ONLY_OPS :: "string list" where
  "MCP_ONLY_OPS = [''turn-approve'', ''turn-resolve'', ''turn-request-abort'']"
definition WORKSPACE_CONFIRM_OP :: string where "WORKSPACE_CONFIRM_OP = ''turn-confirm-workspace-roots''"
definition WORKSPACE_SESSION_REPLACE_OP :: string where "WORKSPACE_SESSION_REPLACE_OP = ''workspace-session-replace''"
definition WORKSPACE_AUTHORITY_REVOKE_OP :: string where "WORKSPACE_AUTHORITY_REVOKE_OP = ''workspace-authority-revoke''"
definition ROUTE_OPS :: "string list" where "ROUTE_OPS = [''route-lookup'', ''route-record-result'']"

text \<open>The words the server takes for destructive.\<close>

definition DESTRUCTIVE_DECISIONS :: "string list" where
  "DESTRUCTIVE_DECISIONS = [''commit'', ''discard'', ''revert'', ''yes'', ''select'']"

definition exn_name :: "pyexn \<Rightarrow> string" where
  "exn_name e = (case e of ValueError _ \<Rightarrow> ''ValueError'' | KeyError _ \<Rightarrow> ''KeyError'' | TypeError _ \<Rightarrow> ''TypeError''
     | StateError _ \<Rightarrow> ''StateError'' | RuntimeError _ \<Rightarrow> ''RuntimeError'' | BranchfsError _ \<Rightarrow> ''BranchfsError''
     | ControlError _ \<Rightarrow> ''ControlError'' | PermissionError _ \<Rightarrow> ''PermissionError'' | FileNotFoundError _ \<Rightarrow> ''FileNotFoundError''
     | FileExistsError _ \<Rightarrow> ''FileExistsError'' | IsADirectoryError _ \<Rightarrow> ''IsADirectoryError''
     | NotADirectoryError _ \<Rightarrow> ''NotADirectoryError'' | OSError _ \<Rightarrow> ''OSError'')"

definition op_of :: "pydict \<Rightarrow> json" where
  "op_of req = get_default req ''op'' JNull"

definition op_in :: "pydict \<Rightarrow> string list \<Rightarrow> bool" where
  "op_in req ops \<longleftrightarrow> op_of req \<in> set (map JStr ops)"

section \<open>The handler's answer\<close>

definition with_ok :: "pydict \<Rightarrow> pydict" where
  "with_ok d = (if dict_has d ''ok'' then d else d @ [(''ok'', JBool True)])"

definition call_handler :: "'h handler \<Rightarrow> pydict \<Rightarrow> ('h service, pydict) eff" where
  "call_handler H req =
     bindE (tryE (zoomE snd (\<lambda>h t. (fst t, h)) (H req))) (\<lambda>r. retE (case r of
         Inr (JObj d) \<Rightarrow> with_ok d
       | Inr _ \<Rightarrow> refusal ''handler returned non-dict''
       | Inl e \<Rightarrow> refusal (exn_name e @ '': '' @ exn_str e)))"

definition route_request :: "'h handler \<Rightarrow> procs \<Rightarrow> connection \<Rightarrow> pydict \<Rightarrow> ('h service, pydict) eff" where
  "route_request H ps conn req =
     bindE (getE fst) (\<lambda>S. case eligible_route_peer ps conn req S of
       None \<Rightarrow> retE (refusal ''route operation requires the live official bwrap adapter'')
     | Some (pid, client) \<Rightarrow>
         call_handler H (dict_set (dict_set req ''trusted_peer_pid'' (JInt pid)) ''trusted_client'' (JStr client)))"

section \<open>The guards\<close>

definition pinned :: "connection \<Rightarrow> control_server \<Rightarrow> bool" where
  "pinned conn S \<longleftrightarrow> is_mcp_connection conn S \<or> workspace_pinned conn S"

definition destructive_request :: "pydict \<Rightarrow> bool" where
  "destructive_request req \<longleftrightarrow> op_in req [''turn-request-abort'', ''turn-confirm-workspace-roots''] \<or>
     get_default req ''decision'' JNull \<in> set (map JStr DESTRUCTIVE_DECISIONS)"

text \<open>Why a request is not handled, and whether the connection stays open.  The second table is the one seen after the
  wait for the client's hardening.\<close>

definition guards :: "procs \<Rightarrow> procs \<Rightarrow> string list \<Rightarrow> connection \<Rightarrow> pydict \<Rightarrow> control_server \<Rightarrow> (string \<times> bool) option" where
  "guards ps later runner_failures conn req S =
     (if op_in req [WORKSPACE_SESSION_REPLACE_OP] \<and> workspace_authority ps conn S = None
      then Some (''workspace session replacement requires a live pinned official client'', pinned conn S)
      else if op_in req [WORKSPACE_CONFIRM_OP] \<and>
              \<not> (mcp_destructive_authorized later conn S \<or> workspace_connection_valid later conn S \<or> runner_failures = [])
      then Some (''workspace confirmation requires a pinned hardened client or trusted PID 1; runner checks failed: ''
                   @ join_with '', '' runner_failures, pinned conn S)
      else if op_in req MCP_ONLY_OPS \<and> cs_enforce_mcp S \<and> \<not> mcp_connection_valid later conn S
      then Some (''operation requires the pinned MCP connection'', False)
      else if op_in req MCP_ONLY_OPS \<and> cs_enforce_mcp S \<and> destructive_request req \<and> \<not> mcp_destructive_authorized later conn S
      then Some (''destructive MCP operation requires hardened client transport'', True)
      else if is_mcp_connection conn S \<and> \<not> mcp_connection_valid later conn S
      then Some (''pinned MCP process identity changed'', False)
      else if workspace_pinned conn S \<and> \<not> workspace_connection_valid later conn S
      then Some (''pinned workspace client identity changed'', False)
      else if op_in req WORKSPACE_HOOK_OPS \<and>
              (cs_hook_token S = [] \<or> get_default req ''hook_token'' JNull \<noteq> JStr (cs_hook_token S))
      then Some (''hook-only workspace operation unauthorized'', False)
      else None)"

text \<open>A replacement speaks with the authority of its connection, not with the one it names.\<close>

definition authorized_request :: "procs \<Rightarrow> connection \<Rightarrow> pydict \<Rightarrow> control_server \<Rightarrow> pydict" where
  "authorized_request ps conn req S =
     (if op_in req [WORKSPACE_SESSION_REPLACE_OP]
      then (case workspace_authority ps conn S of
              Some (source, inst) \<Rightarrow> dict_set (dict_set req ''source'' (JStr source)) ''authority_instance'' (JStr inst)
            | None \<Rightarrow> req)
      else req)"

definition guarded_request :: "'h handler \<Rightarrow> procs \<Rightarrow> procs list \<Rightarrow> connection \<Rightarrow> pydict \<Rightarrow> ('h service, pydict \<times> bool) eff" where
  "guarded_request H ps laters conn req =
     bindE (getE fst) (\<lambda>S.
     let (failures, later) = (if op_in req [WORKSPACE_CONFIRM_OP] then wait_runner_connection laters ps conn S else ([], ps)) in
     case guards ps later failures conn req S of
       Some (msg, again) \<Rightarrow> retE (refusal msg, again)
     | None \<Rightarrow>
         bindE (call_handler H (authorized_request ps conn req S)) (\<lambda>answer.
         bindE (getE fst) (\<lambda>S'. retE (answer, pinned conn S'))))"

section \<open>Requests\<close>

definition admission :: "(control_server \<Rightarrow> pydict \<times> control_server) \<Rightarrow> ('h service, pydict) eff" where
  "admission f = (\<lambda>(S, h). case f S of (answer, S') \<Rightarrow> (Inr answer, (S', h)))"

definition accepted :: "pydict \<Rightarrow> bool" where
  "accepted answer \<longleftrightarrow> truthy (get_default answer ''ok'' JNull)"

text \<open>The answer, and whether another request is read from the connection.\<close>

definition serve_request :: "'h handler \<Rightarrow> procs \<Rightarrow> procs list \<Rightarrow> connection \<Rightarrow> pydict \<Rightarrow> ('h service, pydict \<times> bool) eff" where
  "serve_request H ps laters conn req =
     (if \<not> hashable (op_of req) then raiseE (TypeError ''unhashable type'')
      else if op_in req ROUTE_OPS then bindE (route_request H ps conn req) (\<lambda>answer. retE (answer, False))
      else bindE (getE fst) (\<lambda>S.
        if get_default req ''token'' JNull \<noteq> JStr (cs_token S) then retE (refusal ''unauthorized'', False)
        else if op_in req [''mcp-register-client'']
        then bindE (admission (register_initial_client ps conn (get_default req ''pid'' JNull))) (\<lambda>answer. retE (answer, False))
        else if op_in req [''mcp-admit'']
        then bindE (admission (admit_mcp ps conn (get_default req ''client'' JNull))) (\<lambda>answer. retE (answer, accepted answer))
        else if op_in req [''workspace-admit'']
        then bindE (admission (admit_workspace_client ps conn (get_default req ''client'' JNull))) (\<lambda>answer. retE (answer, accepted answer))
        else guarded_request H ps laters conn req))"

text \<open>The lines of a connection, each with the tables of processes seen while it is served.\<close>

fun handle_lines :: "'h handler \<Rightarrow> (string \<Rightarrow> json result) \<Rightarrow> connection \<Rightarrow> (string \<times> procs \<times> procs list) list \<Rightarrow>
    ('h service, pydict list) eff" where
  "handle_lines H loads conn [] = retE []"
| "handle_lines H loads conn ((line, ps, laters) # rest) =
     (case loads line of
        Inl e \<Rightarrow> retE [refusal (''malformed control message: '' @ exn_str e)]
      | Inr (JObj req) \<Rightarrow>
          bindE (tryE (serve_request H ps laters conn req)) (\<lambda>r. case r of
            Inl e \<Rightarrow> retE []
          | Inr (answer, again) \<Rightarrow>
              if again then bindE (handle_lines H loads conn rest) (\<lambda>answers. retE (answer # answers)) else retE [answer])
      | Inr _ \<Rightarrow> retE [])"

section \<open>Release\<close>

text \<open>Revocation after the grace period: only for a client that is still the fingerprinted process.\<close>

definition revoke_roots_if_client_live :: "'h handler \<Rightarrow> procs \<Rightarrow> fingerprint \<Rightarrow> (string \<times> string) option \<Rightarrow> ('h service, unit) eff" where
  "revoke_roots_if_client_live H ps fp authority =
     (case (still ps fp, authority) of
        (Some client, Some (source, inst)) \<Rightarrow>
          bindE (tryE (zoomE snd (\<lambda>h t. (fst t, h)) (H [(''op'', JStr WORKSPACE_AUTHORITY_REVOKE_OP), (''source'', JStr source),
            (''authority_instance'', JStr inst), (''reason'', JStr ''trusted-transport-closed'')]))) (\<lambda>_. retE ())
      | _ \<Rightarrow> retE ())"

definition released_server :: "connection \<Rightarrow> control_server \<Rightarrow> control_server" where
  "released_server conn S =
     (let S1 = (if cs_mcp_conn S = Some (cn_id conn)
                then S\<lparr>cs_mcp_conn := None, cs_mcp := None, cs_mcp_name := None, cs_mcp_destructive := False\<rparr> else S)
      in if workspace_pinned conn S then S1\<lparr>cs_workspace_conn := None\<rparr> else S1)"

definition released_client :: "connection \<Rightarrow> control_server \<Rightarrow> fingerprint option" where
  "released_client conn S =
     (if workspace_pinned conn S then cs_workspace S
      else if cs_mcp_conn S = Some (cn_id conn) then map_option (\<lambda>(_, _, c, d). (c, d)) (cs_mcp S) else None)"

text \<open>The table at the release, and the one after the grace period unless the server stops before.\<close>

definition release_pinned_connection :: "'h handler \<Rightarrow> procs \<Rightarrow> procs option \<Rightarrow> connection \<Rightarrow> ('h service, unit) eff" where
  "release_pinned_connection H ps after conn =
     bindE (getE fst) (\<lambda>S.
     if dict_has (cs_read_only S) (cn_id conn)
     then modE (\<lambda>(S, h). (S\<lparr>cs_read_only := dict_pop (cs_read_only S) (cn_id conn)\<rparr>, h))
     else
       (let authority = workspace_authority ps conn S in
        seqE (modE (\<lambda>(S, h). (released_server conn S, h)))
             (case (released_client conn S, after) of
                (Some fp, Some ps') \<Rightarrow> revoke_roots_if_client_live H ps' fp authority
              | _ \<Rightarrow> retE ())))"

definition handle_conn :: "'h handler \<Rightarrow> (string \<Rightarrow> json result) \<Rightarrow> connection \<Rightarrow> (string \<times> procs \<times> procs list) list \<Rightarrow> procs \<Rightarrow>
    procs option \<Rightarrow> ('h service, pydict list) eff" where
  "handle_conn H loads conn lines ps after =
     bindE (handle_lines H loads conn lines) (\<lambda>answers.
     seqE (release_pinned_connection H ps after conn) (retE answers))"

section \<open>Runs\<close>

datatype control_event =
    Launched procs int bool
  | Request procs "procs list" connection pydict
  | Closed procs "procs option" connection

definition control_step :: "'h handler \<Rightarrow> control_event \<Rightarrow> 'h service \<Rightarrow> 'h service" where
  "control_step H ev t =
     (case ev of
        Launched ps pid supported \<Rightarrow> (case set_launch_process ps pid supported (fst t) of Inr S \<Rightarrow> (S, snd t) | Inl e \<Rightarrow> t)
      | Request ps laters conn req \<Rightarrow> snd (serve_request H ps laters conn req t)
      | Closed ps after conn \<Rightarrow> snd (release_pinned_connection H ps after conn t))"

inductive control_run :: "'h handler \<Rightarrow> 'h service \<Rightarrow> 'h service \<Rightarrow> bool" for H where
  run_none: "control_run H t t"
| run_event: "control_run H t u \<Longrightarrow> control_run H t (control_step H ev u)"

end
