(* ===== verification/ControlFacts.thy ===== *)
theory ControlFacts
  imports ControlServe TurnFacts
begin

text \<open>
  What the control server guarantees about its channels, over every sequence of requests, releases and launches and
  every table of processes: the pins exclude each other, the registered client stays the one registered first,
  a destructive request reaches the supervisor only from a hardened child of the registered client, and where
  the guards let more through than they mean to.
\<close>

section \<open>Identities\<close>

lemma after_last_append: "c \<notin> set ys \<Longrightarrow> after_last c (xs @ c # ys) = Some ys"
proof (induction xs)
  case Nil
  have "after_last c ys = None" using Nil by (induction ys) auto
  then show ?case by simp
qed simp

lemma after_comm_tail: "CHR '')'' \<notin> set tail \<Longrightarrow> after_comm (a @ '' ('' @ comm @ '') '' @ tail) = tail"
  using after_last_append [of "CHR '')''" "CHR '' '' # tail" "a @ '' ('' @ comm"] by (simp add: after_comm_def)

lemma still_Some: "still ps fp = Some i \<longleftrightarrow> proc_identity ps (fst fp) = Some i \<and> id_start i = snd fp"
  by (auto simp: still_def split: option.splits)

section \<open>What an operation leaves alone\<close>

lemma snd_seq [simp]: "snd (seqE m n s) = (case m s of (Inl e, t) \<Rightarrow> t | (Inr x, t) \<Rightarrow> snd (n t))"
  by (auto simp: seqE_def bindE_def split: prod.split sum.split)

lemma wp_call_handler:
  "(\<And>a h. Q a (fst t, h)) \<Longrightarrow> wp (call_handler H req) Q E t"
  unfolding call_handler_def by (cases "H req (snd t)") (auto simp: wp_def bindE_def tryE_def zoomE_def retE_def split: sum.split json.split)

text \<open>Predicates of the server's own state, which the handler cannot change.\<close>

definition on_server :: "(control_server \<Rightarrow> bool) \<Rightarrow> 'h service \<Rightarrow> bool" where
  "on_server P t \<longleftrightarrow> P (fst t)"

lemma keeps_call_handler [keeps_intros]: "keeps (on_server P) (call_handler H req)"
  unfolding keeps_wp on_server_def by (auto intro: wp_call_handler)

lemma keeps_route_request [keeps_intros]: "keeps (on_server P) (route_request H ps conn req)"
  unfolding route_request_def by (intro keeps_intros)

lemma keeps_guarded [keeps_intros]: "keeps (on_server P) (guarded_request H ps laters conn req)"
  unfolding guarded_request_def by (intro keeps_intros)

lemma keeps_admission: "(\<And>S. P S \<Longrightarrow> P (snd (f S))) \<Longrightarrow> keeps (on_server P) (admission f)"
  by (clarsimp simp: keeps_def on_server_def admission_def split: prod.split) (metis snd_conv)

lemma keeps_revoke [keeps_intros]: "keeps (on_server P) (revoke_roots_if_client_live H ps fp authority)"
proof -
  have "keeps (on_server P) (zoomE snd (\<lambda>h t. (fst t, h)) (H req) :: ('a service, json) eff)" for req
    by (auto simp: keeps_def on_server_def zoomE_def split: prod.split)
  then show ?thesis
    unfolding revoke_roots_if_client_live_def by (intro keeps_intros) auto
qed

lemma keeps_server: "keeps (on_server P) m \<Longrightarrow> P (fst t) \<Longrightarrow> P (fst (snd (m t)))"
  unfolding keeps_def on_server_def by blast

text \<open>A predicate that the admissions, the launch and the release keep holds over every run.\<close>

definition stable :: "(control_server \<Rightarrow> bool) \<Rightarrow> bool" where
  "stable P \<longleftrightarrow>
     (\<forall>ps conn v S. P S \<longrightarrow> P (snd (register_initial_client ps conn v S)) \<and> P (snd (admit_mcp ps conn v S)) \<and>
        P (snd (admit_workspace_client ps conn v S)) \<and> P (released_server conn S)) \<and>
     (\<forall>ps pid supported S S'. P S \<longrightarrow> set_launch_process ps pid supported S = Inr S' \<longrightarrow> P S') \<and>
     (\<forall>id S. P S \<longrightarrow> P (S\<lparr>cs_read_only := dict_pop (cs_read_only S) id\<rparr>))"

lemma stable_serve:
  assumes "stable P" shows "keeps (on_server P) (serve_request H ps laters conn req)"
  unfolding serve_request_def using assms
  by (intro keeps_intros keeps_admission) (auto simp: stable_def)

lemma stable_release:
  assumes "stable P" shows "keeps (on_server P) (release_pinned_connection H ps after conn)"
proof -
  have pop: "keeps (on_server P) (modE (\<lambda>(S, h). (S\<lparr>cs_read_only := dict_pop (cs_read_only S) id\<rparr>, h)))" for id
    by (rule keeps_mod) (use assms in \<open>auto simp: stable_def on_server_def\<close>)
  have release: "keeps (on_server P) (modE (\<lambda>(S, h). (released_server conn S, h)))"
    by (rule keeps_mod) (use assms in \<open>auto simp: stable_def on_server_def\<close>)
  show ?thesis
    unfolding release_pinned_connection_def Let_def
    by (intro keeps_intros pop release)
qed

lemma stable_step:
  assumes "stable P" "P (fst t)" shows "P (fst (control_step H ev t))"
proof (cases ev)
  case (Launched ps pid supported)
  then show ?thesis using assms by (auto simp: control_step_def stable_def split: sum.split)
next
  case (Request ps laters conn req)
  then show ?thesis
    using keeps_server [OF stable_serve [OF assms(1)] assms(2)] by (simp add: control_step_def)
next
  case (Closed ps after conn)
  then show ?thesis
    using keeps_server [OF stable_release [OF assms(1)] assms(2)] by (simp add: control_step_def)
qed

lemma stable_run: "control_run H t u \<Longrightarrow> stable P \<Longrightarrow> P (fst t) \<Longrightarrow> P (fst u)"
  by (induction rule: control_run.induct) (auto intro: stable_step)

section \<open>The admissions\<close>

text \<open>Each admission either changes nothing or makes one change, for one reason.\<close>

definition trusted_child :: "procs \<Rightarrow> control_server \<Rightarrow> int \<Rightarrow> int \<Rightarrow> fingerprint \<Rightarrow> string \<Rightarrow> bool" where
  "trusted_child ps S runner ns fp name \<longleftrightarrow>
     (\<exists>launch start c. cs_launch_pid S = Some launch \<and> cs_launch_start S = Some start \<and> still ps (launch, start) \<noteq> None \<and>
        is_descendant ps runner launch \<and> proc_namespace_pids ps runner \<noteq> [] \<and> last (proc_namespace_pids ps runner) = 1 \<and>
        registered_child_host_pid ps runner ns = Some (fst fp) \<and> still ps fp = Some c \<and>
        process_match_name (Some c) (cs_expected S) = Some name)"

lemma accepted_answers [simp]:
  "\<not> accepted (refusal msg)"
  "accepted [(''ok'', JBool True), (''registered'', JBool True)]"
  "accepted [(''ok'', JBool True), (''admitted'', JBool True), x, y]"
  by (simp_all add: accepted_def refusal_def get_default_def)

lemma proc_identity_pid: "proc_identity ps pid = Some i \<Longrightarrow> id_pid i = pid"
  by (auto simp: proc_identity_def Let_def split: option.splits sum.splits if_splits)

lemma register_cases:
  obtains (refused) "snd (register_initial_client ps conn child S) = S" "\<not> accepted (fst (register_initial_client ps conn child S))"
  | (registered) pid gid ns fp name start where "cn_peer conn = Inr (pid, cs_euid S, gid)" "as_pid child = Inr ns"
      "cs_client S = None \<or> cs_client S = Some fp" "trusted_child ps S pid ns fp name"
      "snd (register_initial_client ps conn child S) = S\<lparr>cs_client := Some fp, cs_client_name := Some name, cs_runner := Some (pid, start)\<rparr>"
proof -
  let ?A = "register_initial_client ps conn child S"
  have no: thesis if "?A \<in> range (\<lambda>m. (refusal m, S))" by (rule refused) (use that in auto)
  show thesis
  proof (cases "bindR (cn_peer conn) (\<lambda>peer. bindR (as_pid child) (\<lambda>ns. Inr (peer, ns)))")
    case (Inl e)
    then show thesis by (intro no) (simp add: register_initial_client_def)
  next
    case (Inr r)
    obtain pid uid gid ns where r: "r = ((pid, uid, gid), ns)" by (cases r) auto
    have peer: "cn_peer conn = Inr (pid, uid, gid)" "as_pid child = Inr ns" using Inr r by (auto simp: bindR_eq_Inr)
    note A = register_initial_client_def Inr [unfolded r] sum.case prod.case
    show thesis
    proof (cases "uid = cs_euid S \<and> wait_for_launch S \<and> cs_launch_supported S")
      case False
      then show thesis by (intro no) (auto simp: A)
    next
      case ok: True
      show thesis
      proof (cases "\<exists>launch start runner. cs_launch_pid S = Some launch \<and> cs_launch_start S = Some start \<and> proc_identity ps pid = Some runner \<and>
          still ps (launch, start) \<noteq> None \<and> proc_namespace_pids ps pid \<noteq> [] \<and> last (proc_namespace_pids ps pid) = 1 \<and> is_descendant ps pid launch")
        case False
        then have "?A = (refusal ''registration peer is not trusted PID 1'', S)"
          using ok by (auto simp: A split: option.split)
        then show thesis by (intro no) simp
      next
        case True
        then obtain launch start runner where t: "cs_launch_pid S = Some launch" "cs_launch_start S = Some start"
          "proc_identity ps pid = Some runner" "still ps (launch, start) \<noteq> None" "proc_namespace_pids ps pid \<noteq> []"
          "last (proc_namespace_pids ps pid) = 1" "is_descendant ps pid launch" by blast
        let ?client = "case registered_child_host_pid ps pid ns of Some c \<Rightarrow> proc_identity ps c | None \<Rightarrow> None"
        have A': "?A = (case (?client, process_match_name ?client (cs_expected S)) of
                      (Some c, Some name) \<Rightarrow>
                        (let fp = (id_pid c, id_start c) in
                         if cs_client S \<noteq> None \<and> cs_client S \<noteq> Some fp then (refusal ''initial client is already registered'', S)
                         else ([(''ok'', JBool True), (''registered'', JBool True)],
                               S\<lparr>cs_client := Some fp, cs_client_name := Some name, cs_runner := Some (id_pid runner, id_start runner)\<rparr>))
                    | _ \<Rightarrow> (refusal ''registered child is not the expected client'', S))"
          using ok t by (simp add: A Let_def del: not_None_eq)
        show thesis
        proof (cases "?client = None \<or> process_match_name ?client (cs_expected S) = None")
          case True
          then show thesis by (intro no) (auto simp: A' split: option.split)
        next
          case False
          then obtain c name where c: "?client = Some c" "process_match_name (Some c) (cs_expected S) = Some name" by auto
          then obtain child' where child': "registered_child_host_pid ps pid ns = Some child'" "proc_identity ps child' = Some c"
            by (auto split: option.splits)
          show thesis
          proof (cases "cs_client S = None \<or> cs_client S = Some (id_pid c, id_start c)")
            case False
            then show thesis by (intro no) (simp add: A' c Let_def)
          next
            case True
            have "trusted_child ps S pid ns (id_pid c, id_start c) name"
              using t c child' proc_identity_pid [OF child'(2)] by (auto simp: trusted_child_def still_Some)
            moreover have "snd ?A = S\<lparr>cs_client := Some (id_pid c, id_start c), cs_client_name := Some name,
                cs_runner := Some (pid, id_start runner)\<rparr>"
              using True proc_identity_pid [OF t(3)] by (auto simp: A' c)
            ultimately show thesis using registered [of pid gid ns _ name] True peer ok by blast
          qed
        qed
      qed
    qed
  qed
qed

lemma admit_mcp_cases:
  obtains (refused) "snd (admit_mcp ps conn client S) = S" "\<not> accepted (fst (admit_mcp ps conn client S))"
  | (hardened) pid gid el name where "cn_peer conn = Inr (pid, cs_euid S, gid)" "eligible_mcp_peer ps S pid = Some el" "el_destructive el"
      "cs_mcp S = None" "cs_read_only S = []"
      "snd (admit_mcp ps conn client S) = S\<lparr>cs_mcp := Some (el_fingerprint el), cs_mcp_name := Some name,
         cs_mcp_conn := Some (cn_id conn), cs_mcp_destructive := True\<rparr>"
  | (read_only) pid gid el name where "cn_peer conn = Inr (pid, cs_euid S, gid)" "eligible_mcp_peer ps S pid = Some el" "\<not> el_destructive el"
      "cs_mcp S = None"
      "snd (admit_mcp ps conn client S) = S\<lparr>cs_read_only := dict_set (cs_read_only S) (cn_id conn) (el_fingerprint el, name)\<rparr>"
proof -
  let ?A = "admit_mcp ps conn client S"
  obtain name where name: "str_lower (owner_name client) = name" by blast
  have no: thesis if "?A \<in> range (\<lambda>m. (refusal m, S))" by (rule refused) (use that in auto)
  note A = admit_mcp_def Let_def name
  show thesis
  proof (cases "name \<in> {''codex'', ''claude''}")
    case False
    then show thesis by (intro no) (auto simp: A)
  next
    case known: True
    show thesis
    proof (cases "cn_peer conn")
      case (Inl e)
      then show thesis using known by (intro no) (auto simp: A)
    next
      case (Inr r)
      obtain pid uid gid where r: "cn_peer conn = Inr (pid, uid, gid)" using Inr by (cases r) auto
      show thesis
      proof (cases "uid = cs_euid S")
        case False
        then show thesis using known r by (intro no) (auto simp: A)
      next
        case uid: True
        show thesis
        proof (cases "eligible_mcp_peer ps S pid")
          case None
          then show thesis using known r uid by (intro no) (auto simp: A)
        next
          case (Some el)
          consider "el_destructive el" "cs_mcp S = None" "cs_read_only S = []" | "el_destructive el" "cs_mcp S \<noteq> None \<or> cs_read_only S \<noteq> []"
            | "\<not> el_destructive el" "cs_mcp S = None" | "\<not> el_destructive el" "cs_mcp S \<noteq> None" by blast
          then show thesis
          proof cases
            case 1
            then have "snd ?A = S\<lparr>cs_mcp := Some (el_fingerprint el), cs_mcp_name := Some name,
                cs_mcp_conn := Some (cn_id conn), cs_mcp_destructive := True\<rparr>"
              using known r uid Some by (auto simp: A)
            then show thesis using hardened 1 r uid Some by blast
          next
            case 2
            then show thesis using known r uid Some by (intro no) (auto simp: A)
          next
            case 3
            then have "snd ?A = S\<lparr>cs_read_only := dict_set (cs_read_only S) (cn_id conn) (el_fingerprint el, name)\<rparr>"
              using known r uid Some by (auto simp: A)
            then show thesis using read_only 3 r uid Some by blast
          next
            case 4
            then show thesis using known r uid Some by (intro no) (auto simp: A)
          qed
        qed
      qed
    qed
  qed
qed

lemma admit_workspace_cases:
  obtains (refused) "snd (admit_workspace_client ps conn client S) = S"
  | (admitted) fp where "cs_workspace S = None" "cs_client S = Some fp"
      "snd (admit_workspace_client ps conn client S) = S\<lparr>cs_workspace := Some fp, cs_workspace_name := Some ''hermes'',
         cs_workspace_conn := Some (cn_id conn)\<rparr>"
proof -
  have el: "cs_client S = Some fp" if "eligible_workspace_peer ps S pid = Some fp" for pid fp
    using that by (auto simp: eligible_workspace_peer_def split: option.splits if_splits)
  have one: thesis if "\<exists>pid fp. eligible_workspace_peer ps S pid = Some fp \<and> cs_workspace S = None \<and>
      snd (admit_workspace_client ps conn client S) = S\<lparr>cs_workspace := Some fp, cs_workspace_name := Some ''hermes'',
         cs_workspace_conn := Some (cn_id conn)\<rparr>"
    using that el admitted by blast
  show thesis
  proof (cases "cn_peer conn")
    case (Inl e)
    then show thesis by (intro refused) (simp add: admit_workspace_client_def)
  next
    case (Inr r)
    obtain pid uid gid where r: "cn_peer conn = Inr (pid, uid, gid)" using Inr by (cases r) auto
    show thesis
    proof (cases "eligible_workspace_peer ps S pid")
      case None
      then show thesis by (intro refused) (simp add: admit_workspace_client_def r)
    next
      case (Some fp)
      show thesis
      proof (cases "py_str client \<noteq> ''hermes'' \<or> ''hermes'' \<notin> set (cs_expected S) \<or> uid \<noteq> cs_euid S \<or> cs_workspace S \<noteq> None")
        case True
        then show thesis by (intro refused) (auto simp: admit_workspace_client_def r Some)
      next
        case False
        then show thesis by (intro one exI [of _ pid] exI [of _ fp]) (simp_all add: admit_workspace_client_def r Some del: not_None_eq)
      qed
    qed
  qed
qed

section \<open>Invariants of the pins\<close>

definition pins_ok :: "control_server \<Rightarrow> bool" where
  "pins_ok S \<longleftrightarrow> (cs_mcp S = None \<or> cs_read_only S = [] \<and> cs_mcp_destructive S \<and> cs_mcp_conn S \<noteq> None) \<and>
     (cs_mcp S = None \<longrightarrow> cs_mcp_conn S = None \<and> \<not> cs_mcp_destructive S)"

lemma launch_fields:
  "set_launch_process ps pid supported S = Inr S' \<Longrightarrow>
     \<exists>start. S' = S\<lparr>cs_launch_pid := Some pid, cs_launch_start := Some start, cs_launch_supported := supported\<rparr>"
  by (auto simp: set_launch_process_def split: option.splits)

lemma released_fields:
  "cs_client (released_server conn S) = cs_client S" "cs_read_only (released_server conn S) = cs_read_only S"
  "cs_require_boundary (released_server conn S) = cs_require_boundary S" "cs_enforce_mcp (released_server conn S) = cs_enforce_mcp S"
  "cs_mcp (released_server conn S) = (if cs_mcp_conn S = Some (cn_id conn) then None else cs_mcp S)"
  "cs_mcp_conn (released_server conn S) = (if cs_mcp_conn S = Some (cn_id conn) then None else cs_mcp_conn S)"
  "cs_mcp_destructive (released_server conn S) \<longleftrightarrow> cs_mcp_conn S \<noteq> Some (cn_id conn) \<and> cs_mcp_destructive S"
  by (simp_all add: released_server_def Let_def workspace_pinned_def)

lemma stableI:
  assumes "\<And>fp name start S ps pid ns. P S \<Longrightarrow> cs_client S = None \<or> cs_client S = Some fp \<Longrightarrow> trusted_child ps S pid ns fp name \<Longrightarrow>
      P (S\<lparr>cs_client := Some fp, cs_client_name := Some name, cs_runner := Some (pid, start)\<rparr>)"
    and "\<And>S ps pid el name id. P S \<Longrightarrow> eligible_mcp_peer ps S pid = Some el \<Longrightarrow> el_destructive el \<Longrightarrow> cs_mcp S = None \<Longrightarrow> cs_read_only S = [] \<Longrightarrow>
      P (S\<lparr>cs_mcp := Some (el_fingerprint el), cs_mcp_name := Some name, cs_mcp_conn := Some id, cs_mcp_destructive := True\<rparr>)"
    and "\<And>S el name id. P S \<Longrightarrow> cs_mcp S = None \<Longrightarrow> P (S\<lparr>cs_read_only := dict_set (cs_read_only S) id (el, name)\<rparr>)"
    and "\<And>S fp name id. P S \<Longrightarrow> P (S\<lparr>cs_workspace := Some fp, cs_workspace_name := Some name, cs_workspace_conn := Some id\<rparr>)"
    and "\<And>S conn. P S \<Longrightarrow> P (released_server conn S)"
    and "\<And>S pid start supported. P S \<Longrightarrow> P (S\<lparr>cs_launch_pid := Some pid, cs_launch_start := Some start, cs_launch_supported := supported\<rparr>)"
    and "\<And>S id. P S \<Longrightarrow> P (S\<lparr>cs_read_only := dict_pop (cs_read_only S) id\<rparr>)"
  shows "stable P"
  unfolding stable_def
proof (intro conjI allI impI)
  fix ps conn v S assume S: "P S"
  show "P (snd (register_initial_client ps conn v S))"
    by (rule register_cases [of ps conn v S]) (auto simp: S intro!: assms(1))
  show "P (snd (admit_mcp ps conn v S))"
    by (rule admit_mcp_cases [of ps conn v S]) (auto simp: S intro!: assms(2,3))
  show "P (snd (admit_workspace_client ps conn v S))"
    by (rule admit_workspace_cases [of ps conn v S]) (auto simp: S intro!: assms(4))
  show "P (released_server conn S)" by (rule assms(5) [OF S])
next
  fix ps pid supported S S' assume "P S" "set_launch_process ps pid supported S = Inr S'"
  then show "P S'" using launch_fields assms(6) by blast
qed (rule assms(7))

lemma stable_pins: "stable pins_ok"
  by (rule stableI) (auto simp: pins_ok_def released_fields)

lemma stable_client: "stable (\<lambda>S. cs_client S = Some fp)"
  by (rule stableI) (auto simp: released_fields)

text \<open>With the launch boundary, the pinned MCP process was admitted as a child of the registered client.\<close>

definition mcp_of_client :: "control_server \<Rightarrow> bool" where
  "mcp_of_client S \<longleftrightarrow> cs_require_boundary S \<and> cs_enforce_mcp S \<and>
     (\<forall>a b c d. cs_mcp S = Some (a, b, c, d) \<longrightarrow> cs_client S = Some (c, d))"

lemma eligible_client:
  assumes "eligible_mcp_peer ps S pid = Some el" "el_destructive el" "cs_require_boundary S"
  shows "\<exists>a b c d. el_fingerprint el = (a, b, c, d) \<and> cs_client S = Some (c, d)"
proof -
  obtain peer where peer: "proc_identity ps pid = Some peer" using assms(1) by (auto simp: eligible_mcp_peer_def split: option.splits)
  have "cs_client S \<noteq> None"
    using assms peer by (auto simp: eligible_mcp_peer_def unregistered_peer_def Let_def split: if_splits option.splits)
  then obtain c where c: "client_of_peer ps S peer = Some c" "el_fingerprint el = (id_pid peer, id_start peer, id_pid c, id_start c)"
    using assms peer by (auto simp: eligible_mcp_peer_def Let_def split: if_splits option.splits)
  then show ?thesis
    using assms(3) proc_identity_pid by (fastforce simp: client_of_peer_def still_Some split: option.splits if_splits)
qed

lemma stable_mcp_of_client: "stable mcp_of_client"
proof (rule stableI)
  fix S ps pid el name id
  assume "mcp_of_client S" "eligible_mcp_peer ps S pid = Some el" "el_destructive el"
  then show "mcp_of_client (S\<lparr>cs_mcp := Some (el_fingerprint el), cs_mcp_name := Some name, cs_mcp_conn := Some id, cs_mcp_destructive := True\<rparr>)"
    using eligible_client [of ps S pid el] by (auto simp: mcp_of_client_def)
qed (auto simp: mcp_of_client_def released_fields)

lemma stable_conj: "stable P \<Longrightarrow> stable Q \<Longrightarrow> stable (\<lambda>S. P S \<and> Q S)"
  by (auto simp: stable_def)

section \<open>What reaches the supervisor\<close>

text \<open>The connection of the pinned, hardened MCP process: a live child of the live client it was pinned with, both hiding
  their descriptors, inside the launch boundary.\<close>

definition hardened_child :: "procs \<Rightarrow> control_server \<Rightarrow> connection \<Rightarrow> fingerprint \<Rightarrow> bool" where
  "hardened_child ps S conn client \<longleftrightarrow>
     (\<exists>pid start peer. cs_mcp_conn S = Some (cn_id conn) \<and> cs_mcp S = Some (pid, start, fst client, snd client) \<and>
        still ps (pid, start) = Some peer \<and> still ps client \<noteq> None \<and> (pid = fst client \<or> id_ppid peer = fst client) \<and>
        launch_boundary_valid ps S (fst client) \<and> proc_fds_hidden ps pid \<and> proc_fds_hidden ps (fst client))"

lemma authorized_hardened:
  assumes "mcp_destructive_authorized ps conn S"
  shows "\<exists>client. hardened_child ps S conn client"
proof -
  obtain a b c d where r: "mcp_connection_record conn S = Some ((a, b, c, d), True)" and v: "mcp_connection_valid ps conn S"
    using assms by (auto simp: mcp_destructive_authorized_def split: option.splits bool.splits)
  have "cs_mcp_conn S = Some (cn_id conn)" "cs_mcp S = Some (a, b, c, d)"
    using r by (auto simp: mcp_connection_record_def split: if_splits option.splits)
  then have "hardened_child ps S conn (c, d)"
    using v by (auto simp: hardened_child_def mcp_connection_valid_def r split: option.splits)
  then show ?thesis by blast
qed

lemma refused_unchanged:
  assumes "guards ps ps [] conn req S \<noteq> None" "\<not> op_in req [WORKSPACE_CONFIRM_OP]"
  shows "snd (guarded_request H ps laters conn req (S, h)) = (S, h)"
  using assms by (auto simp: guarded_request_def bindE_def getE_def retE_def)

lemma serve_guarded:
  assumes "op_in req MCP_ONLY_OPS"
  shows "serve_request H ps laters conn req (S, h) =
    (if get_default req ''token'' JNull \<noteq> JStr (cs_token S) then (Inr (refusal ''unauthorized'', False), (S, h))
     else guarded_request H ps laters conn req (S, h))"
  using assms unfolding serve_request_def
  by (auto simp: op_in_def MCP_ONLY_OPS_def ROUTE_OPS_def hashable_def bindE_def getE_def retE_def)

lemma destructive_guarded:
  assumes "op_in req MCP_ONLY_OPS" "destructive_request req" "cs_enforce_mcp S"
    and "snd (snd (serve_request H ps laters conn req (S, h))) \<noteq> h"
  shows "\<exists>client. hardened_child ps S conn client"
proof (rule ccontr)
  assume no: "\<nexists>client. hardened_child ps S conn client"
  have op: "\<not> op_in req [WORKSPACE_CONFIRM_OP]" "\<not> op_in req [WORKSPACE_SESSION_REPLACE_OP]"
    using assms(1) by (auto simp: op_in_def MCP_ONLY_OPS_def WORKSPACE_CONFIRM_OP_def WORKSPACE_SESSION_REPLACE_OP_def)
  have "\<not> mcp_destructive_authorized ps conn S" using no authorized_hardened by blast
  then have "guards ps ps [] conn req S \<noteq> None"
    using assms(1-3) op by (auto simp: guards_def)
  from refused_unchanged [OF this op(1), of H laters h] show False
    using assms(4) by (simp add: serve_guarded [OF assms(1)] split: if_splits)
qed

section \<open>A sample system\<close>

text \<open>The launcher, the client it registered as the child of its PID 1, and the client's MCP process.\<close>

definition sample_proc :: "string \<Rightarrow> int \<Rightarrow> int \<Rightarrow> string \<Rightarrow> bool \<Rightarrow> proc_files" where
  "sample_proc name ppid start children hidden =
     \<lparr>pf_stat = Some (''1 ('' @ name @ '') S '' @ show_int ppid @ '' 0 0 0 0 0 0 0 0 0 0 0 0 0 0 0 0 0 '' @ show_int start @ '' 0''),
      pf_cmdline = Some (''/usr/bin/'' @ name), pf_exe = None,
      pf_fd = (if hidden then Some (PermissionError ''fd'') else None), pf_status = Some (''NSpid: 7 1''), pf_children = Some children\<rparr>"

definition sample_procs :: "bool \<Rightarrow> procs" where
  "sample_procs hidden = [(10, sample_proc ''bwrap'' 2 100 ''20'' False), (20, sample_proc ''runner'' 10 200 ''30'' True),
     (30, sample_proc ''codex'' 20 300 ''40'' hidden), (40, sample_proc ''mcp) S 1'' 30 400 [] hidden)]"

definition sample_server :: control_server where
  "sample_server = make_control_server ''secret'' ''hook'' [''codex''] True True [] False 1000"

definition sample_conn :: "nat \<Rightarrow> int \<Rightarrow> connection" where
  "sample_conn n pid = \<lparr>cn_id = n, cn_peer = Inr (pid, 1000, 1000)\<rparr>"

definition request :: "string \<Rightarrow> pydict \<Rightarrow> pydict" where
  "request name args = (''op'', JStr name) # (''token'', JStr ''secret'') # args"

definition admission_events :: "bool \<Rightarrow> control_event list" where
  "admission_events hidden =
     [Launched (sample_procs hidden) 10 True,
      Request (sample_procs hidden) [] (sample_conn 1 20) (request ''mcp-register-client'' [(''pid'', JInt 1)]),
      Request (sample_procs hidden) [] (sample_conn 2 40) (request ''mcp-admit'' [(''client'', JStr ''codex'')])]"

definition served_by :: "'h handler \<Rightarrow> control_event list \<Rightarrow> 'h \<Rightarrow> 'h service" where
  "served_by H evs h = foldl (\<lambda>t ev. control_step H ev t) (sample_server, h) evs"

lemma control_run_foldl: "control_run H t (foldl (\<lambda>t ev. control_step H ev t) t evs)"
  by (induction evs rule: rev_induct) (auto intro: control_run.intros)

lemma control_run_served: "control_run H (sample_server, h) (served_by H evs h)"
  unfolding served_by_def by (rule control_run_foldl)

text \<open>A supervisor with one flagged path waiting for its approval.\<close>

definition asked_turn :: "fake turn" where
  "asked_turn = (turn_world turn_session, [(''t'', [''/storage/user/y''])])"

definition sample_supervisor :: "fake turn handler" where
  "sample_supervisor = handle (turn_setup [turn_change ''D'' ''/storage/user/y'']) sample_env"

definition approval :: "string \<Rightarrow> pydict" where
  "approval word = request ''turn-approve'' [(''approval_token'', JStr ''t''), (''decision'', JStr word)]"

text \<open>A supervisor that counts the requests it gets.\<close>

definition counting :: "nat handler" where
  "counting req = (\<lambda>n. (Inr (JObj []), n + 1))"

text \<open>The server after the admissions: with the one MCP process pinned, or admitted read-only.\<close>

definition registered_server :: control_server where
  "registered_server = sample_server\<lparr>cs_launch_pid := Some 10, cs_launch_start := Some 100, cs_launch_supported := True,
     cs_client := Some (30, 300), cs_client_name := Some ''codex'', cs_runner := Some (20, 200)\<rparr>"

definition admitted_server :: "bool \<Rightarrow> control_server" where
  "admitted_server hidden =
     (if hidden
      then registered_server\<lparr>cs_mcp := Some (40, 400, 30, 300), cs_mcp_name := Some ''codex'', cs_mcp_conn := Some 2,
             cs_mcp_destructive := True\<rparr>
      else registered_server\<lparr>cs_read_only := [(2, (40, 400, 30, 300), ''codex'')]\<rparr>)"

lemma served_hidden: "served_by counting (admission_events True) 0 = (admitted_server True, 0)"
  by code_simp

lemma served_read_only: "served_by counting (admission_events False) 0 = (admitted_server False, 0)"
  by code_simp

lemma run_hidden: "control_run counting (sample_server, 0) (admitted_server True, 0)"
  using control_run_served [of counting 0 "admission_events True"] by (simp add: served_hidden)

lemma released_gone:
  assumes "cs_mcp_conn S = Some (cn_id conn)" "cs_mcp S = Some (a, b, c, d)" "proc_identity ps a = None"
  shows "workspace_authority ps conn S = None"
proof -
  have "\<not> mcp_connection_valid ps conn S"
    using assms by (auto simp: mcp_connection_valid_def mcp_connection_record_def still_def split: option.splits)
  then show ?thesis using assms by (auto simp: workspace_authority_def split: option.splits)
qed

section \<open>Properties\<close>

text \<open>A process cannot forge its identity through its name: whatever text a process puts into the name field of its
  procfs status line, parentheses and spaces included, the identity read from the line is the same.\<close>

theorem name_cannot_forge_identity:
  assumes "pf_cmdline p = pf_cmdline q" "pf_exe p = pf_exe q"
    and "pf_stat p = Some (number @ '' ('' @ name @ '') '' @ tail)" "pf_stat q = Some (number @ '' ('' @ other @ '') '' @ tail)"
    and "CHR '')'' \<notin> set tail" "is_ascii name" "is_ascii other"
  shows "proc_identity [(pid, p)] pid = proc_identity [(pid, q)] pid"
proof -
  have "is_ascii (number @ '' ('' @ name @ '') '' @ tail) \<longleftrightarrow> is_ascii (number @ '' ('' @ other @ '') '' @ tail)"
    using assms(6,7) by (simp add: is_ascii_def)
  then show ?thesis
    using after_comm_tail [OF assms(5), of number] assms(1-4)
    unfolding proc_identity_def by (simp split: option.split)
qed

lemma name_cannot_forge_identity_witness:
  "proc_identity [(40, sample_proc ''mcp) S 1'' 30 400 [] True)] 40 =
     proc_identity [(40, (sample_proc ''mcp) S 1'' 30 400 [] True)\<lparr>pf_stat := pf_stat (sample_proc ''other'' 30 400 [] True)\<rparr>)] 40"
  by (rule name_cannot_forge_identity
      [where number = "''1''" and name = "''mcp) S 1''" and other = "''other''" and tail = "''S 30 0 0 0 0 0 0 0 0 0 0 0 0 0 0 0 0 0 400 0''"])
    code_simp+

text \<open>C23. The pins exclude each other: over every run of a new server, when an MCP process is pinned with destructive
  authority it is pinned to a connection and no read-only MCP connection is admitted beside it.\<close>

theorem pins_exclusive:
  assumes "control_run H (make_control_server token hook_token expected boundary enforce wrappers unregistered euid, h) (S, h')"
    and "cs_mcp S \<noteq> None"
  shows "cs_mcp_conn S \<noteq> None \<and> cs_mcp_destructive S \<and> cs_read_only S = []"
  using stable_run [OF assms(1) stable_pins] assms(2) by (auto simp: pins_ok_def make_control_server_def)

lemma pins_exclusive_witness: "cs_read_only (admitted_server True) = []"
  using pins_exclusive [OF run_hidden [unfolded sample_server_def]] by (simp add: admitted_server_def)

text \<open>The initial client is registered once: whatever is requested, released or launched afterwards, the
  registered client stays the same process.\<close>

theorem client_registered_once:
  assumes "control_run H (S, h) (S', h')" "cs_client S = Some fp"
  shows "cs_client S' = Some fp"
  using stable_run [OF assms(1) stable_client [of fp]] assms(2) by simp

lemma client_registered_once_witness:
  "cs_client (fst (control_step counting (Closed (sample_procs True) None (sample_conn 2 40)) (admitted_server True, 0))) = Some (30, 300)"
proof -
  let ?u = "control_step counting (Closed (sample_procs True) None (sample_conn 2 40)) (admitted_server True, 0)"
  have "control_run counting (admitted_server True, 0) (fst ?u, snd ?u)"
    using run_event [OF run_none [of counting "(admitted_server True, 0)"]] by simp
  then show ?thesis
    by (rule client_registered_once) (simp add: admitted_server_def registered_server_def)
qed

text \<open>C22. Abort requests, and approvals and resolutions with one of the words the server takes for destructive, reach the
  supervisor only from the hardened child of the registered client: over every run of a server that enforces the
  launch boundary, if such a request changes the supervisor's state, its connection is the pinned one, its process and
  the registered client are the live processes that were fingerprinted, inside the launch boundary, and both
  hide their descriptors.\<close>

theorem destructive_needs_hardened_child:
  assumes "control_run H (make_control_server token hook_token expected True True wrappers unregistered euid, h0) (S, h)"
    and "op_in req MCP_ONLY_OPS" "destructive_request req"
    and "serve_request H ps laters conn req (S, h) = (r, (S', h'))" "h' \<noteq> h"
  shows "\<exists>client. cs_client S = Some client \<and> hardened_child ps S conn client"
proof -
  have S: "mcp_of_client S"
    using stable_run [OF assms(1) stable_mcp_of_client] by (simp add: mcp_of_client_def make_control_server_def)
  then obtain client where "hardened_child ps S conn client"
    using destructive_guarded [of req S H ps laters conn h] assms(2-5) by (auto simp: mcp_of_client_def)
  moreover from this have "cs_client S = Some client"
    using S by (cases client) (auto simp: hardened_child_def mcp_of_client_def)
  ultimately show ?thesis by blast
qed

lemma destructive_needs_hardened_child_witness:
  "\<exists>client. hardened_child (sample_procs True) (admitted_server True) (sample_conn 2 40) client"
proof -
  let ?serve = "serve_request counting (sample_procs True) [] (sample_conn 2 40) (approval ''yes'') (admitted_server True, 0)"
  obtain r S' n' where run: "?serve = (r, (S', n'))" by (cases ?serve) auto
  have "snd (snd ?serve) \<noteq> 0" by code_simp
  then have "n' \<noteq> 0" using run by simp
  moreover have "op_in (approval ''yes'') MCP_ONLY_OPS" "destructive_request (approval ''yes'')" by code_simp+
  ultimately show ?thesis
    using destructive_needs_hardened_child [OF run_hidden [unfolded sample_server_def] _ _ run] by blast
qed

text \<open>An approval over the read-only connection that commits the flagged path.\<close>

definition approved_read_only :: "string \<Rightarrow> bool" where
  "approved_read_only word \<longleftrightarrow>
     (case serve_request sample_supervisor (sample_procs False) [] (sample_conn 2 40) (approval word) (admitted_server False, asked_turn) of
       (Inr (answer, _), _) \<Rightarrow> get_default answer ''committed'' JNull = jstrs [''/storage/user/y'']
     | (Inl _, _) \<Rightarrow> False)"

lemma yes_refused: "\<not> approved_read_only ''yes''"
  by code_simp

lemma approve_passes: "approved_read_only ''approve''"
  by code_simp

lemma read_only_not_authorized: "\<not> mcp_destructive_authorized (sample_procs False) (sample_conn 2 40) (admitted_server False)"
  by code_simp

text \<open>The server's list of destructive words is not the supervisor's: over a read-only MCP connection, of a client that
  does not hide its descriptors and that has no destructive authority, the decision \<open>yes\<close> is refused, but the
  decision \<open>approve\<close> passes the guards and the supervisor commits the flagged path.\<close>

theorem read_only_approval_commits:
  "\<not> mcp_destructive_authorized (sample_procs False) (sample_conn 2 40) (admitted_server False) \<and>
   \<not> approved_read_only ''yes'' \<and> approved_read_only ''approve''"
  by (simp only: read_only_not_authorized yes_refused approve_passes not_False_eq_True simp_thms)

text \<open>The roots of a transport whose process has exited are not revoked: when the pinned MCP process is gone by the time
  its connection is released, the pin is cleared and the supervisor is not told.\<close>

theorem exited_transport_not_revoked:
  assumes "cs_mcp_conn S = Some (cn_id conn)" "cs_mcp S = Some (a, b, c, d)" "proc_identity ps a = None"
    and "\<not> dict_has (cs_read_only S) (cn_id conn)"
  shows "release_pinned_connection H ps after conn (S, h) = (Inr (), (released_server conn S, h)) \<and>
    cs_mcp (released_server conn S) = None"
  using released_gone [OF assms(1-3)] assms(1,4)
  by (auto simp: release_pinned_connection_def bindE_def getE_def seqE_def modE_def retE_def revoke_roots_if_client_live_def
      released_fields split: option.split)

lemma exited_transport_not_revoked_witness:
  "snd (snd (release_pinned_connection counting [] (Some (sample_procs True)) (sample_conn 2 40) (admitted_server True, 0))) = 0"
  using exited_transport_not_revoked [of "admitted_server True" "sample_conn 2 40" 40 400 30 300 "[]" counting "Some (sample_procs True)" 0]
  by (simp add: admitted_server_def sample_conn_def registered_server_def sample_server_def make_control_server_def proc_identity_def)

end
