(* ===== verification/Mcp.thy ===== *)
theory Mcp
  imports ControlServe
begin

text \<open>
  The MCP server inside the sandbox (\<open>mcp.py\<close>) and the control client it speaks through (\<open>control.py\<close>,
  \<open>MCPControlClient\<close>).  The state holds the input lines still to come, the answers the control socket still gives,
  and the trace of what was read, written and asked; the JSON codec is an argument.  The end of the answers is a
  closed control connection, the end of the input lines a closed client.
\<close>

section \<open>State\<close>

datatype io = Read string | Wrote json | Asked pydict

record mcp_server =
  mc_input :: "string list"
  mc_answers :: "json result list"
  mc_trace :: "io list"
  mc_token :: string
  mc_client :: string
  mc_capabilities :: json
  mc_initialized :: bool
  mc_elicitation :: nat
  mc_destructive :: bool
  mc_reason :: string
  mc_roots :: nat
  mc_pending_roots :: "string option"
  mc_refresh :: bool
  mc_generation :: int

type_synonym 'a mcp = "(mcp_server, 'a) eff"

definition make_mcp_server :: "string list \<Rightarrow> json result list \<Rightarrow> string \<Rightarrow> string \<Rightarrow> mcp_server" where
  "make_mcp_server input answers token client =
     \<lparr>mc_input = input, mc_answers = answers, mc_trace = [], mc_token = token,
      mc_client = (if client = [] then ''unknown'' else client), mc_capabilities = JObj [], mc_initialized = False,
      mc_elicitation = 0, mc_destructive = False, mc_reason = ''MCP admission has not completed'', mc_roots = 0,
      mc_pending_roots = None, mc_refresh = False, mc_generation = 0\<rparr>"

definition note_io :: "io \<Rightarrow> unit mcp" where
  "note_io ev = modE (\<lambda>s. s\<lparr>mc_trace := mc_trace s @ [ev]\<rparr>)"

text \<open>\<open>readline\<close>: \<open>None\<close> at the end of the input.\<close>

definition read_line :: "string option mcp" where
  "read_line =
     bindE (getE mc_input) (\<lambda>lines. case lines of
       [] \<Rightarrow> retE None
     | l # rest \<Rightarrow> seqE (modE (\<lambda>s. s\<lparr>mc_input := rest\<rparr>)) (seqE (note_io (Read l)) (retE (Some l))))"

definition write_message :: "pydict \<Rightarrow> unit mcp" where
  "write_message msg = note_io (Wrote (JObj msg))"

definition response :: "json \<Rightarrow> json \<Rightarrow> unit mcp" where
  "response req_id r = write_message [(''jsonrpc'', JStr ''2.0''), (''id'', req_id), (''result'', r)]"

definition error_response :: "json \<Rightarrow> int \<Rightarrow> string \<Rightarrow> unit mcp" where
  "error_response req_id code message =
     write_message [(''jsonrpc'', JStr ''2.0''), (''id'', req_id), (''error'', JObj [(''code'', JInt code), (''message'', JStr message)])]"

section \<open>The control client\<close>

definition control_request :: "pydict \<Rightarrow> pydict mcp" where
  "control_request payload =
     bindE (getE id) (\<lambda>s.
     seqE (note_io (Asked (dict_set (dict_set payload ''token'' (JStr (mc_token s))) ''version'' (JInt 1))))
     (case mc_answers s of
        [] \<Rightarrow> raiseE (ControlError ''control connection closed before response'')
      | answer # rest \<Rightarrow>
          seqE (modE (\<lambda>s. s\<lparr>mc_answers := rest\<rparr>))
          (bindE (liftE (bindR answer as_obj)) (\<lambda>resp.
             if truthy (get_default resp ''ok'' JNull) then retE resp
             else raiseE (ControlError (py_str (get_default resp ''error'' (JStr ''unknown control error''))))))))"

definition client_kept_status :: "pydict mcp" where
  "client_kept_status = control_request [(''op'', JStr ''turn-kept-status'')]"

definition client_resolve_turn :: "string \<Rightarrow> string list \<Rightarrow> pydict mcp" where
  "client_resolve_turn decision paths =
     control_request [(''op'', JStr ''turn-resolve''), (''decision'', JStr decision), (''paths'', jstrs paths)]"

definition client_request_abort :: "pydict mcp" where
  "client_request_abort = control_request [(''op'', JStr ''turn-request-abort'')]"

definition client_replace_workspace_session :: "string \<Rightarrow> int \<Rightarrow> string list \<Rightarrow> string \<Rightarrow> pydict mcp" where
  "client_replace_workspace_session logical generation paths state =
     control_request [(''op'', JStr WORKSPACE_SESSION_REPLACE_OP), (''logical_session_id'', JStr logical),
       (''generation'', JInt generation), (''paths'', jstrs paths), (''state'', JStr state)]"

definition TRANSIENT_ADMISSION_ERROR :: string where
  "TRANSIENT_ADMISSION_ERROR = ''MCP peer is not the eligible official client child''"

text \<open>Admission: retried as long as the only error is that the peer is not eligible yet, at most \<open>n\<close> times until the
  deadline; each retry is a new connection, whose answers follow those of the closed one.\<close>

primrec client_admit :: "nat \<Rightarrow> string \<Rightarrow> pydict mcp" where
  "client_admit 0 client = control_request [(''op'', JStr ''mcp-admit''), (''client'', JStr client)]"
| "client_admit (Suc n) client =
     catchE (control_request [(''op'', JStr ''mcp-admit''), (''client'', JStr client)])
       (\<lambda>e. if e = ControlError TRANSIENT_ADMISSION_ERROR then client_admit n client else raiseE e)"

section \<open>Tools\<close>

definition mcp_tool :: "string \<Rightarrow> string \<Rightarrow> pydict \<Rightarrow> bool \<Rightarrow> json" where
  "mcp_tool name description properties destructive =
     JObj ([(''name'', JStr name), (''description'', JStr description),
            (''inputSchema'', JObj [(''type'', JStr ''object''), (''properties'', JObj properties), (''required'', JArr []),
                (''additionalProperties'', JBool False)])] @
           (if destructive
            then [(''annotations'', JObj [(''destructiveHint'', JBool True), (''readOnlyHint'', JBool False)]),
                  (''_meta'', JObj [(''anthropic/requiresUserInteraction'', JBool True)])]
            else [(''annotations'', JObj [(''readOnlyHint'', JBool (name \<noteq> ''ccc_keep_kept''))])]))"

definition PATHS_PROPERTY :: pydict where
  "PATHS_PROPERTY =
     [(''paths'', JObj [(''type'', JStr ''array''), (''items'', JObj [(''type'', JStr ''string'')]),
        (''description'', JStr ''Currently kept paths to resolve; omit for all kept paths.''), (''uniqueItems'', JBool True)])]"

definition TOOLS :: "json list" where
  "TOOLS =
     [mcp_tool ''ccc_status'' ''Return compact counts for this contained session.'' [] False,
      mcp_tool ''ccc_list_kept'' ''List currently kept non-workspace paths.'' [] False,
      mcp_tool ''ccc_commit_kept''
        ''Commit selected currently kept paths to the real filesystem after human confirmation.'' PATHS_PROPERTY True,
      mcp_tool ''ccc_discard_kept''
        ''Discard selected currently kept BranchFS changes after human confirmation.'' PATHS_PROPERTY True,
      mcp_tool ''ccc_keep_kept'' ''Keep selected currently kept paths in BranchFS for later review.'' PATHS_PROPERTY False,
      mcp_tool ''ccc_abort_session''
        ''After human confirmation, discard every still-live branch change at process exit; already committed earlier turns are unaffected.'' [] True]"

definition tool_result :: "env \<Rightarrow> pydict \<Rightarrow> bool \<Rightarrow> json" where
  "tool_result en value error =
     JObj ([(''content'', JArr [JObj [(''type'', JStr ''text''), (''text'', JStr (en_dumps en (JObj value)))]]),
            (''structuredContent'', JObj value)] @ (if error then [(''isError'', JBool True)] else []))"

definition is_object_at :: "pydict \<Rightarrow> string \<Rightarrow> bool" where
  "is_object_at d k \<longleftrightarrow> is_obj (get_default d k JNull)"

definition has_form_elicitation :: "bool mcp" where
  "has_form_elicitation =
     readE (\<lambda>s. bindR (as_obj (mc_capabilities s)) (\<lambda>caps.
       Inr (case get_default caps ''elicitation'' JNull of JObj e \<Rightarrow> is_object_at e ''form'' | _ \<Rightarrow> False)))"

definition elicitation_id :: "nat \<Rightarrow> string" where
  "elicitation_id n = ''ccc-elicitation-'' @ show_nat n"

definition elicitation_request :: "nat \<Rightarrow> string \<Rightarrow> string list \<Rightarrow> pydict" where
  "elicitation_request n action paths =
     [(''jsonrpc'', JStr ''2.0''), (''id'', JStr (elicitation_id n)), (''method'', JStr ''elicitation/create''),
      (''params'', JObj [(''mode'', JStr ''form''),
         (''message'', JStr (''Confirm CCC '' @ action @ '' of '' @ show_nat (length paths) @ '' kept path(s):'' @ [CHR 0x0A] @
             join_with [CHR 0x0A] (map (\<lambda>p. ''- '' @ p) paths))),
         (''requestedSchema'', JObj [(''type'', JStr ''object''),
            (''properties'', JObj [(''confirm'', JObj [(''type'', JStr ''boolean''), (''title'', JStr (''Confirm '' @ action)),
                (''description'', JStr ''Required to perform this filesystem operation.'')])]),
            (''required'', jstrs [''confirm''])])])]"

text \<open>What the answer to an elicitation says: nothing against it, or the reason to refuse.\<close>

definition elicitation_refusal :: "nat \<Rightarrow> pydict \<Rightarrow> string option" where
  "elicitation_refusal n resp =
     (if get_default resp ''id'' JNull \<noteq> JStr (elicitation_id n) \<or> dict_has resp ''error'' then Some ''invalid elicitation response''
      else (case get_default resp ''result'' JNull of
              JObj r \<Rightarrow>
                if get_default r ''action'' JNull \<noteq> JStr ''accept'' then Some ''human declined or cancelled''
                else (case get_default r ''content'' JNull of
                        JObj c \<Rightarrow> if get_default c ''confirm'' JNull = JBool True then None else Some ''confirmation was not affirmative''
                      | _ \<Rightarrow> Some ''confirmation was not affirmative'')
            | _ \<Rightarrow> Some ''human declined or cancelled''))"

text \<open>The reason to refuse, if any.\<close>

definition elicit :: "env \<Rightarrow> string \<Rightarrow> string list \<Rightarrow> string option mcp" where
  "elicit en action paths =
     bindE has_form_elicitation (\<lambda>form.
     if \<not> form then retE (Some ''client does not advertise form elicitation'')
     else
       seqE (modE (\<lambda>s. s\<lparr>mc_elicitation := mc_elicitation s + 1\<rparr>))
      (bindE (getE mc_elicitation) (\<lambda>n.
       seqE (write_message (elicitation_request n action paths))
      (bindE read_line (\<lambda>line. case line of
         None \<Rightarrow> retE (Some ''elicitation connection closed'')
       | Some l \<Rightarrow>
           (case en_loads en l of
              Inl _ \<Rightarrow> retE (Some ''malformed elicitation response'')
            | Inr v \<Rightarrow> bindE (liftE (as_obj v)) (\<lambda>resp. retE (elicitation_refusal n resp))))))))"

definition current_paths :: "pydict \<Rightarrow> string list mcp" where
  "current_paths arguments =
     bindE client_kept_status (\<lambda>status.
     bindE (liftE (path_args (get_default status ''kept'' JNull))) (\<lambda>current.
     case get_default arguments ''paths'' JNull of
       JNull \<Rightarrow> retE current
     | v \<Rightarrow>
         (case as_strs v of
            Inl _ \<Rightarrow> raiseE (ValueError ''paths must be an array of strings'')
          | Inr requested \<Rightarrow>
              (let unknown = sorted_set (filter (\<lambda>p. p \<notin> set current) requested) in
               if unknown \<noteq> [] then raiseE (ValueError (''paths are not currently remembered as kept: '' @ join_with '', '' unknown))
               else retE (sorted_set requested)))))"

definition DESTRUCTIVE_TOOLS :: "string list" where
  "DESTRUCTIVE_TOOLS = [''ccc_commit_kept'', ''ccc_discard_kept'', ''ccc_abort_session'']"

definition tool_decisions :: "(string, string) dict" where
  "tool_decisions = [(''ccc_commit_kept'', ''commit''), (''ccc_discard_kept'', ''discard''), (''ccc_keep_kept'', ''keep'')]"

definition pending_external :: "env \<Rightarrow> string \<Rightarrow> string list \<Rightarrow> string \<Rightarrow> json" where
  "pending_external en action paths reason =
     tool_result en [(''verdict'', JStr ''pending-external-approval''), (''action'', JStr action), (''paths'', jstrs paths),
       (''reason'', JStr reason)] False"

definition not_authorized :: "env \<Rightarrow> string \<Rightarrow> json" where
  "not_authorized en reason = tool_result en [(''error'', JStr reason), (''verdict'', JStr ''not-authorized'')] True"

text \<open>A destructive operation: refused without destructive authority, asked of the human, and only then performed.\<close>

definition with_confirmation :: "env \<Rightarrow> string \<Rightarrow> string \<Rightarrow> string list \<Rightarrow> string list \<Rightarrow> pydict mcp \<Rightarrow> json mcp" where
  "with_confirmation en action title listed paths m =
     bindE (getE id) (\<lambda>s.
     if \<not> mc_destructive s then retE (pending_external en action paths (mc_reason s))
     else bindE (elicit en title listed) (\<lambda>refused. case refused of
            Some reason \<Rightarrow> retE (not_authorized en reason)
          | None \<Rightarrow> bindE m (\<lambda>d. retE (tool_result en d False))))"

definition count_of :: "pydict \<Rightarrow> string \<Rightarrow> int result" where
  "count_of d k = as_pid (get_default d k (JInt 0))"

definition call_tool :: "env \<Rightarrow> json \<Rightarrow> pydict \<Rightarrow> json mcp" where
  "call_tool en name arguments =
     (if name = JStr ''ccc_status''
      then bindE client_kept_status (\<lambda>status.
           bindE (liftE (bindR (count_of status ''count'') (\<lambda>a. bindR (count_of status ''committed_count'') (\<lambda>b. Inr (a, b))))) (\<lambda>(a, b).
             retE (tool_result en [(''kept_count'', JInt a), (''committed_count'', JInt b)] False)))
      else if name = JStr ''ccc_list_kept''
      then bindE client_kept_status (\<lambda>status.
           bindE (liftE (path_args (get_default status ''kept'' JNull))) (\<lambda>kept.
             retE (tool_result en [(''kept'', jstrs kept), (''count'', JInt (int (length kept)))] False)))
      else if name = JStr ''ccc_abort_session''
      then with_confirmation en ''abort-session'' ''abort remaining session branch''
             [''all still-live BranchFS changes (earlier committed turns are unaffected)''] [] client_request_abort
      else
        (case name of
           JStr tool \<Rightarrow>
             (case dict_get tool_decisions tool of
                None \<Rightarrow> raiseE (KeyError (''unknown tool '' @ tool))
              | Some decision \<Rightarrow>
                  bindE (current_paths arguments) (\<lambda>paths.
                  if paths = [] then retE (tool_result en [(''verdict'', JStr ''noop''), (''paths'', JArr [])] False)
                  else if tool \<in> set DESTRUCTIVE_TOOLS
                  then with_confirmation en decision decision paths paths (client_resolve_turn decision paths)
                  else bindE (client_resolve_turn decision paths) (\<lambda>d. retE (tool_result en d False))))
         | _ \<Rightarrow> if hashable name then raiseE (KeyError (''unknown tool '' @ py_str name)) else raiseE (TypeError ''unhashable type'')))"

section \<open>Workspace roots\<close>

definition supports_roots :: "mcp_server \<Rightarrow> bool result" where
  "supports_roots s = bindR (as_obj (mc_capabilities s)) (\<lambda>caps. Inr (is_object_at caps ''roots''))"

text \<open>\<open>not self.destructive_authorized or not self._supports_roots()\<close>.\<close>

definition roots_allowed :: "bool mcp" where
  "roots_allowed = bindE (getE mc_destructive) (\<lambda>d. if d then readE supports_roots else retE False)"

definition request_roots :: "unit mcp" where
  "request_roots =
     bindE roots_allowed (\<lambda>allowed.
     whenE allowed
       (bindE (getE mc_pending_roots) (\<lambda>pending. case pending of
          Some _ \<Rightarrow> modE (\<lambda>s. s\<lparr>mc_refresh := True\<rparr>)
        | None \<Rightarrow>
            seqE (modE (\<lambda>s. s\<lparr>mc_roots := mc_roots s + 1\<rparr>))
           (bindE (getE mc_roots) (\<lambda>n.
            seqE (modE (\<lambda>s. s\<lparr>mc_pending_roots := Some (''ccc-roots-'' @ show_nat n)\<rparr>))
                 (write_message [(''jsonrpc'', JStr ''2.0''), (''id'', JStr (''ccc-roots-'' @ show_nat n)),
                    (''method'', JStr ''roots/list''), (''params'', JObj [])]))))))"

definition replace_workspace_roots :: "string list \<Rightarrow> pydict mcp" where
  "replace_workspace_roots paths =
     seqE (modE (\<lambda>s. s\<lparr>mc_generation := mc_generation s + 1\<rparr>))
    (bindE (getE mc_generation) (\<lambda>g. client_replace_workspace_session ''mcp-root-set'' g paths ''active''))"

definition roots_changed :: "unit mcp" where
  "roots_changed =
     bindE roots_allowed (\<lambda>allowed. whenE allowed (seqE (replace_workspace_roots []) request_roots))"

text \<open>\<open>urlparse\<close>: the scheme, the authority and the path of a URI; \<open>unquote\<close> of the path, whose bytes are the characters.\<close>

definition scheme_char :: "char \<Rightarrow> bool" where
  "scheme_char c \<longleftrightarrow> (let n = (of_char c :: nat) in 65 \<le> n \<and> n \<le> 90 \<or> 97 \<le> n \<and> n \<le> 122 \<or> 48 \<le> n \<and> n \<le> 57 \<or> c \<in> set ''+-.'')"

definition clean_uri :: "string \<Rightarrow> string" where
  "clean_uri uri = filter (\<lambda>c. (of_char c :: nat) \<notin> {9, 10, 13}) (dropWhile (\<lambda>c. (of_char c :: nat) \<le> 32) uri)"

definition split_scheme :: "string \<Rightarrow> string \<times> string" where
  "split_scheme url =
     (let head = takeWhile (\<lambda>c. c \<noteq> CHR '':'') url in
      if head \<noteq> url \<and> head \<noteq> [] \<and> list_all scheme_char head \<and>
         (let n = (of_char (hd head) :: nat) in 65 \<le> n \<and> n \<le> 90 \<or> 97 \<le> n \<and> n \<le> 122)
      then (str_lower head, drop (length head + 1) url) else ([], url))"

definition urlparse :: "string \<Rightarrow> (string \<times> string \<times> string) result" where
  "urlparse uri =
     (let (scheme, rest) = split_scheme (clean_uri uri);
          netloc = (if startswith rest ''//'' then takeWhile (\<lambda>c. c \<notin> set ''/?#'') (drop 2 rest) else []);
          tail = (if startswith rest ''//'' then drop (2 + length netloc) rest else rest)
      in if (CHR ''['' \<in> set netloc) \<noteq> (CHR '']'' \<in> set netloc) then Inl (ValueError ''Invalid IPv6 URL'')
         else Inr (scheme, netloc, takeWhile (\<lambda>c. c \<notin> set ''?#'') tail))"

definition hex_value :: "char \<Rightarrow> nat option" where
  "hex_value c = (let n = (of_char c :: nat) in
     if 48 \<le> n \<and> n \<le> 57 then Some (n - 48) else if 65 \<le> n \<and> n \<le> 70 then Some (n - 55)
     else if 97 \<le> n \<and> n \<le> 102 then Some (n - 87) else None)"

fun unquote :: "string \<Rightarrow> string" where
  "unquote (c # a # b # rest) =
     (if c = CHR ''%''
      then (case (hex_value a, hex_value b) of
              (Some x, Some y) \<Rightarrow> char_of (16 * x + y) # unquote rest
            | _ \<Rightarrow> c # unquote (a # b # rest))
      else c # unquote (a # b # rest))"
| "unquote s = s"

definition root_path :: "json \<Rightarrow> string list result" where
  "root_path root =
     (case root of
        JObj d \<Rightarrow>
          (case get_default d ''uri'' JNull of
             JStr uri \<Rightarrow>
               bindR (urlparse uri) (\<lambda>(scheme, netloc, path).
                 Inr (if scheme = ''file'' \<and> netloc \<in> {[], ''localhost''} \<and> startswith (unquote path) ''/'' then [unquote path] else []))
           | _ \<Rightarrow> Inr [])
      | _ \<Rightarrow> Inr [])"

definition root_paths :: "pydict \<Rightarrow> string list result" where
  "root_paths resp =
     (case get_default resp ''result'' JNull of
        JObj r \<Rightarrow>
          (case get_default r ''roots'' JNull of
             JArr roots \<Rightarrow> bindR (mapR root_path roots) (\<lambda>pss. Inr (sorted_set (concat pss)))
           | _ \<Rightarrow> Inl (ValueError ''roots/list result must contain a roots array''))
      | _ \<Rightarrow> Inl (ValueError ''roots/list result must contain a roots array''))"

text \<open>An answer to the pending request for roots is used, unless the roots have changed again since: then they are
  requested once more.\<close>

definition handle_roots_response :: "pydict \<Rightarrow> bool mcp" where
  "handle_roots_response resp =
     bindE (getE mc_pending_roots) (\<lambda>pending.
     if Some (get_default resp ''id'' JNull) \<noteq> map_option JStr pending then retE False
     else
       bindE (getE mc_refresh) (\<lambda>refresh.
       seqE (modE (\<lambda>s. s\<lparr>mc_pending_roots := None, mc_refresh := False\<rparr>))
      (if refresh then seqE request_roots (retE True)
       else if dict_has resp ''error'' then retE True
       else (case root_paths resp of
               Inl e \<Rightarrow> if is_value_error e then retE True else raiseE e
             | Inr paths \<Rightarrow> seqE (replace_workspace_roots paths) (retE True)))))"

section \<open>Requests\<close>

definition or_object :: "json \<Rightarrow> pydict result" where
  "or_object v = (if truthy v then as_obj v else Inr [])"

definition initialize :: "nat \<Rightarrow> json \<Rightarrow> json \<Rightarrow> unit mcp" where
  "initialize retries req_id params =
     bindE (liftE (or_object params)) (\<lambda>ps.
     seqE (modE (\<lambda>s. s\<lparr>mc_capabilities := (let c = get_default ps ''capabilities'' JNull in if truthy c then c else JObj [])\<rparr>))
    (bindE (getE mc_client) (\<lambda>client.
     bindE (client_admit retries client) (\<lambda>answer.
     seqE (modE (\<lambda>s. s\<lparr>mc_destructive := truthy (get_default answer ''destructive_authorized'' JNull),
             mc_reason := (let r = get_default answer ''authorization_reason'' JNull in
               if truthy r then py_str r else ''trusted client transport is not hardened''), mc_initialized := True\<rparr>))
          (response req_id (JObj [(''protocolVersion'', JStr ''2025-06-18''),
             (''capabilities'', JObj [(''tools'', JObj [(''listChanged'', JBool False)])]),
             (''serverInfo'', JObj [(''name'', JStr ''ccc-agent''), (''version'', JStr ''1'')])]))))))"

definition is_tool_error :: "pyexn \<Rightarrow> bool" where
  "is_tool_error e = (case e of ControlError _ \<Rightarrow> True | KeyError _ \<Rightarrow> True | _ \<Rightarrow> is_value_error e)"

definition tools_call :: "env \<Rightarrow> json \<Rightarrow> json \<Rightarrow> unit mcp" where
  "tools_call en req_id params =
     bindE (liftE (or_object params)) (\<lambda>ps.
     case (let a = get_default ps ''arguments'' JNull in if truthy a then a else JObj []) of
       JObj arguments \<Rightarrow>
         bindE (catchE (call_tool en (get_default ps ''name'' JNull) arguments)
                  (\<lambda>e. if is_tool_error e then retE (tool_result en [(''error'', JStr (exn_str e))] True) else raiseE e))
           (\<lambda>r. response req_id r)
     | _ \<Rightarrow> response req_id (tool_result en [(''error'', JStr ''arguments must be an object'')] True))"

definition dispatch :: "env \<Rightarrow> nat \<Rightarrow> pydict \<Rightarrow> unit mcp" where
  "dispatch en retries req =
     (let meth = get_default req ''method'' JNull; req_id = get_default req ''id'' JNull in
      if meth = JStr ''initialize'' then initialize retries req_id (get_default req ''params'' JNull)
      else if meth = JStr ''notifications/initialized'' then request_roots
      else if meth = JStr ''notifications/roots/list_changed'' then roots_changed
      else bindE (getE mc_initialized) (\<lambda>initialized.
        if \<not> initialized then error_response req_id (-32002) ''server is not initialized''
        else if meth = JStr ''ping'' then response req_id (JObj [])
        else if meth = JStr ''tools/list'' then response req_id (JObj [(''tools'', JArr TOOLS)])
        else if meth = JStr ''tools/call'' then tools_call en req_id (get_default req ''params'' JNull)
        else whenE (req_id \<noteq> JNull) (error_response req_id (-32601) ''method not found'')))"

text \<open>One line of the input; \<open>Some code\<close> ends the server.\<close>

definition serve_line :: "env \<Rightarrow> nat \<Rightarrow> string \<Rightarrow> int option mcp" where
  "serve_line en retries line =
     (case en_loads en line of
        Inl _ \<Rightarrow> seqE (error_response JNull (-32700) ''parse error'') (retE None)
      | Inr v \<Rightarrow>
          bindE (liftE (as_obj v)) (\<lambda>req.
          catchE
            (bindE (getE mc_pending_roots) (\<lambda>pending.
             bindE (if pending \<noteq> None \<and> \<not> dict_has req ''method'' then handle_roots_response req else retE False) (\<lambda>handled.
             seqE (whenE (\<not> handled) (dispatch en retries req)) (retE None))))
            (\<lambda>e. case e of
               ControlError msg \<Rightarrow>
                 seqE (whenE (get_default req ''id'' JNull \<noteq> JNull) (error_response (get_default req ''id'' JNull) (-32001) msg)) (retE (Some 1))
             | _ \<Rightarrow> raiseE e)))"

text \<open>The loop over the input; a confirmation reads a line inside a request, so the number of rounds is at most the number
  of lines, plus the one that finds the end.\<close>

primrec serve_input :: "nat \<Rightarrow> env \<Rightarrow> nat \<Rightarrow> int option mcp" where
  "serve_input 0 en retries = retE None"
| "serve_input (Suc n) en retries =
     bindE read_line (\<lambda>line. case line of
       None \<Rightarrow> retE (Some 0)
     | Some l \<Rightarrow> bindE (serve_line en retries l) (\<lambda>code. case code of
           Some c \<Rightarrow> retE (Some c)
         | None \<Rightarrow> serve_input n en retries))"

definition mcp_run :: "env \<Rightarrow> nat \<Rightarrow> int option mcp" where
  "mcp_run en retries = bindE (getE (\<lambda>s. length (mc_input s))) (\<lambda>n. serve_input (Suc n) en retries)"

end
