(* ===== verification/McpFacts.thy ===== *)
theory McpFacts
  imports Mcp
begin

text \<open>
  What the MCP server promises, as invariants of its input and output: the locale \<open>mcp_invariant\<close> says how one event
  may change the state, and its lemmas carry the invariant through every request; three interpretations
  give that a destructive request is asked for only right after the human's confirmation, that the generations of
  the workspace roots grow, and that the loop ends.
\<close>

section \<open>Events\<close>

definition ask_op :: "pydict \<Rightarrow> string \<Rightarrow> bool" where
  "ask_op req name \<longleftrightarrow> get_default req ''op'' JNull = JStr name"

definition destructive_ask :: "pydict \<Rightarrow> bool" where
  "destructive_ask req \<longleftrightarrow> ask_op req ''turn-request-abort'' \<or>
     ask_op req ''turn-resolve'' \<and> get_default req ''decision'' JNull \<in> {JStr ''commit'', JStr ''discard''}"

definition confirms :: "env \<Rightarrow> nat \<Rightarrow> string \<Rightarrow> bool" where
  "confirms en n line \<longleftrightarrow> (\<exists>resp. en_loads en line = Inr (JObj resp) \<and> elicitation_refusal n resp = None)"

text \<open>The request asks for what the human was shown.\<close>

definition shown :: "pydict \<Rightarrow> string \<Rightarrow> string list \<Rightarrow> bool" where
  "shown req action listed \<longleftrightarrow>
     (if ask_op req ''turn-request-abort'' then action = ''abort remaining session branch''
      else get_default req ''decision'' JNull = JStr action \<and> get_default req ''paths'' JNull = jstrs listed)"

locale mcp_invariant =
  fixes en :: env and I :: "mcp_server \<Rightarrow> bool"
  assumes other_fields: "I s \<Longrightarrow> mc_input s' = mc_input s \<Longrightarrow> mc_trace s' = mc_trace s \<Longrightarrow> mc_generation s' = mc_generation s \<Longrightarrow> I s'"
    and reads: "I s \<Longrightarrow> mc_input s = l # rest \<Longrightarrow> I (s\<lparr>mc_input := rest, mc_trace := mc_trace s @ [Read l]\<rparr>)"
    and writes: "I s \<Longrightarrow> I (s\<lparr>mc_trace := mc_trace s @ [Wrote m]\<rparr>)"
    and asks: "I s \<Longrightarrow> \<not> destructive_ask req \<Longrightarrow> \<not> ask_op req WORKSPACE_SESSION_REPLACE_OP \<Longrightarrow>
      I (s\<lparr>mc_trace := mc_trace s @ [Asked req]\<rparr>)"
    and asks_confirmed: "I s \<Longrightarrow> mc_trace s = pre @ [Wrote (JObj (elicitation_request n action listed)), Read line] \<Longrightarrow> confirms en n line \<Longrightarrow>
      destructive_ask req \<Longrightarrow> shown req action listed \<Longrightarrow> I (s\<lparr>mc_trace := mc_trace s @ [Asked req]\<rparr>)"
    and replaces: "I s \<Longrightarrow> ask_op req WORKSPACE_SESSION_REPLACE_OP \<Longrightarrow> get_default req ''generation'' JNull = JInt (mc_generation s + 1) \<Longrightarrow>
      I (s\<lparr>mc_generation := mc_generation s + 1, mc_trace := mc_trace s @ [Asked req]\<rparr>)"
begin

lemma keeps_field:
  "(\<And>s. mc_input (f s) = mc_input s \<and> mc_trace (f s) = mc_trace s \<and> mc_generation (f s) = mc_generation s) \<Longrightarrow> keeps I (modE f)"
  by (rule keeps_mod) (use other_fields in blast)

lemma keeps_read: "keeps I read_line"
  unfolding keeps_wp
proof (intro allI impI)
  fix s assume s: "I s"
  show "wp read_line (\<lambda>_. I) (\<lambda>_. I) s"
    using reads [OF s] s by (cases "mc_input s") (auto simp: read_line_def note_io_def wp_simps)
qed

lemma keeps_write: "keeps I (write_message m)"
  unfolding write_message_def note_io_def by (rule keeps_mod) (rule writes)

lemma answered:
  assumes "I (s\<lparr>mc_trace := mc_trace s @ [Asked (dict_set (dict_set payload ''token'' (JStr (mc_token s))) ''version'' (JInt 1))]\<rparr>)"
  shows "wp (control_request payload) (\<lambda>_. I) (\<lambda>_. I) s"
proof -
  have rest: "I (s\<lparr>mc_trace := mc_trace s @ [Asked (dict_set (dict_set payload ''token'' (JStr (mc_token s))) ''version'' (JInt 1))], mc_answers := rest\<rparr>)" for rest
    by (rule other_fields [OF assms]) simp_all
  show ?thesis
    using assms rest unfolding control_request_def note_io_def
    by (auto simp: wp_simps split: list.split sum.split)
qed

lemma ask_op_sent [simp]:
  "name \<noteq> '''' \<Longrightarrow> ask_op (dict_set (dict_set payload ''token'' t) ''version'' v) name \<longleftrightarrow> ask_op payload name"
  "destructive_ask (dict_set (dict_set payload ''token'' t) ''version'' v) \<longleftrightarrow> destructive_ask payload"
  "shown (dict_set (dict_set payload ''token'' t) ''version'' v) action listed \<longleftrightarrow> shown payload action listed"
  by (auto simp: ask_op_def destructive_ask_def shown_def get_default_def)

lemma keeps_ask:
  "\<not> destructive_ask payload \<Longrightarrow> \<not> ask_op payload WORKSPACE_SESSION_REPLACE_OP \<Longrightarrow> keeps I (control_request payload)"
  unfolding keeps_wp by (auto intro!: answered asks simp: WORKSPACE_SESSION_REPLACE_OP_def)

lemma keeps_clients:
  "keeps I client_kept_status"
  "decision \<notin> {''commit'', ''discard''} \<Longrightarrow> keeps I (client_resolve_turn decision paths)"
  "keeps I (control_request [(''op'', JStr ''mcp-admit''), (''client'', JStr client)])"
  unfolding client_kept_status_def client_resolve_turn_def
  by (rule keeps_ask; simp add: destructive_ask_def ask_op_def get_default_def WORKSPACE_SESSION_REPLACE_OP_def)+

lemma keeps_admit: "keeps I (client_admit n client)"
  by (induction n) (auto intro!: keeps_intros keeps_clients)

lemma wp_elicit:
  assumes "I s"
  shows "wp (elicit en action listed) (\<lambda>r t. I t \<and> (r = None \<longrightarrow> (\<exists>pre n line. confirms en n line \<and>
      mc_trace t = pre @ [Wrote (JObj (elicitation_request n action listed)), Read line]))) (\<lambda>_. I) s"
proof -
  let ?Q = "\<lambda>r t. I t \<and> (r = None \<longrightarrow> (\<exists>pre n line. confirms en n line \<and>
      mc_trace t = pre @ [Wrote (JObj (elicitation_request n action listed)), Read line]))"
  define t where "t = s\<lparr>mc_elicitation := mc_elicitation s + 1\<rparr>"
  let ?n = "mc_elicitation t"
  define u where "u = t\<lparr>mc_trace := mc_trace t @ [Wrote (JObj (elicitation_request ?n action listed))]\<rparr>"
  have t: "I t" by (rule other_fields [OF assms]) (simp_all add: t_def)
  then have u: "I u" unfolding u_def by (rule writes)
  have line: "wp (case line of None \<Rightarrow> retE (Some ''elicitation connection closed'')
       | Some l \<Rightarrow> (case en_loads en l of Inl _ \<Rightarrow> retE (Some ''malformed elicitation response'')
            | Inr v \<Rightarrow> bindE (liftE (as_obj v)) (\<lambda>resp. retE (elicitation_refusal ?n resp)))) ?Q (\<lambda>_. I) v"
    if "I v" "\<And>l. line = Some l \<Longrightarrow> mc_trace v = mc_trace t @ [Wrote (JObj (elicitation_request ?n action listed)), Read l]" for v line
  proof -
    have conf: "confirms en ?n l" if "en_loads en l = Inr w" "as_obj w = Inr resp" "elicitation_refusal ?n resp = None" for l w resp
      using that by (cases w) (auto simp: confirms_def)
    show ?thesis
      using that by (auto simp: wp_simps split: option.split sum.split intro: conf)
  qed
  have read: "wp read_line (\<lambda>line. wp (case line of None \<Rightarrow> retE (Some ''elicitation connection closed'')
       | Some l \<Rightarrow> (case en_loads en l of Inl _ \<Rightarrow> retE (Some ''malformed elicitation response'')
            | Inr v \<Rightarrow> bindE (liftE (as_obj v)) (\<lambda>resp. retE (elicitation_refusal ?n resp)))) ?Q (\<lambda>_. I)) (\<lambda>_. I) u"
  proof (cases "mc_input u")
    case Nil
    then show ?thesis using line [of u None] u by (simp add: read_line_def wp_bind wp_get wp_ret)
  next
    case (Cons l rest)
    then show ?thesis
      using line [of "u\<lparr>mc_input := rest, mc_trace := mc_trace u @ [Read l]\<rparr>" "Some l"] reads [OF u Cons]
      by (simp add: read_line_def note_io_def wp_bind wp_seq wp_mod wp_get wp_ret u_def)
  qed
  have ask: "wp (seqE (modE (\<lambda>s. s\<lparr>mc_elicitation := mc_elicitation s + 1\<rparr>))
      (bindE (getE mc_elicitation) (\<lambda>n. seqE (write_message (elicitation_request n action listed))
      (bindE read_line (\<lambda>line. case line of None \<Rightarrow> retE (Some ''elicitation connection closed'')
       | Some l \<Rightarrow> (case en_loads en l of Inl _ \<Rightarrow> retE (Some ''malformed elicitation response'')
            | Inr v \<Rightarrow> bindE (liftE (as_obj v)) (\<lambda>resp. retE (elicitation_refusal n resp)))))))) ?Q (\<lambda>_. I) s"
    unfolding wp_seq wp_mod wp_bind wp_get write_message_def note_io_def t_def [symmetric] u_def [symmetric] using read by simp
  show ?thesis
    unfolding elicit_def has_form_elicitation_def wp_bind [of "readE _"] wp_read
    using ask by (auto split: sum.split simp: assms wp_ret)
qed

lemma keeps_confirmation:
  assumes "destructive_ask payload" "shown payload title listed"
  shows "keeps I (with_confirmation en action title listed paths (control_request payload))"
  unfolding keeps_wp
proof (intro allI impI)
  fix s assume s: "I s"
  have ask: "wp (control_request payload) (\<lambda>d. wp (retE (tool_result en d False)) (\<lambda>_. I) (\<lambda>_. I)) (\<lambda>_. I) t"
    if "I t" "mc_trace t = pre @ [Wrote (JObj (elicitation_request n title listed)), Read line]" "confirms en n line" for t pre n line
    unfolding wp_ret by (rule answered) (rule asks_confirmed [OF that], use assms in simp_all)
  have "wp (elicit en title listed) (\<lambda>refused. wp (case refused of Some reason \<Rightarrow> retE (not_authorized en reason)
      | None \<Rightarrow> bindE (control_request payload) (\<lambda>d. retE (tool_result en d False))) (\<lambda>_. I) (\<lambda>_. I)) (\<lambda>_. I) s"
    by (rule wp_mono [OF wp_elicit [OF s]]) (auto simp: wp_bind wp_ret [of "not_authorized en _"] intro!: ask split: option.split)
  then show "wp (with_confirmation en action title listed paths (control_request payload)) (\<lambda>_. I) (\<lambda>_. I) s"
    unfolding with_confirmation_def by (auto simp: wp_bind [of "getE _"] wp_bind [of "elicit _ _ _"] wp_get wp_ret s)
qed

lemma keeps_paths: "keeps I (current_paths arguments)"
proof -
  have rest: "keeps I (case get_default arguments ''paths'' JNull of
       JNull \<Rightarrow> retE current
     | v \<Rightarrow> (case as_strs v of
            Inl _ \<Rightarrow> raiseE (ValueError ''paths must be an array of strings'')
          | Inr requested \<Rightarrow>
              (let unknown = sorted_set (filter (\<lambda>p. p \<notin> set current) requested) in
               if unknown \<noteq> [] then raiseE (ValueError (''paths are not currently remembered as kept: '' @ join_with '', '' unknown))
               else retE (sorted_set requested))))" for current
    by (cases "get_default arguments ''paths'' JNull") (auto simp: Let_def intro!: keeps_intros)
  show ?thesis unfolding current_paths_def by (intro keeps_intros keeps_clients rest)
qed

lemma keeps_call_tool: "keeps I (call_tool en name arguments)"
proof -
  have abort: "keeps I (with_confirmation en ''abort-session'' ''abort remaining session branch'' listed paths client_request_abort)" for listed paths
    unfolding client_request_abort_def
    by (rule keeps_confirmation) (simp_all add: destructive_ask_def shown_def ask_op_def get_default_def)
  have decide: "keeps I (with_confirmation en decision decision paths paths (client_resolve_turn decision paths))"
    if "decision \<in> {''commit'', ''discard''}" for decision paths
    unfolding client_resolve_turn_def
    by (rule keeps_confirmation) (use that in \<open>auto simp: destructive_ask_def shown_def ask_op_def get_default_def\<close>)
  have tool: "keeps I (bindE (current_paths arguments) (\<lambda>paths.
                  if paths = [] then retE (tool_result en [(''verdict'', JStr ''noop''), (''paths'', JArr [])] False)
                  else if tool \<in> set DESTRUCTIVE_TOOLS
                  then with_confirmation en decision decision paths paths (client_resolve_turn decision paths)
                  else bindE (client_resolve_turn decision paths) (\<lambda>d. retE (tool_result en d False))))"
    if "dict_get tool_decisions tool = Some decision" for tool decision
  proof -
    have "decision \<in> {''commit'', ''discard''} \<and> tool \<in> set DESTRUCTIVE_TOOLS \<or> decision \<notin> {''commit'', ''discard''} \<and> tool \<notin> set DESTRUCTIVE_TOOLS"
      using that by (auto simp: tool_decisions_def DESTRUCTIVE_TOOLS_def split: if_splits)
    then show ?thesis using decide by (intro keeps_intros keeps_paths keeps_clients) auto
  qed
  show ?thesis
    unfolding call_tool_def
    by (intro keeps_intros keeps_clients abort)
      (cases name; auto intro!: keeps_intros tool split: option.split)
qed

lemma keeps_roots_allowed: "keeps I roots_allowed"
  unfolding roots_allowed_def by (intro keeps_intros)

lemma keeps_request_roots: "keeps I request_roots"
  unfolding request_roots_def
  by (intro keeps_intros keeps_roots_allowed keeps_write keeps_field) simp_all

lemma keeps_replace_roots: "keeps I (replace_workspace_roots paths)"
  unfolding keeps_wp
proof (intro allI impI)
  fix s assume s: "I s"
  let ?t = "s\<lparr>mc_generation := mc_generation s + 1\<rparr>"
  let ?payload = "[(''op'', JStr WORKSPACE_SESSION_REPLACE_OP), (''logical_session_id'', JStr ''mcp-root-set''),
       (''generation'', JInt (mc_generation s + 1)), (''paths'', jstrs paths), (''state'', JStr ''active'')]"
  let ?req = "dict_set (dict_set ?payload ''token'' (JStr (mc_token ?t))) ''version'' (JInt 1)"
  have "I (s\<lparr>mc_generation := mc_generation s + 1, mc_trace := mc_trace s @ [Asked ?req]\<rparr>)"
    by (rule replaces [OF s]) (simp_all add: ask_op_def get_default_def)
  then have "wp (control_request ?payload) (\<lambda>_. I) (\<lambda>_. I) ?t"
    using answered [of ?t ?payload] by simp
  then show "wp (replace_workspace_roots paths) (\<lambda>_. I) (\<lambda>_. I) s"
    unfolding replace_workspace_roots_def client_replace_workspace_session_def by (simp add: wp_bind wp_seq wp_mod wp_get)
qed

lemma keeps_roots_changed: "keeps I roots_changed"
  unfolding roots_changed_def by (intro keeps_intros keeps_roots_allowed keeps_replace_roots keeps_request_roots)

lemma keeps_roots_response: "keeps I (handle_roots_response resp)"
  unfolding handle_roots_response_def
  by (intro keeps_intros keeps_replace_roots keeps_request_roots keeps_field) simp_all

lemma keeps_initialize: "keeps I (initialize retries req_id params)"
  unfolding initialize_def response_def by (intro keeps_intros keeps_admit keeps_write keeps_field) simp_all

lemma keeps_tools_call: "keeps I (tools_call en req_id params)"
proof -
  have body: "keeps I (case v of
       JObj arguments \<Rightarrow>
         bindE (catchE (call_tool en (get_default ps ''name'' JNull) arguments)
                  (\<lambda>e. if is_tool_error e then retE (tool_result en [(''error'', JStr (exn_str e))] True) else raiseE e))
           (\<lambda>r. response req_id r)
     | _ \<Rightarrow> response req_id (tool_result en [(''error'', JStr ''arguments must be an object'')] True))" for v ps
    by (cases v) (auto simp: response_def intro!: keeps_intros keeps_call_tool keeps_write)
  show ?thesis unfolding tools_call_def by (intro keeps_bind keeps_basic body)
qed

lemma keeps_dispatch: "keeps I (dispatch en retries req)"
  unfolding dispatch_def Let_def
  by (intro keeps_intros keeps_initialize keeps_request_roots keeps_roots_changed keeps_tools_call)
    (auto simp: error_response_def response_def intro: keeps_write)

lemma keeps_serve_line: "keeps I (serve_line en retries line)"
proof -
  have handler: "keeps I (case e of
               ControlError msg \<Rightarrow>
                 seqE (whenE (get_default req ''id'' JNull \<noteq> JNull) (error_response (get_default req ''id'' JNull) (-32001) msg)) (retE (Some 1))
             | _ \<Rightarrow> raiseE e)" for e req
    by (cases e) (auto simp: error_response_def intro!: keeps_intros keeps_write)
  show ?thesis
    unfolding serve_line_def
    by (intro keeps_intros handler keeps_roots_response keeps_dispatch) (auto simp: error_response_def intro: keeps_write)
qed

lemma keeps_serve_input: "keeps I (serve_input n en retries)"
  by (induction n) (auto intro!: keeps_intros keeps_read keeps_serve_line)

lemma keeps_run: "keeps I (mcp_run en retries)"
  unfolding mcp_run_def by (intro keeps_bind keeps_basic keeps_serve_input)

end

section \<open>The three invariants\<close>

text \<open>Every destructive request in the trace follows directly the confirmation of what it asks for: the question that was
  written and the line that answered it.\<close>

definition confirmed_asks :: "env \<Rightarrow> io list \<Rightarrow> bool" where
  "confirmed_asks en tr \<longleftrightarrow>
     (\<forall>pre req post. tr = pre @ Asked req # post \<and> destructive_ask req \<longrightarrow>
        (\<exists>before n action listed line. pre = before @ [Wrote (JObj (elicitation_request n action listed)), Read line] \<and>
           confirms en n line \<and> shown req action listed))"

lemma confirmed_snoc:
  "confirmed_asks en (tr @ [ev]) \<longleftrightarrow> confirmed_asks en tr \<and>
     (\<forall>req. ev = Asked req \<and> destructive_ask req \<longrightarrow>
        (\<exists>before n action listed line. tr = before @ [Wrote (JObj (elicitation_request n action listed)), Read line] \<and>
           confirms en n line \<and> shown req action listed))"
proof -
  have split: "tr @ [ev] = pre @ Asked req # post \<longleftrightarrow> (post = [] \<and> tr = pre \<and> ev = Asked req) \<or>
      (\<exists>post'. post = post' @ [ev] \<and> tr = pre @ Asked req # post')" for pre req post
    by (cases post rule: rev_cases) auto
  show ?thesis unfolding confirmed_asks_def split by blast
qed

lemma replace_not_destructive: "ask_op req WORKSPACE_SESSION_REPLACE_OP \<Longrightarrow> \<not> destructive_ask req"
  by (auto simp: destructive_ask_def ask_op_def WORKSPACE_SESSION_REPLACE_OP_def)

interpretation confirmed: mcp_invariant en "\<lambda>s. confirmed_asks en (mc_trace s)" for en
proof unfold_locales
  fix s pre n action listed line req
  assume "confirmed_asks en (mc_trace s)" "confirms en n line" "shown req action listed"
    "mc_trace s = pre @ [Wrote (JObj (elicitation_request n action listed)), Read line]"
  then have "confirmed_asks en (mc_trace s @ [Asked req])" unfolding confirmed_snoc by blast
  then show "confirmed_asks en (mc_trace (s\<lparr>mc_trace := mc_trace s @ [Asked req]\<rparr>))" by simp
qed (auto simp: confirmed_snoc replace_not_destructive)

definition asked_generation :: "io \<Rightarrow> int list" where
  "asked_generation ev =
     (case ev of
        Asked req \<Rightarrow> if ask_op req WORKSPACE_SESSION_REPLACE_OP
                     then (case get_default req ''generation'' JNull of JInt g \<Rightarrow> [g] | _ \<Rightarrow> []) else []
      | _ \<Rightarrow> [])"

definition asked_generations :: "io list \<Rightarrow> int list" where
  "asked_generations tr = concat (map asked_generation tr)"

definition growing :: "mcp_server \<Rightarrow> bool" where
  "growing s \<longleftrightarrow> sorted_wrt (<) (asked_generations (mc_trace s)) \<and> (\<forall>g\<in>set (asked_generations (mc_trace s)). g \<le> mc_generation s)"

lemma asked_generations_snoc: "asked_generations (tr @ [ev]) = asked_generations tr @ asked_generation ev"
  by (simp add: asked_generations_def)

lemma growing_snoc:
  "growing s \<Longrightarrow> asked_generation ev = [] \<Longrightarrow> growing (s\<lparr>mc_trace := mc_trace s @ [ev]\<rparr>)"
  by (simp add: growing_def asked_generations_snoc)

interpretation generations: mcp_invariant en growing for en
proof unfold_locales
  fix s req assume "growing s" "ask_op req WORKSPACE_SESSION_REPLACE_OP" "get_default req ''generation'' JNull = JInt (mc_generation s + 1)"
  then show "growing (s\<lparr>mc_generation := mc_generation s + 1, mc_trace := mc_trace s @ [Asked req]\<rparr>)"
    by (force simp: growing_def asked_generations_snoc asked_generation_def sorted_wrt_append)
next
  fix s req assume "growing s" "destructive_ask req"
  then show "growing (s\<lparr>mc_trace := mc_trace s @ [Asked req]\<rparr>)"
    by (intro growing_snoc) (auto simp: asked_generation_def dest: replace_not_destructive)
qed (auto simp: growing_def asked_generations_snoc asked_generation_def)

interpretation lines: mcp_invariant en "\<lambda>s. length (mc_input s) \<le> k" for en k
  by unfold_locales auto

section \<open>The end of the loop\<close>

lemma serve_input_ends:
  "length (mc_input s) < n \<Longrightarrow> fst (serve_input n en retries s) \<noteq> Inr None \<and>
     serve_input n en retries s = serve_input (Suc (length (mc_input s))) en retries s"
proof (induction "length (mc_input s)" arbitrary: s n rule: less_induct)
  case less
  obtain m where n: "n = Suc m" using less.prems by (cases n) auto
  show ?case
  proof (cases "mc_input s")
    case Nil
    then show ?thesis by (simp add: n read_line_def bindE_def getE_def retE_def)
  next
    case (Cons l rest)
    define t where "t = s\<lparr>mc_input := rest, mc_trace := mc_trace s @ [Read l]\<rparr>"
    obtain r u where u: "serve_line en retries l t = (r, u)" by (cases "serve_line en retries l t")
    have "length (mc_input u) \<le> length rest"
      using lines.keeps_serve_line [where k = "length rest" and en = en and retries = retries and line = l] u
      unfolding keeps_def by (auto simp: t_def dest!: spec [of _ t])
    then have "length (mc_input u) < length (mc_input s)" "length (mc_input u) < m" "length (mc_input u) < Suc (length rest)"
      using Cons less.prems n by auto
    then have IH: "fst (serve_input m en retries u) \<noteq> Inr None" "serve_input m en retries u = serve_input (Suc (length rest)) en retries u"
      using less.hyps [of u m] less.hyps [of u "Suc (length rest)"] by auto
    show ?thesis
      using IH Cons by (auto simp: n read_line_def note_io_def bindE_def seqE_def modE_def getE_def retE_def t_def [symmetric] u split: sum.split option.split)
  qed
qed

section \<open>Properties\<close>

text \<open>C24. Nothing destructive without the human: whatever lines the client sends and whatever the supervisor answers, every
  commit, discard or abort the MCP server asks for follows directly a question that showed the same action and
  the same paths and a line that confirmed this very question.\<close>

theorem destructive_asks_confirmed:
  "confirmed_asks en (mc_trace (snd (mcp_run en retries (make_mcp_server input answers token client))))"
proof -
  have "confirmed_asks en (mc_trace (make_mcp_server input answers token client))"
    by (simp add: confirmed_asks_def make_mcp_server_def)
  then show ?thesis using confirmed.keeps_run [of en retries] unfolding keeps_def by blast
qed

text \<open>The generations under which the MCP server replaces the workspace roots grow strictly, whatever it is sent.\<close>

theorem mcp_generations_grow:
  "sorted_wrt (<) (asked_generations (mc_trace (snd (mcp_run en retries (make_mcp_server input answers token client)))))"
proof -
  have "growing (make_mcp_server input answers token client)"
    by (simp add: growing_def asked_generations_def make_mcp_server_def)
  then show ?thesis using generations.keeps_run [of en retries] unfolding keeps_def growing_def by blast
qed

text \<open>C25. The MCP loop ends: it returns its exit code, or raises, within one round more than there are lines, also when
  confirmations read lines inside a request; more rounds would change nothing.\<close>

theorem mcp_loop_ends:
  "fst (mcp_run en retries s) \<noteq> Inr None \<and> serve_input (Suc (length (mc_input s)) + k) en retries s = mcp_run en retries s"
  using serve_input_ends [of s "Suc (length (mc_input s))" en retries] serve_input_ends [of s "Suc (length (mc_input s)) + k" en retries]
  by (simp add: mcp_run_def bindE_def getE_def)

section \<open>A sample session\<close>

definition sample_lines :: "(string, json) dict" where
  "sample_lines =
     [(''i'', JObj [(''method'', JStr ''initialize''), (''id'', JInt 1),
         (''params'', JObj [(''capabilities'', JObj [(''elicitation'', JObj [(''form'', JObj [])])])])]),
      (''c'', JObj [(''method'', JStr ''tools/call''), (''id'', JInt 2), (''params'', JObj [(''name'', JStr ''ccc_commit_kept'')])]),
      (''y'', JObj [(''id'', JStr ''ccc-elicitation-1''),
         (''result'', JObj [(''action'', JStr ''accept''), (''content'', JObj [(''confirm'', JBool True)])])]),
      (''n'', JObj [(''id'', JStr ''ccc-elicitation-1''), (''result'', JObj [(''action'', JStr ''decline'')])])]"

definition mcp_env :: env where
  "mcp_env = sample_env\<lparr>en_loads := \<lambda>l. case dict_get sample_lines l of Some v \<Rightarrow> Inr v | None \<Rightarrow> Inl (ValueError ''json'')\<rparr>"

definition sample_answers :: "json result list" where
  "sample_answers =
     [Inr (JObj [(''ok'', JBool True), (''destructive_authorized'', JBool True)]),
      Inr (JObj [(''ok'', JBool True), (''kept'', jstrs [''/a''])]), Inr (JObj [(''ok'', JBool True), (''verdict'', JStr ''committed'')])]"

definition asked_ops :: "string list \<Rightarrow> json list" where
  "asked_ops input = concat (map (\<lambda>ev. case ev of Asked req \<Rightarrow> [get_default req ''op'' JNull] | _ \<Rightarrow> [])
     (mc_trace (snd (mcp_run mcp_env 0 (make_mcp_server input sample_answers ''secret'' ''codex'')))))"

text \<open>With the confirmation the kept path is committed, with a refusal nothing is asked.\<close>

lemma sample_confirmations:
  "asked_ops [''i'', ''c'', ''y''] = map JStr [''mcp-admit'', ''turn-kept-status'', ''turn-resolve'']"
  "asked_ops [''i'', ''c'', ''n''] = map JStr [''mcp-admit'', ''turn-kept-status'']"
  by code_simp+

end
