(* ===== verification/Codex.thy ===== *)
theory Codex
  imports World
begin

text \<open>
  The observation of Codex app-server workspaces (\<open>codex_workspace.py\<close>): the requests of the external client are
  numbered when they are seen, and a successful answer turns the request's paths into an update of the thread's
  workspace, under the number of the request as its generation.
\<close>

record session_update =
  su_thread :: string
  su_generation :: int
  su_roots :: "string list"
  su_state :: string

definition make_update :: "string \<Rightarrow> int \<Rightarrow> string list \<Rightarrow> string \<Rightarrow> session_update" where
  "make_update thread generation roots state =
     \<lparr>su_thread = thread, su_generation = generation, su_roots = sorted_set roots, su_state = state\<rparr>"

definition update_to_request :: "session_update \<Rightarrow> pydict" where
  "update_to_request u =
     [(''op'', JStr ''workspace-session-replace''), (''source'', JStr ''codex-app-server''),
      (''logical_session_id'', JStr (su_thread u)), (''generation'', JInt (su_generation u)),
      (''paths'', jstrs (su_roots u)), (''state'', JStr (su_state u))]"

record pending_request =
  pq_method :: string
  pq_thread :: json
  pq_paths :: "string list"
  pq_sequence :: int

record monitor =
  mo_pending :: "(json, pending_request) dict"
  mo_threads :: "(string, string list) dict"
  mo_versions :: "(string, int) dict"
  mo_sequence :: int
  mo_launch :: "string list"

definition make_monitor :: "string option \<Rightarrow> monitor" where
  "make_monitor cwd =
     \<lparr>mo_pending = [], mo_threads = [], mo_versions = [], mo_sequence = 0,
      mo_launch = (case cwd of Some p \<Rightarrow> if startswith p ''/'' then [p] else [] | None \<Rightarrow> [])\<rparr>"

definition absolute_path :: "json \<Rightarrow> string list" where
  "absolute_path v = (case v of JStr p \<Rightarrow> if startswith p ''/'' then [p] else [] | _ \<Rightarrow> [])"

definition list_at :: "pydict \<Rightarrow> string \<Rightarrow> json list" where
  "list_at d k = (case get_default d k JNull of JArr xs \<Rightarrow> xs | _ \<Rightarrow> [])"

lemma list_at_smaller: "x \<in> set (list_at d k) \<Longrightarrow> size x < size (JObj d)"
proof -
  assume x: "x \<in> set (list_at d k)"
  then obtain xs where "dict_get d k = Some (JArr xs)" "x \<in> set xs"
    by (auto simp: list_at_def get_default_def split: json.splits option.splits)
  then have "size (JArr xs) < size (JObj d)" using json_size_mem map_of_SomeD by metis
  moreover have "size x < size (JArr xs)" using \<open>x \<in> set xs\<close> by (induction xs) auto
  ultimately show ?thesis by (rule less_trans [rotated])
qed

text \<open>The absolute paths of a request or a thread, those of its environments included.\<close>

function codex_paths :: "json \<Rightarrow> string list" where
  "codex_paths v =
     (case v of
        JObj d \<Rightarrow>
          sorted_set (absolute_path (get_default d ''cwd'' JNull) @ concat (map absolute_path (list_at d ''runtimeWorkspaceRoots'')) @
            concat (map codex_paths (list_at d ''environments'')))
      | _ \<Rightarrow> [])"
  by auto
termination
  by (relation "measure size") (auto dest: list_at_smaller)

declare codex_paths.simps [simp del]

section \<open>Requests of the client\<close>

text \<open>The key of a request: booleans are the numbers 0 and 1.\<close>

fun dict_key :: "json \<Rightarrow> json" where
  "dict_key (JBool b) = JInt (if b then 1 else 0)"
| "dict_key v = v"

definition hash_key :: "json \<Rightarrow> json result" where
  "hash_key v = (if is_obj v \<or> is_arr v then Inl (TypeError ''unhashable type'') else Inr (dict_key v))"

definition TRACKED :: "string list" where
  "TRACKED = [''thread/start'', ''thread/resume'', ''thread/fork'', ''turn/start'', ''thread/archive'', ''thread/delete'']"

definition params_object :: "json \<Rightarrow> pydict result" where
  "params_object v = (if truthy v then as_obj v else Inr [])"

definition observe_client :: "json \<Rightarrow> (monitor, unit) eff" where
  "observe_client msg =
     (case msg of
        JObj d \<Rightarrow>
          (case (dict_has d ''id'', get_default d ''method'' JNull) of
             (True, JStr meth) \<Rightarrow>
               if meth \<notin> set TRACKED then retE ()
               else
                 seqE (modE (\<lambda>m. m\<lparr>mo_sequence := mo_sequence m + 1\<rparr>))
                (bindE (liftE (params_object (get_default d ''params'' JNull))) (\<lambda>params.
                 bindE (liftE (hash_key (get_default d ''id'' JNull))) (\<lambda>key.
                 modE (\<lambda>m. m\<lparr>mo_pending := dict_set (mo_pending m) key
                   \<lparr>pq_method = meth, pq_thread = get_default params ''threadId'' JNull,
                    pq_paths = (if meth \<in> {''thread/archive'', ''thread/delete''} then [] else codex_paths (JObj params)),
                    pq_sequence = mo_sequence m\<rparr>\<rparr>))))
           | _ \<Rightarrow> retE ())
      | _ \<Rightarrow> retE ())"

section \<open>Answers of the server\<close>

definition version_of :: "monitor \<Rightarrow> string \<Rightarrow> int" where
  "version_of m thread = (case dict_get (mo_versions m) thread of Some v \<Rightarrow> v | None \<Rightarrow> 0)"

definition end_thread :: "pending_request \<Rightarrow> (monitor, session_update option) eff" where
  "end_thread p =
     (if pq_thread p = JNull then retE None
      else (let thread = py_str (pq_thread p) in
        bindE (getE (\<lambda>m. version_of m thread)) (\<lambda>version.
        if pq_sequence p < version then retE None
        else seqE (modE (\<lambda>m. m\<lparr>mo_versions := dict_set (mo_versions m) thread (pq_sequence p),
                       mo_threads := dict_pop (mo_threads m) thread\<rparr>))
                  (retE (Some (make_update thread (pq_sequence p) [] ''ended''))))))"

definition thread_of :: "pydict \<Rightarrow> pydict" where
  "thread_of result = (case get_default result ''thread'' JNull of JObj t \<Rightarrow> t | _ \<Rightarrow> [])"

definition or_else :: "json \<Rightarrow> json \<Rightarrow> json" where
  "or_else a b = (if truthy a then a else b)"

definition start_thread :: "pending_request \<Rightarrow> json \<Rightarrow> (monitor, session_update option) eff" where
  "start_thread p result =
     (let fields = (case result of JObj d \<Rightarrow> d | _ \<Rightarrow> []);
          response_id = or_else (get_default (thread_of fields) ''id'' JNull) (get_default fields ''threadId'' JNull);
          thread_id = (if pq_method p = ''thread/fork'' then response_id else or_else (pq_thread p) response_id);
          paths = (if pq_paths p \<noteq> [] then pq_paths p else codex_paths (JObj (thread_of fields)))
      in bindE (getE id) (\<lambda>m.
         if truthy thread_id \<and> (paths \<noteq> [] \<or> mo_launch m \<noteq> [])
         then (let thread = py_str thread_id; roots = sorted_set (paths @ mo_launch m) in
               if pq_sequence p < version_of m thread then retE None
               else seqE (modE (\<lambda>m. m\<lparr>mo_versions := dict_set (mo_versions m) thread (pq_sequence p),
                            mo_threads := dict_set (mo_threads m) thread roots\<rparr>))
                         (retE (Some (make_update thread (pq_sequence p) roots ''active''))))
         else retE None))"

definition observe_server :: "json \<Rightarrow> (monitor, session_update option) eff" where
  "observe_server msg =
     (case msg of
        JObj d \<Rightarrow>
          if \<not> dict_has d ''id'' then retE None
          else
            bindE (liftE (hash_key (get_default d ''id'' JNull))) (\<lambda>key.
            bindE (getE (\<lambda>m. dict_get (mo_pending m) key)) (\<lambda>pending.
            seqE (modE (\<lambda>m. m\<lparr>mo_pending := dict_pop (mo_pending m) key\<rparr>))
            (case pending of
               None \<Rightarrow> retE None
             | Some p \<Rightarrow>
                 if dict_has d ''error'' then retE None
                 else if pq_method p \<in> {''thread/archive'', ''thread/delete''} then end_thread p
                 else start_thread p (get_default d ''result'' JNull))))
      | _ \<Rightarrow> retE None)"

definition monitor_roots :: "monitor \<Rightarrow> string list" where
  "monitor_roots m = sorted_set (mo_launch m @ concat (map snd (mo_threads m)))"

end
