(* ===== verification/CodexFacts.thy ===== *)
theory CodexFacts
  imports Codex
begin

text \<open>
  The updates a monitor sends for one thread carry growing generations, however requests and answers interleave;
  the supervisor can so tell a late answer from a new one.
\<close>

section \<open>Runs\<close>

datatype codex_event = FromClient json | FromServer json

text \<open>An exception drops the message and keeps what the monitor did before it.\<close>

fun observe :: "codex_event \<Rightarrow> monitor \<Rightarrow> session_update list \<times> monitor" where
  "observe (FromClient v) m = ([], snd (observe_client v m))"
| "observe (FromServer v) m =
     (case observe_server v m of (Inr (Some u), m') \<Rightarrow> ([u], m') | (Inr None, m') \<Rightarrow> ([], m') | (Inl e, m') \<Rightarrow> ([], m'))"

fun observed :: "codex_event list \<Rightarrow> monitor \<Rightarrow> session_update list \<times> monitor" where
  "observed [] m = ([], m)"
| "observed (ev # evs) m =
     (case observe ev m of (us, m') \<Rightarrow> case observed evs m' of (us', m'') \<Rightarrow> (us @ us', m''))"

definition thread_generations :: "string \<Rightarrow> session_update list \<Rightarrow> int list" where
  "thread_generations thread us = map su_generation (filter (\<lambda>u. su_thread u = thread) us)"

section \<open>The invariant\<close>

text \<open>A number is pending for one request at most and was sent for none; what was sent for a thread is covered by its version.\<close>

definition numbered :: "session_update list \<Rightarrow> monitor \<Rightarrow> bool" where
  "numbered us m \<longleftrightarrow>
     (\<forall>k k' p p'. dict_get (mo_pending m) k = Some p \<longrightarrow> dict_get (mo_pending m) k' = Some p' \<longrightarrow> pq_sequence p = pq_sequence p' \<longrightarrow> k = k') \<and>
     (\<forall>k p. dict_get (mo_pending m) k = Some p \<longrightarrow> pq_sequence p \<le> mo_sequence m) \<and>
     (\<forall>u\<in>set us. su_generation u \<le> mo_sequence m \<and> su_generation u \<le> version_of m (su_thread u) \<and>
        (\<forall>k p. dict_get (mo_pending m) k = Some p \<longrightarrow> su_generation u \<noteq> pq_sequence p)) \<and>
     (\<forall>thread. sorted_wrt (<) (thread_generations thread us))"

lemma numbered_simps [simp]:
  "numbered us (m\<lparr>mo_threads := ts\<rparr>) = numbered us m"
  "version_of (m\<lparr>mo_pending := ps\<rparr>) t = version_of m t"
  "version_of (m\<lparr>mo_sequence := n\<rparr>) t = version_of m t"
  "version_of (m\<lparr>mo_threads := ts\<rparr>) t = version_of m t"
  by (simp_all add: numbered_def version_of_def)

lemma client_numbered:
  assumes "numbered us m" shows "numbered us (snd (observe_client v m))"
proof -
  have count: "numbered us (m\<lparr>mo_sequence := mo_sequence m + 1\<rparr>)"
    using assms unfolding numbered_def by fastforce
  have put: "numbered us (m\<lparr>mo_sequence := mo_sequence m + 1, mo_pending := dict_set (mo_pending m) k p\<rparr>)"
    if "pq_sequence p = mo_sequence m + 1" for k p
    using assms that unfolding numbered_def by (fastforce split: if_splits)
  show ?thesis
    unfolding observe_client_def
    by (auto simp: seqE_def bindE_def modE_def liftE_def retE_def assms count put split: json.split sum.split bool.split)
qed

text \<open>Sending an update under the number of a request that was pending.\<close>

lemma sent_numbered:
  assumes m: "numbered us m" and k: "dict_get (mo_pending m) k = Some p" and new: "version_of m (su_thread u) \<le> pq_sequence p"
    and u: "su_generation u = pq_sequence p"
  shows "numbered (us @ [u]) (m\<lparr>mo_pending := dict_pop (mo_pending m) k, mo_versions := dict_set (mo_versions m) (su_thread u) (pq_sequence p)\<rparr>)"
proof -
  have above: "su_generation v < pq_sequence p" if "v \<in> set us" "su_thread v = su_thread u" for v
    using m that k new unfolding numbered_def by (metis order.not_eq_order_implies_strict order.trans)
  have "sorted_wrt (<) (thread_generations thread (us @ [u]))" for thread
    using m above u by (auto simp: numbered_def thread_generations_def sorted_wrt_append)
  moreover have "version_of (m\<lparr>mo_pending := ps, mo_versions := dict_set (mo_versions m) (su_thread u) (pq_sequence p)\<rparr>) t =
      (if t = su_thread u then pq_sequence p else version_of m t)" for ps t
    by (simp add: version_of_def)
  ultimately show ?thesis
    using m k above u unfolding numbered_def by (fastforce split: if_splits)
qed

lemma popped_numbered: "numbered us m \<Longrightarrow> numbered us (m\<lparr>mo_pending := dict_pop (mo_pending m) k\<rparr>)"
  unfolding numbered_def by (auto split: if_splits)

lemma server_numbered:
  assumes "numbered us m" shows "case observe (FromServer v) m of (us', m') \<Rightarrow> numbered (us @ us') m'"
proof (cases v)
  case (JObj d)
  have stop: ?thesis if "snd (observe_server v m) = m" "fst (observe_server v m) = Inr None \<or> (\<exists>e. fst (observe_server v m) = Inl e)"
    using that assms by (cases "observe_server v m") auto
  show ?thesis
  proof (cases "dict_has d ''id'' \<and> (\<exists>key. hash_key (get_default d ''id'' JNull) = Inr key)")
    case False
    then show ?thesis
      by (intro stop) (auto simp: JObj observe_server_def bindE_def liftE_def retE_def split: sum.split)
  next
    case True
    then obtain key where key: "dict_has d ''id''" "hash_key (get_default d ''id'' JNull) = Inr key" by blast
    let ?m = "m\<lparr>mo_pending := dict_pop (mo_pending m) key\<rparr>"
    show ?thesis
    proof (cases "dict_get (mo_pending m) key")
      case None
      then show ?thesis
        using popped_numbered [OF assms, of key] key
        by (simp add: JObj observe_server_def bindE_def seqE_def liftE_def retE_def getE_def modE_def)
    next
      case (Some p)
      have sent: "numbered (us @ [make_update t (pq_sequence p) roots st])
          (?m\<lparr>mo_versions := dict_set (mo_versions m) t (pq_sequence p), mo_threads := ts\<rparr>)"
        if "\<not> pq_sequence p < version_of m t" for t roots st ts
        using sent_numbered [OF assms Some, of "make_update t (pq_sequence p) roots st"] that by (simp add: make_update_def)
      show ?thesis
        using popped_numbered [OF assms, of key] key Some sent
        by (auto simp: JObj observe_server_def end_thread_def start_thread_def Let_def bindE_def seqE_def liftE_def retE_def getE_def modE_def)
    qed
  qed
qed (simp_all add: observe_server_def retE_def assms)

lemma observe_numbered: "numbered us m \<Longrightarrow> numbered (us @ fst (observe ev m)) (snd (observe ev m))"
proof (cases ev)
  case (FromServer v)
  then show "numbered us m \<Longrightarrow> ?thesis"
    using server_numbered [of us m v] by (cases "observe (FromServer v) m") simp
qed (simp add: client_numbered)

lemma observed_numbered: "numbered us m \<Longrightarrow> numbered (us @ fst (observed evs m)) (snd (observed evs m))"
proof (induction evs arbitrary: us m)
  case (Cons ev evs)
  show ?case
    using Cons.IH [OF observe_numbered [OF Cons.prems, of ev]]
    by (cases "observe ev m"; cases "observed evs (snd (observe ev m))") auto
qed simp

section \<open>Properties\<close>

text \<open>C26. However the requests of the client and the answers of the server interleave, the generations of the updates the
  monitor sends for one thread grow strictly, so that the answer to an older request never overtakes a newer one.\<close>

theorem monitor_generations_grow:
  "sorted_wrt (<) (thread_generations thread (fst (observed evs (make_monitor cwd))))"
proof -
  have "numbered [] (make_monitor cwd)" by (simp add: numbered_def make_monitor_def thread_generations_def)
  then show ?thesis using observed_numbered [of "[]" "make_monitor cwd" evs] by (simp add: numbered_def)
qed

section \<open>A late answer\<close>

definition turn_start :: "int \<Rightarrow> string \<Rightarrow> codex_event" where
  "turn_start n path = FromClient (JObj [(''id'', JInt n), (''method'', JStr ''turn/start''),
     (''params'', JObj [(''threadId'', JStr ''t''), (''cwd'', JStr path)])])"

definition answer_to :: "int \<Rightarrow> codex_event" where
  "answer_to n = FromServer (JObj [(''id'', JInt n), (''result'', JObj [])])"

lemma late_answer_dropped:
  "fst (observed [turn_start 1 ''/a'', turn_start 2 ''/b'', answer_to 2, answer_to 1] (make_monitor None)) =
     [make_update ''t'' 2 [''/b''] ''active'']"
  by code_simp

end
