(* ===== verification/Pid1.thy ===== *)
theory Pid1
  imports CodexFacts
begin

text \<open>
  The process lifecycle runner that is PID 1 of the sandbox (\<open>adaptive_pid1.py\<close>).  One round of its loop sees the
  clock, the signal, the child and the streams as an observation; the events go to the lifecycle channel.  Beside
  it, the observer of the app-server's output cuts the stream into lines for the workspace monitor.  Times are whole
  milliseconds.
\<close>

section \<open>Lifecycle\<close>

type_synonym lifecycle_event = "string \<times> pydict"

record observation =
  ob_now :: int
  ob_signal :: "int option"
  ob_polled :: "int option"
  ob_descendants :: bool
  ob_stdout_eof :: bool
  ob_stderr_eof :: bool

record limits =
  li_started :: int
  li_bootstrap :: int
  li_stability :: int
  li_detach :: int

record runner =
  rn_locked :: bool
  rn_candidate :: "int option"
  rn_status :: "int option"
  rn_handoff :: bool
  rn_exit :: "int option"
  rn_events :: "lifecycle_event list"

definition returncode :: "int \<Rightarrow> int" where
  "returncode status = (if status < 0 then 128 - status else status)"

definition send :: "string \<Rightarrow> pydict \<Rightarrow> runner \<Rightarrow> runner" where
  "send event info r = r\<lparr>rn_events := rn_events r @ [(event, info)]\<rparr>"

definition leave :: "string \<Rightarrow> pydict \<Rightarrow> int \<Rightarrow> runner \<Rightarrow> runner" where
  "leave event info code r = (send event info r)\<lparr>rn_exit := Some code\<rparr>"

definition start_runner :: "int \<Rightarrow> runner" where
  "start_runner pid =
     send ''started'' [(''pid'', JInt pid)]
       \<lparr>rn_locked = False, rn_candidate = None, rn_status = None, rn_handoff = False, rn_exit = None, rn_events = []\<rparr>"

text \<open>The child cannot be started: 127 when its file is missing.\<close>

definition failed_start :: "bool \<Rightarrow> string \<Rightarrow> lifecycle_event \<times> int" where
  "failed_start missing detail =
     (let code = (if missing then 127 else 126) in ((''failed'', [(''status'', JInt code), (''detail'', JStr detail)]), code))"

definition poll_child :: "limits \<Rightarrow> observation \<Rightarrow> runner \<Rightarrow> runner" where
  "poll_child li ob r =
     (if rn_status r \<noteq> None then r
      else (case ob_polled ob of
              Some status \<Rightarrow> r\<lparr>rn_status := Some (returncode status)\<rparr>
            | None \<Rightarrow>
                if \<not> rn_locked r \<and> li_bootstrap li \<le> ob_now ob - li_started li
                then send ''foreground-locked'' [] (r\<lparr>rn_locked := True\<rparr>) else r))"

text \<open>The launcher has exited successfully and left children behind.\<close>

definition detached_children :: "limits \<Rightarrow> observation \<Rightarrow> runner \<Rightarrow> runner" where
  "detached_children li ob r =
     (let r1 = (if rn_candidate r = None then send ''handoff-candidate'' [] (r\<lparr>rn_candidate := Some (ob_now ob)\<rparr>) else r);
          since = the (rn_candidate r1);
          r2 = (if \<not> rn_handoff r1 \<and> li_stability li \<le> ob_now ob - since \<and> ob_stdout_eof ob \<and> ob_stderr_eof ob
                then send ''handoff'' [] (r1\<lparr>rn_handoff := True\<rparr>) else r1)
      in if rn_handoff r2 then r2
         else if li_detach li \<le> ob_now ob - since then leave ''handoff-rejected'' [(''reason'', JStr ''stdio-attached'')] 0 r2
         else r2)"

definition tick :: "limits \<Rightarrow> observation \<Rightarrow> runner \<Rightarrow> runner" where
  "tick li ob r =
     (case ob_signal ob of
        Some sig \<Rightarrow> leave ''stopping'' [(''signal'', JInt sig)] (128 + sig) r
      | None \<Rightarrow>
          (let r = poll_child li ob r in
           case rn_status r of
             None \<Rightarrow> r
           | Some status \<Rightarrow>
               if rn_locked r then leave ''foreground-exited'' [(''status'', JInt status)] status r
               else if status \<noteq> 0 then leave ''failed'' [(''status'', JInt status)] status r
               else if \<not> ob_descendants ob
               then leave (if rn_handoff r then ''service-exited'' else ''one-shot'') [(''status'', JInt 0)] 0 r
               else detached_children li ob r))"

text \<open>The loop over what is observed, until the runner exits.\<close>

fun run_loop :: "limits \<Rightarrow> observation list \<Rightarrow> runner \<Rightarrow> runner" where
  "run_loop li [] r = r"
| "run_loop li (ob # obs) r = (if rn_exit r \<noteq> None then r else run_loop li obs (tick li ob r))"

section \<open>The app-server's output\<close>

record output_observer =
  oo_buffer :: string
  oo_monitor :: monitor
  oo_confirmed :: "session_update list"

definition is_codex_app_server :: "string list \<Rightarrow> bool" where
  "is_codex_app_server command \<longleftrightarrow> command \<noteq> [] \<and> basename (hd command) = ''codex'' \<and> ''app-server'' \<in> set (tl command)"

text \<open>One line of the output: an update is confirmed with the supervisor; a message that cannot be read is dropped.\<close>

definition observe_line :: "(string \<Rightarrow> json result) \<Rightarrow> string \<Rightarrow> output_observer \<Rightarrow> output_observer" where
  "observe_line loads line obs =
     (if line = [] then obs
      else (case loads line of
              Inl _ \<Rightarrow> obs
            | Inr v \<Rightarrow>
                (case observe_server v (oo_monitor obs) of
                   (Inr (Some u), m) \<Rightarrow> obs\<lparr>oo_monitor := m, oo_confirmed := oo_confirmed obs @ [u]\<rparr>
                 | (_, m) \<Rightarrow> obs\<lparr>oo_monitor := m\<rparr>)))"

definition newline :: char where "newline = CHR 0x0A"

definition feed :: "(string \<Rightarrow> json result) \<Rightarrow> string \<Rightarrow> output_observer \<Rightarrow> output_observer" where
  "feed loads data obs =
     (let pieces = split_on newline (oo_buffer obs @ data)
      in (fold (observe_line loads) (butlast pieces) obs)\<lparr>oo_buffer := last pieces\<rparr>)"

text \<open>The client's input, line by line: what is observed of it, and what is forwarded unchanged.\<close>

definition forward_line :: "(string \<Rightarrow> json result) \<Rightarrow> string \<Rightarrow> monitor \<Rightarrow> monitor" where
  "forward_line loads line m = (case loads line of Inl _ \<Rightarrow> m | Inr v \<Rightarrow> snd (observe_client v m))"

definition confirm_runner_workspace :: "session_update + json \<Rightarrow> pydict result" where
  "confirm_runner_workspace update =
     (case update of
        Inl u \<Rightarrow> Inr (update_to_request u)
      | Inr v \<Rightarrow>
          (case (case v of JStr p \<Rightarrow> JArr [v] | _ \<Rightarrow> v) of
             JArr ps \<Rightarrow>
               if list_all (\<lambda>p. case p of JStr s \<Rightarrow> isabs s | _ \<Rightarrow> False) ps
               then Inr [(''op'', JStr ''turn-confirm-workspace-roots''), (''paths'', JArr ps)]
               else Inl (ValueError ''workspace roots must be absolute paths'')
           | _ \<Rightarrow> Inl (ValueError ''workspace roots must be absolute paths'')))"

section \<open>The phases of a launch\<close>

text \<open>What the supervisor may rely on: the phases, and the event that leads from one to the next.\<close>

datatype phase = Bootstrapping | Foreground | Candidate | Detached | Over

fun phase_step :: "phase \<Rightarrow> string \<Rightarrow> phase option" where
  "phase_step Over event = None"
| "phase_step p event =
     (if event = ''stopping'' then Some Over
      else (case p of
              Bootstrapping \<Rightarrow>
                if event = ''foreground-locked'' then Some Foreground
                else if event = ''handoff-candidate'' then Some Candidate
                else if event \<in> {''failed'', ''one-shot''} then Some Over else None
            | Foreground \<Rightarrow> if event = ''foreground-exited'' then Some Over else None
            | Candidate \<Rightarrow>
                if event = ''handoff'' then Some Detached
                else if event \<in> {''one-shot'', ''handoff-rejected''} then Some Over else None
            | Detached \<Rightarrow> if event = ''service-exited'' then Some Over else None
            | Over \<Rightarrow> None))"

fun phases :: "phase \<Rightarrow> string list \<Rightarrow> phase option" where
  "phases p [] = Some p"
| "phases p (event # events) = (case phase_step p event of Some q \<Rightarrow> phases q events | None \<Rightarrow> None)"

definition phase_of :: "runner \<Rightarrow> phase" where
  "phase_of r =
     (if rn_exit r \<noteq> None then Over else if rn_locked r then Foreground else if rn_handoff r then Detached
      else if rn_candidate r \<noteq> None then Candidate else Bootstrapping)"

end
