(* ===== verification/Pid1Facts.thy ===== *)
theory Pid1Facts
  imports Pid1
begin

text \<open>
  The runner follows the phases of a launch, and the observer of the output does not depend on how the kernel cuts
  the stream.
\<close>

section \<open>Lifecycle\<close>

definition lifecycle_ok :: "runner \<Rightarrow> bool" where
  "lifecycle_ok r \<longleftrightarrow> (rn_candidate r \<noteq> None \<longrightarrow> rn_status r = Some 0 \<and> \<not> rn_locked r) \<and> (rn_handoff r \<longrightarrow> rn_candidate r \<noteq> None)"

lemma phases_append: "phases p (xs @ ys) = (case phases p xs of Some q \<Rightarrow> phases q ys | None \<Rightarrow> None)"
  by (induction xs arbitrary: p) (auto split: option.split)

text \<open>What one round adds to the events leads from the phase before it to the phase after it.\<close>

definition follows :: "runner \<Rightarrow> runner \<Rightarrow> bool" where
  "follows r r' \<longleftrightarrow> (\<exists>evs. rn_events r' = rn_events r @ evs \<and> phases (phase_of r) (map fst evs) = Some (phase_of r'))"

lemma follows_refl: "follows r r"
  unfolding follows_def by (rule exI [of _ "[]"]) simp

lemma follows_trans: "follows r s \<Longrightarrow> follows s t \<Longrightarrow> follows r t"
  by (auto simp: follows_def phases_append)

lemma send_simps [simp]:
  "rn_locked (send ev info r) = rn_locked r" "rn_candidate (send ev info r) = rn_candidate r" "rn_status (send ev info r) = rn_status r"
  "rn_handoff (send ev info r) = rn_handoff r" "rn_exit (send ev info r) = rn_exit r"
  "rn_events (send ev info r) = rn_events r @ [(ev, info)]"
  "phase_of (send ev info r) = phase_of r"
  by (simp_all add: send_def phase_of_def)

lemma follows_send:
  "phase_step (phase_of r) ev = Some (phase_of r') \<Longrightarrow> rn_events r' = rn_events r @ [(ev, info)] \<Longrightarrow> follows r r'"
  unfolding follows_def by (rule exI [of _ "[(ev, info)]"]) simp

lemma leave_follows:
  "phase_step (phase_of r) ev = Some Over \<Longrightarrow> follows r (leave ev info code r)"
  by (rule follows_send [where ev = ev and info = info]) (simp_all add: leave_def phase_of_def)

lemma poll_follows:
  assumes "rn_exit r = None" "lifecycle_ok r"
  shows "follows r (poll_child li ob r)" "lifecycle_ok (poll_child li ob r)" "rn_exit (poll_child li ob r) = None"
proof -
  have "follows r (send ''foreground-locked'' [] (r\<lparr>rn_locked := True\<rparr>))" if "rn_status r = None" "\<not> rn_locked r"
    by (rule follows_send [where ev = "''foreground-locked''" and info = "[]"]) (use assms that in \<open>auto simp: phase_of_def lifecycle_ok_def\<close>)
  moreover have "follows r (r\<lparr>rn_status := x\<rparr>)" for x
    unfolding follows_def by (rule exI [of _ "[]"]) (simp add: phase_of_def)
  ultimately show "follows r (poll_child li ob r)"
    using follows_refl by (auto simp: poll_child_def split: option.split)
qed (use assms in \<open>auto simp: poll_child_def lifecycle_ok_def split: option.split\<close>)

lemma detached_follows:
  assumes "rn_exit r = None" "lifecycle_ok r" "rn_status r = Some 0" "\<not> rn_locked r"
  shows "follows r (detached_children li ob r)" "lifecycle_ok (detached_children li ob r)"
proof -
  let ?r1 = "if rn_candidate r = None then send ''handoff-candidate'' [] (r\<lparr>rn_candidate := Some (ob_now ob)\<rparr>) else r"
  let ?go = "\<not> rn_handoff ?r1 \<and> li_stability li \<le> ob_now ob - the (rn_candidate ?r1) \<and> ob_stdout_eof ob \<and> ob_stderr_eof ob"
  let ?r2 = "if ?go then send ''handoff'' [] (?r1\<lparr>rn_handoff := True\<rparr>) else ?r1"
  have one: "follows r ?r1"
  proof (cases "rn_candidate r")
    case None
    then show ?thesis
      using assms by (auto simp: phase_of_def lifecycle_ok_def intro!: follows_send [where ev = "''handoff-candidate''" and info = "[]"])
  qed (simp add: follows_refl)
  have ok1: "lifecycle_ok ?r1" "rn_exit ?r1 = None" "rn_candidate ?r1 \<noteq> None" "\<not> rn_locked ?r1"
    using assms by (auto simp: lifecycle_ok_def)
  have "follows ?r1 (send ''handoff'' [] (?r1\<lparr>rn_handoff := True\<rparr>))" if ?go
    by (rule follows_send [where ev = "''handoff''" and info = "[]"]) (use ok1 that in \<open>auto simp: phase_of_def\<close>)
  then have two: "follows ?r1 ?r2" using follows_refl by auto
  have ok2: "lifecycle_ok ?r2" "rn_exit ?r2 = None" "rn_candidate ?r2 \<noteq> None" "\<not> rn_locked ?r2"
    using ok1 by (auto simp: lifecycle_ok_def)
  have "follows ?r2 (leave ''handoff-rejected'' [(''reason'', JStr ''stdio-attached'')] 0 ?r2)" if "\<not> rn_handoff ?r2"
    by (rule leave_follows) (use ok2 that in \<open>auto simp: phase_of_def\<close>)
  then have "follows ?r2 (detached_children li ob r)"
    unfolding detached_children_def Let_def using follows_refl by auto
  then show "follows r (detached_children li ob r)" using one two follows_trans by blast
  show "lifecycle_ok (detached_children li ob r)"
    using ok2(1) unfolding detached_children_def Let_def by (auto simp: lifecycle_ok_def leave_def)
qed

lemma tick_follows:
  assumes "rn_exit r = None" "lifecycle_ok r"
  shows "follows r (tick li ob r) \<and> lifecycle_ok (tick li ob r)"
proof (cases "ob_signal ob")
  case (Some sig)
  have "phase_step (phase_of r) ''stopping'' = Some Over" using assms by (cases "phase_of r") (auto simp: phase_of_def split: if_splits)
  then show ?thesis using Some assms leave_follows by (auto simp: tick_def lifecycle_ok_def leave_def)
next
  case None
  let ?r = "poll_child li ob r"
  note poll = poll_follows [OF assms, of li ob]
  have leave: "follows r (leave ev info code ?r) \<and> lifecycle_ok (leave ev info code ?r)" if "phase_step (phase_of ?r) ev = Some Over" for ev info code
    using follows_trans [OF poll(1) leave_follows [OF that]] poll(2) by (auto simp: lifecycle_ok_def leave_def)
  show ?thesis
  proof (cases "rn_status ?r")
    case None
    then show ?thesis using \<open>ob_signal ob = None\<close> poll by (simp add: tick_def)
  next
    case (Some status)
    consider "rn_locked ?r" | "\<not> rn_locked ?r" "status \<noteq> 0" | "\<not> rn_locked ?r" "status = 0" "\<not> ob_descendants ob"
      | "\<not> rn_locked ?r" "status = 0" "ob_descendants ob" by blast
    then show ?thesis
    proof cases
      case 4
      then show ?thesis
        using detached_follows [OF poll(3,2), of li ob] follows_trans [OF poll(1)] Some None by (simp add: tick_def)
    next
      case 1
      have "phase_step (phase_of ?r) ''foreground-exited'' = Some Over" using 1 poll(3) by (simp add: phase_of_def)
      from leave [OF this] show ?thesis using None Some 1 by (simp add: tick_def)
    next
      case 2
      have "phase_step (phase_of ?r) ''failed'' = Some Over" using 2 poll(2,3) Some by (auto simp: phase_of_def lifecycle_ok_def)
      from leave [OF this] show ?thesis using None Some 2 by (simp add: tick_def)
    next
      case 3
      have "phase_step (phase_of ?r) (if rn_handoff ?r then ''service-exited'' else ''one-shot'') = Some Over"
        using 3 poll(2,3) by (auto simp: phase_of_def lifecycle_ok_def)
      from leave [OF this] show ?thesis using None Some 3 by (simp add: tick_def Let_def)
    qed
  qed
qed

lemma loop_follows: "rn_exit r = None \<or> follows r r \<Longrightarrow> lifecycle_ok r \<Longrightarrow> follows r (run_loop li obs r)"
proof (induction obs arbitrary: r)
  case (Cons ob obs)
  show ?case
  proof (cases "rn_exit r")
    case None
    note t = tick_follows [OF None Cons.prems(2), of li ob]
    show ?thesis using follows_trans [OF conjunct1 [OF t] Cons.IH [of "tick li ob r"]] t follows_refl None by auto
  qed (simp add: follows_refl)
qed (simp add: follows_refl)

section \<open>The output stream\<close>

lemma split_on_cut: "split_on c (xs @ ys) = butlast (split_on c xs) @ split_on c (last (split_on c xs) @ ys)"
proof (induction xs)
  case (Cons x xs)
  have "split_on c xs \<noteq> []" by simp
  then obtain p ps where p: "split_on c xs = p # ps" by (cases "split_on c xs") auto
  show ?case
    using Cons by (cases "ps = []") (auto simp: p)
qed simp

lemma observe_line_buffer: "observe_line loads l (obs\<lparr>oo_buffer := b\<rparr>) = (observe_line loads l obs)\<lparr>oo_buffer := b\<rparr>"
  by (auto simp: observe_line_def split: sum.split prod.split option.split)

lemma fold_buffer: "fold (observe_line loads) ls (obs\<lparr>oo_buffer := b\<rparr>) = (fold (observe_line loads) ls obs)\<lparr>oo_buffer := b\<rparr>"
  by (induction ls arbitrary: obs) (simp_all add: observe_line_buffer)

section \<open>Properties\<close>

text \<open>C29. The runner refines the phases of a launch: the events it sends, from the start of the child on, are a path
  through the phases that ends in the phase the runner is in, so that a launch is never both locked to the foreground
  and handed off, and nothing follows the last event.\<close>

theorem runner_follows_phases:
  "\<exists>evs. rn_events (run_loop li obs (start_runner pid)) = (''started'', [(''pid'', JInt pid)]) # evs \<and>
     phases Bootstrapping (map fst evs) = Some (phase_of (run_loop li obs (start_runner pid)))"
proof -
  have "follows (start_runner pid) (run_loop li obs (start_runner pid))"
    by (rule loop_follows) (simp_all add: start_runner_def lifecycle_ok_def)
  then show ?thesis by (auto simp: follows_def start_runner_def phase_of_def)
qed

text \<open>C30. The observer of the app-server's output does not depend on how the stream is cut: feeding it in two pieces has
  the effect of feeding it at once.\<close>

theorem feed_pieces: "feed loads (a @ b) obs = feed loads b (feed loads a obs)"
proof -
  let ?p = "split_on newline (oo_buffer obs @ a)"
  have "split_on newline (oo_buffer obs @ a @ b) = butlast ?p @ split_on newline (last ?p @ b)"
    using split_on_cut [of newline "oo_buffer obs @ a" b] by simp
  then show ?thesis by (simp add: feed_def Let_def butlast_append fold_buffer)
qed

end
