(* ===== verification/BwrapRoute.thy ===== *)
theory BwrapRoute
  imports Control
begin

text \<open>
  The route adapter around bwrap (\<open>bwrap_route.py\<close>): it asks the supervisor for the route of a logical session and
  adds the route's binds to the vendor's arguments; whatever goes wrong, the real bwrap runs with the arguments as
  they are.  The exchange on the socket is an argument, from the request to the decoded answer.
\<close>

definition MAX_MESSAGE_BYTES :: nat where "MAX_MESSAGE_BYTES = 65536"
definition MAX_BINDINGS :: nat where "MAX_BINDINGS = 16"

section \<open>Patterns\<close>

text \<open>The end of a pattern, \<open>$\<close>: the end of the text or a last line break.\<close>

definition at_end :: "string \<Rightarrow> bool" where
  "at_end s \<longleftrightarrow> s = [] \<or> s = [CHR 0x0A]"

definition route_id_at :: "string \<Rightarrow> string option" where
  "route_id_at s =
     (if startswith s ''route-'' \<and> length (take 32 (drop 6 s)) = 32 \<and> list_all is_hex (take 32 (drop 6 s))
      then Some (take 38 s) else None)"

definition is_route_id :: "string \<Rightarrow> bool" where
  "is_route_id s \<longleftrightarrow> route_id_at s \<noteq> None \<and> at_end (drop 38 s)"

definition provider_char :: "char \<Rightarrow> bool" where
  "provider_char c \<longleftrightarrow> (let n = (of_char c :: nat) in 97 \<le> n \<and> n \<le> 122 \<or> 48 \<le> n \<and> n \<le> 57 \<or> c \<in> set ''_-'')"

definition is_provider :: "string \<Rightarrow> bool" where
  "is_provider s \<longleftrightarrow>
     (let body = takeWhile provider_char s in
      body \<noteq> [] \<and> (let n = (of_char (hd body) :: nat) in 97 \<le> n \<and> n \<le> 122) \<and> length body \<le> 32 \<and> at_end (drop (length body) s))"

definition instance_char :: "char \<Rightarrow> bool" where
  "instance_char c \<longleftrightarrow> (let n = (of_char c :: nat) in 65 \<le> n \<and> n \<le> 90 \<or> 97 \<le> n \<and> n \<le> 122 \<or> 48 \<le> n \<and> n \<le> 57 \<or> c = CHR ''-'')"

text \<open>The rest after a prefix, a non-empty run of characters of a class, and a suffix.\<close>

definition after_prefix :: "string \<Rightarrow> string \<Rightarrow> string option" where
  "after_prefix p s = (if startswith s p then Some (drop (length p) s) else None)"

definition after_run :: "string \<Rightarrow> (char \<Rightarrow> bool) \<Rightarrow> string \<Rightarrow> string \<Rightarrow> string option" where
  "after_run p cls tail s =
     (case after_prefix p s of
        None \<Rightarrow> None
      | Some t \<Rightarrow> if takeWhile cls t = [] then None else after_prefix tail (dropWhile cls t))"

definition after_route_dir :: "string \<Rightarrow> string option" where
  "after_route_dir s =
     (case after_prefix ''/run/ccc-agent/routes'' s of
        Some t \<Rightarrow> Some t
      | None \<Rightarrow>
          (case after_run ''/run/user/'' is_digit ''/ccc-agent-routes'' s of
             Some t \<Rightarrow> Some t
           | None \<Rightarrow> after_run ''/dev/shm/ccc-agent-agent-'' instance_char ''/routes'' s))"

text \<open>The route id a source path belongs to.\<close>

definition route_source_id :: "string \<Rightarrow> string option" where
  "route_source_id s =
     (case after_route_dir s of
        None \<Rightarrow> None
      | Some t \<Rightarrow>
          (case after_prefix ''/'' t of
             None \<Rightarrow> None
           | Some u \<Rightarrow>
               (case route_id_at u of
                  None \<Rightarrow> None
                | Some rid \<Rightarrow> if startswith (drop 38 u) ''/'' \<or> at_end (drop 38 u) then Some rid else None)))"

definition trusted_bwrap :: "string \<Rightarrow> bool" where
  "trusted_bwrap s \<longleftrightarrow>
     (case after_prefix ''/run/ccc-agent/real-bwrap'' s of Some t \<Rightarrow> at_end t | None \<Rightarrow> False) \<or>
     (case after_run ''/run/user/'' is_digit ''/ccc-agent-real-bwrap'' s of Some t \<Rightarrow> at_end t | None \<Rightarrow> False) \<or>
     (case after_run ''/dev/shm/ccc-agent-agent-'' instance_char ''/ccc-agent-real-bwrap'' s of Some t \<Rightarrow> at_end t | None \<Rightarrow> False)"

definition safe_absolute :: "json \<Rightarrow> string \<Rightarrow> string result" where
  "safe_absolute path label =
     (case path of
        JStr p \<Rightarrow>
          if p = [] \<or> CHR 0x00 \<in> set p then Inl (ValueError (label @ '' must be a non-empty absolute path''))
          else if \<not> isabs p \<or> normpath p \<noteq> p then Inl (ValueError (label @ '' must be normalized and absolute''))
          else Inr p
      | _ \<Rightarrow> Inl (ValueError (label @ '' must be a non-empty absolute path'')))"

section \<open>The socket\<close>

type_synonym exchange = "pydict \<Rightarrow> json result"

definition send_request :: "(json \<Rightarrow> string) \<Rightarrow> exchange \<Rightarrow> pydict \<Rightarrow> pydict result" where
  "send_request dumps send payload =
     (if length (dumps (JObj payload)) + 1 > MAX_MESSAGE_BYTES then Inl (ValueError ''route request is too large'')
      else bindR (send payload) (\<lambda>v. case v of JObj d \<Rightarrow> Inr d | _ \<Rightarrow> Inl (ValueError ''route response must be an object'')))"

text \<open>The errors a lookup turns into \<open>None\<close>.\<close>

definition lookup_error :: "pyexn \<Rightarrow> bool" where
  "lookup_error e = (is_os_error e \<or> is_value_error e \<or> (case e of TypeError _ \<Rightarrow> True | _ \<Rightarrow> False))"

definition ok_true :: "pydict \<Rightarrow> bool" where
  "ok_true d \<longleftrightarrow> get_default d ''ok'' JNull = JBool True"

definition adapter_lookup :: "(json \<Rightarrow> string) \<Rightarrow> exchange \<Rightarrow> string \<Rightarrow> string \<Rightarrow> pydict option result" where
  "adapter_lookup dumps send provider hint =
     (if \<not> is_provider provider \<or> hint = [] \<or> CHR 0x00 \<in> set hint \<or> length hint > 4096 then Inr None
      else (case send_request dumps send
                   [(''op'', JStr ''route-lookup''), (''provider'', JStr provider), (''logical_session_hint'', JStr hint)] of
              Inl e \<Rightarrow> if lookup_error e then Inr None else Inl e
            | Inr d \<Rightarrow> Inr (if ok_true d then Some d else None)))"

definition result_request :: "json \<Rightarrow> string \<Rightarrow> string option \<Rightarrow> pydict option" where
  "result_request route_id outcome reason =
     (if \<not> is_route_id (name_or_empty route_id) \<or> outcome \<notin> {''routed'', ''bypassed'', ''unattributed''} then None
      else Some ([(''op'', JStr ''route-record-result''), (''route_id'', route_id), (''outcome'', JStr outcome)] @
             (case reason of None \<Rightarrow> [] | Some r \<Rightarrow> [(''reason'', JStr (take 128 (filter (\<lambda>c. c \<noteq> CHR 0x00) r)))])))"

definition record_route_result :: "(json \<Rightarrow> string) \<Rightarrow> exchange \<Rightarrow> json \<Rightarrow> string \<Rightarrow> string option \<Rightarrow> bool result" where
  "record_route_result dumps send route_id outcome reason =
     (case result_request route_id outcome reason of
        None \<Rightarrow> Inr False
      | Some payload \<Rightarrow>
          (case send_request dumps send payload of
             Inl e \<Rightarrow> if lookup_error e then Inr False else Inl e
           | Inr d \<Rightarrow> Inr (ok_true d)))"

section \<open>The arguments\<close>

definition bind_step :: "string \<Rightarrow> (string \<times> string) list \<Rightarrow> json \<Rightarrow> (string \<times> string) list result" where
  "bind_step route_id acc binding =
     (case binding of
        JObj d \<Rightarrow>
          bindR (safe_absolute (get_default d ''source'' JNull) ''route source'') (\<lambda>source.
          bindR (safe_absolute (get_default d ''destination'' JNull) ''route destination'') (\<lambda>destination.
            if route_source_id source \<noteq> Some route_id then Inl (ValueError ''route source is outside its opaque route'')
            else if destination = ''/'' \<or> destination \<in> set (map snd acc)
            then Inl (ValueError ''route destination is unsafe or duplicated'')
            else Inr (acc @ [(source, destination)])))
      | _ \<Rightarrow> Inl (ValueError ''route binding must be an object''))"

definition bind_args :: "(string \<times> string) list \<Rightarrow> string list" where
  "bind_args bs = concat (map (\<lambda>(s, d). [''--bind'', s, d]) bs)"

definition route_bind_args :: "pydict \<Rightarrow> (string \<times> string) list result" where
  "route_bind_args route =
     (if \<not> ok_true route then Inl (ValueError ''route response is not successful'')
      else (case get_default route ''route_id'' JNull of
              JStr rid \<Rightarrow>
                if \<not> is_route_id rid then Inl (ValueError ''route response has invalid route_id'')
                else (case get_default route ''bindings'' JNull of
                        JArr bs \<Rightarrow>
                          if length bs > MAX_BINDINGS then Inl (ValueError ''route bindings must be a bounded array'')
                          else foldR (bind_step rid) [] bs
                      | _ \<Rightarrow> Inl (ValueError ''route bindings must be a bounded array''))
            | _ \<Rightarrow> Inl (ValueError ''route response has invalid route_id'')))"

definition informational :: "string list \<Rightarrow> bool" where
  "informational argv \<longleftrightarrow> argv \<in> {[''--help''], [''--version''], [''-h''], [''-V'']}"

definition apply_route :: "string list \<Rightarrow> pydict \<Rightarrow> (string list \<times> bool) result" where
  "apply_route argv route =
     (if informational argv \<or> ''--'' \<notin> set argv then Inr (argv, False)
      else bindR (route_bind_args route) (\<lambda>bs.
        if bs = [] then Inr (argv, False)
        else Inr (takeWhile (\<lambda>a. a \<noteq> ''--'') argv @ bind_args bs @ dropWhile (\<lambda>a. a \<noteq> ''--'') argv, True)))"

definition logical_hint :: "string \<Rightarrow> (string, string) dict \<Rightarrow> string option" where
  "logical_hint provider environ =
     (if provider = ''codex'' then dict_get environ ''CODEX_THREAD_ID''
      else if provider = ''claude'' then dict_get environ ''CLAUDE_SESSION_ID'' else None)"

text \<open>What is executed, and what is reported about the route.\<close>

definition routed_argv :: "string list \<Rightarrow> pydict \<Rightarrow> string list \<times> string \<times> string option" where
  "routed_argv argv route =
     (case apply_route argv route of
        Inr (argv', True) \<Rightarrow> (argv', ''routed'', None)
      | Inr (argv', False) \<Rightarrow> (argv', ''bypassed'', Some ''unrouteable-bwrap-argv'')
      | Inl e \<Rightarrow> (argv, ''bypassed'', Some (exn_str e)))"

definition bwrap_main :: "(json \<Rightarrow> string) \<Rightarrow> exchange \<Rightarrow> (string, string) dict \<Rightarrow> string list \<Rightarrow> (string list \<times> pydict option) result" where
  "bwrap_main dumps send environ argv =
     bindR (safe_absolute (JStr (case dict_get environ ''CCC_AGENT_REAL_BWRAP'' of Some p \<Rightarrow> p | None \<Rightarrow> ''/run/ccc-agent/real-bwrap''))
              ''real bwrap'') (\<lambda>real.
     if \<not> trusted_bwrap real then Inl (ValueError ''real bwrap path is outside the trusted runtime'')
     else
       (let provider = str_lower (case dict_get environ ''CCC_AGENT_ROUTE_VENDOR'' of Some v \<Rightarrow> v | None \<Rightarrow> []) in
        bindR (case logical_hint provider environ of
                 None \<Rightarrow> Inr None
               | Some hint \<Rightarrow> if hint = [] \<or> informational argv then Inr None else adapter_lookup dumps send provider hint) (\<lambda>route.
          case route of
            None \<Rightarrow> Inr (real # argv, None)
          | Some d \<Rightarrow>
              (case routed_argv argv d of
                 (argv', outcome, reason) \<Rightarrow>
                   bindR (record_route_result dumps send (get_default d ''route_id'' JNull) outcome reason) (\<lambda>_.
                     Inr (real # argv', result_request (get_default d ''route_id'' JNull) outcome reason))))))"

section \<open>Facts\<close>

text \<open>What is known of the binds collected so far.\<close>

definition binds_ok :: "string \<Rightarrow> (string \<times> string) list \<Rightarrow> bool" where
  "binds_ok rid bs \<longleftrightarrow> distinct (map snd bs) \<and>
     (\<forall>(s, d)\<in>set bs. route_source_id s = Some rid \<and> isabs s \<and> normpath s = s \<and> isabs d \<and> normpath d = d \<and> d \<noteq> ''/'')"

lemma safe_absolute_Inr: "safe_absolute v label = Inr p \<Longrightarrow> v = JStr p \<and> isabs p \<and> normpath p = p"
  by (auto simp: safe_absolute_def split: json.splits if_splits)

lemma bind_step_ok: "binds_ok rid acc \<Longrightarrow> bind_step rid acc b = Inr bs \<Longrightarrow> binds_ok rid bs \<and> length bs = Suc (length acc)"
  by (auto simp: bind_step_def binds_ok_def bindR_eq_Inr dest!: safe_absolute_Inr split: json.splits if_splits)

lemma bind_steps_ok: "binds_ok rid acc \<Longrightarrow> foldR (bind_step rid) acc xs = Inr bs \<Longrightarrow> binds_ok rid bs \<and> length bs = length acc + length xs"
proof (induction xs arbitrary: acc)
  case (Cons x xs)
  then show ?case using bind_step_ok [OF Cons.prems(1)] by (fastforce simp: bindR_eq_Inr)
qed simp

text \<open>A path of a route lies below the directory the runtime made for it.\<close>

lemma after_prefix_Some: "after_prefix p s = Some t \<longleftrightarrow> s = p @ t"
  by (auto simp: after_prefix_def prefix_def)

lemma route_source_below:
  assumes "route_source_id s = Some rid"
  shows "\<exists>rest. after_route_dir s = Some (''/'' @ rid @ rest) \<and> (startswith rest ''/'' \<or> at_end rest)"
proof -
  obtain u where u: "after_route_dir s = Some (''/'' @ u)" "route_id_at u = Some rid" "startswith (drop 38 u) ''/'' \<or> at_end (drop 38 u)"
    using assms by (auto simp: route_source_id_def after_prefix_Some split: option.splits if_splits)
  have "u = rid @ drop 38 u" using u(2) by (auto simp: route_id_at_def split: if_splits)
  then show ?thesis using u by metis
qed

section \<open>Properties\<close>


definition sample_answer :: pydict where
  "sample_answer = [(''ok'', JBool True), (''route_id'', JStr ''route-0123456789abcdef0123456789abcdef''),
     (''bindings'', JArr [JObj [(''source'', JStr ''/run/ccc-agent/routes/route-0123456789abcdef0123456789abcdef/storage''),
        (''destination'', JStr ''/storage/user'')]])]"


end
