(* ===== verification/Launch.thy ===== *)
theory Launch
  imports World Workspace
begin

text \<open>
  The launch configuration of \<open>runner.py\<close> (lines 301-541 and 645-951): the root templates, the
  validated \<open>RunnerConfig\<close>, where the agent starts, which agent a command is, the plugin that
  matches it, and whether the hardening library of the client may be trusted.

  The numbers of seconds are given in milliseconds, as the result of reading them as numbers;
  SHA-256 is an argument.  Plugin specifications are JSON objects from the configuration.
\<close>

section \<open>Root templates\<close>

record root_spec =
  rs_name :: string
  rs_base :: string
  rs_store :: string
  rs_visible :: string
  rs_home_subdir :: "string option"
  rs_mount :: "string option"
  rs_hide_paths :: "string list"

definition or_string :: "string option \<Rightarrow> string \<Rightarrow> string" where
  "or_string x y = (case x of Some s \<Rightarrow> if s = [] then y else s | None \<Rightarrow> y)"

definition materialize :: "root_spec \<Rightarrow> string \<Rightarrow> string \<Rightarrow> string option \<Rightarrow> protected_root" where
  "materialize spec sid state_dir mount_dir =
     (let dir = or_string mount_dir (path_join (path_join state_dir sid) ''mounts'')
      in \<lparr>pr_name = rs_name spec, pr_base = rs_base spec, pr_store = rs_store spec, pr_branch = sid,
          pr_mount = or_string (rs_mount spec) (path_join dir (rs_name spec)), pr_visible = rs_visible spec,
          pr_home_subdir = rs_home_subdir spec, pr_hide_paths = rs_hide_paths spec\<rparr>)"

text \<open>A template as the admission policy reads it: its name, base, mount and visible path.\<close>

definition template_root :: "root_spec \<Rightarrow> protected_root" where
  "template_root spec =
     \<lparr>pr_name = rs_name spec, pr_base = rs_base spec, pr_store = rs_store spec, pr_branch = [],
      pr_mount = or_string (rs_mount spec) [], pr_visible = rs_visible spec,
      pr_home_subdir = rs_home_subdir spec, pr_hide_paths = rs_hide_paths spec\<rparr>"

section \<open>The configuration\<close>

definition CONFINEMENT_MODES :: "string list" where "CONFINEMENT_MODES = [''none'', ''bwrap'']"
definition BWRAP_PROC_MODES :: "string list" where "BWRAP_PROC_MODES = [''bind'', ''ro'', ''fresh'']"
definition LIFECYCLE_MODES :: "string list" where "LIFECYCLE_MODES = [''foreground'', ''adaptive'']"

definition AGENT_STATE_DIRS :: "string list" where
  "AGENT_STATE_DIRS = [''.codex'', ''.claude'', ''.hermes'', ''.local/share/claude'', ''.local/state/claude'', ''.cache/claude-cli-nodejs'']"
definition AGENT_STATE_FILES :: "string list" where
  "AGENT_STATE_FILES = [''.claude.json'', ''.local/bin/codex'', ''.local/bin/claude'']"
definition AGENT_STATE_PATHS :: "string list" where "AGENT_STATE_PATHS = AGENT_STATE_DIRS @ AGENT_STATE_FILES"

definition default_agent_state_binds :: "string \<Rightarrow> string list" where
  "default_agent_state_binds owner = map (path_join (''/home/'' @ owner)) AGENT_STATE_PATHS"

text \<open>What the configuration is built from: the arguments of the constructor as they come.\<close>

record config_args =
  ca_owner :: string
  ca_agent_kind :: string
  ca_agent_command :: "string list"
  ca_workspace :: "string option"
  ca_policy :: pydict
  ca_roots :: "root_spec list"
  ca_launch_cwd :: "string option"
  ca_completion :: string
  ca_confinement :: string
  ca_bwrap_bin :: string
  ca_proc_mode :: string
  ca_ro_binds :: "string list"
  ca_setenv :: "(string, string) dict"
  ca_unsetenv :: "string list"
  ca_per_turn :: "bool option"
  ca_run_access :: bool
  ca_cred_mounts :: "string list"
  ca_cred_mask :: "string list"
  ca_cred_env :: pydict
  ca_uid :: "int option"
  ca_gid :: "int option"
  ca_plugins :: pydict
  ca_state_binds :: "string list option"
  ca_protect_state :: bool
  ca_ensure_state :: bool
  ca_server_mode :: bool
  ca_lifecycle :: string
  ca_bootstrap :: "int result"
  ca_stability :: "int result"
  ca_detach :: "int result"
  ca_library :: "string option"
  ca_admission_roots :: json
  ca_allow_root :: json
  ca_routing :: json
  ca_vendors :: json
  ca_require_existing :: bool

record runner_config =
  cf_alias :: alias_map
  cf_owner :: string
  cf_agent_kind :: string
  cf_agent_command :: "string list"
  cf_roots :: "root_spec list"
  cf_operator_policy :: admission_policy
  cf_admission_policy :: admission_policy
  cf_launch_admission :: "pydict option"
  cf_workspace :: "string option"
  cf_launch_cwd :: string
  cf_policy :: pydict
  cf_completion :: string
  cf_confinement :: string
  cf_bwrap_bin :: string
  cf_proc_mode :: string
  cf_ro_binds :: "string list"
  cf_setenv :: "(string, string) dict"
  cf_unsetenv :: "string list"
  cf_run_access :: bool
  cf_per_turn :: bool
  cf_cred_mounts :: "string list"
  cf_cred_mask :: "string list"
  cf_cred_env :: pydict
  cf_uid :: "int option"
  cf_gid :: "int option"
  cf_plugins :: pydict
  cf_state_binds :: "string list"
  cf_protect_state :: bool
  cf_ensure_state :: bool
  cf_server_mode :: bool
  cf_library :: "string option"
  cf_lifecycle :: string
  cf_bootstrap :: int
  cf_stability :: int
  cf_detach :: int
  cf_routing :: bool
  cf_vendors :: "string list"

definition positive_seconds :: "string \<Rightarrow> int result \<Rightarrow> int result" where
  "positive_seconds name value =
     (case value of
        Inl _ \<Rightarrow> Inl (ValueError (name @ '' must be a positive number''))
      | Inr x \<Rightarrow> if x \<le> 0 then Inl (ValueError (name @ '' must be a positive number'')) else Inr x)"

definition as_bool :: "string \<Rightarrow> json \<Rightarrow> bool result" where
  "as_bool name v = (case v of JBool b \<Rightarrow> Inr b | _ \<Rightarrow> Inl (ValueError (name @ '' must be true or false'')))"

text \<open>\<open>session_delta_routing_vendors\<close>: an array of known names, without duplicates.\<close>

definition vendor_step :: "string list \<Rightarrow> json \<Rightarrow> string list result" where
  "vendor_step acc v =
     (let vendor = str_lower (str_strip (py_str v)) in
      if vendor \<notin> {''codex'', ''claude'', ''hermes''}
      then Inl (ValueError (''unsupported session delta routing vendor '' @ vendor))
      else Inr (if vendor \<in> set acc then acc else acc @ [vendor]))"

definition read_vendors :: "json \<Rightarrow> string list result" where
  "read_vendors v =
     (case v of
        JStr _ \<Rightarrow> Inl (ValueError ''session_delta_routing_vendors must be an array'')
      | _ \<Rightarrow> if \<not> truthy v then Inr [] else bindR (as_list v) (foldR vendor_step []))"

definition unset_step :: "string list \<Rightarrow> string \<Rightarrow> string list result" where
  "unset_step acc name =
     (if name = [] \<or> CHR ''='' \<in> set name \<or> CHR 0x00 \<in> set name
      then Inl (ValueError (''invalid bwrap_unsetenv name '' @ name)) else Inr (acc @ [name]))"

text \<open>The policy of a launch: the operator's, with the settings the session must remember.\<close>

definition launch_policy :: "config_args \<Rightarrow> string list \<Rightarrow> bool \<Rightarrow> bool \<Rightarrow> string list \<Rightarrow> int \<Rightarrow> pydict option \<Rightarrow> string option \<Rightarrow> pydict" where
  "launch_policy ca ceilings allow routing vendors uid adm workspace =
     (let p = dict_set (dict_set (dict_set (dict_set (dict_set (ca_policy ca)
                ''workspace_admission_roots'' (jstrs ceilings))
                ''allow_protected_root_workspace'' (JBool allow))
                ''session_delta_routing'' (JBool routing))
                ''session_delta_routing_vendors'' (jstrs vendors))
                ''sandbox_route_root'' (JStr (''/run/user/'' @ show_int uid @ ''/ccc-agent-routes''));
          p = (case adm of Some a \<Rightarrow> dict_set p ''launch_workspace_admission'' (JObj a) | None \<Rightarrow> p)
      in if dict_has p ''allowed_scopes'' then p
         else dict_set p ''allowed_scopes'' (jstrs (case workspace of Some w \<Rightarrow> if w = [] then [] else [w] | None \<Rightarrow> [])))"

definition visible_of :: "pydict \<Rightarrow> string result" where
  "visible_of adm = bindR (get_item adm ''visible_path'') as_str"

definition make_runner_config :: "fs \<Rightarrow> int \<Rightarrow> alias_map \<Rightarrow> config_args \<Rightarrow> runner_config result" where
  "make_runner_config fs uid am ca =
     (let roots = map (\<lambda>s. (rs_name s, template_root s)) (ca_roots ca) in
      bindR (make_admission_policy roots am (jstrs (map rs_visible (ca_roots ca))) (JBool True)) (\<lambda>operator.
      bindR (as_bool ''allow_protected_root_workspace'' (ca_allow_root ca)) (\<lambda>allow.
      bindR (make_admission_policy roots am (ca_admission_roots ca) (JBool allow)) (\<lambda>policy.
      bindR (as_bool ''session_delta_routing'' (ca_routing ca)) (\<lambda>routing.
      bindR (read_vendors (ca_vendors ca)) (\<lambda>vendors.
      bindR (case ca_workspace ca of
               None \<Rightarrow> Inr None
             | Some w \<Rightarrow> if w = [] then Inr None
                         else bindR (admit operator fs (JStr w) (ca_require_existing ca)) (\<lambda>adm. Inr (Some adm))) (\<lambda>adm.
      bindR (case adm of None \<Rightarrow> Inr (ca_workspace ca) | Some a \<Rightarrow> bindR (visible_of a) (\<lambda>v. Inr (Some v))) (\<lambda>workspace.
      bindR (let cwd = (case ca_launch_cwd ca of Some c \<Rightarrow> Some c | None \<Rightarrow> workspace) in
             case cwd of
               None \<Rightarrow> Inl (ValueError ''launch_cwd is required when workspace is unset'')
             | Some c \<Rightarrow> if c = [] then Inl (ValueError ''launch_cwd is required when workspace is unset'') else Inr c) (\<lambda>cwd.
      let p = launch_policy ca (ap_ceilings policy) allow routing vendors
                (case ca_uid ca of Some u \<Rightarrow> u | None \<Rightarrow> uid) adm workspace in
      bindR (config_from_dict p) (\<lambda>_.
      if ca_confinement ca \<notin> set CONFINEMENT_MODES
      then Inl (ValueError (''unknown confinement '' @ ca_confinement ca))
      else if ca_proc_mode ca \<notin> set BWRAP_PROC_MODES
      then Inl (ValueError (''unknown bwrap_proc_mode '' @ ca_proc_mode ca))
      else bindR (foldR unset_step [] (ca_unsetenv ca)) (\<lambda>unset.
      if ca_lifecycle ca \<notin> set LIFECYCLE_MODES
      then Inl (ValueError (''unknown lifecycle '' @ ca_lifecycle ca))
      else if ca_lifecycle ca = ''adaptive'' \<and> ca_confinement ca \<noteq> ''bwrap''
      then Inl (ValueError ''adaptive lifecycle requires bwrap confinement'')
      else
      bindR (positive_seconds ''adaptive_bootstrap_seconds'' (ca_bootstrap ca)) (\<lambda>bootstrap.
      bindR (positive_seconds ''adaptive_stability_seconds'' (ca_stability ca)) (\<lambda>stability.
      bindR (positive_seconds ''adaptive_detach_seconds'' (ca_detach ca)) (\<lambda>detach.
      Inr \<lparr>cf_alias = am, cf_owner = ca_owner ca, cf_agent_kind = ca_agent_kind ca, cf_agent_command = ca_agent_command ca,
        cf_roots = ca_roots ca, cf_operator_policy = operator, cf_admission_policy = policy, cf_launch_admission = adm,
        cf_workspace = workspace, cf_launch_cwd = cwd, cf_policy = p, cf_completion = ca_completion ca,
        cf_confinement = ca_confinement ca, cf_bwrap_bin = ca_bwrap_bin ca, cf_proc_mode = ca_proc_mode ca,
        cf_ro_binds = ca_ro_binds ca, cf_setenv = ca_setenv ca, cf_unsetenv = unset, cf_run_access = ca_run_access ca,
        cf_per_turn = (case ca_per_turn ca of Some b \<Rightarrow> b | None \<Rightarrow> ca_confinement ca = ''bwrap''),
        cf_cred_mounts = ca_cred_mounts ca, cf_cred_mask = ca_cred_mask ca, cf_cred_env = ca_cred_env ca,
        cf_uid = ca_uid ca, cf_gid = ca_gid ca, cf_plugins = ca_plugins ca,
        cf_state_binds = (case ca_state_binds ca of Some b \<Rightarrow> b | None \<Rightarrow> default_agent_state_binds (ca_owner ca)),
        cf_protect_state = ca_protect_state ca, cf_ensure_state = ca_ensure_state ca, cf_server_mode = ca_server_mode ca,
        cf_library = (case ca_library ca of None \<Rightarrow> None | Some l \<Rightarrow> if l = [] then None else Some (abspath (fs_cwd fs) l)),
        cf_lifecycle = ca_lifecycle ca, cf_bootstrap = bootstrap, cf_stability = stability, cf_detach = detach,
        cf_routing = routing, cf_vendors = vendors\<rparr>))))))))))))))"

section \<open>Where the agent starts\<close>

text \<open>The first root whose visible path contains the directory.\<close>

definition root_holding :: "alias_map \<Rightarrow> string \<Rightarrow> (string, protected_root) dict \<Rightarrow> (protected_root \<times> string) option result" where
  "root_holding am dir roots =
     foldR (\<lambda>found (name, root). case found of Some _ \<Rightarrow> Inr found
        | None \<Rightarrow> bindR (canonicalize am (pr_visible root)) (\<lambda>visible.
                  bindR (is_within dir visible) (\<lambda>inside. Inr (if inside then Some (root, visible) else None))))
       None roots"

definition launch_dir :: "session \<Rightarrow> string \<Rightarrow> string result" where
  "launch_dir s cwd =
     (if cwd \<noteq> [] then Inr cwd
      else (case s_workspace s of Some w \<Rightarrow> Inr w | None \<Rightarrow> Inl (TypeError ''expected str'')))"

definition not_under_a_root :: "string \<Rightarrow> pyexn" where
  "not_under_a_root cwd = ValueError (''launch cwd '' @ cwd @ '' is not under any protected root'')"

definition agent_cwd :: "fs \<Rightarrow> session \<Rightarrow> alias_map \<Rightarrow> string \<Rightarrow> string result" where
  "agent_cwd fs s am cwd =
     bindR (launch_dir s cwd) (\<lambda>dir.
     bindR (canonicalize am dir) (\<lambda>canon.
     bindR (root_holding am canon (s_roots s)) (\<lambda>found. case found of
       None \<Rightarrow> Inl (not_under_a_root dir)
     | Some (root, visible) \<Rightarrow>
         bindR (relpath (fs_cwd fs) canon visible) (\<lambda>rel.
           Inr (if rel = ''.'' then pr_mount root else path_join (pr_mount root) rel)))))"

definition primary_root :: "session \<Rightarrow> alias_map \<Rightarrow> string \<Rightarrow> protected_root result" where
  "primary_root s am cwd =
     bindR (launch_dir s cwd) (\<lambda>dir.
     bindR (canonicalize am dir) (\<lambda>canon.
     bindR (root_holding am canon (s_roots s)) (\<lambda>found. case found of
       None \<Rightarrow> Inl (not_under_a_root dir)
     | Some (root, visible) \<Rightarrow> Inr root)))"

section \<open>Which agent a command is\<close>

definition agent_token :: "string \<Rightarrow> string" where
  "agent_token v = str_lower (basename v)"

text \<open>The configured plugin of a token, in the spelling of its key.\<close>

definition plugin_key_for_token :: "runner_config \<Rightarrow> string \<Rightarrow> string option" where
  "plugin_key_for_token cf token = find (\<lambda>agent. str_lower agent = str_lower token) (map fst (cf_plugins cf))"

definition without_suffix :: "string \<Rightarrow> string \<Rightarrow> string option" where
  "without_suffix end_part token =
     (if endswith token end_part \<and> length end_part < length token then Some (take (length token - length end_part) token) else None)"

definition plugin_token_for_agent_kind :: "string \<Rightarrow> string" where
  "plugin_token_for_agent_kind v =
     (let token = agent_token v in
      case without_suffix ''-remote-bridge'' token of
        Some t \<Rightarrow> t
      | None \<Rightarrow> (case without_suffix ''-remote'' token of Some t \<Rightarrow> t | None \<Rightarrow> token))"

definition inferred_agent_plugin_names :: "runner_config \<Rightarrow> string list" where
  "inferred_agent_plugin_names cf = (case cf_agent_command cf of [] \<Rightarrow> [] | c # _ \<Rightarrow> [agent_token c])"

definition direct_agent_command_matches :: "runner_config \<Rightarrow> string \<Rightarrow> bool" where
  "direct_agent_command_matches cf agent =
     (case cf_agent_command cf of [] \<Rightarrow> False | c # _ \<Rightarrow> agent_token c = str_lower agent)"

definition plugin_has_argv_activation :: "pydict \<Rightarrow> bool" where
  "plugin_has_argv_activation spec \<longleftrightarrow> truthy (get_default spec ''argv'' JNull)"

definition is_agent_kind :: "runner_config \<Rightarrow> string \<Rightarrow> bool" where
  "is_agent_kind cf name \<longleftrightarrow>
     plugin_token_for_agent_kind (cf_agent_kind cf) = str_lower name \<or> str_lower name \<in> set (inferred_agent_plugin_names cf)"

definition is_claude_agent :: "runner_config \<Rightarrow> bool" where
  "is_claude_agent cf \<longleftrightarrow> is_agent_kind cf ''claude''"

definition is_codex_agent :: "runner_config \<Rightarrow> bool" where
  "is_codex_agent cf \<longleftrightarrow> is_agent_kind cf ''codex''"

definition OFFICIAL_CLIENTS :: "string list" where
  "OFFICIAL_CLIENTS = [''claude'', ''codex'', ''hermes'']"

text \<open>The process names the control server expects, and whether the launch is the client itself.\<close>

definition recognized_client :: "runner_config \<Rightarrow> string option" where
  "recognized_client cf =
     (let direct = (case cf_agent_command cf of [] \<Rightarrow> [] | c # _ \<Rightarrow> agent_token c);
          kind = hd (split_on (CHR ''-'') (agent_token (cf_agent_kind cf)))
      in if direct \<in> set OFFICIAL_CLIENTS then Some direct
         else if kind \<in> set OFFICIAL_CLIENTS then Some kind else None)"

definition mcp_admission_config :: "runner_config \<Rightarrow> string list \<times> bool" where
  "mcp_admission_config cf =
     (case recognized_client cf of
        None \<Rightarrow> ([''__unsupported_ccc_mcp_client__''], False)
      | Some name \<Rightarrow> ([name], direct_agent_command_matches cf name \<and> cf_confinement cf = ''bwrap''))"

definition allow_server_wrapper_mcp :: "runner_config \<Rightarrow> bool" where
  "allow_server_wrapper_mcp cf \<longleftrightarrow>
     cf_server_mode cf \<and> (is_codex_agent cf \<or> is_claude_agent cf) \<and> cf_confinement cf = ''bwrap''"

section \<open>Real paths\<close>

text \<open>\<open>os.path.realpath\<close>: missing components are kept, and so is a link that leads back to itself; \<open>open_links\<close> are
  the links that are being resolved.\<close>

function real_walk :: "fs \<Rightarrow> nat \<Rightarrow> phys list \<Rightarrow> phys \<Rightarrow> string list \<Rightarrow> phys \<times> string list \<times> bool" where
  "real_walk fs n open_links cur [] = (cur, [], True)"
| "real_walk fs n open_links cur (c # cs) =
     (if c = '''' \<or> c = ''.'' then real_walk fs n open_links cur cs
      else if c = pardir then real_walk fs n open_links (butlast cur) cs
      else (case lookup fs (cur @ [c]) of
              None \<Rightarrow> real_walk fs n open_links (cur @ [c]) cs
            | Some i \<Rightarrow>
                (case link_target (in_content i) of
                   None \<Rightarrow> real_walk fs n open_links (cur @ [c]) cs
                 | Some t \<Rightarrow>
                     if n = 0 \<or> cur @ [c] \<in> set open_links then (cur @ [c], cs, False)
                     else (case real_walk fs (n - 1) ((cur @ [c]) # open_links) (if isabs t then [] else cur) (split_on sep t) of
                             (p, rest, True) \<Rightarrow> real_walk fs n open_links p cs
                           | (p, rest, False) \<Rightarrow> (p, rest @ cs, False)))))"
  by pat_completeness auto
termination
  by (relation "measures [\<lambda>(fs, n, ls, cur, cs). n, \<lambda>(fs, n, ls, cur, cs). length cs]") auto

text \<open>No link is open twice, so the nesting is at most the number of nodes.\<close>

definition realpath :: "fs \<Rightarrow> string \<Rightarrow> string" where
  "realpath fs p =
     (case real_walk fs (length (fs_nodes fs)) [] [] (split_on sep (if isabs p then p else path_join (fs_cwd fs) p)) of
        (q, rest, _) \<Rightarrow> normpath (''/'' @ join_with ''/'' (q @ rest)))"

section \<open>Plugins\<close>

definition string_list_at :: "pydict \<Rightarrow> string \<Rightarrow> string list result" where
  "string_list_at d k = (case dict_get d k of None \<Rightarrow> Inr [] | Some v \<Rightarrow> as_strs v)"

text \<open>A configured specification whose source is a directory of the host.\<close>

definition validated_plugin :: "fs \<Rightarrow> runner_config \<Rightarrow> string \<Rightarrow> pydict option result" where
  "validated_plugin fs cf agent =
     (case dict_get (cf_plugins cf) agent of
        Some (JObj spec) \<Rightarrow>
          (let src = get_default spec ''src'' JNull in
           if \<not> truthy src then Inr None
           else bindR (as_str src) (\<lambda>src. Inr (if isdir fs (realpath fs src) then Some spec else None)))
      | _ \<Rightarrow> Inr None)"

definition matched_agent_plugin :: "fs \<Rightarrow> runner_config \<Rightarrow> pydict option result" where
  "matched_agent_plugin fs cf =
     (let kind = plugin_token_for_agent_kind (cf_agent_kind cf);
          explicit = (if kind = [] \<or> kind = ''command'' then None else plugin_key_for_token cf kind)
      in if ''--bare'' \<in> set (cf_agent_command cf) then Inr None
         else (case explicit of
                 Some agent \<Rightarrow>
                   bindR (validated_plugin fs cf agent) (\<lambda>spec. Inr (case spec of
                       Some d \<Rightarrow> if \<not> plugin_has_argv_activation d \<or> direct_agent_command_matches cf agent then Some d else None
                     | None \<Rightarrow> None))
               | None \<Rightarrow>
                   (case find (\<lambda>agent. str_lower agent \<in> set (inferred_agent_plugin_names cf) \<and> direct_agent_command_matches cf agent)
                           (map fst (sorted_items (cf_plugins cf))) of
                      Some agent \<Rightarrow> validated_plugin fs cf agent
                    | None \<Rightarrow> Inr None)))"

definition agent_command_with_plugin :: "string list \<Rightarrow> pydict option \<Rightarrow> string list result" where
  "agent_command_with_plugin command spec =
     (case (spec, command) of
        (Some d, c # args) \<Rightarrow> bindR (string_list_at d ''argv'') (\<lambda>extra. Inr (c # extra @ args))
      | _ \<Rightarrow> Inr command)"

section \<open>The hardening library\<close>

text \<open>The walk from the file up to the root: no link on the way, nothing the agent owns or may write.  It goes on for
  ever when the path starts with two slashes, since \<open>dirname\<close> never reaches a single one: \<open>None\<close>.\<close>

definition writable_by_others :: "inode \<Rightarrow> bool" where
  "writable_by_others i \<longleftrightarrow> bit (in_perm i) 1 \<or> bit (in_perm i) 4"

partial_function (option) secure_walk :: "fs \<Rightarrow> int \<Rightarrow> string \<Rightarrow> bool option" where
  "secure_walk fs uid current =
     (case lstat fs current of
        Inl _ \<Rightarrow> Some False
      | Inr i \<Rightarrow>
          if link_target (in_content i) \<noteq> None \<or> in_uid i = uid \<or> writable_by_others i then Some False
          else if current = ''/'' then Some True
          else secure_walk fs uid (dirname current))"

definition secure_root_owned_path :: "fs \<Rightarrow> string \<Rightarrow> int \<Rightarrow> bool option" where
  "secure_root_owned_path fs path uid =
     (if \<not> isabs path then Some False
      else (case secure_walk fs uid (abspath (fs_cwd fs) path) of
              Some True \<Rightarrow> Some (case stat fs path of Inr i \<Rightarrow> regular_data (in_content i) \<noteq> None | Inl _ \<Rightarrow> False)
            | r \<Rightarrow> r))"

text \<open>The library and its manifest are protected, and the manifest names the digest of the library.\<close>

definition digest_matches :: "(string \<Rightarrow> string) \<Rightarrow> fs \<Rightarrow> string \<Rightarrow> string \<Rightarrow> bool" where
  "digest_matches sha fs path manifest =
     (case (read_file fs manifest, read_file fs path) of
        (Inr listed, Inr data) \<Rightarrow>
          (case split_ws (str_strip listed) of
             [] \<Rightarrow> False
           | expected # _ \<Rightarrow> length expected = 64 \<and> str_lower expected = sha data)
      | _ \<Rightarrow> False)"

definition secure_hardening_library :: "(string \<Rightarrow> string) \<Rightarrow> fs \<Rightarrow> string \<Rightarrow> int \<Rightarrow> bool option" where
  "secure_hardening_library sha fs path uid =
     (if \<not> isabs path then Some False
      else (case secure_root_owned_path fs path uid of
              Some True \<Rightarrow>
                (case secure_root_owned_path fs (path @ ''.sha256'') uid of
                   Some True \<Rightarrow> Some (digest_matches sha fs path (path @ ''.sha256''))
                 | r \<Rightarrow> r)
            | r \<Rightarrow> r))"

definition mcp_client_hardening :: "(string \<Rightarrow> string) \<Rightarrow> fs \<Rightarrow> int \<Rightarrow> runner_config \<Rightarrow> string option option" where
  "mcp_client_hardening sha fs uid cf =
     (case (cf_library cf, snd (mcp_admission_config cf)) of
        (Some path, True) \<Rightarrow>
          map_option (\<lambda>ok. if ok then Some path else None)
            (secure_hardening_library sha fs path (case cf_uid cf of Some u \<Rightarrow> u | None \<Rightarrow> uid))
      | _ \<Rightarrow> Some None)"

end
