(* ===== verification/LaunchFacts.thy ===== *)
theory LaunchFacts
  imports Launch
begin

text \<open>
  The type of a runner configuration: what every configuration the constructor returns satisfies,
  whatever arguments it was called with.
\<close>

section \<open>Well-formed configurations\<close>

text \<open>The launch workspace of a configuration: none, or one whose admission lies in a protected root.\<close>

definition workspace_admitted :: "runner_config \<Rightarrow> bool" where
  "workspace_admitted cf =
     (case cf_launch_admission cf of
        None \<Rightarrow> cf_workspace cf \<in> {None, Some []}
      | Some adm \<Rightarrow>
          get_default adm ''visible_path'' JNull = JStr (the (cf_workspace cf)) \<and>
          (\<exists>canon visible name root. get_default adm ''canonical_path'' JNull = JStr canon \<and>
             (visible, name, root) \<in> set (ap_roots (cf_operator_policy cf)) \<and> is_within canon visible = Inr True))"

definition settable_name :: "string \<Rightarrow> bool" where
  "settable_name n \<longleftrightarrow> n \<noteq> [] \<and> CHR ''='' \<notin> set n \<and> CHR 0x00 \<notin> set n"

definition config_wf :: "runner_config \<Rightarrow> bool" where
  "config_wf cf \<longleftrightarrow>
     cf_confinement cf \<in> set CONFINEMENT_MODES \<and> cf_proc_mode cf \<in> set BWRAP_PROC_MODES \<and>
     cf_lifecycle cf \<in> set LIFECYCLE_MODES \<and> (cf_lifecycle cf = ''adaptive'' \<longrightarrow> cf_confinement cf = ''bwrap'') \<and>
     0 < cf_bootstrap cf \<and> 0 < cf_stability cf \<and> 0 < cf_detach cf \<and>
     cf_launch_cwd cf \<noteq> [] \<and> is_ok (config_from_dict (cf_policy cf)) \<and>
     distinct (cf_vendors cf) \<and> set (cf_vendors cf) \<subseteq> {''codex'', ''claude'', ''hermes''} \<and>
     (\<forall>n\<in>set (cf_unsetenv cf). settable_name n) \<and> workspace_admitted cf"

section \<open>The steps of the constructor\<close>

lemma positive_seconds_pos: "positive_seconds name v = Inr x \<Longrightarrow> 0 < x"
  by (auto simp: positive_seconds_def split: sum.splits if_splits)

lemma read_vendors_known:
  assumes "read_vendors v = Inr vs"
  shows "distinct vs" "set vs \<subseteq> {''codex'', ''claude'', ''hermes''}"
proof -
  have "distinct vs \<and> set vs \<subseteq> {''codex'', ''claude'', ''hermes''}"
    if "foldR vendor_step [] xs = Inr vs" for xs
    by (rule foldR_invariant [OF that]) (auto simp: vendor_step_def Let_def split: if_splits)
  then show "distinct vs" "set vs \<subseteq> {''codex'', ''claude'', ''hermes''}"
    using assms by (auto simp: read_vendors_def bindR_eq_Inr split: json.splits if_splits)
qed

lemma unset_names: "foldR unset_step [] xs = Inr ns \<Longrightarrow> \<forall>n\<in>set ns. settable_name n"
  by (erule foldR_invariant) (auto simp: unset_step_def settable_name_def split: if_splits)

lemma as_str_Inr: "as_str v = Inr w \<longleftrightarrow> v = JStr w"
  by (cases v) auto

lemma admit_inside:
  assumes a: "admit pol fs path ex = Inr adm" and v: "visible_of adm = Inr w"
  shows "get_default adm ''visible_path'' JNull = JStr w \<and>
    (\<exists>canon visible name root. get_default adm ''canonical_path'' JNull = JStr canon \<and>
       (visible, name, root) \<in> set (ap_roots pol) \<and> is_within canon visible = Inr True)"
proof -
  obtain canon visible name root where
    "find_root (ap_roots pol) canon (ap_allow_root pol) = Inr (Some (visible, name, root))"
    and adm: "get_default adm ''canonical_path'' JNull = JStr canon"
      "get_item adm ''visible_path'' = Inr (get_default adm ''visible_path'' JNull)"
    using a by (auto simp: admit_def protected_root_of_def bindR_eq_Inr get_default_def get_item_def
        split: option.splits if_splits prod.splits)
  moreover have "get_default adm ''visible_path'' JNull = JStr w"
    using v adm(2) by (simp add: visible_of_def as_str_Inr)
  ultimately show ?thesis using find_root_Some by fastforce
qed

text \<open>What the steps of the constructor returned, read off the configuration.\<close>

lemma config_made:
  assumes "make_runner_config fs uid am ca = Inr cf"
  shows "cf_confinement cf \<in> set CONFINEMENT_MODES \<and> cf_proc_mode cf \<in> set BWRAP_PROC_MODES \<and>
    cf_lifecycle cf \<in> set LIFECYCLE_MODES \<and> (cf_lifecycle cf = ''adaptive'' \<longrightarrow> cf_confinement cf = ''bwrap'')"
    and "positive_seconds ''adaptive_bootstrap_seconds'' (ca_bootstrap ca) = Inr (cf_bootstrap cf) \<and>
      positive_seconds ''adaptive_stability_seconds'' (ca_stability ca) = Inr (cf_stability cf) \<and>
      positive_seconds ''adaptive_detach_seconds'' (ca_detach ca) = Inr (cf_detach cf)"
    and "read_vendors (ca_vendors ca) = Inr (cf_vendors cf) \<and>
      foldR unset_step [] (ca_unsetenv ca) = Inr (cf_unsetenv cf) \<and> (\<exists>x. config_from_dict (cf_policy cf) = Inr x)"
    and "(case (case ca_launch_cwd ca of Some c \<Rightarrow> Some c | None \<Rightarrow> cf_workspace cf) of
          None \<Rightarrow> Inl (ValueError ''launch_cwd is required when workspace is unset'')
        | Some c \<Rightarrow> if c = [] then Inl (ValueError ''launch_cwd is required when workspace is unset'') else Inr c) = Inr (cf_launch_cwd cf)"
    and "(case ca_workspace ca of None \<Rightarrow> Inr None
        | Some w \<Rightarrow> if w = [] then Inr None
           else bindR (admit (cf_operator_policy cf) fs (JStr w) (ca_require_existing ca)) (\<lambda>adm. Inr (Some adm))) = Inr (cf_launch_admission cf) \<and>
      (case cf_launch_admission cf of None \<Rightarrow> Inr (ca_workspace ca) | Some a \<Rightarrow> bindR (visible_of a) (\<lambda>v. Inr (Some v))) = Inr (cf_workspace cf)"
  using assms
  by (simp_all add: make_runner_config_def Let_def bindR_eq_Inr split: if_split_asm cong del: option.case_cong_weak if_weak_cong) (clarsimp cong del: option.case_cong_weak if_weak_cong)+

section \<open>Properties\<close>


definition sample_args :: config_args where
  "sample_args = \<lparr>ca_owner = ''user'', ca_agent_kind = ''codex'', ca_agent_command = [''codex''], ca_workspace = Some ''/storage/user/w'',
     ca_policy = [(''mode'', JStr ''workspace-auto'')],
     ca_roots = [\<lparr>rs_name = ''storage'', rs_base = ''/real/storage'', rs_store = ''/store'', rs_visible = ''/storage/user'',
       rs_home_subdir = None, rs_mount = None, rs_hide_paths = []\<rparr>],
     ca_launch_cwd = None, ca_completion = ''process-exit'', ca_confinement = ''bwrap'', ca_bwrap_bin = ''bwrap'', ca_proc_mode = ''fresh'',
     ca_ro_binds = [], ca_setenv = [], ca_unsetenv = [''SSH_AUTH_SOCK''], ca_per_turn = None, ca_run_access = True, ca_cred_mounts = [],
     ca_cred_mask = [], ca_cred_env = [], ca_uid = None, ca_gid = None, ca_plugins = [], ca_state_binds = None, ca_protect_state = False,
     ca_ensure_state = False, ca_server_mode = False, ca_lifecycle = ''adaptive'', ca_bootstrap = Inr 10, ca_stability = Inr 1,
     ca_detach = Inr 2, ca_library = None, ca_admission_roots = JNull, ca_allow_root = JBool False, ca_routing = JBool True,
     ca_vendors = JArr [JStr ''Codex'', JStr '' codex ''], ca_require_existing = True\<rparr>"


end
