(* ===== verification/Sandbox.thy ===== *)
theory Sandbox
  imports Launch
begin

text \<open>
  The sandbox command of \<open>runner.py\<close> (lines 575-642, 778-848, 1051-1264 and 1462-1802): which
  host paths are bound, what of them the review ignores, the bubblewrap arguments in their
  order, and the environment of the process.

  The record \<open>host\<close> holds what is asked of the machine besides its files: the user and its
  groups, the runtime sockets, how a number of seconds is printed, the environment of the
  supervisor itself, the binds found for Codex's own bubblewrap on the launch path, and the
  verified hardening library.
\<close>

record socket_stat =
  ss_is_socket :: bool
  ss_uid :: int
  ss_gid :: int
  ss_mode :: int
  ss_access :: bool

record host =
  ho_uid :: int
  ho_gid :: int
  ho_groups :: "int list"
  ho_sockets :: "(string, socket_stat) dict"
  ho_seconds :: "int \<Rightarrow> string"
  ho_environ :: "(string, string) dict"
  ho_module_dir :: string
  ho_codex_binds :: "(string \<times> string) list"
  ho_library :: "string option"

section \<open>Optional binds\<close>

definition bind_parts :: "string \<Rightarrow> string \<times> string" where
  "bind_parts entry =
     (if CHR '':'' \<in> set entry
      then (takeWhile (\<lambda>c. c \<noteq> CHR '':'') entry, drop 1 (dropWhile (\<lambda>c. c \<noteq> CHR '':'') entry))
      else (entry, entry))"

text \<open>A destination behind a link is bound at its real path, if that exists.\<close>

definition real_destination :: "fs \<Rightarrow> string \<Rightarrow> string option" where
  "real_destination fs dest =
     (if normpath (realpath fs dest) \<noteq> normpath dest
      then (if exists_path fs (realpath fs dest) then Some (realpath fs dest) else None)
      else Some dest)"

definition optional_ro_bind :: "fs \<Rightarrow> string \<Rightarrow> (string \<times> string) option" where
  "optional_ro_bind fs entry =
     (case bind_parts entry of
        (src, dest) \<Rightarrow>
          if \<not> exists_path fs (realpath fs src) then None
          else if CHR '':'' \<in> set entry then map_option (\<lambda>d. (realpath fs src, d)) (real_destination fs dest)
          else Some (realpath fs src, realpath fs src))"

definition optional_rw_agent_state_bind :: "fs \<Rightarrow> string \<Rightarrow> (string \<times> string) option" where
  "optional_rw_agent_state_bind fs entry =
     (case bind_parts entry of
        (src, dest) \<Rightarrow>
          if \<not> startswith src ''/'' \<or> \<not> startswith dest ''/'' then None
          else if \<not> (isdir fs (realpath fs src) \<or> isfile fs (realpath fs src)) then None
          else map_option (\<lambda>d. (realpath fs src, d)) (real_destination fs dest))"

section \<open>What the review ignores\<close>

text \<open>The path is strictly below the visible path of a root.\<close>

definition strictly_below :: "alias_map \<Rightarrow> string \<Rightarrow> string \<times> protected_root \<Rightarrow> bool result" where
  "strictly_below am canon = (\<lambda>(name, root).
     bindR (canonicalize am (pr_visible root)) (\<lambda>visible.
     bindR (is_within canon visible) (\<lambda>inside. Inr (inside \<and> canon \<noteq> visible))))"

definition canonical_protected_path :: "session \<Rightarrow> runner_config \<Rightarrow> string \<Rightarrow> string option result" where
  "canonical_protected_path s cf path =
     (if \<not> startswith path ''/'' then Inr None
      else (case canonicalize (cf_alias cf) path of
              Inl e \<Rightarrow> if is_value_error e then Inr None else Inl e
            | Inr canon \<Rightarrow> bindR (anyR (strictly_below (cf_alias cf) canon) (s_roots s)) (\<lambda>below.
                             Inr (if below then Some canon else None))))"

text \<open>The first agent-state bind that holds the path.\<close>

definition in_agent_state :: "runner_config \<Rightarrow> string \<Rightarrow> bool result" where
  "in_agent_state cf canon =
     anyR (\<lambda>entry. case canonicalize (cf_alias cf) (snd (bind_parts entry)) of
             Inl e \<Rightarrow> if is_value_error e then Inr False else Inl e
           | Inr dest \<Rightarrow> is_within canon dest) (cf_state_binds cf)"

text \<open>The ancestors of a path below the home directory, outermost first, and the path itself.\<close>

primrec paths_below :: "string \<Rightarrow> string list \<Rightarrow> string list" where
  "paths_below current [] = []"
| "paths_below current (part # parts) =
     (if part = '''' \<or> part = ''.'' then paths_below current parts
      else path_join current part # paths_below (path_join current part) parts)"

definition infra_ignore_paths_for :: "fs \<Rightarrow> session \<Rightarrow> runner_config \<Rightarrow> string \<Rightarrow> string list result" where
  "infra_ignore_paths_for fs s cf path =
     (if \<not> startswith path ''/'' then Inr []
      else (case bindR (canonicalize (cf_alias cf) path) (\<lambda>canon.
                 bindR (canonicalize (cf_alias cf) (''/home/'' @ cf_owner cf)) (\<lambda>home. Inr (canon, home))) of
              Inl e \<Rightarrow> if is_value_error e then Inr [] else Inl e
            | Inr (canon, home) \<Rightarrow>
                bindR (mapR (strictly_below (cf_alias cf) canon) (s_roots s)) (\<lambda>below.
                if True \<notin> set below then Inr []
                else
                  bindR (in_agent_state cf canon) (\<lambda>shared.
                  if shared then Inr (if cf_protect_state cf then [canon] else [])
                  else
                    bindR (is_within canon home) (\<lambda>inside.
                    if inside \<and> canon \<noteq> home
                    then bindR (relpath (fs_cwd fs) canon home) (\<lambda>rel. Inr (paths_below home (split_on sep rel)))
                    else Inr [canon])))))"

definition CODEX_RUNTIME_STATE_PATHS :: "string list" where
  "CODEX_RUNTIME_STATE_PATHS = [''.local/bin/codex'']"

definition CLAUDE_RUNTIME_STATE_PATHS :: "string list" where
  "CLAUDE_RUNTIME_STATE_PATHS = [''.claude'', ''.claude.json'', ''.local/bin/claude'', ''.local/share/claude'',
     ''.local/state/claude'', ''.cache/claude-cli-nodejs'']"

definition add_ignores :: "json list \<Rightarrow> string list \<Rightarrow> json list" where
  "add_ignores ignore paths = fold (\<lambda>p acc. if JStr p \<in> set acc then acc else acc @ [JStr p]) paths ignore"

definition runtime_state_ignores :: "session \<Rightarrow> runner_config \<Rightarrow> string list \<Rightarrow> json list \<Rightarrow> json list result" where
  "runtime_state_ignores s cf relpaths ignore =
     foldR (\<lambda>acc rel. bindR (canonical_protected_path s cf (path_join (''/home/'' @ cf_owner cf) rel)) (\<lambda>found.
              Inr (case found of Some c \<Rightarrow> add_ignores acc [c] | None \<Rightarrow> acc))) ignore relpaths"

definition agent_runtime_state_ignores :: "session \<Rightarrow> runner_config \<Rightarrow> json list \<Rightarrow> json list result" where
  "agent_runtime_state_ignores s cf ignore =
     (if cf_protect_state cf then Inr ignore
      else bindR (if is_codex_agent cf then runtime_state_ignores s cf CODEX_RUNTIME_STATE_PATHS ignore else Inr ignore) (\<lambda>ignore.
           if is_claude_agent cf then runtime_state_ignores s cf CLAUDE_RUNTIME_STATE_PATHS ignore else Inr ignore))"

text \<open>The targets the launcher creates itself: optional binds, masks, and what the plugin mounts.\<close>

definition infra_targets :: "fs \<Rightarrow> runner_config \<Rightarrow> string list result" where
  "infra_targets fs cf =
     bindR (matched_agent_plugin fs cf) (\<lambda>spec.
     bindR (case spec of
              None \<Rightarrow> Inr []
            | Some d \<Rightarrow> bindR (string_list_at d ''ensure_dirs'') (\<lambda>dirs.
                Inr ((case get_default d ''sandbox_path'' JNull of JStr p \<Rightarrow> [p] | _ \<Rightarrow> []) @ dirs))) (\<lambda>plugin.
     Inr (map snd (List.map_filter (optional_ro_bind fs) (cf_ro_binds cf @ cf_cred_mounts cf)) @
          filter (exists_path fs) (cf_cred_mask cf) @ plugin)))"

definition add_session_infra_ignores :: "fs \<Rightarrow> runner_config \<Rightarrow> session \<Rightarrow> session result" where
  "add_session_infra_ignores fs cf s =
     bindR (as_list (get_default (s_policy s) ''ignore_patterns'' (JArr []))) (\<lambda>ignore.
     bindR (agent_runtime_state_ignores s cf ignore) (\<lambda>ignore.
     bindR (infra_targets fs cf) (\<lambda>targets.
     bindR (foldR (\<lambda>acc t. bindR (infra_ignore_paths_for fs s cf t) (\<lambda>ps. Inr (add_ignores acc ps))) ignore targets) (\<lambda>ignore.
       Inr (set_policy ''ignore_patterns'' (JArr ignore) s)))))"

section \<open>Shared agent state\<close>

text \<open>A path that names one of the known single files of agent state.\<close>

definition agent_state_file_path :: "string \<Rightarrow> bool" where
  "agent_state_file_path path =
     (path \<noteq> [] \<and> (let p = normpath path in
        list_ex (\<lambda>rel. if basename rel = rel then basename p = rel else endswith p (''/'' @ rel)) AGENT_STATE_FILES))"

definition ensure_step :: "string \<Rightarrow> (fs, unit) eff" where
  "ensure_step entry =
     (case bind_parts entry of
        (src, dest) \<Rightarrow>
          bindE (getE (\<lambda>fs. (realpath fs src, exists_path fs (realpath fs src)))) (\<lambda>(target, here).
            whenE (startswith src ''/'' \<and> \<not> here \<and> \<not> agent_state_file_path src \<and> \<not> agent_state_file_path dest)
              (makedirs target)))"

definition ensure_shared_agent_state_dirs :: "runner_config \<Rightarrow> (fs, unit) eff" where
  "ensure_shared_agent_state_dirs cf = whenE (\<not> cf_protect_state cf \<and> cf_ensure_state cf) (forE ensure_step (cf_state_binds cf))"

text \<open>The shortest prefix of a path that ends with the marker at the end of a component.\<close>

definition marked_prefix :: "string \<Rightarrow> string \<Rightarrow> string option" where
  "marked_prefix marker p =
     map_option (\<lambda>n. take n p)
       (find (\<lambda>n. endswith (take n p) marker \<and> (n = length p \<or> p ! n = CHR ''/'')) [0..<Suc (length p)])"

definition agent_state_symlink_target_dir :: "fs \<Rightarrow> string \<Rightarrow> string option" where
  "agent_state_symlink_target_dir fs path =
     (if \<not> startswith path ''/'' then None
      else (case List.map_filter (\<lambda>rel. marked_prefix (''/'' @ rel) (normpath (realpath fs path))) (sort_longest length AGENT_STATE_DIRS) of
              [] \<Rightarrow> None
            | dir # _ \<Rightarrow> if isdir fs dir then Some dir else None))"

definition links_below :: "fs \<Rightarrow> string \<Rightarrow> string list" where
  "links_below fs root =
     (case listdir fs root of
        Inl _ \<Rightarrow> []
      | Inr names \<Rightarrow> filter (islink fs) (map (path_join root) names))"

definition symlink_target_step :: "fs \<Rightarrow> string list \<Rightarrow> string \<Rightarrow> string list" where
  "symlink_target_step fs acc entry =
     (let src = fst (bind_parts entry); root = realpath fs src in
      if \<not> startswith src ''/'' \<or> \<not> isdir fs root then acc
      else fold (\<lambda>path seen. case agent_state_symlink_target_dir fs path of
                   Some dir \<Rightarrow> if dir \<noteq> [] \<and> dir \<noteq> root \<and> dir \<notin> set seen then seen @ [dir] else seen
                 | None \<Rightarrow> seen) (links_below fs root) acc)"

definition shared_agent_state_symlink_target_binds :: "fs \<Rightarrow> runner_config \<Rightarrow> (string \<times> string) list" where
  "shared_agent_state_symlink_target_binds fs cf =
     (if cf_protect_state cf then []
      else map (\<lambda>dir. (dir, dir)) (foldl (symlink_target_step fs) [] (cf_state_binds cf)))"

definition shared_agent_state_binds :: "fs \<Rightarrow> runner_config \<Rightarrow> (string \<times> string) list" where
  "shared_agent_state_binds fs cf =
     (if cf_protect_state cf then []
      else List.map_filter (optional_rw_agent_state_bind fs) (cf_state_binds cf) @ shared_agent_state_symlink_target_binds fs cf)"

section \<open>The user and the group\<close>

definition RUNTIME_SOCKETS :: "string list" where "RUNTIME_SOCKETS = [''/var/run/docker.sock'', ''/run/docker.sock'']"

text \<open>The group of the first runtime socket that is reachable only through a supplementary group.\<close>

fun socket_gid :: "host \<Rightarrow> string list \<Rightarrow> int option" where
  "socket_gid ho [] = None"
| "socket_gid ho (path # rest) =
     (case dict_get (ho_sockets ho) path of
        None \<Rightarrow> socket_gid ho rest
      | Some st \<Rightarrow>
          if \<not> ss_is_socket st then socket_gid ho rest
          else if ss_gid st = ho_gid ho \<or> ss_uid st = ho_uid ho \<and> bit (ss_mode st) 7 then None
          else if ss_gid st \<notin> set (ho_groups ho) \<or> \<not> bit (ss_mode st) 4 then socket_gid ho rest
          else if ss_access st then Some (ss_gid st)
          else socket_gid ho rest)"

definition container_runtime_socket_gid :: "host \<Rightarrow> int option" where
  "container_runtime_socket_gid ho = socket_gid ho RUNTIME_SOCKETS"

definition bwrap_gid :: "host \<Rightarrow> runner_config \<Rightarrow> int" where
  "bwrap_gid ho cf =
     (case cf_gid cf of
        Some g \<Rightarrow> g
      | None \<Rightarrow> (case (if cf_run_access cf then container_runtime_socket_gid ho else None) of Some g \<Rightarrow> g | None \<Rightarrow> ho_gid ho))"

definition bwrap_uid :: "host \<Rightarrow> runner_config \<Rightarrow> int" where
  "bwrap_uid ho cf = (case cf_uid cf of Some u \<Rightarrow> u | None \<Rightarrow> ho_uid ho)"

section \<open>The arguments of bubblewrap\<close>

definition BWRAP_RO_DIRS :: "string list" where "BWRAP_RO_DIRS = [''/usr'', ''/etc'', ''/opt'']"
definition BWRAP_USRMERGE_DIRS :: "string list" where
  "BWRAP_USRMERGE_DIRS = [''/bin'', ''/sbin'', ''/lib'', ''/lib64'', ''/lib32'', ''/libx32'']"
definition SANDBOX_CONTROL_SOCK :: string where "SANDBOX_CONTROL_SOCK = ''/tmp/ccc-agent/control.sock''"
definition SANDBOX_LIFECYCLE_SOCK :: string where "SANDBOX_LIFECYCLE_SOCK = ''/tmp/ccc-agent/lifecycle.sock''"
definition SANDBOX_ADAPTIVE_RUNNER :: string where "SANDBOX_ADAPTIVE_RUNNER = ''/tmp/ccc-agent/adaptive_pid1.py''"
definition SANDBOX_CODEX_WORKSPACE :: string where "SANDBOX_CODEX_WORKSPACE = ''/tmp/ccc-agent/codex_workspace.py''"
definition SANDBOX_SESSION_ENV :: string where "SANDBOX_SESSION_ENV = ''/tmp/ccc-agent/session-env.json''"
definition SANDBOX_HARDENING_LIBRARY :: string where
  "SANDBOX_HARDENING_LIBRARY = ''/tmp/ccc-agent/libccc-client-hardening.so''"
definition SANDBOX_CODEX_BWRAP_MARKER :: string where
  "SANDBOX_CODEX_BWRAP_MARKER = ''/tmp/ccc-agent/codex-external-sandbox''"

text \<open>An option of bubblewrap with its arguments.\<close>

type_synonym option_args = "string list"

definition bind_options :: "string \<Rightarrow> (string \<times> string) list \<Rightarrow> option_args list" where
  "bind_options flag bs = map (\<lambda>(src, dest). [flag, src, dest]) bs"

definition namespace_options :: "host \<Rightarrow> runner_config \<Rightarrow> option_args list" where
  "namespace_options ho cf =
     [[''--unshare-user''], [''--unshare-pid''], [''--unshare-ipc''], [''--unshare-uts''], [''--as-pid-1''],
      [''--uid'', show_int (bwrap_uid ho cf)], [''--gid'', show_int (bwrap_gid ho cf)], [''--die-with-parent'']]"

text \<open>The operating system, read-only; on a merged \<open>/usr\<close> the old directories are links.\<close>

definition system_options :: "fs \<Rightarrow> option_args list" where
  "system_options fs =
     bind_options ''--ro-bind'' (map (\<lambda>d. (d, d)) (filter (isdir fs) BWRAP_RO_DIRS)) @
     concat (map (\<lambda>d. case readlink fs d of
                    Inr t \<Rightarrow> [[''--symlink'', t, d]]
                  | Inl _ \<Rightarrow> if isdir fs d then [[''--ro-bind'', d, d]] else []) BWRAP_USRMERGE_DIRS)"

definition proc_option :: "runner_config \<Rightarrow> option_args" where
  "proc_option cf =
     (if cf_proc_mode cf = ''fresh'' then [''--proc'', ''/proc'']
      else if cf_proc_mode cf = ''ro'' then [''--ro-bind'', ''/proc'', ''/proc'']
      else [''--bind'', ''/proc'', ''/proc''])"

definition dev_option :: "fs \<Rightarrow> runner_config \<Rightarrow> option_args" where
  "dev_option fs cf =
     (if cf_run_access cf \<and> isdir fs ''/dev'' then [''--dev-bind'', ''/dev'', ''/dev''] else [''--dev'', ''/dev''])"

definition shared_runtime_options :: "fs \<Rightarrow> runner_config \<Rightarrow> option_args list" where
  "shared_runtime_options fs cf =
     (if cf_run_access cf \<and> isdir fs ''/var'' then [[''--ro-bind'', ''/var'', ''/var'']] else []) @
     (if cf_run_access cf \<and> isdir fs ''/run'' then [[''--bind'', ''/run'', ''/run'']] else [])"

definition runtime_options :: "fs \<Rightarrow> runner_config \<Rightarrow> option_args list" where
  "runtime_options fs cf =
     [proc_option cf, dev_option fs cf, [''--tmpfs'', ''/tmp''], [''--dir'', ''/tmp/ccc-agent'']] @ shared_runtime_options fs cf"

definition route_ready :: "session \<Rightarrow> bool" where
  "route_ready s \<longleftrightarrow> truthy (get_default (s_policy s) ''route_interposer_available'' JNull)"

definition route_mounts_dir :: "session_store \<Rightarrow> session \<Rightarrow> string" where
  "route_mounts_dir st s = path_join (bundle_dir st (s_id s)) ''route-mounts''"

definition route_root :: "session \<Rightarrow> string result" where
  "route_root s = bindR (get_item (s_policy s) ''sandbox_route_root'') as_str"

definition real_bwrap_path :: "string \<Rightarrow> string" where
  "real_bwrap_path routes = path_join (dirname routes) ''ccc-agent-real-bwrap''"

definition route_view_options :: "session_store \<Rightarrow> session \<Rightarrow> option_args list result" where
  "route_view_options st s =
     (if \<not> route_ready s then Inr []
      else bindR (route_root s) (\<lambda>routes.
           bindR (as_strs (get_default (s_policy s) ''route_interposer_bwrap_paths'' (JArr []))) (\<lambda>paths.
             case paths of
               [] \<Rightarrow> Inl (KeyError ''list index out of range'')
             | first # _ \<Rightarrow> Inr [[''--dir'', routes], [''--bind'', route_mounts_dir st s, routes],
                              [''--ro-bind'', first, real_bwrap_path routes]])))"

text \<open>The branch views: the primary one at its visible path and at the home directory, then the others by name.\<close>

definition view_options :: "session \<Rightarrow> runner_config \<Rightarrow> protected_root \<Rightarrow> option_args list result" where
  "view_options s cf primary =
     bindR (canonicalize (cf_alias cf) (pr_visible primary)) (\<lambda>visible.
     bindR (mapR (\<lambda>(name, root). bindR (canonicalize (cf_alias cf) (pr_visible root)) (\<lambda>v. Inr [''--bind'', pr_mount root, v]))
                 (filter (\<lambda>(name, root). root \<noteq> primary) (sorted_items (s_roots s)))) (\<lambda>others.
     Inr ([[''--bind'', pr_mount primary, visible],
           [''--bind'', case pr_home_subdir primary of
                          Some sub \<Rightarrow> if sub = [] then pr_mount primary else path_join (pr_mount primary) sub
                        | None \<Rightarrow> pr_mount primary, ''/home/'' @ cf_owner cf]] @ others)))"

definition codex_options :: "host \<Rightarrow> option_args list" where
  "codex_options ho =
     (case ho_codex_binds ho of
        [] \<Rightarrow> []
      | (adapter, target) # _ \<Rightarrow>
          bind_options ''--ro-bind'' (ho_codex_binds ho @ [(adapter, SANDBOX_CODEX_BWRAP_MARKER)]))"

definition credential_options :: "fs \<Rightarrow> runner_config \<Rightarrow> option_args list" where
  "credential_options fs cf =
     bind_options ''--ro-bind'' (List.map_filter (optional_ro_bind fs) (cf_cred_mounts cf)) @
     bind_options ''--ro-bind'' (map (\<lambda>p. (''/dev/null'', p)) (filter (exists_path fs) (cf_cred_mask cf)))"

definition plugin_options :: "fs \<Rightarrow> pydict option \<Rightarrow> option_args list result" where
  "plugin_options fs spec =
     (case spec of
        None \<Rightarrow> Inr []
      | Some d \<Rightarrow>
          bindR (string_list_at d ''ensure_dirs'') (\<lambda>dirs.
          (let src = get_default d ''src'' JNull; target = get_default d ''sandbox_path'' JNull;
               made = map (\<lambda>dir. [''--dir'', dir]) dirs in
           if truthy src \<and> truthy target
           then bindR (as_str src) (\<lambda>src. bindR (as_str target) (\<lambda>target. Inr (made @ [[''--ro-bind'', realpath fs src, target]])))
           else Inr made)))"

definition interposer_options :: "host \<Rightarrow> session \<Rightarrow> option_args list result" where
  "interposer_options ho s =
     (if \<not> route_ready s then Inr []
      else bindR (route_root s) (\<lambda>routes.
           bindR (bindR (get_item (s_policy s) ''route_interposer_bwrap_paths'') as_strs) (\<lambda>paths.
             Inr (bind_options ''--ro-bind''
                    (map (\<lambda>p. (path_joins (ho_module_dir ho) [''assets'', ''scripts'', ''ccc-bwrap-route''], p)) paths) @
                  [[''--setenv'', ''CCC_AGENT_ROUTE_VENDOR'', ''codex''],
                   [''--setenv'', ''CCC_AGENT_REAL_BWRAP'', real_bwrap_path routes]]))))"

definition client_options :: "host \<Rightarrow> runner_config \<Rightarrow> option_args list" where
  "client_options ho cf =
     (if snd (mcp_admission_config cf)
      then [''--setenv'', ''CCC_AGENT_MCP_REGISTER_CLIENT'', ''1''] #
           (case cf_workspace cf of
              Some w \<Rightarrow> if w = [] then [] else [[''--setenv'', ''CCC_AGENT_CONFIRM_LAUNCH_WORKSPACE'', ''1'']]
            | None \<Rightarrow> [])
      else []) @
     (case ho_library ho of
        Some library \<Rightarrow> [[''--ro-bind'', library, SANDBOX_HARDENING_LIBRARY],
                       [''--setenv'', ''CCC_AGENT_CLIENT_PRELOAD'', SANDBOX_HARDENING_LIBRARY]]
      | None \<Rightarrow> [])"

text \<open>The control channel: the host's socket, the token and the token of the hooks.\<close>

type_synonym control_channel = "string \<times> string \<times> string"

definition channel_options :: "host \<Rightarrow> runner_config \<Rightarrow> control_channel option \<Rightarrow> string option \<Rightarrow> string option \<Rightarrow> option_args list" where
  "channel_options ho cf control guard session_env =
     (case control of Some (socket, _, _) \<Rightarrow> [[''--bind'', socket, SANDBOX_CONTROL_SOCK]] | None \<Rightarrow> []) @
     (case guard of
        Some socket \<Rightarrow>
          [[''--bind'', socket, SANDBOX_LIFECYCLE_SOCK],
           [''--ro-bind'', path_join (ho_module_dir ho) ''adaptive_pid1.py'', SANDBOX_ADAPTIVE_RUNNER],
           [''--ro-bind'', path_join (ho_module_dir ho) ''codex_workspace.py'', SANDBOX_CODEX_WORKSPACE]]
      | None \<Rightarrow> []) @
     (case session_env of Some path \<Rightarrow> [[''--ro-bind'', path, SANDBOX_SESSION_ENV]] | None \<Rightarrow> []) @
     (case control of Some _ \<Rightarrow> [[''--setenv'', ''CCC_AGENT_CONTROL_SOCK'', SANDBOX_CONTROL_SOCK]] | None \<Rightarrow> []) @
     (case guard of
        Some _ \<Rightarrow>
          [[''--setenv'', ''CCC_AGENT_LIFECYCLE_SOCKET'', SANDBOX_LIFECYCLE_SOCK],
           [''--setenv'', ''CCC_AGENT_BOOTSTRAP_SECONDS'', ho_seconds ho (cf_bootstrap cf)],
           [''--setenv'', ''CCC_AGENT_STABILITY_SECONDS'', ho_seconds ho (cf_stability cf)],
           [''--setenv'', ''CCC_AGENT_DETACH_SECONDS'', ho_seconds ho (cf_detach cf)]]
      | None \<Rightarrow> [])"

definition bwrap_options :: "host \<Rightarrow> fs \<Rightarrow> session_store \<Rightarrow> session \<Rightarrow> runner_config \<Rightarrow> control_channel option \<Rightarrow> string option \<Rightarrow>
    string option \<Rightarrow> pydict option \<Rightarrow> option_args list result" where
  "bwrap_options ho fs st s cf control guard session_env spec =
     bindR (primary_root s (cf_alias cf) (cf_launch_cwd cf)) (\<lambda>primary.
     bindR (normalize (cf_launch_cwd cf)) (\<lambda>workdir.
     bindR (route_view_options st s) (\<lambda>route.
     bindR (view_options s cf primary) (\<lambda>view.
     bindR (plugin_options fs spec) (\<lambda>plugin.
     bindR (interposer_options ho s) (\<lambda>interposer.
     Inr (namespace_options ho cf @ system_options fs @ runtime_options fs cf @ route @ view @
          bind_options ''--bind'' (shared_agent_state_binds fs cf) @
          bind_options ''--ro-bind'' (List.map_filter (optional_ro_bind fs) (cf_ro_binds cf)) @
          codex_options ho @ credential_options fs cf @ plugin @ interposer @ client_options ho cf @
          channel_options ho cf control guard session_env @ [[''--chdir'', workdir]])))))))"

text \<open>The whole command; \<open>runner_code\<close> is the text of the small process that runs the agent without the adaptive guard.\<close>

definition bwrap_command :: "host \<Rightarrow> string \<Rightarrow> fs \<Rightarrow> session_store \<Rightarrow> session \<Rightarrow> runner_config \<Rightarrow> control_channel option \<Rightarrow> string option \<Rightarrow>
    string option \<Rightarrow> string list result" where
  "bwrap_command ho runner_code fs st s cf control guard session_env =
     bindR (matched_agent_plugin fs cf) (\<lambda>spec.
     bindR (bwrap_options ho fs st s cf control guard session_env spec) (\<lambda>options.
     bindR (agent_command_with_plugin (cf_agent_command cf) (if cf_server_mode cf then None else spec)) (\<lambda>command.
     Inr (cf_bwrap_bin cf # concat options @ [''--''] @
          (if guard \<noteq> None then [''/usr/bin/python3'', SANDBOX_ADAPTIVE_RUNNER, ''--'']
           else [''/usr/bin/python3'', ''-c'', runner_code, ''ccc-agent-runner'']) @ command))))"

section \<open>The environment\<close>

definition TRANSIENT_INTERNAL_ENV :: "string list" where
  "TRANSIENT_INTERNAL_ENV =
     [''CCC_AGENT_SESSION'', ''CCC_AGENT_STATE_DIR'', ''CCC_AGENT_CONTROL_SOCK'', ''CCC_AGENT_CONTROL_TOKEN'',
      ''CCC_AGENT_HOOK_TOKEN'', ''CCC_AGENT_HOOK_SESSION'', ''CCC_AGENT_LIFECYCLE_SOCKET'', ''CCC_AGENT_BOOTSTRAP_SECONDS'',
      ''CCC_AGENT_STABILITY_SECONDS'', ''CCC_AGENT_DETACH_SECONDS'', ''CCC_AGENT_HARDEN_CLIENT'',
      ''CCC_AGENT_MCP_REGISTER_CLIENT'', ''CCC_AGENT_CONFIRM_LAUNCH_WORKSPACE'', ''CCC_AGENT_CLIENT_PRELOAD'',
      ''CCC_AGENT_ROUTE_VENDOR'', ''CCC_AGENT_REAL_BWRAP'']"

definition BWRAP_DEFAULT_PATH :: string where
  "BWRAP_DEFAULT_PATH = ''/usr/local/sbin:/usr/local/bin:/usr/sbin:/usr/bin:/sbin:/bin''"

type_synonym environ = "(string, string) dict"

definition without_names :: "string list \<Rightarrow> environ \<Rightarrow> environ" where
  "without_names names e = fold (\<lambda>n d. dict_pop d n) names e"

definition with_values :: "(string \<times> string) list \<Rightarrow> environ \<Rightarrow> environ" where
  "with_values vs e = fold (\<lambda>(n, v) d. dict_set d n v) vs e"

definition fresh_run_env :: "environ \<Rightarrow> session \<Rightarrow> string \<Rightarrow> environ" where
  "fresh_run_env e s state_dir =
     with_values [(''CCC_AGENT_SESSION'', s_id s), (''CCC_AGENT_STATE_DIR'', state_dir)] (without_names TRANSIENT_INTERNAL_ENV e)"

text \<open>A non-empty value.\<close>

definition env_value :: "environ \<Rightarrow> string \<Rightarrow> string option" where
  "env_value e n = (case dict_get e n of Some v \<Rightarrow> if v = [] then None else Some v | None \<Rightarrow> None)"

definition session_env_values :: "environ \<Rightarrow> session \<Rightarrow> pydict" where
  "session_env_values e s =
     [(''CCC_AGENT_SESSION'', JStr (s_id s))] @
     (if env_value e ''CCC_AGENT_CONTROL_SOCK'' \<noteq> None then [(''CCC_AGENT_CONTROL_SOCK'', JStr SANDBOX_CONTROL_SOCK)] else []) @
     List.map_filter (\<lambda>n. map_option (\<lambda>v. (n, JStr v)) (env_value e n))
       [''CCC_AGENT_CONTROL_TOKEN'', ''CCC_AGENT_HOOK_TOKEN'', ''CCC_AGENT_HOOK_SESSION'', ''CCC_AGENT_CLI'']"

definition control_dir :: "session_store \<Rightarrow> string \<Rightarrow> string" where
  "control_dir st sid = path_join (bundle_dir st sid) ''control''"

definition control_socket :: "session_store \<Rightarrow> string \<Rightarrow> string" where
  "control_socket st sid = path_join (control_dir st sid) ''control.sock''"

definition write_session_env_handoff :: "env \<Rightarrow> environ \<Rightarrow> session \<Rightarrow> session_store \<Rightarrow> (fs, string) eff" where
  "write_session_env_handoff en e s st =
     (let dir = control_dir st (s_id s); path = path_join dir ''session-env.json'' in
      seqE (makedirs dir)
     (seqE (write_file path (en_dumps en (JObj (session_env_values e s)) @ [CHR 0x0A])) (retE path)))"

text \<open>A credential: a literal, a variable of the environment, or a dotted key of a JSON file of the host.\<close>

fun json_path :: "string list \<Rightarrow> json \<Rightarrow> json option" where
  "json_path [] v = Some v"
| "json_path (part # parts) v =
     (if part = [] then json_path parts v
      else (case v of JObj d \<Rightarrow> (case dict_get d part of Some x \<Rightarrow> json_path parts x | None \<Rightarrow> None) | _ \<Rightarrow> None))"

definition extract_cred :: "(string \<Rightarrow> json result) \<Rightarrow> fs \<Rightarrow> environ \<Rightarrow> json \<Rightarrow> string option result" where
  "extract_cred loads fs e spec =
     (case spec of
        JStr v \<Rightarrow> Inr (Some v)
      | JObj d \<Rightarrow>
          if truthy (get_default d ''env'' JNull)
          then bindR (as_str (get_default d ''env'' JNull)) (\<lambda>name. Inr (dict_get e name))
          else if \<not> truthy (get_default d ''file'' JNull) then Inr None
          else bindR (as_str (get_default d ''file'' JNull)) (\<lambda>path.
            if \<not> isfile fs path then Inr None
            else (case bindR (read_file fs path) loads of
                    Inl err \<Rightarrow> if is_os_error err \<or> is_value_error err then Inr None else Inl err
                  | Inr data \<Rightarrow>
                      Inr (case json_path (split_on (CHR ''.'') (py_str (get_default d ''json_key'' (JStr [])))) data of
                             Some (JStr v) \<Rightarrow> Some v | _ \<Rightarrow> None)))
      | _ \<Rightarrow> Inr None)"

definition cred_values :: "(string \<Rightarrow> json result) \<Rightarrow> fs \<Rightarrow> environ \<Rightarrow> pydict \<Rightarrow> (string \<times> string) list result" where
  "cred_values loads fs e specs =
     bindR (mapR (\<lambda>(var, spec). bindR (extract_cred loads fs e spec) (\<lambda>v. Inr (case v of
                    Some x \<Rightarrow> if x = [] then [] else [(var, x)] | None \<Rightarrow> []))) (sorted_items specs)) (\<lambda>vs. Inr (concat vs))"

definition plugin_values :: "pydict option \<Rightarrow> (string \<times> string) list result" where
  "plugin_values spec =
     (case spec of
        None \<Rightarrow> Inr []
      | Some d \<Rightarrow> bindR (as_obj (get_default d ''setenv'' (JObj []))) (\<lambda>vs. Inr (map (\<lambda>(k, v). (k, py_str v)) (sorted_items vs))))"

definition sandbox_defaults :: "host \<Rightarrow> environ \<Rightarrow> runner_config \<Rightarrow> session \<Rightarrow> string \<Rightarrow> (string \<times> string) list" where
  "sandbox_defaults ho e cf s workdir =
     [(''CCC_AGENT_SESSION'', s_id s), (''HOME'', ''/home/'' @ cf_owner cf), (''USER'', cf_owner cf), (''LOGNAME'', cf_owner cf),
      (''PATH'', case env_value e ''CCC_AGENT_SHIM_UNDERLYING_PATH'' of Some p \<Rightarrow> p | None \<Rightarrow> BWRAP_DEFAULT_PATH),
      (''SHELL'', case env_value e ''SHELL'' of Some v \<Rightarrow> v
                 | None \<Rightarrow> (case env_value (ho_environ ho) ''SHELL'' of Some v \<Rightarrow> v | None \<Rightarrow> ''/bin/sh'')),
      (''TERM'', case dict_get e ''TERM'' of Some v \<Rightarrow> v
                | None \<Rightarrow> (case dict_get (ho_environ ho) ''TERM'' of Some v \<Rightarrow> v | None \<Rightarrow> ''xterm'')),
      (''PWD'', workdir)]"

definition bwrap_process_env :: "host \<Rightarrow> (string \<Rightarrow> json result) \<Rightarrow> fs \<Rightarrow> environ \<Rightarrow> runner_config \<Rightarrow> session \<Rightarrow> environ result" where
  "bwrap_process_env ho loads fs e cf s =
     bindR (normalize (cf_launch_cwd cf)) (\<lambda>workdir.
     bindR (cred_values loads fs e (cf_cred_env cf)) (\<lambda>creds.
     bindR (matched_agent_plugin fs cf) (\<lambda>spec.
     bindR (plugin_values spec) (\<lambda>plugin.
     (let sandbox = with_values (sandbox_defaults ho e cf s workdir @ creds @ plugin @ sorted_items (cf_setenv cf))
                      (without_names (''CCC_AGENT_STATE_DIR'' # cf_unsetenv cf) e)
      in Inr (if snd (mcp_admission_config cf) then without_names [''LD_PRELOAD'', ''CCC_AGENT_HARDEN_CLIENT''] sandbox
              else sandbox))))))"

end
