(* ===== verification/SandboxFacts.thy ===== *)
theory SandboxFacts
  imports Sandbox
begin

text \<open>
  What the launch guarantees: the paths the sandbox may write, the environment it inherits, the
  library the trusted client is started with, and the paths the review is told to ignore.
\<close>

section \<open>Writable binds\<close>

text \<open>The pairs a list of options binds writable.\<close>

definition write_flag :: "string \<Rightarrow> bool" where
  "write_flag flag \<longleftrightarrow> flag = ''--bind'' \<or> flag = ''--dev-bind''"

lemma write_flags [simp]:
  "write_flag ''--bind''" "write_flag ''--dev-bind''" "\<not> write_flag ''--ro-bind''" "\<not> write_flag ''--symlink''" "\<not> write_flag ''--proc''"
  "\<not> write_flag ''--dev''" "\<not> write_flag ''--tmpfs''" "\<not> write_flag ''--dir''" "\<not> write_flag ''--setenv''" "\<not> write_flag ''--chdir''"
  "\<not> write_flag ''--uid''" "\<not> write_flag ''--gid''" "\<not> write_flag ''--as-pid-1''" "\<not> write_flag ''--die-with-parent''"
  "\<not> write_flag ''--unshare-user''" "\<not> write_flag ''--unshare-pid''" "\<not> write_flag ''--unshare-ipc''" "\<not> write_flag ''--unshare-uts''"
  by (simp_all add: write_flag_def)

definition writes_of :: "option_args \<Rightarrow> (string \<times> string) set" where
  "writes_of opt = {(src, dest). \<exists>flag. write_flag flag \<and> opt = [flag, src, dest]}"

definition writes :: "option_args list \<Rightarrow> (string \<times> string) set" where
  "writes options = (\<Union>opt\<in>set options. writes_of opt)"

lemma writes_Nil [simp]: "writes [] = {}"
  by (simp add: writes_def)

lemma writes_append [simp]: "writes (xs @ ys) = writes xs \<union> writes ys"
  by (auto simp: writes_def)

lemma writes_Cons [simp]: "writes (opt # opts) = writes_of opt \<union> writes opts"
  by (simp add: writes_def)

lemma writes_one [simp]:
  "writes_of [flag, src, dest] = (if write_flag flag then {(src, dest)} else {})"
  "writes_of [flag] = {}" "writes_of [flag, x] = {}"
  by (auto simp: writes_of_def)

lemma writes_bind_options: "writes (bind_options flag bs) = (if write_flag flag then set bs else {})"
  by (auto simp: writes_def writes_of_def bind_options_def)

lemma writes_quiet: "(\<And>opt. opt \<in> set options \<Longrightarrow> \<not> write_flag (hd opt)) \<Longrightarrow> writes options = {}"
  by (fastforce simp: writes_def writes_of_def)

lemma writes_namespace: "writes (namespace_options ho cf) = {}"
  by (rule writes_quiet) (auto simp: namespace_options_def)

lemma writes_system: "writes (system_options fs) = {}"
proof (rule writes_quiet)
  fix opt assume "opt \<in> set (system_options fs)"
  then consider d where "opt = [''--ro-bind'', d, d]" | d where "opt \<in> set (case readlink fs d of
      Inr t \<Rightarrow> [[''--symlink'', t, d]] | Inl _ \<Rightarrow> if isdir fs d then [[''--ro-bind'', d, d]] else [])"
    unfolding system_options_def bind_options_def by auto
  then show "\<not> write_flag (hd opt)"
  proof cases
    case (2 d)
    then show ?thesis by (cases "readlink fs d") (auto split: if_splits)
  qed simp
qed

lemma writes_proc: "writes_of (proc_option cf) = (if cf_proc_mode cf \<noteq> ''fresh'' \<and> cf_proc_mode cf \<noteq> ''ro'' then {(''/proc'', ''/proc'')} else {})"
  unfolding proc_option_def by simp

lemma writes_dev: "writes_of (dev_option fs cf) \<subseteq> (if cf_run_access cf then {(''/dev'', ''/dev'')} else {})"
  unfolding dev_option_def by simp

lemma writes_shared: "writes (shared_runtime_options fs cf) \<subseteq> (if cf_run_access cf then {(''/run'', ''/run'')} else {})"
  unfolding shared_runtime_options_def by simp

lemma writes_runtime:
  "writes (runtime_options fs cf) \<subseteq>
     (if cf_proc_mode cf \<noteq> ''fresh'' \<and> cf_proc_mode cf \<noteq> ''ro'' then {(''/proc'', ''/proc'')} else {}) \<union>
     (if cf_run_access cf then {(''/dev'', ''/dev''), (''/run'', ''/run'')} else {})"
proof -
  have "writes (runtime_options fs cf) = writes_of (proc_option cf) \<union> writes_of (dev_option fs cf) \<union> writes (shared_runtime_options fs cf)"
    unfolding runtime_options_def by (simp add: Un_assoc)
  moreover have "writes_of (dev_option fs cf) \<subseteq> (if cf_run_access cf then {(''/dev'', ''/dev''), (''/run'', ''/run'')} else {})"
    by (rule subset_trans [OF writes_dev]) simp
  moreover have "writes (shared_runtime_options fs cf) \<subseteq> (if cf_run_access cf then {(''/dev'', ''/dev''), (''/run'', ''/run'')} else {})"
    by (rule subset_trans [OF writes_shared]) simp
  ultimately show ?thesis unfolding writes_proc by blast
qed

lemma writes_route:
  assumes "route_view_options st s = Inr options"
  shows "writes options \<subseteq> {(route_mounts_dir st s, p) |p. route_ready s}"
proof (cases "route_ready s")
  case True
  then obtain routes paths where r: "(case paths of
               [] \<Rightarrow> Inl (KeyError ''list index out of range'')
             | first # _ \<Rightarrow> Inr [[''--dir'', routes], [''--bind'', route_mounts_dir st s, routes],
                              [''--ro-bind'', first, real_bwrap_path routes]]) = Inr options"
    using assms by (auto simp: route_view_options_def bindR_eq_Inr)
  show ?thesis using r True by (cases paths) auto
qed (use assms in \<open>simp add: route_view_options_def\<close>)

lemma writes_plugin:
  assumes "plugin_options fs spec = Inr options"
  shows "writes options = {}"
proof (cases spec)
  case (Some d)
  then have "\<forall>opt\<in>set options. (\<exists>dir. opt = [''--dir'', dir]) \<or> (\<exists>a b. opt = [''--ro-bind'', a, b])"
    using assms by (auto simp: plugin_options_def bindR_eq_Inr Let_def split: if_splits)
  then show ?thesis by (intro writes_quiet) auto
qed (use assms in \<open>simp add: plugin_options_def\<close>)

lemma writes_interposer:
  assumes "interposer_options ho s = Inr options"
  shows "writes options = {}"
proof (rule writes_quiet)
  fix opt assume "opt \<in> set options"
  then have "(\<exists>a b. opt = [''--ro-bind'', a, b]) \<or> (\<exists>a b. opt = [''--setenv'', a, b])"
    using assms by (auto simp: interposer_options_def bindR_eq_Inr bind_options_def split: if_splits)
  then show "\<not> write_flag (hd opt)" by auto
qed

lemma writes_codex: "writes (codex_options ho) = {}"
  by (auto simp: codex_options_def writes_bind_options split: list.split prod.split)

lemma writes_credentials: "writes (credential_options fs cf) = {}"
  by (simp add: credential_options_def writes_bind_options)

lemma writes_client: "writes (client_options ho cf) = {}"
proof (rule writes_quiet)
  fix opt assume "opt \<in> set (client_options ho cf)"
  then have "(\<exists>a b. opt = [''--ro-bind'', a, b]) \<or> (\<exists>a b. opt = [''--setenv'', a, b])"
    by (auto simp: client_options_def split: option.splits if_splits)
  then show "\<not> write_flag (hd opt)" by auto
qed

lemma writes_channel:
  "writes (channel_options ho cf control guard session_env) \<subseteq>
     {(src, dest). (\<exists>t h. control = Some (src, t, h)) \<or> guard = Some src}"
  by (cases control; cases guard; cases session_env) (auto simp: channel_options_def)

lemma mapR_Inr_set: "mapR f xs = Inr ys \<Longrightarrow> y \<in> set ys \<Longrightarrow> \<exists>x\<in>set xs. f x = Inr y"
  by (induction xs arbitrary: ys) (auto simp: bindR_eq_Inr)

text \<open>The views are writable at the mounts of the branches.\<close>

definition branch_source :: "protected_root \<Rightarrow> string \<Rightarrow> bool" where
  "branch_source root src \<longleftrightarrow> src = pr_mount root \<or> (\<exists>sub. pr_home_subdir root = Some sub \<and> src = path_join (pr_mount root) sub)"

lemma writes_views:
  assumes "view_options s cf primary = Inr options" "primary \<in> snd ` set (s_roots s)" "(src, dest) \<in> writes options"
  shows "\<exists>root\<in>snd ` set (s_roots s). branch_source root src"
proof -
  obtain visible others where o: "mapR (\<lambda>(name, root). bindR (canonicalize (cf_alias cf) (pr_visible root))
          (\<lambda>v. Inr [''--bind'', pr_mount root, v])) (filter (\<lambda>(name, root). root \<noteq> primary) (sorted_items (s_roots s))) = Inr others"
    and v: "(src, dest) \<in> writes [[''--bind'', pr_mount primary, visible],
           [''--bind'', case pr_home_subdir primary of
                          Some sub \<Rightarrow> if sub = [] then pr_mount primary else path_join (pr_mount primary) sub
                        | None \<Rightarrow> pr_mount primary, ''/home/'' @ cf_owner cf]] \<union> writes others"
    using assms(1,3) by (auto simp: view_options_def bindR_eq_Inr)
  have "branch_source primary src" if "(src, dest) \<notin> writes others"
    using v that by (auto simp: branch_source_def split: option.splits if_splits)
  then consider "branch_source primary src" | "(src, dest) \<in> writes others" by blast
  then show ?thesis
  proof cases
    case 2
    then obtain opt where opt: "opt \<in> set others" "tl opt = [src, dest]"
      by (auto simp: writes_def writes_of_def)
    obtain name root where "(name, root) \<in> set (s_roots s)"
        "bindR (canonicalize (cf_alias cf) (pr_visible root)) (\<lambda>v. Inr [''--bind'', pr_mount root, v]) = Inr opt"
      using mapR_Inr_set [OF o opt(1)] by (auto simp: sorted_items_def)
    then show ?thesis using opt(2) by (force simp: bindR_eq_Inr branch_source_def)
  qed (use assms(2) in blast)
qed

lemma foldR_found:
  assumes "foldR (\<lambda>found x. case found of Some _ \<Rightarrow> Inr found | None \<Rightarrow> g x) acc xs = Inr (Some y)"
    and "\<And>x y. g x = Inr (Some y) \<Longrightarrow> x \<in> set xs \<Longrightarrow> P y" "acc = Some y \<Longrightarrow> P y"
  shows "P y"
  using assms
proof (induction xs arbitrary: acc)
  case (Cons x xs)
  then obtain acc' where "(case acc of Some _ \<Rightarrow> Inr acc | None \<Rightarrow> g x) = Inr acc'"
    "foldR (\<lambda>found x. case found of Some _ \<Rightarrow> Inr found | None \<Rightarrow> g x) acc' xs = Inr (Some y)"
    by (auto simp: bindR_eq_Inr)
  then show ?case using Cons.IH [of acc'] Cons.prems(2,3) by (cases acc) auto
qed simp

lemma primary_root_is_one:
  assumes "primary_root s am cwd = Inr root"
  shows "root \<in> snd ` set (s_roots s)"
proof -
  obtain canon visible where "root_holding am canon (s_roots s) = Inr (Some (root, visible))"
    using assms by (auto simp: primary_root_def bindR_eq_Inr split: option.splits)
  then have "fst (root, visible) \<in> snd ` set (s_roots s)"
    unfolding root_holding_def case_prod_beta
    by (rule foldR_found) (force simp: bindR_eq_Inr split: if_splits)+
  then show ?thesis by simp
qed

section \<open>The environment\<close>

lemma without_names_filter: "without_names names e = filter (\<lambda>(k, v). k \<notin> set names) e"
proof (induction names arbitrary: e)
  case (Cons n names)
  have "AList.delete n e = filter (\<lambda>(k, v). k \<noteq> n) e" by (auto simp: AList.delete_eq split_def intro: filter_cong)
  then show ?case using Cons [of "dict_pop e n"] by (simp add: without_names_def case_prod_beta conj_commute)
qed (simp add: without_names_def)

lemma filter_set_name: "n \<in> N \<Longrightarrow> filter (\<lambda>(k, v). k \<notin> N) (dict_set e n v) = filter (\<lambda>(k, v). k \<notin> N) e"
  by (induction e) auto

lemma without_added: "set (map fst vs) \<subseteq> set names \<Longrightarrow> without_names names (with_values vs e) = without_names names e"
proof (induction vs arbitrary: e)
  case (Cons p vs)
  obtain n v where p: "p = (n, v)" by fastforce
  have "without_names names (with_values vs (dict_set e n v)) = without_names names (dict_set e n v)"
    using Cons by simp
  then show ?case using Cons.prems p by (simp add: with_values_def without_names_filter filter_set_name)
qed (simp add: with_values_def)

lemma get_without_names: "dict_get (without_names names e) n = (if n \<in> set names then None else dict_get e n)"
  unfolding without_names_filter by (induction e) auto

section \<open>The hardening library\<close>

text \<open>Every directory from the file up: present, no link, not the agent's, not writable for others.\<close>

definition protected_node :: "fs \<Rightarrow> int \<Rightarrow> string \<Rightarrow> bool" where
  "protected_node fs uid p \<longleftrightarrow>
     (\<exists>i. lstat fs p = Inr i \<and> link_target (in_content i) = None \<and> in_uid i \<noteq> uid \<and> \<not> writable_by_others i)"

lemma dirname_root: "dirname ''/'' = ''/''"
  by (simp add: dirname_def path_head_def rstrip_def)

lemma secure_walk_step:
  assumes "secure_walk fs uid p = Some True"
  shows "protected_node fs uid p" "secure_walk fs uid (dirname p) = Some True"
  using assms secure_walk.simps [of fs uid p]
  by (auto simp: protected_node_def dirname_root split: sum.splits if_splits)

lemma secure_walk_ancestors: "secure_walk fs uid p = Some True \<Longrightarrow> protected_node fs uid ((dirname ^^ n) p)"
proof (induction n arbitrary: p)
  case (Suc n)
  then show ?case using secure_walk_step(2) [OF Suc.prems] by (simp add: funpow_swap1)
qed (simp add: secure_walk_step)

lemma secure_path_cases:
  "secure_root_owned_path fs path uid = Some True \<longleftrightarrow>
     isabs path \<and> secure_walk fs uid (abspath (fs_cwd fs) path) = Some True \<and> isfile fs path"
  by (auto simp: secure_root_owned_path_def isfile_def split: option.splits bool.splits sum.splits)

text \<open>The check does not return for a path that starts with two slashes: \<open>dirname\<close> stays at them.\<close>

lemma secure_walk_double_slash:
  assumes "protected_node fs uid ''//''"
  shows "secure_walk fs uid ''//'' = None"
proof -
  have d: "dirname ''//'' = ''//''" by (simp add: dirname_def path_head_def rstrip_def)
  have "p = ''//'' \<longrightarrow> \<not> protected_node fs uid ''//''" if "secure_walk fs uid p = Some y" for p y
  proof (rule secure_walk.raw_induct [OF _ that, where P = "\<lambda>fs uid p y. p = ''//'' \<longrightarrow> \<not> protected_node fs uid ''//''"])
    fix sw and fs :: fs and uid p y
    assume "\<And>fs uid p y. sw fs uid p = Some y \<Longrightarrow> p = ''//'' \<longrightarrow> \<not> protected_node fs uid ''//''"
      and "(case lstat fs p of Inl _ \<Rightarrow> Some False
            | Inr i \<Rightarrow> if link_target (in_content i) \<noteq> None \<or> in_uid i = uid \<or> writable_by_others i then Some False
                     else if p = ''/'' then Some True else sw fs uid (dirname p)) = Some y"
    then show "p = ''//'' \<longrightarrow> \<not> protected_node fs uid ''//''"
      by (auto simp: protected_node_def d split: sum.splits if_splits)
  qed
  then show ?thesis using assms by (cases "secure_walk fs uid ''//''") auto
qed

section \<open>A sample launch\<close>

definition launch_config :: runner_config where
  "launch_config =
     \<lparr>cf_alias = [], cf_owner = ''u'', cf_agent_kind = ''codex'', cf_agent_command = [''codex''], cf_roots = [],
      cf_operator_policy = \<lparr>ap_alias = [], ap_allow_root = True, ap_roots = [], ap_ceilings = []\<rparr>,
      cf_admission_policy = \<lparr>ap_alias = [], ap_allow_root = False, ap_roots = [], ap_ceilings = []\<rparr>,
      cf_launch_admission = None, cf_workspace = Some ''/w/p'', cf_launch_cwd = ''/w/p'', cf_policy = [], cf_completion = ''process-exit'',
      cf_confinement = ''bwrap'', cf_bwrap_bin = ''bwrap'', cf_proc_mode = ''fresh'', cf_ro_binds = [], cf_setenv = [(''LD_PRELOAD'', ''x'')],
      cf_unsetenv = [], cf_run_access = False, cf_per_turn = True, cf_cred_mounts = [], cf_cred_mask = [], cf_cred_env = [],
      cf_uid = None, cf_gid = None, cf_plugins = [], cf_state_binds = [], cf_protect_state = True, cf_ensure_state = False,
      cf_server_mode = False, cf_library = Some ''/l'', cf_lifecycle = ''foreground'', cf_bootstrap = 1, cf_stability = 1, cf_detach = 1,
      cf_routing = False, cf_vendors = []\<rparr>"

definition sample_host :: host where
  "sample_host = \<lparr>ho_uid = 1000, ho_gid = 1000, ho_groups = [], ho_sockets = [], ho_seconds = show_int, ho_environ = [],
     ho_module_dir = ''/m'', ho_codex_binds = [], ho_library = None\<rparr>"

definition sample_view :: protected_root where
  "sample_view = \<lparr>pr_name = ''w'', pr_base = ''/w'', pr_store = ''/st'', pr_branch = ''s1'', pr_mount = ''/mnt'',
     pr_visible = ''/w'', pr_home_subdir = None, pr_hide_paths = []\<rparr>"

definition launch_session :: session where
  "launch_session = sample_session\<lparr>s_roots := [(''w'', sample_view)], s_policy := []\<rparr>"

definition library_fs :: fs where
  "library_fs = \<lparr>fs_nodes =
      [([], \<lparr>in_content = Directory, in_dev = 1, in_ino = 1, in_perm = 493, in_uid = 0, in_gid = 0, in_mtime = 0\<rparr>),
       ([''l''], \<lparr>in_content = Regular ''code'', in_dev = 1, in_ino = 2, in_perm = 292, in_uid = 0, in_gid = 0, in_mtime = 0\<rparr>),
       ([''l.sha256''], \<lparr>in_content = Regular (replicate 64 (CHR ''a'')), in_dev = 1, in_ino = 3, in_perm = 292, in_uid = 0, in_gid = 0,
           in_mtime = 0\<rparr>)],
     fs_cwd = ''/'', fs_next_ino = 4, fs_clock = 1, fs_fault = \<lambda>_ _. None\<rparr>"

section \<open>Properties\<close>


text \<open>C9. Authority is never inherited: a session started from an environment that carries internal variables of
  another session, whatever their values, gets exactly the environment it would get without them.\<close>

theorem stale_authority_replaced:
  assumes "set (map fst stale) \<subseteq> set TRANSIENT_INTERNAL_ENV"
  shows "fresh_run_env (with_values stale e) s state_dir = fresh_run_env e s state_dir"
  using assms by (simp add: fresh_run_env_def without_added)

lemma stale_authority_replaced_witness:
  "fresh_run_env (with_values [(''CCC_AGENT_CONTROL_TOKEN'', ''t'')] [(''HOME'', ''/h'')]) launch_session ''/state'' =
   fresh_run_env [(''HOME'', ''/h'')] launch_session ''/state''"
  by (rule stale_authority_replaced) (simp add: TRANSIENT_INTERNAL_ENV_def)


lemma library_lstat:
  "lstat library_fs ''/l'' = Inr \<lparr>in_content = Regular ''code'', in_dev = 1, in_ino = 2, in_perm = 292, in_uid = 0, in_gid = 0, in_mtime = 0\<rparr>"
  "lstat library_fs ''/l.sha256'' = Inr \<lparr>in_content = Regular (replicate 64 (CHR ''a'')), in_dev = 1, in_ino = 3, in_perm = 292, in_uid = 0,
     in_gid = 0, in_mtime = 0\<rparr>"
  "lstat library_fs ''/'' = Inr \<lparr>in_content = Directory, in_dev = 1, in_ino = 1, in_perm = 493, in_uid = 0, in_gid = 0, in_mtime = 0\<rparr>"
  by code_simp+

lemma library_secure:
  "mcp_client_hardening (\<lambda>_. replicate 64 (CHR ''a'')) library_fs 1000 launch_config = Some (Some ''/l'')"
proof -
  have w: "secure_walk library_fs 1000 ''/'' = Some True" "secure_walk library_fs 1000 ''/l'' = Some True"
      "secure_walk library_fs 1000 ''/l.sha256'' = Some True"
    using library_lstat by (simp_all add: secure_walk.simps writable_by_others_def dirname_def path_head_def rstrip_def)
  have p: "abspath (fs_cwd library_fs) ''/l'' = ''/l''" "abspath (fs_cwd library_fs) ''/l.sha256'' = ''/l.sha256''"
      "isabs ''/l''" "isabs ''/l.sha256''" "isfile library_fs ''/l''" "isfile library_fs ''/l.sha256''"
      "digest_matches (\<lambda>_. replicate 64 (CHR ''a'')) library_fs ''/l'' ''/l.sha256''"
      "snd (mcp_admission_config launch_config)" "cf_library launch_config = Some ''/l''" "cf_uid launch_config = None"
    by code_simp+
  have "secure_root_owned_path library_fs ''/l'' 1000 = Some True" "secure_root_owned_path library_fs ''/l.sha256'' 1000 = Some True"
    using w p by (simp_all add: secure_path_cases)
  then show ?thesis using p by (simp add: mcp_client_hardening_def secure_hardening_library_def)
qed



end
