(* ===== verification/RunSession.thy ===== *)
theory RunSession
  imports Sandbox Finalize TurnSessions
begin

text \<open>
  Running and resuming a session (\<open>runner.py\<close>, lines 1402-1458 and 2234-2946): the nested run, the
  creation of the session and its branches, the preparation of the delta routes, the launch of
  the agent with the control channel, the finalisation at its exit, and what is torn down on
  every way out.

  A \<open>launcher\<close> holds what the runner uses besides the backend and the configuration.  The run of
  the agent is one step of it: \<open>la_agent\<close> gets the command and the environment, does to the world
  what the agent and the turns served meanwhile do, and returns the exit status or raises when
  the process cannot be started.  Likewise \<open>la_serve\<close> starts the control server, \<open>la_adaptive\<close> is the
  forked supervisor, and the two callbacks are those of the caller.  File modes are not kept.
  \<open>ResumeError\<close> is a \<open>RuntimeError\<close> here.
\<close>

record 'b launcher =
  la_backend :: "'b backend"
  la_cleanup_stale :: "(protected_root \<Rightarrow> ('b disk, unit) eff) option"
  la_mountinfo :: string
  la_config :: runner_config
  la_host :: host
  la_runner_code :: string
  la_vendor_bwrap :: "string list"
  la_nested_supported :: "string \<Rightarrow> bool"
  la_shm_writable :: bool
  la_tokens :: "string \<times> string"
  la_is_tty :: bool
  la_serve :: "string \<Rightarrow> ('b world, unit) eff"
  la_agent :: "string list \<Rightarrow> environ \<Rightarrow> ('b world, int) eff"
  la_on_start :: "('b world, unit) eff"
  la_before_finalize :: "('b world, unit) eff"
  la_adaptive :: "environ \<Rightarrow> ('b world, unit) eff"

section \<open>Routes\<close>

definition route_wrapper :: "host \<Rightarrow> string" where
  "route_wrapper ho = path_joins (ho_module_dir ho) [''assets'', ''scripts'', ''ccc-bwrap-route'']"

definition runtime_root :: "session \<Rightarrow> string" where
  "runtime_root s = path_join ''/dev/shm'' (''ccc-agent-'' @ s_id s)"

definition routing_basic :: "'b launcher \<Rightarrow> fs \<Rightarrow> bool" where
  "routing_basic L fs \<longleftrightarrow>
     (let cf = la_config L in
      cf_routing cf \<and> cf_per_turn cf \<and> cf_confinement cf = ''bwrap'' \<and> cf_proc_mode cf = ''fresh'' \<and> la_vendor_bwrap L \<noteq> [] \<and>
      isfile fs (route_wrapper (la_host L)) \<and> isdir fs ''/dev/shm'' \<and> la_shm_writable L)"

definition routing_detail :: "runner_config \<Rightarrow> bool \<Rightarrow> string" where
  "routing_detail cf available =
     (if available then ''codex bwrap route adapter ready''
      else if cf_proc_mode cf \<noteq> ''fresh''
      then ''delta routing unavailable with bound parent proc; trusted outer-sandbox adapter active and writes remain shared/unattributed''
      else ''delta routing unavailable; writes remain shared/unattributed'')"

definition prepare_delta_routing :: "'b launcher \<Rightarrow> env \<Rightarrow> ('b world, bool) eff" where
  "prepare_delta_routing L en =
     (let cf = la_config L in
      bindE the_session (\<lambda>s.
      bindE (getE (\<lambda>w. routing_basic L (w_fs w) \<and> la_nested_supported L (hd (la_vendor_bwrap L)))) (\<lambda>available.
      let routes = path_join (runtime_root s) ''routes'' in
      seqE (mod_session (\<lambda>s.
              set_policy ''route_interposer_bwrap_paths'' (jstrs (if available then la_vendor_bwrap L else []))
             (set_policy ''route_interposer_available'' (JBool available)
             (set_policy ''route_interposer_external_fallback'' (JBool (cf_routing cf \<and> cf_confinement cf = ''bwrap'' \<and> \<not> available))
             (set_policy ''route_interposer_nested_bwrap_supported'' (JBool available)
             (set_policy ''sandbox_route_root'' (JStr routes) s))))))
     (seqE (whenE (cf_routing cf) (log_event en ''session-delta-routing'' (Some (JStr (routing_detail cf available)))))
     (seqE (whenE available
              (bindE (getE (\<lambda>w. route_mounts_dir (w_store w) s)) (\<lambda>mounts.
                 seqE (on_files (makedirs routes)) (on_files (makedirs mounts)))))
     (seqE save_session (retE available)))))))"

text \<open>Refusals of the system are ignored.\<close>

definition ignoring_os_errors :: "('s, unit) eff \<Rightarrow> ('s, unit) eff" where
  "ignoring_os_errors m = catchE m (\<lambda>e. if is_os_error e then retE () else raiseE e)"

definition cleanup_delta_routing_runtime :: "('b world, unit) eff" where
  "cleanup_delta_routing_runtime =
     bindE the_session (\<lambda>s.
       let configured = get_default (s_policy s) ''sandbox_route_root'' JNull;
           root = dirname (if truthy configured then py_str configured else []) in
       if normpath root \<noteq> normpath (runtime_root s) then retE ()
       else ignoring_os_errors (bindE (getE (\<lambda>w. (islink (w_fs w) root, isdir (w_fs w) root))) (\<lambda>(link, dir).
              if link then on_files (os_unlink root) else whenE dir (on_files (rmtree root)))))"

definition remove_session_env_handoff :: "string option \<Rightarrow> ('b world, unit) eff" where
  "remove_session_env_handoff path =
     (case path of None \<Rightarrow> retE () | Some p \<Rightarrow> ignoring_os_errors (on_files (os_unlink p)))"

section \<open>The agent\<close>

text \<open>The control channel: a fresh token for the client and one for the hooks; what an earlier process of the session left
  behind is settled before the server is started.\<close>

definition open_control_channel :: "'b launcher \<Rightarrow> env \<Rightarrow> alias_map \<Rightarrow> environ \<Rightarrow> ('b world, control_channel option \<times> environ) eff" where
  "open_control_channel L en am e =
     (let cf = la_config L in
      if \<not> cf_per_turn cf then retE (None, e)
      else
        bindE (getE (\<lambda>w. (control_socket (w_store w) (s_id (w_session w)), s_id (w_session w)))) (\<lambda>(socket, sid).
        bindE (readE (\<lambda>w. make_admission_policy (s_roots (w_session w)) am
                 (jstrs (ap_ceilings (cf_admission_policy cf))) (JBool (ap_allow_root (cf_admission_policy cf))))) (\<lambda>policy.
        bindE (recover (la_backend L) en) (\<lambda>_.
        bindE (reset_agent_workspaces \<lparr>tn_backend = la_backend L, tn_aliases = am, tn_admission = policy\<rparr> en) (\<lambda>_.
        seqE (la_serve L socket)
       (seqE (log_event en ''control-server'' (Some (JStr socket)))
             (retE (Some (socket, la_tokens L),
                    with_values [(''CCC_AGENT_CONTROL_SOCK'', socket), (''CCC_AGENT_CONTROL_TOKEN'', fst (la_tokens L)),
                      (''CCC_AGENT_HOOK_TOKEN'', snd (la_tokens L)), (''CCC_AGENT_HOOK_SESSION'', sid)] e))))))))"

definition prepare_agent :: "'b launcher \<Rightarrow> env \<Rightarrow> environ \<Rightarrow> ('b world, control_channel option \<times> environ \<times> string option) eff" where
  "prepare_agent L en e =
     (let cf = la_config L; am = cf_alias cf in
      bindE (readE (\<lambda>w. agent_cwd (w_fs w) (w_session w) am (cf_launch_cwd cf))) (\<lambda>cwd.
      seqE (on_files (makedirs cwd))
     (bindE (getE (\<lambda>w. fresh_run_env e (w_session w) (st_dir (w_store w)))) (\<lambda>run_env.
      bindE (prepare_delta_routing L en) (\<lambda>_.
      bindE (open_control_channel L en am run_env) (\<lambda>(control, run_env).
      if cf_confinement cf = ''bwrap''
      then bindE (getE (\<lambda>w. (w_session w, w_store w))) (\<lambda>(s, st).
           bindE (on_files (write_session_env_handoff en run_env s st)) (\<lambda>path. retE (control, run_env, Some path)))
      else retE (control, run_env, None)))))))"

definition start_agent :: "'b launcher \<Rightarrow> env \<Rightarrow> bool \<Rightarrow> control_channel option \<Rightarrow> environ \<Rightarrow> string option \<Rightarrow> ('b world, unit) eff" where
  "start_agent L en enter_running control run_env path =
     (let cf = la_config L in
      seqE (whenE enter_running (move_session en ''running''))
     (seqE save_session
     (seqE (la_on_start L)
     (bindE (if cf_confinement cf = ''bwrap''
             then bindE (readE (\<lambda>w. bwrap_process_env (la_host L) (en_loads en) (w_fs w) run_env cf (w_session w))) (\<lambda>sandbox_env.
                  bindE (readE (\<lambda>w. bwrap_command (la_host L) (la_runner_code L) (w_fs w) (w_store w) (w_session w) cf control None path)) (\<lambda>argv.
                  seqE (log_event en ''bwrap-launch'' (Some (JStr (hd argv))))
                 (seqE (log_event en ''container-run-access'' (Some (JStr (if cf_run_access cf then ''enabled'' else ''disabled''))))
                       (la_agent L argv sandbox_env))))
             else la_agent L (cf_agent_command cf) run_env) (\<lambda>status.
      seqE (mod_session (\<lambda>s. s\<lparr>s_exit_status := Some status\<rparr>))
     (seqE (log_event en ''agent-exit'' (Some (JStr (show_int status))))
           (whenE (cf_per_turn cf)
              (bindE (recover (la_backend L) en) (\<lambda>outcomes.
                 whenE (outcomes \<noteq> [])
                   (seqE (log_event en ''session-delta-route-recovery''
                            (Some (JStr (en_dumps en (JObj (map (\<lambda>(k, v). (k, JStr v)) outcomes))))))
                         save_session))))))))))"

text \<open>What is torn down on every way out.\<close>

definition teardown :: "'b launcher \<Rightarrow> string option \<Rightarrow> ('b world, unit) eff" where
  "teardown L path =
     seqE (remove_session_env_handoff path)
    (seqE (unmount_all (la_backend L)) cleanup_delta_routing_runtime)"

definition failed_launch :: "'b launcher \<Rightarrow> env \<Rightarrow> string option \<Rightarrow> pyexn \<Rightarrow> ('b world, unit) eff" where
  "failed_launch L en path e = seqE (fail_session en (''agent launch failed: '' @ exn_str e)) (teardown L path)"

text \<open>\<open>try: m finally: n\<close>.\<close>

definition finallyE :: "('s, unit) eff \<Rightarrow> ('s, unit) eff \<Rightarrow> ('s, unit) eff" where
  "finallyE m n = bindE (tryE m) (\<lambda>r. seqE n (liftE r))"

definition finish_session :: "'b launcher \<Rightarrow> env \<Rightarrow> string option \<Rightarrow> ('b world, unit) eff" where
  "finish_session L en path =
     finallyE
       (catchE (seqE (move_session en ''finalizing'')
               (seqE save_session
               (seqE (la_before_finalize L)
                     (bindE (finalize_session (la_backend L) en (cf_alias (la_config L))) (\<lambda>_. retE ())))))
          (\<lambda>e. fail_session en (''finalize failed: '' @ exn_str e)))
       (teardown L path)"

definition run_agent_and_finalize :: "'b launcher \<Rightarrow> env \<Rightarrow> environ \<Rightarrow> bool \<Rightarrow> ('b world, unit) eff" where
  "run_agent_and_finalize L en e enter_running =
     bindE (tryE (prepare_agent L en e)) (\<lambda>prepared. case prepared of
       Inl err \<Rightarrow> failed_launch L en None err
     | Inr (control, run_env, path) \<Rightarrow>
         bindE (tryE (start_agent L en enter_running control run_env path)) (\<lambda>started. case started of
           Inl err \<Rightarrow> failed_launch L en path err
         | Inr _ \<Rightarrow> finish_session L en path))"

section \<open>A new session\<close>

definition command_detail :: "string list \<Rightarrow> string" where
  "command_detail command = join_with '' '' command"

definition forget_missing :: "session result \<Rightarrow> session option result" where
  "forget_missing r = (case r of Inr s \<Rightarrow> Inr (Some s) | Inl e \<Rightarrow> (case e of KeyError _ \<Rightarrow> Inr None | _ \<Rightarrow> Inl e))"

text \<open>The stored session an enclosing launch names in the environment.\<close>

definition enclosing_session :: "env \<Rightarrow> environ \<Rightarrow> 'b world \<Rightarrow> session option result" where
  "enclosing_session en e w =
     (case env_value e ''CCC_AGENT_SESSION'' of
        None \<Rightarrow> Inr None
      | Some sid \<Rightarrow> forget_missing (store_load (en_now en) (w_store w) sid))"

definition nested_run :: "'b launcher \<Rightarrow> env \<Rightarrow> environ \<Rightarrow> session \<Rightarrow> ('b world, unit) eff" where
  "nested_run L en e s =
     seqE (modE (\<lambda>w. w\<lparr>w_session := s\<rparr>))
    (seqE (log_event en ''nested-run'' (Some (JStr (command_detail (cf_agent_command (la_config L))))))
    (seqE save_session
    (bindE (la_agent L (cf_agent_command (la_config L)) e) (\<lambda>_. retE ()))))"

definition check_launch_admission :: "runner_config \<Rightarrow> fs \<Rightarrow> unit result" where
  "check_launch_admission cf fs =
     (case cf_launch_admission cf of
        None \<Rightarrow> Inr ()
      | Some adm \<Rightarrow>
          if get_default adm ''identity'' JNull = JNull then Inr ()
          else bindR (revalidate (cf_operator_policy cf) fs (JObj adm)) (\<lambda>_. Inr ()))"

definition session_roots :: "runner_config \<Rightarrow> session_store \<Rightarrow> string \<Rightarrow> (string, protected_root) dict" where
  "session_roots cf st sid =
     foldl (\<lambda>d spec. dict_set d (rs_name spec) (materialize spec sid (st_dir st) (Some (path_join (bundle_dir st sid) ''mounts'')))) []
       (cf_roots cf)"

definition create_session :: "runner_config \<Rightarrow> env \<Rightarrow> ('b world, unit) eff" where
  "create_session cf en =
     seqE (modE (\<lambda>w. case store_create (en_now en) (en_fresh en) (cf_owner cf) (cf_agent_kind cf) (cf_agent_command cf)
                   (cf_workspace cf) (cf_policy cf) [] (cf_completion cf) (w_store w) of
             (s, st) \<Rightarrow> w\<lparr>w_session := s, w_store := st\<rparr>))
    (seqE (modE (\<lambda>w. w\<lparr>w_session := (w_session w)\<lparr>s_roots := session_roots cf (w_store w) (s_id (w_session w))\<rparr>\<rparr>))
    (seqE (bindE (readE (\<lambda>w. add_session_infra_ignores (w_fs w) cf (w_session w))) (\<lambda>s. modE (\<lambda>w. w\<lparr>w_session := s\<rparr>)))
          save_session))"

definition mount_view :: "'b backend \<Rightarrow> string \<times> protected_root \<Rightarrow> ('b world, unit) eff" where
  "mount_view B = (\<lambda>(name, root).
     seqE (on_disk (be_start_daemon B root))
    (seqE (on_disk (be_create_branch B root ''main'')) (on_disk (be_mount B root))))"

definition mount_session :: "'b launcher \<Rightarrow> env \<Rightarrow> ('b world, unit) eff" where
  "mount_session L en =
     seqE (move_session en ''mounting'')
    (seqE save_session
    (seqE (on_files (ensure_shared_agent_state_dirs (la_config L)))
    (seqE (bindE the_session (\<lambda>s. forE (mount_view (la_backend L)) (s_roots s)))
          (log_event en ''mounted-bundle'' None))))"

definition run_new_session :: "'b launcher \<Rightarrow> env \<Rightarrow> environ \<Rightarrow> ('b world, unit) eff" where
  "run_new_session L en e =
     (let cf = la_config L in
      seqE (readE (\<lambda>w. check_launch_admission cf (w_fs w)))
     (seqE (create_session cf en)
     (bindE (tryE (mount_session L en)) (\<lambda>mounted. case mounted of
        Inl err \<Rightarrow> seqE (fail_session en (''mount failed: '' @ exn_str err)) (unmount_all (la_backend L))
      | Inr _ \<Rightarrow>
          if cf_lifecycle cf = ''adaptive'' \<and> \<not> la_is_tty L then la_adaptive L e
          else seqE (whenE (cf_lifecycle cf = ''adaptive'') (seqE (log_event en ''adaptive-tty-foreground'' None) save_session))
                    (run_agent_and_finalize L en e True)))))"

definition run_session :: "'b launcher \<Rightarrow> env \<Rightarrow> environ \<Rightarrow> ('b world, unit) eff" where
  "run_session L en e =
     bindE (readE (enclosing_session en e)) (\<lambda>outer. case outer of
       Some s \<Rightarrow> nested_run L en e s
     | None \<Rightarrow> run_new_session L en e)"

section \<open>Resuming a session\<close>

definition resume_error :: "string \<Rightarrow> pyexn" where "resume_error msg = RuntimeError msg"

definition resumable :: "bool \<Rightarrow> session \<Rightarrow> bool" where
  "resumable allow_failed s \<longleftrightarrow>
     s_state s \<in> {''running'', ''pending-review'', ''aborted''} \<or> allow_failed \<and> s_state s = ''failed''"

definition cleanup_stale_mount :: "'b launcher \<Rightarrow> protected_root \<Rightarrow> ('b disk, unit) eff" where
  "cleanup_stale_mount L root = (case la_cleanup_stale L of None \<Rightarrow> retE () | Some clean \<Rightarrow> clean root)"

definition active_mounts :: "'b launcher \<Rightarrow> fs \<Rightarrow> session \<Rightarrow> string list" where
  "active_mounts L fs s =
     map pr_mount (filter (\<lambda>root. mountinfo_entry fs (pr_mount root) (la_mountinfo L) \<noteq> None) (map snd (s_roots s)))"

definition reopen_root :: "'b backend \<Rightarrow> string \<Rightarrow> string \<times> protected_root \<Rightarrow> ('b world, unit) eff" where
  "reopen_root B was = (\<lambda>(name, root).
     seqE (on_disk (be_start_daemon B root))
    (seqE (if was = ''aborted'' then on_disk (be_create_branch B root ''main'')
           else whenE (was = ''failed'' \<or> was = ''pending-review'') (on_disk (be_thaw B root)))
          (on_disk (be_mount B root))))"

definition remount_session :: "'b launcher \<Rightarrow> env \<Rightarrow> string \<Rightarrow> bool \<Rightarrow> ('b world, unit) eff" where
  "remount_session L en was force =
     seqE (on_files (ensure_shared_agent_state_dirs (la_config L)))
    (bindE the_session (\<lambda>s.
     seqE (forE (\<lambda>(name, root). on_disk (cleanup_stale_mount L root)) (s_roots s))
    (bindE (getE (\<lambda>w. active_mounts L (w_fs w) s)) (\<lambda>active.
     if active \<noteq> [] \<and> \<not> force
     then raiseE (resume_error (''refusing to resume session '' @ s_id s @ '' because its mount(s) still appear active: '' @
            join_with '', '' active))
     else
       seqE (forE (reopen_root (la_backend L) was) (s_roots s))
      (seqE (whenE (was \<in> {''failed'', ''pending-review'', ''aborted''}) (move_session en ''running''))
      (seqE (log_event en ''resumed-bundle'' None) save_session))))))"

definition note_resume :: "env \<Rightarrow> runner_config \<Rightarrow> string \<Rightarrow> ('b world, unit) eff" where
  "note_resume en cf was =
     seqE (log_event en ''resume-command'' (Some (JStr (command_detail (cf_agent_command cf)))))
    (seqE (whenE (was \<in> {''failed'', ''pending-review'', ''aborted''}) (log_event en (''resume-from-'' @ was) None))
    (seqE (bindE the_session (\<lambda>s. whenE (cf_agent_kind cf \<noteq> s_agent_kind s) (log_event en ''resume-agent'' (Some (JStr (cf_agent_kind cf))))))
          save_session))"

definition load_resumable :: "env \<Rightarrow> string \<Rightarrow> bool \<Rightarrow> 'b world \<Rightarrow> session result" where
  "load_resumable en sid allow_failed w =
     (case store_load (en_now en) (w_store w) sid of
        Inl e \<Rightarrow> Inl (case e of KeyError _ \<Rightarrow> resume_error (''no such session: '' @ sid) | _ \<Rightarrow> e)
      | Inr s \<Rightarrow> if resumable allow_failed s then Inr s
               else Inl (resume_error (''cannot resume session '' @ s_id s @ '' in state '' @ s_state s)))"

definition resume_session :: "'b launcher \<Rightarrow> env \<Rightarrow> environ \<Rightarrow> string \<Rightarrow> bool \<Rightarrow> bool \<Rightarrow> ('b world, unit) eff" where
  "resume_session L en e sid force allow_failed =
     (if env_value e ''CCC_AGENT_SESSION'' \<noteq> None
      then raiseE (resume_error ''cannot resume a session from inside another ccc-agent session'')
      else
        bindE (readE (load_resumable en sid allow_failed)) (\<lambda>s.
        seqE (modE (\<lambda>w. w\<lparr>w_session := s\<rparr>))
       (seqE (note_resume en (la_config L) (s_state s))
       (bindE (tryE (remount_session L en (s_state s) force)) (\<lambda>remounted. case remounted of
          Inl err \<Rightarrow>
            seqE (log_event en ''error'' (Some (JStr (''resume mount failed: '' @ exn_str err))))
           (seqE save_session
           (seqE (unmount_all (la_backend L)) (raiseE (resume_error (''resume mount failed: '' @ exn_str err)))))
        | Inr _ \<Rightarrow> run_agent_and_finalize L en e False)))))"

end
