(* ===== verification/RunFacts.thy ===== *)
theory RunFacts
  imports RunSession FinalizeFacts SandboxFacts
begin

text \<open>
  What a run guarantees: whatever the agent does, a run that returns leaves a stored session in a
  state the operator can work with; the agent is started only in a complete view; a launch
  directory that was replaced since its admission stops the launch; and what a refused resume
  does to the mounts of the session.
\<close>

section \<open>The end of a run\<close>

definition at_rest :: "'b world \<Rightarrow> bool" where
  "at_rest w \<longleftrightarrow> s_state (w_session w) \<in> {''auto-committed'', ''aborted'', ''pending-review'', ''failed''} \<and> saved w"

lemma settled_disk [simp]: "at_rest (set_disk d w) = at_rest w"
  by (simp add: at_rest_def saved_def)

lemma keeps_settled [keeps_intros]: "keeps at_rest (on_disk m)" "keeps at_rest (on_files fm)"
  by (intro keeps_on_disk keeps_on_files; simp)+

lemma keeps_ignoring [keeps_intros]: "keeps I m \<Longrightarrow> keeps I (ignoring_os_errors m)"
  unfolding ignoring_os_errors_def by (intro keeps_intros) auto

lemma keeps_teardown: "keeps at_rest (teardown L path)"
  unfolding teardown_def remove_session_env_handoff_def unmount_all_def cleanup_delta_routing_runtime_def Let_def
  by (intro keeps_intros)

lemma teardown_settled: "at_rest w \<Longrightarrow> wp (teardown L path) (\<lambda>_. at_rest) (\<lambda>_ _. True) w"
  by (rule wp_keeps [OF keeps_teardown]) auto

lemma fail_session_settled: "wp (fail_session en detail) (\<lambda>_. at_rest) (\<lambda>_ _. True) w"
  by (rule wp_mono [OF fail_session_ends]) (auto simp: at_rest_def)

lemma finalize_settled: "wp (finalize_session B en am) (\<lambda>_. at_rest) (\<lambda>_ _. True) w"
  by (rule wp_mono [OF finalize_ends]) (auto simp: at_rest_def outcome_def split: if_splits)

lemma failed_launch_settled: "wp (failed_launch L en path e) (\<lambda>_. at_rest) (\<lambda>_ _. True) w"
  unfolding failed_launch_def by (rule wp_thenI [OF fail_session_settled teardown_settled])

lemma finish_settled: "wp (finish_session L en path) (\<lambda>_. at_rest) (\<lambda>_ _. True) w"
proof -
  have body: "wp (catchE (seqE (move_session en ''finalizing'')
               (seqE save_session
               (seqE (la_before_finalize L)
                     (bindE (finalize_session (la_backend L) en (cf_alias (la_config L))) (\<lambda>_. retE ())))))
          (\<lambda>e. fail_session en (''finalize failed: '' @ exn_str e))) (\<lambda>_. at_rest) (\<lambda>_ _. True) w"
    unfolding wp_catch
    by (rule wp_mono [where Q = "\<lambda>_. at_rest" and E = "\<lambda>_ _. True"])
      (rule wp_after wp_bindI [OF finalize_settled] | simp add: wp_ret fail_session_settled)+
  show ?thesis
    unfolding finish_session_def finallyE_def wp_bind wp_try
    by (rule wp_mono [OF body]) (auto simp: wp_seq wp_lift intro: wp_mono [OF teardown_settled] wp_total)
qed

lemma run_agent_settled: "wp (run_agent_and_finalize L en e enter) (\<lambda>_. at_rest) (\<lambda>_ _. True) w"
proof -
  have started: "wp (bindE (tryE (start_agent L en enter control run_env path)) (\<lambda>started. case started of
           Inl err \<Rightarrow> failed_launch L en path err | Inr _ \<Rightarrow> finish_session L en path)) (\<lambda>_. at_rest) (\<lambda>_ _. True) u"
    for control run_env path and u :: "'a world"
    by (rule wp_after(1)) (auto simp: failed_launch_settled finish_settled split: sum.split)
  show ?thesis
    unfolding run_agent_and_finalize_def
    by (rule wp_after(1)) (auto simp: failed_launch_settled started split: sum.split)
qed

lemma failed_mount_settled: "wp (seqE (fail_session en detail) (unmount_all B)) (\<lambda>_. at_rest) (\<lambda>_ _. True) w"
proof (rule wp_thenI [OF fail_session_settled])
  fix t :: "'a world" assume "at_rest t"
  moreover have "keeps at_rest (unmount_all B :: ('a world, unit) eff)" unfolding unmount_all_def by (intro keeps_intros)
  ultimately show "wp (unmount_all B) (\<lambda>_. at_rest) (\<lambda>_ _. True) t" by (auto intro: wp_keeps)
qed

lemma run_new_settled:
  assumes "cf_lifecycle (la_config L) \<noteq> ''adaptive''"
  shows "wp (run_new_session L en e) (\<lambda>_. at_rest) (\<lambda>_ _. True) w"
  unfolding run_new_session_def Let_def
  by (rule wp_after)+
    (auto simp: assms failed_mount_settled [unfolded wp_seq] wp_seq wp_when run_agent_settled split: sum.split)

section \<open>The view is complete\<close>

text \<open>Operations that go on whatever the agent would do.\<close>

lemma wp_never: "wp m (\<lambda>_ _. False) (\<lambda>_ _. True) w \<Longrightarrow> \<exists>e v. m w = (Inl e, v)"
  by (auto simp: wp_def split: prod.splits sum.splits)

lemma for_raises:
  fixes f :: "'c \<Rightarrow> ('s, 'd) eff"
  assumes "x \<in> set xs" "\<And>w. wp (f x) (\<lambda>_ _. False) (\<lambda>_ _. True) w"
  shows "wp (forE f xs) (\<lambda>_ _. False) (\<lambda>_ _. True) w"
proof -
  obtain before after where xs: "xs = before @ x # after" using assms(1) by (meson split_list)
  have "wp (forE f (x # after)) (\<lambda>_ _. False) (\<lambda>_ _. True) u" for u
    unfolding forE.simps wp_seq by (rule wp_mono [OF assms(2)]) auto
  then show ?thesis unfolding xs
    by (induction before arbitrary: w) (simp_all add: wp_seq wp_total)
qed

lemma mount_view_raises:
  assumes "\<And>d. \<exists>e d'. be_mount B root d = (Inl e, d')"
  shows "wp (mount_view B (name, root)) (\<lambda>_ _. False) (\<lambda>_ _. True) w"
proof -
  have "wp (on_disk (be_mount B root)) (\<lambda>_ _. False) (\<lambda>_ _. True) u" for u :: "'a world"
    unfolding wp_on_disk using assms [of "disk_of u"] by (auto simp: wp_def)
  then show ?thesis unfolding mount_view_def by (auto intro!: wp_after)
qed

definition has_roots :: "(string, protected_root) dict \<Rightarrow> 'b world \<Rightarrow> bool" where
  "has_roots R w \<longleftrightarrow> s_roots (w_session w) = R"

lemma keeps_roots [keeps_intros]:
  "keeps (has_roots R) (on_disk m)" "keeps (has_roots R) (on_files fm)" "keeps (has_roots R) save_session"
  unfolding save_session_def
  by (intro keeps_on_disk keeps_on_files keeps_mod; simp add: has_roots_def)+

lemma keeps_roots_move [keeps_intros]: "keeps (has_roots R) (move_session en st)"
  by (auto simp: keeps_wp wp_move_session has_roots_def transition_def Let_def add_event_def bindR_eq_Inr split: sum.split if_splits)

lemma wp_kept_then: "keeps I m \<Longrightarrow> I w \<Longrightarrow> (\<And>t. I t \<Longrightarrow> wp n Q (\<lambda>_ _. True) t) \<Longrightarrow> wp (seqE m n) Q (\<lambda>_ _. True) w"
  unfolding wp_seq by (erule wp_keeps) auto

lemma mount_session_raises:
  assumes "has_roots R w" "(name, root) \<in> set R" "\<And>d. \<exists>e d'. be_mount (la_backend L) root d = (Inl e, d')"
  shows "wp (mount_session L en) (\<lambda>_ _. False) (\<lambda>_ _. True) w"
proof -
  have last: "wp (seqE (bindE the_session (\<lambda>s. forE (mount_view (la_backend L)) (s_roots s))) (log_event en ''mounted-bundle'' None))
      (\<lambda>_ _. False) (\<lambda>_ _. True) u" if "has_roots R u" for u :: "'a world"
  proof -
    have "wp (forE (mount_view (la_backend L)) R) (\<lambda>_ _. False) (\<lambda>_ _. True) u"
      by (rule for_raises [where f = "mount_view (la_backend L)", OF assms(2)]) (rule mount_view_raises [OF assms(3)])
    then show ?thesis using that
      by (auto simp: wp_seq wp_bind the_session_def wp_get has_roots_def elim: wp_mono)
  qed
  show ?thesis
    unfolding mount_session_def
    by (rule last | rule wp_kept_then [where I = "has_roots R"] | rule keeps_intros | fact assms(1) | assumption)+
qed

lemma infra_ignores_roots: "add_session_infra_ignores fs cf s = Inr t \<Longrightarrow> s_roots t = s_roots s"
  by (auto simp: add_session_infra_ignores_def bindR_eq_Inr set_policy_def)

lemma create_session_roots:
  "wp (create_session cf en) (\<lambda>_. has_roots (session_roots cf (w_store w) (en_fresh en))) (\<lambda>_ _. True) w"
  by (auto simp: create_session_def wp_simps store_create_def new_session_def add_event_def save_session_def has_roots_def
      session_roots_def store_save_def bundle_dir_def Let_def split: sum.split dest!: infra_ignores_roots)

lemma bindE_cong_wp:
  assumes "wp m (\<lambda>x t. f x t = g x t) (\<lambda>_ _. True) w"
  shows "bindE m f w = bindE m g w"
  using assms by (auto simp: wp_def bindE_def split: prod.splits sum.splits)

section \<open>A refused resume\<close>

text \<open>Without the stale-mount hook and without directories to create, the refusal of a resume whose mounts are active
  runs into the handler for failed mounts, which unmounts them.\<close>

lemma remount_refused:
  assumes "cf_ensure_state (la_config L) = False" "la_cleanup_stale L = None" "active_mounts L (w_fs w) (w_session w) \<noteq> []"
  shows "\<exists>msg. remount_session L en was False w = (Inl (resume_error msg), w)"
proof -
  have idle: "(\<lambda>(name, root). on_disk (cleanup_stale_mount L root)) = (\<lambda>_. retE () :: ('a world, unit) eff)"
    by (auto simp: fun_eq_iff cleanup_stale_mount_def assms(2) on_disk_def zoomE_def retE_def)
  have none: "forE (\<lambda>_. retE ()) xs w = (Inr (), w)" for xs
    by (induction xs) (simp_all add: retE_def seqE_def bindE_def)
  have dirs: "on_files (ensure_shared_agent_state_dirs (la_config L)) w = (Inr (), w)"
    by (simp add: ensure_shared_agent_state_dirs_def whenE_def assms(1) on_files_def on_disk_def zoomE_def on_fs_def retE_def
        set_disk_def disk_of_def)
  show ?thesis
    using assms(3) unfolding remount_session_def idle
    by (auto simp: seqE_def bindE_def the_session_def getE_def raiseE_def dirs none)
qed

section \<open>Properties\<close>


text \<open>C6. The agent runs in a complete view only: when the branch of a protected root cannot be mounted, the run is the same
  whatever the agent, the control server and the forked supervisor would do, so none of them is started.\<close>

theorem agent_needs_complete_view:
  assumes "(name, root) \<in> set (session_roots (la_config L) (w_store w) (en_fresh en))"
    and "\<And>d. \<exists>err d'. be_mount (la_backend L) root d = (Inl err, d')"
  shows "run_new_session L en e w = run_new_session (L\<lparr>la_agent := agent, la_serve := serve, la_adaptive := adaptive\<rparr>) en e w"
proof -
  let ?L = "L\<lparr>la_agent := agent, la_serve := serve, la_adaptive := adaptive\<rparr>"
  let ?R = "session_roots (la_config L) (w_store w) (en_fresh en)"
  have sel: "la_config ?L = la_config L" "la_backend ?L = la_backend L" by simp_all
  have same: "mount_session ?L en = mount_session L en" by (simp add: mount_session_def)
  have rest: "bindE (tryE (mount_session L en)) f t = bindE (tryE (mount_session L en)) g t"
    if "has_roots ?R t" "\<And>err. f (Inl err) = g (Inl err)" for f g :: "unit result \<Rightarrow> ('a world, unit) eff" and t
    by (rule bindE_cong_wp) (auto simp: wp_try that(2) intro: wp_mono [OF mount_session_raises [OF that(1) assms]])
  have body: "seqE m (seqE (create_session (la_config L) en) (bindE (tryE (mount_session L en)) f)) w =
      seqE m (seqE (create_session (la_config L) en) (bindE (tryE (mount_session L en)) g)) w"
    if "\<And>err. f (Inl err) = g (Inl err)" "m = readE (\<lambda>w. check_launch_admission (la_config L) (w_fs w))"
    for m and f g :: "unit result \<Rightarrow> ('a world, unit) eff"
  proof -
    have "bindE (create_session (la_config L) en) (\<lambda>_. bindE (tryE (mount_session L en)) f) w =
        bindE (create_session (la_config L) en) (\<lambda>_. bindE (tryE (mount_session L en)) g) w"
      by (rule bindE_cong_wp, rule wp_mono [OF create_session_roots]) (use that(1) in \<open>auto intro!: rest\<close>)
    then show ?thesis unfolding seqE_def that(2) by (intro bindE_cong_wp) (simp add: wp_read split: sum.split)
  qed
  show ?thesis
    unfolding run_new_session_def Let_def same sel by (rule body) simp_all
qed

text \<open>C7. A launch uses the directory it admitted: with an admission that recorded the directory's identity, a run that
  starts from no enclosing session and whose directory no longer passes the operator's check raises that error, and
  no session is created and nothing is mounted.\<close>

theorem launch_admission_current:
  assumes "env_value e ''CCC_AGENT_SESSION'' = None" "cf_launch_admission (la_config L) = Some adm"
    and "get_default adm ''identity'' JNull \<noteq> JNull" "revalidate (cf_operator_policy (la_config L)) (w_fs w) (JObj adm) = Inl err"
  shows "run_session L en e w = (Inl err, w)"
  using assms
  by (simp add: run_session_def enclosing_session_def run_new_session_def check_launch_admission_def bindE_def seqE_def readE_def bindR_def
      Let_def)

section \<open>Concrete runs\<close>

definition run_env :: env where
  "run_env = \<lparr>en_now = ''t'', en_fresh = ''s1'', en_sha = id, en_dumps = (\<lambda>_. []), en_loads = (\<lambda>_. Inl (ValueError []))\<rparr>"

definition launched_config :: runner_config where
  "launched_config = launch_config\<lparr>cf_roots := [\<lparr>rs_name = ''w'', rs_base = ''/w'', rs_store = ''/st'', rs_visible = ''/w'',
      rs_home_subdir = None, rs_mount = None, rs_hide_paths = []\<rparr>],
     cf_launch_admission := Some [(''identity'', JInt 1)]\<rparr>"

definition run_world :: "fake world" where
  "run_world = \<lparr>w_fs = library_fs, w_be = empty_fake, w_session = launch_session, w_store = empty_store, w_routes = []\<rparr>"

definition sample_launcher :: "fake launcher" where
  "sample_launcher = \<lparr>la_backend = fake_backend\<lparr>be_mount := \<lambda>_. raiseE (OSError [])\<rparr>, la_cleanup_stale = None, la_mountinfo = ''/mi'',
     la_config = launched_config, la_host = sample_host, la_runner_code = [], la_vendor_bwrap = [], la_nested_supported = (\<lambda>_. False),
     la_shm_writable = False, la_tokens = (''t'', ''h''), la_is_tty = False, la_serve = (\<lambda>_. retE ()), la_agent = (\<lambda>_ _. retE 0),
     la_on_start = retE (), la_before_finalize = retE (), la_adaptive = (\<lambda>_. retE ())\<rparr>"


lemma agent_needs_complete_view_witness:
  "run_new_session sample_launcher run_env [] run_world =
   run_new_session (sample_launcher\<lparr>la_agent := \<lambda>_ _. raiseE (OSError []), la_serve := \<lambda>_. retE (), la_adaptive := \<lambda>_. retE ()\<rparr>)
     run_env [] run_world"
  by (rule agent_needs_complete_view [where name = "''w''"])
    (auto simp: sample_launcher_def launched_config_def session_roots_def raiseE_def)

lemma launch_admission_current_witness:
  "run_session sample_launcher run_env [] run_world = (Inl (ValueError ''admitted workspace record has no canonical path''), run_world)"
proof (rule launch_admission_current)
  show "revalidate (cf_operator_policy (la_config sample_launcher)) (w_fs run_world) (JObj [(''identity'', JInt 1)]) =
      Inl (ValueError ''admitted workspace record has no canonical path'')"
    by (simp add: revalidate_def get_default_def)
qed (simp_all add: env_value_def sample_launcher_def launched_config_def get_default_def)

end
