(* ===== verification/Review.thy ===== *)
theory Review
  imports CtlView TurnSessions Turn
begin

text \<open>
  The interactive review of \<open>cli.py\<close> (lines 347-478, 662-908): the tree of the changed paths, the
  selector the operator walks it with, the question what becomes of a pending session, and the
  pass that keeps what a server session left open.

  What the operator types is a list: the answers to the questions, and the keys pressed in the
  selector; the end of the answers is the end of the input.  What is shown on the terminal is
  modelled for the selector (its lines); the text of the summary, the pager and the terminal modes
  are not.  The two versions of the selector, on a terminal library and on plain keys, differ in
  how keys are read and are one loop here.
\<close>

section \<open>The tree of the changed paths\<close>

text \<open>A node knows its path, the path of the change at it, and its children by name.\<close>

datatype review_tree = Tree (tr_path: string) (tr_change: "string option") (tr_children: "(string \<times> review_tree) list")

definition sorted_children :: "review_tree \<Rightarrow> (string \<times> review_tree) list" where
  "sorted_children t = sorted_items (tr_children t)"

text \<open>The changed paths at and below a node, in the order of the tree.\<close>

primrec changed_paths :: "review_tree \<Rightarrow> string list" where
  "changed_paths (Tree path c children) =
     (case c of Some p \<Rightarrow> [p] | None \<Rightarrow> []) @
     concat (map snd (sort_key fst (map (map_prod id changed_paths) children)))"

text \<open>\<open>os.path.commonpath\<close>: \<open>None\<close> stands for the \<open>ValueError\<close> it raises when absolute and relative paths are mixed.\<close>

definition commonpath :: "string list \<Rightarrow> string option" where
  "commonpath paths =
     (let parts = map (\<lambda>p. filter (\<lambda>c. c \<noteq> [] \<and> c \<noteq> ''.'') (split_on sep p)) paths;
          common = (case parts of [] \<Rightarrow> [] | x # xs \<Rightarrow> foldl longest_common_prefix x xs)
      in if list_all isabs paths then Some (''/'' @ join_with ''/'' common)
         else if list_ex isabs paths then None
         else Some (join_with ''/'' common))"

definition or_root :: "string \<Rightarrow> string" where
  "or_root p = (if p = [] then ''/'' else p)"

definition review_tree_common_root :: "string list \<Rightarrow> string" where
  "review_tree_common_root paths =
     (case paths of
        [] \<Rightarrow> ''/''
      | [p] \<Rightarrow> or_root (dirname p)
      | _ \<Rightarrow> (case commonpath paths of Some p \<Rightarrow> or_root p | None \<Rightarrow> ''/''))"

text \<open>Adding a change below a node: \<open>parts\<close> are the names still to go, \<open>pre\<close> the path built so far.\<close>

definition child_path :: "string \<Rightarrow> string \<Rightarrow> string" where
  "child_path pre part = (if pre \<noteq> [] then pre @ sep # part else sep # part)"

definition child_at :: "string \<Rightarrow> string \<Rightarrow> (string \<times> review_tree) list \<Rightarrow> review_tree" where
  "child_at pre part cs = (case dict_get cs part of Some t \<Rightarrow> t | None \<Rightarrow> Tree (child_path pre part) None [])"

fun tree_insert :: "string list \<Rightarrow> string \<Rightarrow> string \<Rightarrow> review_tree \<Rightarrow> review_tree" where
  "tree_insert [] pre p t = Tree (tr_path t) (Some p) (tr_children t)"
| "tree_insert (part # parts) pre p t =
     Tree (tr_path t) (tr_change t)
       (dict_set (tr_children t) part
          (tree_insert parts (child_path pre part) p (child_at pre part (tr_children t))))"

definition tree_parts :: "string \<Rightarrow> string \<Rightarrow> string \<Rightarrow> string list" where
  "tree_parts cwd common p =
     (let rel = (case relpath cwd p common of Inr r \<Rightarrow> r | Inl _ \<Rightarrow> lstrip sep p)
      in if rel = [] \<or> rel = ''.'' then [] else split_on sep rel)"

definition build_review_tree :: "string \<Rightarrow> string list \<Rightarrow> review_tree" where
  "build_review_tree cwd paths =
     (let common = review_tree_common_root paths
      in foldl (\<lambda>t p. tree_insert (tree_parts cwd common p) (rstrip sep common) p t) (Tree common None []) (sort paths))"

section \<open>Selecting\<close>

definition node_selection_mark :: "review_tree \<Rightarrow> string list \<Rightarrow> string" where
  "node_selection_mark t selected =
     (let paths = changed_paths t; count = length (filter (\<lambda>p. p \<in> set selected) paths) in
      if paths = [] then ''[ ]''
      else if count = length paths then ''[x]''
      else if count \<noteq> 0 then ''[~]'' else ''[ ]'')"

definition toggle_node_selection :: "review_tree \<Rightarrow> string list \<Rightarrow> string list" where
  "toggle_node_selection t selected =
     (let paths = changed_paths t in
      if paths = [] then selected
      else if list_all (\<lambda>p. p \<in> set selected) paths then filter (\<lambda>p. p \<notin> set paths) selected
      else selected @ filter (\<lambda>p. p \<notin> set selected) (remdups paths))"

text \<open>Where the selector is: the names from the root to the folder shown, the line of the cursor, the selected
  paths, and the message under them.\<close>

record selector =
  sl_cwd :: "string list"
  sl_cursor :: nat
  sl_selected :: "string list"
  sl_message :: "string option"

definition new_selector :: selector where
  "new_selector = \<lparr>sl_cwd = [], sl_cursor = 0, sl_selected = [], sl_message = None\<rparr>"

fun subtree :: "review_tree \<Rightarrow> string list \<Rightarrow> review_tree" where
  "subtree t [] = t"
| "subtree t (n # ns) = (case dict_get (tr_children t) n of Some c \<Rightarrow> subtree c ns | None \<Rightarrow> t)"

definition review_tree_lines :: "review_tree \<Rightarrow> selector \<Rightarrow> string list" where
  "review_tree_lines root st =
     (let cwd = subtree root (sl_cwd st); entries = sorted_children cwd in
      [''ccc-agent: selective accept'',
       ''Space selects a file or whole folder subtree; Enter opens a folder; Backspace goes up; c commits selected; q/Esc cancels.'',
       ''current: '' @ tr_path cwd, ''selected: '' @ show_nat (length (sl_selected st)) @ '' path(s)''] @
      (case sl_message st of Some m \<Rightarrow> [m] | None \<Rightarrow> []) @
      (if entries = [] then [''  (no changed paths here)''] else []) @
      map (\<lambda>(i, name, t). (if i = sl_cursor st then ''>'' else '' '') @ '' '' @ node_selection_mark t (sl_selected st) @ '' '' @
             name @ (if tr_children t \<noteq> [] then ''/'' else [])) (enumerate 0 entries))"

text \<open>Keys by their names.\<close>

definition tree_escape_key :: "string \<Rightarrow> string" where
  "tree_escape_key seq =
     (case seq of
        [] \<Rightarrow> ''ESC''
      | b # bs \<Rightarrow>
          if b \<in> {CHR ''['', CHR ''O''}
          then (case List.find (\<lambda>c. c \<in> set ''ABCD'') bs of
                  Some c \<Rightarrow> (if c = CHR ''A'' then ''KEY_UP'' else if c = CHR ''B'' then ''KEY_DOWN''
                             else if c = CHR ''C'' then ''KEY_RIGHT'' else ''KEY_LEFT'')
                | None \<Rightarrow> ''ESC'')
          else ''ESC'')"

definition clamp_cursor :: "review_tree \<Rightarrow> selector \<Rightarrow> selector" where
  "clamp_cursor root st =
     st\<lparr>sl_cursor := min (sl_cursor st) (length (sorted_children (subtree root (sl_cwd st))) - 1)\<rparr>"

text \<open>One key: the new state, or the end, with the selected paths or \<open>None\<close> for a cancelled selection.\<close>

definition select_step :: "review_tree \<Rightarrow> string \<Rightarrow> selector \<Rightarrow> selector + string list option" where
  "select_step root key st0 =
     (let st = (clamp_cursor root st0)\<lparr>sl_message := None\<rparr>;
          entries = sorted_children (subtree root (sl_cwd st));
          n = length entries; cursor = sl_cursor st in
      if key \<in> {''KEY_UP'', ''k''} then Inl (if n = 0 then st else st\<lparr>sl_cursor := (cursor + n - 1) mod n\<rparr>)
      else if key \<in> {''KEY_DOWN'', ''j''} then Inl (if n = 0 then st else st\<lparr>sl_cursor := (cursor + 1) mod n\<rparr>)
      else if key \<in> {''KEY_ENTER'', [CHR 0x0D], [CHR 0x0A]}
      then Inl (if n \<noteq> 0 \<and> tr_children (snd (entries ! cursor)) \<noteq> []
                then st\<lparr>sl_cwd := sl_cwd st @ [fst (entries ! cursor)], sl_cursor := 0\<rparr> else st)
      else if key \<in> {''KEY_BACKSPACE'', ''KEY_LEFT'', [CHR 0x7F], [CHR 0x08]}
      then Inl (if sl_cwd st \<noteq> [] then st\<lparr>sl_cwd := butlast (sl_cwd st), sl_cursor := 0\<rparr> else st)
      else if key = '' ''
      then Inl (if n = 0 then st else st\<lparr>sl_selected := toggle_node_selection (snd (entries ! cursor)) (sl_selected st)\<rparr>)
      else if key \<in> {''c'', ''C''}
      then (if sl_selected st \<noteq> [] then Inr (Some (sort (sl_selected st)))
            else Inl (st\<lparr>sl_message := Some ''No paths selected; select at least one path or press q to cancel.''\<rparr>))
      else if key \<in> {''q'', ''Q'', ''ESC'', [CHR 0x1B]} then Inr None
      else Inl st)"

text \<open>The loop over the keys, with the keys left over; \<open>None\<close> while the selector still waits for one.\<close>

fun select_loop :: "review_tree \<Rightarrow> string list \<Rightarrow> selector \<Rightarrow> (string list option \<times> string list) option" where
  "select_loop root [] st = None"
| "select_loop root (k # ks) st =
     (case select_step root k st of Inl st' \<Rightarrow> select_loop root ks st' | Inr r \<Rightarrow> Some (r, ks))"

section \<open>What becomes of a pending session\<close>

text \<open>What the review needs besides the controller: the environment, the external \<open>patch\<close> command of the review
  operation, and whether there is a terminal to ask at.\<close>

record 'b reviewer =
  rv_controller :: "'b controller"
  rv_env :: env
  rv_patch :: "string \<Rightarrow> string \<Rightarrow> (fs, int) eff"
  rv_interactive :: bool

text \<open>What the operator types: the answers, then end of input, and the keys.\<close>

type_synonym typed = "string list \<times> string list"

text \<open>The stored artifacts of a session that is no longer live; an error in reading them is as if there were none.\<close>

definition stored_selection :: "'b reviewer \<Rightarrow> session \<Rightarrow> bool \<Rightarrow> 'b world \<Rightarrow> string list option" where
  "stored_selection V s include_ignored w =
     (let review = review_dir (w_store w) (s_id s) in
      if can_use_stored_review s \<and> isdir (w_fs w) review
      then (case stored_review_changes (rv_env V) (w_fs w) (ct_aliases (rv_controller V)) s review of
              Inr (True, changes, ignored) \<Rightarrow>
                Some (map ch_path changes @ (if include_ignored then map (\<lambda>i. ch_path (ig_change i)) ignored else []))
            | _ \<Rightarrow> None)
      else None)"

definition selector_changes_for_review :: "'b reviewer \<Rightarrow> session \<Rightarrow> bool \<Rightarrow> ('b world, string list) eff" where
  "selector_changes_for_review V s include_ignored =
     bindE (getE (stored_selection V s include_ignored)) (\<lambda>stored. case stored of
       Some paths \<Rightarrow> retE paths
     | None \<Rightarrow>
         seqE (modE (\<lambda>w. w\<lparr>w_session := s\<rparr>))
              (bindE (ctl_changes (rv_controller V) include_ignored) (\<lambda>found. retE (map (\<lambda>(root, c). ch_path c) found))))"

text \<open>The selective accept: the session it left and the keys not yet read, or no session when it was cancelled.
  A selector that still waits for a key reads the end of the input for ever; \<open>Waiting\<close> is that it never returns.\<close>

datatype 'a prompt = Waiting | Answered 'a

definition selective_accept_review :: "'b reviewer \<Rightarrow> session \<Rightarrow> bool \<Rightarrow> string list \<Rightarrow>
    ('b world, (session option \<times> string list) prompt) eff" where
  "selective_accept_review V s include_ignored keys =
     bindE (selector_changes_for_review V s include_ignored) (\<lambda>paths.
     if paths = [] then retE (Answered (Some s, keys))
     else bindE (getE (\<lambda>w. fs_cwd (w_fs w))) (\<lambda>cwd.
       case select_loop (build_review_tree cwd paths) keys new_selector of
         None \<Rightarrow> retE Waiting
       | Some (None, rest) \<Rightarrow> retE (Answered (None, rest))
       | Some (Some selected, rest) \<Rightarrow>
           seqE (ctl_review (rv_controller V) (rv_env V) (rv_patch V) (s_id s) (CommitPaths selected) include_ignored)
                (bindE the_session (\<lambda>updated. retE (Answered (Some updated, rest))))))"

datatype decision = CommitAll | Selective | DiscardAll | Later | Unclear

definition review_decision :: "string \<Rightarrow> decision" where
  "review_decision raw =
     (let choice = str_lower (str_strip raw) in
      if choice \<in> {''c'', ''commit'', ''y'', ''yes''} then CommitAll
      else if choice \<in> {''s'', ''select'', ''selective''} then Selective
      else if choice \<in> {''d'', ''discard'', ''n'', ''no''} then DiscardAll
      else if choice \<in> {[], ''l'', ''later'', ''r'', ''review'', [CHR 0x1B], ''esc''} then Later
      else Unclear)"

definition remainder_decision :: "string \<Rightarrow> decision" where
  "remainder_decision raw =
     (let choice = str_lower (str_strip raw) in
      if choice \<in> {''d'', ''discard'', ''y'', ''yes''} then DiscardAll
      else if choice \<in> {[], ''m'', ''manual'', ''l'', ''later'', ''keep'', [CHR 0x1B], ''esc''} then Later
      else Unclear)"

definition discard_session :: "'b reviewer \<Rightarrow> session \<Rightarrow> ('b world, session) eff" where
  "discard_session V s = seqE (ctl_abort (rv_controller V) (rv_env V) (s_id s)) the_session"

fun prompt_permission_denied_remainder :: "'b reviewer \<Rightarrow> session \<Rightarrow> string list \<Rightarrow> ('b world, session prompt) eff" where
  "prompt_permission_denied_remainder V s [] = retE (Answered s)"
| "prompt_permission_denied_remainder V s (a # as) =
     (case remainder_decision a of
        DiscardAll \<Rightarrow> bindE (discard_session V s) (\<lambda>updated. retE (Answered updated))
      | Later \<Rightarrow> retE (Answered s)
      | _ \<Rightarrow> prompt_permission_denied_remainder V s as)"

fun prompt_changes :: "'b reviewer \<Rightarrow> session \<Rightarrow> bool \<Rightarrow> string list \<Rightarrow> string list \<Rightarrow> ('b world, session prompt) eff" where
  "prompt_changes V s include_ignored [] keys = retE (Answered s)"
| "prompt_changes V s include_ignored (a # as) keys =
     (case review_decision a of
        CommitAll \<Rightarrow>
          seqE (ctl_commit (rv_controller V) (rv_env V) (s_id s) include_ignored)
               (bindE the_session (\<lambda>updated. retE (Answered updated)))
      | Selective \<Rightarrow>
          bindE (selective_accept_review V s include_ignored keys) (\<lambda>r. case r of
            Waiting \<Rightarrow> retE Waiting
          | Answered (Some updated, rest) \<Rightarrow> retE (Answered updated)
          | Answered (None, rest) \<Rightarrow> prompt_changes V s include_ignored as rest)
      | DiscardAll \<Rightarrow> bindE (discard_session V s) (\<lambda>updated. retE (Answered updated))
      | Later \<Rightarrow> retE (Answered s)
      | Unclear \<Rightarrow> prompt_changes V s include_ignored as keys)"

definition prompt_pending_review_decision :: "'b reviewer \<Rightarrow> session \<Rightarrow> bool \<Rightarrow> typed \<Rightarrow> ('b world, session prompt) eff" where
  "prompt_pending_review_decision V s include_ignored typed =
     (if has_permission_failures s then prompt_permission_denied_remainder V s (fst typed)
      else prompt_changes V s include_ignored (fst typed) (snd typed))"

text \<open>An error of the operation is shown, and the session stays what it was for the caller.\<close>

definition review_pending_session :: "'b reviewer \<Rightarrow> session \<Rightarrow> bool \<Rightarrow> bool \<Rightarrow> typed \<Rightarrow> ('b world, session prompt) eff" where
  "review_pending_session V s include_ignored ask typed =
     (if s_state s \<notin> {''pending-review'', ''frozen''} \<or> \<not> (ask \<and> rv_interactive V) then retE (Answered s)
      else catchE (prompt_pending_review_decision V s include_ignored typed)
             (\<lambda>e. case e of ControlError _ \<Rightarrow> retE (Answered s) | _ \<Rightarrow> raiseE e))"

definition handle_pending_review_finish :: "'b reviewer \<Rightarrow> session \<Rightarrow> typed \<Rightarrow> ('b world, session prompt) eff" where
  "handle_pending_review_finish V s typed = review_pending_session V s False True typed"

section \<open>What a server session leaves open\<close>

text \<open>One last turn that keeps what it may not commit; an error is recorded and the exit goes on.\<close>

definition default_keep_before_finish :: "'b backend \<Rightarrow> env \<Rightarrow> alias_map \<Rightarrow> ('b world, unit) eff" where
  "default_keep_before_finish B en am =
     bindE the_session (\<lambda>s.
     bindE (liftE (make_admission_policy (s_roots s) am (get_default (s_policy s) ''workspace_admission_roots'' JNull)
              (get_default (s_policy s) ''allow_protected_root_workspace'' (JBool False)))) (\<lambda>policy.
     catchE (zoomE (\<lambda>w. (w, [])) (\<lambda>t w. fst t)
               (bindE (finalize_turn \<lparr>tn_backend = B, tn_aliases = am, tn_admission = policy\<rparr> en True) (\<lambda>_. retE ())))
       (\<lambda>e. seqE (log_event en ''server-default-keep-failed'' (Some (JStr (exn_str e)))) save_session)))"

end
