(* ===== verification/ReviewFacts.thy ===== *)
theory ReviewFacts
  imports Review CtlFacts
begin

text \<open>
  Properties of the interactive review: the tree offers exactly the changed paths, the selector
  returns what was marked, and nothing is committed or discarded without the operator's answer.
\<close>

section \<open>The paths of the tree\<close>

lemma changed_paths_set:
  "set (changed_paths (Tree q c cs)) = set_option c \<union> (\<Union>(n, t)\<in>set cs. set (changed_paths t))"
  by (auto simp: split_def image_iff map_prod_def split: option.splits)

lemma child_at_paths: "set (changed_paths (child_at pre part cs)) \<subseteq> (\<Union>(n, t)\<in>set cs. set (changed_paths t))"
  by (auto simp: child_at_def dest: map_of_SomeD split: option.splits)

text \<open>The change at a node, by the names from the root.\<close>

fun change_at :: "review_tree \<Rightarrow> string list \<Rightarrow> string option" where
  "change_at t [] = tr_change t"
| "change_at t (n # ns) = (case dict_get (tr_children t) n of Some c \<Rightarrow> change_at c ns | None \<Rightarrow> None)"

lemma change_at_empty: "change_at (Tree q None []) ns = None"
  by (cases ns) simp_all

lemma change_at_child: "change_at (child_at pre part (tr_children t)) ns = change_at t (part # ns)"
  by (simp add: child_at_def change_at_empty split: option.splits)

lemma change_at_insert: "change_at (tree_insert ds pre p t) ns = (if ns = ds then Some p else change_at t ns)"
proof (induction ds pre p t arbitrary: ns rule: tree_insert.induct)
  case (1 pre p t)
  then show ?case by (cases ns) simp_all
next
  case (2 part parts pre p t)
  show ?case
  proof (cases ns)
    case (Cons n ns')
    show ?thesis
      using 2 [of ns'] change_at_child [of pre part t ns']
      by (auto simp: Cons dict_get_set split: option.splits)
  qed simp
qed
text \<open>Names are unique in every folder.\<close>

primrec names_unique :: "review_tree \<Rightarrow> bool" where
  "names_unique (Tree q c cs) \<longleftrightarrow> dict_ok cs \<and> list_all snd (map (map_prod id names_unique) cs)"

declare names_unique.simps [simp del]

lemma names_unique_iff:
  "names_unique (Tree q c cs) \<longleftrightarrow> dict_ok cs \<and> (\<forall>n t. dict_get cs n = Some t \<longrightarrow> names_unique t)"
  by (force simp: names_unique.simps list_all_iff dict_ok_def)

lemma names_unique_child: "names_unique t \<Longrightarrow> dict_get (tr_children t) n = Some c \<Longrightarrow> names_unique c"
  by (cases t) (simp add: names_unique_iff)

lemma names_unique_insert: "names_unique t \<Longrightarrow> names_unique (tree_insert ds pre p t)"
proof (induction ds pre p t rule: tree_insert.induct)
  case (1 pre p t)
  then show ?case by (cases t) (simp add: names_unique_iff)
next
  case (2 part parts pre p t)
  have "names_unique (child_at pre part (tr_children t))"
    using names_unique_child [OF 2(2)] by (auto simp: child_at_def names_unique_iff split: option.splits)
  from 2(1) [OF this] 2(2) show ?case
    by (cases t) (auto simp: names_unique_iff)
qed

lemma changed_paths_at:
  "names_unique t \<Longrightarrow> p \<in> set (changed_paths t) \<longleftrightarrow> (\<exists>ns. change_at t ns = Some p)"
proof (induction t)
  case (Tree q c cs)
  have "p \<in> set (changed_paths (Tree q c cs)) \<longleftrightarrow> c = Some p \<or> (\<exists>n t. (n, t) \<in> set cs \<and> p \<in> set (changed_paths t))"
    unfolding changed_paths_set by force
  also have "\<dots> \<longleftrightarrow> c = Some p \<or> (\<exists>n t ns. dict_get cs n = Some t \<and> change_at t ns = Some p)"
    using Tree.IH Tree.prems by (fastforce simp: names_unique_iff dict_ok_def)
  also have "\<dots> \<longleftrightarrow> (\<exists>ns. change_at (Tree q c cs) ns = Some p)"
  proof
    assume "\<exists>ns. change_at (Tree q c cs) ns = Some p"
    then obtain ns where "change_at (Tree q c cs) ns = Some p" by blast
    then show "c = Some p \<or> (\<exists>n t ns. dict_get cs n = Some t \<and> change_at t ns = Some p)"
      by (cases ns) (auto split: option.splits)
  next
    assume "c = Some p \<or> (\<exists>n t ns. dict_get cs n = Some t \<and> change_at t ns = Some p)"
    then show "\<exists>ns. change_at (Tree q c cs) ns = Some p"
    proof (elim disjE exE conjE)
      assume "c = Some p" then show ?thesis by (intro exI [of _ "[]"]) simp
    next
      fix n t ns assume "dict_get cs n = Some t" "change_at t ns = Some p"
      then show ?thesis by (intro exI [of _ "n # ns"]) simp
    qed
  qed
  finally show ?case .
qed

section \<open>Building the tree\<close>

definition add_path :: "string \<Rightarrow> string \<Rightarrow> string \<Rightarrow> review_tree \<Rightarrow> review_tree" where
  "add_path cwd common p t = tree_insert (tree_parts cwd common p) (rstrip sep common) p t"

lemma build_review_tree_fold:
  "build_review_tree cwd paths =
     fold (add_path cwd (review_tree_common_root paths)) (sort paths) (Tree (review_tree_common_root paths) None [])"
  unfolding build_review_tree_def Let_def foldl_conv_fold by (rule fold_cong) (simp_all add: add_path_def fun_eq_iff)

lemma names_unique_fold: "names_unique t \<Longrightarrow> names_unique (fold (add_path cwd common) ps t)"
  by (induction ps arbitrary: t) (simp_all add: add_path_def names_unique_insert)

lemma names_unique_build: "names_unique (build_review_tree cwd paths)"
  unfolding build_review_tree_fold by (rule names_unique_fold) (simp add: names_unique_iff)

lemma change_at_fold:
  "change_at (fold (add_path cwd common) ps t) ns =
     (case find (\<lambda>p. tree_parts cwd common p = ns) (rev ps) of Some p \<Rightarrow> Some p | None \<Rightarrow> change_at t ns)"
  by (induction ps rule: rev_induct) (simp_all add: add_path_def change_at_insert)

lemma change_at_build:
  "change_at (build_review_tree cwd paths) ns =
     find (\<lambda>p. tree_parts cwd (review_tree_common_root paths) p = ns) (rev (sort paths))"
  unfolding build_review_tree_fold change_at_fold by (simp add: change_at_empty split: option.splits)

lemma build_paths_subset: "set (changed_paths (build_review_tree cwd paths)) \<subseteq> set paths"
  by (auto simp: changed_paths_at [OF names_unique_build] change_at_build find_Some_iff)
    (metis length_rev length_sort nth_mem set_rev set_sort)

lemma build_paths_complete:
  assumes "inj_on (tree_parts cwd (review_tree_common_root paths)) (set paths)"
  shows "set (changed_paths (build_review_tree cwd paths)) = set paths"
proof
  let ?f = "tree_parts cwd (review_tree_common_root paths)"
  show "set paths \<subseteq> set (changed_paths (build_review_tree cwd paths))"
  proof
    fix p assume p: "p \<in> set paths"
    then obtain q where q: "find (\<lambda>q. ?f q = ?f p) (rev (sort paths)) = Some q"
      by (cases "find (\<lambda>q. ?f q = ?f p) (rev (sort paths))") (auto simp: find_None_iff)
    then have "q \<in> set paths" "?f q = ?f p" by (auto simp: find_Some_iff) (metis length_rev length_sort nth_mem set_rev set_sort)
    then have "q = p" using p assms by (auto dest: inj_onD)
    with q show "p \<in> set (changed_paths (build_review_tree cwd paths))"
      unfolding changed_paths_at [OF names_unique_build] change_at_build by blast
  qed
qed (rule build_paths_subset)


text \<open>Absolute paths in normal form.\<close>

definition normal_path :: "string \<Rightarrow> bool" where
  "normal_path p \<longleftrightarrow> (\<exists>cs. p = abs_path cs \<and> (\<forall>c\<in>set cs. proper c))"

lemma split_parts_abs:
  assumes "\<forall>c\<in>set cs. proper c"
  shows "filter (\<lambda>c. c \<noteq> [] \<and> c \<noteq> ''.'') (split_on sep (abs_path cs)) = cs"
proof (cases "cs = []")
  case False
  have "split_on sep (abs_path cs) = '''' # cs"
    using split_abs_path [OF False] assms plain_name_proper by blast
  moreover have "filter (\<lambda>c. c \<noteq> [] \<and> c \<noteq> ''.'') cs = cs"
    using assms by (intro filter_True) (auto simp: proper_def)
  ultimately show ?thesis by simp
qed (simp add: mk_path_def)

lemma lcp_fold: "prefix (foldl longest_common_prefix x xs) x \<and> (\<forall>y\<in>set xs. prefix (foldl longest_common_prefix x xs) y)"
proof (induction xs arbitrary: x)
  case (Cons y xs)
  show ?case
    using Cons [of "longest_common_prefix x y"] longest_common_prefix_prefix1 [of x y] longest_common_prefix_prefix2 [of x y]
    by (auto intro: prefix_order.trans)
qed simp

lemma commonpath_abs:
  assumes "css \<noteq> []" "\<forall>cs\<in>set css. \<forall>c\<in>set cs. proper c"
  shows "\<exists>vs. commonpath (map abs_path css) = Some (abs_path vs) \<and> (\<forall>cs\<in>set css. prefix vs cs)"
proof -
  have "map (\<lambda>p. filter (\<lambda>c. c \<noteq> [] \<and> c \<noteq> ''.'') (split_on sep p)) (map abs_path css) = css"
    using assms(2) by (simp add: map_idI split_parts_abs)
  moreover have "list_all isabs (map abs_path css)" by (simp add: list_all_iff mk_path_def isabs_def)
  ultimately have c: "commonpath (map abs_path css) = Some (abs_path (case css of [] \<Rightarrow> [] | x # xs \<Rightarrow> foldl longest_common_prefix x xs))"
    by (simp only: commonpath_def Let_def if_True mk_path_def)
  obtain x xs where "css = x # xs" using assms(1) by (cases css) auto
  with c lcp_fold [of x xs] show ?thesis by auto
qed

lemma common_root_abs:
  assumes "css \<noteq> []" "\<forall>cs\<in>set css. \<forall>c\<in>set cs. proper c"
  shows "\<exists>vs. review_tree_common_root (map abs_path css) = abs_path vs \<and> (\<forall>cs\<in>set css. prefix vs cs)"
proof -
  have r: "or_root (abs_path vs) = abs_path vs" for vs by (simp add: or_root_def mk_path_def)
  consider cs where "css = [cs]" | a b rest where "css = a # b # rest"
    using assms(1) by (metis list.exhaust)
  then show ?thesis
  proof cases
    case 1
    then have "dirname (abs_path cs) = abs_path (butlast cs)" using assms(2) by (intro dirname_abs_path) auto
    with 1 r show ?thesis by (auto simp: review_tree_common_root_def intro!: exI [of _ "butlast cs"] prefixeq_butlast)
  next
    case 2
    with commonpath_abs [OF assms] r show ?thesis by (auto simp: review_tree_common_root_def)
  qed
qed

lemma tree_parts_descend:
  assumes "\<forall>v\<in>set vs. proper v" "\<forall>d\<in>set ds. proper d"
  shows "tree_parts cwd (abs_path vs) (abs_path (vs @ ds)) = ds"
proof (cases "ds = []")
  case True
  have l: "longest_common_prefix xs xs = xs" for xs :: "string list" by (induction xs) auto
  have "relpath cwd (abs_path vs) (abs_path vs) = Inr ''.''"
    by (simp add: relpath_def relpath_comps_def mk_path_def Let_def l)
  with True show ?thesis by (simp add: tree_parts_def)
next
  case False
  have s: "split_on sep (join_with ''/'' ds) = ds" using split_join_proper [OF False] assms(2) by blast
  have "split_on sep [] = [[]]" "split_on sep ''.'' = [''.'']" by code_simp+
  moreover have "[] \<notin> set ds" "''.'' \<notin> set ds" using assms(2) unfolding proper_def by blast+
  ultimately have "split_on sep [] \<noteq> ds" "split_on sep ''.'' \<noteq> ds" by (metis list.set_intros(1))+
  with s have "join_with ''/'' ds \<noteq> []" "join_with ''/'' ds \<noteq> ''.''" by metis+
  then show ?thesis
    unfolding tree_parts_def relpath_descend [OF assms False] by (simp only: sum.case Let_def s simp_thms if_False)
qed


lemma tree_parts_inj:
  assumes "\<forall>p\<in>set paths. normal_path p"
  shows "inj_on (tree_parts cwd (review_tree_common_root paths)) (set paths)"
proof (cases "paths = []")
  case False
  obtain css where css: "paths = map abs_path css" "\<forall>cs\<in>set css. \<forall>c\<in>set cs. proper c"
    using assms
  proof (induction paths arbitrary: thesis)
    case (Cons p ps)
    from Cons.IH obtain css where "ps = map abs_path css" "\<forall>cs\<in>set css. \<forall>c\<in>set cs. proper c" using Cons.prems(2) by auto
    moreover obtain cs where "p = abs_path cs" "\<forall>c\<in>set cs. proper c" using Cons.prems(2) by (auto simp: normal_path_def)
    ultimately show ?case by (intro Cons.prems(1) [of "cs # css"]) auto
  qed simp
  with False obtain vs where vs: "review_tree_common_root paths = abs_path vs" "\<forall>cs\<in>set css. prefix vs cs"
    using common_root_abs [of css] by auto
  show ?thesis
  proof (rule inj_onI)
    fix p q assume p: "p \<in> set paths" and q: "q \<in> set paths"
      and eq: "tree_parts cwd (review_tree_common_root paths) p = tree_parts cwd (review_tree_common_root paths) q"
    have "\<exists>ds. p = abs_path (vs @ ds) \<and> tree_parts cwd (abs_path vs) p = ds" if m: "p \<in> set paths" for p
    proof -
      obtain cs where cs: "p = abs_path cs" "cs \<in> set css" using m css(1) by (auto simp: image_iff)
      then obtain ds where "cs = vs @ ds" using vs(2) by (auto simp: prefix_def)
      with cs css(2) tree_parts_descend [of vs ds cwd] show ?thesis by fastforce
    qed
    then show "p = q" using p q eq vs(1) by metis
  qed
qed simp

section \<open>The selector\<close>

lemma subtree_paths: "set (changed_paths (subtree t ns)) \<subseteq> set (changed_paths t)"
proof (induction t ns rule: subtree.induct)
  case (2 t n ns)
  show ?case
  proof (cases "dict_get (tr_children t) n")
    case (Some c)
    then have "(n, c) \<in> set (tr_children t)" by (rule map_of_SomeD)
    then have "set (changed_paths c) \<subseteq> set (changed_paths t)" by (cases t) (auto simp: changed_paths_set simp del: changed_paths.simps)
    with 2 [OF Some] Some show ?thesis by simp
  qed simp
qed simp

lemma entry_paths:
  assumes "k < length (sorted_children t)"
  shows "set (changed_paths (snd (sorted_children t ! k))) \<subseteq> set (changed_paths t)"
proof -
  have "sorted_children t ! k \<in> set (tr_children t)" using assms nth_mem [OF assms] by (simp add: sorted_children_def)
  then show ?thesis
    by (cases t; cases "sorted_children t ! k") (auto simp: changed_paths_set simp del: changed_paths.simps)
qed

lemma toggle_paths:
  "set (toggle_node_selection t sel) \<subseteq> set sel \<union> set (changed_paths t)"
  "distinct sel \<Longrightarrow> distinct (toggle_node_selection t sel)"
  by (auto simp: toggle_node_selection_def Let_def)

definition marked_of :: "string set \<Rightarrow> selector \<Rightarrow> bool" where
  "marked_of P st \<longleftrightarrow> distinct (sl_selected st) \<and> set (sl_selected st) \<subseteq> P"

definition sound_selection :: "string set \<Rightarrow> string list option \<Rightarrow> bool" where
  "sound_selection P r =
     (case r of None \<Rightarrow> True | Some paths \<Rightarrow> paths \<noteq> [] \<and> sorted paths \<and> distinct paths \<and> set paths \<subseteq> P)"

definition sound_step :: "string set \<Rightarrow> selector + string list option \<Rightarrow> bool" where
  "sound_step P r = (case r of Inl st \<Rightarrow> marked_of P st | Inr res \<Rightarrow> sound_selection P res)"

lemma sound_steps:
  "(c \<Longrightarrow> sound_step P a) \<Longrightarrow> (\<not> c \<Longrightarrow> sound_step P b) \<Longrightarrow> sound_step P (if c then a else b)"
  "marked_of P st \<Longrightarrow> sound_step P (Inl st)"
  "(c \<Longrightarrow> marked_of P st) \<Longrightarrow> (\<not> c \<Longrightarrow> marked_of P st') \<Longrightarrow> marked_of P (if c then st else st')"
  "marked_of P st \<Longrightarrow> marked_of P (st\<lparr>sl_cursor := k\<rparr>)"
  "marked_of P st \<Longrightarrow> marked_of P (st\<lparr>sl_cwd := ns\<rparr>)"
  "marked_of P st \<Longrightarrow> marked_of P (st\<lparr>sl_message := msg\<rparr>)"
  "sound_step P (Inr None)"
  "marked_of P st \<Longrightarrow> sl_selected st \<noteq> [] \<Longrightarrow> sound_step P (Inr (Some (sort (sl_selected st))))"
  by (simp_all add: sound_step_def sound_selection_def marked_of_def) (metis set_empty set_sort)

lemma select_step_marked:
  assumes "marked_of (set (changed_paths root)) st"
  shows "sound_step (set (changed_paths root)) (select_step root key st)"
proof -
  let ?P = "set (changed_paths root)"
  let ?st = "(clamp_cursor root st)\<lparr>sl_message := None\<rparr>"
  let ?cwd = "subtree root (sl_cwd ?st)"
  let ?sel = "toggle_node_selection (snd (sorted_children ?cwd ! sl_cursor ?st)) (sl_selected ?st)"
  have m: "marked_of ?P ?st" using assms by (simp add: marked_of_def clamp_cursor_def)
  have toggled: "marked_of ?P (?st\<lparr>sl_selected := ?sel\<rparr>)" if "length (sorted_children ?cwd) \<noteq> 0"
  proof -
    have k: "sl_cursor ?st < length (sorted_children ?cwd)"
      using that by (cases "sorted_children (subtree root (sl_cwd st))") (auto simp: clamp_cursor_def)
    have "set (changed_paths (snd (sorted_children ?cwd ! sl_cursor ?st))) \<subseteq> ?P"
      using entry_paths [OF k] subtree_paths by (rule subset_trans)
    moreover have "distinct (sl_selected ?st)" "set (sl_selected ?st) \<subseteq> ?P" using m unfolding marked_of_def by blast+
    ultimately have "distinct ?sel" "set ?sel \<subseteq> ?P" using toggle_paths by blast+
    then show ?thesis unfolding marked_of_def by simp
  qed
  show ?thesis
    unfolding select_step_def Let_def by (intro sound_steps m toggled)
qed

lemma select_loop_sound:
  "select_loop root keys st = Some (r, rest) \<Longrightarrow> marked_of (set (changed_paths root)) st \<Longrightarrow>
   sound_selection (set (changed_paths root)) r"
proof (induction keys arbitrary: st)
  case (Cons k ks)
  then show ?case using select_step_marked [OF Cons.prems(2), of k] by (auto simp: sound_step_def split: sum.splits)
qed simp

section \<open>Properties\<close>


text \<open>What the operator confirms was offered: whatever keys are pressed, a selection that is committed is not empty, sorted,
  without duplicates, and holds changed paths only.\<close>

theorem selection_is_of_changes:
  assumes "select_loop (build_review_tree cwd paths) keys new_selector = Some (Some selected, rest)"
  shows "selected \<noteq> [] \<and> sorted selected \<and> distinct selected \<and> set selected \<subseteq> set paths"
  using select_loop_sound [OF assms] build_paths_subset [of cwd paths]
  by (auto simp: marked_of_def new_selector_def sound_selection_def)

text \<open>Space marks a whole subtree: afterwards the mark of the folder is full, or empty when it was full, and no path outside
  the folder changes sides.\<close>

theorem toggle_marks_subtree:
  assumes "changed_paths t \<noteq> []"
  shows "node_selection_mark t (toggle_node_selection t selected) = (if node_selection_mark t selected = ''[x]'' then ''[ ]'' else ''[x]'') \<and>
    (\<forall>p. p \<notin> set (changed_paths t) \<longrightarrow> (p \<in> set (toggle_node_selection t selected) \<longleftrightarrow> p \<in> set selected))"
proof -
  have full: "length (filter (\<lambda>p. p \<in> set selected) (changed_paths t)) = length (changed_paths t) \<longleftrightarrow>
      list_all (\<lambda>p. p \<in> set selected) (changed_paths t)"
    by (metis (no_types, lifting) filter_True length_filter_less linorder_neq_iff list_all_iff)
  have none: "filter (\<lambda>p. p \<in> set (filter (\<lambda>p. p \<notin> set ps) selected)) ps = []" for ps by auto
  have all: "filter (\<lambda>p. p \<in> set (selected @ filter (\<lambda>p. p \<notin> set selected) (remdups ps))) ps = ps" for ps by auto
  show ?thesis
    using assms by (auto simp: toggle_node_selection_def node_selection_mark_def Let_def full none all)
qed

text \<open>Nothing is decided without an answer: as long as no answer asks to commit, to select or to discard, the review returns the
  session as it was and touches nothing.\<close>

lemma review_needs_decision:
  assumes "\<forall>a\<in>set answers. review_decision a \<in> {Later, Unclear} \<and> remainder_decision a \<in> {Later, Unclear}"
  shows "review_pending_session V s include_ignored ask (answers, keys) w = (Inr (Answered s), w)"
proof -
  have r: "prompt_permission_denied_remainder V s answers w = (Inr (Answered s), w)"
    using assms by (induction answers) (auto simp: retE_def)
  have c: "prompt_changes V s include_ignored answers keys w = (Inr (Answered s), w)"
    using assms by (induction answers) (auto simp: retE_def)
  show ?thesis
    by (simp add: review_pending_session_def prompt_pending_review_decision_def r c catchE_def retE_def)
qed



section \<open>Concrete reviews\<close>


definition pending_session :: session where
  "pending_session = sample_session\<lparr>s_state := ''pending-review''\<rparr>"

definition pending_world :: "fake world" where
  "pending_world = commit_world\<lparr>w_session := pending_session, w_store := store_save pending_session empty_store\<rparr>"

definition sample_reviewer :: "fake reviewer" where
  "sample_reviewer = \<lparr>rv_controller = sample_controller, rv_env = sample_env, rv_patch = (\<lambda>_ _. retE 0), rv_interactive = True\<rparr>"

lemma review_needs_decision_witness:
  "review_pending_session sample_reviewer pending_session False True ([''what?'', ''''], []) pending_world = (Inr (Answered pending_session), pending_world)"
proof (rule review_needs_decision)
  have "list_all (\<lambda>a. review_decision a \<in> {Later, Unclear} \<and> remainder_decision a \<in> {Later, Unclear}) [''what?'', '''']" by code_simp
  then show "\<forall>a\<in>set [''what?'', '''']. review_decision a \<in> {Later, Unclear} \<and> remainder_decision a \<in> {Later, Unclear}"
    unfolding list_all_iff .
qed


end
