(* ===== verification/TurnCli.thy ===== *)
theory TurnCli
  imports Turn Sandbox
begin

text \<open>
  The commands a hook runs inside the sandbox (\<open>cli.py\<close>, lines 1390-1682) and the control client they use
  (\<open>control.py\<close>, \<open>ControlClient\<close>): the request of every command, what is printed, and the exit status, which is
  what the agent's hook acts on: 2 asks the agent to go on, everything else lets it stop.

  The control socket is a function from a request to the answer, over any state of the other side; it may raise.
  The arguments are those the argument parser delivers.  What is printed is a list of texts for each stream.
\<close>

section \<open>The control client\<close>

type_synonym 'h channel = "pydict \<Rightarrow> ('h, json) eff"

record 'h control_client =
  cc_channel :: "'h channel"
  cc_token :: string
  cc_hook_token :: string

definition cc_request :: "'h control_client \<Rightarrow> pydict \<Rightarrow> ('h, pydict) eff" where
  "cc_request cc payload =
     bindE (cc_channel cc (dict_set (dict_set payload ''token'' (JStr (cc_token cc))) ''version'' (JInt 1))) (\<lambda>answer.
     bindE (liftE (as_obj answer)) (\<lambda>resp.
       if truthy (get_default resp ''ok'' JNull) then retE resp
       else raiseE (ControlError (py_str (get_default resp ''error'' (JStr ''unknown control error''))))))"

definition cc_finalize_turn :: "'h control_client \<Rightarrow> bool \<Rightarrow> ('h, pydict) eff" where
  "cc_finalize_turn cc default_keep = cc_request cc [(''op'', JStr ''turn-finalize''), (''default_keep'', JBool default_keep)]"

text \<open>A list of paths is sent when it is given and not empty.\<close>

definition with_paths :: "string \<Rightarrow> string list option \<Rightarrow> pydict \<Rightarrow> pydict" where
  "with_paths key paths req = (case paths of Some (p # ps) \<Rightarrow> dict_set req key (jstrs (p # ps)) | _ \<Rightarrow> req)"

definition cc_approve_turn :: "'h control_client \<Rightarrow> json \<Rightarrow> string \<Rightarrow> string list option \<Rightarrow> string list option \<Rightarrow> string list option \<Rightarrow>
    string list option \<Rightarrow> ('h, pydict) eff" where
  "cc_approve_turn cc token decision paths commit keep discard =
     cc_request cc
       (with_paths ''discard_paths'' discard
       (with_paths ''keep_paths'' keep
       (with_paths ''commit_paths'' commit
       (with_paths ''paths'' paths
         [(''op'', JStr ''turn-approve''), (''approval_token'', token), (''decision'', JStr decision)]))))"

definition cc_resolve_turn :: "'h control_client \<Rightarrow> string \<Rightarrow> json \<Rightarrow> ('h, pydict) eff" where
  "cc_resolve_turn cc decision paths =
     cc_request cc [(''op'', JStr ''turn-resolve''), (''decision'', JStr decision), (''paths'', paths)]"

definition cc_kept_status :: "'h control_client \<Rightarrow> ('h, pydict) eff" where
  "cc_kept_status cc = cc_request cc [(''op'', JStr ''turn-kept-status'')]"

definition cc_review_kept :: "'h control_client \<Rightarrow> ('h, pydict) eff" where
  "cc_review_kept cc = cc_request cc [(''op'', JStr ''turn-review-kept'')]"

definition hook_workspace_request :: "'h control_client \<Rightarrow> string \<Rightarrow> string \<Rightarrow> string \<Rightarrow> ('h, pydict) eff" where
  "hook_workspace_request cc opname path hook_session =
     (if cc_hook_token cc = [] then raiseE (ControlError ''hook-only workspace operation requires hook token'')
      else cc_request cc [(''op'', JStr opname), (''path'', JStr path), (''hook_session'', JStr hook_session),
             (''hook_token'', JStr (cc_hook_token cc))])"

definition cc_add_workspace :: "'h control_client \<Rightarrow> string \<Rightarrow> string \<Rightarrow> ('h, pydict) eff" where
  "cc_add_workspace cc = hook_workspace_request cc ''turn-add-workspace''"

definition cc_remove_workspace :: "'h control_client \<Rightarrow> string \<Rightarrow> string \<Rightarrow> ('h, pydict) eff" where
  "cc_remove_workspace cc = hook_workspace_request cc ''turn-remove-workspace''"

section \<open>What is printed\<close>

definition newline_char :: char where "newline_char = CHR 0x0A"

definition line :: "string \<Rightarrow> string" where "line s = s @ [newline_char]"

definition path_lines :: "string list \<Rightarrow> string" where
  "path_lines paths = concat (map (\<lambda>p. line (''  - '' @ p)) paths)"

definition count_text :: "'a list \<Rightarrow> string" where "count_text xs = show_nat (length xs)"

text \<open>\<open>list(resp.get(k) or [])\<close>: the strings of a field.\<close>

definition paths_at :: "pydict \<Rightarrow> string \<Rightarrow> string list result" where
  "paths_at resp key = (let v = get_default resp key JNull in if truthy v then as_strs v else Inr [])"

definition default_keep_summary :: "string list \<Rightarrow> string list \<Rightarrow> string" where
  "default_keep_summary committed kept = line (''committed ('' @ count_text committed @ ''), kept local ('' @ count_text kept @ '')'')"

definition action_label :: "string \<Rightarrow> string" where
  "action_label action =
     (if action = ''set'' then ''set'' else if action = ''add'' then ''added'' else if action = ''remove'' then ''removed'' else ''updated'')"

definition workspace_update_text :: "string \<Rightarrow> string \<Rightarrow> string list \<Rightarrow> string" where
  "workspace_update_text action workspace workspaces =
     line (''workspace '' @ action_label action @ '': '' @ workspace) @
     line (''active workspaces: '' @ count_text workspaces) @ path_lines workspaces"

definition discarded_paths_text :: "string list \<Rightarrow> string list \<Rightarrow> bool \<Rightarrow> string" where
  "discarded_paths_text paths stale details =
     (if paths \<noteq> [] then line (''discarded '' @ count_text paths @ '' path(s) from BranchFS'') @ (if details then path_lines paths else []) else []) @
     (if stale \<noteq> [] then line (''already absent/stale path(s): '' @ count_text stale) @ (if details then path_lines stale else []) else []) @
     (if paths = [] \<and> stale = [] then line ''no matching live BranchFS changes to discard'' else [])"

definition joined :: "string list \<Rightarrow> string" where "joined paths = join_with '','' paths"

definition kept_status_text :: "string list \<Rightarrow> string list \<Rightarrow> string list \<Rightarrow> string list \<Rightarrow> bool \<Rightarrow> string" where
  "kept_status_text committed kept stale committed_stale details =
     line (''ccc-agent: committed='' @ count_text committed @ '' kept='' @ count_text kept @ '' stale='' @
           show_nat (length stale + length committed_stale)) @
     (if committed \<noteq> [] \<and> details then line ''committed this live BranchFS session:'' @ path_lines committed else []) @
     (if kept = [] then line ''ccc-agent: no kept non-workspace paths are currently live''
      else line ''ccc-agent: resolve all with: ccc-agent turn-resolve <commit|discard|keep> --all-kept'' @
        (if \<not> details then line ''ccc-agent: list paths only if needed: ccc-agent turn-kept-status --details''
         else line ''kept non-workspace paths (not committed to real storage):'' @ path_lines kept @
              line (''resolve selected with: ccc-agent turn-resolve commit --paths '' @ joined kept) @
              line (''or: ccc-agent turn-resolve discard --paths '' @ joined kept))) @
     (if committed_stale \<noteq> [] \<and> details
      then line ''remembered committed paths no longer present as live changes:'' @ path_lines committed_stale else []) @
     (if stale \<noteq> [] \<and> details then line ''remembered kept paths no longer present as live changes:'' @ path_lines stale else [])"

definition kept_review_text :: "string list \<Rightarrow> bool \<Rightarrow> string" where
  "kept_review_text kept details =
     (if kept = [] then line ''ccc-agent: no kept non-workspace paths need review''
      else line (''ccc-agent: '' @ count_text kept @ '' kept non-workspace path(s) pending.'') @
        line ''ccc-agent: ask user: commit, discard, or keep pending; then run ccc-agent turn-resolve <commit|discard|keep> --all-kept'' @
        (if \<not> details then line ''ccc-agent: list paths only if needed: ccc-agent turn-kept-status --details''
         else line ''kept non-workspace paths (not committed to real storage):'' @ path_lines kept @
              line ''selected-path commands:'' @
              line (''    ccc-agent turn-resolve commit --paths '' @ joined kept) @
              line (''    ccc-agent turn-resolve discard --paths '' @ joined kept) @
              line (''    ccc-agent turn-resolve keep --paths '' @ joined kept)))"

definition kept_paths_text :: "string list \<Rightarrow> bool \<Rightarrow> string" where
  "kept_paths_text paths details =
     line (''kept '' @ count_text paths @ '' path(s) pending (not committed)'') @
     (if details \<and> paths \<noteq> []
      then line ''kept in branch only (not committed to real storage):'' @ path_lines paths @
           line (''resolve later with: ccc-agent turn-resolve commit --paths '' @ joined paths) @
           line (''or: ccc-agent turn-resolve discard --paths '' @ joined paths)
      else [])"

definition denied_text :: "string list \<Rightarrow> string" where
  "denied_text denied = (if denied = [] then [] else line ''could not write due to permission denied:'' @ path_lines denied)"

text \<open>\<open>--paths a,b\<close>: no list when the option is missing or empty.\<close>

definition split_csv_paths :: "string option \<Rightarrow> string list option" where
  "split_csv_paths value =
     (case value of None \<Rightarrow> None | Some v \<Rightarrow> if v = [] then None else Some (filter (\<lambda>p. p \<noteq> []) (split_on (CHR '','') v)))"


section \<open>The command\<close>

text \<open>The parsed arguments; only the fields of the command at hand are read.  The time of \<open>--default-keep-after\<close> is in milliseconds.\<close>

record turn_args =
  ta_cmd :: string
  ta_default_keep :: bool
  ta_default_keep_after :: "int option"
  ta_token :: string
  ta_decision :: string
  ta_paths :: "string option"
  ta_commit :: "string option"
  ta_keep :: "string option"
  ta_discard :: "string option"
  ta_path :: "string option"
  ta_hook_session :: "string option"
  ta_all_kept :: bool
  ta_details :: bool

text \<open>The other side of the socket, and what was printed.\<close>

record 'h command_state =
  ck_side :: 'h
  ck_out :: string
  ck_err :: string

type_synonym ('h, 'a) command = "('h command_state, 'a) eff"

definition on_side :: "('h, 'a) eff \<Rightarrow> ('h, 'a) command" where
  "on_side m = zoomE ck_side (\<lambda>h k. k\<lparr>ck_side := h\<rparr>) m"

definition say :: "string \<Rightarrow> ('h, unit) command" where "say s = modE (\<lambda>k. k\<lparr>ck_out := ck_out k @ s\<rparr>)"
definition complain :: "string \<Rightarrow> ('h, unit) command" where "complain s = modE (\<lambda>k. k\<lparr>ck_err := ck_err k @ s\<rparr>)"

definition turn_workspace_path :: "string \<Rightarrow> string option \<Rightarrow> string" where
  "turn_workspace_path cwd value =
     (let path = (case value of Some p \<Rightarrow> if p = [] then cwd else p | None \<Rightarrow> cwd)
      in if startswith path ''/'' then path else abspath cwd path)"

definition is_workspace_op :: "turn_args \<Rightarrow> bool" where
  "is_workspace_op a \<longleftrightarrow> ta_cmd a \<in> {''turn-add-workspace'', ''turn-remove-workspace''}"

text \<open>The request of the command.\<close>

definition resolve_paths :: "'h control_client \<Rightarrow> turn_args \<Rightarrow> ('h, json) eff" where
  "resolve_paths cc a =
     (if ta_all_kept a
      then bindE (cc_kept_status cc) (\<lambda>status. liftE (bindR (truthy_list (get_default status ''kept'' JNull)) (\<lambda>xs. Inr (JArr xs))))
      else retE (jstrs (case split_csv_paths (ta_paths a) of Some ps \<Rightarrow> ps | None \<Rightarrow> [])))"

definition turn_request :: "string \<Rightarrow> 'h control_client \<Rightarrow> turn_args \<Rightarrow> string \<Rightarrow> ('h, pydict) eff" where
  "turn_request cwd cc a hook_session =
     (if ta_cmd a = ''turn-finalize'' then cc_finalize_turn cc (ta_default_keep a)
      else if ta_cmd a = ''turn-kept-status'' then cc_kept_status cc
      else if ta_cmd a = ''turn-review-kept'' then cc_review_kept cc
      else if ta_cmd a = ''turn-approve''
      then cc_approve_turn cc (JStr (ta_token a)) (ta_decision a) (split_csv_paths (ta_paths a)) (split_csv_paths (ta_commit a))
             (split_csv_paths (ta_keep a)) (split_csv_paths (ta_discard a))
      else if ta_cmd a = ''turn-add-workspace'' then cc_add_workspace cc (turn_workspace_path cwd (ta_path a)) hook_session
      else if ta_cmd a = ''turn-remove-workspace'' then cc_remove_workspace cc (turn_workspace_path cwd (ta_path a)) hook_session
      else bindE (resolve_paths cc a) (cc_resolve_turn cc (ta_decision a)))"

section \<open>The answer\<close>

text \<open>What a committed, held or discarded turn prints.\<close>

definition gone_text :: "pydict \<Rightarrow> bool \<Rightarrow> string result" where
  "gone_text resp details =
     bindR (paths_at resp ''discarded'') (\<lambda>discarded.
       if discarded = [] then Inr [] else bindR (paths_at resp ''stale'') (\<lambda>stale. Inr (discarded_paths_text discarded stale details)))"

definition committed_text :: "pydict \<Rightarrow> bool \<Rightarrow> string result" where
  "committed_text resp details =
     bindR (as_strs (get_default resp ''committed'' (JArr []))) (\<lambda>committed.
     bindR (paths_at resp ''kept'') (\<lambda>kept.
     bindR (if kept = [] then paths_at resp ''held'' else Inr []) (\<lambda>held.
     bindR (paths_at resp ''permission_denied'') (\<lambda>denied.
     bindR (gone_text resp details) (\<lambda>gone.
       Inr (line (''committed '' @ count_text committed @ '' change(s)'' @
                  (if kept \<noteq> [] then '' (kept '' @ count_text kept @ '' in branch)''
                   else if held \<noteq> [] then '' (held '' @ count_text held @ '' for review)'' else [])) @
            denied_text denied @ (if kept = [] then [] else kept_paths_text kept details) @ gone))))))"

definition held_text :: "pydict \<Rightarrow> bool \<Rightarrow> string result" where
  "held_text resp details =
     bindR (paths_at resp ''permission_denied'') (\<lambda>denied.
     bindR (paths_at resp ''kept'') (\<lambda>kept.
     bindR (gone_text resp details) (\<lambda>gone.
       Inr (denied_text denied @
            (if kept = [] then []
             else line (''kept '' @ count_text kept @ '' path(s) in branch (not committed)'') @ kept_paths_text kept details) @ gone @
            (if kept = [] \<and> gone = [] then line ''changes held for review (not committed)'' else [])))))"

definition settled_text :: "pydict \<Rightarrow> bool \<Rightarrow> string result" where
  "settled_text resp details =
     (let verdict = get_default resp ''verdict'' JNull in
      if verdict = JStr VERDICT_COMMITTED then committed_text resp details
      else if verdict = JStr VERDICT_HELD then held_text resp details
      else if verdict = JStr VERDICT_DISCARDED
      then bindR (paths_at resp ''discarded'') (\<lambda>discarded. bindR (paths_at resp ''stale'') (\<lambda>stale.
             Inr (discarded_paths_text discarded stale details)))
      else Inr (line (if truthy verdict then py_str verdict else ''ok'')))"

definition approval_text :: "string list \<Rightarrow> string list \<Rightarrow> string \<Rightarrow> string" where
  "approval_text paths denied token =
     line (''ccc-agent: '' @ count_text paths @ '' change(s) are outside the agent workspace or out of policy and were NOT committed:'') @
     path_lines paths @
     (if denied = [] then []
      else line ''ccc-agent: additionally, these in-scope path(s) could not be written due to permission denied and were kept in BranchFS only:'' @
           path_lines denied) @
     line ''ccc-agent: ask the user how to handle these, then run ONE of:'' @
     concat (map (\<lambda>how. line (''    ccc-agent turn-approve '' @ token @ how))
       [[], '' keep'', '' discard'', '' --paths a,b'', '' --commit a --keep b --discard c'']) @
     line ''ccc-agent: if the user is unavailable and work should continue, run:'' @
     line (''    ccc-agent turn-approve '' @ token @ '' keep'') @
     line ''ccc-agent: kept paths can later be resolved with:'' @
     line ''    ccc-agent turn-resolve commit --paths a,b'' @ line ''    ccc-agent turn-resolve discard --paths c''"

definition say_settled :: "turn_args \<Rightarrow> pydict \<Rightarrow> ('h, int) command" where
  "say_settled a resp = bindE (liftE (settled_text resp (ta_details a))) (\<lambda>s. seqE (say s) (retE 0))"

text \<open>The supervisor asks: the agent is told to go on (2), or after the given time its paths are kept.\<close>

definition needs_approval :: "'h control_client \<Rightarrow> turn_args \<Rightarrow> pydict \<Rightarrow> ('h, int) command" where
  "needs_approval cc a resp =
     (let token = get_default resp ''approval_token'' JNull in
      bindE (liftE (as_strs (get_default resp ''out_of_scope'' (JArr [])))) (\<lambda>paths.
      bindE (liftE (paths_at resp ''permission_denied'')) (\<lambda>denied.
      seqE (complain (approval_text paths denied (py_str token)))
     (case ta_default_keep_after a of
        None \<Rightarrow> retE 2
      | Some after \<Rightarrow>
          seqE (whenE (after > 0) (complain (line ''ccc-agent: no decision in time will default to keep-in-branch/non-commit'')))
         (bindE (tryE (on_side (cc_approve_turn cc token ''keep'' None None None None))) (\<lambda>answer. case answer of
            Inr resp' \<Rightarrow> say_settled a resp'
          | Inl e \<Rightarrow> (case e of
              ControlError m \<Rightarrow> seqE (complain (line (''ccc-agent: pending turn was not auto-kept, possibly already resolved: '' @ m))) (retE 0)
            | _ \<Rightarrow> raiseE e)))))))"

definition turn_answer :: "'h control_client \<Rightarrow> turn_args \<Rightarrow> pydict \<Rightarrow> ('h, int) command" where
  "turn_answer cc a resp =
     (let verdict = get_default resp ''verdict'' JNull in
      if ta_cmd a = ''turn-finalize'' \<and> ta_default_keep a \<and> verdict \<noteq> JStr VERDICT_NEEDS_APPROVAL
      then bindE (liftE (paths_at resp ''committed'')) (\<lambda>committed.
           bindE (liftE (paths_at resp (if get_default resp ''kept'' JNull = JNull then ''held'' else ''kept''))) (\<lambda>kept.
           seqE (say (default_keep_summary committed kept)) (retE 0)))
      else if verdict = JStr VERDICT_KEPT_STATUS
      then bindE (liftE (paths_at resp ''committed'')) (\<lambda>committed. bindE (liftE (paths_at resp ''kept'')) (\<lambda>kept.
           bindE (liftE (paths_at resp ''stale'')) (\<lambda>stale. bindE (liftE (paths_at resp ''committed_stale'')) (\<lambda>gone.
           seqE (say (kept_status_text committed kept stale gone (ta_details a))) (retE 0)))))
      else if verdict = JStr VERDICT_NEEDS_KEPT_REVIEW
      then bindE (liftE (paths_at resp ''kept'')) (\<lambda>kept. seqE (complain (kept_review_text kept (ta_details a))) (retE 2))
      else if verdict = JStr VERDICT_WORKSPACE_PROPOSED
      then seqE (say (line (''workspace proposed: '' @
                   (let w = get_default resp ''workspace'' JNull in if truthy w then py_str w else ''(unknown)'')) @
                 line ''not active commit scope; awaiting authenticated client roots'')) (retE 0)
      else if verdict = JStr VERDICT_WORKSPACE_UPDATED
      then bindE (liftE (paths_at resp ''workspaces'')) (\<lambda>workspaces.
           let act = get_default resp ''action'' JNull; w = get_default resp ''workspace'' JNull in
           seqE (say (workspace_update_text (if truthy act then py_str act else ''update'')
                        (if truthy w then py_str w else ''(unknown)'') workspaces)) (retE 0))
      else if verdict = JStr VERDICT_NEEDS_APPROVAL then needs_approval cc a resp
      else say_settled a resp)"

text \<open>The whole command: without a socket or a token it only complains.\<close>

definition ctl_socket :: "string \<Rightarrow> environ \<Rightarrow> 'h channel \<Rightarrow> turn_args \<Rightarrow> ('h, int) command" where
  "ctl_socket cwd e channel a =
     (let failed = (if is_workspace_op a then 1 else 0) in
      case (env_value e ''CCC_AGENT_CONTROL_SOCK'', env_value e ''CCC_AGENT_CONTROL_TOKEN'') of
        (Some socket, Some token) \<Rightarrow>
          (let hook_token = (case env_value e ''CCC_AGENT_HOOK_TOKEN'' of Some t \<Rightarrow> t | None \<Rightarrow> []);
               hook_session = or_string (ta_hook_session a) (case env_value e ''CCC_AGENT_HOOK_SESSION'' of Some t \<Rightarrow> t | None \<Rightarrow> []);
               cc = \<lparr>cc_channel = channel, cc_token = token, cc_hook_token = (if is_workspace_op a then hook_token else [])\<rparr>
           in if is_workspace_op a \<and> (hook_token = [] \<or> hook_session = [])
              then seqE (complain (line (''ccc-agent: hook-only workspace command requires CCC_AGENT_HOOK_TOKEN and --agent-session'' @
                     '' or CCC_AGENT_HOOK_SESSION''))) (retE 1)
              else bindE (tryE (on_side (turn_request cwd cc a hook_session))) (\<lambda>answer. case answer of
                     Inr resp \<Rightarrow> turn_answer cc a resp
                   | Inl err \<Rightarrow> (case err of
                       ControlError m \<Rightarrow> seqE (complain (line (''ccc-agent: control error: '' @ m))) (retE failed)
                     | _ \<Rightarrow> raiseE err)))
      | _ \<Rightarrow> seqE (complain (line ''ccc-agent: no control socket; per-turn control unavailable (not inside a contained session)''))
                 (retE failed))"

end
