(* ===== verification/TurnCliFacts.thy ===== *)
theory TurnCliFacts
  imports TurnCli
begin

text \<open>
  What the exit status of a hook command means: the hook of the agent acts on nothing else.
\<close>

section \<open>Exit status\<close>

text \<open>Every way the command ends gives a status of which \<open>P\<close> holds.\<close>

definition exits :: "(int \<Rightarrow> bool) \<Rightarrow> ('s, int) eff \<Rightarrow> bool" where
  "exits P m \<longleftrightarrow> (\<forall>s c s'. m s = (Inr c, s') \<longrightarrow> P c)"

lemma exits_ret: "P c \<Longrightarrow> exits P (retE c)"
  by (simp add: exits_def retE_def)

lemma exits_raise: "exits P (raiseE e)"
  by (simp add: exits_def raiseE_def)

lemma exits_bind: "(\<And>x. exits P (f x)) \<Longrightarrow> exits P (bindE m f)"
  unfolding exits_def bindE_def by (auto split: prod.splits sum.splits)

lemma exits_seq: "exits P n \<Longrightarrow> exits P (seqE m n)"
  unfolding seqE_def by (rule exits_bind)

lemma exits_if: "(c \<Longrightarrow> exits P a) \<Longrightarrow> (\<not> c \<Longrightarrow> exits P b) \<Longrightarrow> exits P (if c then a else b)"
  by simp

lemmas exits_intros = exits_ret exits_raise exits_bind exits_seq exits_if

lemma exits_settled: "exits (\<lambda>c. c = 0) (say_settled a resp)"
  unfolding say_settled_def by (intro exits_intros) simp

lemma exits_weaken: "exits P m \<Longrightarrow> (\<And>c. P c \<Longrightarrow> Q c) \<Longrightarrow> exits Q m"
  by (simp add: exits_def)

text \<open>When the supervisor's answer makes the agent go on.\<close>

definition asks_agent :: "turn_args \<Rightarrow> pydict \<Rightarrow> bool" where
  "asks_agent a resp \<longleftrightarrow>
     (let verdict = get_default resp ''verdict'' JNull in
      verdict = JStr VERDICT_NEEDS_KEPT_REVIEW \<or> verdict = JStr VERDICT_NEEDS_APPROVAL \<and> ta_default_keep_after a = None)"

lemma exits_needs_approval: "exits (\<lambda>c. c = 0 \<or> c = 2 \<and> ta_default_keep_after a = None) (needs_approval cc a resp)"
  unfolding needs_approval_def Let_def
  by (intro exits_intros; cases "ta_default_keep_after a")
    (auto intro!: exits_intros exits_weaken [OF exits_settled] split: sum.split pyexn.split)

lemma exits_turn_answer: "exits (\<lambda>c. c = 0 \<or> c = 2 \<and> asks_agent a resp) (turn_answer cc a resp)"
  unfolding turn_answer_def Let_def
  by (intro exits_intros) (auto simp: asks_agent_def Let_def intro: exits_weaken [OF exits_settled] exits_weaken [OF exits_needs_approval])

section \<open>Properties\<close>

text \<open>C12. A hook stops the agent only on the supervisor's word: whatever the socket answers, a command that ends has status 0, or 1 for a
  workspace command, or 2, and 2 only when the supervisor answered that kept paths need a review or that paths need an
  approval for which no time was set after which they are kept.\<close>

theorem hook_blocks_only_when_asked:
  assumes "ctl_socket cwd e channel a k = (Inr code, k')"
  shows "code = 0 \<or> code = 1 \<and> is_workspace_op a \<or>
    code = 2 \<and> (\<exists>cc session resp h. turn_request cwd cc a session (ck_side k) = (Inr resp, h) \<and> cc_channel cc = channel \<and> asks_agent a resp)"
proof -
  show ?thesis
  proof (cases "env_value e ''CCC_AGENT_CONTROL_SOCK'' = None \<or> env_value e ''CCC_AGENT_CONTROL_TOKEN'' = None")
    case True
    then show ?thesis using assms unfolding ctl_socket_def
      by (auto simp: seqE_def bindE_def complain_def modE_def retE_def split: option.splits if_splits)
  next
    case False
    then obtain socket token where t: "env_value e ''CCC_AGENT_CONTROL_SOCK'' = Some socket" "env_value e ''CCC_AGENT_CONTROL_TOKEN'' = Some token"
      by auto
    let ?hook = "case env_value e ''CCC_AGENT_HOOK_TOKEN'' of Some t \<Rightarrow> t | None \<Rightarrow> []"
    let ?session = "or_string (ta_hook_session a) (case env_value e ''CCC_AGENT_HOOK_SESSION'' of Some t \<Rightarrow> t | None \<Rightarrow> [])"
    let ?cc = "\<lparr>cc_channel = channel, cc_token = token, cc_hook_token = (if is_workspace_op a then ?hook else [])\<rparr>"
    let ?answer = "turn_request cwd ?cc a ?session (ck_side k)"
    show ?thesis
    proof (cases "is_workspace_op a \<and> (?hook = [] \<or> ?session = [])")
      case True
      then show ?thesis using assms unfolding ctl_socket_def t option.case prod.case Let_def
        by (simp add: seqE_def bindE_def complain_def modE_def retE_def)
    next
      case False
      then have run: "ctl_socket cwd e channel a k =
          bindE (tryE (on_side (turn_request cwd ?cc a ?session))) (\<lambda>answer. case answer of
             Inr resp \<Rightarrow> turn_answer ?cc a resp
           | Inl err \<Rightarrow> (case err of
               ControlError m \<Rightarrow> seqE (complain (line (''ccc-agent: control error: '' @ m))) (retE (if is_workspace_op a then 1 else 0))
             | _ \<Rightarrow> raiseE err)) k"
        unfolding ctl_socket_def t option.case prod.case Let_def by (simp only: if_False)
      obtain r h where r: "?answer = (r, h)" by (cases ?answer)
      then have tried: "tryE (on_side (turn_request cwd ?cc a ?session)) k = (Inr r, k\<lparr>ck_side := h\<rparr>)"
        by (simp add: tryE_def on_side_def zoomE_def split: sum.split)
      show ?thesis
      proof (cases r)
        case (Inr resp)
        then have "turn_answer ?cc a resp (k\<lparr>ck_side := h\<rparr>) = (Inr code, k')"
          using assms unfolding run by (simp add: bindE_def tried)
        then have "code = 0 \<or> code = 2 \<and> asks_agent a resp" using exits_turn_answer unfolding exits_def by blast
        then show ?thesis using r Inr by (metis control_client.select_convs(1))
      next
        case (Inl err)
        then show ?thesis using assms unfolding run
          by (auto simp: bindE_def tried seqE_def complain_def modE_def retE_def raiseE_def split: pyexn.splits if_splits)
      qed
    qed
  qed
qed


text \<open>A socket that cannot be reached is not a control error: the command raises, although it is to degrade safely.\<close>

lemma unreachable_socket_raises:
  assumes "env_value e ''CCC_AGENT_CONTROL_SOCK'' = Some socket" "env_value e ''CCC_AGENT_CONTROL_TOKEN'' = Some token"
    and "ta_cmd a = ''turn-kept-status''" "\<And>req h. channel req h = (Inl (OSError msg), h)"
  shows "fst (ctl_socket cwd e channel a k) = Inl (OSError msg)"
proof -
  have w: "\<not> is_workspace_op a" using assms(3) by (simp add: is_workspace_op_def)
  have "turn_request cwd cc a session h = (Inl (OSError msg), h)" if "cc_channel cc = channel" for cc session h
    using assms(3,4) that by (simp add: turn_request_def cc_kept_status_def cc_request_def bindE_def)
  then show ?thesis
    unfolding ctl_socket_def assms(1,2) option.case prod.case Let_def
    by (simp add: w bindE_def tryE_def on_side_def zoomE_def raiseE_def)
qed

section \<open>A concrete command\<close>

definition hook_env :: environ where
  "hook_env = [(''CCC_AGENT_CONTROL_SOCK'', ''/c/sock''), (''CCC_AGENT_CONTROL_TOKEN'', ''tok'')]"

definition finalize_args :: turn_args where
  "finalize_args = \<lparr>ta_cmd = ''turn-finalize'', ta_default_keep = False, ta_default_keep_after = None, ta_token = [], ta_decision = [],
     ta_paths = None, ta_commit = None, ta_keep = None, ta_discard = None, ta_path = None, ta_hook_session = None,
     ta_all_kept = False, ta_details = False\<rparr>"

definition asking_channel :: "pydict list channel" where
  "asking_channel req = seqE (modE (\<lambda>h. h @ [req])) (retE (JObj [(''ok'', JBool True), (''verdict'', JStr VERDICT_NEEDS_APPROVAL),
     (''out_of_scope'', JArr [JStr ''/etc/x'']), (''approval_token'', JStr ''t1'')]))"

lemma hook_blocks_only_when_asked_witness:
  "fst (ctl_socket ''/w'' hook_env asking_channel finalize_args \<lparr>ck_side = [], ck_out = [], ck_err = []\<rparr>) = Inr 2 \<and>
   (\<exists>cc session resp h. turn_request ''/w'' cc finalize_args session [] = (Inr resp, h) \<and>
      cc_channel cc = asking_channel \<and> asks_agent finalize_args resp)"
proof -
  let ?k = "\<lparr>ck_side = [], ck_out = [], ck_err = []\<rparr>"
  have "fst (ctl_socket ''/w'' hook_env asking_channel finalize_args ?k) = Inr 2" by code_simp
  then obtain k' where r: "ctl_socket ''/w'' hook_env asking_channel finalize_args ?k = (Inr 2, k')"
    by (cases "ctl_socket ''/w'' hook_env asking_channel finalize_args ?k") simp
  have "\<exists>cc session resp h. turn_request ''/w'' cc finalize_args session [] = (Inr resp, h) \<and>
      cc_channel cc = asking_channel \<and> asks_agent finalize_args resp"
    using hook_blocks_only_when_asked [OF r] unfolding command_state.select_convs by simp
  with r show ?thesis by simp
qed

end
