(* ===== verification/CliArgs.thy ===== *)
theory CliArgs
  imports Launch Sandbox Artifacts
begin

text \<open>
  From the command line to a run configuration (\<open>cli.py\<close>, lines 58-163, 911-1060, 1135-1160, 1209-1260
  and 1300-1360): the shell of the caller, the configuration file and the runtime it describes, the
  policy of a run, the constructor arguments of \<open>RunnerConfig\<close> for \<open>run\<close>, \<open>serve\<close> and \<open>resume\<close>, and the parts of
  the command line that are read before the argument parser.

  The argument parser itself is not modelled: its result is a record.  Reading the JSON of a file is an
  argument; \<open>SystemExit\<close> is a \<open>RuntimeError\<close> here, and a configured value of the wrong type raises \<open>TypeError\<close>.
\<close>

section \<open>The shell of the caller\<close>

definition KNOWN_SHELL_NAMES :: "string list" where
  "KNOWN_SHELL_NAMES = [''sh'', ''bash'', ''dash'', ''zsh'', ''fish'', ''ksh'', ''mksh'', ''pdksh'', ''tcsh'', ''csh'']"

definition is_shell_argv0 :: "string \<Rightarrow> bool" where
  "is_shell_argv0 value \<longleftrightarrow> lstrip (CHR ''-'') (basename value) \<in> set KNOWN_SHELL_NAMES"

text \<open>The first argument of a command line as \<open>/proc\<close> shows it.\<close>

definition first_argument :: "string result \<Rightarrow> string option" where
  "first_argument cmdline =
     (case cmdline of Inl _ \<Rightarrow> None
      | Inr s \<Rightarrow> (let a = hd (split_on (CHR 0x00) s) in if a = [] then None else Some a))"

text \<open>The command line and the executable of the parent process, when they can be read.\<close>

definition parent_shell_command :: "string result \<Rightarrow> string result \<Rightarrow> string list option" where
  "parent_shell_command cmdline exe =
     (let other = (case exe of Inr x \<Rightarrow> if x \<noteq> [] \<and> is_shell_argv0 x then Some [x] else None | Inl _ \<Rightarrow> None) in
      case first_argument cmdline of
        Some a \<Rightarrow>
          if is_shell_argv0 a
          then Some [if startswith (basename a) ''-'' then lstrip (CHR ''-'') (basename a) else a]
          else other
      | None \<Rightarrow> other)"

definition current_shell_command :: "string result \<Rightarrow> string result \<Rightarrow> environ \<Rightarrow> string list" where
  "current_shell_command cmdline exe e =
     (case parent_shell_command cmdline exe of
        Some c \<Rightarrow> c
      | None \<Rightarrow> (case env_value e ''SHELL'' of Some s \<Rightarrow> [s] | None \<Rightarrow> [''/bin/sh'']))"

section \<open>The configuration\<close>

definition CONFIG_PATHS :: "string list" where
  "CONFIG_PATHS = [''/etc/ccc-agent/config.json'', ''/opt/ccc-agent/config/config.json'']"

definition config_candidates :: "string option \<Rightarrow> environ \<Rightarrow> string list" where
  "config_candidates path e =
     (case path of Some p \<Rightarrow> if p = [] then [] else [p] | None \<Rightarrow> []) @
     (case env_value e ''CCC_AGENT_CONFIG'' of Some p \<Rightarrow> [p] | None \<Rightarrow> []) @ CONFIG_PATHS"

definition load_config :: "(string \<Rightarrow> json result) \<Rightarrow> fs \<Rightarrow> string option \<Rightarrow> environ \<Rightarrow> pydict result" where
  "load_config loads fs path e =
     (case List.find (isfile fs) (config_candidates path e) of
        Some p \<Rightarrow>
          bindR (read_file fs p) (\<lambda>t. bindR (loads t) (\<lambda>v. bindR (as_obj v) (\<lambda>config.
            Inr (if dict_has config ''_source'' then config else dict_set config ''_source'' (JStr p)))))
      | None \<Rightarrow> Inl (RuntimeError (''ccc-agent: no config found (tried: '' @ join_with '', '' (config_candidates path e) @ '')'')))"

text \<open>What a configuration describes; the binary of BranchFS is found by another module when it is not configured.\<close>

record cli_runtime =
  rt_state_dir :: string
  rt_fake_backend :: bool
  rt_branchfs :: "string option"
  rt_timeout :: json
  rt_user :: string
  rt_aliases :: alias_map
  rt_roots :: "root_spec list"

definition opt_string :: "json \<Rightarrow> string option result" where
  "opt_string v = (if v = JNull then Inr None else bindR (as_str v) (\<lambda>s. Inr (Some s)))"

definition strings_at :: "pydict \<Rightarrow> string \<Rightarrow> string list result" where
  "strings_at d key = as_strs (get_default d key (JArr []))"

definition root_spec_of :: "json \<Rightarrow> root_spec result" where
  "root_spec_of v =
     bindR (as_obj v) (\<lambda>r.
     bindR (bindR (get_item r ''name'') as_str) (\<lambda>name.
     bindR (bindR (get_item r ''base'') as_str) (\<lambda>base.
     bindR (bindR (get_item r ''store'') as_str) (\<lambda>store.
     bindR (bindR (get_item r ''visible'') as_str) (\<lambda>visible.
     bindR (opt_string (get_default r ''home_subdir'' JNull)) (\<lambda>home.
     bindR (opt_string (get_default r ''mount'' JNull)) (\<lambda>mount.
     bindR (strings_at r ''hide_paths'') (\<lambda>hide.
       Inr \<lparr>rs_name = name, rs_base = base, rs_store = store, rs_visible = visible, rs_home_subdir = home, rs_mount = mount,
            rs_hide_paths = hide\<rparr>))))))))"

text \<open>The home directory and the name of the user come from the system.\<close>

definition build_runtime :: "string \<Rightarrow> string \<Rightarrow> pydict \<Rightarrow> cli_runtime result" where
  "build_runtime home login config =
     bindR (opt_string (get_default config ''state_dir'' JNull)) (\<lambda>state_dir.
     bindR (opt_string (get_default config ''branchfs_bin'' JNull)) (\<lambda>binary.
     bindR (opt_string (get_default config ''user'' JNull)) (\<lambda>user.
     bindR (as_str (get_default config ''home_subdir'' (JStr []))) (\<lambda>home_subdir.
     let user = or_string user login in
     bindR (for_home user home_subdir ''/storage/user'' ''/home'') (\<lambda>am.
     bindR (as_list (get_default config ''roots'' (JArr []))) (\<lambda>rs.
     bindR (mapR root_spec_of rs) (\<lambda>roots.
       if roots = [] then Inl (RuntimeError ''ccc-agent: config defines no protected roots'')
       else Inr \<lparr>rt_state_dir = or_string state_dir (path_join home ''.ccc-agent''),
              rt_fake_backend = (get_default config ''backend'' (JStr ''branchfs'') = JStr ''fake''),
              rt_branchfs = (case binary of Some b \<Rightarrow> if b = [] then None else Some b | None \<Rightarrow> None),
              rt_timeout = get_default config ''branchfs_timeout_seconds'' (JInt 30), rt_user = user, rt_aliases = am, rt_roots = roots\<rparr>)))))))"

definition container_run_access :: "pydict \<Rightarrow> bool \<Rightarrow> bool" where
  "container_run_access config full_isolation \<longleftrightarrow> truthy (get_default config ''container_run_access'' (JBool True)) \<and> \<not> full_isolation"

section \<open>The policy of a run\<close>

text \<open>The parsed arguments of \<open>run\<close> and \<open>serve\<close>; the times are in milliseconds.\<close>

record launch_args =
  lx_config :: "string option"
  lx_workspace :: "string option"
  lx_policy :: string
  lx_scopes :: "string list"
  lx_hides :: "string list"
  lx_agent :: "string option"
  lx_protect_state :: bool
  lx_full_isolation :: bool
  lx_lifecycle :: string
  lx_bootstrap :: "int option"
  lx_stability :: "int option"
  lx_detach :: "int option"
  lx_verbose :: bool
  lx_command :: "string list"

text \<open>What is after the separator.\<close>

definition strip_separator :: "string list \<Rightarrow> string list" where
  "strip_separator command = (case command of c # cs \<Rightarrow> if c = ''--'' then cs else command | [] \<Rightarrow> [])"

definition given :: "string option \<Rightarrow> string list" where
  "given w = (case w of Some s \<Rightarrow> if s = [] then [] else [s] | None \<Rightarrow> [])"

definition run_policy :: "launch_args \<Rightarrow> pydict \<Rightarrow> string option \<Rightarrow> pydict result" where
  "run_policy a config workspace =
     bindR (as_obj (get_default config ''policy'' (JObj []))) (\<lambda>policy.
     bindR (as_list (get_default policy ''allowed_scopes'' (JArr []))) (\<lambda>scopes.
     bindR (as_list (get_default config ''hide_patterns'' (JArr []))) (\<lambda>hide1.
     bindR (as_list (get_default policy ''hide_patterns'' (JArr []))) (\<lambda>hide2.
     bindR (as_list (get_default policy ''ignore_patterns'' (JArr []))) (\<lambda>ignore.
       let base = [(''mode'', get_default policy ''mode'' (JStr (lx_policy a))),
             (''allowed_scopes'', JArr (map JStr (given workspace @ lx_scopes a) @ scopes)),
             (''workspace_scopes'', jstrs (given workspace)),
             (''hide_patterns'', JArr (map JStr (lx_hides a) @ hide1 @ hide2)),
             (''ignore_patterns'', JArr ignore),
             (''max_policy_repair_attempts'', get_default policy ''max_policy_repair_attempts'' (JInt 2))];
           deny = get_default policy ''deny_patterns'' JNull
       in Inr (if deny = JNull then base else dict_set base ''deny_patterns'' deny))))))"

section \<open>The constructor arguments\<close>

definition string_values :: "pydict \<Rightarrow> (string, string) dict result" where
  "string_values d = mapR (\<lambda>(k, v). bindR (as_str v) (\<lambda>s. Inr (k, s))) d"

definition opt_integer :: "json \<Rightarrow> int option result" where
  "opt_integer v = (if v = JNull then Inr None else bindR (as_int v) (\<lambda>n. Inr (Some n)))"

text \<open>A time given on the command line, or configured in whole seconds, or the default.\<close>

definition time_option :: "int option \<Rightarrow> pydict \<Rightarrow> string \<Rightarrow> int \<Rightarrow> int result" where
  "time_option chosen config key usual =
     (case chosen of
        Some t \<Rightarrow> Inr t
      | None \<Rightarrow> (case get_default config key JNull of
          JNull \<Rightarrow> if dict_has config key then Inl (TypeError ''float() argument must be a string or a number'') else Inr usual
        | v \<Rightarrow> bindR (as_int v) (\<lambda>n. Inr (n * 1000))))"

text \<open>What \<open>run\<close>, \<open>serve\<close> and \<open>resume\<close> take from the configuration alike.\<close>

definition configured_args :: "cli_runtime \<Rightarrow> pydict \<Rightarrow> bool \<Rightarrow> bool \<Rightarrow> config_args result" where
  "configured_args rt config full_isolation protect_state =
     bindR (as_str (get_default config ''confinement'' (JStr ''bwrap''))) (\<lambda>confinement.
     bindR (as_str (get_default config ''bwrap_bin'' (JStr ''bwrap''))) (\<lambda>bwrap_bin.
     bindR (as_str (get_default config ''bwrap_proc_mode'' (JStr ''bind''))) (\<lambda>proc_mode.
     bindR (strings_at config ''bwrap_ro_binds'') (\<lambda>ro_binds.
     bindR (bindR (truthy_dict (get_default config ''bwrap_setenv'' JNull)) string_values) (\<lambda>setenv.
     bindR (truthy_list (get_default config ''bwrap_unsetenv'' JNull)) (\<lambda>unsetenv.
     bindR (opt_string (get_default config ''mcp_client_hardening_library'' JNull)) (\<lambda>library.
     bindR (strings_at config ''cred_mounts'') (\<lambda>cred_mounts.
     bindR (strings_at config ''cred_mask'') (\<lambda>cred_mask.
     bindR (truthy_dict (get_default config ''cred_env'' JNull)) (\<lambda>cred_env.
     bindR (opt_integer (get_default config ''bwrap_uid'' JNull)) (\<lambda>uid.
     bindR (opt_integer (get_default config ''bwrap_gid'' JNull)) (\<lambda>gid.
     bindR (if get_default config ''agent_hook_mode'' JNull = JStr ''disabled'' then Inr []
            else truthy_dict (get_default config ''agent_plugins'' JNull)) (\<lambda>plugins.
     bindR (case get_default config ''agent_state_binds'' JNull of JNull \<Rightarrow> Inr None | v \<Rightarrow> bindR (as_strs v) (\<lambda>xs. Inr (Some xs))) (\<lambda>binds.
       Inr \<lparr>ca_owner = rt_user rt, ca_agent_kind = ''command'', ca_agent_command = [], ca_workspace = None, ca_policy = [],
         ca_roots = rt_roots rt, ca_launch_cwd = None, ca_completion = ''process-exit'', ca_confinement = confinement,
         ca_bwrap_bin = bwrap_bin, ca_proc_mode = proc_mode, ca_ro_binds = ro_binds, ca_setenv = setenv, ca_unsetenv = map py_str unsetenv,
         ca_per_turn = None, ca_run_access = container_run_access config full_isolation, ca_cred_mounts = cred_mounts,
         ca_cred_mask = cred_mask, ca_cred_env = cred_env, ca_uid = uid, ca_gid = gid, ca_plugins = plugins, ca_state_binds = binds,
         ca_protect_state = (protect_state \<or> truthy (get_default config ''protect_agent_state'' (JBool False))),
         ca_ensure_state = truthy (get_default config ''ensure_agent_state_dirs'' (JBool False)), ca_server_mode = False, ca_lifecycle = ''foreground'', ca_bootstrap = Inr 10000,
         ca_stability = Inr 200, ca_detach = Inr 2000, ca_library = library,
         ca_admission_roots = get_default config ''workspace_admission_roots'' JNull,
         ca_allow_root = get_default config ''allow_protected_root_workspace'' (JBool False),
         ca_routing = get_default config ''session_delta_routing'' (JBool False),
         ca_vendors = get_default config ''session_delta_routing_vendors'' (JArr [JStr ''codex'']),
         ca_require_existing = True\<rparr>))))))))))))))"

text \<open>\<open>run\<close> starts in the directory of the caller and makes it the workspace; \<open>serve\<close> keeps a workspace only when it is given.\<close>

definition launch_workspace :: "bool \<Rightarrow> string \<Rightarrow> launch_args \<Rightarrow> string option" where
  "launch_workspace server_mode cwd a = (if server_mode then lx_workspace a else Some (or_string (lx_workspace a) cwd))"

definition launch_kind :: "string option \<Rightarrow> launch_args \<Rightarrow> string" where
  "launch_kind serve_agent a =
     (case serve_agent of Some agent \<Rightarrow> remote_agent_kind agent | None \<Rightarrow> or_string (lx_agent a) ''command'')"

definition launch_config_args :: "cli_runtime \<Rightarrow> pydict \<Rightarrow> string option \<Rightarrow> string \<Rightarrow> string list \<Rightarrow> launch_args \<Rightarrow> config_args result" where
  "launch_config_args rt config serve_agent cwd command a =
     (let workspace = launch_workspace (serve_agent \<noteq> None) cwd a in
      bindR (run_policy a config workspace) (\<lambda>policy.
      bindR (configured_args rt config (lx_full_isolation a) (lx_protect_state a)) (\<lambda>ca.
        Inr (ca\<lparr>ca_agent_kind := launch_kind serve_agent a, ca_agent_command := command, ca_workspace := workspace,
          ca_policy := policy, ca_launch_cwd := Some (or_string (lx_workspace a) cwd),
          ca_server_mode := (serve_agent \<noteq> None), ca_lifecycle := lx_lifecycle a,
          ca_bootstrap := time_option (lx_bootstrap a) config ''adaptive_bootstrap_seconds'' 10000,
          ca_stability := time_option (lx_stability a) config ''adaptive_stability_seconds'' 200,
          ca_detach := time_option (lx_detach a) config ''adaptive_detach_seconds'' 2000,
          ca_require_existing := (given (lx_workspace a) \<noteq> [])\<rparr>))))"


section \<open>Before the parser\<close>

definition RUN_VALUE_OPTIONS :: "string list" where
  "RUN_VALUE_OPTIONS = [''--adaptive-bootstrap-seconds'', ''--adaptive-detach-seconds'', ''--adaptive-stability-seconds'', ''--agent'',
     ''--config'', ''--hide'', ''--lifecycle'', ''--policy'', ''--scope'', ''--workspace'']"

text \<open>Whether the old \<open>--serve\<close> option is among the options before the command.\<close>

fun run_uses_removed_serve_option :: "string list \<Rightarrow> bool" where
  "run_uses_removed_serve_option [] = False"
| "run_uses_removed_serve_option (token # rest) =
     (if token = ''--'' then False
      else if token = ''--serve'' \<or> startswith token ''--serve='' then True
      else if token \<in> set RUN_VALUE_OPTIONS then run_uses_removed_serve_option (tl rest)
      else if list_ex (\<lambda>opt. startswith token (opt @ ''='')) RUN_VALUE_OPTIONS then run_uses_removed_serve_option rest
      else if startswith token ''-'' then run_uses_removed_serve_option rest
      else False)"

text \<open>\<open>shlex.split\<close> of the standard library, in its POSIX mode: where the reader is, the word read so far, and whether a
  part of it was quoted.\<close>

datatype shlex_mode = Blank | InWord | Quoted char | Escaped "char option"

definition is_shlex_space :: "char \<Rightarrow> bool" where
  "is_shlex_space c \<longleftrightarrow> c \<in> {CHR '' '', CHR 0x09, CHR 0x0D, CHR 0x0A}"

definition is_quote :: "char \<Rightarrow> bool" where "is_quote c \<longleftrightarrow> c = CHR 0x27 \<or> c = CHR 0x22"

definition word_if :: "bool \<Rightarrow> string \<Rightarrow> string list" where "word_if seen w = (if w \<noteq> [] \<or> seen then [w] else [])"

definition cons_words :: "string list \<Rightarrow> string list result \<Rightarrow> string list result" where
  "cons_words ws r = bindR r (\<lambda>rest. Inr (ws @ rest))"

fun shlex :: "shlex_mode \<Rightarrow> string \<Rightarrow> bool \<Rightarrow> string \<Rightarrow> string list result" where
  "shlex (Quoted q) w seen [] = Inl (ValueError ''No closing quotation'')"
| "shlex (Escaped q) w seen [] = Inl (ValueError ''No escaped character'')"
| "shlex Blank w seen [] = Inr (word_if seen w)"
| "shlex InWord w seen [] = Inr (word_if seen w)"
| "shlex Blank w seen (c # cs) =
     (if is_shlex_space c then cons_words (word_if seen w) (shlex Blank [] False cs)
      else if c = CHR 0x5C then shlex (Escaped None) w seen cs
      else if is_quote c then shlex (Quoted c) w True cs
      else shlex InWord [c] seen cs)"
| "shlex InWord w seen (c # cs) =
     (if is_shlex_space c then cons_words (word_if seen w) (shlex Blank [] False cs)
      else if is_quote c then shlex (Quoted c) w True cs
      else if c = CHR 0x5C then shlex (Escaped None) w seen cs
      else shlex InWord (w @ [c]) seen cs)"
| "shlex (Quoted q) w seen (c # cs) =
     (if c = q then shlex InWord w seen cs
      else if c = CHR 0x5C \<and> q = CHR 0x22 then shlex (Escaped (Some q)) w seen cs
      else shlex (Quoted q) (w @ [c]) seen cs)"
| "shlex (Escaped q) w seen (c # cs) =
     (case q of
        None \<Rightarrow> shlex InWord (w @ [c]) seen cs
      | Some d \<Rightarrow> shlex (Quoted d) (w @ (if c \<noteq> CHR 0x5C \<and> c \<noteq> d then [CHR 0x5C, c] else [c])) seen cs)"

definition shlex_split :: "string \<Rightarrow> string list result" where
  "shlex_split s = shlex Blank [] False s"

definition split_resume_cmd_option :: "string \<Rightarrow> string list result" where
  "split_resume_cmd_option value =
     (case shlex_split value of
        Inl e \<Rightarrow> Inl (ValueError (''argument --cmd: '' @ exn_str e))
      | Inr [] \<Rightarrow> Inl (ValueError ''argument --cmd: expected a non-empty command'')
      | Inr command \<Rightarrow> Inr command)"

text \<open>\<open>--cmd\<close> among the options of \<open>resume\<close>: the arguments without it, and the command.\<close>

definition once :: "string list option \<Rightarrow> string \<Rightarrow> string list result" where
  "once command value =
     (if command \<noteq> None then Inl (ValueError ''argument --cmd: may only be specified once'') else split_resume_cmd_option value)"

definition cmd_value :: "string \<Rightarrow> string option" where
  "cmd_value token = (if startswith token ''--cmd='' then Some (drop 6 token) else None)"

fun scan_resume_cmd :: "string list option \<Rightarrow> string list \<Rightarrow> (string list \<times> string list option) result" where
  "scan_resume_cmd command [] = Inr ([], command)"
| "scan_resume_cmd command [token] =
     (if token = ''--cmd''
      then Inl (ValueError (if command \<noteq> None then ''argument --cmd: may only be specified once''
                            else ''argument --cmd: expected one command string''))
      else case cmd_value token of
          Some v \<Rightarrow> bindR (once command v) (\<lambda>c. Inr ([], Some c))
        | None \<Rightarrow> Inr ([token], command))"
| "scan_resume_cmd command (token # v # rest) =
     (if token = ''--cmd'' then bindR (once command v) (\<lambda>c. scan_resume_cmd (Some c) rest)
      else case cmd_value token of
          Some u \<Rightarrow> bindR (once command u) (\<lambda>c. scan_resume_cmd (Some c) (v # rest))
        | None \<Rightarrow> bindR (scan_resume_cmd command (v # rest)) (\<lambda>(remaining, c). Inr (token # remaining, c)))"

definition extract_resume_cmd_option :: "string list \<Rightarrow> (string list \<times> string list option) result" where
  "extract_resume_cmd_option argv =
     bindR (scan_resume_cmd None (takeWhile (\<lambda>t. t \<noteq> ''--'') argv)) (\<lambda>(remaining, command).
       Inr (remaining @ dropWhile (\<lambda>t. t \<noteq> ''--'') argv, command))"

section \<open>Resuming\<close>

text \<open>The parsed arguments of \<open>resume\<close>.\<close>

record resume_args =
  rx_config :: "string option"
  rx_agent :: "string option"
  rx_force :: bool
  rx_allow_failed :: bool
  rx_protect_state :: bool
  rx_full_isolation :: bool
  rx_verbose :: bool
  rx_session :: string
  rx_command :: "string list"

text \<open>The command given after the separator or by \<open>--cmd\<close>, not both.\<close>

definition resume_command :: "string list option \<Rightarrow> resume_args \<Rightarrow> string list result" where
  "resume_command cmd a =
     (let command = strip_separator (rx_command a) in
      case cmd of
        None \<Rightarrow> Inr command
      | Some c \<Rightarrow> if command \<noteq> []
          then Inl (RuntimeError ''argument --cmd: cannot be combined with a command after --'') else Inr c)"

definition resume_config_args :: "cli_runtime \<Rightarrow> pydict \<Rightarrow> session \<Rightarrow> string list \<Rightarrow> resume_args \<Rightarrow> config_args result" where
  "resume_config_args rt config existing command a =
     bindR (configured_args rt config (rx_full_isolation a) (rx_protect_state a)) (\<lambda>ca.
       Inr (ca\<lparr>ca_agent_kind := (case rx_agent a of Some k \<Rightarrow> k
                | None \<Rightarrow> if command \<noteq> [] then ''command'' else s_agent_kind existing),
         ca_agent_command := (if command = [] then s_agent_command existing else command),
         ca_workspace := s_workspace existing, ca_policy := s_policy existing\<rparr>))"

end
