(* ===== verification/CliMain.thy ===== *)
theory CliMain
  imports CliArgs RunSession Review TurnCli
begin

text \<open>
  The commands of \<open>cli.py\<close>: \<open>run\<close> and \<open>serve\<close> (\<open>_main_launch\<close>), \<open>resume\<close>, the operations on stored sessions
  (\<open>main_ctl\<close>) and the dispatch of the whole program, with their exit statuses.

  Each command works on the world whose store is the one of the configured state directory.  The
  parsed arguments are records; what is only printed is modelled where it is computed from the
  stored review (the label of a finished session) or the events (the details of a failure).
\<close>

section \<open>What a run reports\<close>

text \<open>The number of changes in the stored decision; \<open>None\<close> when it cannot be read.\<close>

definition review_total_changes :: "env \<Rightarrow> 'b world \<Rightarrow> session \<Rightarrow> int option" where
  "review_total_changes en w s =
     (case bindR (read_file (w_fs w) (path_join (review_dir (w_store w) (s_id s)) ''policy-decision.json'')) (\<lambda>t.
           bindR (en_loads en t) (\<lambda>v. bindR (as_obj v) (\<lambda>d. as_int (get_default d ''total_changes'' (JInt 0))))) of
        Inr n \<Rightarrow> Some n | Inl _ \<Rightarrow> None)"

definition auto_commit_finish_detail :: "int option \<Rightarrow> session \<Rightarrow> string" where
  "auto_commit_finish_detail count s =
     (if s_state s \<noteq> ''auto-committed'' then []
      else case count of None \<Rightarrow> []
        | Some n \<Rightarrow> if n = 0 then '' (no changes)''
            else '' ('' @ show_int n @ '' '' @ (if n = 1 then ''update'' else ''updates'') @ '' in workspace)'')"

definition pending_review_finish_detail :: "int option \<Rightarrow> session \<Rightarrow> string" where
  "pending_review_finish_detail count s =
     (if s_state s \<noteq> ''pending-review'' then []
      else case count of None \<Rightarrow> []
        | Some n \<Rightarrow> '' ('' @ show_int n @ '' '' @ (if n = 1 then ''change needs review)'' else ''changes need review)''))"

definition finish_state_label :: "env \<Rightarrow> 'b world \<Rightarrow> session \<Rightarrow> string" where
  "finish_state_label en w s =
     (let count = review_total_changes en w s
      in s_state s @ auto_commit_finish_detail count s @ pending_review_finish_detail count s)"

definition event_field :: "string \<Rightarrow> json \<Rightarrow> json" where
  "event_field k e = (case e of JObj d \<Rightarrow> get_default d k JNull | _ \<Rightarrow> JNull)"

definition event_text :: "string \<Rightarrow> json \<Rightarrow> string" where
  "event_text k e = (case event_field k e of JNull \<Rightarrow> [] | v \<Rightarrow> py_str v)"

definition failure_details :: "session_store \<Rightarrow> session \<Rightarrow> bool \<Rightarrow> string" where
  "failure_details st s verbose =
     (let errors = filter (\<lambda>e. event_field ''event'' e = JStr ''error'') (s_events s) in
      (if s_state s = ''failed''
       then (if errors \<noteq> []
             then concat (map (\<lambda>e. line (''ccc-agent: error: '' @
                    (case event_field ''detail'' e of JNull \<Rightarrow> ''(no detail recorded)'' | v \<Rightarrow> py_str v))) errors)
             else line ''ccc-agent: failed but no error detail was recorded; see the event log (-v) below'')
       else []) @
      (if verbose
       then line ''ccc-agent: event log:'' @
            concat (map (\<lambda>e. line (''  '' @ event_text ''time'' e @ ''  '' @ event_text ''event'' e @
                     (case event_field ''detail'' e of JNull \<Rightarrow> [] | v \<Rightarrow> '': '' @ py_str v))) (s_events s))
       else []) @
      (if s_state s = ''failed''
       then line (''ccc-agent: full record: '' @ session_file st (s_id s)) @
            line (''ccc-agent: inspect with: ccc-agent show '' @ s_id s)
       else []))"

text \<open>The exit status: 1 for a failed session, else the status of the agent.\<close>

definition exit_status_of :: "session \<Rightarrow> int" where
  "exit_status_of s = (if s_state s = ''failed'' then 1 else case s_exit_status s of Some n \<Rightarrow> n | None \<Rightarrow> 0)"

section \<open>Run and serve\<close>

text \<open>What a command finds on the host: how a launcher is made for a runtime and a configuration, the external \<open>patch\<close>,
  whether there is a terminal, the user, and what \<open>/proc\<close> shows of the parent.\<close>

record 'b commander =
  cm_launcher :: "cli_runtime \<Rightarrow> runner_config \<Rightarrow> 'b launcher"
  cm_patch :: "string \<Rightarrow> string \<Rightarrow> (fs, int) eff"
  cm_interactive :: bool
  cm_home :: string
  cm_login :: string
  cm_uid :: int
  cm_cmdline :: "string result"
  cm_exe :: "string result"

definition launcher_for :: "'b commander \<Rightarrow> cli_runtime \<Rightarrow> runner_config \<Rightarrow> ('b world, unit) eff \<Rightarrow> 'b launcher" where
  "launcher_for cm rt cf before = (cm_launcher cm rt cf)\<lparr>la_config := cf, la_before_finalize := before\<rparr>"

definition reviewer_for :: "'b commander \<Rightarrow> cli_runtime \<Rightarrow> env \<Rightarrow> 'b launcher \<Rightarrow> 'b reviewer" where
  "reviewer_for cm rt en L =
     \<lparr>rv_controller = \<lparr>ct_backend = la_backend L, ct_aliases = rt_aliases rt, ct_mountinfo = la_mountinfo L\<rparr>,
      rv_env = en, rv_patch = cm_patch cm, rv_interactive = cm_interactive cm\<rparr>"

text \<open>At the end of a run: a session that waits for its review is reviewed at once when \<open>ask\<close> holds.\<close>

definition finish_run :: "'b reviewer \<Rightarrow> bool \<Rightarrow> typed \<Rightarrow> ('b world, int prompt) eff" where
  "finish_run V ask typed =
     bindE the_session (\<lambda>s.
       if s_state s = ''pending-review'' \<and> ask
       then bindE (handle_pending_review_finish V s typed) (\<lambda>r. case r of
              Waiting \<Rightarrow> retE Waiting
            | Answered s' \<Rightarrow> retE (Answered (exit_status_of s')))
       else retE (Answered (exit_status_of s)))"

definition command_of :: "'b commander \<Rightarrow> environ \<Rightarrow> bool \<Rightarrow> launch_args \<Rightarrow> string list result" where
  "command_of cm e server_mode a =
     (let command = strip_separator (lx_command a) in
      if command \<noteq> [] then Inr command
      else if server_mode then Inl (RuntimeError ''a server command is required after --'')
      else Inr (current_shell_command (cm_cmdline cm) (cm_exe cm) e))"

definition read_runtime :: "'b commander \<Rightarrow> env \<Rightarrow> environ \<Rightarrow> string option \<Rightarrow> ('b world, pydict \<times> cli_runtime) eff" where
  "read_runtime cm en e path =
     readE (\<lambda>w. bindR (load_config (en_loads en) (w_fs w) path e) (\<lambda>config.
                bindR (build_runtime (cm_home cm) (cm_login cm) config) (\<lambda>rt. Inr (config, rt))))"

definition launch_config_of :: "'b commander \<Rightarrow> cli_runtime \<Rightarrow> pydict \<Rightarrow> string option \<Rightarrow> string list \<Rightarrow> launch_args \<Rightarrow>
    ('b world, runner_config) eff" where
  "launch_config_of cm rt config serve_agent command a =
     readE (\<lambda>w. bindR (launch_config_args rt config serve_agent (fs_cwd (w_fs w)) command a)
                  (make_runner_config (w_fs w) (cm_uid cm) (rt_aliases rt)))"

definition main_launch :: "'b commander \<Rightarrow> env \<Rightarrow> environ \<Rightarrow> string option \<Rightarrow> launch_args \<Rightarrow> typed \<Rightarrow> ('b world, int prompt) eff" where
  "main_launch cm en e serve_agent a typed =
     (let server_mode = (serve_agent \<noteq> None) in
      bindE (liftE (command_of cm e server_mode a)) (\<lambda>command.
      bindE (read_runtime cm en e (lx_config a)) (\<lambda>(config, rt).
      bindE (launch_config_of cm rt config serve_agent command a) (\<lambda>cf.
      let L0 = launcher_for cm rt cf (retE ());
          L = launcher_for cm rt cf (if server_mode then default_keep_before_finish (la_backend L0) en (rt_aliases rt) else retE ())
      in seqE (run_session L en e)
              (finish_run (reviewer_for cm rt en L) (env_value e ''CCC_AGENT_SESSION'' = None \<and> \<not> server_mode) typed)))))"

section \<open>Resume\<close>

text \<open>A refused resume is reported and ends with 1.\<close>

definition main_resume :: "'b commander \<Rightarrow> env \<Rightarrow> environ \<Rightarrow> string list option \<Rightarrow> resume_args \<Rightarrow> typed \<Rightarrow> ('b world, int prompt) eff" where
  "main_resume cm en e cmd a typed =
     bindE (liftE (resume_command cmd a)) (\<lambda>command.
     bindE (read_runtime cm en e (rx_config a)) (\<lambda>(config, rt).
     bindE (readE (\<lambda>w. forget_missing (store_load (en_now en) (w_store w) (rx_session a)))) (\<lambda>found. case found of
       None \<Rightarrow> retE (Answered 1)
     | Some existing \<Rightarrow>
         bindE (readE (\<lambda>w. bindR (resume_config_args rt config existing command a)
                             (make_runner_config (w_fs w) (cm_uid cm) (rt_aliases rt)))) (\<lambda>cf.
         let L = launcher_for cm rt cf (retE ()) in
         bindE (tryE (resume_session L en e (rx_session a) (rx_force a) (rx_allow_failed a))) (\<lambda>resumed. case resumed of
           Inl err \<Rightarrow> (case err of RuntimeError _ \<Rightarrow> retE (Answered 1) | _ \<Rightarrow> raiseE err)
         | Inr _ \<Rightarrow> finish_run (reviewer_for cm rt en L) True typed)))))"

section \<open>Stored sessions\<close>

definition batch_op :: "'b controller \<Rightarrow> env \<Rightarrow> string \<Rightarrow> string \<Rightarrow> ('b world, unit) eff" where
  "batch_op C en cmd sid =
     (if cmd = ''commit'' then ctl_commit C en sid False
      else if cmd = ''abort'' then ctl_abort C en sid
      else if cmd = ''thaw'' then ctl_thaw C en sid
      else if cmd = ''finish'' then ctl_finish C en sid
      else if cmd = ''turn-record'' then ctl_finish_turn en sid
      else raiseE (ControlError (''unsupported batch op: '' @ cmd)))"

text \<open>An operation on several sessions goes on after one is refused; the status says whether any was.\<close>

fun run_batch_session_op :: "'b controller \<Rightarrow> env \<Rightarrow> string \<Rightarrow> bool \<Rightarrow> string list \<Rightarrow> ('b world, int) eff" where
  "run_batch_session_op C en cmd failed [] = retE (if failed then 1 else 0)"
| "run_batch_session_op C en cmd failed (sid # sids) =
     bindE (tryE (batch_op C en cmd sid)) (\<lambda>r. case r of
       Inr _ \<Rightarrow> run_batch_session_op C en cmd failed sids
     | Inl e \<Rightarrow> (case e of ControlError _ \<Rightarrow> run_batch_session_op C en cmd True sids | _ \<Rightarrow> raiseE e))"

text \<open>The arguments of \<open>review\<close>, and what they ask for.\<close>

record review_args =
  ra_accept :: bool
  ra_reject :: bool
  ra_commit :: "string option"
  ra_emit_patch :: bool
  ra_apply_patch :: "string option"
  ra_include_ignored :: bool

datatype review_request = Choose review_choice | EmitPatch | Browse

definition review_request_of :: "review_args \<Rightarrow> review_request" where
  "review_request_of a =
     (if ra_accept a then Choose Accept
      else if ra_reject a then Choose Reject
      else if ra_emit_patch a then EmitPatch
      else if given (ra_apply_patch a) \<noteq> [] then Choose (ApplyPatch (the (ra_apply_patch a)))
      else case split_csv_paths (ra_commit a) of
             Some (p # ps) \<Rightarrow> Choose (CommitPaths (p # ps))
           | _ \<Rightarrow> Browse)"

definition review_command :: "'b reviewer \<Rightarrow> string \<Rightarrow> review_args \<Rightarrow> typed \<Rightarrow> ('b world, unit prompt) eff" where
  "review_command V sid a typed =
     (let en = rv_env V in
      case review_request_of a of
        Choose choice \<Rightarrow>
          seqE (ctl_review (rv_controller V) en (rv_patch V) sid choice (ra_include_ignored a)) (retE (Answered ()))
      | EmitPatch \<Rightarrow>
          seqE (ctl_load en sid)
         (seqE (require_state [''pending-review'', ''frozen''] ''review'')
         (seqE (ctl_changes (rv_controller V) (ra_include_ignored a)) (retE (Answered ()))))
      | Browse \<Rightarrow>
          seqE (ctl_load en sid)
         (seqE (require_state [''pending-review'', ''frozen''] ''review'')
         (bindE the_session (\<lambda>s.
          bindE (review_pending_session V s (ra_include_ignored a) True typed) (\<lambda>r. case r of
            Waiting \<Rightarrow> retE Waiting | Answered _ \<Rightarrow> retE (Answered ()))))))"

text \<open>The commands on stored sessions that do more than print: the others (\<open>show\<close>, \<open>status\<close>, \<open>diff\<close>) are not modelled.\<close>

datatype ctl_command =
    ListSessions string
  | Cleanup int bool bool
  | ReviewOne string review_args
  | Batch string "string list"
  | TurnCheck string

definition ctl_command_status :: "'b reviewer \<Rightarrow> int \<Rightarrow> ctl_command \<Rightarrow> typed \<Rightarrow> ('b world, int prompt) eff" where
  "ctl_command_status V now cmd typed =
     (let C = rv_controller V; en = rv_env V in
      case cmd of
        ListSessions start \<Rightarrow> bindE (readE (\<lambda>w. ctl_list (en_now en) (w_store w) start)) (\<lambda>_. retE (Answered 0))
      | Cleanup days dry_run all_types \<Rightarrow> seqE (ctl_cleanup C en days now dry_run all_types) (retE (Answered 0))
      | ReviewOne sid a \<Rightarrow> bindE (review_command V sid a typed) (\<lambda>r. case r of
            Waiting \<Rightarrow> retE Waiting | Answered _ \<Rightarrow> retE (Answered 0))
      | Batch name sids \<Rightarrow> bindE (run_batch_session_op C en name False sids) (\<lambda>n. retE (Answered n))
      | TurnCheck sid \<Rightarrow> bindE (check_before_final C en sid) (\<lambda>verdict. retE (Answered (if verdict = CHECK_REPAIR then 2 else 0))))"

definition main_ctl :: "'b reviewer \<Rightarrow> int \<Rightarrow> ctl_command \<Rightarrow> typed \<Rightarrow> ('b world, int prompt) eff" where
  "main_ctl V now cmd typed =
     catchE (ctl_command_status V now cmd typed) (\<lambda>e. case e of ControlError _ \<Rightarrow> retE (Answered 1) | _ \<Rightarrow> raiseE e)"

section \<open>Which command it is\<close>

text \<open>\<open>list --config X\<close> is read as \<open>--config X list\<close>.\<close>

definition config_first :: "string list \<Rightarrow> string list" where
  "config_first argv =
     (let before = takeWhile (\<lambda>t. t \<noteq> ''--config'') argv in
      case dropWhile (\<lambda>t. t \<noteq> ''--config'') argv of
        opt # value # rest \<Rightarrow> if before \<noteq> [] then [opt, value] @ before @ rest else argv
      | _ \<Rightarrow> argv)"

definition TURN_SOCKET_OPS :: "string list" where
  "TURN_SOCKET_OPS = [''turn-finalize'', ''turn-approve'', ''turn-resolve'', ''turn-kept-status'', ''turn-review-kept'',
     ''turn-add-workspace'', ''turn-remove-workspace'']"

definition SESSION_ID_CTL_OPS :: "string list" where
  "SESSION_ID_CTL_OPS = [''show'', ''status'', ''commit'', ''abort'', ''thaw'', ''finish'', ''turn-record'', ''turn-check'']"

definition BATCH_SESSION_ID_CTL_OPS :: "string list" where
  "BATCH_SESSION_ID_CTL_OPS = [''commit'', ''abort'', ''thaw'', ''finish'', ''turn-record'']"

definition CTL_OPS :: "string list" where
  "CTL_OPS = SESSION_ID_CTL_OPS @ TURN_SOCKET_OPS @ [''list'', ''ls'', ''cleanup'', ''diff'', ''review'']"

datatype entry =
    PrintVersion | PrintHelp | Complete "string list" | Completion "string list" | Run "string list" | Serve "string list"
  | Resume "string list" | Setup "string list" | McpServer "string list" | Softsandbox "string list" | Control "string list" | Unknown string

definition main_dispatch :: "string list \<Rightarrow> entry" where
  "main_dispatch argv =
     (case argv of
        [] \<Rightarrow> PrintHelp
      | opname # rest \<Rightarrow>
          if opname = ''--version'' then PrintVersion
          else if opname \<in> {''-h'', ''--help'', ''help''} then PrintHelp
          else if opname = ''__complete'' then Complete rest
          else if opname = ''completion'' then Completion rest
          else if opname \<in> {''run'', ''launch''} then Run rest
          else if opname = ''serve'' then Serve rest
          else if opname = ''resume'' then Resume rest
          else if opname = ''setup'' then Setup rest
          else if opname = ''mcp-server'' then McpServer rest
          else if opname = ''softsandbox'' then Softsandbox rest
          else if opname \<in> set CTL_OPS \<or> startswith opname ''-'' then Control argv
          else Unknown opname)"

end
