(* ===== verification/CliFacts.thy ===== *)
theory CliFacts
  imports CliMain CtlFacts
begin

text \<open>
  Properties of the commands: a server never reads the operator's input, the status of an operation on
  several sessions, and the command given to \<open>resume\<close> as one string.
\<close>

section \<open>Steps\<close>

lemma finish_run_silent: "finish_run V False typed = finish_run V False typed'"
  by (simp add: finish_run_def)

section \<open>Plain words\<close>

definition plain_char :: "char \<Rightarrow> bool" where
  "plain_char c \<longleftrightarrow> \<not> is_shlex_space c \<and> \<not> is_quote c \<and> c \<noteq> CHR 0x5C"

definition plain_word :: "string \<Rightarrow> bool" where
  "plain_word w \<longleftrightarrow> w \<noteq> [] \<and> list_all plain_char w"

lemma shlex_in_word: "list_all plain_char cs \<Longrightarrow> shlex InWord w seen (cs @ rest) = shlex InWord (w @ cs) seen rest"
  by (induction cs arbitrary: w) (simp_all add: plain_char_def)

lemma shlex_word:
  assumes "plain_word w"
  shows "shlex Blank [] False (w @ rest) = shlex InWord w False rest"
proof -
  obtain c cs where w: "w = c # cs" "plain_char c" "list_all plain_char cs"
    using assms by (cases w) (auto simp: plain_word_def)
  then show ?thesis using shlex_in_word [OF w(3), of "[c]"] by (simp add: plain_char_def)
qed

lemma shlex_words: "\<forall>w\<in>set ws. plain_word w \<Longrightarrow> shlex Blank [] False (join_with '' '' ws) = Inr ws"
proof (induction "'' ''" ws rule: join_with.induct)
  case (2 x)
  then show ?case using shlex_word [of x "[]"] by (simp add: plain_word_def word_if_def)
next
  case (3 x y ys)
  have "shlex Blank [] False (join_with '' '' (x # y # ys)) = shlex InWord x False ('' '' @ join_with '' '' (y # ys))"
    using shlex_word [of x] 3(2) by simp
  also have "\<dots> = cons_words [x] (shlex Blank [] False (join_with '' '' (y # ys)))"
    using 3(2) by (simp add: is_shlex_space_def word_if_def plain_word_def)
  finally show ?case using 3 by (simp add: cons_words_def)
qed (simp add: word_if_def)

section \<open>Options before the command\<close>

definition own_option :: "string \<Rightarrow> bool" where
  "own_option t \<longleftrightarrow> t \<noteq> ''--'' \<and> t \<noteq> ''--cmd'' \<and> cmd_value t = None"

lemma scan_own:
  "\<forall>t\<in>set before. own_option t \<Longrightarrow> scan_resume_cmd None (before @ [''--cmd'', v]) = bindR (once None v) (\<lambda>c. Inr (before, Some c))"
proof (induction before)
  case (Cons t ts)
  obtain x xs where x: "ts @ [''--cmd'', v] = x # xs" by (cases ts) auto
  have "scan_resume_cmd None (t # x # xs) = bindR (scan_resume_cmd None (x # xs)) (\<lambda>(remaining, c). Inr (t # remaining, c))"
    using Cons.prems by (simp add: own_option_def)
  then show ?case using Cons x by (cases "once None v") simp_all
qed (cases "once None v", simp_all)

section \<open>Properties\<close>

text \<open>A server never asks: what a \<open>serve\<close> command does, and a command inside another session, is the same whatever the
  operator types, so the stream of the wrapped protocol is never read for an answer.\<close>

theorem server_never_asks:
  assumes "serve_agent \<noteq> None \<or> env_value e ''CCC_AGENT_SESSION'' \<noteq> None"
  shows "main_launch cm en e serve_agent a typed = main_launch cm en e serve_agent a typed'"
proof -
  have "(env_value e ''CCC_AGENT_SESSION'' = None \<and> \<not> serve_agent \<noteq> None) = False" using assms by blast
  then show ?thesis unfolding main_launch_def Let_def by (simp only: finish_run_silent [of _ typed typed'])
qed

text \<open>The status of an operation on several sessions: it is 0 exactly when the operation succeeded on every one of them in turn,
  with the same final state; a session that is refused does not stop the others.\<close>

theorem batch_zero_iff_all:
  "run_batch_session_op C en cmd False sids w = (Inr 0, v) \<longleftrightarrow> forE (batch_op C en cmd) sids w = (Inr (), v)"
proof -
  have failed: "run_batch_session_op C en cmd True ss u = (Inr n, v) \<Longrightarrow> n = 1" for ss u n
    by (induction ss arbitrary: u)
      (auto simp: retE_def bindE_def tryE_def raiseE_def split: prod.splits sum.splits pyexn.splits)
  show ?thesis
  proof (induction sids arbitrary: w)
    case (Cons sid sids)
    obtain r u where r: "batch_op C en cmd sid w = (r, u)" by (cases "batch_op C en cmd sid w")
    show ?case
    proof (cases r)
      case (Inl e)
      then show ?thesis using r failed [of sids u 0]
        by (cases e) (auto simp: bindE_def seqE_def tryE_def raiseE_def)
    qed (simp add: r Cons bindE_def seqE_def tryE_def)
  qed (simp add: retE_def)
qed

text \<open>A resumed command may be given as one string: after the command's own options, \<open>--cmd\<close> with plain words joined by spaces
  is the command of these words, and the other options are left to the parser.\<close>

theorem cmd_option_words:
  assumes "ws \<noteq> []" "\<forall>w\<in>set ws. plain_word w" "ws \<noteq> [''--'']" "\<forall>t\<in>set before. own_option t"
  shows "extract_resume_cmd_option (before @ [''--cmd'', join_with '' '' ws]) = Inr (before, Some ws)"
proof -
  let ?v = "join_with '' '' ws"
  have split: "shlex_split ?v = Inr ws" using shlex_words assms(2) by (simp add: shlex_split_def)
  have dash: "shlex_split ''--'' = Inr [''--'']" by code_simp
  have "?v \<noteq> ''--''" using split dash assms(3) by (metis sum.inject(2))
  then have "\<forall>t\<in>set (before @ [''--cmd'', ?v]). t \<noteq> ''--''" using assms(4) by (auto simp: own_option_def)
  then have all: "takeWhile (\<lambda>t. t \<noteq> ''--'') (before @ [''--cmd'', ?v]) = before @ [''--cmd'', ?v]"
    "dropWhile (\<lambda>t. t \<noteq> ''--'') (before @ [''--cmd'', ?v]) = []"
    by (simp_all only: takeWhile_eq_all_conv dropWhile_eq_Nil_conv)
  have "once None ?v = Inr ws" using split assms(1) by (simp add: once_def split_resume_cmd_option_def split: list.split)
  then show ?thesis unfolding extract_resume_cmd_option_def all scan_own [OF assms(4)] by simp
qed

section \<open>Concrete commands\<close>

lemma cmd_option_words_witness:
  "extract_resume_cmd_option [''--force'', ''s1'', ''--cmd'', ''codex exec'']  = Inr ([''--force'', ''s1''], Some [''codex'', ''exec''])"
proof -
  have w: "join_with '' '' [''codex'', ''exec''] = ''codex exec''" by code_simp
  have "\<forall>w\<in>set [''codex'', ''exec'']. plain_word w" "\<forall>t\<in>set [''--force'', ''s1'']. own_option t"
  proof -
    have "list_all plain_word [''codex'', ''exec''] \<and> list_all own_option [''--force'', ''s1'']" by code_simp
    then show "\<forall>w\<in>set [''codex'', ''exec'']. plain_word w" "\<forall>t\<in>set [''--force'', ''s1'']. own_option t"
      unfolding list_all_iff by blast+
  qed
  from cmd_option_words [OF _ this(1) _ this(2)] show ?thesis unfolding w by simp
qed

lemma server_never_asks_witness:
  "\<forall>(cm :: fake commander) en e a. main_launch cm en e (Some ''claude'') a ([''y''], []) = main_launch cm en e (Some ''claude'') a ([], [])"
  by (intro allI server_never_asks) simp

end
