(* ===== verification/Completion.thy ===== *)
theory Completion
  imports CliMain
begin

text \<open>
  Shell completion (\<open>cli.py\<close>, lines 1975-2035 and 2051-2222): the words typed so far, the word of the
  cursor, and the candidates for it.  The stored sessions are read from the store of the world.
\<close>

section \<open>The commands and their options\<close>

definition MAIN_OPS :: "string list" where
  "MAIN_OPS = sort (remdups (CTL_OPS @ [''run'', ''serve'', ''resume'', ''setup'', ''mcp-server'', ''softsandbox'', ''completion'']))"

definition TOP_LEVEL_OPTIONS :: "string list" where "TOP_LEVEL_OPTIONS = [''--config'', ''--version'', ''--help'']"
definition CLEANUP_OPTIONS :: "string list" where
  "CLEANUP_OPTIONS = [''--older-than'', ''-o'', ''--all-type'', ''--all-types'', ''-a'', ''--dry-run'', ''--config'', ''--help'']"
definition DIFF_OPTIONS :: "string list" where "DIFF_OPTIONS = [''--show-ignored'', ''--show-file-diffs'', ''--config'', ''--help'']"
definition REVIEW_OPTIONS :: "string list" where
  "REVIEW_OPTIONS = [''--accept'', ''--reject'', ''--commit'', ''--emit-patch'', ''--apply-patch'', ''--show-ignored'', ''--show-file-diffs'',
     ''--include-ignored'', ''--config'', ''--help'']"
definition RESUME_OPTIONS :: "string list" where
  "RESUME_OPTIONS = [''--agent'', ''--cmd'', ''--allow-failed'', ''--force'', ''--full-isolation'', ''--protect-agent-state'', ''--verbose'',
     ''-v'', ''--config'', ''--help'']"
definition RUN_OPTIONS :: "string list" where
  "RUN_OPTIONS = [''--adaptive-bootstrap-seconds'', ''--adaptive-detach-seconds'', ''--adaptive-stability-seconds'', ''--agent'',
     ''--lifecycle'', ''--full-isolation'', ''--hide'', ''--policy'', ''--protect-agent-state'', ''--scope'', ''--verbose'', ''--workspace'',
     ''-v'', ''--config'', ''--help'']"
definition SERVE_OPTIONS :: "string list" where
  "SERVE_OPTIONS = filter (\<lambda>opt. opt \<notin> {''--agent'', ''--verbose'', ''-v''}) RUN_OPTIONS"

definition SESSION_ID_COMPLETION_OPS :: "string list" where
  "SESSION_ID_COMPLETION_OPS = SESSION_ID_CTL_OPS @ [''diff'', ''review'', ''list'', ''ls'', ''resume'']"

definition value_options_for_completion :: "string \<Rightarrow> string list" where
  "value_options_for_completion opname =
     [''--config''] @
     (if opname = ''cleanup'' then [''--older-than'', ''-o''] else []) @
     (if opname = ''review'' then [''--commit'', ''--apply-patch''] else []) @
     (if opname = ''resume'' then [''--agent'', ''--cmd''] else []) @
     (if opname = ''run'' then RUN_VALUE_OPTIONS else []) @
     (if opname = ''serve'' then filter (\<lambda>opt. opt \<noteq> ''--agent'') RUN_VALUE_OPTIONS else [])"

definition options_for_completion :: "string \<Rightarrow> string list" where
  "options_for_completion opname =
     (if opname = ''cleanup'' then CLEANUP_OPTIONS
      else if opname = ''diff'' then DIFF_OPTIONS
      else if opname = ''review'' then REVIEW_OPTIONS
      else if opname = ''resume'' then RESUME_OPTIONS
      else if opname = ''run'' then RUN_OPTIONS
      else if opname = ''serve'' then SERVE_OPTIONS
      else if opname = ''turn-finalize'' then [''--default-keep'', ''--default-keep-after'', ''--config'', ''--help'']
      else if opname \<in> set CTL_OPS \<or> opname \<in> {''launch'', ''setup'', ''softsandbox'', ''completion''} then [''--config'', ''--help'']
      else TOP_LEVEL_OPTIONS)"

section \<open>The words\<close>

definition matching :: "string list \<Rightarrow> string \<Rightarrow> string list" where
  "matching candidates start = filter (\<lambda>c. startswith c start) (sort candidates)"

definition pad_words :: "string list \<Rightarrow> nat \<Rightarrow> string list" where
  "pad_words ws cword = ws @ replicate (Suc cword - length ws) []"

text \<open>The words without the name of the program, and the index of the word of the cursor among them.\<close>

definition normalize_completion_words :: "string list \<Rightarrow> int \<Rightarrow> string list \<times> nat" where
  "normalize_completion_words ws cword =
     (let n = nat cword; padded = pad_words ws n in
      case padded of
        w # rest \<Rightarrow> if basename w = ''ccc-agent'' then (pad_words rest (n - 1), n - 1) else (padded, n)
      | [] \<Rightarrow> (padded, n))"

text \<open>The index of the command among the words.\<close>

fun first_command_from :: "nat \<Rightarrow> string list \<Rightarrow> nat option" where
  "first_command_from i [] = None"
| "first_command_from i (token # rest) =
     (if token = [] then Some i
      else if token = ''--config'' then first_command_from (i + 2) (tl rest)
      else if startswith token ''--config='' then first_command_from (i + 1) rest
      else if startswith token ''-'' then first_command_from (i + 1) rest
      else Some i)"

definition first_completion_command_index :: "string list \<Rightarrow> nat option" where
  "first_completion_command_index tokens = first_command_from 0 tokens"

definition config_value :: "string list \<Rightarrow> nat \<Rightarrow> nat \<Rightarrow> string option" where
  "config_value tokens cword i =
     (let token = tokens ! i in
      if token = ''--config'' \<and> i + 1 < length tokens
      then (if i + 1 \<noteq> cword \<and> tokens ! (i + 1) \<noteq> [] then Some (tokens ! (i + 1)) else None)
      else if startswith token ''--config='' \<and> drop 9 token \<noteq> [] then Some (drop 9 token)
      else None)"

definition completion_config_path :: "string list \<Rightarrow> nat \<Rightarrow> string option" where
  "completion_config_path tokens cword =
     fold (\<lambda>i found. case config_value tokens cword i of Some p \<Rightarrow> Some p | None \<Rightarrow> found) [0..<length tokens] None"

text \<open>The positional words between the command and the cursor, and whether the word of the cursor is the value of an option.\<close>

fun positionals_from :: "string list \<Rightarrow> nat \<Rightarrow> nat \<Rightarrow> string list \<Rightarrow> string list \<times> bool" where
  "positionals_from options i cword [] = ([], False)"
| "positionals_from options i cword (token # rest) =
     (if i \<ge> cword then ([], False)
      else if token \<in> set options
      then (if i + 1 = cword then ([], True) else positionals_from options (i + 2) cword (tl rest))
      else if list_ex (\<lambda>opt. startswith token (opt @ ''='')) options \<or> startswith token ''-''
      then positionals_from options (i + 1) cword rest
      else (case positionals_from options (i + 1) cword rest of (ps, v) \<Rightarrow> (token # ps, v)))"

definition positionals_before_completion_token :: "string list \<Rightarrow> nat \<Rightarrow> nat \<Rightarrow> string \<Rightarrow> string list \<times> bool" where
  "positionals_before_completion_token tokens cmd_idx cword opname =
     positionals_from (value_options_for_completion opname) (cmd_idx + 1) cword (drop (cmd_idx + 1) tokens)"

section \<open>The candidates\<close>

text \<open>The ids of the stored sessions that are not remote bridges; without a readable configuration or store there are none.\<close>

definition or_none :: "string list result \<Rightarrow> string list result" where
  "or_none r = (case r of Inr xs \<Rightarrow> Inr xs | Inl e \<Rightarrow> if is_os_error e \<or> is_value_error e then Inr [] else Inl e)"

definition session_id_completions :: "env \<Rightarrow> environ \<Rightarrow> 'b world \<Rightarrow> string \<Rightarrow> string option \<Rightarrow> string list result" where
  "session_id_completions en e w start config_path =
     (case load_config (en_loads en) (w_fs w) config_path e of
        Inl err \<Rightarrow> (case err of RuntimeError _ \<Rightarrow> Inr [] | _ \<Rightarrow> or_none (Inl err))
      | Inr config \<Rightarrow>
          or_none (bindR (store_list (en_now en) (w_store w)) (\<lambda>ss.
            Inr (sort (map s_id (filter (\<lambda>s. \<not> is_remote_bridge s \<and> startswith (s_id s) start) ss))))))"

definition complete_command :: "string list \<Rightarrow> string \<Rightarrow> string list" where
  "complete_command ops start = (if startswith start ''-'' then matching TOP_LEVEL_OPTIONS start else matching ops start)"

definition complete_words :: "env \<Rightarrow> environ \<Rightarrow> 'b world \<Rightarrow> string list \<Rightarrow> int \<Rightarrow> string list result" where
  "complete_words en e w ws cursor =
     (case normalize_completion_words ws cursor of (tokens, cword) \<Rightarrow>
      let start = (if cword < length tokens then tokens ! cword else []) in
      case first_completion_command_index tokens of
        None \<Rightarrow> Inr (complete_command MAIN_OPS start)
      | Some i \<Rightarrow>
          if cword \<le> i then Inr (complete_command MAIN_OPS start)
          else let opname = tokens ! i in
            if startswith start ''-'' then Inr (matching (options_for_completion opname) start)
            else (case positionals_before_completion_token tokens i cword opname of (ps, is_value) \<Rightarrow>
              if is_value then Inr []
              else if opname \<in> set SESSION_ID_COMPLETION_OPS \<and> (opname \<in> set BATCH_SESSION_ID_CTL_OPS \<or> ps = [])
              then bindR (session_id_completions en e w start (completion_config_path tokens cword)) (\<lambda>ids.
                     Inr (if opname \<in> set BATCH_SESSION_ID_CTL_OPS then filter (\<lambda>x. x \<notin> set ps) ids else ids))
              else Inr []))"

section \<open>Properties\<close>

lemma matching_starts: "c \<in> set (matching candidates start) \<Longrightarrow> startswith c start"
  by (simp add: matching_def)

lemma command_starts: "c \<in> set (complete_command ops start) \<Longrightarrow> startswith c start"
  by (auto simp: complete_command_def dest: matching_starts split: if_splits)

lemma session_ids_start: "session_id_completions en e w start p = Inr ids \<Longrightarrow> c \<in> set ids \<Longrightarrow> startswith c start"
  by (auto simp: session_id_completions_def or_none_def bindR_def split: sum.splits pyexn.splits if_splits)

text \<open>Every candidate extends the word of the cursor.\<close>

lemma completions_extend_word:
  assumes "complete_words en e w ws cursor = Inr found" "c \<in> set found"
  shows "case normalize_completion_words ws cursor of (tokens, cword) \<Rightarrow> startswith c (tokens ! cword)"
proof -
  obtain tokens cword where n: "normalize_completion_words ws cursor = (tokens, cword)"
    by (cases "normalize_completion_words ws cursor")
  then have "cword < length tokens"
    by (auto simp: normalize_completion_words_def pad_words_def Let_def split: list.splits if_splits)
  then have "startswith c (tokens ! cword)"
    using assms unfolding complete_words_def n prod.case Let_def
    by (auto simp: bindR_eq_Inr dest: matching_starts command_starts session_ids_start split: option.splits if_splits prod.splits)
  then show ?thesis by (simp add: n)
qed

end
