(* ===== verification/Hermes.thy ===== *)
theory Hermes
  imports TurnCli
begin

text \<open>
  The plugin of the Hermes agent (\<open>assets/plugins/hermes-ccc-containment\<close>): it runs inside the sandbox, reports the
  workspace of every conversation over its own control connection, signals the end of a turn through the hook
  commands, and adds the rules and a pending review to what the model sees.

  A \<open>hermes_host\<close> is what the plugin runs in: the environment, running a command, the control socket, the file
  of the skill, SHA-256 and the injection of a message.  The state \<open>hermes\<close> holds the plugin's module variables beside
  the state of the other side.  The lock makes each signal one step.  The values Hermes passes are JSON values.
\<close>

section \<open>State\<close>

record completed_process =
  cp_status :: int
  cp_stdout :: string
  cp_stderr :: string

record 'h hermes_host =
  hh_environ :: "string \<Rightarrow> string option"
  hh_ctl :: "string list \<Rightarrow> ('h, completed_process) eff"
  hh_connect :: "string \<Rightarrow> ('h, 'h channel) eff"
  hh_skill :: "string \<Rightarrow> ('h, string) eff"
  hh_sha256 :: "string \<Rightarrow> string"
  hh_inject :: "string \<Rightarrow> ('h, bool) eff"

record 'h hermes =
  hm_finalized :: "json list"
  hm_digest :: "string option"
  hm_confirmed :: "(string, string) dict"
  hm_generations :: "(string, int) dict"
  hm_hooks :: "(string, string) dict"
  hm_control :: "'h control_client option"
  hm_other :: 'h

definition hermes_start :: "'h \<Rightarrow> 'h hermes" where
  "hermes_start h = \<lparr>hm_finalized = [], hm_digest = None, hm_confirmed = [], hm_generations = [], hm_hooks = [],
     hm_control = None, hm_other = h\<rparr>"

definition outside :: "('h, 'a) eff \<Rightarrow> ('h hermes, 'a) eff" where
  "outside = zoomE hm_other (\<lambda>h s. s\<lparr>hm_other := h\<rparr>)"

definition env_set :: "'h hermes_host \<Rightarrow> string \<Rightarrow> bool" where
  "env_set H name = (case hh_environ H name of None \<Rightarrow> False | Some v \<Rightarrow> v \<noteq> [])"

definition plugin_contained :: "'h hermes_host \<Rightarrow> bool" where
  "plugin_contained H = env_set H ''CCC_AGENT_SESSION''"

definition has_control_socket :: "'h hermes_host \<Rightarrow> bool" where
  "has_control_socket H = env_set H ''CCC_AGENT_CONTROL_SOCK''"

section \<open>What Hermes passes\<close>

definition REVIEW_HEADER :: string where
  "REVIEW_HEADER = ''CCC contained-session review is pending.''"

definition FIRST_TURN_PREFIX :: string where
  "FIRST_TURN_PREFIX = ''CCC contained-session skill ccc-containment is active because CCC_AGENT_SESSION is set. '' @
     ''Its rules are part of the current Hermes session context.''"

definition TURN_REMINDER :: string where
  "TURN_REMINDER = ''CCC contained-session reminder: workspace/in-policy files are written through by the supervisor, '' @
     ''while other files stay separate. Hermes does not have an admitted CCC MCP mutation connection; do not run '' @
     ''turn-resolve or turn-approve. When work is finished and Hermes would otherwise idle, leave kept-path '' @
     ''resolution to external session review.''"

definition REVIEW_INSTRUCTION :: string where
  "REVIEW_INSTRUCTION = ''The supervisor kept non-workspace or out-of-policy files separate and they are not committed. '' @
     ''Do not attempt turn-resolve or turn-approve from Hermes; report that external CCC session review is required.''"

definition blank_line :: string where "blank_line = [newline_char, newline_char]"

text \<open>The text after the first occurrence of a separator.\<close>

fun after_first :: "'a list \<Rightarrow> 'a list \<Rightarrow> 'a list option" where
  "after_first p [] = (if p = [] then Some [] else None)"
| "after_first p (x # xs) = (if prefix p (x # xs) then Some (drop (length p) (x # xs)) else after_first p xs)"

definition strip_frontmatter :: "string \<Rightarrow> string" where
  "strip_frontmatter t =
     (if startswith t ''---''
      then (case after_first ''---'' (drop 3 t) of Some body \<Rightarrow> str_strip body | None \<Rightarrow> str_strip t)
      else str_strip t)"

definition skill_body :: "'h hermes_host \<Rightarrow> string \<Rightarrow> ('h hermes, string) eff" where
  "skill_body H name =
     catchE (bindE (outside (hh_skill H name)) (\<lambda>t. retE (strip_frontmatter t)))
       (\<lambda>e. if is_os_error e then retE [] else raiseE e)"

fun first_value :: "pydict \<Rightarrow> string list \<Rightarrow> string option" where
  "first_value kw [] = None"
| "first_value kw (key # keys) =
     (let v = get_default kw key JNull in if truthy v then Some (py_str v) else first_value kw keys)"

definition WORKSPACE_TAG_PREFIX :: string where "WORKSPACE_TAG_PREFIX = ''[Workspace::v1: ''"

text \<open>The pattern \<open>^\[Workspace::v1: (/[^\]\n]+)\]\<close>.\<close>

definition workspace_tag :: "string \<Rightarrow> string option" where
  "workspace_tag message =
     (if startswith message WORKSPACE_TAG_PREFIX
      then (let rest = drop (length WORKSPACE_TAG_PREFIX) message;
                body = takeWhile (\<lambda>c. c \<noteq> CHR '']'' \<and> c \<noteq> newline_char) rest
            in if startswith body ''/'' \<and> 2 \<le> length body \<and> startswith (drop (length body) rest) '']'' then Some body else None)
      else None)"

definition workspace_from_kwargs :: "pydict \<Rightarrow> string" where
  "workspace_from_kwargs kw =
     (case first_value kw [''workspace'', ''workspace_dir'', ''cwd'', ''current_working_directory''] of
        Some w \<Rightarrow> w
      | None \<Rightarrow>
          (let p = get_default kw ''platform'' JNull; platform = (if truthy p then py_str p else [])
           in case get_default kw ''user_message'' JNull of
                JStr message \<Rightarrow>
                  if platform \<in> {''api_server'', ''webui''}
                  then (case workspace_tag message of Some w \<Rightarrow> w | None \<Rightarrow> []) else []
              | _ \<Rightarrow> []))"

definition hook_session_from_kwargs :: "'h hermes_host \<Rightarrow> pydict \<Rightarrow> string" where
  "hook_session_from_kwargs H kw =
     (case first_value kw [''session_id'', ''conversation_id'', ''thread_id''] of
        Some session \<Rightarrow> session
      | None \<Rightarrow>
          if env_set H ''CCC_AGENT_HOOK_SESSION'' then the (hh_environ H ''CCC_AGENT_HOOK_SESSION'')
          else (case hh_environ H ''CCC_AGENT_SESSION'' of Some v \<Rightarrow> v | None \<Rightarrow> []))"

section \<open>Workspaces\<close>

definition run_hook_command :: "'h hermes_host \<Rightarrow> string list \<Rightarrow> ('h hermes, completed_process) eff" where
  "run_hook_command H args = outside (hh_ctl H args)"

definition workspace_admit :: "'h control_client \<Rightarrow> string \<Rightarrow> ('h, pydict) eff" where
  "workspace_admit cc client = cc_request cc [(''op'', JStr ''workspace-admit''), (''client'', JStr client)]"

definition cc_replace_workspace_session :: "'h control_client \<Rightarrow> string \<Rightarrow> int \<Rightarrow> string list \<Rightarrow> string \<Rightarrow> ('h, pydict) eff" where
  "cc_replace_workspace_session cc logical generation paths state =
     cc_request cc [(''op'', JStr ''turn-replace-workspace-session''), (''logical_session_id'', JStr logical),
       (''generation'', JInt generation), (''paths'', jstrs paths), (''state'', JStr state)]"

text \<open>The control connection is made and admitted once; a failure is tried again with the next replacement.\<close>

definition channel_error :: "pyexn \<Rightarrow> bool" where
  "channel_error e \<longleftrightarrow> is_os_error e \<or> (case e of ControlError _ \<Rightarrow> True | _ \<Rightarrow> False)"

definition open_control :: "'h hermes_host \<Rightarrow> ('h hermes, bool) eff" where
  "open_control H =
     bindE (getE hm_control) (\<lambda>c.
       if c \<noteq> None then retE True
       else if \<not> env_set H ''CCC_AGENT_CONTROL_SOCK'' \<or> \<not> env_set H ''CCC_AGENT_CONTROL_TOKEN'' then retE False
       else catchE
         (bindE (outside (hh_connect H (the (hh_environ H ''CCC_AGENT_CONTROL_SOCK'')))) (\<lambda>ch.
            let cc = \<lparr>cc_channel = ch, cc_token = the (hh_environ H ''CCC_AGENT_CONTROL_TOKEN''), cc_hook_token = []\<rparr>
            in seqE (outside (workspace_admit cc ''hermes''))
              (seqE (modE (\<lambda>s. s\<lparr>hm_control := Some cc\<rparr>)) (retE True))))
         (\<lambda>e. if channel_error e then retE False else raiseE e))"

definition plugin_replace_workspace_session :: "'h hermes_host \<Rightarrow> string \<Rightarrow> string \<Rightarrow> string \<Rightarrow> ('h hermes, bool) eff" where
  "plugin_replace_workspace_session H logical workspace state =
     bindE (getE (\<lambda>s. (case dict_get (hm_generations s) logical of None \<Rightarrow> 0 | Some g \<Rightarrow> g) + 1)) (\<lambda>generation.
     seqE (modE (\<lambda>s. s\<lparr>hm_generations := dict_set (hm_generations s) logical generation\<rparr>))
     (bindE (open_control H) (\<lambda>opened.
        if \<not> opened then retE False
        else bindE (getE (\<lambda>s. the (hm_control s))) (\<lambda>cc.
          catchE
            (seqE (outside (cc_replace_workspace_session cc logical generation
                 (if workspace \<noteq> [] then [workspace] else []) state)) (retE True))
            (\<lambda>e. if channel_error e then retE False else raiseE e)))))"

text \<open>\<open>except Exception\<close> around an operation whose result is not used.\<close>

definition quietly :: "('s, 'a) eff \<Rightarrow> ('s, unit) eff" where
  "quietly m = catchE (seqE m (retE ())) (\<lambda>e. retE ())"

definition signal_workspace_start :: "'h hermes_host \<Rightarrow> pydict \<Rightarrow> ('h hermes, unit) eff" where
  "signal_workspace_start H kw =
     (let session = hook_session_from_kwargs H kw; workspace = workspace_from_kwargs kw
      in if \<not> plugin_contained H \<or> \<not> has_control_socket H \<or> session = [] \<or> workspace = [] then retE ()
         else bindE (getE (\<lambda>s. (dict_get (hm_confirmed s) session, dict_get (hm_hooks s) session))) (\<lambda>(old_confirmed, old_hook).
           if old_confirmed = Some workspace \<and> old_hook = Some workspace then retE ()
           else quietly
             (seqE
               (case old_hook of
                  Some old \<Rightarrow>
                    whenE (old \<noteq> [] \<and> old \<noteq> workspace \<and> env_set H ''CCC_AGENT_HOOK_TOKEN'')
                      (quietly (run_hook_command H [''turn-remove-workspace'', ''--agent-session'', session, old]))
                | None \<Rightarrow> retE ())
             (seqE
               (whenE (env_set H ''CCC_AGENT_HOOK_TOKEN'')
                 (bindE (run_hook_command H [''turn-add-workspace'', ''--agent-session'', session, workspace]) (\<lambda>proc.
                    whenE (cp_status proc = 0) (modE (\<lambda>s. s\<lparr>hm_hooks := dict_set (hm_hooks s) session workspace\<rparr>)))))
               (bindE (plugin_replace_workspace_session H session workspace ''active'') (\<lambda>accepted.
                  whenE accepted (modE (\<lambda>s. s\<lparr>hm_confirmed := dict_set (hm_confirmed s) session workspace\<rparr>))))))))"

definition signal_workspace_end :: "'h hermes_host \<Rightarrow> pydict \<Rightarrow> ('h hermes, unit) eff" where
  "signal_workspace_end H kw =
     (let session = hook_session_from_kwargs H kw
      in if \<not> plugin_contained H \<or> \<not> has_control_socket H \<or> session = [] then retE ()
         else bindE (getE (\<lambda>s. (dict_get (hm_confirmed s) session, dict_get (hm_hooks s) session))) (\<lambda>(confirmed, hook).
           seqE
             (whenE (confirmed \<noteq> None)
               (seqE (plugin_replace_workspace_session H session [] ''ended'')
                 (modE (\<lambda>s. s\<lparr>hm_confirmed := dict_pop (hm_confirmed s) session\<rparr>))))
             (case hook of
                None \<Rightarrow> retE ()
              | Some workspace \<Rightarrow>
                  seqE (whenE (env_set H ''CCC_AGENT_HOOK_TOKEN'')
                      (quietly (run_hook_command H [''turn-remove-workspace'', ''--agent-session'', session, workspace])))
                    (modE (\<lambda>s. s\<lparr>hm_hooks := dict_pop (hm_hooks s) session\<rparr>)))))"

section \<open>Turns and reviews\<close>

text \<open>A turn is finalised once; a turn named by an unhashable value raises in the membership test.\<close>

definition signal_turn_boundary :: "'h hermes_host \<Rightarrow> json \<Rightarrow> ('h hermes, unit) eff" where
  "signal_turn_boundary H turn =
     (if truthy turn \<and> (is_arr turn \<or> is_obj turn) then raiseE (TypeError ''unhashable type'')
      else bindE (getE (\<lambda>s. truthy turn \<and> list_ex (py_eq turn) (hm_finalized s))) (\<lambda>finalized.
        if finalized \<or> \<not> plugin_contained H \<or> \<not> has_control_socket H then retE ()
        else seqE (quietly (run_hook_command H [''turn-finalize'', ''--default-keep'']))
          (whenE (truthy turn) (modE (\<lambda>s. s\<lparr>hm_finalized := turn # hm_finalized s\<rparr>)))))"

definition review_kept_command :: "'h hermes_host \<Rightarrow> ('h hermes, int \<times> string) eff" where
  "review_kept_command H =
     (if \<not> plugin_contained H \<or> \<not> has_control_socket H then retE (0, [])
      else catchE
        (bindE (run_hook_command H [''turn-review-kept'']) (\<lambda>proc.
           retE (cp_status proc, join_with [newline_char]
             (filter (\<lambda>part. part \<noteq> []) [str_strip (cp_stdout proc), str_strip (cp_stderr proc)]))))
        (\<lambda>e. retE (0, [])))"

definition review_context :: "string \<Rightarrow> string" where
  "review_context review = REVIEW_HEADER @ blank_line @ REVIEW_INSTRUCTION @ blank_line @ str_strip review"

definition review_digest :: "'h hermes_host \<Rightarrow> string \<Rightarrow> string" where
  "review_digest H review =
     hh_sha256 H ((case hh_environ H ''CCC_AGENT_SESSION'' of Some v \<Rightarrow> v | None \<Rightarrow> []) @ [CHR 0x00] @ review)"

definition mark_or_skip_review :: "'h hermes_host \<Rightarrow> string \<Rightarrow> ('h hermes, bool) eff" where
  "mark_or_skip_review H review =
     bindE (getE hm_digest) (\<lambda>last_digest.
       if last_digest = Some (review_digest H review) then retE True
       else seqE (modE (\<lambda>s. s\<lparr>hm_digest := Some (review_digest H review)\<rparr>)) (retE False))"

definition pending_review_context :: "'h hermes_host \<Rightarrow> bool \<Rightarrow> ('h hermes, string) eff" where
  "pending_review_context H mark =
     bindE (review_kept_command H) (\<lambda>(rc, review).
       if rc = 2 \<and> review \<noteq> []
       then bindE (if mark then mark_or_skip_review H review else retE False) (\<lambda>seen.
              retE (if seen then [] else review_context review))
       else seqE (whenE (rc = 0) (modE (\<lambda>s. s\<lparr>hm_digest := None\<rparr>))) (retE []))"

definition pre_llm_context :: "'h hermes_host \<Rightarrow> pydict \<Rightarrow> ('h hermes, pydict option) eff" where
  "pre_llm_context H kw =
     (if \<not> plugin_contained H then retE None
      else seqE (signal_workspace_start H kw)
        (bindE (if truthy (get_default kw ''is_first_turn'' (JBool False)) then skill_body H ''ccc-containment'' else retE []) (\<lambda>body.
         bindE (pending_review_context H False) (\<lambda>review.
           retE (Some [(''context'', JStr (join_with blank_line
             (filter (\<lambda>part. part \<noteq> [])
               [if body \<noteq> [] then FIRST_TURN_PREFIX @ blank_line @ body else [], TURN_REMINDER, review])))])))))"

text \<open>\<open>str.rstrip()\<close>.\<close>

definition str_rstrip :: "string \<Rightarrow> string" where
  "str_rstrip s = rev (dropWhile is_space (rev s))"

definition append_review_to_response :: "'h hermes_host \<Rightarrow> pydict \<Rightarrow> ('h hermes, string option) eff" where
  "append_review_to_response H kw =
     (if \<not> plugin_contained H then retE None
      else seqE (signal_turn_boundary H (get_default kw ''turn_id'' JNull))
        (bindE (pending_review_context H True) (\<lambda>review.
           if review = [] then retE None
           else let r = get_default kw ''response_text'' (JStr [])
             in bindE (liftE (if truthy r then as_str r else Inr [])) (\<lambda>response.
                  retE (Some (if str_in REVIEW_HEADER response then response
                              else if str_strip response \<noteq> [] then str_rstrip response @ blank_line @ review
                              else review))))))"

definition queue_review_message :: "'h hermes_host \<Rightarrow> ('h hermes, unit) eff" where
  "queue_review_message H =
     (if \<not> plugin_contained H then retE ()
      else bindE (pending_review_context H True) (\<lambda>review.
        whenE (review \<noteq> []) (quietly (outside (hh_inject H review)))))"

section \<open>The hooks\<close>

datatype hermes_event =
    PreLlmCall pydict
  | TransformLlmOutput pydict
  | PostLlmCall pydict
  | OnSessionEnd pydict

definition hermes_hook :: "'h hermes_host \<Rightarrow> hermes_event \<Rightarrow> ('h hermes, unit) eff" where
  "hermes_hook H event =
     (case event of
        PreLlmCall kw \<Rightarrow> seqE (pre_llm_context H kw) (retE ())
      | TransformLlmOutput kw \<Rightarrow> seqE (append_review_to_response H kw) (retE ())
      | PostLlmCall kw \<Rightarrow> seqE (signal_turn_boundary H (get_default kw ''turn_id'' JNull)) (queue_review_message H)
      | OnSessionEnd kw \<Rightarrow>
          seqE (signal_turn_boundary H (get_default kw ''turn_id'' JNull))
            (seqE (signal_workspace_end H kw) (queue_review_message H)))"

end
