(* ===== verification/HermesFacts.thy ===== *)
theory HermesFacts
  imports Hermes
begin

text \<open>
  What the supervisor receives from the Hermes plugin: the requests on the control connection are recorded
  beside the other side's state, and over every sequence of hooks the generations of one conversation grow.
\<close>

section \<open>Recording the requests\<close>

type_synonym 'h logged = "'h \<times> pydict list"

definition beside :: "('h, 'a) eff \<Rightarrow> ('h logged, 'a) eff" where
  "beside = zoomE fst (\<lambda>h s. (h, snd s))"

definition logging :: "'h channel \<Rightarrow> 'h logged channel" where
  "logging ch = (\<lambda>payload. seqE (modE (\<lambda>s. (fst s, snd s @ [payload]))) (beside (ch payload)))"

definition recorded :: "'h hermes_host \<Rightarrow> 'h logged hermes_host" where
  "recorded H = \<lparr>hh_environ = hh_environ H, hh_ctl = (\<lambda>args. beside (hh_ctl H args)),
     hh_connect = (\<lambda>sock. bindE (beside (hh_connect H sock)) (\<lambda>ch. retE (logging ch))),
     hh_skill = (\<lambda>name. beside (hh_skill H name)), hh_sha256 = hh_sha256 H,
     hh_inject = (\<lambda>message. beside (hh_inject H message))\<rparr>"

text \<open>The generations sent for one conversation, in their order.\<close>

definition sent_generation :: "string \<Rightarrow> pydict \<Rightarrow> int option" where
  "sent_generation session payload =
     (if get_default payload ''op'' JNull = JStr ''turn-replace-workspace-session'' \<and>
         get_default payload ''logical_session_id'' JNull = JStr session
      then (case get_default payload ''generation'' JNull of JInt g \<Rightarrow> Some g | _ \<Rightarrow> None) else None)"

definition sent_generations :: "string \<Rightarrow> pydict list \<Rightarrow> int list" where
  "sent_generations session log = List.map_filter (sent_generation session) log"

text \<open>A run of the plugin: Hermes goes on when a hook raises.\<close>

definition hermes_run :: "'h hermes_host \<Rightarrow> hermes_event list \<Rightarrow> 'h hermes \<Rightarrow> 'h hermes" where
  "hermes_run H events s = fold (\<lambda>event s. snd (hermes_hook H event s)) events s"

section \<open>The invariant\<close>

definition hm_log :: "'h logged hermes \<Rightarrow> pydict list" where
  "hm_log s = snd (hm_other s)"

definition hm_generation :: "'h hermes \<Rightarrow> string \<Rightarrow> int" where
  "hm_generation s session = (case dict_get (hm_generations s) session of None \<Rightarrow> 0 | Some g \<Rightarrow> g)"

text \<open>Every generation sent is below the bound of its conversation.\<close>

definition sent_within :: "(string \<Rightarrow> int) \<Rightarrow> pydict list \<Rightarrow> bool" where
  "sent_within bound log \<longleftrightarrow>
     (\<forall>session. sorted_wrt (<) (sent_generations session log) \<and> (\<forall>g\<in>set (sent_generations session log). g \<le> bound session))"

definition logging_control :: "'h logged hermes \<Rightarrow> bool" where
  "logging_control s \<longleftrightarrow> (\<forall>cc. hm_control s = Some cc \<longrightarrow> (\<exists>ch. cc_channel cc = logging ch))"

text \<open>The invariant, and its form between the count of a replacement and its request: that generation was not sent yet.\<close>

definition growing_log :: "'h logged hermes \<Rightarrow> bool" where
  "growing_log s \<longleftrightarrow> sent_within (hm_generation s) (hm_log s) \<and> logging_control s"

definition counted :: "string \<Rightarrow> int \<Rightarrow> 'h logged hermes \<Rightarrow> bool" where
  "counted session g s \<longleftrightarrow> sent_within ((hm_generation s)(session := g - 1)) (hm_log s) \<and>
     hm_generation s session = g \<and> logging_control s"

lemma counted_growing: "counted session g s \<Longrightarrow> growing_log s"
  unfolding counted_def growing_log_def sent_within_def by (auto split: if_splits) fastforce

lemma growing_count:
  "growing_log s \<Longrightarrow> g = hm_generation s session + 1 \<Longrightarrow>
   counted session g (s\<lparr>hm_generations := dict_set (hm_generations s) session g\<rparr>)"
  unfolding growing_log_def counted_def sent_within_def logging_control_def hm_generation_def hm_log_def
  by (auto split: if_splits)

lemma sent_snoc:
  "sent_generations session (log @ [payload]) =
     sent_generations session log @ (case sent_generation session payload of None \<Rightarrow> [] | Some g \<Rightarrow> [g])"
  by (simp add: sent_generations_def List.map_filter_def split: option.split)

section \<open>What an operation sends\<close>

text \<open>An operation of the other side that sends the payloads \<open>ps\<close>, whatever it returns.\<close>

definition sends :: "pydict list \<Rightarrow> ('h logged, 'a) eff \<Rightarrow> bool" where
  "sends ps m \<longleftrightarrow> (\<forall>h. snd (snd (m h)) = snd h @ ps)"

lemma sends_beside: "sends [] (beside m)"
  by (simp add: sends_def beside_def zoomE_def split: prod.split)

lemma sends_logging: "sends [payload] (logging ch payload)"
  by (simp add: sends_def logging_def beside_def zoomE_def seqE_def bindE_def modE_def split: prod.split)

lemma sends_then: "sends ps m \<Longrightarrow> (\<And>x. sends [] (f x)) \<Longrightarrow> sends ps (bindE m f)"
  unfolding sends_def bindE_def by (auto split: prod.splits sum.splits) (metis snd_conv)+

lemma sends_pure: "sends [] (retE x)" "sends [] (raiseE e)" "sends [] (liftE r)"
  by (simp_all add: sends_def retE_def raiseE_def liftE_def)

lemma sends_request:
  "cc_channel cc = logging ch \<Longrightarrow>
   sends [dict_set (dict_set payload ''token'' (JStr (cc_token cc))) ''version'' (JInt 1)] (cc_request cc payload)"
  unfolding cc_request_def by (auto intro!: sends_then sends_logging simp: sends_pure)

text \<open>The invariants read the generations, the log and the connection only.\<close>

lemma log_agree:
  assumes "hm_generations t = hm_generations s" "hm_log t = hm_log s" "hm_control t = hm_control s"
  shows "growing_log t \<longleftrightarrow> growing_log s" "counted session g t \<longleftrightarrow> counted session g s"
proof -
  have "hm_generation t = hm_generation s" using assms(1) by (intro ext) (simp add: hm_generation_def)
  then show "growing_log t \<longleftrightarrow> growing_log s" "counted session g t \<longleftrightarrow> counted session g s"
    using assms by (simp_all add: growing_log_def counted_def logging_control_def)
qed

lemma outside_log: "sends ps m \<Longrightarrow> hm_log (snd (outside m s)) = hm_log s @ ps"
  unfolding sends_def by (drule spec [of _ "hm_other s"]) (simp add: outside_def zoomE_def hm_log_def case_prod_beta)

lemma outside_rest:
  "hm_generations (snd (outside m s)) = hm_generations s" "hm_control (snd (outside m s)) = hm_control s"
  by (simp_all add: outside_def zoomE_def split: prod.split)

lemma keeps_outside:
  assumes "sends [] m"
  shows "keeps growing_log (outside m)" "keeps (counted session g) (outside m)"
proof -
  have "hm_log (snd (outside m s)) = hm_log s" for s using outside_log [OF assms] by simp
  note agree = log_agree [OF outside_rest(1) this outside_rest(2)]
  show "keeps growing_log (outside m)" "keeps (counted session g) (outside m)"
    unfolding keeps_def agree by simp_all
qed

text \<open>A payload without a generation changes nothing; the counted one is sent once.\<close>

lemma sent_within_other:
  "(\<And>session. sent_generation session payload = None) \<Longrightarrow> sent_within bound log \<Longrightarrow> sent_within bound (log @ [payload])"
  by (simp add: sent_within_def sent_snoc)

lemma sent_within_next:
  assumes "sent_within (bound(session := bound session - 1)) log"
    "\<And>other. sent_generation other payload = (if other = session then Some (bound session) else None)"
  shows "sent_within bound (log @ [payload])"
proof -
  have "sorted_wrt (<) (sent_generations other (log @ [payload])) \<and>
      (\<forall>g\<in>set (sent_generations other (log @ [payload])). g \<le> bound other)" for other
  proof (cases "other = session")
    case True
    then have "sorted_wrt (<) (sent_generations other log)" "\<forall>g\<in>set (sent_generations other log). g \<le> bound other - 1"
      using assms(1) by (auto simp: sent_within_def split: if_splits)
    with True show ?thesis by (fastforce simp: sent_snoc assms(2) sorted_wrt_append)
  next
    case False
    then have "sorted_wrt (<) (sent_generations other log)" "\<forall>g\<in>set (sent_generations other log). g \<le> bound other"
      using spec [OF assms(1) [unfolded sent_within_def], of other] by auto
    with False show ?thesis by (simp add: sent_snoc assms(2))
  qed
  then show ?thesis by (simp add: sent_within_def)
qed

lemma wp_final: "I (snd (m s)) \<Longrightarrow> wp m (\<lambda>_. I) (\<lambda>_. I) s"
  by (cases "m s") (simp add: wp_def split: sum.split)

lemma generation_control [simp]: "hm_generation (t\<lparr>hm_control := c\<rparr>) = hm_generation t"
  by (intro ext) (simp add: hm_generation_def)

lemma wp_admit:
  assumes "cc_channel cc = logging ch" "counted session g s"
  shows "wp (outside (workspace_admit cc ''hermes'')) (\<lambda>_. counted session g) (\<lambda>_. counted session g) s"
proof -
  let ?p = "dict_set (dict_set [(''op'', JStr ''workspace-admit''), (''client'', JStr ''hermes'')] ''token'' (JStr (cc_token cc)))
    ''version'' (JInt 1)"
  have "sent_generation other ?p = None" for other by (simp add: sent_generation_def get_default_def)
  moreover have "hm_log (snd (outside (workspace_admit cc ''hermes'') s)) = hm_log s @ [?p]"
    unfolding workspace_admit_def by (rule outside_log, rule sends_request [OF assms(1)])
  moreover have "hm_generation (snd (outside m s)) = hm_generation s" for m :: "('a logged, pydict) eff"
    by (intro ext) (simp add: hm_generation_def outside_rest)
  ultimately have "counted session g (snd (outside (workspace_admit cc ''hermes'') s))"
    using assms(2) by (simp add: counted_def sent_within_other logging_control_def outside_rest)
  then show ?thesis by (rule wp_final)
qed

lemma wp_replace_request:
  assumes "cc_channel cc = logging ch" "counted session g s"
  shows "wp (outside (cc_replace_workspace_session cc session g paths state)) (\<lambda>_. growing_log) (\<lambda>_. growing_log) s"
proof -
  let ?p = "dict_set (dict_set [(''op'', JStr ''turn-replace-workspace-session''), (''logical_session_id'', JStr session),
       (''generation'', JInt g), (''paths'', jstrs paths), (''state'', JStr state)] ''token'' (JStr (cc_token cc)))
    ''version'' (JInt 1)"
  let ?t = "snd (outside (cc_replace_workspace_session cc session g paths state) s)"
  have p: "sent_generation other ?p = (if other = session then Some g else None)" for other
    by (simp add: sent_generation_def get_default_def)
  have l: "hm_log ?t = hm_log s @ [?p]"
    unfolding cc_replace_workspace_session_def by (rule outside_log, rule sends_request [OF assms(1)])
  have b: "hm_generation ?t = hm_generation s" by (intro ext) (simp add: hm_generation_def outside_rest)
  have "sent_within (hm_generation s) (hm_log s @ [?p])"
    using assms(2) p by (intro sent_within_next [of _ session]) (auto simp: counted_def)
  then have "growing_log ?t"
    using assms(2) by (simp add: growing_log_def counted_def l b logging_control_def outside_rest)
  then show ?thesis by (rule wp_final)
qed

section \<open>Replacements\<close>

lemma recorded_environ [simp]: "hh_environ (recorded H) = hh_environ H" "env_set (recorded H) = env_set H"
  by (simp_all add: recorded_def env_set_def fun_eq_iff)

lemma wp_connect:
  assumes "counted session g s"
  shows "wp (outside (hh_connect (recorded H) sock)) (\<lambda>ch t. counted session g t \<and> (\<exists>c. ch = logging c))
    (\<lambda>_. counted session g) s"
proof -
  let ?m = "hh_connect (recorded H) sock"
  have "sends [] ?m" by (auto simp: recorded_def intro!: sends_then sends_beside sends_pure)
  then have "wp (outside ?m) (\<lambda>_. counted session g) (\<lambda>_. counted session g) s"
    using assms by (intro wp_keeps [OF keeps_outside(2)])
  moreover have "wp (outside ?m) (\<lambda>ch _. \<exists>c. ch = logging c) (\<lambda>_ _. True) s"
    by (auto simp: recorded_def outside_def beside_def wp_simps wp_def zoomE_def bindE_def retE_def
        split: prod.split sum.split)
  ultimately show ?thesis using wp_conj by fastforce
qed

lemma wp_open_control:
  assumes "counted session g s"
  shows "wp (open_control (recorded H)) (\<lambda>opened t. counted session g t \<and> (opened \<longrightarrow> hm_control t \<noteq> None))
    (\<lambda>_. counted session g) s"
proof -
  have stored: "counted session g (t\<lparr>hm_control := Some cc\<rparr>)" if "counted session g t" "cc_channel cc = logging c" for t cc c
    using that by (simp add: counted_def logging_control_def hm_log_def) blast
  show ?thesis
    unfolding open_control_def wp_simps wp_if Let_def
    using assms
    by (auto simp: wp_simps wp_if intro!: wp_mono [OF wp_connect] wp_mono [OF wp_admit] stored)
qed

lemma wp_send:
  assumes "counted session g t" "hm_control t \<noteq> None"
  shows "wp (catchE (seqE (outside (cc_replace_workspace_session (the (hm_control t)) session g paths state)) (retE True))
           (\<lambda>e. if channel_error e then retE False else raiseE e)) (\<lambda>_. growing_log) (\<lambda>_. growing_log) t"
proof -
  obtain cc ch where "hm_control t = Some cc" "cc_channel cc = logging ch"
    using assms by (auto simp: counted_def logging_control_def)
  with assms(1) show ?thesis
    by (auto simp: wp_simps wp_if intro!: wp_mono [OF wp_replace_request])
qed

lemma replace_grows: "keeps growing_log (plugin_replace_workspace_session (recorded H) session workspace state)"
proof -
  have "wp (plugin_replace_workspace_session (recorded H) session workspace state) (\<lambda>_. growing_log) (\<lambda>_. growing_log) s"
    if s: "growing_log s" for s
  proof -
    let ?g = "hm_generation s session + 1"
    have c: "counted session ?g (s\<lparr>hm_generations := dict_set (hm_generations s) session ?g\<rparr>)"
      using s by (rule growing_count) simp
    show ?thesis
      unfolding plugin_replace_workspace_session_def wp_bind wp_get wp_seq wp_mod hm_generation_def [symmetric] wp_if wp_ret
      by (rule wp_mono [OF wp_open_control [OF c]]) (auto simp: counted_growing intro!: wp_send)
  qed
  then show ?thesis by (simp add: keeps_wp)
qed

section \<open>The hooks\<close>

lemma keeps_mod_other:
  "(\<And>s. hm_generations (f s) = hm_generations s) \<Longrightarrow> (\<And>s. hm_other (f s) = hm_other s) \<Longrightarrow>
   (\<And>s. hm_control (f s) = hm_control s) \<Longrightarrow> keeps growing_log (modE f)"
  using log_agree(1) [of "f s" s for s] unfolding keeps_def modE_def hm_log_def by simp

lemma keeps_command: "keeps growing_log (run_hook_command (recorded H) args)"
  unfolding run_hook_command_def by (rule keeps_outside) (simp add: recorded_def sends_beside)

lemma keeps_quietly: "keeps I m \<Longrightarrow> keeps I (quietly m)"
  unfolding quietly_def by (intro keeps_intros)

lemmas hook_steps = keeps_intros keeps_mod_other keeps_command keeps_quietly replace_grows

lemma start_grows: "keeps growing_log (signal_workspace_start (recorded H) kw)"
  unfolding signal_workspace_start_def Let_def
  by (auto intro!: hook_steps split: prod.split option.split)

lemma end_grows: "keeps growing_log (signal_workspace_end (recorded H) kw)"
  unfolding signal_workspace_end_def Let_def
  by (auto intro!: hook_steps split: prod.split option.split)

lemma boundary_grows: "keeps growing_log (signal_turn_boundary (recorded H) turn)"
  unfolding signal_turn_boundary_def by (auto intro!: hook_steps)

lemma review_grows: "keeps growing_log (pending_review_context (recorded H) mark)"
  unfolding pending_review_context_def review_kept_command_def mark_or_skip_review_def
  by (auto intro!: hook_steps split: prod.split)

lemma skill_grows: "keeps growing_log (skill_body (recorded H) name)"
  unfolding skill_body_def by (auto intro!: hook_steps keeps_outside simp: recorded_def sends_beside)

lemma inject_grows: "keeps growing_log (outside (hh_inject (recorded H) message))"
  by (rule keeps_outside) (simp add: recorded_def sends_beside)

lemma hook_grows: "keeps growing_log (hermes_hook (recorded H) event)"
  unfolding hermes_hook_def pre_llm_context_def append_review_to_response_def queue_review_message_def Let_def
  by (cases event) (auto intro!: hook_steps start_grows end_grows boundary_grows review_grows skill_grows inject_grows)

lemma run_grows: "growing_log s \<Longrightarrow> growing_log (hermes_run (recorded H) events s)"
  unfolding hermes_run_def
  by (induction events arbitrary: s) (use hook_grows in \<open>auto simp: keeps_def\<close>)



section \<open>The end of a conversation\<close>

definition roots_are :: "(string, string) dict \<Rightarrow> (string, string) dict \<Rightarrow> 'h hermes \<Rightarrow> bool" where
  "roots_are confirmed hooks s \<longleftrightarrow> hm_confirmed s = confirmed \<and> hm_hooks s = hooks"

lemma roots_outside: "keeps (roots_are c k) (outside m)"
  by (simp add: keeps_def roots_are_def outside_def zoomE_def split: prod.split)

lemma roots_mod: "(\<And>s. hm_confirmed (f s) = hm_confirmed s) \<Longrightarrow> (\<And>s. hm_hooks (f s) = hm_hooks s) \<Longrightarrow> keeps (roots_are c k) (modE f)"
  by (simp add: keeps_def roots_are_def modE_def)

lemma roots_command: "keeps (roots_are c k) (run_hook_command H args)"
  unfolding run_hook_command_def by (rule roots_outside)

lemma roots_replace: "keeps (roots_are c k) (plugin_replace_workspace_session H session workspace state)"
  unfolding plugin_replace_workspace_session_def open_control_def Let_def
  by (auto intro!: keeps_intros roots_outside roots_mod)

text \<open>The hook at the end of a conversation that returns has forgotten its workspace, both the confirmed and the
  proposed one, also when the supervisor could not be told.\<close>

lemma ended_session_forgotten:
  assumes "plugin_contained H" "has_control_socket H" "hook_session_from_kwargs H kw = session" "session \<noteq> []"
  shows "wp (signal_workspace_end H kw)
    (\<lambda>_ t. dict_get (hm_confirmed t) session = None \<and> dict_get (hm_hooks t) session = None) (\<lambda>_ _. True) s"
proof -
  have replace: "wp (plugin_replace_workspace_session H session [] ''ended'') (\<lambda>_. roots_are (hm_confirmed s) (hm_hooks s))
      (\<lambda>_. roots_are (hm_confirmed s) (hm_hooks s)) s"
    by (rule wp_keeps [OF roots_replace]) (simp_all add: roots_are_def)
  have quiet: "wp (quietly (run_hook_command H args)) (\<lambda>_. roots_are c k) (\<lambda>_. roots_are c k) t" if "roots_are c k t" for args c k t
    by (rule wp_keeps [OF keeps_quietly [OF roots_command] that])
  show ?thesis
    unfolding signal_workspace_end_def Let_def assms(3)
    using assms(1,2,4)
    by (auto simp: wp_simps roots_are_def split: option.split
        intro!: wp_mono [OF replace] wp_mono [OF quiet])
qed

end
