(* ===== verification/SetupText.thy ===== *)
theory SetupText
  imports TurnCli TextMerge
begin

text \<open>
  The texts \<open>setup.py\<close> writes: the shell snippets that put the shims first on the search path, and the managed
  part of the configuration of Codex, which is replaced at every setup while the rest of the file stays.
  A text file is read with its line ends translated; one character is one byte.
\<close>

section \<open>Searching\<close>

text \<open>\<open>str.find\<close>.\<close>

fun find_sub :: "'a list \<Rightarrow> 'a list \<Rightarrow> nat option" where
  "find_sub p [] = (if p = [] then Some 0 else None)"
| "find_sub p (x # xs) = (if prefix p (x # xs) then Some 0 else map_option Suc (find_sub p xs))"

text \<open>Where the line of a position starts: \<open>text.rfind("\n", 0, i) + 1\<close>.\<close>

definition line_start :: "string \<Rightarrow> nat \<Rightarrow> nat" where
  "line_start t i = min i (length t) - length (takeWhile ((\<noteq>) newline_char) (rev (take i t)))"

text \<open>\<open>str.splitlines(True)\<close> on characters, and the line ends of a text file.\<close>

definition text_lines :: "string \<Rightarrow> string list" where
  "text_lines s = map (map char_of) (splitlines (map of_char s))"

fun universal_newlines :: "string \<Rightarrow> string" where
  "universal_newlines [] = []"
| "universal_newlines [c] = [if c = CHR 0x0D then newline_char else c]"
| "universal_newlines (c # d # cs) =
     (if c = CHR 0x0D then (if d = newline_char then newline_char # universal_newlines cs
                            else newline_char # universal_newlines (d # cs))
      else c # universal_newlines (d # cs))"

definition read_text :: "fs \<Rightarrow> string \<Rightarrow> string result" where
  "read_text fs p = bindR (read_file fs p) (\<lambda>d. Inr (universal_newlines d))"

section \<open>Shell snippets\<close>

definition quote_char :: char where "quote_char = CHR 0x27"
definition double_quote :: char where "double_quote = CHR 0x22"

definition shell_single_quote :: "string \<Rightarrow> string" where
  "shell_single_quote v =
     [quote_char] @ concat (map (\<lambda>c. if c = quote_char then [quote_char, double_quote, quote_char, double_quote, quote_char] else [c]) v)
       @ [quote_char]"

text \<open>The lines of the snippets; a double quote is written \<open>~\<close>.\<close>

definition script :: "string list \<Rightarrow> string" where
  "script ls = concat (map (\<lambda>l. line (map (\<lambda>c. if c = CHR ''~'' then double_quote else c) l)) ls)"

definition shim_path_hook_content :: "string \<Rightarrow> string \<Rightarrow> string" where
  "shim_path_hook_content cwd shim_dir =
     script
       [''#!/bin/sh'',
        ''# Generated by ccc-agent setup. Source from shell startup files to'',
        ''# keep transparent ccc-agent shims ahead of user/conda installs.''] @
     line (''_CCC_AGENT_SHIM_DIR='' @ shell_single_quote (abspath cwd shim_dir)) @
     script
       [''if [ -d ~$_CCC_AGENT_SHIM_DIR~ ]; then'',
        ''    _CCC_AGENT_OLD_IFS=$IFS'',
        ''    IFS=:; _CCC_AGENT_PATH='',
        ''    for _CCC_AGENT_PART in $PATH; do'',
        ''        [ ~$_CCC_AGENT_PART~ = ~$_CCC_AGENT_SHIM_DIR~ ] && continue'',
        ''        if [ -z ~$_CCC_AGENT_PATH~ ]; then'',
        ''            _CCC_AGENT_PATH=$_CCC_AGENT_PART'',
        ''        else'',
        ''            _CCC_AGENT_PATH=$_CCC_AGENT_PATH:$_CCC_AGENT_PART'',
        ''        fi'',
        ''    done'',
        ''    IFS=$_CCC_AGENT_OLD_IFS'',
        ''    PATH=$_CCC_AGENT_SHIM_DIR${_CCC_AGENT_PATH:+:$_CCC_AGENT_PATH}'',
        ''    export PATH'',
        ''    export CCC_AGENT_SHIM_DIR=~$_CCC_AGENT_SHIM_DIR~'',
        ''    unset _CCC_AGENT_PATH _CCC_AGENT_PART _CCC_AGENT_OLD_IFS'',
        ''fi'',
        ''unset _CCC_AGENT_SHIM_DIR'']"

definition write_shell_path_hook :: "string \<Rightarrow> string \<Rightarrow> (fs, string) eff" where
  "write_shell_path_hook path shim_dir =
     seqE (makedirs (dirname path))
     (bindE (getE (\<lambda>fs. shim_path_hook_content (fs_cwd fs) shim_dir)) (\<lambda>content.
       seqE (write_file path content) (retE path)))"

definition conda_activate_content :: "string \<Rightarrow> string" where
  "conda_activate_content q =
     script
       [''#!/bin/sh'',
        ''# Generated by ccc-agent setup. Keep containment shims ahead'',
        ''# of $CONDA_PREFIX/bin so conda-installed agents are wrapped.''] @
     line (''_CCC_AGENT_SHIM_DIR='' @ q) @
     script
       [''case ~$PATH~ in'',
        ''    ~$_CCC_AGENT_SHIM_DIR~|~$_CCC_AGENT_SHIM_DIR~:*) ;;'',
        ''    *) PATH=~$_CCC_AGENT_SHIM_DIR:$PATH~ ;;'',
        ''esac'',
        ''export PATH'',
        ''export CCC_AGENT_SHIM_DIR=~$_CCC_AGENT_SHIM_DIR~'',
        ''unset _CCC_AGENT_SHIM_DIR'']"

definition conda_deactivate_content :: "string \<Rightarrow> string" where
  "conda_deactivate_content q =
     script
       [''#!/bin/sh'',
        ''# Generated by ccc-agent setup. Remove the leading shim path'',
        ''# this env'' @ [quote_char] @ ''s activate hook prepended.''] @
     line (''_CCC_AGENT_SHIM_DIR='' @ q) @
     script
       [''case ~$PATH~ in'',
        ''    ~$_CCC_AGENT_SHIM_DIR~) PATH=~~ ;;'',
        ''    ~$_CCC_AGENT_SHIM_DIR~:*) PATH=${PATH#~$_CCC_AGENT_SHIM_DIR~:} ;;'',
        ''esac'',
        ''export PATH'',
        ''unset CCC_AGENT_SHIM_DIR'',
        ''unset _CCC_AGENT_SHIM_DIR'']"

definition write_conda_shim_hooks :: "string \<Rightarrow> string \<Rightarrow> (fs, string \<times> string) eff" where
  "write_conda_shim_hooks conda_prefix shim_dir =
     (let base = path_join (path_join conda_prefix ''etc'') ''conda'';
          activate_dir = path_join base ''activate.d''; deactivate_dir = path_join base ''deactivate.d'';
          activate = path_join activate_dir ''ccc-agent-shims.sh''; deactivate = path_join deactivate_dir ''ccc-agent-shims.sh''
      in seqE (makedirs activate_dir)
        (seqE (makedirs deactivate_dir)
        (bindE (getE (\<lambda>fs. shell_single_quote (abspath (fs_cwd fs) shim_dir))) (\<lambda>q.
          seqE (write_file activate (conda_activate_content q))
          (seqE (write_file deactivate (conda_deactivate_content q)) (retE (activate, deactivate)))))))"

section \<open>The configuration of Codex\<close>

definition CODEX_PLUGIN_VERSION :: string where "CODEX_PLUGIN_VERSION = ''0.2.0''"
definition CODEX_PLUGIN_ID :: string where "CODEX_PLUGIN_ID = ''ccc@ccc-agent''"

definition codex_plugin_cache_path :: "string \<Rightarrow> string" where
  "codex_plugin_cache_path home =
     foldl path_join home [''.codex'', ''plugins'', ''cache'', ''ccc-agent'', ''ccc'', CODEX_PLUGIN_VERSION]"

definition CODEX_HOOK_TRUSTED_HASHES :: "(string \<times> string) list" where
  "CODEX_HOOK_TRUSTED_HASHES =
     [(''ccc@ccc-agent:hooks/hooks.json:session_start:0:0'',
       ''sha256:755b1b9d145a87b94a388f7566c56064acd92ad81dc9b221de795d5604e2625a''),
      (''ccc@ccc-agent:hooks/hooks.json:subagent_start:0:0'',
       ''sha256:110513c459ef92d4852bdf801e6be8c2fae9def56da9496775b408701d08a609''),
      (''ccc@ccc-agent:hooks/hooks.json:subagent_stop:0:0'',
       ''sha256:bf2126876905c70422c93361befd22ae53bbfa868b653587a10ba146af01554f''),
      (''ccc@ccc-agent:hooks/hooks.json:stop:0:0'',
       ''sha256:72d22a4a83b82ca16b8a5bcc60f519bc6b75773cc17f103e9acb18a028dc6998'')]"

definition CODEX_CONFIG_BEGIN :: string where "CODEX_CONFIG_BEGIN = ''# BEGIN ccc-agent Codex plugin''"
definition CODEX_CONFIG_END :: string where "CODEX_CONFIG_END = ''# END ccc-agent Codex plugin''"

definition plugin_setting :: "string \<Rightarrow> string" where
  "plugin_setting rest = ''plugins.~'' @ CODEX_PLUGIN_ID @ ''~.'' @ rest"

definition codex_plugin_config_block :: string where
  "codex_plugin_config_block =
     script
       ([CODEX_CONFIG_BEGIN,
         ''# Codex 0.136+ loads hooks only from enabled plugins. ccc-agent keeps'',
         ''# this plugin enabled so contained `ccc-agent run -- codex` sessions'',
         ''# can load the CCC Stop hook from a read-only plugin cache bind.'',
         ''# It is safe to leave enabled in normal Codex runs: if the plugin cache'',
         ''# is absent Codex skips it, and if present the hook exits unless'',
         ''# CCC_AGENT_SESSION is set.'',
         plugin_setting ''enabled = true'',
         ''# Read-only CCC tools may run automatically; every destructive tool'',
         ''# must prompt before the server performs its own Form Mode elicitation.'',
         plugin_setting ''mcp_servers.ccc.default_tools_approval_mode = ~prompt~'',
         plugin_setting ''mcp_servers.ccc.tools.ccc_status.approval_mode = ~approve~'',
         plugin_setting ''mcp_servers.ccc.tools.ccc_list_kept.approval_mode = ~approve~'',
         plugin_setting ''mcp_servers.ccc.tools.ccc_keep_kept.approval_mode = ~approve~'',
         plugin_setting ''mcp_servers.ccc.tools.ccc_commit_kept.approval_mode = ~prompt~'',
         plugin_setting ''mcp_servers.ccc.tools.ccc_discard_kept.approval_mode = ~prompt~'',
         plugin_setting ''mcp_servers.ccc.tools.ccc_abort_session.approval_mode = ~prompt~'',
         ''# Trust only the bundled CCC hooks; do not bypass trust globally.''] @
        map (\<lambda>(key, trusted). ''hooks.state.~'' @ key @ ''~.trusted_hash = ~'' @ trusted @ ''~'') CODEX_HOOK_TRUSTED_HASHES @
        [CODEX_CONFIG_END])"

text \<open>The removal of the managed blocks: each round removes one, from the line of its first marker to the end of the line
  of its last one.  A block without an end keeps its text.\<close>

lemma find_sub_prefix: "find_sub p s = Some n \<Longrightarrow> prefix p (drop n s) \<and> n \<le> length s"
  by (induction p s arbitrary: n rule: find_sub.induct) (auto split: if_splits)

lemma line_start_le: "line_start t i \<le> i"
  by (simp add: line_start_def)

function strip_managed_codex_plugin_block :: "string \<Rightarrow> string" where
  "strip_managed_codex_plugin_block t =
     (case find_sub CODEX_CONFIG_BEGIN t of
        None \<Rightarrow> t
      | Some start \<Rightarrow>
          (case find_sub CODEX_CONFIG_END (drop start t) of
             None \<Rightarrow> take (line_start t start) t @ lstrip newline_char (drop start t)
           | Some n \<Rightarrow>
               strip_managed_codex_plugin_block
                 (take (line_start t start) t @ drop 1 (dropWhile ((\<noteq>) newline_char) (drop (start + n) t)))))"
  by pat_completeness auto
termination
proof (relation "measure length")
  fix t start n
  assume a: "find_sub CODEX_CONFIG_BEGIN t = Some start" "find_sub CODEX_CONFIG_END (drop start t) = Some n"
  let ?r = "drop (start + n) t"
  have "prefix CODEX_CONFIG_END ?r" using find_sub_prefix [OF a(2)] by (simp add: add.commute)
  then obtain cs where "?r = CHR ''#'' # cs" by (auto simp: CODEX_CONFIG_END_def prefix_def)
  then have "length (drop 1 (dropWhile ((\<noteq>) newline_char) ?r)) < length ?r"
    using length_dropWhile_le [of "(\<noteq>) newline_char" cs] by (simp add: newline_char_def)
  moreover have "length (take (line_start t start) t) \<le> start" using line_start_le [of t start] by simp
  ultimately show "(take (line_start t start) t @ drop 1 (dropWhile ((\<noteq>) newline_char) ?r), t) \<in> measure length"
    by simp
qed simp

declare strip_managed_codex_plugin_block.simps [simp del]

definition is_managed_codex_hook_key :: "string \<Rightarrow> bool" where
  "is_managed_codex_hook_key key \<longleftrightarrow>
     startswith key ''ccc@ccc-agent:hooks/hooks.json:'' \<or> startswith key ''ccc-agent@ccc-agent:hooks/hooks.json:''"

definition is_table_header :: "string \<Rightarrow> bool" where
  "is_table_header l \<longleftrightarrow> startswith l ''['' \<and> endswith l '']''"

text \<open>A table owns an entry when there is one before the next header.\<close>

fun has_direct_entries :: "string list \<Rightarrow> bool" where
  "has_direct_entries [] = False"
| "has_direct_entries (l # ls) =
     (let candidate = str_strip l in
      if is_table_header candidate then False
      else if candidate \<noteq> [] \<and> \<not> startswith candidate ''#'' then True
      else has_direct_entries ls)"

definition HOOK_ENTRY_PREFIX :: string where "HOOK_ENTRY_PREFIX = ''hooks.state.'' @ [double_quote]"
definition HOOK_TABLE_PREFIX :: string where "HOOK_TABLE_PREFIX = ''[hooks.state.'' @ [double_quote]"

definition managed_entry :: "string \<Rightarrow> bool" where
  "managed_entry l \<longleftrightarrow> startswith l HOOK_ENTRY_PREFIX \<and>
     is_managed_codex_hook_key (takeWhile ((\<noteq>) double_quote) (drop (length HOOK_ENTRY_PREFIX) l))"

definition managed_table :: "string \<Rightarrow> bool" where
  "managed_table l \<longleftrightarrow> startswith l HOOK_TABLE_PREFIX \<and> endswith l [double_quote, CHR '']''] \<and>
     is_managed_codex_hook_key (drop (length HOOK_TABLE_PREFIX) (take (length l - 2) l))"

text \<open>The flag says that the lines of a managed table are being skipped.\<close>

fun strip_hook_lines :: "bool \<Rightarrow> string list \<Rightarrow> string list" where
  "strip_hook_lines skip [] = []"
| "strip_hook_lines skip (l # ls) =
     (let stripped = str_strip l in
      if stripped = ''[hooks.state]'' \<and> \<not> has_direct_entries ls then strip_hook_lines skip ls
      else if managed_entry stripped then strip_hook_lines skip ls
      else if managed_table stripped then strip_hook_lines True ls
      else if skip then (if is_table_header stripped then l # strip_hook_lines False ls else strip_hook_lines True ls)
      else l # strip_hook_lines False ls)"

definition strip_managed_codex_hook_state :: "string \<Rightarrow> string" where
  "strip_managed_codex_hook_state t = concat (strip_hook_lines False (text_lines t))"

definition codex_config_content :: "string \<Rightarrow> string" where
  "codex_config_content existing =
     (let rest = lstrip newline_char (strip_managed_codex_hook_state (strip_managed_codex_plugin_block existing))
      in codex_plugin_config_block @ rest @ (if rest \<noteq> [] \<and> \<not> endswith rest [newline_char] then [newline_char] else []))"

text \<open>Owners and modes of the written files are not kept.\<close>

definition ensure_codex_plugin_enabled :: "string \<Rightarrow> string option \<Rightarrow> (fs, string) eff" where
  "ensure_codex_plugin_enabled home config_path =
     (let path = or_string config_path (path_join (path_join home ''.codex'') ''config.toml'')
      in seqE (makedirs (dirname path))
        (bindE (catchE (readE (\<lambda>fs. read_text fs path)) (\<lambda>e. if is_os_error e then retE [] else raiseE e)) (\<lambda>existing.
          seqE (write_file path (codex_config_content existing)) (retE path))))"

end
