(* ===== verification/SetupTextFacts.thy ===== *)
theory SetupTextFacts
  imports SetupText
begin

text \<open>
  What a setup leaves of the configuration of Codex: the managed block first, then the lines of the old file
  that are not managed, in their order.
\<close>

section \<open>Lines\<close>

lemma concat_text_lines: "concat (text_lines s) = s"
proof -
  have "concat (text_lines s) = map char_of (concat (splitlines (map of_char s)))"
    by (simp add: text_lines_def map_concat)
  then show ?thesis by (simp add: concat_splitlines o_def)
qed

lemma splitlines_break: "(10 # l) \<in> set (splitlines us) \<Longrightarrow> l = []"
proof (induction us arbitrary: l rule: splitlines.induct)
  case (3 u v us)
  then show ?case
    by (auto simp: line_break_def split: if_splits list.splits)
qed auto

lemma text_lines_newline: "(newline_char # l) \<in> set (text_lines s) \<Longrightarrow> l = []"
proof -
  assume "(newline_char # l) \<in> set (text_lines s)"
  then obtain us where us: "us \<in> set (splitlines (map of_char s))" "map char_of us = newline_char # l"
    by (auto simp: text_lines_def)
  then obtain u vs where u: "us = u # vs" "char_of u = newline_char" "map char_of vs = l" by (cases us) auto
  have "u \<in> set (concat (splitlines (map of_char s)))" using us(1) unfolding u(1) by (auto intro!: bexI)
  then have "u \<in> of_char ` set s" by (simp add: concat_splitlines)
  then obtain c where "u = of_char c" by auto
  with u have "u = 10" by (simp add: newline_char_def)
  with us u splitlines_break show "l = []" by blast
qed

lemma lstrip_lines:
  assumes "\<And>l. (newline_char # l) \<in> set ls \<Longrightarrow> l = []" "[] \<notin> set ls"
  shows "lstrip newline_char (concat ls) = concat (dropWhile ((=) [newline_char]) ls)"
  using assms
proof (induction ls)
  case (Cons l ls)
  show ?case
  proof (cases "l = [newline_char]")
    case True
    with Cons show ?thesis by (simp add: lstrip_def)
  next
    case False
    obtain c l' where "l = c # l'" using Cons.prems(2) by (cases l) auto
    with False Cons.prems(1) [of l'] show ?thesis by (auto simp: lstrip_def)
  qed
qed (simp add: lstrip_def)

section \<open>The hook entries\<close>

lemma strip_hook_subseq: "subseq (strip_hook_lines skip ls) ls"
proof (induction ls arbitrary: skip)
  case (Cons l ls)
  have "subseq (strip_hook_lines b ls) (l # ls)" for b using Cons.IH by (rule list_emb_Cons)
  with Cons.IH show ?case by (auto simp: Let_def)
qed simp

lemma strip_hook_unmanaged:
  "list_all (\<lambda>l. \<not> managed_entry (str_strip l) \<and> \<not> managed_table (str_strip l)) (strip_hook_lines skip ls)"
  by (induction skip ls rule: strip_hook_lines.induct) (auto simp: Let_def)

text \<open>Outside managed tables, exactly the managed entries and a parent table without entries go.\<close>

lemma strip_hook_keeps:
  "list_all (\<lambda>l. \<not> managed_table (str_strip l) \<and> \<not> managed_entry (str_strip l) \<and> str_strip l \<noteq> ''[hooks.state]'') ls \<Longrightarrow>
   strip_hook_lines False ls = ls"
  by (induction ls) (auto simp: Let_def)

lemma text_lines_nonempty: "[] \<notin> set (text_lines s)"
  using splitlines_nonempty by (fastforce simp: text_lines_def)

lemma dropWhile_subseq: "subseq (dropWhile P xs) xs"
  by (metis suffix_dropWhile suffix_imp_subseq)

lemma list_all_dropWhile: "list_all P xs \<Longrightarrow> list_all P (dropWhile Q xs)"
  by (auto simp: list_all_iff dest: set_dropWhileD)


section \<open>The managed blocks\<close>

lemma find_sub_iff: "find_sub p s = None \<longleftrightarrow> \<not> sublist p s"
  by (induction p s rule: find_sub.induct) (auto simp: sublist_Cons_right split: if_splits)

text \<open>A complete block goes: what stays of the marker is a block without an end.\<close>

lemma no_block_left:
  "find_sub CODEX_CONFIG_BEGIN (strip_managed_codex_plugin_block t) = None \<or>
   (\<exists>u. suffix u (strip_managed_codex_plugin_block t) \<and> prefix CODEX_CONFIG_BEGIN u \<and> \<not> sublist CODEX_CONFIG_END u)"
proof (induction t rule: strip_managed_codex_plugin_block.induct)
  case (1 t)
  show ?case
  proof (cases "find_sub CODEX_CONFIG_BEGIN t")
    case None
    then show ?thesis by (simp add: strip_managed_codex_plugin_block.simps [of t])
  next
    case (Some start)
    have p: "prefix CODEX_CONFIG_BEGIN (drop start t)" using find_sub_prefix [OF Some] by simp
    then have l: "lstrip newline_char (drop start t) = drop start t"
      by (intro lstrip_hd) (auto simp: prefix_def CODEX_CONFIG_BEGIN_def newline_char_def)
    show ?thesis
    proof (cases "find_sub CODEX_CONFIG_END (drop start t)")
      case None
      then have "strip_managed_codex_plugin_block t = take (line_start t start) t @ drop start t"
        using Some l by (simp add: strip_managed_codex_plugin_block.simps [of t])
      moreover have "\<not> sublist CODEX_CONFIG_END (drop start t)" using None by (simp add: find_sub_iff)
      ultimately show ?thesis using p by (metis suffixI)
    next
      case fin: (Some n)
      then show ?thesis using 1 [OF Some fin] Some
        by (simp add: strip_managed_codex_plugin_block.simps [of t])
    qed
  qed
qed

end
