(* ===== verification/Setup.thy ===== *)
theory Setup
  imports SetupText CliArgs
begin

text \<open>
  The rest of \<open>ccc-agent setup\<close> (\<open>setup.py\<close>) and the seed of the Claude plugin (\<open>claude_plugin.py\<close>): the settings
  and the plugin registry of Claude, the seed directory, the hardening library, the runtime configuration, and the
  command itself.

  The JSON codec, the compiler, SHA-256, what is installed and the environment are arguments.  What is printed, the
  modes and the owners of files are not kept.
\<close>

record json_codec =
  jc_loads :: "string \<Rightarrow> json result"
  jc_dumps :: "json \<Rightarrow> string"
  jc_sorted :: "json \<Rightarrow> string"
  jc_str :: "json \<Rightarrow> string"

definition load_json_object :: "json_codec \<Rightarrow> fs \<Rightarrow> string \<Rightarrow> pydict result" where
  "load_json_object J fs path =
     (case bindR (read_text fs path) (jc_loads J) of
        Inl e \<Rightarrow> if is_os_error e \<or> is_value_error e then Inr [] else Inl e
      | Inr (JObj d) \<Rightarrow> Inr d
      | Inr _ \<Rightarrow> Inr [])"

definition path_of :: "string list \<Rightarrow> string" where
  "path_of ps = (case ps of [] \<Rightarrow> [] | p # qs \<Rightarrow> foldl path_join p qs)"

section \<open>Claude's settings\<close>

definition CLAUDE_PLUGIN_ID :: string where "CLAUDE_PLUGIN_ID = CODEX_PLUGIN_ID"
definition CLAUDE_PLUGIN_MARKETPLACE :: string where "CLAUDE_PLUGIN_MARKETPLACE = ''ccc-agent''"
definition CLAUDE_PLUGIN_SEED_ENV :: string where "CLAUDE_PLUGIN_SEED_ENV = ''CLAUDE_CODE_PLUGIN_SEED_DIR''"
definition DEFAULT_CLAUDE_PLUGIN_SEED_DIR :: string where "DEFAULT_CLAUDE_PLUGIN_SEED_DIR = ''/opt/claude-seed''"
definition CLAUDE_SYSTEM_SETTINGS :: string where
  "CLAUDE_SYSTEM_SETTINGS = ''/etc/claude-code/managed-settings.d/50-ccc-agent.json''"

definition default_claude_plugin_seed_dir :: "environ \<Rightarrow> string \<Rightarrow> string \<Rightarrow> string" where
  "default_claude_plugin_seed_dir e mode home =
     (let configured = or_string (dict_get e CLAUDE_PLUGIN_SEED_ENV) []
      in if configured \<noteq> [] then configured
         else if mode = ''user'' \<and> home \<noteq> [] then path_of [home, ''.local'', ''share'', ''ccc-agent'', ''claude-seed'']
         else DEFAULT_CLAUDE_PLUGIN_SEED_DIR)"

definition LEGACY_HOOK_MARK :: string where "LEGACY_HOOK_MARK = ''claude-ccc-containment/hooks/ccc-''"

definition is_legacy_hook :: "(json \<Rightarrow> string) \<Rightarrow> json \<Rightarrow> bool" where
  "is_legacy_hook str_of hook =
     (case hook of JObj h \<Rightarrow> str_in LEGACY_HOOK_MARK (str_of (get_default h ''command'' (JStr []))) | _ \<Rightarrow> False)"

text \<open>The elements of a string and the keys of a dictionary are no hooks; what is not iterable raises.\<close>

definition is_legacy_claude_hook_group :: "(json \<Rightarrow> string) \<Rightarrow> json \<Rightarrow> bool result" where
  "is_legacy_claude_hook_group str_of grp =
     (case grp of
        JObj g \<Rightarrow> (case get_default g ''hooks'' (JArr []) of
             JArr hooks \<Rightarrow> Inr (list_ex (is_legacy_hook str_of) hooks)
           | JStr _ \<Rightarrow> Inr False
           | JObj _ \<Rightarrow> Inr False
           | _ \<Rightarrow> Inl (TypeError ''not iterable''))
      | _ \<Rightarrow> Inr False)"

fun current_hook_groups :: "(json \<Rightarrow> string) \<Rightarrow> json list \<Rightarrow> json list result" where
  "current_hook_groups str_of [] = Inr []"
| "current_hook_groups str_of (g # gs) =
     bindR (is_legacy_claude_hook_group str_of g) (\<lambda>legacy.
     bindR (current_hook_groups str_of gs) (\<lambda>kept. Inr (if legacy then kept else g # kept)))"

fun kept_hooks :: "(json \<Rightarrow> string) \<Rightarrow> pydict \<Rightarrow> pydict result" where
  "kept_hooks str_of [] = Inr []"
| "kept_hooks str_of ((event, v) # hs) =
     bindR (case v of
         JArr groups \<Rightarrow> bindR (current_hook_groups str_of groups) (\<lambda>kept. Inr (if kept \<noteq> [] then [(event, JArr kept)] else []))
       | _ \<Rightarrow> Inr [(event, v)]) (\<lambda>now.
     bindR (kept_hooks str_of hs) (\<lambda>later. Inr (now @ later)))"

definition without_marketplace :: "pydict \<Rightarrow> pydict" where
  "without_marketplace s =
     (case get_default s ''extraKnownMarketplaces'' JNull of
        JObj m \<Rightarrow>
          if dict_has m CLAUDE_PLUGIN_MARKETPLACE
          then (let rest = dict_pop m CLAUDE_PLUGIN_MARKETPLACE
                in if rest \<noteq> [] then dict_set s ''extraKnownMarketplaces'' (JObj rest) else dict_pop s ''extraKnownMarketplaces'')
          else s
      | _ \<Rightarrow> s)"

definition without_legacy_hooks :: "(json \<Rightarrow> string) \<Rightarrow> pydict \<Rightarrow> pydict result" where
  "without_legacy_hooks str_of s =
     (case get_default s ''hooks'' JNull of
        JObj h \<Rightarrow> bindR (kept_hooks str_of h) (\<lambda>kept. Inr (if kept \<noteq> [] then dict_set s ''hooks'' (JObj kept) else dict_pop s ''hooks''))
      | _ \<Rightarrow> Inr s)"

definition with_enabled_plugin :: "pydict \<Rightarrow> pydict" where
  "with_enabled_plugin s =
     dict_set s ''enabledPlugins'' (JObj (dict_set
       (case get_default s ''enabledPlugins'' JNull of JObj d \<Rightarrow> d | _ \<Rightarrow> []) CLAUDE_PLUGIN_ID (JBool True)))"

definition migrate_claude_settings :: "(json \<Rightarrow> string) \<Rightarrow> json \<Rightarrow> pydict result" where
  "migrate_claude_settings str_of settings =
     bindR (if truthy settings then as_obj settings else Inr []) (\<lambda>s.
     bindR (without_legacy_hooks str_of (without_marketplace s)) (\<lambda>s. Inr (with_enabled_plugin s)))"

definition ensure_claude_seed_plugin_enabled :: "json_codec \<Rightarrow> string \<Rightarrow> string option \<Rightarrow> (fs, string) eff" where
  "ensure_claude_seed_plugin_enabled J home settings_path =
     (let path = or_string settings_path (path_of [home, ''.claude'', ''settings.json''])
      in seqE (makedirs (dirname path))
        (bindE (catchE (readE (\<lambda>fs. bindR (read_text fs path) (jc_loads J)))
                  (\<lambda>e. if is_os_error e \<or> is_value_error e then retE (JObj []) else raiseE e)) (\<lambda>existing.
         bindE (liftE (migrate_claude_settings (jc_str J) existing)) (\<lambda>settings.
           seqE (write_file path (line (jc_sorted J (JObj settings)))) (retE path)))))"

section \<open>Claude's plugin registry\<close>

text \<open>The first entry of the seed with the version of this program.\<close>

fun seed_entry :: "(json \<Rightarrow> string) \<Rightarrow> json list \<Rightarrow> pydict option" where
  "seed_entry str_of [] = None"
| "seed_entry str_of (v # vs) =
     (case v of
        JObj item \<Rightarrow> if str_of (get_default item ''version'' JNull) = CODEX_PLUGIN_VERSION then Some item else seed_entry str_of vs
      | _ \<Rightarrow> seed_entry str_of vs)"

definition seed_marketplace_dir :: "string \<Rightarrow> string" where
  "seed_marketplace_dir seed = path_of [seed, ''marketplaces'', CLAUDE_PLUGIN_MARKETPLACE]"

definition seed_cache_dir :: "string \<Rightarrow> string \<Rightarrow> string" where
  "seed_cache_dir seed version = path_of [seed, ''cache'', CLAUDE_PLUGIN_MARKETPLACE, ''ccc'', version]"

definition registered_market :: "pydict \<Rightarrow> string \<Rightarrow> json" where
  "registered_market seed_market dir =
     JObj (dict_set (dict_set seed_market ''source'' (JObj [(''source'', JStr ''directory''), (''path'', JStr dir)]))
       ''installLocation'' (JStr dir))"

definition registered_plugins :: "pydict \<Rightarrow> pydict \<Rightarrow> string \<Rightarrow> pydict" where
  "registered_plugins installed entry cache =
     (let installed = dict_set installed ''version'' (JInt 2);
          plugins = (case get_default installed ''plugins'' JNull of JObj d \<Rightarrow> d | _ \<Rightarrow> []);
          entry = dict_set (dict_set entry ''scope'' (JStr ''user'')) ''installPath'' (JStr cache)
      in dict_set installed ''plugins'' (JObj (dict_set plugins CLAUDE_PLUGIN_ID (JArr [JObj entry]))))"

definition ensure_claude_seed_plugin_registry :: "json_codec \<Rightarrow> string \<Rightarrow> string \<Rightarrow> (fs, (string \<times> string) option) eff" where
  "ensure_claude_seed_plugin_registry J home seed0 =
     bindE (getE (\<lambda>fs. abspath (fs_cwd fs) seed0)) (\<lambda>seed.
     bindE (readE (\<lambda>fs. load_json_object J fs (path_join seed ''known_marketplaces.json''))) (\<lambda>seed_known.
     bindE (readE (\<lambda>fs. load_json_object J fs (path_join seed ''installed_plugins.json''))) (\<lambda>seed_installed.
       case (get_default seed_known CLAUDE_PLUGIN_MARKETPLACE JNull,
             case get_default seed_installed ''plugins'' JNull of JObj p \<Rightarrow> get_default p CLAUDE_PLUGIN_ID JNull | _ \<Rightarrow> JNull) of
         (JObj market, JArr entries) \<Rightarrow>
           (case seed_entry (jc_str J) entries of
              None \<Rightarrow> retE None
            | Some entry \<Rightarrow>
                let dir = seed_marketplace_dir seed; cache = seed_cache_dir seed CODEX_PLUGIN_VERSION;
                    state = path_join home ''.claude''; plugin_state = path_join state ''plugins'';
                    known_path = path_join plugin_state ''known_marketplaces.json'';
                    installed_path = path_join plugin_state ''installed_plugins.json''
                in bindE (getE (\<lambda>fs. isfile fs (path_of [dir, ''.claude-plugin'', ''marketplace.json'']) \<and>
                         isfile fs (path_of [cache, ''.claude-plugin'', ''plugin.json'']))) (\<lambda>complete.
                     if \<not> complete then retE None
                     else seqE (bindE (getE (\<lambda>fs. exists_path fs state)) (\<lambda>present. whenE (\<not> present) (makedirs state)))
                       (seqE (makedirs plugin_state)
                       (bindE (readE (\<lambda>fs. load_json_object J fs known_path)) (\<lambda>known.
                        bindE (readE (\<lambda>fs. load_json_object J fs installed_path)) (\<lambda>installed.
                          seqE (write_file known_path
                              (line (jc_sorted J (JObj (dict_set known CLAUDE_PLUGIN_MARKETPLACE (registered_market market dir))))))
                          (seqE (write_file installed_path (line (jc_sorted J (JObj (registered_plugins installed entry cache)))))
                            (retE (Some (known_path, installed_path))))))))))
       | _ \<Rightarrow> retE None)))"

section \<open>The seed\<close>

text \<open>\<open>shutil.copytree\<close>: a link is followed, errors are collected and raised at the end; the fuel bounds the depth of the
  source, links included.\<close>

primrec copy_tree :: "nat \<Rightarrow> string \<Rightarrow> string \<Rightarrow> (fs, unit) eff" where
  "copy_tree 0 src dst = raiseE (OSError ''Too many levels of symbolic links'')"
| "copy_tree (Suc n) src dst =
     bindE (readE (\<lambda>fs. listdir fs src)) (\<lambda>names.
     bindE (getE (\<lambda>fs. lexists fs dst)) (\<lambda>present.
       if present then raiseE (FileExistsError ''File exists'')
       else seqE (makedirs dst)
         (bindE (foldE (\<lambda>failed name.
             bindE (getE (\<lambda>fs. isdir fs (path_join src name))) (\<lambda>dir.
               catchE (seqE (if dir then copy_tree n (path_join src name) (path_join dst name)
                             else copy2 (path_join src name) (path_join dst name) True) (retE failed))
                 (\<lambda>e. if is_os_error e then retE True else raiseE e))) False names) (\<lambda>failed.
          bindE (catchE (seqE (copystat src dst True) (retE failed))
                   (\<lambda>e. if is_os_error e then retE True else raiseE e)) (\<lambda>failed.
            if failed then raiseE (OSError ''copytree'') else retE ())))))"

definition copytree :: "string \<Rightarrow> string \<Rightarrow> (fs, unit) eff" where
  "copytree src dst = bindE (getE (\<lambda>fs. 41 * Suc (tree_depth fs))) (\<lambda>n. copy_tree n src dst)"

definition materialize_marketplace :: "string \<Rightarrow> string \<Rightarrow> bool \<Rightarrow> (fs, string) eff" where
  "materialize_marketplace dest0 source_root force =
     (let market = path_join source_root ''.claude-plugin''; plugin = path_join source_root ''claude-ccc-containment''
      in bindE (getE (\<lambda>fs. (isdir fs market, isdir fs plugin, abspath (fs_cwd fs) dest0))) (\<lambda>(m, p, dest).
         if \<not> m then raiseE (FileNotFoundError market)
         else if \<not> p then raiseE (FileNotFoundError plugin)
         else bindE (getE (\<lambda>fs. exists_path fs dest)) (\<lambda>present.
           seqE (if \<not> present then retE () else if \<not> force then raiseE (FileExistsError dest) else rmtree dest)
           (seqE (makedirs dest)
           (seqE (copytree market (path_join dest ''.claude-plugin''))
           (seqE (copytree plugin (path_join dest ''claude-ccc-containment'')) (retE dest)))))))"

definition seed_write_json :: "json_codec \<Rightarrow> string \<Rightarrow> json \<Rightarrow> (fs, unit) eff" where
  "seed_write_json J path v =
     seqE (write_file (path @ ''.tmp'') (line (jc_sorted J v))) (os_replace (path @ ''.tmp'') path)"

definition replace_tree :: "string \<Rightarrow> string \<Rightarrow> (fs, unit) eff" where
  "replace_tree source dest =
     bindE (getE (\<lambda>fs. (lexists fs dest, islink fs dest \<or> \<not> isdir fs dest))) (\<lambda>(present, leaf).
       seqE (if \<not> present then retE () else if leaf then os_unlink dest else rmtree dest) (copytree source dest))"

definition seed_market :: "pydict \<Rightarrow> string \<Rightarrow> string \<Rightarrow> json" where
  "seed_market known dir now =
     (let old = (case get_default known CLAUDE_PLUGIN_MARKETPLACE JNull of JObj d \<Rightarrow> d | _ \<Rightarrow> [])
      in JObj [(''source'', JObj [(''source'', JStr ''directory''), (''path'', JStr dir)]), (''installLocation'', JStr dir),
           (''lastUpdated'', get_default old ''lastUpdated'' (JStr now))])"

definition seed_installed :: "pydict \<Rightarrow> string \<Rightarrow> string \<Rightarrow> string \<Rightarrow> pydict" where
  "seed_installed installed cache version now =
     (let plugins = (case get_default installed ''plugins'' JNull of JObj d \<Rightarrow> d | _ \<Rightarrow> []);
          old = (case get_default plugins CLAUDE_PLUGIN_ID JNull of JArr (JObj d # _) \<Rightarrow> d | _ \<Rightarrow> []);
          entry = JObj [(''scope'', JStr ''user''), (''installPath'', JStr cache), (''version'', JStr version),
            (''installedAt'', get_default old ''installedAt'' (JStr now)), (''lastUpdated'', JStr now)]
      in dict_set (dict_set installed ''version'' (JInt 2)) ''plugins'' (JObj (dict_set plugins CLAUDE_PLUGIN_ID (JArr [entry]))))"

definition materialize_seed :: "json_codec \<Rightarrow> string \<Rightarrow> string \<Rightarrow> string \<Rightarrow> (fs, string) eff" where
  "materialize_seed J now seed0 source_root =
     bindE (getE (\<lambda>fs. abspath (fs_cwd fs) seed0)) (\<lambda>seed.
     let dir = seed_marketplace_dir seed; plugin_source = path_join source_root ''claude-ccc-containment''
     in bindE (readE (\<lambda>fs. load_json_object J fs (path_of [plugin_source, ''.claude-plugin'', ''plugin.json'']))) (\<lambda>manifest.
        let v = get_default manifest ''version'' JNull; version = (if truthy v then jc_str J v else [])
        in if get_default manifest ''name'' JNull \<noteq> JStr ''ccc'' \<or> version = []
           then raiseE (ValueError ''invalid bundled Claude plugin manifest'')
           else let cache = seed_cache_dir seed version;
                    known_path = path_join seed ''known_marketplaces.json'';
                    installed_path = path_join seed ''installed_plugins.json''
             in seqE (makedirs (dirname dir))
               (seqE (makedirs (dirname cache))
               (seqE (materialize_marketplace dir source_root True)
               (seqE (replace_tree plugin_source cache)
               (bindE (readE (\<lambda>fs. load_json_object J fs known_path)) (\<lambda>known.
                bindE (readE (\<lambda>fs. load_json_object J fs installed_path)) (\<lambda>installed.
                  seqE (seed_write_json J known_path (JObj (dict_set known CLAUDE_PLUGIN_MARKETPLACE (seed_market known dir now))))
                  (seqE (seed_write_json J installed_path (JObj (seed_installed installed cache version now)))
                    (retE seed))))))))))"

end
