(* ===== verification/SetupMain.thy ===== *)
theory SetupMain
  imports Setup
begin

text \<open>
  The runtime configuration a setup generates and the command \<open>ccc-agent setup\<close> (\<open>setup.py\<close>).

  The record \<open>setup_host\<close> holds what is asked of the machine: the environment, the user, the search path, the
  packaged BranchFS binary, the directory of the assets, the compiler, SHA-256, the process id and the time.
\<close>

section \<open>The configuration\<close>

definition SECRETS :: "string list" where
  "SECRETS = [''.ssh'', ''.gnupg'', ''.netrc'', ''.aws'', ''.kube'', ''.docker/config.json'']"

definition build_agent_plugins :: "environ \<Rightarrow> string \<Rightarrow> string \<Rightarrow> string \<Rightarrow> string option \<Rightarrow> pydict" where
  "build_agent_plugins e cwd home src claude_seed_dir =
     (let claude_seed = abspath cwd (or_string claude_seed_dir (default_claude_plugin_seed_dir e [] []));
          cache = codex_plugin_cache_path home
      in [(''codex'', JObj [(''src'', JStr (path_join src ''codex-ccc-containment'')), (''sandbox_path'', JStr cache),
             (''ensure_dirs'', JArr [JStr (dirname cache)]), (''plugin_id'', JStr CODEX_PLUGIN_ID)]),
          (''claude'', JObj [(''src'', JStr claude_seed), (''sandbox_path'', JStr claude_seed),
             (''setenv'', JObj [(CLAUDE_PLUGIN_SEED_ENV, JStr claude_seed)]), (''plugin_id'', JStr CLAUDE_PLUGIN_ID)])])"

definition build_agent_state_binds :: "string \<Rightarrow> string list" where
  "build_agent_state_binds home =
     map (path_join home) [''.codex'', ''.claude'', ''.hermes'', ''.claude.json'', ''.local/bin/codex'', ''.local/bin/claude'',
       ''.local/share/claude'', ''.local/state/claude'', ''.cache/claude-cli-nodejs'']"

text \<open>The directories and names a configuration is built from.\<close>

record setup_paths =
  sp_user :: string
  sp_home :: string
  sp_branchfs :: string
  sp_bwrap :: string
  sp_state :: string
  sp_storage :: string
  sp_store :: string
  sp_container :: string

definition home_under_storage :: "setup_paths \<Rightarrow> string" where
  "home_under_storage p = ''user/'' @ (if sp_container p \<noteq> [] then sp_container p else sp_user p)"

definition system_hide_paths :: "setup_paths \<Rightarrow> string list" where
  "system_hide_paths p =
     (let root = rstrip sep (sp_storage p); state = rstrip sep (sp_state p)
      in map (\<lambda>secret. home_under_storage p @ ''/'' @ secret) SECRETS @
         (if startswith state (root @ [sep]) then [drop (length root + 1) state] else []))"

definition system_root :: "setup_paths \<Rightarrow> json" where
  "system_root p =
     JObj [(''name'', JStr ''storage''), (''base'', JStr (sp_storage p)), (''store'', JStr (path_join (sp_store p) ''storage'')),
       (''visible'', JStr (sp_storage p)), (''home_subdir'', JStr (home_under_storage p)),
       (''hide_paths'', jstrs (system_hide_paths p))]"

definition user_root :: "setup_paths \<Rightarrow> json" where
  "user_root p =
     JObj [(''name'', JStr ''home''), (''base'', JStr (sp_home p)),
       (''store'', JStr (path_join (path_join (sp_state p) ''stores'') ''home'')), (''visible'', JStr (sp_home p)),
       (''home_subdir'', JStr []), (''hide_paths'', jstrs (SECRETS @ [''.ccc-agent'']))]"

definition COMMENT :: string where
  "COMMENT = ''Generated by ccc-agent setup. Keep root-owned and not writable by agents.''"

definition WORKSPACE_COMMENT :: string where
  "WORKSPACE_COMMENT = ''Launch workspace is per invocation: ccc-agent run defaults to the caller's current directory; '' @
     ''pass --workspace to override.''"

definition RUNTIME_COMMENT :: string where
  "RUNTIME_COMMENT = ''Re-expose the agent binary/runtime read-only at a NON-view dest (e.g. '/path/to/agent:/opt/agent'). '' @
     ''The full invocation/container environment is inherited by default. Use bwrap_unsetenv for explicit removals and '' @
     ''bwrap_setenv for trusted overrides.''"

definition AGENT_STATE_COMMENT :: string where
  "AGENT_STATE_COMMENT = ''By default Codex/Hermes state plus Codex/Claude Code local launcher/runtime paths (~/.claude, '' @
     ''~/.claude.json, ~/.local/bin/codex, ~/.local/bin/claude, ~/.local/share/claude, ~/.local/state/claude, and '' @
     ''~/.cache/claude-cli-nodejs) are shared rw system state, direct-bound over the BranchFS home view and never committed '' @
     ''or rolled back by ccc-agent. Codex/Claude/Hermes own their own concurrent access. Set protect_agent_state=true or run '' @
     ''with --protect-agent-state to keep these paths in BranchFS review instead.''"

definition CRED_COMMENT :: string where
  "CRED_COMMENT = ''Agent config/state paths such as ~/.codex, ~/.claude, ~/.claude.json, Codex/Claude .local '' @
     ''binary/state/cache, and ~/.hermes are direct shared rw agent_state_binds by default, so real agents can create logs, '' @
     ''sessions, caches, config, and refreshed tokens without BranchFS merge policy. Use cred_mounts only for narrow '' @
     ''special-case read-only overlays; do not bind the whole agent state dirs read-only by default.''"

definition AGENT_PLUGINS_COMMENT :: string where
  "AGENT_PLUGINS_COMMENT = ''Mount-only CCC plugin assets for tools that load persistent config. Setup enables/trusts Codex '' @
     ''and materializes Claude's packaged plugin seed; ccc-agent run supplies read-only plugin asset binds plus Claude's '' @
     ''documented plugin seed env. No default entry appends agent CLI argv.''"

definition build_config :: "environ \<Rightarrow> string \<Rightarrow> string \<Rightarrow> string \<Rightarrow> setup_paths \<Rightarrow> string option \<Rightarrow> pydict" where
  "build_config e cwd plugins_src mode p claude_seed_dir =
     (let system = (mode = ''system'');
          ignored = (if system then rstrip sep (sp_storage p) @ ''/'' @ home_under_storage p @ ''/.cache*''
                     else path_join (sp_home p) ''.cache*'')
      in [(''_comment'', JStr COMMENT), (''state_dir'', JStr (sp_state p)), (''backend'', JStr ''branchfs''),
          (''branchfs_bin'', JStr (sp_branchfs p)), (''branchfs_timeout_seconds'', JInt 30), (''user'', JStr (sp_user p)),
          (''home_subdir'', JStr (if system then (if sp_container p \<noteq> [] then sp_container p else sp_user p) else [])),
          (''_workspace_comment'', JStr WORKSPACE_COMMENT), (''confinement'', JStr ''bwrap''), (''bwrap_bin'', JStr (sp_bwrap p)),
          (''bwrap_proc_mode'', JStr ''bind''), (''_runtime_comment'', JStr RUNTIME_COMMENT), (''bwrap_ro_binds'', JArr []),
          (''bwrap_unsetenv'', JArr []), (''bwrap_setenv'', JObj []), (''_agent_state_comment'', JStr AGENT_STATE_COMMENT),
          (''protect_agent_state'', JBool False), (''ensure_agent_state_dirs'', JBool True),
          (''agent_state_binds'', jstrs (build_agent_state_binds (sp_home p))), (''_cred_comment'', JStr CRED_COMMENT),
          (''cred_mounts'', JArr []), (''cred_mask'', JArr []), (''cred_env'', JObj []),
          (''_agent_plugins_comment'', JStr AGENT_PLUGINS_COMMENT), (''agent_hook_mode'', JStr ''plugins''),
          (''agent_plugins'', JObj (build_agent_plugins e cwd (sp_home p) plugins_src
             (Some (or_string claude_seed_dir (default_claude_plugin_seed_dir e mode (sp_home p)))))),
          (''roots'', JArr [if system then system_root p else user_root p]),
          (''hide_patterns'', jstrs [''.env'', ''.env.*'', ''*.pem'', ''id_rsa*'', ''id_ed25519*'', ''credentials.json'']),
          (''policy'', JObj [(''mode'', JStr ''workspace-auto''), (''ignore_patterns'', jstrs [ignored])])])"

section \<open>The machine\<close>

record setup_host =
  sh_environ :: environ
  sh_login :: string
  sh_own_home :: string
  sh_which :: "string \<Rightarrow> string option"
  sh_packaged :: "string option"
  sh_assets :: string
  sh_compile :: "string list \<Rightarrow> (fs, int) eff"
  sh_sha256 :: "string \<Rightarrow> string"
  sh_pid :: nat
  sh_now :: string

definition resolve_binary :: "setup_host \<Rightarrow> fs \<Rightarrow> string \<Rightarrow> string option \<Rightarrow> string list \<Rightarrow> string" where
  "resolve_binary S fs name override fallbacks =
     or_string override (or_string (sh_which S name)
       (case List.find (\<lambda>c. c \<noteq> [] \<and> exists_path fs c) fallbacks of Some c \<Rightarrow> c | None \<Rightarrow> name))"

definition resolve_branchfs :: "setup_host \<Rightarrow> fs \<Rightarrow> string option \<Rightarrow> string" where
  "resolve_branchfs S fs override =
     or_string override (or_string (sh_packaged S) (resolve_binary S fs ''branchfs'' None [''/usr/local/bin/branchfs'']))"

definition plugins_dir :: "setup_host \<Rightarrow> string" where
  "plugins_dir S = path_join (sh_assets S) ''plugins''"

text \<open>\<open>try: m finally: os.unlink(path)\<close>, where the removal may fail.\<close>

definition finally_unlink :: "string \<Rightarrow> (fs, 'a) eff \<Rightarrow> (fs, 'a) eff" where
  "finally_unlink path m =
     (let cleanup = catchE (os_unlink path) (\<lambda>e. if is_os_error e then retE () else raiseE e)
      in bindE (catchE m (\<lambda>e. seqE cleanup (raiseE e))) (\<lambda>x. seqE cleanup (retE x)))"

definition c_compiler :: "setup_host \<Rightarrow> fs \<Rightarrow> string option" where
  "c_compiler S fs =
     (if isfile fs ''/usr/bin/cc'' then Some ''/usr/bin/cc''
      else if isfile fs ''/usr/bin/gcc'' then Some ''/usr/bin/gcc''
      else case sh_which S ''cc'' of Some c \<Rightarrow> Some c | None \<Rightarrow> sh_which S ''gcc'')"

definition build_mcp_client_hardening :: "setup_host \<Rightarrow> string \<Rightarrow> (fs, string) eff" where
  "build_mcp_client_hardening S output0 =
     (let source = path_of [sh_assets S, ''security'', ''ccc_client_hardening.c'']
      in bindE (getE (\<lambda>fs. (c_compiler S fs, isfile fs source, abspath (fs_cwd fs) output0))) (\<lambda>(compiler, present, output).
         case compiler of
           None \<Rightarrow> raiseE (RuntimeError ''no C compiler found (tried cc and gcc)'')
         | Some cc \<Rightarrow>
             if \<not> present then raiseE (RuntimeError (''missing packaged client-hardening source '' @ source))
             else let temporary = output @ ''.tmp.'' @ show_nat (sh_pid S);
                      manifest = output @ ''.sha256''; manifest_tmp = manifest @ ''.tmp.'' @ show_nat (sh_pid S)
               in seqE (makedirs (dirname output))
                 (seqE (finally_unlink temporary
                    (bindE (sh_compile S [cc, ''-shared'', ''-fPIC'', ''-O2'', ''-Wall'', ''-Wextra'', ''-Werror'', source,
                              ''-o'', temporary, ''-ldl'']) (\<lambda>status.
                       if status \<noteq> 0 then raiseE (RuntimeError ''compiler failed'') else os_replace temporary output)))
                 (bindE (readE (\<lambda>fs. read_file fs output)) (\<lambda>library.
                  seqE (finally_unlink manifest_tmp
                    (seqE (write_file manifest_tmp (line (sh_sha256 S library @ ''  '' @ basename output)))
                       (os_replace manifest_tmp manifest)))
                    (retE output))))))"

section \<open>The command\<close>

record setup_args =
  sa_system :: bool
  sa_user :: bool
  sa_config :: "string option"
  sa_user_name :: "string option"
  sa_home :: "string option"
  sa_branchfs :: "string option"
  sa_bwrap :: "string option"
  sa_state :: "string option"
  sa_storage :: string
  sa_store :: string
  sa_container :: "string option"
  sa_no_plugins :: bool
  sa_protect_state :: bool
  sa_enable_shims :: bool
  sa_shim_agents :: string
  sa_link_dir :: string
  sa_path_hook :: "string option"
  sa_codex_config :: "string option"
  sa_claude_settings :: "string option"
  sa_claude_seed :: "string option"
  sa_ssh_router :: "string option"
  sa_conda_prefix :: "string option"
  sa_conda_shims :: bool

definition setup_mode :: "setup_args \<Rightarrow> string" where
  "setup_mode a = (if sa_user a \<and> \<not> sa_system a then ''user'' else ''system'')"

definition setup_paths_of :: "setup_host \<Rightarrow> fs \<Rightarrow> setup_args \<Rightarrow> setup_paths \<times> string" where
  "setup_paths_of S fs a =
     (let user = or_string (sa_user_name a) (or_string (dict_get (sh_environ S) ''USER_NAME'') (sh_login S));
          system = (setup_mode a = ''system'');
          home = or_string (sa_home a) (if system then ''/home/'' @ user else sh_own_home S);
          state = or_string (sa_state a) (if system then ''/storage/user/.ccc-agent'' else path_join home ''.ccc-agent'');
          config = or_string (sa_config a) (if system then ''/etc/ccc-agent/config.json''
                     else path_of [home, ''.config'', ''ccc-agent'', ''config.json''])
      in (\<lparr>sp_user = user, sp_home = home, sp_branchfs = resolve_branchfs S fs (sa_branchfs a),
           sp_bwrap = resolve_binary S fs ''bwrap'' (sa_bwrap a) [], sp_state = state, sp_storage = sa_storage a,
           sp_store = sa_store a,
           sp_container = or_string (sa_container a) (or_string (dict_get (sh_environ S) ''CONTAINER_NAME'') [])\<rparr>, config))"

text \<open>The plugins: Codex' configuration, the seed with Claude's settings and registry, and in a system setup the hardening
  library, without which the configuration is still written.\<close>

definition setup_plugins :: "setup_host \<Rightarrow> json_codec \<Rightarrow> setup_args \<Rightarrow> string \<Rightarrow> string \<Rightarrow> string \<Rightarrow> pydict \<Rightarrow> (fs, pydict) eff" where
  "setup_plugins S J a home seed config_file config =
     (let system = (setup_mode a = ''system'')
      in seqE (ensure_codex_plugin_enabled home
           (Some (or_string (sa_codex_config a) (if system then ''/etc/codex/config.toml'' else []))))
        (seqE (materialize_seed J (sh_now S) seed (plugins_dir S))
        (seqE (ensure_claude_seed_plugin_enabled J home
           (Some (or_string (sa_claude_settings a) (if system then CLAUDE_SYSTEM_SETTINGS else []))))
        (bindE (ensure_claude_seed_plugin_registry J home seed) (\<lambda>registry.
           if registry = None then raiseE (RuntimeError ''failed to initialize materialized Claude plugin seed'')
           else if \<not> system then retE config
           else bindE (getE (\<lambda>fs. path_join (dirname (abspath (fs_cwd fs) config_file)) ''libccc-agent-client-hardening.so'')) (\<lambda>path.
             catchE (bindE (build_mcp_client_hardening S path) (\<lambda>lib. retE (dict_set config ''mcp_client_hardening_library'' (JStr lib))))
               (\<lambda>e. if is_os_error e \<or> (case e of RuntimeError _ \<Rightarrow> True | _ \<Rightarrow> False) then retE config else raiseE e)))))))"

definition link_replacing :: "string \<Rightarrow> string \<Rightarrow> (fs, unit) eff" where
  "link_replacing target link =
     catchE (bindE (getE (\<lambda>fs. islink fs link \<or> exists_path fs link)) (\<lambda>present.
         seqE (whenE present (os_unlink link)) (os_symlink target link)))
       (\<lambda>e. if is_os_error e then retE () else raiseE e)"

definition words :: "string \<Rightarrow> string list" where
  "words t = filter (\<lambda>w. w \<noteq> []) (split_on CHR '' '' (map (\<lambda>c. if is_space c then CHR '' '' else c) t))"

definition setup_shims :: "setup_host \<Rightarrow> setup_args \<Rightarrow> (fs, unit) eff" where
  "setup_shims S a =
     (let shims = path_join (sh_assets S) ''shims''
      in seqE (makedirs (sa_link_dir a))
        (seqE (forE (\<lambda>agent. link_replacing (path_join shims ''ccc-agent-shim.sh'') (path_join (sa_link_dir a) agent))
                 (words (sa_shim_agents a)))
        (seqE (let hook = or_string (sa_path_hook a) []
               in whenE (hook \<noteq> []) (seqE (write_shell_path_hook hook (sa_link_dir a)) (retE ())))
          (let router = or_string (sa_ssh_router a) []
           in whenE (router \<noteq> []) (seqE (makedirs (dirname router))
                (link_replacing (path_join shims ''ccc-agent-ssh-shell-router.sh'') router))))))"

definition setup_main :: "setup_host \<Rightarrow> json_codec \<Rightarrow> setup_args \<Rightarrow> (fs, int) eff" where
  "setup_main S J a =
     seqE (readE (\<lambda>fs. listdir fs (path_join (sh_assets S) ''hooks'')))
     (seqE (readE (\<lambda>fs. listdir fs (path_join (sh_assets S) ''shims'')))
     (bindE (getE (\<lambda>fs. setup_paths_of S fs a)) (\<lambda>(p, config_file).
      let mode = setup_mode a;
          seed = or_string (sa_claude_seed a) (default_claude_plugin_seed_dir (sh_environ S) mode (sp_home p))
      in bindE (getE (\<lambda>fs. build_config (sh_environ S) (fs_cwd fs) (plugins_dir S) mode p (Some seed))) (\<lambda>config0.
         let config = (if sa_protect_state a then dict_set config0 ''protect_agent_state'' (JBool True) else config0)
         in bindE (if sa_no_plugins a
                   then retE (dict_set (dict_set config ''agent_plugins'' (JObj [])) ''agent_hook_mode'' (JStr ''disabled''))
                   else setup_plugins S J a (sp_home p) seed config_file config) (\<lambda>config.
            seqE (makedirs (dirname config_file))
            (seqE (write_file config_file (jc_dumps J (JObj config)))
            (seqE (whenE (sa_enable_shims a) (setup_shims S a))
              (if \<not> sa_conda_shims a then retE 0
               else let conda = or_string (sa_conda_prefix a) (or_string (dict_get (sh_environ S) ''CONDA_PREFIX'') [])
                 in if conda = [] then retE 2
                    else seqE (write_conda_shim_hooks conda (sa_link_dir a)) (retE 0)))))))))"

end
