(* ===== verification/SetupFacts.thy ===== *)
theory SetupFacts
  imports SetupMain
begin

text \<open>
  What a setup guarantees: the settings of Claude name the plugin once and lose only what earlier versions of this
  program put there, and the launcher accepts the configuration it generates.
\<close>

section \<open>Claude's settings\<close>

lemma update_same: "AList.update k v (AList.update k v d) = AList.update k v d"
  by (induction d) auto

lemma current_groups_again:
  "current_hook_groups str_of gs = Inr kept \<Longrightarrow> current_hook_groups str_of kept = Inr kept"
  by (induction gs arbitrary: kept) (auto simp: bindR_eq_Inr split: if_splits)

lemma kept_hooks_again: "kept_hooks str_of h = Inr kept \<Longrightarrow> kept_hooks str_of kept = Inr kept"
proof (induction h arbitrary: kept)
  case (Cons ev h)
  obtain event v where ev: "ev = (event, v)" by (cases ev)
  show ?case
  proof (cases v)
    case (JArr groups)
    with Cons.prems obtain gs later where *: "current_hook_groups str_of groups = Inr gs" "kept_hooks str_of h = Inr later"
        "kept = (if gs \<noteq> [] then [(event, JArr gs)] else []) @ later"
      by (auto simp: ev bindR_eq_Inr)
    with Cons.IH [OF *(2)] current_groups_again [OF *(1)] show ?thesis by auto
  qed (use Cons in \<open>auto simp: ev bindR_eq_Inr\<close>)
qed simp

text \<open>A step of the migration reads and writes one key; a second time it finds nothing to do.\<close>

definition settled :: "(pydict \<Rightarrow> pydict result) \<Rightarrow> string \<Rightarrow> bool" where
  "settled f key \<longleftrightarrow>
     (\<forall>s t. f s = Inr t \<longrightarrow> (\<forall>k. k \<noteq> key \<longrightarrow> dict_get t k = dict_get s k) \<and>
       (\<forall>u. dict_get u key = dict_get t key \<longrightarrow> f u = Inr u))"

lemma update_present: "map_of d k = Some v \<Longrightarrow> AList.update k v d = d"
  by (induction d) (auto split: if_splits)

lemma hooks_settled: "settled (without_legacy_hooks str_of) ''hooks''"
proof -
  have "(k \<noteq> ''hooks'' \<longrightarrow> dict_get t k = dict_get s k) \<and>
      (dict_get u ''hooks'' = dict_get t ''hooks'' \<longrightarrow> without_legacy_hooks str_of u = Inr u)"
    if t: "without_legacy_hooks str_of s = Inr t" for s t u k
  proof (cases "get_default s ''hooks'' JNull")
    case (JObj h)
    with t obtain kept where k: "kept_hooks str_of h = Inr kept"
        "t = (if kept \<noteq> [] then dict_set s ''hooks'' (JObj kept) else dict_pop s ''hooks'')"
      by (auto simp: without_legacy_hooks_def bindR_eq_Inr)
    show ?thesis
      using kept_hooks_again [OF k(1)]
      by (cases "kept = []") (auto simp: k(2) without_legacy_hooks_def get_default_def update_present)
  qed (use t in \<open>auto simp: without_legacy_hooks_def get_default_def\<close>)
  then show ?thesis unfolding settled_def by blast
qed

definition no_marketplace :: "json option \<Rightarrow> bool" where
  "no_marketplace v \<longleftrightarrow> (case v of Some (JObj m) \<Rightarrow> \<not> dict_has m CLAUDE_PLUGIN_MARKETPLACE | _ \<Rightarrow> True)"

lemma no_marketplace_kept: "no_marketplace (dict_get u ''extraKnownMarketplaces'') \<Longrightarrow> without_marketplace u = u"
  by (simp add: no_marketplace_def without_marketplace_def get_default_def split: option.splits json.splits)

lemma marketplace_removed: "no_marketplace (dict_get (without_marketplace s) ''extraKnownMarketplaces'')"
proof (cases "no_marketplace (dict_get s ''extraKnownMarketplaces'')")
  case True
  then show ?thesis by (simp add: no_marketplace_kept)
next
  case False
  then obtain m where m: "dict_get s ''extraKnownMarketplaces'' = Some (JObj m)" "dict_has m CLAUDE_PLUGIN_MARKETPLACE"
    by (auto simp: no_marketplace_def split: option.splits json.splits)
  then have w: "without_marketplace s = (let rest = dict_pop m CLAUDE_PLUGIN_MARKETPLACE
      in if rest \<noteq> [] then dict_set s ''extraKnownMarketplaces'' (JObj rest) else dict_pop s ''extraKnownMarketplaces'')"
    by (simp only: without_marketplace_def get_default_def option.case json.case if_True not_False_eq_True)
  show ?thesis
    by (cases "dict_pop m CLAUDE_PLUGIN_MARKETPLACE = []") (simp_all add: w Let_def no_marketplace_def)
qed

lemma marketplace_others: "k \<noteq> ''extraKnownMarketplaces'' \<Longrightarrow> dict_get (without_marketplace s) k = dict_get s k"
  by (simp add: without_marketplace_def Let_def split: json.split)

lemma marketplace_settled: "settled (\<lambda>s. Inr (without_marketplace s)) ''extraKnownMarketplaces''"
  using marketplace_removed by (auto simp: settled_def marketplace_others intro: no_marketplace_kept)

lemma enabled_settled: "settled (\<lambda>s. Inr (with_enabled_plugin s)) ''enabledPlugins''"
proof -
  have "with_enabled_plugin u = u" if "dict_get u ''enabledPlugins'' = dict_get (with_enabled_plugin s) ''enabledPlugins''" for s u
  proof -
    from that obtain d where "dict_get u ''enabledPlugins'' = Some (JObj (dict_set d CLAUDE_PLUGIN_ID (JBool True)))"
      by (simp add: with_enabled_plugin_def)
    then show ?thesis by (simp add: with_enabled_plugin_def get_default_def update_same update_present)
  qed
  then show ?thesis by (simp add: settled_def with_enabled_plugin_def)
qed

text \<open>The migration of Claude's settings enables the plugin, changes no other key, and does nothing the second time.\<close>

lemma claude_settings_migrated:
  assumes "migrate_claude_settings str_of (JObj old) = Inr s"
  shows "(\<exists>enabled. dict_get s ''enabledPlugins'' = Some (JObj enabled) \<and> dict_get enabled CLAUDE_PLUGIN_ID = Some (JBool True))"
    "k \<notin> {''enabledPlugins'', ''hooks'', ''extraKnownMarketplaces''} \<Longrightarrow> dict_get s k = dict_get old k"
    "migrate_claude_settings str_of (JObj s) = Inr s"
proof -
  from assms obtain t where t: "without_legacy_hooks str_of (without_marketplace old) = Inr t" "s = with_enabled_plugin t"
    by (cases "old = []") (auto simp: migrate_claude_settings_def bindR_eq_Inr)
  show e: "\<exists>enabled. dict_get s ''enabledPlugins'' = Some (JObj enabled) \<and> dict_get enabled CLAUDE_PLUGIN_ID = Some (JBool True)"
    by (simp add: t(2) with_enabled_plugin_def)
  note h = hooks_settled [unfolded settled_def, rule_format, OF t(1)]
  note m = marketplace_settled [unfolded settled_def, rule_format, OF refl]
  note p = enabled_settled [unfolded settled_def, rule_format, OF refl]
  show "dict_get s k = dict_get old k" if "k \<notin> {''enabledPlugins'', ''hooks'', ''extraKnownMarketplaces''}"
    using that h [THEN conjunct1, rule_format, of k] m [THEN conjunct1, rule_format, of k] p [THEN conjunct1, rule_format, of k]
    by (simp add: t(2))
  have "without_marketplace s = s"
    using m [THEN conjunct2, rule_format, of s] h [THEN conjunct1] p [THEN conjunct1] by (simp add: t(2))
  moreover have "without_legacy_hooks str_of s = Inr s"
    using h [THEN conjunct2, rule_format, of s] p [THEN conjunct1] by (simp add: t(2))
  moreover have "with_enabled_plugin s = s" using p [THEN conjunct2, rule_format, of s] by (simp add: t(2))
  ultimately show "migrate_claude_settings str_of (JObj s) = Inr s" by (auto simp: migrate_claude_settings_def)
qed

section \<open>The configuration\<close>

lemma for_home_accepts: "\<exists>am. for_home user sub ''/storage/user'' ''/home'' = Inr am"
proof -
  have "isabs (path_join a b)" if "isabs a" for a b using that by (auto simp: path_join_def isabs_def)
  then have "isabs (path_join ''/home'' user)" "isabs (if sub = [] then ''/storage/user'' else path_join ''/storage/user'' sub)"
    by (simp_all add: isabs_def)
  then show ?thesis by (simp add: for_home_def make_alias_map_def normalize_abs Let_def)
qed

definition expected_root :: "string \<Rightarrow> setup_paths \<Rightarrow> root_spec" where
  "expected_root mode p =
     (if mode = ''system''
      then \<lparr>rs_name = ''storage'', rs_base = sp_storage p, rs_store = path_join (sp_store p) ''storage'',
             rs_visible = sp_storage p, rs_home_subdir = Some (home_under_storage p), rs_mount = None,
             rs_hide_paths = system_hide_paths p\<rparr>
      else \<lparr>rs_name = ''home'', rs_base = sp_home p, rs_store = path_join (path_join (sp_state p) ''stores'') ''home'',
             rs_visible = sp_home p, rs_home_subdir = Some [], rs_mount = None,
             rs_hide_paths = SECRETS @ [''.ccc-agent'']\<rparr>)"

lemma root_accepted: "root_spec_of (if mode = ''system'' then system_root p else user_root p) = Inr (expected_root mode p)"
  by (simp add: root_spec_of_def expected_root_def system_root_def user_root_def get_item_def get_default_def opt_string_def
      strings_at_def)

text \<open>The launcher accepts the generated configuration: it describes one protected root, the storage or the home.\<close>

lemma setup_config_accepted:
  "\<exists>am. build_runtime home login (build_config e cwd src mode p seed) = Inr
     \<lparr>rt_state_dir = or_string (Some (sp_state p)) (path_join home ''.ccc-agent''), rt_fake_backend = False,
      rt_branchfs = (if sp_branchfs p = [] then None else Some (sp_branchfs p)), rt_timeout = JInt 30,
      rt_user = or_string (Some (sp_user p)) login, rt_aliases = am, rt_roots = [expected_root mode p]\<rparr>"
proof -
  let ?c = "build_config e cwd src mode p seed"
  let ?user = "or_string (Some (sp_user p)) login"
  let ?sub = "if mode = ''system'' then (if sp_container p \<noteq> [] then sp_container p else sp_user p) else []"
  obtain am where "for_home ?user ?sub ''/storage/user'' ''/home'' = Inr am" using for_home_accepts by blast
  moreover have "get_default ?c ''state_dir'' JNull = JStr (sp_state p)" "get_default ?c ''branchfs_bin'' JNull = JStr (sp_branchfs p)"
      "get_default ?c ''user'' JNull = JStr (sp_user p)" "get_default ?c ''home_subdir'' (JStr []) = JStr ?sub"
      "get_default ?c ''roots'' (JArr []) = JArr [if mode = ''system'' then system_root p else user_root p]"
      "get_default ?c ''backend'' (JStr ''branchfs'') = JStr ''branchfs''"
      "get_default ?c ''branchfs_timeout_seconds'' (JInt 30) = JInt 30"
    by (simp_all add: build_config_def get_default_def Let_def)
  ultimately show ?thesis
    by (simp add: build_runtime_def opt_string_def root_accepted Let_def)
qed

end
