(* ===== verification/Spec2Isabelle.thy ===== *)
theory Spec2Isabelle
  imports Prelude PosixPath Paths Fnmatch Policy Contracts Session Effects FileSystem FsFacts Commits Apply Workspace DeltaRouting
    Status Backend BranchfsCli World RouteManager Artifacts
    Finalize FsTree FinalizeFacts TextMerge Ctl CtlView CtlFacts
    TurnScopes TurnWorkspaces TurnSessions Turn TurnReview TurnFacts TurnAuth
    Procs Control ControlServe ControlFacts Mcp McpFacts Codex CodexFacts Pid1 Pid1Facts BwrapRoute
    Launch LaunchFacts Sandbox SandboxFacts RunSession RunFacts
    Review ReviewFacts TurnCli TurnCliFacts CliArgs CliMain CliFacts Completion
    Hermes HermesFacts SetupText SetupTextFacts Setup SetupMain SetupFacts
begin

text \<open>
  A verification development of \<open>ccc-agent\<close> (\<open>src/ccc_agent\<close>), the supervisor that runs a coding agent in
  a sandbox over branches of protected directories and commits, keeps or discards what it changed.

  \<^bold>\<open>The program.\<close>  A launch (\<open>cli.py\<close>, \<open>runner.py\<close>) creates a session (\<open>session.py\<close>), mounts a branch of every
  protected root (\<open>branchfs.py\<close>), and starts the agent under bubblewrap with a control socket (\<open>control.py\<close>)
  and an MCP server (\<open>mcp.py\<close>).  While the agent runs, its hooks and the MCP client ask over the socket; the
  turn controller (\<open>turn.py\<close>) copies the changes that are in scope to the base and asks for the others.
  Workspace directories a client reports are admitted against the protected roots (\<open>workspace.py\<close>), a Codex app
  server is observed for them (\<open>codex_workspace.py\<close>, \<open>adaptive_pid1.py\<close>), and a logical session may get nested
  branches of its own, a delta route (\<open>delta_routing.py\<close>, \<open>route_manager.py\<close>, \<open>bwrap_route.py\<close>).  At its exit the
  session is finalised (\<open>runner.py\<close>): status, preflight, policy (\<open>policy.py\<close>, \<open>paths.py\<close>), artifacts
  (\<open>artifacts.py\<close>), and a selective apply, a discard or a branch kept for review (\<open>commit_failures.py\<close>,
  \<open>previous_commits.py\<close>).  The operator works on kept sessions with \<open>ctl.py\<close> and the review of \<open>cli.py\<close>.

  \<^bold>\<open>The theories.\<close>  Facts are in the theory of their definitions or in the one whose name adds \<open>Facts\<close>.
  \<^item> \<open>Prelude\<close>: exceptions and results, dictionaries, strings, JSON values; \<open>PosixPath\<close>, \<open>Fnmatch\<close>: the functions
    of \<open>posixpath\<close> and \<open>fnmatch\<close> the program calls; \<open>Effects\<close>: operations over a state, \<open>wp\<close> and \<open>keeps\<close>;
    \<open>FileSystem\<close>, \<open>FsFacts\<close>, \<open>FsTree\<close>: the file system with links, descriptors and refusals of the kernel.
  \<^item> \<open>Paths\<close> (\<open>paths.py\<close>), \<open>Policy\<close> (\<open>policy.py\<close>), \<open>Session\<close> (\<open>session.py\<close>), \<open>Workspace\<close> (\<open>workspace.py\<close>),
    \<open>Artifacts\<close> (\<open>artifacts.py\<close>), \<open>Commits\<close> (\<open>commit_failures.py\<close>, \<open>previous_commits.py\<close>), \<open>DeltaRouting\<close>
    (\<open>delta_routing.py\<close>), \<open>RouteManager\<close> (\<open>route_manager.py\<close>), \<open>BwrapRoute\<close> (\<open>bwrap_route.py\<close>).
  \<^item> \<open>Status\<close>, \<open>Backend\<close>, \<open>BranchfsCli\<close> (\<open>branchfs.py\<close>): the status of a branch, the interface of a backend, the
    in-process one and the adapter around the binary; \<open>World\<close>: the state the supervisor's operations share.
  \<^item> \<open>Apply\<close>, \<open>Finalize\<close>, \<open>Launch\<close>, \<open>Sandbox\<close>, \<open>RunSession\<close> with \<open>FinalizeFacts\<close>, \<open>LaunchFacts\<close>,
    \<open>SandboxFacts\<close>, \<open>RunFacts\<close> (\<open>runner.py\<close>): writing one change, the end of a session, the configuration, the
    sandbox command with its environment, running and resuming.
  \<^item> \<open>TextMerge\<close>, \<open>Ctl\<close>, \<open>CtlView\<close>, \<open>CtlFacts\<close> (\<open>ctl.py\<close>); \<open>TurnScopes\<close>, \<open>TurnWorkspaces\<close>, \<open>TurnSessions\<close>, \<open>Turn\<close>,
    \<open>TurnReview\<close>, \<open>TurnFacts\<close>, \<open>TurnAuth\<close> (\<open>turn.py\<close>).
  \<^item> \<open>Procs\<close>, \<open>Control\<close>, \<open>ControlServe\<close>, \<open>ControlFacts\<close> (\<open>control.py\<close>, server), \<open>Mcp\<close>, \<open>McpFacts\<close> (\<open>mcp.py\<close> and its
    client), \<open>Codex\<close>, \<open>CodexFacts\<close> (\<open>codex_workspace.py\<close>), \<open>Pid1\<close>, \<open>Pid1Facts\<close> (\<open>adaptive_pid1.py\<close>).
  \<^item> \<open>Review\<close>, \<open>ReviewFacts\<close>, \<open>TurnCli\<close>, \<open>TurnCliFacts\<close>, \<open>CliArgs\<close>, \<open>CliMain\<close>, \<open>CliFacts\<close>, \<open>Completion\<close>
    (\<open>cli.py\<close>): the review at the terminal, the hook commands, the command line, the commands and their exit
    status, completion.
  \<^item> \<open>Hermes\<close>, \<open>HermesFacts\<close> (\<open>assets/plugins/hermes-ccc-containment\<close>): the plugin of the Hermes agent.
  \<^item> \<open>SetupText\<close>, \<open>SetupTextFacts\<close>, \<open>Setup\<close>, \<open>SetupMain\<close>, \<open>SetupFacts\<close> (\<open>setup.py\<close>, \<open>claude_plugin.py\<close>): the configuration of
    Codex, the settings, the registry and the seed of Claude, the generated configuration and the command.

  \<^bold>\<open>State and operations.\<close>  A dataclass is a record, a \<open>dict\<close> an association list in insertion order, a
  \<open>str\<close> a list of characters, a JSON document a value of type \<open>json\<close>.  An exception is \<open>Inl\<close>, a value \<open>Inr\<close>.
  An operation of type \<open>('s, 'a) eff\<close> takes a state and returns a result with the new state; an
  exception keeps the changes made before it, as in Python.  The state is the file system alone (\<open>fs\<close>), or the
  \<open>world\<close>: the file system, the backend's state, the live session, the session store and the live
  routes.  The turn controller, the control server, the MCP server and the monitor of PID 1 have states of
  their own.  A backend is a record of operations over any state, so the supervisor's code is modelled once for all
  of them.

  \<^bold>\<open>The lemmas.\<close>  The policy theories show what \<open>evaluate\<close> decides.  The file system theories show that every
  operation changes only what its path resolves to; \<open>Apply\<close> and \<open>FinalizeFacts\<close> carry that to the commit
  (confinement, effect, clean evidence, the state a session ends in).  \<open>RunFacts\<close> shows the same of a
  whole run for every agent; \<open>SandboxFacts\<close> what the sandbox may write and inherits.  \<open>TurnFacts\<close>
  and \<open>TurnAuth\<close> show what a turn commits without asking, what an approval covers and that authority never
  goes back to an older generation.  \<open>ControlFacts\<close> and \<open>McpFacts\<close> show who may ask for something destructive
  and that a human confirmed it.  \<open>CodexFacts\<close>, \<open>Pid1Facts\<close> and \<open>BwrapRoute\<close> are about the
  processes inside the sandbox, \<open>CtlFacts\<close>, \<open>TextMerge\<close>, \<open>ReviewFacts\<close>, \<open>TurnCliFacts\<close> and \<open>CliFacts\<close> about the
  operator's and the hooks' commands.  \<open>HermesFacts\<close> records what a plugin sends; the setup theories show what is left of
  the files of other programs.

  \<^bold>\<open>Interfaces.\<close>  \<open>lifecycle\<close> (\<open>Contracts\<close>): an object moves along a table of edges; interpreted on the session
  (\<open>sess\<close>) and the delta route (\<open>rts\<close>).  \<open>keyed_store\<close> (\<open>Contracts\<close>): records are saved under their key and read back;
  interpreted on the session store (\<open>sess_store\<close>) and the route table (\<open>rtable\<close>).  \<open>nested_backend\<close>
  (\<open>Backend\<close>): which operations of a backend change the file system, and the roots and routes that use it;
  interpreted on \<open>FakeBranchFS\<close> (\<open>fake\<close>) and the adapter (\<open>cli\<close>).  \<open>mcp_invariant\<close> (\<open>McpFacts\<close>): how one event of
  the MCP server may change its trace; interpreted for the confirmation of destructive requests (\<open>confirmed\<close>), the
  generations of the roots (\<open>generations\<close>) and the lines still to be read (\<open>lines\<close>).

  \<^bold>\<open>Arguments of the model.\<close>  Time, random identifiers, SHA-256, the JSON codec, the table of processes, what the
  machine is asked (users, groups, sockets, environment), the outcome of running the \<open>branchfs\<close> binary, the
  agent's behaviour, the answers of the control socket and what the operator types.  Every
  property holds for all of them; where the code relies on one, that is a named hypothesis.

  \<^bold>\<open>Conventions.\<close>  A lock makes the operation it guards one step; requests and turns interleave as
  whole operations.  One operation reads one time and one table of processes.  A JSON value used at a wrong type
  raises \<open>TypeError\<close>, \<open>IndexError\<close> is a \<open>KeyError\<close>, \<open>ResumeError\<close> and \<open>SystemExit\<close> are \<open>RuntimeError\<close>.  JSON
  numbers are integers and configured seconds whole milliseconds.  Messages of exceptions and warnings and texts of
  events are shortened where nothing reads them.  File modes are not kept, a character is a code point below 256.

  \<^bold>\<open>Bounds and fuel.\<close>
  \<^item> The walk of a path follows 40 links, the kernel's own limit; nested resolution is bounded by the number of
    nodes of the file system, and a walk of a directory by the depth of its tree (\<open>tree_depth\<close>), which is
    computed from the file system itself.
  \<^item> Pruning empty parents has the length of the path as fuel: every round removes a component.  The search for
    a visible ancestor of a route has two rounds more than there are records; a longer chain would visit a record twice.
  \<^item> The polls of the daemon's socket are bounded by \<open>cl_polls\<close>, an argument that stands for the timeout; the ancestry
    of a process by the 64 steps of the code; the retries of an admission by the code's own count.
  \<^item> The loop of the MCP server has one round more than there are lines (\<open>mcp_loop_ends\<close> shows that it ends).
  \<^item> The copy of a directory tree has fuel for the depth of the tree times the links a path may follow (\<open>copytree\<close>).
    The removal of managed blocks from a text ends since every round shortens the text.
  \<^item> The selector of the review reads a finite list of keys; a review whose keys run out is \<open>Waiting\<close>, which
    stands for a loop that has not returned.  The walk to the root of a secured path may not end
    for a path with two leading slashes: it is a partial function, and the lemma \<open>secure_walk_double_slash\<close> shows it.

  \<^bold>\<open>Not modelled.\<close>  The argument parser, banners, the pager, terminal modes, and the commands that only print
  (\<open>show\<close>, \<open>status\<close>, \<open>diff\<close>): no state behind them.  The adaptive supervisor's fork and relay, sockets, threads,
  descriptors, signals, process hardening and the start of processes: the kernel's behaviour, whose results are
  arguments.  The search for the Codex binary and its bwrap candidates.  The plumbing of subprocesses
  (\<open>branchfs_runtime.py\<close>), the version, the wheel build of the top-level \<open>setup.py\<close>, and the diagnostic scripts, which
  probe features of the kernel.
\<close>

end
